(* ===== verification/Attic_Prelude.thy ===== *)
theory Attic_Prelude
  imports Main "HOL-Library.Word" "HOL-Library.List_Lexorder" "HOL-Library.Char_ord"
begin

section \<open>Shared vocabulary of the model\<close>

text \<open>
  What every component uses: Go instants and durations, the fixed widths of Go's
  integers, \<open>context.Context\<close> as the components see it, insertion into a list that is
  ordered by a Go \<open>less\<close> function, and the few facts on lists and maps that several
  components share.

  An instant (\<open>time.Time\<close>) is the number of nanoseconds since the Unix epoch. The
  conversion \<open>t.UTC()\<close> changes the presentation of an instant and not the instant, so
  it leaves no trace in the model. The zero \<open>time.Time\<close> is the first instant of
  year 1. A duration is a signed 64-bit number of nanoseconds.
\<close>

named_theorems store_simps \<open>how the fields of a store change under its operations\<close>
named_theorems lease_guards \<open>what a successful lease operation implies\<close>

type_synonym time = int
type_synonym duration = int
type_synonym uint64 = "64 word"

definition zero_time :: time where
  "zero_time = - 62135596800000000000"

definition min_int64 :: int where "min_int64 = - (2 ^ 63)"
definition max_int64 :: int where "max_int64 = 2 ^ 63 - 1"

text \<open>Signed 64-bit arithmetic wraps around.\<close>

definition wrap64 :: "int \<Rightarrow> int" where
  "wrap64 n = (n + 2 ^ 63) mod 2 ^ 64 - 2 ^ 63"

lemma wrap64_id: "min_int64 \<le> n \<Longrightarrow> n \<le> max_int64 \<Longrightarrow> wrap64 n = n"
  by (simp add: wrap64_def min_int64_def max_int64_def)

lemma wrap64_range: "min_int64 \<le> wrap64 n \<and> wrap64 n \<le> max_int64"
proof -
  have "0 \<le> (n + 2 ^ 63) mod 2 ^ 64" and "(n + 2 ^ 63) mod 2 ^ 64 < (2::int) ^ 64"
    by simp_all
  then show ?thesis by (simp add: wrap64_def min_int64_def max_int64_def)
qed

text \<open>\<open>t.Sub(u)\<close> saturates at the bounds of a duration; \<open>t.IsZero()\<close> is equality with
  the zero instant.\<close>

definition time_Sub :: "time \<Rightarrow> time \<Rightarrow> duration" where
  "time_Sub t u = max min_int64 (min max_int64 (t - u))"

definition time_IsZero :: "time \<Rightarrow> bool" where
  "time_IsZero t \<longleftrightarrow> t = zero_time"

lemma time_IsZero_zero [simp]: "time_IsZero zero_time"
  by (simp add: time_IsZero_def)

lemma time_Sub_ge:
  "d \<le> max_int64 \<Longrightarrow> min_int64 < d \<Longrightarrow> d \<le> time_Sub t u \<longleftrightarrow> d \<le> t - u"
  by (auto simp: time_Sub_def)

definition Millisecond :: duration where "Millisecond = 1000000"
definition Second :: duration where "Second = 1000 * Millisecond"
definition Minute :: duration where "Minute = 60 * Second"
definition Hour :: duration where "Hour = 60 * Minute"

lemmas duration_defs = Millisecond_def Second_def Minute_def Hour_def

section \<open>Sorting by a Go \<open>less\<close> function\<close>

text \<open>
  \<open>sort.Slice(xs, less)\<close> and \<open>sort.SliceStable\<close> order a slice by a strict comparison.
  Insertion keeps equal elements in their original order, so the model is stable; where
  the code calls the unstable \<open>sort.Slice\<close> the keys are distinct and the result is the
  same.
\<close>

fun insert_less :: "('a \<Rightarrow> 'a \<Rightarrow> bool) \<Rightarrow> 'a \<Rightarrow> 'a list \<Rightarrow> 'a list" where
  "insert_less lt x [] = [x]"
| "insert_less lt x (y # ys) =
     (if lt y x then y # insert_less lt x ys else x # y # ys)"

fun sort_slice :: "('a \<Rightarrow> 'a \<Rightarrow> bool) \<Rightarrow> 'a list \<Rightarrow> 'a list" where
  "sort_slice lt [] = []"
| "sort_slice lt (x # xs) = insert_less lt x (sort_slice lt xs)"

lemma set_insert_less [simp]: "set (insert_less lt x xs) = insert x (set xs)"
  by (induction xs) auto

lemma set_sort_slice [simp]: "set (sort_slice lt xs) = set xs"
  by (induction xs) auto

lemma length_insert_less [simp]: "length (insert_less lt x xs) = Suc (length xs)"
  by (induction xs) auto

lemma length_sort_slice [simp]: "length (sort_slice lt xs) = length xs"
  by (induction xs) auto

lemma distinct_insert_less:
  "distinct (insert_less lt x xs) \<longleftrightarrow> x \<notin> set xs \<and> distinct xs"
  by (induction xs) auto

lemma distinct_sort_slice [simp]: "distinct (sort_slice lt xs) = distinct xs"
  by (induction xs) (auto simp: distinct_insert_less)

text \<open>Ordered: no element is \<open>lt\<close> than one before it.\<close>

definition ordered_by :: "('a \<Rightarrow> 'a \<Rightarrow> bool) \<Rightarrow> 'a list \<Rightarrow> bool" where
  "ordered_by lt xs \<longleftrightarrow> sorted_wrt (\<lambda>x y. \<not> lt y x) xs"

locale go_less =
  fixes lt :: "'a \<Rightarrow> 'a \<Rightarrow> bool"
  assumes asym: "lt x y \<Longrightarrow> \<not> lt y x"
    and weak_trans: "\<not> lt y x \<Longrightarrow> \<not> lt z y \<Longrightarrow> \<not> lt z x"
begin

lemma ordered_insert: "ordered_by lt xs \<Longrightarrow> ordered_by lt (insert_less lt x xs)"
proof (induction xs)
  case Nil
  then show ?case by (simp add: ordered_by_def)
next
  case (Cons y ys)
  show ?case
  proof (cases "lt y x")
    case True
    with Cons show ?thesis by (auto simp: ordered_by_def dest: asym)
  next
    case False
    with Cons.prems show ?thesis using weak_trans [OF False] by (auto simp: ordered_by_def)
  qed
qed

lemma ordered_sort: "ordered_by lt (sort_slice lt xs)"
  by (induction xs) (simp add: ordered_by_def, simp add: ordered_insert)

end

section \<open>Ordering two sorted lists\<close>

text \<open>A strictly ordered list is determined by its set of elements.\<close>

lemma strictly_sorted_unique:
  assumes irrefl: "\<And>x. \<not> lt x x"
    and trans: "\<And>x y z. lt x y \<Longrightarrow> lt y z \<Longrightarrow> lt x z"
    and "sorted_wrt lt xs" and "sorted_wrt lt ys" and "set xs = set ys"
  shows "xs = ys"
  using assms(3-5)
proof (induction xs arbitrary: ys)
  case Nil
  then show ?case by simp
next
  case (Cons x xs)
  obtain y ys' where ys: "ys = y # ys'"
    using Cons.prems(3) by (cases ys) auto
  have fx: "\<forall>z \<in> set xs. lt x z" and fy: "\<forall>z \<in> set ys'. lt y z"
    using Cons.prems ys by auto
  have xy: "x = y"
  proof (rule ccontr)
    assume "x \<noteq> y"
    then have "y \<in> set xs" and "x \<in> set ys'"
      using Cons.prems(3) ys by auto
    then have "lt x y" and "lt y x" using fx fy by auto
    then show False using irrefl trans by blast
  qed
  have "x \<notin> set xs" and "y \<notin> set ys'" using fx fy irrefl by auto
  then have "set xs = set ys'" using Cons.prems(3) ys xy by auto
  then have "xs = ys'" using Cons.IH Cons.prems(1,2) ys by auto
  with xy ys show ?case by simp
qed

text \<open>Filtering with a predicate that a sorted list meets first drops a prefix.\<close>

lemma sorted_wrt_filter_split:
  assumes "sorted_wrt R (xs @ x # ys)" and "\<And>y. R x y \<Longrightarrow> P y"
    and "\<And>y. R y x \<Longrightarrow> \<not> P y" and "\<not> P x"
  shows "filter P (xs @ x # ys) = ys"
proof -
  have "filter P xs = []" using assms(1,3) by (auto simp: sorted_wrt_append filter_empty_conv)
  moreover have "filter P ys = ys"
    using assms(1,2) by (auto simp: sorted_wrt_append intro!: filter_True)
  ultimately show ?thesis using assms(4) by simp
qed

end
