(* ===== verification/Go_Strings.thy ===== *)
theory Go_Strings
  imports Attic_Prelude
begin

section \<open>Go strings\<close>

text \<open>
  A Go string is a sequence of bytes, and so is the model's \<open>string\<close>: a \<open>char\<close> is a
  byte, \<open>length\<close> is \<open>len\<close>, and the order of strings is the lexicographic order of
  their bytes. Where the code ranges over runes the bytes are decoded as UTF-8 the way
  \<open>utf8.DecodeRune\<close> does it: an invalid byte is the rune U+FFFD of width 1.

  The operations of the packages \<open>strings\<close>, \<open>strconv\<close>, \<open>unicode\<close>, \<open>encoding/hex\<close>
  and \<open>encoding/base64\<close> that the source uses follow. The upper to lower case table of
  \<open>unicode.ToLower\<close> for runes outside ASCII is an argument (\<open>ulow\<close>) of the functions
  that use it: no property depends on its contents.
\<close>

type_synonym rune = nat

abbreviation byte :: "char \<Rightarrow> nat" where
  "byte c \<equiv> of_char c"

definition rune_error :: rune where "rune_error = 65533"

fun continuation :: "nat \<Rightarrow> bool" where
  "continuation b \<longleftrightarrow> 128 \<le> b \<and> b \<le> 191"

text \<open>\<open>utf8.DecodeRune\<close> on a non-empty byte sequence: the rune and its width.\<close>

definition second_byte_ok :: "nat \<Rightarrow> nat \<Rightarrow> bool" where
  "second_byte_ok b0 b1 \<longleftrightarrow>
     (if b0 = 224 then 160 \<le> b1 \<and> b1 \<le> 191
      else if b0 = 237 then 128 \<le> b1 \<and> b1 \<le> 159
      else if b0 = 240 then 144 \<le> b1 \<and> b1 \<le> 191
      else if b0 = 244 then 128 \<le> b1 \<and> b1 \<le> 143
      else continuation b1)"

fun decode_rune :: "nat list \<Rightarrow> rune \<times> nat" where
  "decode_rune [] = (rune_error, 0)"
| "decode_rune (b0 # bs) =
     (if b0 < 128 then (b0, 1)
      else if 194 \<le> b0 \<and> b0 \<le> 223 then
        (case bs of b1 # _ \<Rightarrow>
           if continuation b1 then ((b0 - 192) * 64 + (b1 - 128), 2) else (rune_error, 1)
         | _ \<Rightarrow> (rune_error, 1))
      else if 224 \<le> b0 \<and> b0 \<le> 239 then
        (case bs of b1 # b2 # _ \<Rightarrow>
           if second_byte_ok b0 b1 \<and> continuation b2
           then ((b0 - 224) * 4096 + (b1 - 128) * 64 + (b2 - 128), 3) else (rune_error, 1)
         | _ \<Rightarrow> (rune_error, 1))
      else if 240 \<le> b0 \<and> b0 \<le> 244 then
        (case bs of b1 # b2 # b3 # _ \<Rightarrow>
           if second_byte_ok b0 b1 \<and> continuation b2 \<and> continuation b3
           then ((b0 - 240) * 262144 + (b1 - 128) * 4096 + (b2 - 128) * 64 + (b3 - 128), 4)
           else (rune_error, 1)
         | _ \<Rightarrow> (rune_error, 1))
      else (rune_error, 1))"

text \<open>A string cut into its runes, each with the bytes it was read from.\<close>

function runes :: "string \<Rightarrow> (rune \<times> string) list" where
  "runes [] = []"
| "runes (c # cs) =
     (let (r, w) = decode_rune (map byte (c # take 3 cs))
      in (r, c # take (w - 1) cs) # runes (drop (w - 1) cs))"
  by pat_completeness auto
termination
  by (relation "measure length") auto

declare decode_rune.simps [simp del]

lemma decode_rune_ascii [simp]: "b < 128 \<Longrightarrow> decode_rune (b # bs) = (b, 1)"
  by (simp add: decode_rune.simps)

lemma runes_ascii [simp]:
  "byte c < 128 \<Longrightarrow> runes (c # cs) = (byte c, [c]) # runes cs"
  by simp

lemma runes_bytes: "concat (map snd (runes s)) = s"
proof (induction s rule: runes.induct)
  case 1
  then show ?case by simp
next
  case (2 c cs)
  obtain r w where rw: "decode_rune (map byte (c # take 3 cs)) = (r, w)" by fastforce
  have "concat (map snd (runes (drop (w - 1) cs))) = drop (w - 1) cs"
    using "2.IH" [OF rw [symmetric] refl] .
  with rw show ?case by simp
qed

definition string_runes :: "string \<Rightarrow> rune list" where
  "string_runes s = map fst (runes s)"

definition RuneCountInString :: "string \<Rightarrow> nat" where
  "RuneCountInString s = length (runes s)"

definition is_ascii :: "string \<Rightarrow> bool" where
  "is_ascii s \<longleftrightarrow> (\<forall>c \<in> set s. byte c < 128)"

lemma runes_is_ascii: "is_ascii s \<Longrightarrow> runes s = map (\<lambda>c. (byte c, [c])) s"
  by (induction s) (auto simp: is_ascii_def)

lemma RuneCountInString_ascii: "is_ascii s \<Longrightarrow> RuneCountInString s = length s"
  by (simp add: RuneCountInString_def runes_is_ascii)

text \<open>\<open>string(runes)\<close>: runes encoded as UTF-8; surrogates and values past U+10FFFF are
  encoded as U+FFFD.\<close>

definition encode_rune :: "rune \<Rightarrow> string" where
  "encode_rune q =
     (let r = (if (55296 \<le> q \<and> q \<le> 57343) \<or> 1114111 < q then rune_error else q)
      in map char_of
          (if r < 128 then [r]
           else if r < 2048 then [192 + r div 64, 128 + r mod 64]
           else if r < 65536 then [224 + r div 4096, 128 + r div 64 mod 64, 128 + r mod 64]
           else [240 + r div 262144, 128 + r div 4096 mod 64, 128 + r div 64 mod 64,
                 128 + r mod 64]))"

definition string_of_runes :: "rune list \<Rightarrow> string" where
  "string_of_runes rs = concat (map encode_rune rs)"

subsection \<open>Classes of runes\<close>

definition IsSpace :: "rune \<Rightarrow> bool" where
  "IsSpace r \<longleftrightarrow> r \<in> set [9, 10, 11, 12, 13, 32, 133, 160, 5760, 8232, 8233, 8239, 8287, 12288]
                 \<or> (8192 \<le> r \<and> r \<le> 8202)"

definition IsControl :: "rune \<Rightarrow> bool" where
  "IsControl r \<longleftrightarrow> r < 32 \<or> (127 \<le> r \<and> r < 160)"

text \<open>Unicode category Cf (format characters) of Unicode 15.\<close>

definition IsFormat :: "rune \<Rightarrow> bool" where
  "IsFormat r \<longleftrightarrow>
     r \<in> set [173, 1564, 1757, 1807, 2274, 6158, 65279, 69821, 69837, 917505]
     \<or> (\<exists>(lo, hi) \<in> set [(1536, 1541), (2192, 2193), (8203, 8207), (8234, 8238), (8288, 8292),
          (8294, 8303), (65529, 65531), (78896, 78911), (113824, 113827), (119155, 119162),
          (917536, 917631)]. lo \<le> r \<and> r \<le> hi)"

subsection \<open>Package \<open>strings\<close>\<close>

definition trim_pieces :: "(rune \<Rightarrow> bool) \<Rightarrow> (rune \<times> string) list \<Rightarrow> (rune \<times> string) list" where
  "trim_pieces p ps = rev (dropWhile (p \<circ> fst) (rev (dropWhile (p \<circ> fst) ps)))"

definition TrimSpace :: "string \<Rightarrow> string" where
  "TrimSpace s = concat (map snd (trim_pieces IsSpace (runes s)))"

definition HasPrefix :: "string \<Rightarrow> string \<Rightarrow> bool" where
  "HasPrefix s p \<longleftrightarrow> take (length p) s = p"

definition HasSuffix :: "string \<Rightarrow> string \<Rightarrow> bool" where
  "HasSuffix s p \<longleftrightarrow> length p \<le> length s \<and> drop (length s - length p) s = p"

definition TrimSuffix :: "string \<Rightarrow> string \<Rightarrow> string" where
  "TrimSuffix s p = (if HasSuffix s p then take (length s - length p) s else s)"

definition TrimPrefix :: "string \<Rightarrow> string \<Rightarrow> string" where
  "TrimPrefix s p = (if HasPrefix s p then drop (length p) s else s)"

fun Contains :: "string \<Rightarrow> string \<Rightarrow> bool" where
  "Contains [] p \<longleftrightarrow> p = []"
| "Contains (c # cs) p \<longleftrightarrow> HasPrefix (c # cs) p \<or> Contains cs p"

definition ContainsAny :: "string \<Rightarrow> string \<Rightarrow> bool" where
  "ContainsAny s chars \<longleftrightarrow> (\<exists>c \<in> set s. c \<in> set chars)"

text \<open>\<open>strings.Cut(s, sep)\<close> at a one-byte separator.\<close>

fun cut_byte :: "char \<Rightarrow> string \<Rightarrow> (string \<times> string) option" where
  "cut_byte sep [] = None"
| "cut_byte sep (c # cs) =
     (if c = sep then Some ([], cs)
      else map_option (\<lambda>(a, b). (c # a, b)) (cut_byte sep cs))"

text \<open>\<open>strings.SplitN(s, sep, 2)\<close> and \<open>strings.Split(s, sep)\<close> for a one-byte separator.\<close>

definition SplitN2 :: "string \<Rightarrow> char \<Rightarrow> string list" where
  "SplitN2 s sep = (case cut_byte sep s of None \<Rightarrow> [s] | Some (a, b) \<Rightarrow> [a, b])"

fun Split :: "string \<Rightarrow> char \<Rightarrow> string list" where
  "Split [] sep = [[]]"
| "Split (c # cs) sep =
     (if c = sep then [] # Split cs sep
      else (case Split cs sep of [] \<Rightarrow> [[c]] | w # ws \<Rightarrow> (c # w) # ws))"

text \<open>\<open>strings.Fields\<close>: the maximal runs of runes that are not spaces.\<close>

fun fields_pieces :: "(rune \<times> string) list \<Rightarrow> string \<Rightarrow> string list" where
  "fields_pieces [] acc = (if acc = [] then [] else [acc])"
| "fields_pieces ((r, b) # ps) acc =
     (if IsSpace r then (if acc = [] then [] else [acc]) @ fields_pieces ps []
      else fields_pieces ps (acc @ b))"

definition Fields :: "string \<Rightarrow> string list" where
  "Fields s = fields_pieces (runes s) []"

fun Join :: "string list \<Rightarrow> string \<Rightarrow> string" where
  "Join [] sep = []"
| "Join [w] sep = w"
| "Join (w # v # ws) sep = w @ sep @ Join (v # ws) sep"

text \<open>\<open>strings.ReplaceAll(s, old, new)\<close> for a non-empty \<open>old\<close>: leftmost matches that do
  not overlap.\<close>

function ReplaceAll :: "string \<Rightarrow> string \<Rightarrow> string \<Rightarrow> string" where
  "ReplaceAll s old new =
     (if s = [] \<or> old = [] then s
      else if HasPrefix s old then new @ ReplaceAll (drop (length old) s) old new
      else hd s # ReplaceAll (tl s) old new)"
  by pat_completeness auto
termination
  by (relation "measure (\<lambda>(s, old, new). length s)") auto

declare ReplaceAll.simps [simp del]

text \<open>\<open>strings.Trim(s, cutset)\<close> for a cutset of ASCII bytes.\<close>

definition Trim :: "string \<Rightarrow> char list \<Rightarrow> string" where
  "Trim s cutset =
     rev (dropWhile (\<lambda>c. c \<in> set cutset) (rev (dropWhile (\<lambda>c. c \<in> set cutset) s)))"

text \<open>\<open>unicode.ToLower\<close>, with its table outside ASCII as an argument, and
  \<open>strings.ToLower\<close>.\<close>

definition lower_rune :: "(rune \<Rightarrow> rune) \<Rightarrow> rune \<Rightarrow> rune" where
  "lower_rune ulow r = (if r < 128 then (if 65 \<le> r \<and> r \<le> 90 then r + 32 else r) else ulow r)"

definition ToLower :: "(rune \<Rightarrow> rune) \<Rightarrow> string \<Rightarrow> string" where
  "ToLower ulow s = string_of_runes (map (lower_rune ulow) (string_runes s))"

lemma ToLower_nil [simp]: "ToLower ulow [] = []"
  by (simp add: ToLower_def string_runes_def string_of_runes_def)

text \<open>What the simplifier needs to evaluate these operations on a literal.\<close>

lemmas go_string_eval =
  TrimSpace_def trim_pieces_def IsSpace_def IsControl_def Fields_def ToLower_def string_runes_def
  string_of_runes_def encode_rune_def lower_rune_def HasPrefix_def HasSuffix_def
  RuneCountInString_def ContainsAny_def Trim_def SplitN2_def TrimSuffix_def TrimPrefix_def
  char_of_eq_iff

subsection \<open>Facts\<close>

lemma HasPrefix_append [simp]: "HasPrefix (p @ s) p"
  by (simp add: HasPrefix_def)

lemma HasSuffix_append [simp]: "HasSuffix (s @ p) p"
  by (simp add: HasSuffix_def)

lemma TrimSpace_nil [simp]: "TrimSpace [] = []"
  by (simp add: TrimSpace_def trim_pieces_def)

lemma set_trim_pieces: "set (trim_pieces p ps) \<subseteq> set ps"
  by (auto simp: trim_pieces_def dest!: set_dropWhileD)

lemma set_TrimSpace: "set (TrimSpace s) \<subseteq> set s"
proof
  fix c assume "c \<in> set (TrimSpace s)"
  then have "\<exists>q \<in> set (runes s). c \<in> set (snd q)"
    using set_trim_pieces by (fastforce simp: TrimSpace_def)
  then have "c \<in> set (concat (map snd (runes s)))" by auto
  then show "c \<in> set s" by (simp add: runes_bytes)
qed

lemma cut_byte_Some: "cut_byte sep s = Some (a, b) \<Longrightarrow> s = a @ sep # b \<and> sep \<notin> set a"
  by (induction s arbitrary: a b) (auto split: if_splits)

lemma cut_byte_append: "sep \<notin> set a \<Longrightarrow> cut_byte sep (a @ sep # b) = Some (a, b)"
  by (induction a) auto

lemma cut_byte_None: "cut_byte sep s = None \<longleftrightarrow> sep \<notin> set s"
  by (induction s) auto

lemma Split_not_Nil [simp]: "Split s sep \<noteq> []"
  by (induction s) (auto split: list.splits)

lemma Split_no_sep: "w \<in> set (Split s sep) \<Longrightarrow> sep \<notin> set w"
  by (induction s arbitrary: w) (auto split: if_splits list.splits)

lemma Split_Join: "Join (Split s sep) [sep] = s"
proof (induction s)
  case Nil
  then show ?case by simp
next
  case (Cons c cs)
  obtain w ws where ws: "Split cs sep = w # ws" by (cases "Split cs sep") auto
  show ?case using Cons.IH ws by (cases ws) auto
qed

lemma ContainsAny_not: "\<not> ContainsAny s cs \<Longrightarrow> c \<in> set cs \<Longrightarrow> c \<notin> set s"
  by (auto simp: ContainsAny_def)

lemma Trim_ends:
  assumes "Trim s cs = t" and "t \<noteq> []"
  shows "hd t \<notin> set cs" and "last t \<notin> set cs"
proof -
  let ?p = "\<lambda>c. c \<in> set cs"
  let ?u = "dropWhile ?p s"
  have t: "t = rev (dropWhile ?p (rev ?u))" using assms(1) by (simp add: Trim_def)
  then have "dropWhile ?p (rev ?u) \<noteq> []" using assms(2) by auto
  then have "\<not> ?p (hd (dropWhile ?p (rev ?u)))" by (rule hd_dropWhile)
  then show "last t \<notin> set cs" using t assms(2) by (simp add: last_rev)
  have pre: "\<exists>v. ?u = t @ v"
    using t by (metis rev_append rev_rev_ident takeWhile_dropWhile_id)
  then have u: "?u \<noteq> []" and "hd ?u = hd t"
    using assms(2) by (metis append_is_Nil_conv, metis hd_append2)
  then show "hd t \<notin> set cs" using hd_dropWhile [OF u] by simp
qed

end
