(* ===== verification/Domain.thy ===== *)
theory Domain
  imports Complex_Main Go_Strings
begin

section \<open>The shared vocabulary: statuses, stages, failure categories, jobs\<close>

text \<open>
  \<open>internal/domain/types.go\<close>, \<open>internal/domain/failure.go\<close> and
  \<open>internal/application/errors.go\<close>. A named Go string type with constants is a datatype
  with the constants as constructors and one constructor for any other string; the
  conversion from a string (\<open>domain.Status(s)\<close>) picks the constant where there is one.
\<close>

subsection \<open>Status\<close>

datatype status =
    StatusQueued | StatusProcessing | StatusDelivering | StatusReady | StatusDelivered
  | StatusDeliveryFailed | StatusFailed | StatusCancelled | StatusOther string

fun status_string :: "status \<Rightarrow> string" where
  "status_string StatusQueued = ''queued''"
| "status_string StatusProcessing = ''processing''"
| "status_string StatusDelivering = ''delivering''"
| "status_string StatusReady = ''ready''"
| "status_string StatusDelivered = ''delivered''"
| "status_string StatusDeliveryFailed = ''delivery_failed''"
| "status_string StatusFailed = ''failed''"
| "status_string StatusCancelled = ''cancelled''"
| "status_string (StatusOther s) = s"

definition status_constants :: "status list" where
  "status_constants = [StatusQueued, StatusProcessing, StatusDelivering, StatusReady,
     StatusDelivered, StatusDeliveryFailed, StatusFailed, StatusCancelled]"

definition status_of_string :: "string \<Rightarrow> status" where
  "status_of_string s =
     (case find (\<lambda>c. status_string c = s) status_constants of
        Some c \<Rightarrow> c | None \<Rightarrow> StatusOther s)"

fun status_Valid :: "status \<Rightarrow> bool" where
  "status_Valid (StatusOther s) = False"
| "status_Valid _ = True"

fun status_Terminal :: "status \<Rightarrow> bool" where
  "status_Terminal StatusReady = True"
| "status_Terminal StatusDelivered = True"
| "status_Terminal StatusDeliveryFailed = True"
| "status_Terminal StatusFailed = True"
| "status_Terminal StatusCancelled = True"
| "status_Terminal _ = False"

lemma status_string_of_string [simp]: "status_string (status_of_string s) = s"
  by (auto simp: status_of_string_def find_Some_iff split: option.splits)

lemma status_of_string_string: "status_Valid c \<Longrightarrow> status_of_string (status_string c) = c"
  by (cases c) (simp_all add: status_of_string_def status_constants_def)

subsection \<open>Stage\<close>

text \<open>The empty stage is the Go zero value: a job that is not being processed.\<close>

datatype stage =
    StageNone | StageFetching | StageExtracting | StageAIAnalyzing | StageFormatting
  | StagePersisting | StageOther string

fun stage_string :: "stage \<Rightarrow> string" where
  "stage_string StageNone = ''''"
| "stage_string StageFetching = ''fetching''"
| "stage_string StageExtracting = ''extracting''"
| "stage_string StageAIAnalyzing = ''ai_analyzing''"
| "stage_string StageFormatting = ''formatting''"
| "stage_string StagePersisting = ''persisting''"
| "stage_string (StageOther s) = s"

fun stage_Valid :: "stage \<Rightarrow> bool" where
  "stage_Valid StageNone = False"
| "stage_Valid (StageOther s) = False"
| "stage_Valid _ = True"

definition CanTransitionTo :: "stage \<Rightarrow> stage \<Rightarrow> bool" where
  "CanTransitionTo from to =
     (if \<not> stage_Valid from \<or> \<not> stage_Valid to then False
      else if from = to then True
      else case from of
        StageFetching \<Rightarrow> to = StageExtracting \<or> to = StageFormatting
      | StageExtracting \<Rightarrow> to = StageAIAnalyzing \<or> to = StageFetching
      | StageAIAnalyzing \<Rightarrow> to = StageFormatting \<or> to = StageFetching
      | StageFormatting \<Rightarrow> to = StagePersisting \<or> to = StageFetching
      | _ \<Rightarrow> False)"

text \<open>A run of accepted stage changes.\<close>

fun stage_path :: "stage list \<Rightarrow> bool" where
  "stage_path [] = True"
| "stage_path [s] = True"
| "stage_path (s # t # ts) = (CanTransitionTo s t \<and> stage_path (t # ts))"

lemma CanTransitionTo_valid: "CanTransitionTo s t \<Longrightarrow> stage_Valid s \<and> stage_Valid t"
  by (auto simp: CanTransitionTo_def split: if_splits)

lemma CanTransitionTo_persisting:
  "CanTransitionTo s StagePersisting \<Longrightarrow> s = StageFormatting \<or> s = StagePersisting"
  by (cases s) (auto simp: CanTransitionTo_def)

lemma CanTransitionTo_from_persisting:
  "CanTransitionTo StagePersisting t \<Longrightarrow> t = StagePersisting"
  by (auto simp: CanTransitionTo_def split: if_splits)

lemma CanTransitionTo_formatting:
  "CanTransitionTo s StageFormatting \<Longrightarrow>
     s = StageFetching \<or> s = StageAIAnalyzing \<or> s = StageFormatting"
  by (cases s) (auto simp: CanTransitionTo_def)

lemma stage_path_through_formatting:
  assumes "stage_path ss" and "ss \<noteq> []" and "hd ss \<noteq> StagePersisting"
    and "last ss = StagePersisting"
  shows "StageFormatting \<in> set ss"
  using assms
proof (induction ss rule: stage_path.induct)
  case (3 s t ts)
  then show ?case
    using CanTransitionTo_persisting by (cases "t = StagePersisting") auto
qed auto

subsection \<open>Failure categories\<close>

datatype failure_category =
    FailureInvalidInput | FailureBlockedTarget | FailureFetchFailed | FailureRenderTimeout
  | FailureAccessDenied | FailurePaywallDetected | FailureUnsupportedContent
  | FailureInsufficientContent | FailureAIUnavailable | FailureAIAuthFailed
  | FailureAIModelUnsupported | FailureAIInvalidResponse | FailureFormatFailed
  | FailurePDFQualityFailed | FailureStorageFailed | FailureDeliveryRejected
  | FailureDeliveryTimeout | FailureInternalError | FailureOther string

fun category_string :: "failure_category \<Rightarrow> string" where
  "category_string FailureInvalidInput = ''invalid_input''"
| "category_string FailureBlockedTarget = ''blocked_target''"
| "category_string FailureFetchFailed = ''fetch_failed''"
| "category_string FailureRenderTimeout = ''render_timeout''"
| "category_string FailureAccessDenied = ''access_denied''"
| "category_string FailurePaywallDetected = ''paywall_detected''"
| "category_string FailureUnsupportedContent = ''unsupported_content''"
| "category_string FailureInsufficientContent = ''insufficient_content''"
| "category_string FailureAIUnavailable = ''ai_unavailable''"
| "category_string FailureAIAuthFailed = ''ai_auth_failed''"
| "category_string FailureAIModelUnsupported = ''ai_model_unsupported''"
| "category_string FailureAIInvalidResponse = ''ai_invalid_response''"
| "category_string FailureFormatFailed = ''format_failed''"
| "category_string FailurePDFQualityFailed = ''pdf_quality_failed''"
| "category_string FailureStorageFailed = ''storage_failed''"
| "category_string FailureDeliveryRejected = ''delivery_rejected''"
| "category_string FailureDeliveryTimeout = ''delivery_timeout''"
| "category_string FailureInternalError = ''internal_error''"
| "category_string (FailureOther s) = s"

definition category_constants :: "failure_category list" where
  "category_constants = [FailureInvalidInput, FailureBlockedTarget, FailureFetchFailed,
     FailureRenderTimeout, FailureAccessDenied, FailurePaywallDetected,
     FailureUnsupportedContent, FailureInsufficientContent, FailureAIUnavailable,
     FailureAIAuthFailed, FailureAIModelUnsupported, FailureAIInvalidResponse,
     FailureFormatFailed, FailurePDFQualityFailed, FailureStorageFailed,
     FailureDeliveryRejected, FailureDeliveryTimeout, FailureInternalError]"

definition category_of_string :: "string \<Rightarrow> failure_category" where
  "category_of_string s =
     (case find (\<lambda>c. category_string c = s) category_constants of
        Some c \<Rightarrow> c | None \<Rightarrow> FailureOther s)"

fun category_message :: "failure_category \<Rightarrow> string" where
  "category_message FailureAIUnavailable = ''The AI provider is temporarily unavailable''"
| "category_message FailureAIAuthFailed =
     ''The AI connection is missing or its credentials were rejected''"
| "category_message FailureAIModelUnsupported = ''The configured AI model is unsupported''"
| "category_message FailureAIInvalidResponse = ''The AI provider returned an invalid response''"
| "category_message FailureUnsupportedContent = ''The page is not a supported article''"
| "category_message FailureInsufficientContent =
     ''The page did not contain enough readable content''"
| "category_message FailurePDFQualityFailed =
     ''The PDF failed automatic quality checks and was not published''"
| "category_message FailureFormatFailed = ''The PDF could not be generated''"
| "category_message FailureStorageFailed = ''Artifact storage is temporarily unavailable''"
| "category_message FailureFetchFailed = ''The page could not be retrieved''"
| "category_message FailureBlockedTarget = ''The destination was blocked by network policy''"
| "category_message FailureRenderTimeout = ''Page rendering exceeded its deadline''"
| "category_message FailureAccessDenied = ''The page denied access''"
| "category_message FailurePaywallDetected = ''The page appears to be behind a paywall''"
| "category_message FailureDeliveryRejected = ''Email delivery was rejected''"
| "category_message FailureDeliveryTimeout = ''Email delivery could not be confirmed''"
| "category_message FailureInvalidInput = ''The submitted input is invalid''"
| "category_message FailureInternalError = ''The job could not be completed''"
| "category_message (FailureOther s) = ''''"

definition Normalized :: "failure_category \<Rightarrow> failure_category" where
  "Normalized c = (if category_message c = '''' then FailureInternalError else c)"

definition Message :: "failure_category \<Rightarrow> string" where
  "Message c = category_message (Normalized c)"

definition NextAction :: "failure_category \<Rightarrow> string" where
  "NextAction c =
     (if c = FailureAIAuthFailed then
        ''Open Settings, connect or reconnect ChatGPT, then check AI compatibility and retry approval.''
      else if c = FailureAIModelUnsupported then
        ''Check the configured model and account permissions, then run the Settings compatibility check.''
      else if c = FailureAIUnavailable then
        ''Check provider availability or account quota, then retry approval.''
      else if c \<in> {FailureUnsupportedContent, FailureInsufficientContent} then
        ''Open a specific article URL or upload your own PDF. The saved copy remains available.''
      else if c \<in> {FailureFormatFailed, FailurePDFQualityFailed} then
        ''Run the PDF/browser check in Settings, then retry document preparation.''
      else if c = FailureDeliveryRejected then
        ''Check SMTP settings and approved sender, then explicitly retry delivery of the saved PDF.''
      else if c = FailureDeliveryTimeout then
        ''Check the recipient inbox before retrying: the relay may already have accepted the email.''
      else if c \<in> {FailureFetchFailed, FailureAccessDenied, FailurePaywallDetected,
                   FailureRenderTimeout, FailureBlockedTarget} then
        ''Check the source URL or save a browser capture; retry capture only when needed.''
      else
        ''Retry the failed stage; use the diagnostic ID when reporting a persistent failure.'')"

definition StageName :: "failure_category \<Rightarrow> string" where
  "StageName c =
     (if c \<in> {FailureAIAuthFailed, FailureAIUnavailable, FailureAIModelUnsupported,
              FailureAIInvalidResponse, FailureUnsupportedContent, FailureInsufficientContent}
      then ''AI approval''
      else if c = FailureFormatFailed then ''PDF formatting''
      else if c = FailurePDFQualityFailed then ''PDF validation''
      else if c \<in> {FailureDeliveryRejected, FailureDeliveryTimeout} then ''SMTP submission''
      else if c = FailureStorageFailed then ''Artifact storage''
      else ''Capture'')"

lemma category_string_of_string [simp]: "category_string (category_of_string s) = s"
  by (auto simp: category_of_string_def find_Some_iff split: option.splits)

lemma category_message_Nil_iff: "category_message c = '''' \<longleftrightarrow> (\<exists>s. c = FailureOther s)"
  by (cases c) simp_all

lemma Normalized_not_other: "Normalized c \<noteq> FailureOther s"
  by (cases c) (simp_all add: Normalized_def)

lemma Normalized_idem [simp]: "Normalized (Normalized c) = Normalized c"
  by (cases c) (simp_all add: Normalized_def)

lemma Message_Normalized [simp]: "Message (Normalized c) = Message c"
  by (simp add: Message_def)

lemma Message_not_empty: "Message c \<noteq> ''''"
  by (cases c) (simp_all add: Message_def Normalized_def)

lemma category_of_string_string:
  "category_message c \<noteq> '''' \<Longrightarrow> category_of_string (category_string c) = c"
  by (cases c) (simp_all add: category_of_string_def category_constants_def)

subsection \<open>Floating point confidences\<close>

text \<open>Confidences are only compared; a \<open>float64\<close> is a rational number, an infinity or
  NaN, and every comparison with NaN is false.\<close>

datatype float64 = NaN | NegInf | PosInf | Fin rat

fun f64_less :: "float64 \<Rightarrow> float64 \<Rightarrow> bool" where
  "f64_less NaN _ = False"
| "f64_less _ NaN = False"
| "f64_less (Fin x) (Fin y) = (x < y)"
| "f64_less NegInf NegInf = False"
| "f64_less NegInf _ = True"
| "f64_less _ PosInf = True"
| "f64_less _ _ = False"

subsection \<open>Jobs and their parts\<close>

type_synonym job_id = string
type_synonym content_id = string

record failure =
  fail_Category :: failure_category
  fail_Message :: string
  fail_CorrelationID :: string
  fail_OccurredAt :: time

record artifact =
  art_Key :: string
  art_Filename :: string
  art_MediaType :: string
  art_ByteSize :: int
  art_Checksum :: string
  art_Available :: bool
  art_CreatedAt :: time

record delivery_info =
  dlv_Status :: string
  dlv_AttemptCount :: int
  dlv_MessageID :: string

record content_document =
  doc_ID :: content_id
  doc_JobID :: job_id
  doc_Title :: string
  doc_Author :: string
  doc_SiteName :: string
  doc_PublicationDate :: string
  doc_Description :: string
  doc_Language :: string
  doc_SourceURL :: string
  doc_SemanticHTML :: string
  doc_PlainText :: string
  doc_ExtractionMethod :: string
  doc_AIConfidence :: float64
  doc_AICompleteness :: float64
  doc_CreatedAt :: time
  doc_UpdatedAt :: time

record job =
  job_ID :: job_id
  job_RetryOf :: job_id
  job_Content :: "content_document option"
  job_SubmittedURL :: string
  job_CanonicalURL :: string
  job_TitleHint :: string
  job_Profile :: string
  job_Status :: status
  job_Stage :: stage
  job_AttemptCount :: int
  job_CreatedAt :: time
  job_CompletedAt :: "time option"
  job_Failure :: "failure option"
  job_Artifact :: "artifact option"
  job_Delivery :: "delivery_info option"
  job_AIConfidence :: float64
  job_Version :: uint64
  job_NextAttemptAt :: time
  job_IdempotencyKey :: string
  job_RequestDigest :: string
  job_DeleteRequested :: bool
  job_LeaseToken :: string
  job_LeaseUntil :: time

text \<open>The Go zero value \<open>domain.Job{}\<close>.\<close>

definition zero_job :: job where
  "zero_job = \<lparr>job_ID = '''', job_RetryOf = '''', job_Content = None, job_SubmittedURL = '''',
     job_CanonicalURL = '''', job_TitleHint = '''', job_Profile = '''',
     job_Status = StatusOther '''', job_Stage = StageNone, job_AttemptCount = 0,
     job_CreatedAt = zero_time, job_CompletedAt = None, job_Failure = None,
     job_Artifact = None, job_Delivery = None, job_AIConfidence = Fin 0, job_Version = 0,
     job_NextAttemptAt = zero_time, job_IdempotencyKey = '''', job_RequestDigest = '''',
     job_DeleteRequested = False, job_LeaseToken = '''', job_LeaseUntil = zero_time\<rparr>"

subsection \<open>Cursor positions\<close>

text \<open>
  A cursor position is ordered by instant and then by job id; the listing goes through
  the jobs in the descending order.
\<close>

datatype cursor_position = CursorPosition (cur_CreatedAt: time) (cur_ID: job_id)

instantiation cursor_position :: linorder
begin

definition less_cursor_position :: "cursor_position \<Rightarrow> cursor_position \<Rightarrow> bool" where
  "less_cursor_position p q \<longleftrightarrow>
     cur_CreatedAt p < cur_CreatedAt q
     \<or> (cur_CreatedAt p = cur_CreatedAt q \<and> cur_ID p < cur_ID q)"

definition less_eq_cursor_position :: "cursor_position \<Rightarrow> cursor_position \<Rightarrow> bool" where
  "less_eq_cursor_position p q \<longleftrightarrow> p < q \<or> p = (q::cursor_position)"

instance
proof
  fix x y z :: cursor_position
  show "(x < y) = (x \<le> y \<and> \<not> y \<le> x)"
    by (auto simp: less_cursor_position_def less_eq_cursor_position_def)
  show "x \<le> x" by (simp add: less_eq_cursor_position_def)
  show "x \<le> y \<Longrightarrow> y \<le> z \<Longrightarrow> x \<le> z"
    by (auto simp: less_cursor_position_def less_eq_cursor_position_def)
  show "x \<le> y \<Longrightarrow> y \<le> x \<Longrightarrow> x = y"
    by (auto simp: less_cursor_position_def less_eq_cursor_position_def)
  show "x \<le> y \<or> y \<le> x"
    by (cases x; cases y) (auto simp: less_cursor_position_def less_eq_cursor_position_def)
qed

end

definition job_position :: "job \<Rightarrow> cursor_position" where
  "job_position j = CursorPosition (job_CreatedAt j) (job_ID j)"

end
