(* ===== verification/Errors.thy ===== *)
theory Errors
  imports Domain
begin

section \<open>Contexts and errors\<close>

text \<open>
  \<open>context.Context\<close> as the components see it: nil, or a context whose \<open>Err()\<close> is nil or
  an error at the moment it is asked.

  An \<open>error\<close> is a sentinel, an opaque error with a message, or one of the typed errors of
  \<open>internal/application/errors.go\<close>, \<open>internal/filesystem\<close>, \<open>internal/formatter\<close> and
  \<open>internal/ai\<close>. \<open>errors.Is\<close> and \<open>errors.As\<close> follow the \<open>Unwrap\<close> chain.
\<close>

datatype error =
    ErrNotFound | ErrIdempotencyConflict | ErrNotTerminal | ErrLeaseLost | ErrInvalidStage
  | Canceled | DeadlineExceeded | OsErrNotExist | OsErrExist | ErrShortWrite | SqlErrNoRows
  | SubscriptionUnavailable
  | ErrBlockedTarget | ErrResponseTooLarge | ErrTooManyRedirects | ErrRequestLimit
  | ErrRenderTimeout | ErrDOMTooLarge | ErrScreenshotTooLarge
  | ErrNoSemanticContent | ErrMalformedHTML
  | ErrInvalidRoot | ErrUnsafeKey | ErrEmptyArtifact | ErrChecksumMismatch | ErrSizeMismatch
  | NewError string
  | ProcessingError (pe_Category: string) (pe_Message: string) (pe_Retryable: bool)
      "error option"
  | SafeError (se_Code: string) (se_HTTPStatus: nat) (se_Message: string)
      (se_CorrelationID: string) (se_Retryable: bool) "error option"
  | OperationFailure string error
  | QualityError string
  | MalformedCompletion string
  | SMTPReply nat string
  | WrapError string error
  | JoinError error error

fun Unwrap :: "error \<Rightarrow> error list" where
  "Unwrap (ProcessingError _ _ _ cause) = (case cause of None \<Rightarrow> [] | Some c \<Rightarrow> [c])"
| "Unwrap (SafeError _ _ _ _ _ cause) = (case cause of None \<Rightarrow> [] | Some c \<Rightarrow> [c])"
| "Unwrap (OperationFailure _ cause) = [cause]"
| "Unwrap (WrapError _ cause) = [cause]"
| "Unwrap (JoinError a b) = [a, b]"
| "Unwrap _ = []"

text \<open>\<open>errors.Is(err, target)\<close> and \<open>errors.As(err, *ProcessingError)\<close>. The targets the
  code compares with are sentinels, whose identity is their constructor.\<close>

lemma Unwrap_size: "c \<in> set (Unwrap e) \<Longrightarrow> size c < size e"
  by (cases e) (auto split: option.splits)

function errors_Is :: "error \<Rightarrow> error \<Rightarrow> bool" where
  "errors_Is e t \<longleftrightarrow> e = t \<or> (\<exists>c \<in> set (Unwrap e). errors_Is c t)"
  by pat_completeness auto
termination
  by (relation "measure (\<lambda>(e, t). size e)") (auto simp: Unwrap_size)

fun first_Some :: "'a option list \<Rightarrow> 'a option" where
  "first_Some [] = None"
| "first_Some (None # xs) = first_Some xs"
| "first_Some (Some x # xs) = Some x"

function errors_As_ProcessingError :: "error \<Rightarrow> (string \<times> string \<times> bool) option" where
  "errors_As_ProcessingError e =
     (case e of
        ProcessingError c m r _ \<Rightarrow> Some (c, m, r)
      | _ \<Rightarrow> first_Some (map errors_As_ProcessingError (Unwrap e)))"
  by pat_completeness auto
termination
  by (relation "measure size") (auto simp: Unwrap_size)

declare errors_Is.simps [simp del] errors_As_ProcessingError.simps [simp del]

lemma errors_Is_refl [simp]: "errors_Is e e"
  by (subst errors_Is.simps) simp

lemma errors_Is_leaf: "Unwrap e = [] \<Longrightarrow> errors_Is e t \<longleftrightarrow> e = t"
  by (subst errors_Is.simps) simp

lemma errors_Is_sentinel [simp]:
  "errors_Is ErrNotFound t \<longleftrightarrow> t = ErrNotFound"
  "errors_Is ErrIdempotencyConflict t \<longleftrightarrow> t = ErrIdempotencyConflict"
  "errors_Is ErrNotTerminal t \<longleftrightarrow> t = ErrNotTerminal"
  "errors_Is ErrLeaseLost t \<longleftrightarrow> t = ErrLeaseLost"
  "errors_Is ErrInvalidStage t \<longleftrightarrow> t = ErrInvalidStage"
  "errors_Is Canceled t \<longleftrightarrow> t = Canceled"
  "errors_Is DeadlineExceeded t \<longleftrightarrow> t = DeadlineExceeded"
  "errors_Is OsErrNotExist t \<longleftrightarrow> t = OsErrNotExist"
  "errors_Is ErrUnsafeKey t \<longleftrightarrow> t = ErrUnsafeKey"
  "errors_Is ErrSizeMismatch t \<longleftrightarrow> t = ErrSizeMismatch"
  "errors_Is ErrChecksumMismatch t \<longleftrightarrow> t = ErrChecksumMismatch"
  "errors_Is ErrNoSemanticContent t \<longleftrightarrow> t = ErrNoSemanticContent"
  "errors_Is (NewError m) t \<longleftrightarrow> t = NewError m"
  by (auto simp: errors_Is_leaf)

lemma errors_As_ProcessingError_direct [simp]:
  "errors_As_ProcessingError (ProcessingError c m r k) = Some (c, m, r)"
  by (subst errors_As_ProcessingError.simps) simp

lemma errors_As_leaf:
  "Unwrap e = [] \<Longrightarrow> \<not> is_ProcessingError e \<Longrightarrow> errors_As_ProcessingError e = None"
  by (subst errors_As_ProcessingError.simps) (cases e, auto)

definition NewSafeError :: "string \<Rightarrow> nat \<Rightarrow> string \<Rightarrow> error" where
  "NewSafeError code status message = SafeError code status message '''' False None"

definition internalError :: "error \<Rightarrow> error" where
  "internalError cause =
     SafeError ''internal_error'' 500 ''The operation could not be completed'' '''' False (Some cause)"

definition NewProcessingError :: "string \<Rightarrow> string \<Rightarrow> bool \<Rightarrow> error" where
  "NewProcessingError category message retryable = ProcessingError category message retryable None"

fun WithCorrelationID :: "error \<Rightarrow> string \<Rightarrow> error" where
  "WithCorrelationID (SafeError code status message _ retryable cause) cid =
     SafeError code status message cid retryable cause"
| "WithCorrelationID e cid = e"

lemma errors_Is_NewProcessingError [simp]:
  "errors_Is (NewProcessingError c m r) t \<longleftrightarrow> t = NewProcessingError c m r"
  unfolding NewProcessingError_def by (subst errors_Is_leaf) auto

datatype ctx = NilContext | Context "error option"

fun contextErr :: "ctx \<Rightarrow> error option" where
  "contextErr NilContext = None"
| "contextErr (Context e) = e"

text \<open>A call that returns a value or an error, and the store afterwards.\<close>

type_synonym ('a, 's) outcome = "(error + 'a) \<times> 's"

end
