(* ===== verification/Job_Interfaces.thy ===== *)
theory Job_Interfaces
  imports Errors
begin

section \<open>The seams of the application: requests, leases, the job store\<close>

text \<open>
  \<open>internal/application/interfaces.go\<close>: the values that cross the \<open>JobArchive\<close>,
  \<open>JobStore\<close> and \<open>Processor\<close> seams, the lease a worker holds on a claimed job, and the
  contract of a job store as a locale. A Go pointer that may be nil is an \<open>option\<close>; a
  method that mutates the value behind a pointer returns the new value.
\<close>

record submit_request =
  sub_URL :: string
  sub_Title :: string
  sub_Profile :: string

record create_job =
  cj_ID :: job_id
  cj_Request :: submit_request
  cj_CreatedAt :: time
  cj_IdempotencyKey :: string
  cj_RequestDigest :: string

record create_outcome =
  out_Job :: job
  out_Replayed :: bool
  out_Conflict :: bool

definition zero_outcome :: create_outcome where
  "zero_outcome = \<lparr>out_Job = zero_job, out_Replayed = False, out_Conflict = False\<rparr>"

record store_list_request =
  slr_Limit :: int
  slr_After :: "cursor_position option"
  slr_Status :: "status option"

record store_page =
  page_Jobs :: "job list"
  page_HasMore :: bool

subsection \<open>Leases\<close>

text \<open>
  \<open>leaseState\<close> is the revision that copies of a lease share; \<open>None\<close> is a lease built
  without \<open>NewLease\<close>.
\<close>

record lease =
  lease_Job :: job
  lease_Token :: string
  lease_ExpiresAt :: time
  lease_state :: "(uint64 \<times> time) option"

definition NewLease :: "job \<Rightarrow> string \<Rightarrow> time \<Rightarrow> lease" where
  "NewLease j token expiresAt =
     \<lparr>lease_Job = j, lease_Token = token, lease_ExpiresAt = expiresAt,
      lease_state = Some (job_Version j, expiresAt)\<rparr>"

definition CurrentVersion :: "lease option \<Rightarrow> uint64" where
  "CurrentVersion lo =
     (case lo of None \<Rightarrow> 0
      | Some l \<Rightarrow> (case lease_state l of None \<Rightarrow> job_Version (lease_Job l) | Some (v, _) \<Rightarrow> v))"

definition Observe :: "uint64 \<Rightarrow> time \<Rightarrow> stage \<Rightarrow> lease option \<Rightarrow> lease option" where
  "Observe version expiresAt stage lo =
     map_option (\<lambda>l. l\<lparr>lease_state := Some (version, expiresAt),
        lease_Job := (lease_Job l)\<lparr>job_Version := version, job_LeaseUntil := expiresAt,
                                   job_Stage := stage\<rparr>,
        lease_ExpiresAt := expiresAt\<rparr>) lo"

lemma CurrentVersion_NewLease [simp]: "CurrentVersion (Some (NewLease j t e)) = job_Version j"
  by (simp add: CurrentVersion_def NewLease_def)

lemma Observe_None [simp]: "Observe v e st None = None"
  by (simp add: Observe_def)

lemma Observe_is_Some [simp]: "Observe v e st (Some l) \<noteq> None"
  by (simp add: Observe_def)

lemma CurrentVersion_Observe [simp]: "CurrentVersion (Observe v e st (Some l)) = v"
  by (simp add: CurrentVersion_def Observe_def)

lemma Observe_fields:
  assumes "Observe v e st (Some l) = Some l'"
  shows "lease_Token l' = lease_Token l" and "job_ID (lease_Job l') = job_ID (lease_Job l)"
    and "CurrentVersion (Some l') = v" and "lease_ExpiresAt l' = e"
    and "job_Stage (lease_Job l') = st"
    and "job_AttemptCount (lease_Job l') = job_AttemptCount (lease_Job l)"
  using assms by (auto simp: Observe_def CurrentVersion_def)

text \<open>The lease a worker presents is the one the stored job was claimed with: same token,
  same revision, not expired.\<close>

definition lease_current :: "time \<Rightarrow> lease \<Rightarrow> job \<Rightarrow> bool" where
  "lease_current now l j \<longleftrightarrow>
     job_LeaseToken j = lease_Token l \<and> job_Version j = CurrentVersion (Some l)
     \<and> now < job_LeaseUntil j"

text \<open>An operation that keeps the lease hands back the same lease, at another revision.\<close>

definition same_lease :: "lease \<Rightarrow> lease option \<Rightarrow> bool" where
  "same_lease l lo \<longleftrightarrow>
     (\<exists>l'. lo = Some l' \<and> lease_Token l' = lease_Token l
         \<and> job_ID (lease_Job l') = job_ID (lease_Job l)
         \<and> job_AttemptCount (lease_Job l') = job_AttemptCount (lease_Job l))"

lemma same_lease_simps [simp]:
  "same_lease l (Some l)" "same_lease l (Observe v e st (Some l))"
  by (simp_all add: same_lease_def Observe_def)

subsection \<open>Processing results\<close>

record article_draft =
  draft_Classification :: string
  draft_Decision :: string
  draft_Title :: string
  draft_Author :: string
  draft_SiteName :: string
  draft_PublicationDate :: string
  draft_Description :: string
  draft_Language :: string
  draft_SemanticHTML :: string
  draft_PlainText :: string
  draft_ExtractionMethod :: string
  draft_AIConfidence :: float64
  draft_AICompleteness :: float64
  draft_AIAttemptID :: string

definition zero_draft :: article_draft where
  "zero_draft = \<lparr>draft_Classification = '''', draft_Decision = '''', draft_Title = '''',
     draft_Author = '''', draft_SiteName = '''', draft_PublicationDate = '''',
     draft_Description = '''', draft_Language = '''', draft_SemanticHTML = '''',
     draft_PlainText = '''', draft_ExtractionMethod = '''', draft_AIConfidence = Fin 0,
     draft_AICompleteness = Fin 0, draft_AIAttemptID = ''''\<rparr>"

text \<open>\<open>ApprovedArticle\<close> has unexported fields; its zero value is not valid.\<close>

record approved_article =
  app_draft :: article_draft
  app_valid :: bool

definition zero_approved :: approved_article where
  "zero_approved = \<lparr>app_draft = zero_draft, app_valid = False\<rparr>"

definition Snapshot :: "approved_article \<Rightarrow> article_draft \<times> bool" where
  "Snapshot a = (app_draft a, app_valid a)"

record process_result =
  res_Article :: approved_article
  res_CanonicalURL :: string
  res_Filename :: string
  res_PDF :: string

definition zero_result :: process_result where
  "zero_result = \<lparr>res_Article = zero_approved, res_CanonicalURL = '''', res_Filename = '''',
     res_PDF = ''''\<rparr>"

record completion =
  cmp_Content :: content_document
  cmp_Artifact :: artifact
  cmp_CanonicalURL :: string

subsection \<open>The job store seam\<close>

text \<open>
  The lease operations of \<open>JobStore\<close>. Every one of them reads the store's own clock; the
  reading is the explicit argument after the context.
\<close>

type_synonym 's lease_result = "error option \<times> lease option \<times> 's"

record 's job_store_ops =
  op_ClaimNext :: "ctx \<Rightarrow> time \<Rightarrow> duration \<Rightarrow> 's \<Rightarrow> (lease option, 's) outcome"
  op_RenewLease :: "ctx \<Rightarrow> time \<Rightarrow> lease option \<Rightarrow> duration \<Rightarrow> 's \<Rightarrow> 's lease_result"
  op_SetStage :: "ctx \<Rightarrow> time \<Rightarrow> lease option \<Rightarrow> stage \<Rightarrow> 's \<Rightarrow> 's lease_result"
  op_Complete :: "ctx \<Rightarrow> time \<Rightarrow> lease option \<Rightarrow> completion \<Rightarrow> time \<Rightarrow> 's \<Rightarrow> 's lease_result"
  op_Requeue :: "ctx \<Rightarrow> time \<Rightarrow> lease option \<Rightarrow> failure \<Rightarrow> time \<Rightarrow> 's \<Rightarrow> 's lease_result"
  op_Fail :: "ctx \<Rightarrow> time \<Rightarrow> lease option \<Rightarrow> failure \<Rightarrow> time \<Rightarrow> 's \<Rightarrow> 's lease_result"

text \<open>
  What a worker relies on. \<open>job_of\<close> is the stored job under an id. An operation that
  reports an error changes no job; an operation that succeeds was presented the current
  lease and makes one change, to the leased job.
\<close>

locale job_store =
  fixes ops :: "'s job_store_ops"
    and job_of :: "'s \<Rightarrow> job_id \<Rightarrow> job option"
    and inv :: "'s \<Rightarrow> bool"
  assumes claim_inv: "inv s \<Longrightarrow> op_ClaimNext ops c now d s = (r, s') \<Longrightarrow> inv s'"
    and claim_Some: "inv s \<Longrightarrow> op_ClaimNext ops c now d s = (Inr (Some l), s') \<Longrightarrow>
      \<exists>j. job_of s' (job_ID (lease_Job l)) = Some j \<and> lease_Job l = j
        \<and> job_Status j = StatusProcessing \<and> job_Stage j = StageFetching
        \<and> job_LeaseToken j = lease_Token l \<and> job_Version j = CurrentVersion (Some l)"
    and renew_inv: "inv s \<Longrightarrow> op_RenewLease ops c clk (Some l) d s = (oe, lo, s') \<Longrightarrow>
      inv s' \<and> same_lease l lo"
    and renew_err: "inv s \<Longrightarrow> op_RenewLease ops c clk (Some l) d s = (Some err, lo, s') \<Longrightarrow>
      job_of s' = job_of s"
    and renew_ok: "inv s \<Longrightarrow> op_RenewLease ops c clk (Some l) d s = (None, lo, s') \<Longrightarrow>
      \<exists>j. job_of s (job_ID (lease_Job l)) = Some j \<and> lease_current clk l j
        \<and> job_of s' = (job_of s)(job_ID (lease_Job l) \<mapsto>
             j\<lparr>job_LeaseUntil := job_LeaseUntil j + (if d \<le> 0 then 5 * Minute else d),
               job_Version := job_Version j + 1\<rparr>)"
    and stage_inv: "inv s \<Longrightarrow> op_SetStage ops c clk (Some l) st s = (oe, lo, s') \<Longrightarrow>
      inv s' \<and> same_lease l lo"
    and stage_err: "inv s \<Longrightarrow> op_SetStage ops c clk (Some l) st s = (Some err, lo, s') \<Longrightarrow>
      job_of s' = job_of s"
    and stage_ok: "inv s \<Longrightarrow> op_SetStage ops c clk (Some l) st s = (None, lo, s') \<Longrightarrow>
      \<exists>j. job_of s (job_ID (lease_Job l)) = Some j \<and> lease_current clk l j
        \<and> job_Status j = StatusProcessing \<and> CanTransitionTo (job_Stage j) st
        \<and> job_of s' = (job_of s)(job_ID (lease_Job l) \<mapsto>
             j\<lparr>job_Stage := st, job_Version := job_Version j + 1\<rparr>)"
    and complete_inv: "inv s \<Longrightarrow> op_Complete ops c clk (Some l) cm now s = (oe, lo, s') \<Longrightarrow>
      inv s' \<and> same_lease l lo"
    and complete_err: "inv s \<Longrightarrow> op_Complete ops c clk (Some l) cm now s = (Some err, lo, s') \<Longrightarrow>
      job_of s' = job_of s"
    and complete_ok: "inv s \<Longrightarrow> op_Complete ops c clk (Some l) cm now s = (None, lo, s') \<Longrightarrow>
      \<exists>j j'. job_of s (job_ID (lease_Job l)) = Some j \<and> lease_current clk l j
        \<and> job_Status j = StatusProcessing \<and> job_Stage j = StagePersisting
        \<and> job_of s' = (job_of s)(job_ID (lease_Job l) \<mapsto> j')
        \<and> job_Status j' = StatusReady \<and> job_Stage j' = StageNone
        \<and> job_Artifact j' = Some (cmp_Artifact cm)
        \<and> job_Content j' = Some ((cmp_Content cm)\<lparr>doc_JobID := job_ID (lease_Job l)\<rparr>)
        \<and> job_CanonicalURL j' = cmp_CanonicalURL cm \<and> job_CompletedAt j' = Some now"
    and requeue_inv: "inv s \<Longrightarrow> op_Requeue ops c clk (Some l) f nxt s = (oe, lo, s') \<Longrightarrow> inv s'"
    and requeue_err: "inv s \<Longrightarrow> op_Requeue ops c clk (Some l) f nxt s = (Some err, lo, s') \<Longrightarrow>
      job_of s' = job_of s"
    and requeue_ok: "inv s \<Longrightarrow> op_Requeue ops c clk (Some l) f nxt s = (None, lo, s') \<Longrightarrow>
      \<exists>j j'. job_of s (job_ID (lease_Job l)) = Some j \<and> lease_current clk l j
        \<and> job_of s' = (job_of s)(job_ID (lease_Job l) \<mapsto> j')
        \<and> job_Status j' = StatusQueued \<and> job_Stage j' = StageNone
        \<and> job_NextAttemptAt j' = nxt \<and> job_LeaseToken j' = ''''"
    and fail_inv: "inv s \<Longrightarrow> op_Fail ops c clk (Some l) f now s = (oe, lo, s') \<Longrightarrow> inv s'"
    and fail_err: "inv s \<Longrightarrow> op_Fail ops c clk (Some l) f now s = (Some err, lo, s') \<Longrightarrow>
      job_of s' = job_of s"
    and fail_ok: "inv s \<Longrightarrow> op_Fail ops c clk (Some l) f now s = (None, lo, s') \<Longrightarrow>
      \<exists>j j' f'. job_of s (job_ID (lease_Job l)) = Some j \<and> lease_current clk l j
        \<and> job_of s' = (job_of s)(job_ID (lease_Job l) \<mapsto> j')
        \<and> job_Status j' = StatusFailed \<and> job_Stage j' = StageNone
        \<and> job_Failure j' = Some f' \<and> fail_Category f' = Normalized (fail_Category f)
        \<and> fail_Message f' = Message (fail_Category f) \<and> job_CompletedAt j' = Some now"

end
