(* ===== verification/Memory_Store.thy ===== *)
theory Memory_Store
  imports Job_Interfaces
begin

section \<open>The in-memory job store\<close>

text \<open>
  \<open>internal/memory/store.go\<close>, type \<open>Store\<close>. Two Go maps: the jobs by id and the
  idempotency records by key. The clock (\<open>s.now()\<close>), the random lease token and the order
  in which a \<open>range\<close> loop visits the map are arguments of the operations that use them;
  the order is a list of the map's keys, each once, and the theorems show that it does not
  matter. \<open>cloneJob\<close> copies the values behind the pointers of a job, so a caller never
  shares them with the store; values of the model are never shared.
\<close>

record idempotency_record =
  idem_jobID :: job_id
  idem_digest :: string
  idem_createdAt :: time

record mem_store =
  st_jobs :: "job_id \<rightharpoonup> job"
  st_idempotency :: "string \<rightharpoonup> idempotency_record"

definition NewStore :: mem_store where
  "NewStore = \<lparr>st_jobs = Map.empty, st_idempotency = Map.empty\<rparr>"

text \<open>\<open>s.jobs[job.ID] = job\<close>.\<close>

definition put_job :: "job \<Rightarrow> mem_store \<Rightarrow> mem_store" where
  "put_job j s = s\<lparr>st_jobs := (st_jobs s)(job_ID j \<mapsto> j)\<rparr>"

definition drop_idempotency :: "string \<Rightarrow> mem_store \<Rightarrow> mem_store" where
  "drop_idempotency key s = s\<lparr>st_idempotency := (st_idempotency s)(key := None)\<rparr>"

subsection \<open>Creation, lookup and deletion\<close>

text \<open>A record of at least 24 hours is dropped before it is consulted.\<close>

definition expire_idempotency :: "create_job \<Rightarrow> mem_store \<Rightarrow> mem_store" where
  "expire_idempotency cmd s =
     (case st_idempotency s (cj_IdempotencyKey cmd) of
        None \<Rightarrow> s
      | Some previous \<Rightarrow>
          if \<not> time_IsZero (idem_createdAt previous)
             \<and> 24 * Hour \<le> time_Sub (cj_CreatedAt cmd) (idem_createdAt previous)
          then drop_idempotency (cj_IdempotencyKey cmd) s else s)"

definition new_job :: "create_job \<Rightarrow> job" where
  "new_job cmd = zero_job\<lparr>job_ID := cj_ID cmd,
     job_SubmittedURL := sub_URL (cj_Request cmd),
     job_TitleHint := sub_Title (cj_Request cmd),
     job_Profile := sub_Profile (cj_Request cmd),
     job_Status := StatusQueued,
     job_CreatedAt := cj_CreatedAt cmd,
     job_NextAttemptAt := cj_CreatedAt cmd,
     job_Version := 1,
     job_IdempotencyKey := cj_IdempotencyKey cmd,
     job_RequestDigest := cj_RequestDigest cmd\<rparr>"

definition insert_job :: "create_job \<Rightarrow> mem_store \<Rightarrow> create_outcome \<times> error option \<times> mem_store" where
  "insert_job cmd s =
     (let j = new_job cmd; s1 = put_job j s;
          s2 = (if cj_IdempotencyKey cmd \<noteq> ''''
                then s1\<lparr>st_idempotency := (st_idempotency s1)(cj_IdempotencyKey cmd \<mapsto>
                       \<lparr>idem_jobID = job_ID j, idem_digest = cj_RequestDigest cmd,
                        idem_createdAt = cj_CreatedAt cmd\<rparr>)\<rparr>
                else s1)
      in (\<lparr>out_Job = j, out_Replayed = False, out_Conflict = False\<rparr>, None, s2))"

definition CreateOrReuse ::
  "ctx \<Rightarrow> create_job \<Rightarrow> mem_store \<Rightarrow> create_outcome \<times> error option \<times> mem_store" where
  "CreateOrReuse c cmd s =
     (case contextErr c of
        Some e \<Rightarrow> (zero_outcome, Some e, s)
      | None \<Rightarrow>
          if cj_IdempotencyKey cmd = '''' then insert_job cmd s
          else
            (let s1 = expire_idempotency cmd s
             in case st_idempotency s1 (cj_IdempotencyKey cmd) of
                  None \<Rightarrow> insert_job cmd s1
                | Some previous \<Rightarrow>
                    (case st_jobs s1 (idem_jobID previous) of
                       None \<Rightarrow> insert_job cmd (drop_idempotency (cj_IdempotencyKey cmd) s1)
                     | Some j \<Rightarrow>
                         if idem_digest previous \<noteq> cj_RequestDigest cmd
                         then (zero_outcome\<lparr>out_Conflict := True\<rparr>,
                               Some ErrIdempotencyConflict, s1)
                         else (\<lparr>out_Job = j, out_Replayed = True, out_Conflict = False\<rparr>,
                               None, s1))))"

definition Get :: "ctx \<Rightarrow> job_id \<Rightarrow> mem_store \<Rightarrow> error + job" where
  "Get c jid s =
     (case contextErr c of
        Some e \<Rightarrow> Inl e
      | None \<Rightarrow> (case st_jobs s jid of None \<Rightarrow> Inl ErrNotFound | Some j \<Rightarrow> Inr j))"

definition retry_job :: "job \<Rightarrow> job_id \<Rightarrow> time \<Rightarrow> job" where
  "retry_job source newID now = zero_job\<lparr>job_ID := newID,
     job_RetryOf := job_ID source,
     job_SubmittedURL := job_SubmittedURL source,
     job_TitleHint := job_TitleHint source,
     job_Profile := job_Profile source,
     job_Status := StatusQueued,
     job_CreatedAt := now,
     job_NextAttemptAt := now,
     job_Version := 1\<rparr>"

definition CreateRetry ::
  "ctx \<Rightarrow> job_id \<Rightarrow> job_id \<Rightarrow> time \<Rightarrow> mem_store \<Rightarrow> (job, mem_store) outcome" where
  "CreateRetry c sourceID newID now s =
     (case contextErr c of
        Some e \<Rightarrow> (Inl e, s)
      | None \<Rightarrow>
          (case st_jobs s sourceID of
             None \<Rightarrow> (Inl ErrNotFound, s)
           | Some source \<Rightarrow>
               if \<not> status_Terminal (job_Status source) then (Inl ErrNotTerminal, s)
               else (let j = retry_job source newID now in (Inr j, put_job j s))))"

text \<open>The job is marked cancelled and then removed, with the record under its key; the mark
  is not observable.\<close>

definition RequestDelete ::
  "ctx \<Rightarrow> job_id \<Rightarrow> time \<Rightarrow> mem_store \<Rightarrow> error option \<times> mem_store" where
  "RequestDelete c jid now s =
     (case contextErr c of
        Some e \<Rightarrow> (Some e, s)
      | None \<Rightarrow>
          (case st_jobs s jid of
             None \<Rightarrow> (Some ErrNotFound, s)
           | Some j \<Rightarrow>
               (let s1 = (if job_IdempotencyKey j \<noteq> ''''
                          then drop_idempotency (job_IdempotencyKey j) s else s)
                in (None, s1\<lparr>st_jobs := (st_jobs s1)(jid := None)\<rparr>))))"

subsection \<open>Listing\<close>

definition beforeCursor :: "job \<Rightarrow> cursor_position \<Rightarrow> bool" where
  "beforeCursor j cursor \<longleftrightarrow>
     (if job_CreatedAt j < cur_CreatedAt cursor then True
      else job_CreatedAt j = cur_CreatedAt cursor \<and> job_ID j < cur_ID cursor)"

text \<open>The comparison of the \<open>sort.Slice\<close> call: newest first, then greatest id first.\<close>

definition list_less :: "job \<Rightarrow> job \<Rightarrow> bool" where
  "list_less a b \<longleftrightarrow>
     (if job_CreatedAt a = job_CreatedAt b then job_ID b < job_ID a
      else job_CreatedAt b < job_CreatedAt a)"

definition list_selects :: "store_list_request \<Rightarrow> job \<Rightarrow> bool" where
  "list_selects request j \<longleftrightarrow>
     (case slr_Status request of None \<Rightarrow> True | Some st \<Rightarrow> job_Status j = st)
     \<and> (case slr_After request of None \<Rightarrow> True | Some p \<Rightarrow> beforeCursor j p)"

definition List_jobs ::
  "ctx \<Rightarrow> store_list_request \<Rightarrow> job_id list \<Rightarrow> mem_store \<Rightarrow> error + store_page" where
  "List_jobs c request order s =
     (case contextErr c of
        Some e \<Rightarrow> Inl e
      | None \<Rightarrow>
          (let jobs = sort_slice list_less
                 (filter (list_selects request) (List.map_filter (st_jobs s) order));
               limit = (if slr_Limit request \<le> 0 then 25 else slr_Limit request);
               hasMore = (limit < int (length jobs))
           in Inr \<lparr>page_Jobs = (if hasMore then take (nat limit) jobs else jobs),
                   page_HasMore = hasMore\<rparr>))"

subsection \<open>Claiming\<close>

text \<open>What the claim loop does to a job whose lease has run out: an interrupted delivery is
  failed and never retried, interrupted processing goes back to the queue.\<close>

definition expired_lease :: "time \<Rightarrow> job \<Rightarrow> bool" where
  "expired_lease now j \<longleftrightarrow> \<not> time_IsZero (job_LeaseUntil j) \<and> \<not> now < job_LeaseUntil j"

definition expire_delivery :: "time \<Rightarrow> job \<Rightarrow> job" where
  "expire_delivery now j = j\<lparr>job_Status := StatusDeliveryFailed, job_Stage := StageNone,
     job_Failure := Some \<lparr>fail_Category = FailureDeliveryTimeout,
        fail_Message = ''Email delivery could not be confirmed'',
        fail_CorrelationID = '''', fail_OccurredAt = now\<rparr>,
     job_CompletedAt := Some now, job_LeaseToken := '''', job_LeaseUntil := zero_time,
     job_NextAttemptAt := now, job_Version := job_Version j + 1\<rparr>"

definition expire_processing :: "time \<Rightarrow> job \<Rightarrow> job" where
  "expire_processing now j = j\<lparr>job_Status := StatusQueued, job_Stage := StageNone,
     job_LeaseToken := '''', job_LeaseUntil := zero_time, job_NextAttemptAt := now,
     job_Failure := None, job_Version := job_Version j + 1\<rparr>"

definition claimable :: "time \<Rightarrow> job \<Rightarrow> bool" where
  "claimable now j \<longleftrightarrow>
     \<not> (job_Status j \<noteq> StatusQueued \<or> job_DeleteRequested j \<or> now < job_NextAttemptAt j)"

definition claim_earlier :: "job \<Rightarrow> job \<Rightarrow> bool" where
  "claim_earlier a b \<longleftrightarrow>
     job_CreatedAt a < job_CreatedAt b
     \<or> (job_CreatedAt a = job_CreatedAt b \<and> job_ID a < job_ID b)"

text \<open>One iteration of the loop: the store and the job selected so far.\<close>

definition claim_visit ::
  "time \<Rightarrow> job_id \<Rightarrow> mem_store \<times> job option \<Rightarrow> mem_store \<times> job option" where
  "claim_visit now jid st =
     (let (s, selected) = st
      in case st_jobs s jid of
           None \<Rightarrow> (s, selected)
         | Some candidate \<Rightarrow>
             if job_Status candidate = StatusDelivering \<and> expired_lease now candidate
             then (s\<lparr>st_jobs := (st_jobs s)(jid \<mapsto> expire_delivery now candidate)\<rparr>, selected)
             else
               (let expired = (job_Status candidate = StatusProcessing
                               \<and> expired_lease now candidate);
                    candidate' = (if expired then expire_processing now candidate
                                  else candidate);
                    s' = (if expired then s\<lparr>st_jobs := (st_jobs s)(jid \<mapsto> candidate')\<rparr>
                          else s)
                in if \<not> claimable now candidate' then (s', selected)
                   else (s', case selected of
                               None \<Rightarrow> Some candidate'
                             | Some best \<Rightarrow> if claim_earlier candidate' best
                                            then Some candidate' else selected)))"

definition lease_job :: "time \<Rightarrow> duration \<Rightarrow> string \<Rightarrow> job \<Rightarrow> job" where
  "lease_job now leaseDuration token j =
     j\<lparr>job_Status := StatusProcessing, job_Stage := StageFetching,
       job_AttemptCount := wrap64 (job_AttemptCount j + 1),
       job_Version := job_Version j + 1, job_LeaseToken := token,
       job_LeaseUntil := (if job_LeaseUntil j < now then now else job_LeaseUntil j)
                         + leaseDuration\<rparr>"

definition ClaimNext ::
  "ctx \<Rightarrow> time \<Rightarrow> duration \<Rightarrow> string \<Rightarrow> job_id list \<Rightarrow> mem_store
     \<Rightarrow> (lease option, mem_store) outcome" where
  "ClaimNext c now leaseDuration token order s =
     (case contextErr c of
        Some e \<Rightarrow> (Inl e, s)
      | None \<Rightarrow>
          (let d = (if leaseDuration \<le> 0 then 5 * Minute else leaseDuration);
               (s1, selected) = fold (claim_visit now) order (s, None)
           in case selected of
                None \<Rightarrow> (Inr None, s1)
              | Some best \<Rightarrow>
                  (let stored = (case st_jobs s1 (job_ID best) of
                                   None \<Rightarrow> zero_job | Some j \<Rightarrow> j);
                       j = lease_job now d token stored
                   in (Inr (Some (NewLease j (job_LeaseToken j) (job_LeaseUntil j))),
                       put_job j s1))))"

subsection \<open>Operations under a lease\<close>

definition RenewLease ::
  "ctx \<Rightarrow> time \<Rightarrow> lease option \<Rightarrow> duration \<Rightarrow> mem_store \<Rightarrow> mem_store lease_result" where
  "RenewLease c now lo leaseDuration s =
     (case contextErr c of
        Some e \<Rightarrow> (Some e, lo, s)
      | None \<Rightarrow>
          (case lo of
             None \<Rightarrow> (Some ErrLeaseLost, lo, s)
           | Some l \<Rightarrow>
               (let d = (if leaseDuration \<le> 0 then 5 * Minute else leaseDuration)
                in case st_jobs s (job_ID (lease_Job l)) of
                     None \<Rightarrow> (Some ErrLeaseLost, lo, s)
                   | Some j \<Rightarrow>
                       if (job_Status j \<noteq> StatusProcessing \<and> job_Status j \<noteq> StatusDelivering)
                          \<or> job_LeaseToken j \<noteq> lease_Token l
                          \<or> job_Version j \<noteq> CurrentVersion lo
                          \<or> \<not> now < job_LeaseUntil j
                       then (Some ErrLeaseLost, lo, s)
                       else
                         (let base = (if job_LeaseUntil j < now then now else job_LeaseUntil j);
                              j' = j\<lparr>job_LeaseUntil := base + d,
                                     job_Version := job_Version j + 1\<rparr>
                          in (None, Observe (job_Version j') (job_LeaseUntil j') (job_Stage j') lo,
                              put_job j' s)))))"

definition SetStage ::
  "ctx \<Rightarrow> time \<Rightarrow> lease option \<Rightarrow> stage \<Rightarrow> mem_store \<Rightarrow> mem_store lease_result" where
  "SetStage c now lo stage s =
     (case contextErr c of
        Some e \<Rightarrow> (Some e, lo, s)
      | None \<Rightarrow>
          if \<not> stage_Valid stage then (Some ErrInvalidStage, lo, s)
          else
            (case lo of
               None \<Rightarrow> (Some ErrLeaseLost, lo, s)
             | Some l \<Rightarrow>
                 (case st_jobs s (job_ID (lease_Job l)) of
                    None \<Rightarrow> (Some ErrLeaseLost, lo, s)
                  | Some j \<Rightarrow>
                      if job_LeaseToken j \<noteq> lease_Token l
                         \<or> job_Status j \<noteq> StatusProcessing
                         \<or> job_Version j \<noteq> CurrentVersion lo
                         \<or> \<not> now < job_LeaseUntil j
                      then (Some ErrLeaseLost, lo, s)
                      else if \<not> CanTransitionTo (job_Stage j) stage
                      then (Some ErrInvalidStage, lo, s)
                      else
                        (let j' = j\<lparr>job_Stage := stage, job_Version := job_Version j + 1\<rparr>
                         in (None, Observe (job_Version j') (job_LeaseUntil j') (job_Stage j') lo,
                             put_job j' s)))))"

definition completed_job :: "completion \<Rightarrow> time \<Rightarrow> job \<Rightarrow> job" where
  "completed_job cm now j =
     (let content = (cmp_Content cm)\<lparr>doc_JobID := job_ID j\<rparr>
      in j\<lparr>job_Content := Some content, job_CanonicalURL := cmp_CanonicalURL cm,
           job_Artifact := Some (cmp_Artifact cm),
           job_AIConfidence := doc_AIConfidence content,
           job_Status := StatusReady, job_Stage := StageNone, job_CompletedAt := Some now,
           job_LeaseToken := '''', job_LeaseUntil := zero_time,
           job_Version := job_Version j + 1\<rparr>)"

definition Complete ::
  "ctx \<Rightarrow> time \<Rightarrow> lease option \<Rightarrow> completion \<Rightarrow> time \<Rightarrow> mem_store \<Rightarrow> mem_store lease_result" where
  "Complete c clock lo cm now s =
     (case contextErr c of
        Some e \<Rightarrow> (Some e, lo, s)
      | None \<Rightarrow>
          if \<not> art_Available (cmp_Artifact cm) \<or> art_ByteSize (cmp_Artifact cm) \<le> 0
             \<or> doc_ID (cmp_Content cm) = ''''
          then (Some (NewError ''incomplete completion''), lo, s)
          else
            (case lo of
               None \<Rightarrow> (Some ErrLeaseLost, lo, s)
             | Some l \<Rightarrow>
                 (case st_jobs s (job_ID (lease_Job l)) of
                    None \<Rightarrow> (Some ErrLeaseLost, lo, s)
                  | Some j \<Rightarrow>
                      if job_LeaseToken j \<noteq> lease_Token l
                         \<or> job_Status j \<noteq> StatusProcessing
                         \<or> job_Version j \<noteq> CurrentVersion lo
                         \<or> \<not> clock < job_LeaseUntil j
                      then (Some ErrLeaseLost, lo, s)
                      else if job_Stage j \<noteq> StagePersisting
                      then (Some ErrInvalidStage, lo, s)
                      else
                        (let j' = completed_job cm now j
                         in (None, Observe (job_Version j') (job_LeaseUntil j') (job_Stage j') lo,
                             put_job j' s)))))"

text \<open>\<open>Requeue\<close> and \<open>Fail\<close> share their guard, which does not look at the status.\<close>

definition lease_lost :: "time \<Rightarrow> lease \<Rightarrow> job option \<Rightarrow> bool" where
  "lease_lost now l jo \<longleftrightarrow>
     (case jo of
        None \<Rightarrow> True
      | Some j \<Rightarrow> job_LeaseToken j \<noteq> lease_Token l
                  \<or> job_Version j \<noteq> CurrentVersion (Some l) \<or> \<not> now < job_LeaseUntil j)"

definition requeued_job :: "time \<Rightarrow> job \<Rightarrow> job" where
  "requeued_job nxt j = j\<lparr>job_Status := StatusQueued, job_Stage := StageNone,
     job_NextAttemptAt := nxt, job_LeaseToken := '''', job_LeaseUntil := zero_time,
     job_Version := job_Version j + 1\<rparr>"

definition Requeue ::
  "ctx \<Rightarrow> time \<Rightarrow> lease option \<Rightarrow> failure \<Rightarrow> time \<Rightarrow> mem_store \<Rightarrow> mem_store lease_result" where
  "Requeue c clock lo f nxt s =
     (case contextErr c of
        Some e \<Rightarrow> (Some e, lo, s)
      | None \<Rightarrow>
          (case lo of
             None \<Rightarrow> (Some ErrLeaseLost, lo, s)
           | Some l \<Rightarrow>
               if lease_lost clock l (st_jobs s (job_ID (lease_Job l)))
               then (Some ErrLeaseLost, lo, s)
               else (let j' = requeued_job nxt (the (st_jobs s (job_ID (lease_Job l))))
                     in (None, Observe (job_Version j') (job_LeaseUntil j') (job_Stage j') lo,
                         put_job j' s))))"

definition failed_job :: "failure \<Rightarrow> time \<Rightarrow> job \<Rightarrow> job" where
  "failed_job f now j =
     (let category = Normalized (fail_Category f);
          f' = f\<lparr>fail_Category := category, fail_Message := Message category,
                 fail_OccurredAt := now\<rparr>
      in j\<lparr>job_Status := StatusFailed, job_Stage := StageNone, job_Failure := Some f',
           job_CompletedAt := Some now, job_LeaseToken := '''', job_LeaseUntil := zero_time,
           job_Version := job_Version j + 1\<rparr>)"

definition Fail ::
  "ctx \<Rightarrow> time \<Rightarrow> lease option \<Rightarrow> failure \<Rightarrow> time \<Rightarrow> mem_store \<Rightarrow> mem_store lease_result" where
  "Fail c clock lo f now s =
     (case contextErr c of
        Some e \<Rightarrow> (Some e, lo, s)
      | None \<Rightarrow>
          (case lo of
             None \<Rightarrow> (Some ErrLeaseLost, lo, s)
           | Some l \<Rightarrow>
               if lease_lost clock l (st_jobs s (job_ID (lease_Job l)))
               then (Some ErrLeaseLost, lo, s)
               else (let j' = failed_job f now (the (st_jobs s (job_ID (lease_Job l))))
                     in (None, Observe (job_Version j') (job_LeaseUntil j') (job_Stage j') lo,
                         put_job j' s))))"

end
