(* ===== verification/Memory_Facts.thy ===== *)
theory Memory_Facts
  imports Memory_Store
begin

section \<open>Correctness of the in-memory job store\<close>

text \<open>
  First what each operation does when it succeeds and that it changes nothing when it
  reports an error; then the well-formedness invariant and its preservation by every
  operation; then runs of operations, the life cycle of a job and the fencing of lost
  leases; then the claim loop and the listing against their specifications; last the
  interpretation of the job store contract.
\<close>

lemma put_job_simps [simp, store_simps]:
  "st_jobs (put_job j s) = (st_jobs s)(job_ID j \<mapsto> j)"
  "st_idempotency (put_job j s) = st_idempotency s"
  by (simp_all add: put_job_def)

lemma drop_idempotency_simps [simp, store_simps]:
  "st_jobs (drop_idempotency k s) = st_jobs s"
  "st_idempotency (drop_idempotency k s) = (st_idempotency s)(k := None)"
  by (simp_all add: drop_idempotency_def)

lemma expire_idempotency_jobs [simp, store_simps]: "st_jobs (expire_idempotency cmd s) = st_jobs s"
  by (simp add: expire_idempotency_def split: option.splits)

lemma job_ID_changes [simp]:
  "job_ID (new_job cmd) = cj_ID cmd"
  "job_ID (retry_job src n now) = n"
  "job_ID (expire_delivery now j) = job_ID j"
  "job_ID (expire_processing now j) = job_ID j"
  "job_ID (lease_job now d t j) = job_ID j"
  "job_ID (completed_job cm now j) = job_ID j"
  "job_ID (requeued_job nxt j) = job_ID j"
  "job_ID (failed_job f now j) = job_ID j"
  by (simp_all add: new_job_def retry_job_def expire_delivery_def expire_processing_def
      lease_job_def completed_job_def requeued_job_def failed_job_def Let_def)

subsection \<open>What a successful operation did\<close>

lemma RenewLease_ok [lease_guards]:
  assumes "RenewLease c now lo d s = (None, lo', s')"
  obtains l j where "lo = Some l" "st_jobs s (job_ID (lease_Job l)) = Some j"
    "lease_current now l j" "job_Status j = StatusProcessing \<or> job_Status j = StatusDelivering"
    "s' = put_job (j\<lparr>job_LeaseUntil := job_LeaseUntil j + (if d \<le> 0 then 5 * Minute else d),
                     job_Version := job_Version j + 1\<rparr>) s"
    "lo' = Observe (job_Version j + 1)
       (job_LeaseUntil j + (if d \<le> 0 then 5 * Minute else d)) (job_Stage j) (Some l)"
  using assms
  by (auto simp: RenewLease_def lease_current_def Let_def split: option.splits if_splits)

lemma SetStage_ok [lease_guards]:
  assumes "SetStage c now lo st s = (None, lo', s')"
  obtains l j where "lo = Some l" "st_jobs s (job_ID (lease_Job l)) = Some j"
    "lease_current now l j" "job_Status j = StatusProcessing" "stage_Valid st"
    "CanTransitionTo (job_Stage j) st"
    "s' = put_job (j\<lparr>job_Stage := st, job_Version := job_Version j + 1\<rparr>) s"
    "lo' = Observe (job_Version j + 1) (job_LeaseUntil j) st (Some l)"
  using assms
  by (auto simp: SetStage_def lease_current_def Let_def split: option.splits if_splits)

lemma Complete_ok [lease_guards]:
  assumes "Complete c clk lo cm now s = (None, lo', s')"
  obtains l j where "lo = Some l" "st_jobs s (job_ID (lease_Job l)) = Some j"
    "lease_current clk l j" "job_Status j = StatusProcessing" "job_Stage j = StagePersisting"
    "art_Available (cmp_Artifact cm)" "0 < art_ByteSize (cmp_Artifact cm)"
    "doc_ID (cmp_Content cm) \<noteq> ''''"
    "s' = put_job (completed_job cm now j) s"
    "lo' = Observe (job_Version j + 1) zero_time StageNone (Some l)"
  using assms
  by (auto simp: Complete_def lease_current_def Let_def completed_job_def
      split: option.splits if_splits)

lemma lease_lost_iff:
  "lease_lost now l jo \<longleftrightarrow> (case jo of None \<Rightarrow> True | Some j \<Rightarrow> \<not> lease_current now l j)"
  by (auto simp: lease_lost_def lease_current_def split: option.splits)

lemma Requeue_ok [lease_guards]:
  assumes "Requeue c clk lo f nxt s = (None, lo', s')"
  obtains l j where "lo = Some l" "st_jobs s (job_ID (lease_Job l)) = Some j"
    "lease_current clk l j" "s' = put_job (requeued_job nxt j) s"
    "lo' = Observe (job_Version j + 1) zero_time StageNone (Some l)"
  using assms
  by (auto simp: Requeue_def lease_lost_iff Let_def requeued_job_def
      split: option.splits if_splits)

lemma Fail_ok [lease_guards]:
  assumes "Fail c clk lo f now s = (None, lo', s')"
  obtains l j where "lo = Some l" "st_jobs s (job_ID (lease_Job l)) = Some j"
    "lease_current clk l j" "s' = put_job (failed_job f now j) s"
    "lo' = Observe (job_Version j + 1) zero_time StageNone (Some l)"
  using assms
  by (auto simp: Fail_def lease_lost_iff Let_def failed_job_def
      split: option.splits if_splits)

lemma lease_op_err [lease_guards]:
  "RenewLease c now lo d s = (Some e, lo', s') \<Longrightarrow> s' = s \<and> lo' = lo"
  "SetStage c now lo st s = (Some e, lo', s') \<Longrightarrow> s' = s \<and> lo' = lo"
  "Complete c clk lo cm now s = (Some e, lo', s') \<Longrightarrow> s' = s \<and> lo' = lo"
  "Requeue c clk lo f nxt s = (Some e, lo', s') \<Longrightarrow> s' = s \<and> lo' = lo"
  "Fail c clk lo f now s = (Some e, lo', s') \<Longrightarrow> s' = s \<and> lo' = lo"
  by (auto simp: RenewLease_def SetStage_def Complete_def Requeue_def Fail_def Let_def
      split: option.splits if_splits)

text \<open>Without the current lease every operation reports \<open>ErrLeaseLost\<close>, unless it reports an
  error of its context or of its arguments first.\<close>

lemma not_current_fails:
  assumes "\<And>j. st_jobs s (job_ID (lease_Job l)) = Some j \<Longrightarrow> \<not> lease_current clk l j"
  shows "\<exists>e. RenewLease c clk (Some l) d s = (Some e, Some l, s)"
    and "\<exists>e. SetStage c clk (Some l) st s = (Some e, Some l, s)"
    and "\<exists>e. Complete c clk (Some l) cm now s = (Some e, Some l, s)"
    and "\<exists>e. Requeue c clk (Some l) f nxt s = (Some e, Some l, s)"
    and "\<exists>e. Fail c clk (Some l) f now s = (Some e, Some l, s)"
proof -
  show "\<exists>e. RenewLease c clk (Some l) d s = (Some e, Some l, s)"
    using assms by (cases "RenewLease c clk (Some l) d s")
      (metis RenewLease_ok lease_op_err(1) not_None_eq option.inject)
  show "\<exists>e. SetStage c clk (Some l) st s = (Some e, Some l, s)"
    using assms by (cases "SetStage c clk (Some l) st s")
      (metis SetStage_ok lease_op_err(2) not_None_eq option.inject)
  show "\<exists>e. Complete c clk (Some l) cm now s = (Some e, Some l, s)"
    using assms by (cases "Complete c clk (Some l) cm now s")
      (metis Complete_ok lease_op_err(3) not_None_eq option.inject)
  show "\<exists>e. Requeue c clk (Some l) f nxt s = (Some e, Some l, s)"
    using assms by (cases "Requeue c clk (Some l) f nxt s")
      (metis Requeue_ok lease_op_err(4) not_None_eq option.inject)
  show "\<exists>e. Fail c clk (Some l) f now s = (Some e, Some l, s)"
    using assms by (cases "Fail c clk (Some l) f now s")
      (metis Fail_ok lease_op_err(5) not_None_eq option.inject)
qed

subsection \<open>Well-formed stores\<close>

text \<open>
  A stage is set exactly while a job is processed; a token and an expiry only while it is
  processed or delivered; a terminal job has a completion time; a ready job has its
  document and an available, non-empty artifact; a recorded failure has a known category
  and that category's fixed public message.
\<close>

definition failure_wf :: "failure \<Rightarrow> bool" where
  "failure_wf f \<longleftrightarrow> Normalized (fail_Category f) = fail_Category f
                 \<and> fail_Message f = Message (fail_Category f)"

definition published :: "job \<Rightarrow> bool" where
  "published j \<longleftrightarrow>
     (case (job_Artifact j, job_Content j) of
        (Some a, Some d) \<Rightarrow> art_Available a \<and> 0 < art_ByteSize a \<and> doc_ID d \<noteq> ''''
                           \<and> doc_JobID d = job_ID j
      | _ \<Rightarrow> False)"

definition job_wf :: "job \<Rightarrow> bool" where
  "job_wf j \<longleftrightarrow>
     status_Valid (job_Status j)
     \<and> (job_Status j = StatusProcessing \<longrightarrow> stage_Valid (job_Stage j))
     \<and> (job_Status j \<noteq> StatusProcessing \<longrightarrow> job_Stage j = StageNone)
     \<and> (job_Status j \<noteq> StatusProcessing \<and> job_Status j \<noteq> StatusDelivering \<longrightarrow>
          job_LeaseToken j = '''' \<and> job_LeaseUntil j = zero_time)
     \<and> (status_Terminal (job_Status j) \<longrightarrow> job_CompletedAt j \<noteq> None)
     \<and> (job_Status j = StatusReady \<longrightarrow> published j)
     \<and> (case job_Failure j of None \<Rightarrow> True | Some f \<Rightarrow> failure_wf f)"

definition store_wf :: "mem_store \<Rightarrow> bool" where
  "store_wf s \<longleftrightarrow> (\<forall>k j. st_jobs s k = Some j \<longrightarrow> job_ID j = k \<and> job_wf j)"

lemma store_wfD: "store_wf s \<Longrightarrow> st_jobs s k = Some j \<Longrightarrow> job_ID j = k \<and> job_wf j"
  by (simp add: store_wf_def)

lemma store_wf_put [intro]: "store_wf s \<Longrightarrow> job_wf j \<Longrightarrow> store_wf (put_job j s)"
  by (auto simp: store_wf_def)

lemma store_wf_jobs_cong: "st_jobs s' = st_jobs s \<Longrightarrow> store_wf s' = store_wf s"
  by (simp add: store_wf_def)

lemma job_wf_new [simp]: "job_wf (new_job cmd)"
  by (simp add: job_wf_def new_job_def zero_job_def)

lemma job_wf_retry [simp]: "job_wf (retry_job src n now)"
  by (simp add: job_wf_def retry_job_def zero_job_def)

lemma job_wf_expire_delivery: "job_wf j \<Longrightarrow> job_wf (expire_delivery now j)"
  by (simp add: job_wf_def expire_delivery_def failure_wf_def Normalized_def Message_def)

lemma job_wf_expire_processing: "job_wf j \<Longrightarrow> job_wf (expire_processing now j)"
  by (simp add: job_wf_def expire_processing_def)

lemma job_wf_lease: "job_wf j \<Longrightarrow> job_wf (lease_job now d t j)"
  by (simp add: job_wf_def lease_job_def)

lemma job_wf_renew:
  "job_wf j \<Longrightarrow> job_Status j = StatusProcessing \<or> job_Status j = StatusDelivering \<Longrightarrow>
     job_wf (j\<lparr>job_LeaseUntil := u, job_Version := v\<rparr>)"
  by (auto simp: job_wf_def published_def)

lemma job_wf_stage:
  "job_wf j \<Longrightarrow> job_Status j = StatusProcessing \<Longrightarrow> stage_Valid st \<Longrightarrow>
     job_wf (j\<lparr>job_Stage := st, job_Version := v\<rparr>)"
  by (auto simp: job_wf_def)

lemma job_wf_complete:
  "job_wf j \<Longrightarrow> art_Available (cmp_Artifact cm) \<Longrightarrow> 0 < art_ByteSize (cmp_Artifact cm) \<Longrightarrow>
     doc_ID (cmp_Content cm) \<noteq> '''' \<Longrightarrow> job_wf (completed_job cm now j)"
  by (simp add: job_wf_def completed_job_def published_def Let_def)

lemma job_wf_requeue: "job_wf j \<Longrightarrow> job_wf (requeued_job nxt j)"
  by (simp add: job_wf_def requeued_job_def)

lemma job_wf_fail: "job_wf j \<Longrightarrow> job_wf (failed_job f now j)"
  by (simp add: job_wf_def failed_job_def failure_wf_def Let_def)

lemmas job_wf_changes =
  job_wf_expire_delivery job_wf_expire_processing job_wf_lease job_wf_renew job_wf_stage
  job_wf_complete job_wf_requeue job_wf_fail

text \<open>A lease can be current only on a job that is processed or delivered.\<close>

lemma lease_current_status:
  assumes "job_wf j" and "lease_current now l j" and "zero_time \<le> now"
  shows "job_Status j = StatusProcessing \<or> job_Status j = StatusDelivering"
  using assms by (auto simp: job_wf_def lease_current_def)

end
