(* ===== verification/Memory_Claim.thy ===== *)
theory Memory_Claim
  imports Memory_Facts
begin

section \<open>The claim loop and the listing\<close>

text \<open>
  \<open>ClaimNext\<close> walks the job map in an order that Go does not fix, repairs jobs whose lease
  has run out and keeps the best job it may claim. Its specification has no loop: every job
  is repaired, and the claimed job is the oldest claimable one. \<open>List_jobs\<close> gets the same
  treatment: a page is a segment of the one descending list of the jobs asked for.
\<close>

subsection \<open>Specification of the claim\<close>

definition repair :: "time \<Rightarrow> job \<Rightarrow> job" where
  "repair now j =
     (if job_Status j = StatusDelivering \<and> expired_lease now j then expire_delivery now j
      else if job_Status j = StatusProcessing \<and> expired_lease now j then expire_processing now j
      else j)"

definition repair_all :: "time \<Rightarrow> mem_store \<Rightarrow> mem_store" where
  "repair_all now s = s\<lparr>st_jobs := \<lambda>k. map_option (repair now) (st_jobs s k)\<rparr>"

definition claimable_jobs :: "time \<Rightarrow> mem_store \<Rightarrow> job set" where
  "claimable_jobs now s = {j. \<exists>k. st_jobs s k = Some j \<and> claimable now j}"

text \<open>An enumeration of the keys of the job map, as a \<open>range\<close> loop visits them.\<close>

definition enumerates :: "job_id list \<Rightarrow> mem_store \<Rightarrow> bool" where
  "enumerates order s \<longleftrightarrow> distinct order \<and> set order = dom (st_jobs s)"

lemma repair_ID [simp]: "job_ID (repair now j) = job_ID j"
  by (simp add: repair_def)

lemma job_wf_repair: "job_wf j \<Longrightarrow> job_wf (repair now j)"
  by (simp add: repair_def job_wf_expire_delivery job_wf_expire_processing)

lemma repair_all_simps [simp, store_simps]:
  "st_jobs (repair_all now s) k = map_option (repair now) (st_jobs s k)"
  "st_idempotency (repair_all now s) = st_idempotency s"
  by (simp_all add: repair_all_def)

lemma store_wf_repair_all: "store_wf s \<Longrightarrow> store_wf (repair_all now s)"
  by (auto simp: store_wf_def job_wf_repair)

subsection \<open>The loop computes it\<close>

definition better :: "job \<Rightarrow> job option \<Rightarrow> job option" where
  "better j selected =
     (case selected of None \<Rightarrow> Some j
      | Some best \<Rightarrow> if claim_earlier j best then Some j else selected)"

lemma claim_visit_eq:
  "claim_visit now k (s, selected) =
     (case st_jobs s k of
        None \<Rightarrow> (s, selected)
      | Some j \<Rightarrow> (s\<lparr>st_jobs := (st_jobs s)(k \<mapsto> repair now j)\<rparr>,
                   if claimable now (repair now j) then better (repair now j) selected
                   else selected))"
proof (cases "st_jobs s k")
  case None
  then show ?thesis by (simp add: claim_visit_def)
next
  case (Some j)
  have same: "s\<lparr>st_jobs := (st_jobs s)(k \<mapsto> j)\<rparr> = s"
    using Some by (simp add: fun_upd_idem)
  have deliv: "\<not> claimable now (expire_delivery now j)"
    by (simp add: claimable_def expire_delivery_def)
  show ?thesis
    using Some same deliv
    by (auto simp: claim_visit_def repair_def better_def Let_def split: option.splits)
qed

lemma fold_claim_visit:
  assumes "distinct order" and "set order \<subseteq> dom (st_jobs s)"
  shows "fold (claim_visit now) order (s, selected) =
     (s\<lparr>st_jobs := \<lambda>k. if k \<in> set order then map_option (repair now) (st_jobs s k)
                      else st_jobs s k\<rparr>,
      fold better
        (filter (claimable now) (map (\<lambda>k. repair now (the (st_jobs s k))) order)) selected)"
  using assms
proof (induction order arbitrary: s selected)
  case Nil
  then show ?case by simp
next
  case (Cons k ks)
  then obtain j where j: "st_jobs s k = Some j" by auto
  let ?s = "s\<lparr>st_jobs := (st_jobs s)(k \<mapsto> repair now j)\<rparr>"
  have dom: "set ks \<subseteq> dom (st_jobs ?s)" using Cons.prems by auto
  have maps: "map (\<lambda>x. repair now (the (st_jobs ?s x))) ks
      = map (\<lambda>x. repair now (the (st_jobs s x))) ks"
    using Cons.prems by auto
  have jobs: "?s\<lparr>st_jobs := \<lambda>x. if x \<in> set ks then map_option (repair now) (st_jobs ?s x)
                                else st_jobs ?s x\<rparr>
      = s\<lparr>st_jobs := \<lambda>x. if x \<in> set (k # ks) then map_option (repair now) (st_jobs s x)
                        else st_jobs s x\<rparr>"
    using Cons.prems j by (auto simp: fun_eq_iff)
  have "distinct ks" using Cons.prems by simp
  note IH = Cons.IH [OF this dom, unfolded maps jobs]
  show ?case using j by (simp add: claim_visit_eq IH)
qed

lemma claim_earlier_position: "claim_earlier a b \<longleftrightarrow> job_position a < job_position b"
  by (simp add: claim_earlier_def job_position_def less_cursor_position_def)

lemma fold_better:
  "fold better js selected =
     (case selected of
        None \<Rightarrow> (case js of [] \<Rightarrow> None | _ \<Rightarrow> Some (arg_min_list job_position js))
      | Some b \<Rightarrow> Some (arg_min_list job_position (b # js)))"
proof (induction js arbitrary: selected)
  case Nil
  then show ?case by (simp split: option.splits)
next
  case (Cons j js)
  show ?case
  proof (cases selected)
    case None
    then show ?thesis using Cons.IH by (simp add: better_def)
  next
    case (Some b)
    have "arg_min_list job_position (b # j # js)
        = arg_min_list job_position ((if claim_earlier j b then j else b) # js)"
      by (cases js) (auto simp: claim_earlier_position Let_def)
    then show ?thesis using Some Cons.IH by (simp add: better_def)
  qed
qed

text \<open>The jobs the loop may claim, repaired, in the order it meets them.\<close>

definition candidates :: "time \<Rightarrow> job_id list \<Rightarrow> mem_store \<Rightarrow> job list" where
  "candidates now order s =
     filter (claimable now) (map (\<lambda>k. repair now (the (st_jobs s k))) order)"

lemma fold_claim_visit_all:
  assumes "enumerates order s"
  shows "fold (claim_visit now) order (s, None) =
     (repair_all now s,
      if candidates now order s = [] then None
      else Some (arg_min_list job_position (candidates now order s)))"
proof -
  have ord: "distinct order" "set order \<subseteq> dom (st_jobs s)" "set order = dom (st_jobs s)"
    using assms by (auto simp: enumerates_def)
  have jobs: "s\<lparr>st_jobs := \<lambda>k. if k \<in> set order then map_option (repair now) (st_jobs s k)
                             else st_jobs s k\<rparr> = repair_all now s"
    using ord(3) by (auto simp: repair_all_def fun_eq_iff domIff)
  show ?thesis
    unfolding fold_claim_visit [OF ord(1,2)] jobs candidates_def [symmetric] fold_better
    by (simp split: list.split)
qed

lemma set_candidates:
  assumes "enumerates order s"
  shows "set (candidates now order s) = claimable_jobs now (repair_all now s)"
proof -
  have dom: "\<And>k. k \<in> set order \<longleftrightarrow> (\<exists>j. st_jobs s k = Some j)"
    using assms by (auto simp: enumerates_def)
  show ?thesis
  proof (intro set_eqI iffI)
    fix x assume "x \<in> set (candidates now order s)"
    then show "x \<in> claimable_jobs now (repair_all now s)"
      using dom by (fastforce simp: candidates_def claimable_jobs_def)
  next
    fix x assume "x \<in> claimable_jobs now (repair_all now s)"
    then obtain k j where "st_jobs s k = Some j" "x = repair now j" "claimable now x"
      by (auto simp: claimable_jobs_def)
    then show "x \<in> set (candidates now order s)"
      using dom [of k] by (force simp: candidates_def)
  qed
qed

definition is_oldest :: "job \<Rightarrow> job set \<Rightarrow> bool" where
  "is_oldest m S \<longleftrightarrow> m \<in> S \<and> (\<forall>j \<in> S. job_position m \<le> job_position j)"

lemma is_oldest_arg_min:
  "js \<noteq> [] \<Longrightarrow> is_oldest (arg_min_list job_position js) (set js)"
  by (simp add: is_oldest_def arg_min_list_in f_arg_min_list_f)

lemma job_position_inj:
  assumes "store_wf s" and "st_jobs s k = Some a" and "st_jobs s k' = Some b"
    and "job_position a = job_position b"
  shows "a = b"
proof -
  have "job_ID a = k" and "job_ID b = k'" using assms store_wfD by blast+
  moreover have "job_ID a = job_ID b" using assms(4) by (simp add: job_position_def)
  ultimately show ?thesis using assms(2,3) by simp
qed

lemma is_oldest_unique:
  assumes "store_wf s" and "is_oldest a (claimable_jobs now s)"
    and "is_oldest b (claimable_jobs now s)"
  shows "a = b"
proof -
  have "job_position a = job_position b"
    using assms(2,3) by (simp add: is_oldest_def order.antisym)
  then show ?thesis
    using job_position_inj [OF assms(1)] assms(2,3)
    by (auto simp: is_oldest_def claimable_jobs_def)
qed

text \<open>The specification of \<open>ClaimNext\<close>, as a relation: no loop and no order.\<close>

definition claim_lease :: "time \<Rightarrow> duration \<Rightarrow> string \<Rightarrow> job \<Rightarrow> lease" where
  "claim_lease now d token m =
     (let j = lease_job now (if d \<le> 0 then 5 * Minute else d) token m
      in NewLease j (job_LeaseToken j) (job_LeaseUntil j))"

definition claim_spec ::
  "time \<Rightarrow> duration \<Rightarrow> string \<Rightarrow> mem_store \<Rightarrow> (lease option, mem_store) outcome \<Rightarrow> bool" where
  "claim_spec now d token s out \<longleftrightarrow>
     (let s1 = repair_all now s
      in if claimable_jobs now s1 = {} then out = (Inr None, s1)
         else \<exists>m. is_oldest m (claimable_jobs now s1)
            \<and> out = (Inr (Some (claim_lease now d token m)),
                     put_job (lease_Job (claim_lease now d token m)) s1))"

lemma claim_lease_simps [simp]:
  "lease_Token (claim_lease now d token m) = token"
  "job_ID (lease_Job (claim_lease now d token m)) = job_ID m"
  "lease_Job (claim_lease now d token m)
     = lease_job now (if d \<le> 0 then 5 * Minute else d) token m"
  by (simp_all add: claim_lease_def NewLease_def lease_job_def Let_def)

lemma ClaimNext_meets_spec:
  assumes wf: "store_wf s" and ord: "enumerates order s" and c: "contextErr c = None"
  shows "claim_spec now d token s (ClaimNext c now d token order s)"
proof -
  let ?s1 = "repair_all now s"
  let ?js = "candidates now order s"
  note loop = fold_claim_visit_all [OF ord, of now] and set_js = set_candidates [OF ord, of now]
  show ?thesis
  proof (cases "?js = []")
    case True
    then have "claimable_jobs now ?s1 = {}" using set_js by (metis empty_set)
    then show ?thesis using True c by (simp add: claim_spec_def ClaimNext_def loop)
  next
    case False
    define m where "m = arg_min_list job_position ?js"
    have old: "is_oldest m (claimable_jobs now ?s1)"
      using is_oldest_arg_min [OF False] set_js by (simp add: m_def)
    then obtain k where k: "st_jobs ?s1 k = Some m"
      by (auto simp: is_oldest_def claimable_jobs_def simp del: repair_all_simps)
    have stored: "st_jobs ?s1 (job_ID m) = Some m"
      using store_wfD [OF store_wf_repair_all [OF wf] k] k by simp
    have sel: "fold (claim_visit now) order (s, None) = (?s1, Some m)"
      using loop False by (simp add: m_def)
    have "ClaimNext c now d token order s =
        (Inr (Some (claim_lease now d token m)),
         put_job (lease_Job (claim_lease now d token m)) ?s1)"
      using c stored unfolding ClaimNext_def sel
      by (simp add: claim_lease_def NewLease_def Let_def del: repair_all_simps)
    moreover have "claimable_jobs now ?s1 \<noteq> {}" using old by (auto simp: is_oldest_def)
    ultimately show ?thesis using old unfolding claim_spec_def Let_def by auto
  qed
qed

lemma claimable_jobs_wf:
  "store_wf s \<Longrightarrow> m \<in> claimable_jobs now s \<Longrightarrow> job_wf m \<and> st_jobs s (job_ID m) = Some m"
  by (auto simp: claimable_jobs_def dest: store_wfD)

lemma claim_spec_functional:
  assumes "store_wf s" and "claim_spec now d token s a" and "claim_spec now d token s b"
  shows "a = b"
  using assms is_oldest_unique [OF store_wf_repair_all [OF assms(1)]]
  by (auto simp: claim_spec_def Let_def split: if_splits)

lemma claim_spec_wf:
  assumes wf: "store_wf s" and spec: "claim_spec now d token s (r, s')"
  shows "store_wf s'"
proof -
  have wf1: "store_wf (repair_all now s)" by (rule store_wf_repair_all [OF wf])
  show ?thesis
  proof (cases "claimable_jobs now (repair_all now s) = {}")
    case True
    then show ?thesis using spec wf1 by (simp add: claim_spec_def)
  next
    case False
    then obtain m where m: "m \<in> claimable_jobs now (repair_all now s)"
      and s': "s' = put_job (lease_Job (claim_lease now d token m)) (repair_all now s)"
      using spec unfolding claim_spec_def Let_def is_oldest_def by auto
    have "job_wf m" using claimable_jobs_wf [OF wf1 m] by simp
    then show ?thesis unfolding s' by (auto intro: store_wf_put [OF wf1] job_wf_lease)
  qed
qed

lemma ClaimNext_wf:
  assumes "store_wf s" and "ClaimNext c now d token order s = (r, s')" and "enumerates order s"
  shows "store_wf s'"
proof (cases "contextErr c")
  case None
  then show ?thesis using assms ClaimNext_meets_spec claim_spec_wf by metis
next
  case (Some e)
  then show ?thesis using assms by (simp add: ClaimNext_def)
qed

end
