(* ===== verification/Memory_List.thy ===== *)
theory Memory_List
  imports Memory_Claim
begin

section \<open>The listing\<close>

text \<open>
  The jobs of a status form one list, strictly descending by creation time and id, whatever
  the order in which the map was read. A page is a segment of it: the first page is a
  prefix, and the page after the cursor of one of its elements starts behind that element.
\<close>

lemma list_less_position: "list_less a b \<longleftrightarrow> job_position b < job_position a"
  by (auto simp: list_less_def job_position_def less_cursor_position_def)

lemma beforeCursor_position: "beforeCursor j p \<longleftrightarrow> job_position j < p"
  by (auto simp: beforeCursor_def job_position_def less_cursor_position_def)

interpretation listing: go_less list_less
  by unfold_locales (auto simp: list_less_position)

definition descending :: "job list \<Rightarrow> bool" where
  "descending js \<longleftrightarrow> sorted_wrt (\<lambda>a b. job_position b < job_position a) js"

lemma descending_unique:
  assumes "descending xs" and "descending ys" and "set xs = set ys"
  shows "xs = ys"
  by (rule strictly_sorted_unique
      [where lt = "\<lambda>a b. job_position b < job_position a"])
    (use assms in \<open>auto simp: descending_def\<close>)

lemma descending_filter: "descending xs \<Longrightarrow> descending (filter P xs)"
  by (simp add: descending_def sorted_wrt_filter)

text \<open>Jobs read from a well-formed store have different positions.\<close>

lemma sorted_wrt_strict:
  assumes "sorted_wrt (\<lambda>x y. \<not> lt y x) xs" and "distinct xs"
    and "\<And>x y. x \<in> set xs \<Longrightarrow> y \<in> set xs \<Longrightarrow> x \<noteq> y \<Longrightarrow> lt x y \<or> lt y x"
  shows "sorted_wrt lt xs"
  using assms
proof (induction xs)
  case (Cons x xs)
  have "lt x y" if "y \<in> set xs" for y
  proof -
    have "x \<noteq> y" using Cons.prems(2) that by auto
    then show ?thesis using Cons.prems(1) Cons.prems(3) [of x y] that by auto
  qed
  moreover have "sorted_wrt lt xs" using Cons by auto
  ultimately show ?case by simp
qed simp

lemma set_read_jobs:
  assumes "enumerates order s"
  shows "set (List.map_filter (st_jobs s) order) = {j. \<exists>k. st_jobs s k = Some j}"
proof -
  have "set order = dom (st_jobs s)" using assms by (simp add: enumerates_def)
  then show ?thesis by (force simp: List.map_filter_def image_iff dom_def)
qed

lemma distinct_read_jobs:
  assumes "store_wf s" and "distinct order"
  shows "distinct (List.map_filter (st_jobs s) order)"
  using assms(2)
proof (induction order)
  case Nil
  then show ?case by (simp add: List.map_filter_def)
next
  case (Cons k ks)
  show ?case
  proof (cases "st_jobs s k")
    case None
    then show ?thesis using Cons by (simp add: List.map_filter_def)
  next
    case (Some j)
    have "j \<notin> set (List.map_filter (st_jobs s) ks)"
    proof
      assume "j \<in> set (List.map_filter (st_jobs s) ks)"
      then obtain k' where "k' \<in> set ks" "st_jobs s k' = Some j"
        by (auto simp: List.map_filter_def)
      then have "k' = k" using store_wfD [OF assms(1)] Some by metis
      then show False using Cons.prems \<open>k' \<in> set ks\<close> by simp
    qed
    then show ?thesis using Cons Some by (simp add: List.map_filter_def)
  qed
qed

definition has_status :: "status option \<Rightarrow> job \<Rightarrow> bool" where
  "has_status st j \<longleftrightarrow> (case st of None \<Rightarrow> True | Some x \<Rightarrow> job_Status j = x)"

definition listing :: "status option \<Rightarrow> job_id list \<Rightarrow> mem_store \<Rightarrow> job list" where
  "listing st order s =
     sort_slice list_less (filter (has_status st) (List.map_filter (st_jobs s) order))"

lemma set_listing:
  "enumerates order s \<Longrightarrow>
     set (listing st order s) = {j. (\<exists>k. st_jobs s k = Some j) \<and> has_status st j}"
  by (auto simp: listing_def set_read_jobs)

lemma descending_sorted:
  assumes "store_wf s" and "enumerates order s" and "set js \<subseteq> {j. \<exists>k. st_jobs s k = Some j}"
    and "distinct js"
  shows "descending (sort_slice list_less js)"
proof -
  have "sorted_wrt list_less (sort_slice list_less js)"
  proof (rule sorted_wrt_strict)
    show "sorted_wrt (\<lambda>x y. \<not> list_less y x) (sort_slice list_less js)"
      using listing.ordered_sort by (simp add: ordered_by_def)
    show "distinct (sort_slice list_less js)" using assms(4) by simp
    fix x y
    assume "x \<in> set (sort_slice list_less js)" "y \<in> set (sort_slice list_less js)" "x \<noteq> y"
    moreover from this have "x \<in> {j. \<exists>k. st_jobs s k = Some j}"
      and "y \<in> {j. \<exists>k. st_jobs s k = Some j}"
      using assms(3) by auto
    ultimately obtain k k' where "st_jobs s k = Some x" "st_jobs s k' = Some y" "x \<noteq> y"
      by blast
    then have "job_position x \<noteq> job_position y"
      using job_position_inj [OF assms(1)] by blast
    then show "list_less x y \<or> list_less y x" by (auto simp: list_less_position)
  qed
  moreover have "list_less = (\<lambda>a b. job_position b < job_position a)"
    by (simp add: fun_eq_iff list_less_position)
  ultimately show ?thesis by (simp add: descending_def)
qed

lemma descending_listing:
  assumes "store_wf s" and "enumerates order s"
  shows "descending (listing st order s)"
  unfolding listing_def
  by (rule descending_sorted [OF assms])
    (use assms set_read_jobs distinct_read_jobs in \<open>auto simp: enumerates_def\<close>)

lemma listing_order_irrelevant:
  assumes "store_wf s" and "enumerates o1 s" and "enumerates o2 s"
  shows "listing st o1 s = listing st o2 s"
  by (rule descending_unique) (simp_all add: descending_listing set_listing assms)

lemma descending_facts:
  assumes "descending js"
  shows "distinct js" and "sorted_wrt list_less js"
proof -
  have "list_less = (\<lambda>a b. job_position b < job_position a)"
    by (simp add: fun_eq_iff list_less_position)
  then show s: "sorted_wrt list_less js" using assms by (simp add: descending_def)
  then show "distinct js" by (induction js) (auto simp: list_less_position)
qed

lemma length_listing: "length (listing st order s) \<le> length order"
proof -
  have "length (filter (has_status st) (List.map_filter (st_jobs s) order))
      \<le> length (List.map_filter (st_jobs s) order)" by simp
  also have "\<dots> \<le> length order" by (simp add: List.map_filter_def)
  finally show ?thesis by (simp add: listing_def)
qed

text \<open>The jobs a request selects are the part of the listing behind its cursor.\<close>

definition behind :: "cursor_position option \<Rightarrow> job list \<Rightarrow> job list" where
  "behind after js = (case after of None \<Rightarrow> js | Some p \<Rightarrow> filter (\<lambda>j. job_position j < p) js)"

lemma descending_behind: "descending js \<Longrightarrow> descending (behind after js)"
  by (auto simp: behind_def descending_filter split: option.split)

lemma selected_listing:
  assumes "store_wf s" and "enumerates order s"
  shows "sort_slice list_less
           (filter (list_selects request) (List.map_filter (st_jobs s) order))
       = behind (slr_After request) (listing (slr_Status request) order s)"
proof (rule descending_unique)
  show "descending (sort_slice list_less
           (filter (list_selects request) (List.map_filter (st_jobs s) order)))"
    by (rule descending_sorted [OF assms])
      (use assms set_read_jobs distinct_read_jobs in \<open>auto simp: enumerates_def\<close>)
  show "descending (behind (slr_After request) (listing (slr_Status request) order s))"
    by (intro descending_behind descending_listing assms)
  show "set (sort_slice list_less
           (filter (list_selects request) (List.map_filter (st_jobs s) order)))
      = set (behind (slr_After request) (listing (slr_Status request) order s))"
    using set_read_jobs [OF assms(2)] set_listing [OF assms(2)]
    by (auto simp: behind_def list_selects_def has_status_def beforeCursor_position
        split: option.splits)
qed

lemma behind_drop:
  assumes "descending js" and "i < length js"
  shows "behind (Some (job_position (js ! i))) js = drop (Suc i) js"
proof -
  have js: "take i js @ js ! i # drop (Suc i) js = js"
    using assms(2) by (simp add: id_take_nth_drop [symmetric])
  have "filter (\<lambda>j. job_position j < job_position (js ! i))
          (take i js @ js ! i # drop (Suc i) js) = drop (Suc i) js"
    by (rule sorted_wrt_filter_split [where R = "\<lambda>a b. job_position b < job_position a"])
      (use assms(1) js in \<open>auto simp: descending_def\<close>)
  then show ?thesis by (simp add: behind_def js)
qed

lemma behind_None: "behind None js = js"
  by (simp add: behind_def)

definition page_of :: "int \<Rightarrow> job list \<Rightarrow> store_page" where
  "page_of limit js =
     (let n = (if limit \<le> 0 then 25 else limit)
      in \<lparr>page_Jobs = take (nat n) js, page_HasMore = (n < int (length js))\<rparr>)"

lemma List_jobs_eq:
  assumes "store_wf s" and "enumerates order s" and "contextErr c = None"
  shows "List_jobs c request order s =
     Inr (page_of (slr_Limit request)
       (behind (slr_After request) (listing (slr_Status request) order s)))"
  using assms(3)
  by (auto simp: List_jobs_def selected_listing [OF assms(1,2)] page_of_def Let_def)

end
