(* ===== verification/Memory_Runs.thy ===== *)
theory Memory_Runs
  imports Memory_List
begin

section \<open>Runs of the in-memory store\<close>

text \<open>
  The operations as steps of a state machine: any number of clients and workers call them
  in any order. A creating step uses an id that is not taken (the ids are random), a claim
  visits every job once, and no clock reads an instant before the zero time. The invariant,
  the life cycle of a job and the fencing of lost leases hold in every run; the job store
  contract is interpreted on the store at the end.
\<close>

datatype mem_op =
    OpCreate ctx create_job
  | OpRetry ctx job_id job_id time
  | OpDelete ctx job_id time
  | OpClaim ctx time duration string "job_id list"
  | OpRenew ctx time "lease option" duration
  | OpSetStage ctx time "lease option" stage
  | OpComplete ctx time "lease option" completion time
  | OpRequeue ctx time "lease option" failure time
  | OpFail ctx time "lease option" failure time

inductive mem_step :: "mem_store \<Rightarrow> mem_op \<Rightarrow> mem_store \<Rightarrow> bool" where
  step_create: "cj_ID cmd \<notin> dom (st_jobs s) \<Longrightarrow> CreateOrReuse c cmd s = (out, e, s') \<Longrightarrow>
     mem_step s (OpCreate c cmd) s'"
| step_retry: "newID \<notin> dom (st_jobs s) \<Longrightarrow> CreateRetry c src newID now s = (r, s') \<Longrightarrow>
     mem_step s (OpRetry c src newID now) s'"
| step_delete: "RequestDelete c jid now s = (e, s') \<Longrightarrow> mem_step s (OpDelete c jid now) s'"
| step_claim: "enumerates order s \<Longrightarrow> ClaimNext c now d token order s = (q, s') \<Longrightarrow>
     mem_step s (OpClaim c now d token order) s'"
| step_renew: "zero_time \<le> clk \<Longrightarrow> RenewLease c clk lo d s = (e, lo', s') \<Longrightarrow>
     mem_step s (OpRenew c clk lo d) s'"
| step_stage: "zero_time \<le> clk \<Longrightarrow> SetStage c clk lo st s = (e, lo', s') \<Longrightarrow>
     mem_step s (OpSetStage c clk lo st) s'"
| step_complete: "zero_time \<le> clk \<Longrightarrow> Complete c clk lo cm now s = (e, lo', s') \<Longrightarrow>
     mem_step s (OpComplete c clk lo cm now) s'"
| step_requeue: "zero_time \<le> clk \<Longrightarrow> Requeue c clk lo f nxt s = (e, lo', s') \<Longrightarrow>
     mem_step s (OpRequeue c clk lo f nxt) s'"
| step_fail: "zero_time \<le> clk \<Longrightarrow> Fail c clk lo f now s = (e, lo', s') \<Longrightarrow>
     mem_step s (OpFail c clk lo f now) s'"

inductive_cases step_createE: "mem_step s (OpCreate c cmd) s'"
inductive_cases step_claimE: "mem_step s (OpClaim c now d token order) s'"

inductive mem_run :: "mem_store \<Rightarrow> mem_op list \<Rightarrow> mem_store \<Rightarrow> bool" where
  run_nil: "mem_run s [] s"
| run_cons: "mem_step s oper s1 \<Longrightarrow> mem_run s1 opers s2 \<Longrightarrow> mem_run s (oper # opers) s2"

inductive_simps mem_run_Nil [simp]: "mem_run s [] s'"
inductive_simps mem_run_Cons: "mem_run s (oper # opers) s'"

subsection \<open>What a step does to the job map\<close>

text \<open>The possible changes: none, a new queued job, a removal, a claim, or one change under
  the current lease.\<close>

inductive lease_change :: "job \<Rightarrow> job \<Rightarrow> bool" where
  change_renew: "job_Status j = StatusProcessing \<or> job_Status j = StatusDelivering \<Longrightarrow>
     lease_change j (j\<lparr>job_LeaseUntil := u, job_Version := job_Version j + 1\<rparr>)"
| change_stage: "job_Status j = StatusProcessing \<Longrightarrow> CanTransitionTo (job_Stage j) st \<Longrightarrow>
     lease_change j (j\<lparr>job_Stage := st, job_Version := job_Version j + 1\<rparr>)"
| change_complete: "job_Status j = StatusProcessing \<Longrightarrow> job_Stage j = StagePersisting \<Longrightarrow>
     art_Available (cmp_Artifact cm) \<Longrightarrow> 0 < art_ByteSize (cmp_Artifact cm) \<Longrightarrow>
     doc_ID (cmp_Content cm) \<noteq> '''' \<Longrightarrow> lease_change j (completed_job cm now j)"
| change_requeue: "job_Status j = StatusProcessing \<or> job_Status j = StatusDelivering \<Longrightarrow>
     lease_change j (requeued_job nxt j)"
| change_fail: "job_Status j = StatusProcessing \<or> job_Status j = StatusDelivering \<Longrightarrow>
     lease_change j (failed_job f now j)"

inductive jobs_change :: "mem_op \<Rightarrow> mem_store \<Rightarrow> mem_store \<Rightarrow> bool" where
  jc_same: "st_jobs s' = st_jobs s \<Longrightarrow> jobs_change oper s s'"
| jc_new: "job_ID j \<notin> dom (st_jobs s) \<Longrightarrow> job_Status j = StatusQueued \<Longrightarrow> job_wf j \<Longrightarrow>
     st_jobs s' = (st_jobs s)(job_ID j \<mapsto> j) \<Longrightarrow> jobs_change oper s s'"
| jc_delete: "st_jobs s' = (st_jobs s)(jid := None) \<Longrightarrow>
     jobs_change (OpDelete c jid now) s s'"
| jc_claim: "claim_spec now d token s (r, s') \<Longrightarrow>
     jobs_change (OpClaim c now d token order) s s'"
| jc_lease: "st_jobs s (job_ID j) = Some j \<Longrightarrow> job_wf j \<Longrightarrow> lease_change j j' \<Longrightarrow>
     st_jobs s' = (st_jobs s)(job_ID j \<mapsto> j') \<Longrightarrow> jobs_change oper s s'"

lemma lease_change_ID: "lease_change j j' \<Longrightarrow> job_ID j' = job_ID j"
  by (induction rule: lease_change.induct) simp_all

lemma lease_change_wf: "lease_change j j' \<Longrightarrow> job_wf j \<Longrightarrow> job_wf j'"
  by (induction rule: lease_change.induct)
    (auto intro: job_wf_renew job_wf_stage job_wf_complete job_wf_requeue job_wf_fail
      dest: CanTransitionTo_valid)

lemma insert_job_jobs:
  "insert_job cmd s = (out, e, s') \<Longrightarrow> st_jobs s' = (st_jobs s)(cj_ID cmd \<mapsto> new_job cmd)"
  by (auto simp: insert_job_def Let_def split: if_splits)

lemma CreateOrReuse_jobs:
  "CreateOrReuse c cmd s = (out, e, s') \<Longrightarrow>
     st_jobs s' = st_jobs s \<or> st_jobs s' = (st_jobs s)(cj_ID cmd \<mapsto> new_job cmd)"
  by (auto simp: CreateOrReuse_def Let_def dest: insert_job_jobs
      split: option.splits if_splits)

lemma new_job_status [simp]: "job_Status (new_job cmd) = StatusQueued"
  by (simp add: new_job_def)

lemma retry_job_status [simp]: "job_Status (retry_job src n now) = StatusQueued"
  by (simp add: retry_job_def)

text \<open>An operation under a lease is a lease change of the stored job.\<close>

lemma lease_step_change:
  assumes wf: "store_wf s" and clk: "zero_time \<le> clk"
    and j: "st_jobs s (job_ID (lease_Job l)) = Some j" and cur: "lease_current clk l j"
    and s': "s' = put_job j' s"
    and ch: "job_Status j = StatusProcessing \<or> job_Status j = StatusDelivering \<Longrightarrow> lease_change j j'"
  shows "jobs_change oper s s'"
proof -
  have jid: "job_ID j = job_ID (lease_Job l)" and wfj: "job_wf j"
    using store_wfD [OF wf j] by auto
  have change: "lease_change j j'" using ch lease_current_status [OF wfj cur clk] by simp
  show ?thesis
  proof (rule jc_lease [OF _ wfj change])
    show "st_jobs s (job_ID j) = Some j" using j jid by simp
    show "st_jobs s' = (st_jobs s)(job_ID j \<mapsto> j')"
      using s' lease_change_ID [OF change] by simp
  qed
qed

lemma jc_unchanged: "s' = s \<Longrightarrow> jobs_change oper s s'"
  by (rule jc_same) simp

lemma mem_step_change:
  assumes "mem_step s oper s'" and wf: "store_wf s"
  shows "jobs_change oper s s'"
  using assms
proof (induction rule: mem_step.induct)
  case (step_create cmd s c out e s')
  then show ?case
    using CreateOrReuse_jobs [OF step_create(2)]
    by (auto intro: jc_same jc_new [where j = "new_job cmd"])
next
  case (step_retry newID s c src now r s')
  then show ?case
    by (auto simp: CreateRetry_def Let_def split: option.splits if_splits
        intro: jc_unchanged jc_new [where j = "retry_job (the (st_jobs s src)) newID now"])
next
  case (step_delete c jid now s e s')
  then show ?case
    by (auto simp: RequestDelete_def Let_def split: option.splits if_splits
        intro: jc_unchanged jc_delete)
next
  case (step_claim order s c now d token q s')
  show ?case
  proof (cases "contextErr c")
    case None
    then have "claim_spec now d token s (q, s')"
      using ClaimNext_meets_spec [OF step_claim(3,1)] step_claim(2) by metis
    then show ?thesis by (rule jc_claim)
  next
    case (Some err)
    then show ?thesis using step_claim(2) by (simp add: ClaimNext_def jc_unchanged)
  qed
next
  case (step_renew clk c lo d s e lo' s')
  show ?case
  proof (cases e)
    case None
    then show ?thesis using step_renew(2)
      by (auto elim!: RenewLease_ok intro!: lease_step_change [OF step_renew(3,1)] change_renew)
  next
    case (Some x)
    then show ?thesis using step_renew(2) by (auto dest: lease_op_err intro: jc_unchanged)
  qed
next
  case (step_stage clk c lo st s e lo' s')
  show ?case
  proof (cases e)
    case None
    then show ?thesis using step_stage(2)
      by (auto elim!: SetStage_ok intro!: lease_step_change [OF step_stage(3,1)] change_stage)
  next
    case (Some x)
    then show ?thesis using step_stage(2) by (auto dest: lease_op_err intro: jc_unchanged)
  qed
next
  case (step_complete clk c lo cm now s e lo' s')
  show ?case
  proof (cases e)
    case None
    then show ?thesis using step_complete(2)
      by (auto elim!: Complete_ok intro!: lease_step_change [OF step_complete(3,1)]
          change_complete)
  next
    case (Some x)
    then show ?thesis using step_complete(2) by (auto dest: lease_op_err intro: jc_unchanged)
  qed
next
  case (step_requeue clk c lo f nxt s e lo' s')
  show ?case
  proof (cases e)
    case None
    then show ?thesis using step_requeue(2)
      by (auto elim!: Requeue_ok intro!: lease_step_change [OF step_requeue(3,1)] change_requeue)
  next
    case (Some x)
    then show ?thesis using step_requeue(2) by (auto dest: lease_op_err intro: jc_unchanged)
  qed
next
  case (step_fail clk c lo f now s e lo' s')
  show ?case
  proof (cases e)
    case None
    then show ?thesis using step_fail(2)
      by (auto elim!: Fail_ok intro!: lease_step_change [OF step_fail(3,1)] change_fail)
  next
    case (Some x)
    then show ?thesis using step_fail(2) by (auto dest: lease_op_err intro: jc_unchanged)
  qed
qed

subsection \<open>The invariant\<close>

lemma jobs_change_wf: "jobs_change oper s s' \<Longrightarrow> store_wf s \<Longrightarrow> store_wf s'"
proof (induction rule: jobs_change.induct)
  case (jc_claim now d token s r s' c order)
  then show ?case using claim_spec_wf by blast
next
  case (jc_lease s j j' s' oper)
  have "job_wf j'" and "job_ID j' = job_ID j"
    using lease_change_wf lease_change_ID jc_lease(2,3) by auto
  then show ?case using jc_lease(4,5) by (simp add: store_wf_def)
next
  case (jc_same s' s oper)
  then show ?case using store_wf_jobs_cong by blast
next
  case (jc_new j s s' oper)
  then show ?case by (simp add: store_wf_def)
next
  case (jc_delete s' s jid c now)
  then show ?case by (simp add: store_wf_def)
qed

lemma mem_step_wf: "mem_step s oper s' \<Longrightarrow> store_wf s \<Longrightarrow> store_wf s'"
  using mem_step_change jobs_change_wf by blast

lemma store_wf_NewStore: "store_wf NewStore"
  by (simp add: store_wf_def NewStore_def)

lemma mem_run_wf: "mem_run s opers s' \<Longrightarrow> store_wf s \<Longrightarrow> store_wf s'"
  by (induction rule: mem_run.induct) (auto intro: mem_step_wf)

end
