(* ===== verification/Memory_Safety.thy ===== *)
theory Memory_Safety
  imports Memory_Runs
begin

section \<open>Safety of the in-memory store\<close>

text \<open>
  The life cycle of a job, the fencing of workers that lost their lease, idempotent
  submission, and the job store contract.
\<close>

subsection \<open>The life cycle of a job\<close>

inductive status_next :: "status \<Rightarrow> status \<Rightarrow> bool" where
  next_claim: "status_next StatusQueued StatusProcessing"
| next_work: "status_next StatusProcessing StatusProcessing"
| next_requeue: "status_next StatusProcessing StatusQueued"
| next_ready: "status_next StatusProcessing StatusReady"
| next_failed: "status_next StatusProcessing StatusFailed"
| next_deliver: "status_next StatusDelivering StatusDelivering"
| next_unconfirmed: "status_next StatusDelivering StatusDeliveryFailed"
| next_deliver_requeue: "status_next StatusDelivering StatusQueued"
| next_deliver_failed: "status_next StatusDelivering StatusFailed"

lemma status_next_not_terminal: "status_next st st' \<Longrightarrow> \<not> status_Terminal st"
  by (induction rule: status_next.induct) simp_all

lemma lease_change_status: "lease_change j j' \<Longrightarrow> status_next (job_Status j) (job_Status j')"
  by (induction rule: lease_change.induct)
    (auto simp: completed_job_def requeued_job_def failed_job_def Let_def
      intro: status_next.intros)

lemma repair_status:
  "repair now j = j \<or> status_next (job_Status j) (job_Status (repair now j))"
  by (auto simp: repair_def expire_delivery_def expire_processing_def intro: status_next.intros)

lemma claim_changes:
  assumes wf: "store_wf s" and spec: "claim_spec now d token s (r, s')"
    and j: "st_jobs s k = Some j"
  shows "st_jobs s' k = Some (repair now j)
    \<or> (claimable now (repair now j)
       \<and> st_jobs s' k = Some (lease_job now (if d \<le> 0 then 5 * Minute else d) token (repair now j)))"
proof -
  have rk: "st_jobs (repair_all now s) k = Some (repair now j)" using j by simp
  show ?thesis
  proof (cases "claimable_jobs now (repair_all now s) = {}")
    case True
    then show ?thesis using spec rk by (simp add: claim_spec_def)
  next
    case False
    then obtain m where m: "m \<in> claimable_jobs now (repair_all now s)"
      and s': "s' = put_job (lease_job now (if d \<le> 0 then 5 * Minute else d) token m)
                      (repair_all now s)"
      using spec unfolding claim_spec_def Let_def is_oldest_def by auto
    have stored: "st_jobs (repair_all now s) (job_ID m) = Some m"
      using claimable_jobs_wf [OF store_wf_repair_all [OF wf] m] by simp
    show ?thesis
    proof (cases "job_ID m = k")
      case True
      then have "m = repair now j" using stored j by simp
      then show ?thesis using m True s' by (auto simp: claimable_jobs_def)
    next
      case False
      then show ?thesis using s' rk by simp
    qed
  qed
qed

lemma claim_spec_dom:
  assumes "store_wf s" and "claim_spec now d token s (r, s')" and "st_jobs s k = None"
  shows "st_jobs s' k = None"
proof -
  have wf1: "store_wf (repair_all now s)" by (rule store_wf_repair_all [OF assms(1)])
  have r: "st_jobs (repair_all now s) k = None" using assms(3) by simp
  show ?thesis
  proof (cases "claimable_jobs now (repair_all now s) = {}")
    case True
    then show ?thesis using assms(2) r by (simp add: claim_spec_def)
  next
    case False
    then obtain m where m: "m \<in> claimable_jobs now (repair_all now s)"
      and s': "s' = put_job (lease_job now (if d \<le> 0 then 5 * Minute else d) token m)
                      (repair_all now s)"
      using assms(2) unfolding claim_spec_def Let_def is_oldest_def by auto
    have "job_ID m \<noteq> k" using claimable_jobs_wf [OF wf1 m] r by auto
    then show ?thesis using s' r by simp
  qed
qed

lemma claimable_queued: "claimable now j \<Longrightarrow> job_Status j = StatusQueued"
  by (simp add: claimable_def)

lemma jobs_change_status:
  assumes "jobs_change oper s s'" and "store_wf s"
    and "st_jobs s k = Some j" and "st_jobs s' k = Some j'"
  shows "j' = j \<or> status_next (job_Status j) (job_Status j')"
  using assms
proof (induction rule: jobs_change.induct)
  case (jc_claim now d token s r s' c order)
  let ?r = "repair now j"
  have "j' = ?r \<or> (claimable now ?r \<and> job_Status j' = StatusProcessing)"
    using claim_changes [OF jc_claim(2,1,3)] jc_claim(4) by (auto simp: lease_job_def)
  then show ?case
  proof
    assume "j' = ?r"
    then show ?thesis using repair_status by metis
  next
    assume c: "claimable now ?r \<and> job_Status j' = StatusProcessing"
    then have q: "job_Status ?r = StatusQueued" using claimable_queued by blast
    then have "job_Status j = StatusQueued \<or> job_Status j = StatusProcessing"
      by (auto simp: repair_def expire_delivery_def split: if_splits)
    then show ?thesis using c by (auto intro: status_next.intros)
  qed
next
  case (jc_lease s x x' s' oper)
  then show ?case using lease_change_status by (auto split: if_splits)
qed (auto split: if_splits)

text \<open>A stored terminal job never changes; it can only be removed.\<close>

lemma mem_step_terminal:
  assumes "mem_step s oper s'" and "store_wf s" and "st_jobs s k = Some j"
    and "status_Terminal (job_Status j)"
  shows "st_jobs s' k = Some j \<or> (st_jobs s' k = None \<and> (\<exists>c now. oper = OpDelete c k now))"
  using mem_step_change [OF assms(1,2)] assms(2-4)
proof (induction rule: jobs_change.induct)
  case (jc_claim now d token s r s' c order)
  have "\<not> (job_Status j = StatusDelivering \<or> job_Status j = StatusProcessing)"
    using jc_claim(4) by auto
  then have same: "repair now j = j" by (auto simp: repair_def)
  then have "\<not> claimable now (repair now j)"
    using jc_claim(4) by (auto simp: claimable_def)
  then show ?case using claim_changes [OF jc_claim(2,1,3)] same by simp
next
  case (jc_lease s x x' s' oper)
  show ?case
  proof (cases "k = job_ID x")
    case True
    then have "status_Terminal (job_Status x)" using jc_lease by simp
    then show ?thesis
      using lease_change_status [OF jc_lease(3)] status_next_not_terminal by blast
  next
    case False
    then show ?thesis using jc_lease by simp
  qed
next
  case (jc_same s' s oper)
  then show ?case by simp
next
  case (jc_new x s s' oper)
  then show ?case by auto
next
  case (jc_delete s' s jid c now)
  then show ?case by auto
qed

lemma mem_run_terminal:
  assumes "mem_run s opers s'" and "store_wf s" and "st_jobs s k = Some j"
    and "status_Terminal (job_Status j)" and "\<forall>c now. OpDelete c k now \<notin> set opers"
  shows "st_jobs s' k = Some j"
  using assms
proof (induction rule: mem_run.induct)
  case (run_nil s)
  then show ?case by simp
next
  case (run_cons s oper s1 opers s2)
  have "st_jobs s1 k = Some j"
    using mem_step_terminal [OF run_cons(1,4,5,6)] run_cons(7) by auto
  then show ?case using run_cons mem_step_wf by auto
qed

subsection \<open>The way to publication\<close>

text \<open>A job that has not reached the formatting stage of its current attempt.\<close>

definition unformatted :: "job option \<Rightarrow> bool" where
  "unformatted jo \<longleftrightarrow>
     (case jo of None \<Rightarrow> True
      | Some j \<Rightarrow> job_Status j \<noteq> StatusReady
          \<and> \<not> (job_Status j = StatusProcessing
               \<and> (job_Stage j = StageFormatting \<or> job_Stage j = StagePersisting)))"

definition formatting :: "job option \<Rightarrow> bool" where
  "formatting jo \<longleftrightarrow>
     (\<exists>j. jo = Some j \<and> job_Status j = StatusProcessing \<and> job_Stage j = StageFormatting)"

lemma lease_change_unformatted:
  "lease_change j j' \<Longrightarrow> unformatted (Some j) \<Longrightarrow> unformatted (Some j') \<or> formatting (Some j')"
  by (induction rule: lease_change.induct)
    (auto simp: unformatted_def formatting_def requeued_job_def failed_job_def Let_def
      dest: CanTransitionTo_persisting)

lemma unformatted_step:
  assumes "mem_step s oper s'" and "store_wf s" and "unformatted (st_jobs s k)"
  shows "unformatted (st_jobs s' k) \<or> formatting (st_jobs s' k)"
  using mem_step_change [OF assms(1,2)] assms(2,3)
proof (induction rule: jobs_change.induct)
  case (jc_claim now d token s r s' c order)
  show ?case
  proof (cases "st_jobs s k")
    case None
    then show ?thesis using claim_spec_dom [OF jc_claim(2,1)] by (simp add: unformatted_def)
  next
    case (Some j)
    have "unformatted (Some (repair now j))"
      using jc_claim(3) Some
      by (auto simp: unformatted_def repair_def expire_delivery_def expire_processing_def)
    then show ?thesis using claim_changes [OF jc_claim(2,1) Some]
      by (auto simp: unformatted_def lease_job_def)
  qed
next
  case (jc_lease s j j' s' oper)
  then show ?case using lease_change_unformatted [OF jc_lease(3)] by (auto split: if_splits)
qed (auto simp: unformatted_def)

lemma unformatted_run:
  assumes "mem_run s opers s'" and "store_wf s" and "unformatted (st_jobs s k)"
    and "\<not> unformatted (st_jobs s' k)"
  shows "\<exists>pre post sm. opers = pre @ post \<and> mem_run s pre sm \<and> mem_run sm post s'
    \<and> formatting (st_jobs sm k)"
  using assms
proof (induction rule: mem_run.induct)
  case (run_cons s oper s1 opers s2)
  show ?case
  proof (cases "formatting (st_jobs s1 k)")
    case True
    then show ?thesis using run_cons(1,2) mem_run.intros
      by (intro exI [of _ "[oper]"] exI [of _ opers] exI [of _ s1]) auto
  next
    case False
    then have "unformatted (st_jobs s1 k)" using unformatted_step run_cons by blast
    then obtain pre post sm where "opers = pre @ post" "mem_run s1 pre sm" "mem_run sm post s2"
      and "formatting (st_jobs sm k)"
      using run_cons mem_step_wf by blast
    then show ?thesis using run_cons(1) mem_run.intros
      by (intro exI [of _ "oper # pre"] exI [of _ post] exI [of _ sm]) auto
  qed
qed simp

subsection \<open>Fencing\<close>

text \<open>A lease is lost when the job is gone or carries another token.\<close>

definition lease_is_lost :: "lease \<Rightarrow> mem_store \<Rightarrow> bool" where
  "lease_is_lost l s \<longleftrightarrow>
     (case st_jobs s (job_ID (lease_Job l)) of
        None \<Rightarrow> True | Some j \<Rightarrow> job_LeaseToken j \<noteq> lease_Token l)"

definition claims_with :: "string \<Rightarrow> mem_op \<Rightarrow> bool" where
  "claims_with token oper \<longleftrightarrow> (\<exists>c now d order. oper = OpClaim c now d token order)"

lemma lost_fails:
  assumes "lease_is_lost l s"
  shows "\<exists>e. RenewLease c clk (Some l) d s = (Some e, Some l, s)"
    and "\<exists>e. SetStage c clk (Some l) st s = (Some e, Some l, s)"
    and "\<exists>e. Complete c clk (Some l) cm now s = (Some e, Some l, s)"
    and "\<exists>e. Requeue c clk (Some l) f nxt s = (Some e, Some l, s)"
    and "\<exists>e. Fail c clk (Some l) f now s = (Some e, Some l, s)"
proof -
  have "\<not> lease_current clk l j" if "st_jobs s (job_ID (lease_Job l)) = Some j" for j
    using assms that by (simp add: lease_is_lost_def lease_current_def)
  note f = not_current_fails [OF this]
  show "\<exists>e. RenewLease c clk (Some l) d s = (Some e, Some l, s)"
    and "\<exists>e. SetStage c clk (Some l) st s = (Some e, Some l, s)"
    and "\<exists>e. Complete c clk (Some l) cm now s = (Some e, Some l, s)"
    and "\<exists>e. Requeue c clk (Some l) f nxt s = (Some e, Some l, s)"
    and "\<exists>e. Fail c clk (Some l) f now s = (Some e, Some l, s)"
    using f by blast+
qed

lemma lease_change_token:
  "lease_change j j' \<Longrightarrow> job_LeaseToken j' = job_LeaseToken j \<or> job_LeaseToken j' = ''''"
  by (induction rule: lease_change.induct)
    (auto simp: completed_job_def requeued_job_def failed_job_def Let_def)

lemma repair_token: "job_LeaseToken (repair now j) \<in> {job_LeaseToken j, ''''}"
  by (simp add: repair_def expire_delivery_def expire_processing_def)

lemma lost_step:
  assumes "mem_step s oper s'" and "store_wf s" and "lease_is_lost l s"
    and "lease_Token l \<noteq> ''''" and "\<not> claims_with (lease_Token l) oper"
  shows "lease_is_lost l s'"
  using mem_step_change [OF assms(1,2)] assms(2-5)
proof (induction rule: jobs_change.induct)
  case (jc_claim now d token s r s' c order)
  let ?k = "job_ID (lease_Job l)"
  have tok: "token \<noteq> lease_Token l" using jc_claim(5) by (auto simp: claims_with_def)
  show ?case
  proof (cases "st_jobs s ?k")
    case None
    then show ?thesis using claim_spec_dom [OF jc_claim(2,1)] by (simp add: lease_is_lost_def)
  next
    case (Some j)
    then have "job_LeaseToken j \<noteq> lease_Token l" using jc_claim(3) by (simp add: lease_is_lost_def)
    then have "job_LeaseToken (repair now j) \<noteq> lease_Token l"
      using repair_token [of now j] jc_claim(4) by auto
    then show ?thesis
      using claim_changes [OF jc_claim(2,1) Some] tok
      by (auto simp: lease_is_lost_def lease_job_def)
  qed
next
  case (jc_lease s x x' s' oper)
  then show ?case using lease_change_token [OF jc_lease(3)]
    by (auto simp: lease_is_lost_def split: if_splits)
next
  case (jc_new x s s' oper)
  then show ?case by (auto simp: lease_is_lost_def job_wf_def)
qed (auto simp: lease_is_lost_def)

lemma lost_run:
  assumes "mem_run s opers s'" and "store_wf s" and "lease_is_lost l s"
    and "lease_Token l \<noteq> ''''" and "\<forall>oper \<in> set opers. \<not> claims_with (lease_Token l) oper"
  shows "lease_is_lost l s'"
  using assms by (induction rule: mem_run.induct) (auto dest: mem_step_wf lost_step)

text \<open>A settled job carries no token.\<close>

definition settles :: "lease \<Rightarrow> ctx \<Rightarrow> time \<Rightarrow> mem_store \<Rightarrow> mem_store \<Rightarrow> bool" where
  "settles l c clk s s' \<longleftrightarrow>
     (\<exists>cm now lo. Complete c clk (Some l) cm now s = (None, lo, s'))
     \<or> (\<exists>f nxt lo. Requeue c clk (Some l) f nxt s = (None, lo, s'))
     \<or> (\<exists>f now lo. Fail c clk (Some l) f now s = (None, lo, s'))"

lemma settles_step:
  assumes "settles l c clk s s'" and "zero_time \<le> clk"
  shows "\<exists>oper. mem_step s oper s'"
  using assms step_complete step_requeue step_fail unfolding settles_def by metis

lemma settled_is_lost:
  assumes "store_wf s" and tok: "lease_Token l \<noteq> ''''"
    and "settles l c clk s s'"
  shows "lease_is_lost l s'"
proof -
  have lost: "lease_is_lost l s'" if "st_jobs s (job_ID (lease_Job l)) = Some j"
    and "s' = put_job j' s" and "job_ID j' = job_ID j" and "job_LeaseToken j' = ''''" for j j'
    using that tok store_wfD [OF assms(1) that(1)] by (simp add: lease_is_lost_def)
  have empty: "job_LeaseToken (completed_job cm now j) = ''''"
    "job_LeaseToken (requeued_job nxt j) = ''''" "job_LeaseToken (failed_job f now j) = ''''"
    for cm now nxt f j
    by (simp_all add: completed_job_def requeued_job_def failed_job_def Let_def)
  consider cm now lo where "Complete c clk (Some l) cm now s = (None, lo, s')"
    | f nxt lo where "Requeue c clk (Some l) f nxt s = (None, lo, s')"
    | f now lo where "Fail c clk (Some l) f now s = (None, lo, s')"
    using assms(3) unfolding settles_def by blast
  then show ?thesis
  proof cases
    case 1
    show ?thesis by (rule Complete_ok [OF 1]) (use lost empty(1) in auto)
  next
    case 2
    show ?thesis by (rule Requeue_ok [OF 2]) (use lost empty(2) in auto)
  next
    case 3
    show ?thesis by (rule Fail_ok [OF 3]) (use lost empty(3) in auto)
  qed
qed

text \<open>A claim takes an expired lease away.\<close>

lemma claim_loses_expired:
  assumes "store_wf s" and "claim_spec now d token s (r, s')"
    and "st_jobs s (job_ID (lease_Job l)) = Some j"
    and "job_Status j = StatusProcessing \<or> job_Status j = StatusDelivering"
    and "expired_lease now j" and "lease_Token l \<noteq> ''''" and "token \<noteq> lease_Token l"
  shows "lease_is_lost l s'"
proof -
  have "job_LeaseToken (repair now j) = ''''"
    using assms(4,5) by (auto simp: repair_def expire_delivery_def expire_processing_def)
  then show ?thesis
    using claim_changes [OF assms(1-3)] assms(6,7)
    by (auto simp: lease_is_lost_def lease_job_def)
qed

subsection \<open>Idempotent submission\<close>

definition record_fresh :: "create_job \<Rightarrow> idempotency_record \<Rightarrow> bool" where
  "record_fresh cmd r \<longleftrightarrow>
     time_IsZero (idem_createdAt r) \<or> cj_CreatedAt cmd - idem_createdAt r < 24 * Hour"

lemma expire_idempotency_fresh:
  assumes "st_idempotency s (cj_IdempotencyKey cmd) = Some r" and "record_fresh cmd r"
  shows "expire_idempotency cmd s = s"
  using assms time_Sub_ge [of "24 * Hour" "cj_CreatedAt cmd" "idem_createdAt r"]
  by (auto simp: expire_idempotency_def record_fresh_def duration_defs min_int64_def
      max_int64_def)

lemma expire_idempotency_stale:
  assumes "st_idempotency s (cj_IdempotencyKey cmd) = Some r" and "\<not> record_fresh cmd r"
  shows "expire_idempotency cmd s = drop_idempotency (cj_IdempotencyKey cmd) s"
  using assms time_Sub_ge [of "24 * Hour" "cj_CreatedAt cmd" "idem_createdAt r"]
  by (auto simp: expire_idempotency_def record_fresh_def duration_defs min_int64_def
      max_int64_def)

lemma CreateOrReuse_known:
  assumes "contextErr c = None" and "cj_IdempotencyKey cmd \<noteq> ''''"
    and "st_idempotency s (cj_IdempotencyKey cmd) = Some r" and "record_fresh cmd r"
    and "st_jobs s (idem_jobID r) = Some j"
  shows "CreateOrReuse c cmd s =
     (if idem_digest r = cj_RequestDigest cmd
      then (\<lparr>out_Job = j, out_Replayed = True, out_Conflict = False\<rparr>, None, s)
      else (zero_outcome\<lparr>out_Conflict := True\<rparr>, Some ErrIdempotencyConflict, s))"
  using assms by (simp add: CreateOrReuse_def expire_idempotency_fresh Let_def)

lemma insert_job_records:
  assumes "insert_job cmd s = (out, e, s')" and "cj_IdempotencyKey cmd \<noteq> ''''"
  shows "st_idempotency s' (cj_IdempotencyKey cmd) =
      Some \<lparr>idem_jobID = cj_ID cmd, idem_digest = cj_RequestDigest cmd,
            idem_createdAt = cj_CreatedAt cmd\<rparr>"
    and "st_jobs s' (cj_ID cmd) = Some (out_Job out)" and "e = None"
    and "out_Job out = new_job cmd"
  using assms by (auto simp: insert_job_def Let_def)

text \<open>After a successful submission with a key, the record of the key names the returned job
  with the digest of the request.\<close>

lemma CreateOrReuse_record:
  assumes "CreateOrReuse c cmd s = (out, None, s')" and "cj_IdempotencyKey cmd \<noteq> ''''"
  shows "\<exists>r. st_idempotency s' (cj_IdempotencyKey cmd) = Some r
           \<and> idem_digest r = cj_RequestDigest cmd
           \<and> st_jobs s' (idem_jobID r) = Some (out_Job out)"
  using assms
  by (auto simp: CreateOrReuse_def insert_job_def Let_def split: option.splits if_splits)

text \<open>A submission that did not replay a job made a new one and recorded its key.\<close>

lemma CreateOrReuse_fresh:
  assumes "CreateOrReuse c cmd s = (out, None, s')" and "\<not> out_Replayed out"
  shows "st_jobs s' (cj_ID cmd) = Some (new_job cmd)"
    and "cj_IdempotencyKey cmd \<noteq> '''' \<Longrightarrow> st_idempotency s' (cj_IdempotencyKey cmd) =
      Some \<lparr>idem_jobID = cj_ID cmd, idem_digest = cj_RequestDigest cmd,
            idem_createdAt = cj_CreatedAt cmd\<rparr>"
  using assms
  by (auto simp: CreateOrReuse_def insert_job_def Let_def split: option.splits if_splits)

text \<open>The operations that leave the record of a key alone: all but a deletion and a
  submission with the key.\<close>

definition keeps_key :: "string \<Rightarrow> mem_op \<Rightarrow> bool" where
  "keeps_key key oper \<longleftrightarrow>
     (\<forall>c jid now. oper \<noteq> OpDelete c jid now)
     \<and> (\<forall>c cmd. oper = OpCreate c cmd \<longrightarrow> cj_IdempotencyKey cmd \<noteq> key)"

lemma insert_job_keeps:
  "insert_job cmd s = (out, e, s') \<Longrightarrow> cj_IdempotencyKey cmd \<noteq> key \<Longrightarrow>
     st_idempotency s' key = st_idempotency s key"
  by (auto simp: insert_job_def Let_def split: if_splits)

lemma expire_idempotency_keeps:
  "cj_IdempotencyKey cmd \<noteq> key \<Longrightarrow>
     st_idempotency (expire_idempotency cmd s) key = st_idempotency s key"
  by (simp add: expire_idempotency_def split: option.splits)

lemma CreateOrReuse_keeps:
  "CreateOrReuse c cmd s = (out, e, s') \<Longrightarrow> cj_IdempotencyKey cmd \<noteq> key \<Longrightarrow>
     st_idempotency s' key = st_idempotency s key"
  by (auto simp: CreateOrReuse_def Let_def expire_idempotency_keeps
      dest: insert_job_keeps split: option.splits if_splits)

lemma put_job_idempotency [simp]: "st_idempotency (put_job j s) = st_idempotency s"
  by (simp add: put_job_def)

lemma claim_visit_idempotency:
  "st_idempotency (fst (claim_visit now k st)) = st_idempotency (fst st)"
  by (cases st) (simp add: claim_visit_def Let_def split: option.splits)

lemma fold_claim_visit_idempotency:
  "st_idempotency (fst (fold (claim_visit now) ks st)) = st_idempotency (fst st)"
  by (induction ks arbitrary: st) (simp_all add: claim_visit_idempotency)

lemma ClaimNext_idempotency:
  "ClaimNext c now d token order s = (q, s') \<Longrightarrow> st_idempotency s' = st_idempotency s"
  using fold_claim_visit_idempotency [of now order "(s, None)"]
  by (auto simp: ClaimNext_def Let_def split: option.splits prod.splits)

lemma lease_op_idempotency:
  "RenewLease c now lo d s = (e, lo', s') \<Longrightarrow> st_idempotency s' = st_idempotency s"
  "SetStage c now lo st s = (e, lo', s') \<Longrightarrow> st_idempotency s' = st_idempotency s"
  "Complete c clk lo cm now s = (e, lo', s') \<Longrightarrow> st_idempotency s' = st_idempotency s"
  "Requeue c clk lo f nxt s = (e, lo', s') \<Longrightarrow> st_idempotency s' = st_idempotency s"
  "Fail c clk lo f now s = (e, lo', s') \<Longrightarrow> st_idempotency s' = st_idempotency s"
  by (auto simp: RenewLease_def SetStage_def Complete_def Requeue_def Fail_def Let_def
      split: option.splits if_splits)

lemma keeps_key_step:
  "mem_step s oper s' \<Longrightarrow> keeps_key key oper \<Longrightarrow> st_idempotency s' key = st_idempotency s key"
proof (induction rule: mem_step.induct)
  case (step_create cmd s c out e s')
  then show ?case using CreateOrReuse_keeps by (auto simp: keeps_key_def)
next
  case (step_retry newID s c src now r s')
  then show ?case
    by (auto simp: CreateRetry_def Let_def split: option.splits if_splits)
next
  case (step_delete c jid now s e s')
  then show ?case by (simp add: keeps_key_def)
next
  case (step_claim order s c now d token q s')
  then show ?case using ClaimNext_idempotency by metis
qed (metis lease_op_idempotency)+

lemma keeps_key_run:
  "mem_run s opers s' \<Longrightarrow> \<forall>oper \<in> set opers. keeps_key key oper \<Longrightarrow>
     st_idempotency s' key = st_idempotency s key"
  by (induction rule: mem_run.induct) (auto dest: keeps_key_step)

lemma claim_keeps_job:
  "store_wf s \<Longrightarrow> claim_spec now d token s (r, s') \<Longrightarrow> st_jobs s k \<noteq> None \<Longrightarrow>
     st_jobs s' k \<noteq> None"
  using claim_changes by fastforce

lemma keeps_job_step:
  assumes "mem_step s oper s'" and "store_wf s" and "\<forall>c jid now. oper \<noteq> OpDelete c jid now"
    and "st_jobs s k \<noteq> None"
  shows "st_jobs s' k \<noteq> None"
  using mem_step_change [OF assms(1,2)] assms(2-4)
  by (induction rule: jobs_change.induct) (auto dest: claim_keeps_job)

lemma keeps_job_run:
  assumes "mem_run s opers s'" and "store_wf s"
    and "\<forall>oper \<in> set opers. \<forall>c jid now. oper \<noteq> OpDelete c jid now" and "st_jobs s k \<noteq> None"
  shows "st_jobs s' k \<noteq> None"
  using assms
proof (induction rule: mem_run.induct)
  case (run_cons s oper s1 opers s2)
  then show ?case using keeps_job_step [OF run_cons(1)] mem_step_wf by auto
qed simp

subsection \<open>The job store contract\<close>

text \<open>
  The store as the worker sees it, with its source of lease tokens as a parameter. The claim
  loop visits the jobs in the order of their ids; by \<open>ClaimNext_meets_spec\<close> any other order
  gives the same result.
\<close>

definition job_keys :: "mem_store \<Rightarrow> job_id list" where
  "job_keys s = sorted_list_of_set (dom (st_jobs s))"

definition mem_inv :: "mem_store \<Rightarrow> bool" where
  "mem_inv s \<longleftrightarrow> store_wf s \<and> finite (dom (st_jobs s))"

definition mem_ops :: "(mem_store \<Rightarrow> string) \<Rightarrow> mem_store job_store_ops" where
  "mem_ops token =
     \<lparr>op_ClaimNext = (\<lambda>c now d s. ClaimNext c now d (token s) (job_keys s) s),
      op_RenewLease = RenewLease, op_SetStage = SetStage, op_Complete = Complete,
      op_Requeue = Requeue, op_Fail = Fail\<rparr>"

lemma mem_ops_simps [simp]:
  "op_ClaimNext (mem_ops token) c now d s = ClaimNext c now d (token s) (job_keys s) s"
  "op_RenewLease (mem_ops token) = RenewLease" "op_SetStage (mem_ops token) = SetStage"
  "op_Complete (mem_ops token) = Complete" "op_Requeue (mem_ops token) = Requeue"
  "op_Fail (mem_ops token) = Fail"
  by (simp_all add: mem_ops_def)

lemma job_keys_enumerate: "mem_inv s \<Longrightarrow> enumerates (job_keys s) s"
  by (simp add: mem_inv_def job_keys_def enumerates_def)

lemma mem_inv_NewStore: "mem_inv NewStore"
  by (simp add: mem_inv_def store_wf_def NewStore_def)

lemma mem_inv_put:
  "mem_inv s \<Longrightarrow> st_jobs s k = Some j \<Longrightarrow> job_wf j' \<Longrightarrow> mem_inv (put_job j' s)"
  by (auto simp: mem_inv_def)

lemma mem_claim_inv:
  assumes "mem_inv s" and "ClaimNext c now d token (job_keys s) s = (r, s')"
  shows "mem_inv s'"
proof (cases "contextErr c")
  case (Some e)
  then show ?thesis using assms by (simp add: ClaimNext_def)
next
  case None
  have wf: "store_wf s" and fin: "finite (dom (st_jobs s))" using assms(1) by (auto simp: mem_inv_def)
  obtain q where "claim_spec now d token s (q, s')"
    using ClaimNext_meets_spec [OF wf job_keys_enumerate [OF assms(1)] None] assms(2)
    by metis
  then have "dom (st_jobs s') \<subseteq> dom (st_jobs s)"
    using claim_spec_dom [OF wf] by (metis domIff subsetI)
  then have "finite (dom (st_jobs s'))" using fin finite_subset by blast
  moreover have "store_wf s'"
    using ClaimNext_wf [OF wf assms(2) job_keys_enumerate [OF assms(1)]] .
  ultimately show ?thesis by (simp add: mem_inv_def)
qed

lemma mem_lease_change:
  assumes "mem_inv s" and "st_jobs s (job_ID (lease_Job l)) = Some j" and "s' = put_job j' s"
    and "job_wf j \<Longrightarrow> job_wf j'" and "job_ID j' = job_ID j"
  shows "mem_inv s' \<and> st_jobs s' = (st_jobs s)(job_ID (lease_Job l) \<mapsto> j')"
proof -
  have "job_ID j = job_ID (lease_Job l) \<and> job_wf j"
    using assms(1,2) store_wfD [of s] by (auto simp: mem_inv_def)
  then show ?thesis using mem_inv_put [OF assms(1,2)] assms(3-5) by simp
qed

lemma mem_renew:
  assumes inv: "mem_inv s" and r: "RenewLease c clk (Some l) d s = (None, lo, s')"
  shows "mem_inv s' \<and> (\<exists>v e st. lo = Observe v e st (Some l))
    \<and> (\<exists>j. st_jobs s (job_ID (lease_Job l)) = Some j \<and> lease_current clk l j
        \<and> st_jobs s' = (st_jobs s)(job_ID (lease_Job l) \<mapsto>
             j\<lparr>job_LeaseUntil := job_LeaseUntil j + (if d \<le> 0 then 5 * Minute else d),
               job_Version := job_Version j + 1\<rparr>))"
proof (rule RenewLease_ok [OF r])
  fix l' j
  assume "Some l = Some l'" and j: "st_jobs s (job_ID (lease_Job l')) = Some j"
    and "lease_current clk l' j"
    and st: "job_Status j = StatusProcessing \<or> job_Status j = StatusDelivering"
    and s': "s' = put_job (j\<lparr>job_LeaseUntil := job_LeaseUntil j + (if d \<le> 0 then 5 * Minute else d),
                       job_Version := job_Version j + 1\<rparr>) s"
    and "lo = Observe (job_Version j + 1)
       (job_LeaseUntil j + (if d \<le> 0 then 5 * Minute else d)) (job_Stage j) (Some l')"
  then show ?thesis using mem_lease_change [OF inv j s' job_wf_renew] by auto
qed

lemma mem_stage:
  assumes inv: "mem_inv s" and r: "SetStage c clk (Some l) st s = (None, lo, s')"
  shows "mem_inv s' \<and> (\<exists>v e st. lo = Observe v e st (Some l))
    \<and> (\<exists>j. st_jobs s (job_ID (lease_Job l)) = Some j \<and> lease_current clk l j
        \<and> job_Status j = StatusProcessing \<and> CanTransitionTo (job_Stage j) st
        \<and> st_jobs s' = (st_jobs s)(job_ID (lease_Job l) \<mapsto>
             j\<lparr>job_Stage := st, job_Version := job_Version j + 1\<rparr>))"
proof (rule SetStage_ok [OF r])
  fix l' j
  assume "Some l = Some l'" and j: "st_jobs s (job_ID (lease_Job l')) = Some j"
    and "lease_current clk l' j" and "job_Status j = StatusProcessing" and "stage_Valid st"
    and "CanTransitionTo (job_Stage j) st"
    and s': "s' = put_job (j\<lparr>job_Stage := st, job_Version := job_Version j + 1\<rparr>) s"
    and "lo = Observe (job_Version j + 1) (job_LeaseUntil j) st (Some l')"
  then show ?thesis using mem_lease_change [OF inv j s' job_wf_stage] by auto
qed

lemma mem_complete:
  assumes inv: "mem_inv s" and r: "Complete c clk (Some l) cm now s = (None, lo, s')"
  shows "mem_inv s' \<and> (\<exists>v e st. lo = Observe v e st (Some l))
    \<and> (\<exists>j. st_jobs s (job_ID (lease_Job l)) = Some j \<and> lease_current clk l j
        \<and> job_Status j = StatusProcessing \<and> job_Stage j = StagePersisting
        \<and> job_ID j = job_ID (lease_Job l)
        \<and> st_jobs s' = (st_jobs s)(job_ID (lease_Job l) \<mapsto> completed_job cm now j))"
proof (rule Complete_ok [OF r])
  fix l' j
  assume "Some l = Some l'" and j: "st_jobs s (job_ID (lease_Job l')) = Some j"
    and "lease_current clk l' j" and "job_Status j = StatusProcessing"
    and "job_Stage j = StagePersisting"
    and "art_Available (cmp_Artifact cm)" and "0 < art_ByteSize (cmp_Artifact cm)"
    and "doc_ID (cmp_Content cm) \<noteq> ''''"
    and s': "s' = put_job (completed_job cm now j) s"
    and "lo = Observe (job_Version j + 1) zero_time StageNone (Some l')"
  moreover have "job_ID j = job_ID (lease_Job l')"
    using inv j store_wfD by (auto simp: mem_inv_def)
  ultimately show ?thesis using mem_lease_change [OF inv j s' job_wf_complete] by auto
qed

lemma mem_requeue:
  assumes inv: "mem_inv s" and r: "Requeue c clk (Some l) f nxt s = (None, lo, s')"
  shows "mem_inv s'
    \<and> (\<exists>j. st_jobs s (job_ID (lease_Job l)) = Some j \<and> lease_current clk l j
        \<and> st_jobs s' = (st_jobs s)(job_ID (lease_Job l) \<mapsto> requeued_job nxt j))"
proof (rule Requeue_ok [OF r])
  fix l' j
  assume "Some l = Some l'" and j: "st_jobs s (job_ID (lease_Job l')) = Some j"
    and "lease_current clk l' j" and s': "s' = put_job (requeued_job nxt j) s"
  then show ?thesis using mem_lease_change [OF inv j s' job_wf_requeue] by auto
qed

lemma mem_fail:
  assumes inv: "mem_inv s" and r: "Fail c clk (Some l) f now s = (None, lo, s')"
  shows "mem_inv s'
    \<and> (\<exists>j. st_jobs s (job_ID (lease_Job l)) = Some j \<and> lease_current clk l j
        \<and> st_jobs s' = (st_jobs s)(job_ID (lease_Job l) \<mapsto> failed_job f now j))"
proof (rule Fail_ok [OF r])
  fix l' j
  assume "Some l = Some l'" and j: "st_jobs s (job_ID (lease_Job l')) = Some j"
    and "lease_current clk l' j" and s': "s' = put_job (failed_job f now j) s"
  then show ?thesis using mem_lease_change [OF inv j s' job_wf_fail] by auto
qed

lemma mem_claim_Some:
  assumes inv: "mem_inv s" and r: "ClaimNext c now d token (job_keys s) s = (Inr (Some l), s')"
  shows "\<exists>j. st_jobs s' (job_ID (lease_Job l)) = Some j \<and> lease_Job l = j
        \<and> job_Status j = StatusProcessing \<and> job_Stage j = StageFetching
        \<and> job_LeaseToken j = lease_Token l \<and> job_Version j = CurrentVersion (Some l)"
proof (cases "contextErr c")
  case (Some e)
  then show ?thesis using r by (simp add: ClaimNext_def)
next
  case None
  have "store_wf s" using inv by (simp add: mem_inv_def)
  then have "claim_spec now d token s (Inr (Some l), s')"
    using ClaimNext_meets_spec [OF _ job_keys_enumerate [OF inv] None] r by metis
  then obtain m where l: "l = claim_lease now d token m"
    and s': "s' = put_job (lease_Job (claim_lease now d token m)) (repair_all now s)"
    by (auto simp: claim_spec_def Let_def split: if_splits)
  have "CurrentVersion (Some (claim_lease now d token m))
      = job_Version (lease_Job (claim_lease now d token m))"
    by (simp add: claim_lease_def Let_def NewLease_def CurrentVersion_def)
  then show ?thesis unfolding l s' by (simp add: lease_job_def)
qed

lemma mem_lease_inv:
  assumes "mem_inv s"
  shows "RenewLease c clk (Some l) d s = (oe, lo, s') \<Longrightarrow> mem_inv s' \<and> same_lease l lo"
    and "SetStage c clk (Some l) st s = (oe, lo, s') \<Longrightarrow> mem_inv s' \<and> same_lease l lo"
    and "Complete c clk (Some l) cm now s = (oe, lo, s') \<Longrightarrow> mem_inv s' \<and> same_lease l lo"
    and "Requeue c clk (Some l) f nxt s = (oe, lo, s') \<Longrightarrow> mem_inv s'"
    and "Fail c clk (Some l) f now s = (oe, lo, s') \<Longrightarrow> mem_inv s'"
proof -
  show "RenewLease c clk (Some l) d s = (oe, lo, s') \<Longrightarrow> mem_inv s' \<and> same_lease l lo"
    using assms mem_renew [OF assms] lease_op_err(1)
    by (cases oe) (metis same_lease_simps(2), metis same_lease_simps(1))
  show "SetStage c clk (Some l) st s = (oe, lo, s') \<Longrightarrow> mem_inv s' \<and> same_lease l lo"
    using assms mem_stage [OF assms] lease_op_err(2)
    by (cases oe) (metis same_lease_simps(2), metis same_lease_simps(1))
  show "Complete c clk (Some l) cm now s = (oe, lo, s') \<Longrightarrow> mem_inv s' \<and> same_lease l lo"
    using assms mem_complete [OF assms] lease_op_err(3)
    by (cases oe) (metis same_lease_simps(2), metis same_lease_simps(1))
  show "Requeue c clk (Some l) f nxt s = (oe, lo, s') \<Longrightarrow> mem_inv s'"
    using assms mem_requeue [OF assms] lease_op_err(4) by (cases oe) (metis, metis)
  show "Fail c clk (Some l) f now s = (oe, lo, s') \<Longrightarrow> mem_inv s'"
    using assms mem_fail [OF assms] lease_op_err(5) by (cases oe) (metis, metis)
qed

interpretation mem: job_store "mem_ops token" st_jobs mem_inv for token
proof (unfold_locales, unfold mem_ops_simps, goal_cases)
  case (1 s c now d r s')
  then show ?case by (rule mem_claim_inv)
next
  case (2 s c now d l s')
  then show ?case by (rule mem_claim_Some)
next
  case (3 s c clk l d oe lo s')
  then show ?case by (rule mem_lease_inv(1))
next
  case (4 s c clk l d err lo s')
  then show ?case using lease_op_err(1) by metis
next
  case (5 s c clk l d lo s')
  then show ?case using mem_renew by metis
next
  case (6 s c clk l st oe lo s')
  then show ?case by (rule mem_lease_inv(2))
next
  case (7 s c clk l st err lo s')
  then show ?case using lease_op_err(2) by metis
next
  case (8 s c clk l st lo s')
  then show ?case using mem_stage by metis
next
  case (9 s c clk l cm now oe lo s')
  then show ?case by (rule mem_lease_inv(3))
next
  case (10 s c clk l cm now err lo s')
  then show ?case using lease_op_err(3) by metis
next
  case (11 s c clk l cm now lo s')
  then show ?case using mem_complete [OF 11]
    by (elim conjE exE) (intro exI conjI, assumption+, simp_all add: completed_job_def Let_def)
next
  case (12 s c clk l f nxt oe lo s')
  then show ?case by (rule mem_lease_inv(4))
next
  case (13 s c clk l f nxt err lo s')
  then show ?case using lease_op_err(4) by metis
next
  case (14 s c clk l f nxt lo s')
  then show ?case using mem_requeue [OF 14]
    by (elim conjE exE) (intro exI conjI, assumption+, simp_all add: requeued_job_def)
next
  case (15 s c clk l f now oe lo s')
  then show ?case by (rule mem_lease_inv(5))
next
  case (16 s c clk l f now err lo s')
  then show ?case using lease_op_err(5) by metis
next
  case (17 s c clk l f now lo s')
  then obtain j where "st_jobs s (job_ID (lease_Job l)) = Some j" "lease_current clk l j"
    and "st_jobs s' = (st_jobs s)(job_ID (lease_Job l) \<mapsto> failed_job f now j)"
    using mem_fail [OF 17] by blast
  then show ?case
    by (intro exI [of _ j] exI [of _ "failed_job f now j"]) (auto simp: failed_job_def Let_def)
qed

end
