(* ===== verification/Memory_Properties.thy ===== *)
theory Memory_Properties
  imports Memory_Safety
begin

section \<open>Properties of the in-memory job store\<close>

text \<open>
  The claims about \<open>internal/memory/store.go\<close>, each with a witness on a small store, built
  from the fixtures below.
\<close>

definition live :: ctx where
  "live = Context None"

definition demo_cmd :: "job_id \<Rightarrow> create_job" where
  "demo_cmd k = \<lparr>cj_ID = k,
     cj_Request = \<lparr>sub_URL = ''u'', sub_Title = '''', sub_Profile = ''archive''\<rparr>,
     cj_CreatedAt = 100, cj_IdempotencyKey = ''key'', cj_RequestDigest = ''digest''\<rparr>"

definition demo_store :: mem_store where
  "demo_store = NewStore\<lparr>st_jobs := [''a'' \<mapsto> new_job (demo_cmd ''a'')]\<rparr>"

definition demo_leased :: job where
  "demo_leased = lease_job 100 10 ''t1'' (new_job (demo_cmd ''a''))"

definition demo_lease :: lease where
  "demo_lease = NewLease demo_leased ''t1'' 110"

definition demo_busy :: mem_store where
  "demo_busy = NewStore\<lparr>st_jobs := [''a'' \<mapsto> demo_leased]\<rparr>"

definition demo_failure :: failure where
  "demo_failure = \<lparr>fail_Category = FailureFetchFailed, fail_Message = ''detail'',
     fail_CorrelationID = ''c'', fail_OccurredAt = 105\<rparr>"

lemma contextErr_live [simp]: "contextErr live = None"
  by (simp add: live_def)

lemma stored_values:
  "{j. \<exists>k. (if k = a then Some x else None) = Some j} = {x}"
  "b \<noteq> a \<Longrightarrow> {j. \<exists>k. (if k = b then Some y else if k = a then Some x else None) = Some j}
     = {x, y}"
proof -
  show "{j. \<exists>k. (if k = a then Some x else None) = Some j} = {x}" by auto
  assume "b \<noteq> a"
  then show "{j. \<exists>k. (if k = b then Some y else if k = a then Some x else None) = Some j} = {x, y}"
    by (auto split: if_splits intro: exI [of _ a] exI [of _ b])
qed

lemma demo_cmd_simps [simp]:
  "cj_ID (demo_cmd k) = k" "cj_CreatedAt (demo_cmd k) = 100"
  "cj_IdempotencyKey (demo_cmd k) = ''key''" "cj_RequestDigest (demo_cmd k) = ''digest''"
  by (simp_all add: demo_cmd_def)

lemma demo_leased_simps [simp]:
  "job_ID demo_leased = ''a''" "job_Status demo_leased = StatusProcessing"
  "job_Stage demo_leased = StageFetching" "job_LeaseToken demo_leased = ''t1''"
  "job_LeaseUntil demo_leased = 110" "job_Version demo_leased = 2" "job_wf demo_leased"
  by (simp_all add: demo_leased_def job_wf_lease)
    (simp_all add: lease_job_def new_job_def zero_job_def zero_time_def)

lemma demo_lease_simps [simp]:
  "job_ID (lease_Job demo_lease) = ''a''" "lease_Token demo_lease = ''t1''"
  "CurrentVersion (Some demo_lease) = 2"
  by (simp_all add: demo_lease_def) (simp_all add: NewLease_def)

lemma demo_stores [simp]:
  "st_jobs demo_store = [''a'' \<mapsto> new_job (demo_cmd ''a'')]"
  "st_jobs demo_busy = [''a'' \<mapsto> demo_leased]"
  "store_wf demo_store" "store_wf demo_busy"
  "enumerates [''a''] demo_store" "enumerates [''a''] demo_busy"
  by (auto simp: demo_store_def demo_busy_def NewStore_def store_wf_def enumerates_def)

subsection \<open>Well-formedness\<close>

text \<open>
  C1. Whatever operations clients and workers call on a new store, in whatever order and
  with whatever arguments, every stored job stays well-formed: a stage exactly while it is
  processed, a token and an expiry only while it is leased, a completion time once it is
  terminal, a document and an available non-empty artifact once it is ready, and a failure
  that carries a known category with that category's public message.
\<close>

theorem reachable_store_wf:
  assumes "mem_run NewStore opers s"
  shows "store_wf s"
  using mem_run_wf [OF assms store_wf_NewStore] .

theorem reachable_store_wf_witness:
  "store_wf (snd (snd (CreateOrReuse live (demo_cmd ''a'') NewStore)))"
proof (rule reachable_store_wf)
  show "mem_run NewStore [OpCreate live (demo_cmd ''a'')]
          (snd (snd (CreateOrReuse live (demo_cmd ''a'') NewStore)))"
    by (intro run_cons run_nil step_create
        [where out = "fst (CreateOrReuse live (demo_cmd ''a'') NewStore)"
           and e = "fst (snd (CreateOrReuse live (demo_cmd ''a'') NewStore))"])
      (simp_all add: NewStore_def)
qed

subsection \<open>Claiming\<close>

text \<open>
  C2. \<open>ClaimNext\<close> meets its loop-free specification whatever order the map is visited in:
  every expired job is repaired, and the oldest claimable job of the repaired store, by
  creation time and then id, is leased with the given token; with none, no job is leased.
\<close>

theorem ClaimNext_specification:
  assumes "store_wf s" and "enumerates order s" and "contextErr c = None"
  shows "claim_spec now d token s (ClaimNext c now d token order s)"
  using ClaimNext_meets_spec [OF assms] .

theorem ClaimNext_specification_witness:
  "claim_spec 200 10 ''t2'' demo_busy (ClaimNext live 200 10 ''t2'' [''a''] demo_busy)"
  by (rule ClaimNext_specification) simp_all

text \<open>
  C3. The result of \<open>ClaimNext\<close> does not depend on the order in which Go's randomised map
  iteration visits the jobs.
\<close>

theorem ClaimNext_order_irrelevant:
  assumes "store_wf s" and "enumerates o1 s" and "enumerates o2 s"
  shows "ClaimNext c now d token o1 s = ClaimNext c now d token o2 s"
proof (cases "contextErr c")
  case None
  show ?thesis
    by (rule claim_spec_functional [OF assms(1)]) (rule ClaimNext_meets_spec [OF assms(1) _ None],
      rule assms)+
next
  case (Some e)
  then show ?thesis by (simp add: ClaimNext_def)
qed

definition demo_pair :: mem_store where
  "demo_pair = NewStore\<lparr>st_jobs := [''a'' \<mapsto> demo_leased, ''b'' \<mapsto> new_job (demo_cmd ''b'')]\<rparr>"

theorem ClaimNext_order_irrelevant_witness:
  "ClaimNext live 200 10 ''t2'' [''a'', ''b''] demo_pair
   = ClaimNext live 200 10 ''t2'' [''b'', ''a''] demo_pair"
  by (rule ClaimNext_order_irrelevant [where s = demo_pair])
    (auto simp: demo_pair_def NewStore_def store_wf_def enumerates_def)

subsection \<open>The life cycle\<close>

text \<open>
  C4. One operation changes the status of a stored job only along the life cycle: queued to
  processing; processing to itself, queued, ready or failed; delivering to itself, queued,
  failed or delivery-failed. A job that is ready, failed or otherwise terminal is never
  changed: it is the same record afterwards or it was deleted.
\<close>

theorem job_life_cycle:
  assumes "mem_step s oper s'" and "store_wf s" and "st_jobs s k = Some j"
    and "st_jobs s' k = Some j'"
  shows "(j' = j \<or> status_next (job_Status j) (job_Status j'))
    \<and> (status_Terminal (job_Status j) \<longrightarrow> j' = j)"
  using jobs_change_status [OF mem_step_change [OF assms(1,2)] assms(2-4)] assms(4)
    mem_step_terminal [OF assms(1-3)] by auto

lemma demo_claim_step:
  "mem_step demo_store (OpClaim live 200 10 ''t2'' [''a''])
     (snd (ClaimNext live 200 10 ''t2'' [''a''] demo_store))"
  by (rule step_claim [where q = "fst (ClaimNext live 200 10 ''t2'' [''a''] demo_store)"]) simp_all

lemma demo_claim_result:
  "st_jobs (snd (ClaimNext live 200 10 ''t2'' [''a''] demo_store)) ''a''
     = Some (lease_job 200 10 ''t2'' (new_job (demo_cmd ''a'')))"
  by (simp add: ClaimNext_def claim_visit_def claimable_def new_job_def zero_job_def Let_def)

theorem job_life_cycle_witness:
  "status_next StatusQueued StatusProcessing"
proof -
  have "job_Status (lease_job 200 10 ''t2'' (new_job (demo_cmd ''a''))) = StatusProcessing"
    by (simp add: lease_job_def)
  moreover have "lease_job 200 10 ''t2'' (new_job (demo_cmd ''a'')) \<noteq> new_job (demo_cmd ''a'')"
    using calculation by (metis new_job_status status.distinct(1))
  ultimately show ?thesis
    using job_life_cycle [OF demo_claim_step _ _ demo_claim_result] by simp
qed

subsection \<open>Fencing\<close>

text \<open>A lease has no power over a store: none of the five operations succeeds with it, at any
  time, and none changes the store.\<close>

definition powerless :: "lease \<Rightarrow> mem_store \<Rightarrow> bool" where
  "powerless l s \<longleftrightarrow>
     (\<forall>c clk d. \<exists>e. RenewLease c clk (Some l) d s = (Some e, Some l, s))
     \<and> (\<forall>c clk st. \<exists>e. SetStage c clk (Some l) st s = (Some e, Some l, s))
     \<and> (\<forall>c clk cm now. \<exists>e. Complete c clk (Some l) cm now s = (Some e, Some l, s))
     \<and> (\<forall>c clk f nxt. \<exists>e. Requeue c clk (Some l) f nxt s = (Some e, Some l, s))
     \<and> (\<forall>c clk f now. \<exists>e. Fail c clk (Some l) f now s = (Some e, Some l, s))"

lemma lost_powerless: "lease_is_lost l s \<Longrightarrow> powerless l s"
  unfolding powerless_def using lost_fails by (intro conjI allI) metis+

text \<open>
  C5. Fencing. A worker whose lease has expired loses it with the next claim by anybody, and
  for ever: after any further run in which its token is not drawn again, renewing, setting a
  stage, completing, requeueing and failing with that lease all report an error and change
  nothing, whatever the clock reads.
\<close>

theorem expired_worker_is_fenced:
  assumes "store_wf s" and "contextErr c = None"
    and "mem_step s (OpClaim c now d token order) s1"
    and "st_jobs s (job_ID (lease_Job l)) = Some j"
    and "job_Status j = StatusProcessing \<or> job_Status j = StatusDelivering"
    and "expired_lease now j" and "lease_Token l \<noteq> ''''" and "token \<noteq> lease_Token l"
    and "mem_run s1 opers s2" and "\<forall>oper \<in> set opers. \<not> claims_with (lease_Token l) oper"
  shows "powerless l s2"
proof -
  obtain q where ord: "enumerates order s" and q: "ClaimNext c now d token order s = (q, s1)"
    using assms(3) by (rule step_claimE)
  have "claim_spec now d token s (q, s1)"
    using ClaimNext_meets_spec [OF assms(1) ord assms(2)] q by metis
  then have "lease_is_lost l s1" using claim_loses_expired assms(1,4-8) by blast
  then have "lease_is_lost l s2"
    using lost_run [OF assms(9)] mem_step_wf [OF assms(3,1)] assms(7,10) by blast
  then show ?thesis by (rule lost_powerless)
qed

lemma demo_take_over:
  "mem_step demo_busy (OpClaim live 200 10 ''t2'' [''a''])
     (snd (ClaimNext live 200 10 ''t2'' [''a''] demo_busy))"
  by (rule step_claim [where q = "fst (ClaimNext live 200 10 ''t2'' [''a''] demo_busy)"]) simp_all

theorem expired_worker_is_fenced_witness:
  "powerless demo_lease (snd (ClaimNext live 200 10 ''t2'' [''a''] demo_busy))"
  by (rule expired_worker_is_fenced
      [OF demo_stores(4) contextErr_live demo_take_over, where j = demo_leased and opers = "[]"])
    (simp_all add: expired_lease_def time_IsZero_def zero_time_def)

text \<open>
  A lease settles its job at most once: after a completion, a requeue or a failure
  succeeded under it, it has no power over any later store of the run.
\<close>

theorem settled_lease_is_spent:
  assumes "store_wf s" and "lease_Token l \<noteq> ''''"
    and "settles l c clk s s1" and "zero_time \<le> clk"
    and "mem_run s1 opers s2" and "\<forall>oper \<in> set opers. \<not> claims_with (lease_Token l) oper"
  shows "powerless l s2"
proof -
  have wf: "store_wf s1" using settles_step [OF assms(3,4)] assms(1) mem_step_wf by blast
  have "lease_is_lost l s1"
    using settled_is_lost [OF assms(1-3)] .
  then show ?thesis using lost_run [OF assms(5) wf _ assms(2,6)] lost_powerless by blast
qed

lemma demo_requeue:
  "Requeue live 105 (Some demo_lease) demo_failure 200 demo_busy
     = (None, Observe 3 zero_time StageNone (Some demo_lease),
        put_job (requeued_job 200 demo_leased) demo_busy)"
  by (simp add: Requeue_def lease_lost_def Let_def) (simp add: requeued_job_def)

theorem settled_lease_is_spent_witness:
  "powerless demo_lease (put_job (requeued_job 200 demo_leased) demo_busy)"
proof (rule settled_lease_is_spent [OF demo_stores(4), where opers = "[]"])
  show "settles demo_lease live 105 demo_busy (put_job (requeued_job 200 demo_leased) demo_busy)"
    using demo_requeue unfolding settles_def by blast
qed (simp_all add: zero_time_def)

subsection \<open>Renewal\<close>

text \<open>A run of heartbeats: each renewal presents the lease the previous one returned.\<close>

fun heartbeats ::
  "ctx \<Rightarrow> duration \<Rightarrow> time list \<Rightarrow> lease option \<Rightarrow> mem_store
     \<Rightarrow> error option \<times> lease option \<times> mem_store" where
  "heartbeats c d [] lo s = (None, lo, s)"
| "heartbeats c d (clk # clks) lo s =
     (case RenewLease c clk lo d s of
        (Some e, lo', s') \<Rightarrow> (Some e, lo', s')
      | (None, lo', s') \<Rightarrow> heartbeats c d clks lo' s')"

lemma RenewLease_current:
  assumes "contextErr c = None" and "st_jobs s (job_ID (lease_Job l)) = Some j"
    and "lease_current clk l j"
    and "job_Status j = StatusProcessing \<or> job_Status j = StatusDelivering" and "0 < d"
  shows "RenewLease c clk (Some l) d s =
     (None, Observe (job_Version j + 1) (job_LeaseUntil j + d) (job_Stage j) (Some l),
      put_job (j\<lparr>job_LeaseUntil := job_LeaseUntil j + d, job_Version := job_Version j + 1\<rparr>) s)"
  using assms by (auto simp: RenewLease_def lease_current_def Let_def)

text \<open>
  A renewal adds a full lease duration to the current expiry, not to the present: after
  \<open>n\<close> heartbeats, each before the current expiry and however close together, the lease runs
  until \<open>n\<close> durations after its first expiry, and the revision has grown by \<open>n\<close>.
\<close>

theorem heartbeats_accumulate:
  assumes "store_wf s" and "contextErr c = None" and "0 < d"
    and "st_jobs s (job_ID (lease_Job l)) = Some j"
    and "job_LeaseToken j = lease_Token l" and "job_Version j = CurrentVersion (Some l)"
    and "job_Status j = StatusProcessing \<or> job_Status j = StatusDelivering"
    and "\<forall>clk \<in> set clks. clk < job_LeaseUntil j"
  shows "\<exists>lo s'. heartbeats c d clks (Some l) s = (None, lo, s')
    \<and> st_jobs s' (job_ID (lease_Job l)) =
        Some (j\<lparr>job_LeaseUntil := job_LeaseUntil j + int (length clks) * d,
                job_Version := job_Version j + of_nat (length clks)\<rparr>)"
  using assms(1,4-8)
proof (induction clks arbitrary: l j s)
  case Nil
  then show ?case by simp
next
  case (Cons clk clks)
  let ?j = "j\<lparr>job_LeaseUntil := job_LeaseUntil j + d, job_Version := job_Version j + 1\<rparr>"
  let ?lo = "Observe (job_Version j + 1) (job_LeaseUntil j + d) (job_Stage j) (Some l)"
  have jid: "job_ID j = job_ID (lease_Job l)" and wf: "job_wf j"
    using store_wfD [OF Cons.prems(1,2)] by auto
  have cur: "lease_current clk l j" using Cons.prems(3,4,6) by (simp add: lease_current_def)
  obtain l' where l': "?lo = Some l'" by (simp add: Observe_def)
  note f = Observe_fields [OF l']
  have wf': "store_wf (put_job ?j s)"
    using store_wf_put [OF Cons.prems(1) job_wf_renew [OF wf Cons.prems(5)]] .
  have stored: "st_jobs (put_job ?j s) (job_ID (lease_Job l')) = Some ?j"
    using jid f(2) by simp
  have rest: "\<forall>clk \<in> set clks. clk < job_LeaseUntil ?j"
    using Cons.prems(6) assms(3) by auto
  have lease: "job_LeaseToken ?j = lease_Token l'" "job_Version ?j = CurrentVersion (Some l')"
    "job_Status ?j = StatusProcessing \<or> job_Status ?j = StatusDelivering"
    using Cons.prems(3,5) f by simp_all
  note Cons.IH [OF wf' stored lease rest]
  moreover have "heartbeats c d (clk # clks) (Some l) s = heartbeats c d clks (Some l') (put_job ?j s)"
    using RenewLease_current [OF assms(2) Cons.prems(2) cur Cons.prems(5) assms(3)] l' by simp
  ultimately show ?case using f(2) by (auto simp: algebra_simps)
qed

theorem heartbeats_accumulate_witness:
  "\<exists>lo s'. heartbeats live 10 [101, 102, 103] (Some demo_lease) demo_busy = (None, lo, s')
    \<and> st_jobs s' ''a'' = Some (demo_leased\<lparr>job_LeaseUntil := 140, job_Version := 5\<rparr>)"
  using heartbeats_accumulate [OF demo_stores(4) contextErr_live, of 10 demo_lease demo_leased
      "[101, 102, 103]"]
  by simp

subsection \<open>Idempotent submission\<close>

text \<open>
  A submission that repeats a key within 24 hours of the first one, after any run of
  operations that neither deletes a job nor submits with that key, never makes a second job
  and changes nothing: with the same request digest it returns the job of the first
  submission as it is now, marked as replayed; with another digest it reports a conflict.
\<close>

theorem resubmission_is_idempotent:
  assumes "store_wf s0" and "contextErr c = None" and "cj_IdempotencyKey cmd \<noteq> ''''"
    and "CreateOrReuse c1 cmd1 s0 = (out, None, s1)" and "\<not> out_Replayed out"
    and "cj_ID cmd1 \<notin> dom (st_jobs s0)"
    and "cj_IdempotencyKey cmd1 = cj_IdempotencyKey cmd"
    and "cj_CreatedAt cmd - cj_CreatedAt cmd1 < 24 * Hour"
    and "mem_run s1 opers s" and "\<forall>oper \<in> set opers. keeps_key (cj_IdempotencyKey cmd) oper"
  shows "\<exists>j. st_jobs s (cj_ID cmd1) = Some j
    \<and> CreateOrReuse c cmd s =
       (if cj_RequestDigest cmd = cj_RequestDigest cmd1
        then (\<lparr>out_Job = j, out_Replayed = True, out_Conflict = False\<rparr>, None, s)
        else (zero_outcome\<lparr>out_Conflict := True\<rparr>, Some ErrIdempotencyConflict, s))"
proof -
  let ?k = "cj_IdempotencyKey cmd"
  let ?r = "\<lparr>idem_jobID = cj_ID cmd1, idem_digest = cj_RequestDigest cmd1,
             idem_createdAt = cj_CreatedAt cmd1\<rparr>"
  have first: "st_idempotency s1 ?k = Some ?r" "st_jobs s1 (cj_ID cmd1) = Some (new_job cmd1)"
    using CreateOrReuse_fresh [OF assms(4,5)] assms(3,7) by auto
  have "mem_step s0 (OpCreate c1 cmd1) s1" using step_create [OF assms(6,4)] .
  then have wf1: "store_wf s1" using assms(1) mem_step_wf by blast
  have "st_idempotency s ?k = Some ?r"
    using keeps_key_run [OF assms(9)] assms(10) first(1) by simp
  moreover obtain j where "st_jobs s (cj_ID cmd1) = Some j"
    using keeps_job_run [OF assms(9) wf1, of "cj_ID cmd1"] first(2) assms(10)
    by (auto simp: keeps_key_def)
  moreover have "record_fresh cmd ?r" using assms(8) by (simp add: record_fresh_def)
  ultimately show ?thesis using CreateOrReuse_known [OF assms(2,3)] by fastforce
qed

text \<open>
  Deleting a job forgets its idempotency key even when the record of the key belongs to
  another, newer job: the next submission with the key makes a new job, with whatever digest
  and at whatever time.
\<close>

theorem delete_forgets_newer_submission:
  assumes "contextErr c = None" and "contextErr c' = None"
    and "st_jobs s old = Some j" and "job_IdempotencyKey j = cj_IdempotencyKey cmd"
    and "cj_IdempotencyKey cmd \<noteq> ''''"
    and "st_idempotency s (cj_IdempotencyKey cmd) = Some r" and "idem_jobID r = new"
    and "new \<noteq> old" and "st_jobs s new = Some j'" and "cj_ID cmd \<noteq> new"
  shows "\<exists>s1. RequestDelete c old now s = (None, s1) \<and> st_jobs s1 new = Some j'
    \<and> CreateOrReuse c' cmd s1 = insert_job cmd s1
    \<and> st_jobs (snd (snd (insert_job cmd s1))) new = Some j'"
  using assms
  by (auto simp: RequestDelete_def CreateOrReuse_def expire_idempotency_def insert_job_def
      drop_idempotency_def put_job_def Let_def)

definition demo_reused :: mem_store where
  "demo_reused = \<lparr>st_jobs = [''a'' \<mapsto> new_job (demo_cmd ''a''), ''b'' \<mapsto> new_job (demo_cmd ''b'')],
     st_idempotency = [''key'' \<mapsto> \<lparr>idem_jobID = ''b'', idem_digest = ''digest'',
                                    idem_createdAt = 100\<rparr>]\<rparr>"

theorem delete_forgets_newer_submission_witness:
  "\<exists>s1. RequestDelete live ''a'' 200 demo_reused = (None, s1)
    \<and> CreateOrReuse live (demo_cmd ''c'') s1 = insert_job (demo_cmd ''c'') s1"
  using delete_forgets_newer_submission [of live live demo_reused "''a''" "new_job (demo_cmd ''a'')"
      "demo_cmd ''c''" "\<lparr>idem_jobID = ''b'', idem_digest = ''digest'', idem_createdAt = 100\<rparr>"
      "''b''" "new_job (demo_cmd ''b'')" 200]
  by (auto simp: demo_reused_def new_job_def)

theorem resubmission_is_idempotent_witness:
  "\<exists>j. st_jobs (snd (snd (CreateOrReuse live (demo_cmd ''a'') NewStore))) ''a'' = Some j
    \<and> CreateOrReuse live (demo_cmd ''b'')
         (snd (snd (CreateOrReuse live (demo_cmd ''a'') NewStore)))
      = (\<lparr>out_Job = j, out_Replayed = True, out_Conflict = False\<rparr>, None,
         snd (snd (CreateOrReuse live (demo_cmd ''a'') NewStore)))"
proof -
  have first: "CreateOrReuse live (demo_cmd ''a'') NewStore
      = (fst (CreateOrReuse live (demo_cmd ''a'') NewStore), None,
         snd (snd (CreateOrReuse live (demo_cmd ''a'') NewStore)))"
    "\<not> out_Replayed (fst (CreateOrReuse live (demo_cmd ''a'') NewStore))"
    by (simp_all add: CreateOrReuse_def NewStore_def expire_idempotency_def insert_job_def Let_def)
  show ?thesis
    using resubmission_is_idempotent [where cmd = "demo_cmd ''b''" and opers = "[]",
        OF store_wf_NewStore contextErr_live _ first]
    by (simp add: NewStore_def duration_defs)
qed

subsection \<open>Listing\<close>

text \<open>
  Listing is a stable pagination of one sequence: there is a list of exactly the stored
  jobs with the requested status, each once, newest first and then by descending id, such
  that the first page is its prefix and the page after the cursor of its \<open>i\<close>-th job is what
  follows that job, cut at the limit, with \<open>HasMore\<close> exactly when the cut dropped something.
\<close>

theorem listing_pages:
  assumes "store_wf s" and "enumerates order s" and "contextErr c = None" and "0 < limit"
  shows "\<exists>js. distinct js \<and> sorted_wrt list_less js
    \<and> set js = {j. (\<exists>k. st_jobs s k = Some j)
                 \<and> (case st of None \<Rightarrow> True | Some x \<Rightarrow> job_Status j = x)}
    \<and> List_jobs c \<lparr>slr_Limit = limit, slr_After = None, slr_Status = st\<rparr> order s
       = Inr \<lparr>page_Jobs = take (nat limit) js, page_HasMore = limit < int (length js)\<rparr>
    \<and> (\<forall>i < length js.
        List_jobs c \<lparr>slr_Limit = limit, slr_After = Some (job_position (js ! i)),
                     slr_Status = st\<rparr> order s
         = Inr \<lparr>page_Jobs = take (nat limit) (drop (Suc i) js),
                page_HasMore = limit < int (length (drop (Suc i) js))\<rparr>)"
proof -
  let ?js = "listing st order s"
  note eq = List_jobs_eq [OF assms(1-3)] and desc = descending_listing [OF assms(1,2), of st]
  have "distinct ?js" and "sorted_wrt list_less ?js"
    using descending_facts [OF desc] by auto
  moreover have "set ?js = {j. (\<exists>k. st_jobs s k = Some j)
                 \<and> (case st of None \<Rightarrow> True | Some x \<Rightarrow> job_Status j = x)}"
    using set_listing [OF assms(2)] by (auto simp: has_status_def split: option.splits)
  ultimately show ?thesis using assms(4) behind_drop [OF desc]
    by (intro exI [of _ ?js] conjI allI impI)
      (simp_all add: eq page_of_def behind_None)
qed

theorem listing_pages_witness:
  "\<exists>js. set js = {demo_leased}
    \<and> List_jobs live \<lparr>slr_Limit = 5, slr_After = None, slr_Status = None\<rparr> [''a''] demo_busy
       = Inr \<lparr>page_Jobs = take 5 js, page_HasMore = 5 < int (length js)\<rparr>"
proof -
  have "{j. \<exists>k. st_jobs demo_busy k = Some j} = {demo_leased}"
    by (simp add: stored_values)
  then show ?thesis
    using listing_pages [OF demo_stores(4,6) contextErr_live, of 5 None] by auto
qed

text \<open>A client that follows the cursors: it presents the position of the last job of a page
  until a page reports no more. \<open>n\<close> bounds the number of pages.\<close>

fun walk ::
  "ctx \<Rightarrow> int \<Rightarrow> status option \<Rightarrow> job_id list \<Rightarrow> mem_store \<Rightarrow> nat \<Rightarrow> cursor_position option
     \<Rightarrow> job list option" where
  "walk c limit st order s 0 after = None"
| "walk c limit st order s (Suc n) after =
     (case List_jobs c \<lparr>slr_Limit = limit, slr_After = after, slr_Status = st\<rparr> order s of
        Inl _ \<Rightarrow> None
      | Inr p \<Rightarrow> if \<not> page_HasMore p then Some (page_Jobs p)
                 else map_option ((@) (page_Jobs p))
                        (walk c limit st order s n (Some (job_position (last (page_Jobs p))))))"

lemma walk_from:
  assumes wf: "store_wf s" "enumerates order s" "contextErr c = None" and lim: "0 < limit"
    and js: "js = listing st order s" and i: "i \<le> length js"
    and after: "after = (case i of 0 \<Rightarrow> None | Suc p \<Rightarrow> Some (job_position (js ! p)))"
    and fuel: "length js - i < n"
  shows "walk c limit st order s n after = Some (drop i js)"
  using i after fuel
proof (induction n arbitrary: i after)
  case (Suc n)
  note desc = descending_listing [OF wf(1,2), of st]
  have "behind after js = drop i js"
    using Suc.prems(1,2) behind_drop [of js] desc
    by (cases i) (auto simp: js behind_None)
  then have page: "List_jobs c \<lparr>slr_Limit = limit, slr_After = after, slr_Status = st\<rparr> order s
      = Inr \<lparr>page_Jobs = take (nat limit) (drop i js),
             page_HasMore = limit < int (length (drop i js))\<rparr>"
    using lim by (simp add: List_jobs_eq [OF wf] page_of_def js)
  show ?case
  proof (cases "limit < int (length (drop i js))")
    case False
    then show ?thesis by (simp add: page)
  next
    case True
    obtain m where m: "nat limit = Suc m" using lim by (cases "nat limit") auto
    have len: "i + Suc m < length js" using True m by (simp add: less_diff_conv)
    then have "last (take (Suc m) (drop i js)) = js ! (i + m)"
      by (simp add: last_conv_nth)
    moreover have "walk c limit st order s n (Some (job_position (js ! (i + m))))
        = Some (drop (i + Suc m) js)"
      using Suc.IH [of "i + Suc m"] len Suc.prems(3) by simp
    moreover have "take (Suc m) (drop i js) @ drop (i + Suc m) js = drop i js"
      by (metis append_take_drop_id drop_drop add.commute)
    ultimately show ?thesis using True by (simp add: page m)
  qed
qed simp

text \<open>
  C6. Following the cursors of a store that does not change visits every job with the
  requested status exactly once, newest first, whatever the page limit: with more pages
  allowed than there are jobs the walk ends, and its pages concatenate to the listing.
\<close>

theorem cursor_walk_is_complete:
  assumes "store_wf s" and "enumerates order s" and "contextErr c = None" and "0 < limit"
    and "card (dom (st_jobs s)) < n"
  shows "\<exists>js. walk c limit st order s n None = Some js \<and> distinct js
    \<and> sorted_wrt list_less js
    \<and> set js = {j. (\<exists>k. st_jobs s k = Some j)
                 \<and> (case st of None \<Rightarrow> True | Some x \<Rightarrow> job_Status j = x)}"
proof -
  let ?js = "listing st order s"
  have sorted: "distinct ?js" "sorted_wrt list_less ?js"
    using descending_facts [OF descending_listing [OF assms(1,2)]] by auto
  have "length ?js \<le> length order" by (rule length_listing)
  also have "\<dots> = card (dom (st_jobs s))"
    using assms(2) distinct_card unfolding enumerates_def by metis
  finally have "walk c limit st order s n None = Some (drop 0 ?js)"
    using assms(5) by (intro walk_from [OF assms(1-4)]) auto
  moreover have "set ?js = {j. (\<exists>k. st_jobs s k = Some j)
                 \<and> (case st of None \<Rightarrow> True | Some x \<Rightarrow> job_Status j = x)}"
    using set_listing [OF assms(2)] by (auto simp: has_status_def split: option.splits)
  ultimately show ?thesis using sorted by simp
qed

theorem cursor_walk_is_complete_witness:
  "\<exists>js. walk live 1 None [''a'', ''b''] demo_pair 3 None = Some js
    \<and> set js = {demo_leased, new_job (demo_cmd ''b'')}"
proof -
  have "store_wf demo_pair" "enumerates [''a'', ''b''] demo_pair"
    "card (dom (st_jobs demo_pair)) < 3"
    by (auto simp: demo_pair_def NewStore_def store_wf_def enumerates_def)
  moreover have "{j. \<exists>k. st_jobs demo_pair k = Some j} = {demo_leased, new_job (demo_cmd ''b'')}"
  proof -
    have "st_jobs demo_pair = (\<lambda>k. if k = ''b'' then Some (new_job (demo_cmd ''b''))
        else if k = ''a'' then Some demo_leased else None)"
      by (auto simp: demo_pair_def NewStore_def fun_eq_iff)
    then show ?thesis by (simp only:) (rule stored_values(2), simp)
  qed
  ultimately show ?thesis
    using cursor_walk_is_complete [of demo_pair "[''a'', ''b'']" live 1 3 None] by auto
qed

subsection \<open>Publication\<close>

text \<open>
  A job is published only through its PDF: in every run that takes a job that is not
  there, queued, failed or not yet formatting in its current attempt to one that is ready,
  there is a point at which a worker held it in the formatting stage; and what is ready has
  its document and a non-empty available artifact.
\<close>

theorem published_only_after_formatting:
  assumes "mem_run s opers s'" and "store_wf s" and "unformatted (st_jobs s k)"
    and "st_jobs s' k = Some j" and "job_Status j = StatusReady"
  shows "published j \<and> (\<exists>pre post sm. opers = pre @ post \<and> mem_run s pre sm
    \<and> mem_run sm post s' \<and> formatting (st_jobs sm k))"
proof
  have "job_wf j" using mem_run_wf [OF assms(1,2)] assms(4) store_wfD by blast
  then show "published j" using assms(5) by (simp add: job_wf_def)
  have "\<not> unformatted (st_jobs s' k)" using assms(4,5) by (simp add: unformatted_def)
  then show "\<exists>pre post sm. opers = pre @ post \<and> mem_run s pre sm
    \<and> mem_run sm post s' \<and> formatting (st_jobs sm k)"
    using unformatted_run [OF assms(1-3)] by blast
qed

definition demo_at :: "stage \<Rightarrow> uint64 \<Rightarrow> job" where
  "demo_at st v = demo_leased\<lparr>job_Stage := st, job_Version := v\<rparr>"

definition demo_store_at :: "stage \<Rightarrow> uint64 \<Rightarrow> mem_store" where
  "demo_store_at st v = put_job (demo_at st v) demo_busy"

definition demo_completion :: completion where
  "demo_completion = \<lparr>cmp_Content = \<lparr>doc_ID = ''doc'', doc_JobID = '''', doc_Title = ''T'',
       doc_Author = '''', doc_SiteName = '''', doc_PublicationDate = '''', doc_Description = '''',
       doc_Language = '''', doc_SourceURL = '''', doc_SemanticHTML = '''', doc_PlainText = '''',
       doc_ExtractionMethod = '''', doc_AIConfidence = Fin 0, doc_AICompleteness = Fin 0,
       doc_CreatedAt = 105, doc_UpdatedAt = 105\<rparr>,
     cmp_Artifact = \<lparr>art_Key = ''k'', art_Filename = ''f'', art_MediaType = ''application/pdf'',
       art_ByteSize = 7, art_Checksum = '''', art_Available = True, art_CreatedAt = 105\<rparr>,
     cmp_CanonicalURL = ''u''\<rparr>"

lemma demo_at_simps [simp]:
  "job_ID (demo_at st v) = ''a''" "job_Status (demo_at st v) = StatusProcessing"
  "job_Stage (demo_at st v) = st" "job_LeaseToken (demo_at st v) = ''t1''"
  "job_LeaseUntil (demo_at st v) = 110" "job_Version (demo_at st v) = v"
  "st_jobs (demo_store_at st v) = [''a'' \<mapsto> demo_at st v]"
  by (simp_all add: demo_at_def demo_store_at_def)

lemma demo_store_at_wf: "stage_Valid st \<Longrightarrow> store_wf (demo_store_at st v)"
  by (simp add: demo_store_at_def demo_at_def job_wf_stage store_wf_put)

lemma demo_set_stage:
  assumes "stage_Valid st'" and "CanTransitionTo st st'"
  shows "mem_step (demo_store_at st v)
     (OpSetStage live 105 (Some (NewLease (demo_at st v) ''t1'' 110)) st')
     (demo_store_at st' (v + 1))"
proof (rule step_stage)
  show "SetStage live 105 (Some (NewLease (demo_at st v) ''t1'' 110)) st' (demo_store_at st v)
      = (None, Observe (v + 1) 110 st' (Some (NewLease (demo_at st v) ''t1'' 110)),
         demo_store_at st' (v + 1))"
    using assms by (simp add: SetStage_def Let_def)
      (simp add: NewLease_def Let_def demo_store_at_def demo_at_def put_job_def)
qed (simp add: zero_time_def)

lemma demo_complete:
  "mem_step (demo_store_at StagePersisting v)
     (OpComplete live 105 (Some (NewLease (demo_at StagePersisting v) ''t1'' 110)) demo_completion 106)
     (put_job (completed_job demo_completion 106 (demo_at StagePersisting v))
        (demo_store_at StagePersisting v))"
proof (rule step_complete)
  show "Complete live 105 (Some (NewLease (demo_at StagePersisting v) ''t1'' 110)) demo_completion
        106 (demo_store_at StagePersisting v)
      = (None, Observe (v + 1) zero_time StageNone
                 (Some (NewLease (demo_at StagePersisting v) ''t1'' 110)),
         put_job (completed_job demo_completion 106 (demo_at StagePersisting v))
           (demo_store_at StagePersisting v))"
    by (simp add: Complete_def Let_def demo_completion_def)
      (simp add: NewLease_def completed_job_def Let_def)
qed (simp add: zero_time_def)

theorem published_only_after_formatting_witness:
  "published (completed_job demo_completion 106 (demo_at StagePersisting 4))"
proof (rule conjunct1 [OF published_only_after_formatting])
  show "mem_run (demo_store_at StageFetching 2)
     [OpSetStage live 105 (Some (NewLease (demo_at StageFetching 2) ''t1'' 110)) StageFormatting,
      OpSetStage live 105 (Some (NewLease (demo_at StageFormatting 3) ''t1'' 110)) StagePersisting,
      OpComplete live 105 (Some (NewLease (demo_at StagePersisting 4) ''t1'' 110))
        demo_completion 106]
     (put_job (completed_job demo_completion 106 (demo_at StagePersisting 4))
        (demo_store_at StagePersisting 4))"
    using demo_set_stage [of StageFormatting StageFetching 2]
      demo_set_stage [of StagePersisting StageFormatting 3] demo_complete [of 4]
    by (intro run_cons [of _ _ "demo_store_at StageFormatting 3"]
        run_cons [of _ _ "demo_store_at StagePersisting 4"] run_cons run_nil)
      (simp_all add: CanTransitionTo_def)
  show "store_wf (demo_store_at StageFetching 2)" by (simp add: demo_store_at_wf)
  show "unformatted (st_jobs (demo_store_at StageFetching 2) ''a'')" by (simp add: unformatted_def)
  show "st_jobs (put_job (completed_job demo_completion 106 (demo_at StagePersisting 4))
        (demo_store_at StagePersisting 4)) ''a''
      = Some (completed_job demo_completion 106 (demo_at StagePersisting 4))" by simp
  show "job_Status (completed_job demo_completion 106 (demo_at StagePersisting 4)) = StatusReady"
    by (simp add: completed_job_def Let_def)
qed

end
