(* ===== verification/Go_Encoding.thy ===== *)
theory Go_Encoding
  imports Go_Strings
begin

section \<open>Numbers and bytes as text\<close>

text \<open>
  The parts of the packages \<open>strconv\<close>, \<open>encoding/hex\<close> and \<open>encoding/base64\<close> that the
  source uses, with their round trips. A byte is a \<open>char\<close>; base64 works on its value.
\<close>

subsection \<open>Package \<open>strconv\<close>\<close>

fun digits :: "nat \<Rightarrow> string" where
  "digits n = (if n < 10 then [char_of (48 + n)]
               else digits (n div 10) @ [char_of (48 + n mod 10)])"

declare digits.simps [simp del]

text \<open>\<open>strconv.Itoa\<close> and \<open>strconv.FormatInt(i, 10)\<close>.\<close>

definition Itoa :: "int \<Rightarrow> string" where
  "Itoa i = (if i < 0 then CHR ''-'' # digits (nat (- i)) else digits (nat i))"

definition is_digit :: "char \<Rightarrow> bool" where
  "is_digit c \<longleftrightarrow> 48 \<le> byte c \<and> byte c \<le> 57"

fun read_digits :: "string \<Rightarrow> nat \<Rightarrow> nat option" where
  "read_digits [] acc = Some acc"
| "read_digits (c # cs) acc =
     (if is_digit c then read_digits cs (acc * 10 + (byte c - 48)) else None)"

text \<open>\<open>strconv.Atoi\<close> and \<open>strconv.ParseInt(s, 10, 64)\<close>; \<open>None\<close> is any of its errors.\<close>

definition ParseInt64 :: "string \<Rightarrow> int option" where
  "ParseInt64 s =
     (let neg = (s \<noteq> [] \<and> hd s = CHR ''-'');
          ds = (if s \<noteq> [] \<and> (hd s = CHR ''-'' \<or> hd s = CHR ''+'') then tl s else s)
      in if ds = [] then None
         else case read_digits ds 0 of
                None \<Rightarrow> None
              | Some n \<Rightarrow> if neg then (if n \<le> 2 ^ 63 then Some (- int n) else None)
                          else (if n < 2 ^ 63 then Some (int n) else None))"

lemma digits_not_Nil [simp]: "digits n \<noteq> []"
  by (subst digits.simps) simp

lemma is_digit_char [simp]: "(n::nat) < 10 \<Longrightarrow> is_digit (char_of (48 + n))"
  by (simp add: is_digit_def)

lemma digits_are_digits: "c \<in> set (digits n) \<Longrightarrow> is_digit c"
proof (induction n rule: digits.induct)
  case (1 n)
  then show ?case by (subst (asm) (2) digits.simps) (auto split: if_splits)
qed

lemma read_digits_append:
  "read_digits (xs @ ys) acc = (case read_digits xs acc of None \<Rightarrow> None | Some n \<Rightarrow> read_digits ys n)"
  by (induction xs arbitrary: acc) auto

lemma read_digits_digits: "read_digits (digits n) 0 = Some n"
proof (induction n rule: digits.induct)
  case (1 n)
  show ?case
  proof (cases "n < 10")
    case True
    then show ?thesis by (subst digits.simps) simp
  next
    case False
    then have "read_digits (digits (n div 10)) 0 = Some (n div 10)" using 1 by simp
    with False show ?thesis by (subst digits.simps) (simp add: read_digits_append)
  qed
qed

lemma hd_digits: "is_digit (hd (digits n))"
  using digits_are_digits [of "hd (digits n)" n] by simp

lemma digit_not_sign: "is_digit c \<Longrightarrow> c \<noteq> CHR ''-'' \<and> c \<noteq> CHR ''+'' \<and> c \<noteq> CHR '':''"
  by (auto simp: is_digit_def)

lemma ParseInt64_Itoa:
  assumes "min_int64 \<le> i" and "i \<le> max_int64"
  shows "ParseInt64 (Itoa i) = Some i"
proof (cases "i < 0")
  case True
  then have "nat (- i) \<le> 2 ^ 63" using assms(1) by (simp add: min_int64_def)
  then show ?thesis using True by (simp add: ParseInt64_def Itoa_def read_digits_digits)
next
  case False
  then have "nat i < 2 ^ 63" using assms(2) by (simp add: max_int64_def)
  then show ?thesis
    using False digit_not_sign [OF hd_digits [of "nat i"]]
    by (simp add: ParseInt64_def Itoa_def read_digits_digits)
qed

lemma colon_not_in_Itoa: "CHR '':'' \<notin> set (Itoa i)"
  using digits_are_digits digit_not_sign by (auto simp: Itoa_def)

lemma ParseInt64_range: "ParseInt64 s = Some i \<Longrightarrow> min_int64 \<le> i \<and> i \<le> max_int64"
  by (auto simp: ParseInt64_def Let_def min_int64_def max_int64_def split: option.splits if_splits)

subsection \<open>Package \<open>encoding/hex\<close>\<close>

definition hex_char :: "nat \<Rightarrow> char" where
  "hex_char n = char_of (if n < 10 then 48 + n else 87 + n)"

definition hex_encode :: "string \<Rightarrow> string" where
  "hex_encode s = concat (map (\<lambda>c. [hex_char (byte c div 16), hex_char (byte c mod 16)]) s)"

lemma length_hex_encode: "length (hex_encode s) = 2 * length s"
  by (induction s) (simp_all add: hex_encode_def)

lemma byte_hex_char: "n < 16 \<Longrightarrow> byte (hex_char n) = (if n < 10 then 48 + n else 87 + n)"
  by (auto simp: hex_char_def of_char_of)

lemma hex_char_inj:
  assumes "a < 16" and "b < 16" and "hex_char a = hex_char b"
  shows "a = b"
proof -
  have "byte (hex_char a) = byte (hex_char b)" using assms(3) by simp
  then show ?thesis using assms(1,2) by (simp add: byte_hex_char split: if_splits)
qed

lemma hex_encode_inj: "hex_encode s = hex_encode t \<Longrightarrow> s = t"
proof (induction s arbitrary: t)
  case Nil
  then show ?case by (cases t) (simp_all add: hex_encode_def)
next
  case (Cons c s)
  then obtain d t' where t: "t = d # t'" by (cases t) (auto simp: hex_encode_def)
  have eqs: "hex_char (byte c div 16) = hex_char (byte d div 16)"
    "hex_char (byte c mod 16) = hex_char (byte d mod 16)" "hex_encode s = hex_encode t'"
    using Cons.prems by (auto simp: hex_encode_def t)
  have "byte c < 256" "byte d < 256" by simp_all
  then have "byte c div 16 < 16" "byte d div 16 < 16" by presburger+
  then have "byte c div 16 = byte d div 16" "byte c mod 16 = byte d mod 16"
    using hex_char_inj eqs(1,2) by auto
  then have "byte c = (byte d :: nat)" by (metis div_mult_mod_eq)
  then show ?case using Cons.IH [OF eqs(3)] t by simp
qed

subsection \<open>Package \<open>encoding/base64\<close>\<close>

text \<open>An alphabet is the pair of its last two characters.\<close>

definition StdEncoding :: "nat \<times> nat" where "StdEncoding = (43, 47)"
definition URLEncoding :: "nat \<times> nat" where "URLEncoding = (45, 95)"

definition b64_char :: "nat \<times> nat \<Rightarrow> nat \<Rightarrow> char" where
  "b64_char a n = char_of (if n < 26 then 65 + n else if n < 52 then 71 + n
     else if n < 62 then n - 4 else if n = 62 then fst a else snd a)"

definition b64_value :: "nat \<times> nat \<Rightarrow> char \<Rightarrow> nat option" where
  "b64_value a c =
     (let b = byte c
      in if 65 \<le> b \<and> b \<le> 90 then Some (b - 65)
         else if 97 \<le> b \<and> b \<le> 122 then Some (b - 71)
         else if 48 \<le> b \<and> b \<le> 57 then Some (b + 4)
         else if b = fst a then Some 62 else if b = snd a then Some 63 else None)"

fun b64_encode :: "nat \<times> nat \<Rightarrow> bool \<Rightarrow> nat list \<Rightarrow> string" where
  "b64_encode a pad [] = []"
| "b64_encode a pad [x] =
     [b64_char a (x div 4), b64_char a (x mod 4 * 16)] @ (if pad then ''=='' else [])"
| "b64_encode a pad [x, y] =
     [b64_char a (x div 4), b64_char a (x mod 4 * 16 + y div 16), b64_char a (y mod 16 * 4)]
     @ (if pad then ''='' else [])"
| "b64_encode a pad (x # y # z # bs) =
     [b64_char a (x div 4), b64_char a (x mod 4 * 16 + y div 16),
      b64_char a (y mod 16 * 4 + z div 64), b64_char a (z mod 64)] @ b64_encode a pad bs"

text \<open>The last quantum, of two or three characters: strict decoding rejects stray bits.\<close>

definition b64_two :: "nat \<times> nat \<Rightarrow> bool \<Rightarrow> char \<Rightarrow> char \<Rightarrow> nat list option" where
  "b64_two a strict c d =
     (case (b64_value a c, b64_value a d) of
        (Some u, Some v) \<Rightarrow> if strict \<and> v mod 16 \<noteq> 0 then None else Some [u * 4 + v div 16]
      | _ \<Rightarrow> None)"

definition b64_three :: "nat \<times> nat \<Rightarrow> bool \<Rightarrow> char \<Rightarrow> char \<Rightarrow> char \<Rightarrow> nat list option" where
  "b64_three a strict c d e =
     (case (b64_value a c, b64_value a d, b64_value a e) of
        (Some u, Some v, Some w) \<Rightarrow>
          if strict \<and> w mod 4 \<noteq> 0 then None
          else Some [u * 4 + v div 16, v mod 16 * 16 + w div 4]
      | _ \<Rightarrow> None)"

fun b64_quanta :: "nat \<times> nat \<Rightarrow> bool \<Rightarrow> bool \<Rightarrow> string \<Rightarrow> nat list option" where
  "b64_quanta a pad strict [] = Some []"
| "b64_quanta a pad strict [c] = None"
| "b64_quanta a pad strict [c, d] = (if pad then None else b64_two a strict c d)"
| "b64_quanta a pad strict [c, d, e] = (if pad then None else b64_three a strict c d e)"
| "b64_quanta a pad strict (c # d # e # f # cs) =
     (if pad \<and> e = CHR ''='' then
        (if f = CHR ''='' \<and> cs = [] then b64_two a strict c d else None)
      else if pad \<and> f = CHR ''='' then (if cs = [] then b64_three a strict c d e else None)
      else (case (b64_value a c, b64_value a d, b64_value a e, b64_value a f) of
              (Some u, Some v, Some w, Some x) \<Rightarrow>
                map_option ((@) [u * 4 + v div 16, v mod 16 * 16 + w div 4, w mod 4 * 64 + x])
                  (b64_quanta a pad strict cs)
            | _ \<Rightarrow> None))"

text \<open>\<open>DecodeString\<close>: line breaks are ignored wherever they stand.\<close>

definition b64_decode :: "nat \<times> nat \<Rightarrow> bool \<Rightarrow> bool \<Rightarrow> string \<Rightarrow> nat list option" where
  "b64_decode a pad strict s =
     b64_quanta a pad strict (filter (\<lambda>c. byte c \<noteq> 10 \<and> byte c \<noteq> 13) s)"

definition b64_alphabet :: "nat \<times> nat \<Rightarrow> bool" where
  "b64_alphabet a \<longleftrightarrow> a = StdEncoding \<or> a = URLEncoding"

lemma byte_b64_char:
  assumes "b64_alphabet a" and "n < 64"
  shows "byte (b64_char a n) = (if n < 26 then 65 + n else if n < 52 then 71 + n
     else if n < 62 then n - 4 else if n = 62 then fst a else snd a)"
proof -
  have "fst a < 256" "snd a < 256"
    using assms(1) by (auto simp: b64_alphabet_def StdEncoding_def URLEncoding_def)
  then show ?thesis using assms(2) by (simp add: b64_char_def of_char_of)
qed

lemma b64_value_char [simp]:
  assumes "b64_alphabet a" and "n < 64"
  shows "b64_value a (b64_char a n) = Some n"
proof -
  define b where "b = (byte (b64_char a n) :: nat)"
  have b: "b = (if n < 26 then 65 + n else if n < 52 then 71 + n
     else if n < 62 then n - 4 else if n = 62 then fst a else snd a)"
    by (simp add: b_def byte_b64_char [OF assms])
  have a: "fst a = 43 \<and> snd a = 47 \<or> fst a = 45 \<and> snd a = 95"
    using assms(1) by (auto simp: b64_alphabet_def StdEncoding_def URLEncoding_def)
  consider "n < 26" | "26 \<le> n" "n < 52" | "52 \<le> n" "n < 62" | "n = 62" | "n = 63"
    using assms(2) by linarith
  then have "(if 65 \<le> b \<and> b \<le> 90 then Some (b - 65)
         else if 97 \<le> b \<and> b \<le> 122 then Some (b - 71)
         else if 48 \<le> b \<and> b \<le> 57 then Some (b + 4)
         else if b = fst a then Some 62 else if b = snd a then Some 63 else None) = Some n"
  proof cases
    case 1
    then show ?thesis by (simp add: b)
  next
    case 2
    then show ?thesis by (simp add: b)
  next
    case 3
    then have "48 \<le> b" "b \<le> 57" "b + 4 = n" by (simp_all add: b)
    then show ?thesis by simp
  next
    case 4
    then have "b = fst a" by (simp add: b)
    then show ?thesis using 4 a by auto
  next
    case 5
    then have "b = snd a" by (simp add: b)
    then show ?thesis using 5 a by auto
  qed
  then show ?thesis by (simp add: b64_value_def b_def [symmetric])
qed

lemma b64_char_plain [simp]:
  assumes "b64_alphabet a" and "n < 64"
  shows "b64_char a n \<noteq> CHR ''=''" and "byte (b64_char a n) \<noteq> (10::nat)"
    and "byte (b64_char a n) \<noteq> (13::nat)"
proof -
  have "byte (b64_char a n) \<notin> {10, 13, 61::nat}"
    using assms by (auto simp: byte_b64_char b64_alphabet_def StdEncoding_def URLEncoding_def)
  then show "b64_char a n \<noteq> CHR ''=''" and "byte (b64_char a n) \<noteq> (10::nat)"
    and "byte (b64_char a n) \<noteq> (13::nat)" by auto
qed

text \<open>Packing two small numbers into one and taking them apart.\<close>

lemma pack:
  fixes u v m :: nat
  assumes "v < m"
  shows "(u * m + v) div m = u" and "(u * m + v) mod m = v"
  using assms by simp_all

lemma b64_sextets:
  fixes x y :: nat
  assumes "x < 256" and "y < 256"
  shows "x div 4 < 64" "x mod 4 * 16 < 64" "x mod 16 * 4 < 64" "x mod 64 < 64"
    and "x mod 4 * 16 + y div 16 < 64" and "x mod 16 * 4 + y div 64 < 64"
proof -
  have "x mod 4 < 4" "x mod 16 < 16" by simp_all
  moreover have "y div 16 < 16" "y div 64 < 4" "x div 4 < 64"
    using assms by (simp_all add: less_mult_imp_div_less)
  ultimately show "x div 4 < 64" "x mod 4 * 16 < 64" "x mod 16 * 4 < 64" "x mod 64 < 64"
    and "x mod 4 * 16 + y div 16 < 64" and "x mod 16 * 4 + y div 64 < 64"
    by simp_all
qed

lemma b64_joins:
  fixes x y z :: nat
  assumes "x < 256" "y < 256" "z < 256"
  shows "x div 4 * 4 + x mod 4 * 16 div 16 = x"
    "x div 4 * 4 + (x mod 4 * 16 + y div 16) div 16 = x"
    "(x mod 4 * 16 + y div 16) mod 16 * 16 + y mod 16 * 4 div 4 = y"
    "(x mod 4 * 16 + y div 16) mod 16 * 16 + (y mod 16 * 4 + z div 64) div 4 = y"
    "(y mod 16 * 4 + z div 64) mod 4 * 64 + z mod 64 = z"
proof -
  have y: "y div 16 < 16" and z: "z div 64 < 4" using assms by (simp_all add: less_mult_imp_div_less)
  show "x div 4 * 4 + x mod 4 * 16 div 16 = x"
    by simp
  show "x div 4 * 4 + (x mod 4 * 16 + y div 16) div 16 = x"
    by (simp only: pack(1) [OF y] div_mult_mod_eq)
  show "(x mod 4 * 16 + y div 16) mod 16 * 16 + y mod 16 * 4 div 4 = y"
    using y by (simp only: pack(2) [OF y]) simp
  show "(x mod 4 * 16 + y div 16) mod 16 * 16 + (y mod 16 * 4 + z div 64) div 4 = y"
    by (simp only: pack(2) [OF y] pack(1) [OF z] div_mult_mod_eq)
  show "(y mod 16 * 4 + z div 64) mod 4 * 64 + z mod 64 = z"
    by (simp only: pack(2) [OF z] div_mult_mod_eq)
qed

lemma b64_two_encode:
  assumes "b64_alphabet a" and "x < 256"
  shows "b64_two a strict (b64_char a (x div 4)) (b64_char a (x mod 4 * 16)) = Some [x]"
  using assms b64_sextets [of x x] b64_joins(1) [of x x x] unfolding b64_two_def
  by (simp del: mod_mult_right_eq)

lemma b64_three_encode:
  assumes "b64_alphabet a" and "x < 256" and "y < 256"
  shows "b64_three a strict (b64_char a (x div 4)) (b64_char a (x mod 4 * 16 + y div 16))
     (b64_char a (y mod 16 * 4)) = Some [x, y]"
proof -
  have "b64_value a (b64_char a (x div 4)) = Some (x div 4)"
    "b64_value a (b64_char a (x mod 4 * 16 + y div 16)) = Some (x mod 4 * 16 + y div 16)"
    "b64_value a (b64_char a (y mod 16 * 4)) = Some (y mod 16 * 4)"
    by (rule b64_value_char [OF assms(1)], rule b64_sextets, rule assms, rule assms)+
  then show ?thesis
    unfolding b64_three_def
    by (simp only: option.case prod.case b64_joins(2) [OF assms(2,3,3)]
        b64_joins(3) [OF assms(2,3,3)]) simp
qed

lemma b64_roundtrip_quanta:
  "b64_alphabet a \<Longrightarrow> \<forall>b \<in> set bs. b < 256 \<Longrightarrow>
     b64_quanta a pad strict (b64_encode a pad bs) = Some bs"
proof (induction a pad bs rule: b64_encode.induct)
  case (1 a pad)
  then show ?case by simp
next
  case (2 a pad x)
  then show ?case using b64_two_encode [of a x] b64_sextets(2) [of x x] by simp
next
  case (3 a pad x y)
  then show ?case
    using b64_three_encode [of a x y] b64_sextets(3) [of y y] by simp
next
  case (4 a pad x y z bs)
  then have xyz: "x < 256" "y < 256" "z < 256" by auto
  have vals: "b64_value a (b64_char a (x div 4)) = Some (x div 4)"
    "b64_value a (b64_char a (x mod 4 * 16 + y div 16)) = Some (x mod 4 * 16 + y div 16)"
    "b64_value a (b64_char a (y mod 16 * 4 + z div 64)) = Some (y mod 16 * 4 + z div 64)"
    "b64_value a (b64_char a (z mod 64)) = Some (z mod 64)"
    by (rule b64_value_char [OF "4.prems"(1)], rule b64_sextets, (rule xyz)+)+
  have "b64_char a (y mod 16 * 4 + z div 64) \<noteq> CHR ''=''" "b64_char a (z mod 64) \<noteq> CHR ''=''"
    by (rule b64_char_plain(1) [OF "4.prems"(1)], rule b64_sextets, (rule xyz)+)+
  moreover have "b64_quanta a pad strict (b64_encode a pad bs) = Some bs"
    using "4.IH" "4.prems" by simp
  ultimately show ?case
    using vals b64_joins [OF xyz] by (simp del: mod_mult_right_eq)
qed

lemma b64_encode_chars:
  "\<forall>b \<in> set bs. b < 256 \<Longrightarrow> c \<in> set (b64_encode a pad bs) \<Longrightarrow>
     c = CHR ''='' \<or> (\<exists>n < 64. c = b64_char a n)"
proof (induction a pad bs rule: b64_encode.induct)
  case (2 a pad x)
  then have "c = CHR ''='' \<or> c \<in> {b64_char a (x div 4), b64_char a (x mod 4 * 16)}"
    by (auto split: if_splits)
  then show ?case using 2 b64_sextets [of x x] by force
next
  case (3 a pad x y)
  then have xy: "x < 256" "y < 256" by auto
  have "c = CHR ''='' \<or> c \<in> {b64_char a (x div 4), b64_char a (x mod 4 * 16 + y div 16),
      b64_char a (y mod 16 * 4)}"
    using 3 by (auto split: if_splits)
  then show ?case using b64_sextets [OF xy] b64_sextets [OF xy(2,1)] by blast
next
  case (4 a pad x y z bs)
  then have xyz: "x < 256" "y < 256" "z < 256" by auto
  have "c \<in> {b64_char a (x div 4), b64_char a (x mod 4 * 16 + y div 16),
      b64_char a (y mod 16 * 4 + z div 64), b64_char a (z mod 64)}
      \<or> c \<in> set (b64_encode a pad bs)"
    using 4 by auto
  then show ?case
  proof
    assume "c \<in> set (b64_encode a pad bs)"
    then show ?thesis using "4.IH" "4.prems"(1) by simp
  qed (use b64_sextets [OF xyz(1,2)] b64_sextets [OF xyz(2,3)] b64_sextets [OF xyz(3,1)] in blast)
qed simp

lemma b64_plain_text:
  "b64_alphabet a \<Longrightarrow> \<forall>b \<in> set bs. b < 256 \<Longrightarrow> c \<in> set (b64_encode a pad bs) \<Longrightarrow>
     byte c \<noteq> (10::nat) \<and> byte c \<noteq> (13::nat)"
  using b64_encode_chars [of bs c a pad] by auto

lemma b64_roundtrip:
  assumes "b64_alphabet a" and "\<forall>b \<in> set bs. b < 256"
  shows "b64_decode a pad strict (b64_encode a pad bs) = Some bs"
proof -
  have "filter (\<lambda>c. byte c \<noteq> (10::nat) \<and> byte c \<noteq> (13::nat)) (b64_encode a pad bs) = b64_encode a pad bs"
    using b64_plain_text [OF assms] by (intro filter_True) blast
  then show ?thesis using b64_roundtrip_quanta [OF assms] by (simp add: b64_decode_def)
qed

end
