(* ===== verification/Artifacts.thy ===== *)
theory Artifacts
  imports Job_Interfaces Go_Encoding
begin

section \<open>Artifact storage\<close>

text \<open>
  The \<open>ArtifactStore\<close> seam of \<open>internal/application/interfaces.go\<close> as a locale, and the
  in-memory implementation of \<open>internal/memory/store.go\<close>. A reader is the string of the
  bytes it delivers. SHA-256 is the argument \<open>sha256\<close>: nothing depends on its values.
\<close>

record 'a artifact_ops =
  ao_Put :: "ctx \<Rightarrow> job_id \<Rightarrow> string \<Rightarrow> string \<Rightarrow> time \<Rightarrow> 'a \<Rightarrow> (artifact, 'a) outcome"
  ao_Open :: "ctx \<Rightarrow> artifact \<Rightarrow> 'a \<Rightarrow> error + string"
  ao_Delete :: "ctx \<Rightarrow> artifact \<Rightarrow> 'a \<Rightarrow> error option \<times> 'a"

text \<open>
  What the archive and the worker rely on: what was put can be opened and is described by its
  record; a put, failed or not, touches at most one key; after a successful deletion nothing
  can be opened under the key; and whatever is opened has the recorded size.
\<close>

locale artifact_store =
  fixes ops :: "'a artifact_ops"
  assumes put_open: "ao_Put ops c jid name data now s = (Inr a, s') \<Longrightarrow> contextErr c' = None \<Longrightarrow>
      ao_Open ops c' a s' = Inr data"
    and put_record: "ao_Put ops c jid name data now s = (Inr a, s') \<Longrightarrow>
      data \<noteq> '''' \<and> art_Available a \<and> art_ByteSize a = int (length data)
      \<and> art_MediaType a = ''application/pdf'' \<and> art_CreatedAt a = now"
    and put_other: "ao_Put ops c jid name data now s = (Inr a, s') \<Longrightarrow> art_Key b \<noteq> art_Key a \<Longrightarrow>
      ao_Open ops c' b s' = Inr x \<longleftrightarrow> ao_Open ops c' b s = Inr x"
    and put_err: "ao_Put ops c jid name data now s = (Inl e, s') \<Longrightarrow>
      \<exists>k. \<forall>b. art_Key b \<noteq> k \<longrightarrow> (ao_Open ops c' b s' = Inr x \<longleftrightarrow> ao_Open ops c' b s = Inr x)"
    and delete_gone: "ao_Delete ops c a s = (None, s') \<Longrightarrow> art_Key b = art_Key a \<Longrightarrow>
      ao_Open ops c' b s' \<noteq> Inr data"
    and delete_other: "ao_Delete ops c a s = (oe, s') \<Longrightarrow> art_Key b \<noteq> art_Key a \<Longrightarrow>
      ao_Open ops c' b s' = Inr x \<longleftrightarrow> ao_Open ops c' b s = Inr x"
    and open_size: "ao_Open ops c a s = Inr data \<Longrightarrow> int (length data) = art_ByteSize a"
begin

text \<open>A put that is undone by a delete leaves every other artifact as it was.\<close>

lemma put_delete_other:
  assumes "ao_Put ops c jid name data now s = (Inr a, s1)"
    and "ao_Delete ops c' a s1 = (oe, s2)" and "art_Key b \<noteq> art_Key a"
  shows "ao_Open ops d b s2 = Inr x \<longleftrightarrow> ao_Open ops d b s = Inr x"
  using delete_other [OF assms(2,3)] put_other [OF assms(1,3)] by simp

text \<open>Deleting one artifact takes every artifact with the same key with it: two records share
  the bytes under their key.\<close>

lemma delete_shared:
  assumes "ao_Open ops c b s = Inr data" and "ao_Delete ops c' a s = (None, s')"
    and "art_Key b = art_Key a"
  shows "\<exists>e. ao_Open ops c b s' = Inl e"
  using delete_gone [OF assms(2,3)] by (cases "ao_Open ops c b s'") auto

lemma put_nonempty:
  "ao_Put ops c jid name data now s = (Inr a, s') \<Longrightarrow> 0 < art_ByteSize a"
  using put_record by fastforce

end

subsection \<open>The in-memory artifact store\<close>

type_synonym artifact_files = "string \<rightharpoonup> string"

definition NewArtifactStore :: artifact_files where
  "NewArtifactStore = Map.empty"

definition unsafe_name :: "string \<Rightarrow> bool" where
  "unsafe_name name \<longleftrightarrow>
     name = '''' \<or> ContainsAny name [CHR ''/'', CHR 0x5C, CHR 0x5C] \<or> name = ''.'' \<or> name = ''..''"

definition Artifact_Put ::
  "(string \<Rightarrow> string) \<Rightarrow> ctx \<Rightarrow> job_id \<Rightarrow> string \<Rightarrow> string \<Rightarrow> time \<Rightarrow> artifact_files
     \<Rightarrow> (artifact, artifact_files) outcome" where
  "Artifact_Put sha256 c jobID filename data now files =
     (case contextErr c of
        Some e \<Rightarrow> (Inl e, files)
      | None \<Rightarrow>
          (let filename = TrimSpace filename
           in if unsafe_name filename then (Inl (NewError ''unsafe artifact filename''), files)
              else if data = '''' then (Inl (NewError ''empty artifact''), files)
              else
                (let key = jobID @ ''/'' @ filename
                 in (Inr \<lparr>art_Key = key, art_Filename = filename,
                          art_MediaType = ''application/pdf'', art_ByteSize = int (length data),
                          art_Checksum = hex_encode (sha256 data), art_Available = True,
                          art_CreatedAt = now\<rparr>,
                     files(key \<mapsto> data)))))"

definition Artifact_Open ::
  "(string \<Rightarrow> string) \<Rightarrow> ctx \<Rightarrow> artifact \<Rightarrow> artifact_files \<Rightarrow> error + string" where
  "Artifact_Open sha256 c a files =
     (case contextErr c of
        Some e \<Rightarrow> Inl e
      | None \<Rightarrow>
          if \<not> art_Available a then Inl OsErrNotExist
          else (case files (art_Key a) of
                  None \<Rightarrow> Inl OsErrNotExist
                | Some data \<Rightarrow>
                    if int (length data) \<noteq> art_ByteSize a
                    then Inl (NewError ''artifact size mismatch'')
                    else if hex_encode (sha256 data) \<noteq> art_Checksum a
                    then Inl (NewError ''artifact checksum mismatch'')
                    else Inr data))"

definition Artifact_Delete ::
  "ctx \<Rightarrow> artifact \<Rightarrow> artifact_files \<Rightarrow> error option \<times> artifact_files" where
  "Artifact_Delete c a files =
     (case contextErr c of
        Some e \<Rightarrow> (Some e, files)
      | None \<Rightarrow> (None, files(art_Key a := None)))"

definition artifact_mem :: "(string \<Rightarrow> string) \<Rightarrow> artifact_files artifact_ops" where
  "artifact_mem sha256 =
     \<lparr>ao_Put = Artifact_Put sha256, ao_Open = Artifact_Open sha256, ao_Delete = Artifact_Delete\<rparr>"

lemma artifact_mem_simps [simp]:
  "ao_Put (artifact_mem sha256) = Artifact_Put sha256"
  "ao_Open (artifact_mem sha256) = Artifact_Open sha256"
  "ao_Delete (artifact_mem sha256) = Artifact_Delete"
  by (simp_all add: artifact_mem_def)

interpretation art: artifact_store "artifact_mem sha256" for sha256
  by unfold_locales
    (auto simp: Artifact_Put_def Artifact_Open_def Artifact_Delete_def Let_def
      split: option.splits if_splits)

end
