(* ===== verification/Go_URL.thy ===== *)
theory Go_URL
  imports Go_Encoding
begin

section \<open>Package \<open>net/url\<close>\<close>

text \<open>
  \<open>url.Parse\<close>, \<open>URL.String\<close>, \<open>URL.Hostname\<close>, \<open>URL.Port\<close>, \<open>URL.Query\<close> and
  \<open>Values.Encode\<close> as Go 1.23 defines them. \<open>None\<close> is any parse error. A URL of the model has
  the fields of \<open>url.URL\<close>; its user information is the user name and the optional password.
\<close>

datatype escape_mode =
    encodePath | encodeUserPassword | encodeHost | encodeZone | encodeQueryComponent
  | encodeFragment

definition is_alnum :: "char \<Rightarrow> bool" where
  "is_alnum c \<longleftrightarrow>
     (let b = byte c in (97 \<le> b \<and> b \<le> (122::nat)) \<or> (65 \<le> b \<and> b \<le> 90) \<or> (48 \<le> b \<and> b \<le> 57))"

definition shouldEscape :: "escape_mode \<Rightarrow> char \<Rightarrow> bool" where
  "shouldEscape mode c =
     (if is_alnum c then False
      else if (mode = encodeHost \<or> mode = encodeZone)
              \<and> (c \<in> set ''!$&()*+,;=:[]<>'' \<or> byte c = (34::nat) \<or> byte c = (39::nat)) then False
      else if c \<in> set ''-_.~'' then False
      else if c \<in> set ''$&+,/:;=?@'' \<and> mode = encodePath then c = CHR ''?''
      else if c \<in> set ''$&+,/:;=?@'' \<and> mode = encodeUserPassword
        then c = CHR ''@'' \<or> c = CHR ''/'' \<or> c = CHR ''?'' \<or> c = CHR '':''
      else if c \<in> set ''$&+,/:;=?@'' \<and> mode = encodeQueryComponent then True
      else if c \<in> set ''$&+,/:;=?@'' \<and> mode = encodeFragment then False
      else if mode = encodeFragment \<and> c \<in> set ''!()*'' then False
      else True)"

definition unhex :: "char \<Rightarrow> nat option" where
  "unhex c =
     (let b = byte c
      in if 48 \<le> b \<and> b \<le> 57 then Some (b - 48)
         else if 97 \<le> b \<and> b \<le> 102 then Some (b - 87)
         else if 65 \<le> b \<and> b \<le> 70 then Some (b - 55) else None)"

definition upper_hex :: "nat \<Rightarrow> char" where
  "upper_hex n = char_of (if n < 10 then 48 + n else 55 + n)"

text \<open>\<open>unescape(s, mode)\<close>.\<close>

fun unescape :: "escape_mode \<Rightarrow> string \<Rightarrow> string option" where
  "unescape mode [] = Some []"
| "unescape mode (c # cs) =
     (if c = CHR ''%'' then
        (case cs of
           h # l # rest \<Rightarrow>
             (case (unhex h, unhex l) of
                (Some u, Some v) \<Rightarrow>
                  if mode = encodeHost \<and> u < 8 \<and> \<not> (h = CHR ''2'' \<and> l = CHR ''5'') then None
                  else if mode = encodeZone \<and> \<not> (h = CHR ''2'' \<and> l = CHR ''5'')
                          \<and> u * 16 + v \<noteq> 32 \<and> shouldEscape encodeHost (char_of (u * 16 + v))
                  then None
                  else map_option ((#) (char_of (u * 16 + v))) (unescape mode rest)
              | _ \<Rightarrow> None)
         | _ \<Rightarrow> None)
      else if c = CHR ''+'' then
        map_option ((#) (if mode = encodeQueryComponent then CHR '' '' else c)) (unescape mode cs)
      else if (mode = encodeHost \<or> mode = encodeZone) \<and> byte c < (128::nat) \<and> shouldEscape mode c
        then None
      else map_option ((#) c) (unescape mode cs))"

definition escape_char :: "escape_mode \<Rightarrow> char \<Rightarrow> string" where
  "escape_char mode c =
     (if c = CHR '' '' \<and> mode = encodeQueryComponent then ''+''
      else if shouldEscape mode c
        then [CHR ''%'', upper_hex (byte c div 16), upper_hex (byte c mod 16)]
      else [c])"

definition escape :: "escape_mode \<Rightarrow> string \<Rightarrow> string" where
  "escape mode s = concat (map (escape_char mode) s)"

abbreviation QueryUnescape :: "string \<Rightarrow> string option" where
  "QueryUnescape \<equiv> unescape encodeQueryComponent"

abbreviation QueryEscape :: "string \<Rightarrow> string" where
  "QueryEscape \<equiv> escape encodeQueryComponent"

record go_url =
  u_Scheme :: string
  u_Opaque :: string
  u_User :: "(string \<times> string option) option"
  u_Host :: string
  u_Path :: string
  u_RawPath :: string
  u_OmitHost :: bool
  u_ForceQuery :: bool
  u_RawQuery :: string
  u_Fragment :: string
  u_RawFragment :: string

definition zero_url :: go_url where
  "zero_url = \<lparr>u_Scheme = '''', u_Opaque = '''', u_User = None, u_Host = '''', u_Path = '''',
     u_RawPath = '''', u_OmitHost = False, u_ForceQuery = False, u_RawQuery = '''',
     u_Fragment = '''', u_RawFragment = ''''\<rparr>"

subsection \<open>Parsing\<close>

definition is_letter :: "char \<Rightarrow> bool" where
  "is_letter c \<longleftrightarrow>
     (let b = byte c in (97 \<le> b \<and> b \<le> (122::nat)) \<or> (65 \<le> b \<and> b \<le> 90))"

text \<open>\<open>strings.ToLower\<close> on an ASCII string.\<close>

definition lower_byte :: "char \<Rightarrow> char" where
  "lower_byte c = (if 65 \<le> byte c \<and> byte c \<le> (90::nat) then char_of (byte c + 32::nat) else c)"

text \<open>\<open>getScheme\<close>: the scheme read so far is the first argument, reversed.\<close>

fun getScheme_from :: "string \<Rightarrow> string \<Rightarrow> string \<Rightarrow> (string \<times> string) option" where
  "getScheme_from acc raw [] = Some ([], raw)"
| "getScheme_from acc raw (c # cs) =
     (if is_letter c then getScheme_from (c # acc) raw cs
      else if is_digit c \<or> c \<in> set ''+-.'' then
        (if acc = [] then Some ([], raw) else getScheme_from (c # acc) raw cs)
      else if c = CHR '':'' then (if acc = [] then None else Some (rev acc, cs))
      else Some ([], raw))"

definition getScheme :: "string \<Rightarrow> (string \<times> string) option" where
  "getScheme raw = getScheme_from [] raw raw"

definition validOptionalPort :: "string \<Rightarrow> bool" where
  "validOptionalPort port \<longleftrightarrow> port = [] \<or> (hd port = CHR '':'' \<and> list_all is_digit (tl port))"

text \<open>\<open>strings.LastIndex\<close> of a byte: what is before and after its last occurrence.\<close>

fun last_cut :: "char \<Rightarrow> string \<Rightarrow> (string \<times> string) option" where
  "last_cut sep [] = None"
| "last_cut sep (c # cs) =
     (case last_cut sep cs of
        Some (a, b) \<Rightarrow> Some (c # a, b)
      | None \<Rightarrow> if c = sep then Some ([], cs) else None)"

text \<open>\<open>strings.Index\<close> of \<open>"%25"\<close>.\<close>

fun zone_cut :: "string \<Rightarrow> (string \<times> string) option" where
  "zone_cut [] = None"
| "zone_cut (c # cs) =
     (if HasPrefix (c # cs) ''%25'' then Some ([], c # cs)
      else map_option (\<lambda>(a, b). (c # a, b)) (zone_cut cs))"

definition parseHost :: "string \<Rightarrow> string option" where
  "parseHost host =
     (if HasPrefix host ''['' then
        (case last_cut (CHR '']'') host of
           None \<Rightarrow> None
         | Some (inner, colonPort) \<Rightarrow>
             if \<not> validOptionalPort colonPort then None
             else (case zone_cut inner of
                     None \<Rightarrow> unescape encodeHost host
                   | Some (pre, zone) \<Rightarrow>
                       (case (unescape encodeHost pre, unescape encodeZone zone,
                              unescape encodeHost (CHR '']'' # colonPort)) of
                          (Some h1, Some h2, Some h3) \<Rightarrow> Some (h1 @ h2 @ h3)
                        | _ \<Rightarrow> None)))
      else
        (case last_cut (CHR '':'') host of
           Some (_, port) \<Rightarrow> if validOptionalPort (CHR '':'' # port) then unescape encodeHost host
                            else None
         | None \<Rightarrow> unescape encodeHost host))"

definition userinfo_char :: "char \<Rightarrow> bool" where
  "userinfo_char c \<longleftrightarrow>
     is_alnum c \<or> c \<in> set ''-._:~!$&()*+,;=%@'' \<or> byte c = (39::nat)"

definition parseAuthority :: "string \<Rightarrow> ((string \<times> string option) option \<times> string) option" where
  "parseAuthority authority =
     (case last_cut (CHR ''@'') authority of
        None \<Rightarrow> map_option (\<lambda>h. (None, h)) (parseHost authority)
      | Some (userinfo, rest) \<Rightarrow>
          (case parseHost rest of
             None \<Rightarrow> None
           | Some host \<Rightarrow>
               if \<not> list_all userinfo_char userinfo then None
               else (case cut_byte (CHR '':'') userinfo of
                       None \<Rightarrow> map_option (\<lambda>u. (Some (u, None), host))
                                  (unescape encodeUserPassword userinfo)
                     | Some (name, password) \<Rightarrow>
                         (case (unescape encodeUserPassword name,
                                unescape encodeUserPassword password) of
                            (Some u, Some p) \<Rightarrow> Some (Some (u, Some p), host)
                          | _ \<Rightarrow> None))))"

definition setPath :: "string \<Rightarrow> go_url \<Rightarrow> go_url option" where
  "setPath p u =
     map_option (\<lambda>path. u\<lparr>u_Path := path,
         u_RawPath := (if escape encodePath path = p then '''' else p)\<rparr>)
       (unescape encodePath p)"

definition setFragment :: "string \<Rightarrow> go_url \<Rightarrow> go_url option" where
  "setFragment f u =
     map_option (\<lambda>frag. u\<lparr>u_Fragment := frag,
         u_RawFragment := (if escape encodeFragment frag = f then '''' else f)\<rparr>)
       (unescape encodeFragment f)"

definition cut_or :: "char \<Rightarrow> string \<Rightarrow> string \<times> string" where
  "cut_or sep s = (case cut_byte sep s of None \<Rightarrow> (s, []) | Some ab \<Rightarrow> ab)"

definition parse_query :: "string \<Rightarrow> go_url \<Rightarrow> string \<times> go_url" where
  "parse_query rest u =
     (if HasSuffix rest ''?'' \<and> count_list rest (CHR ''?'') = 1
      then (butlast rest, u\<lparr>u_ForceQuery := True\<rparr>)
      else (let (a, q) = cut_or (CHR ''?'') rest in (a, u\<lparr>u_RawQuery := q\<rparr>)))"

definition parse_hierarchy :: "string \<Rightarrow> go_url \<Rightarrow> go_url option" where
  "parse_hierarchy rest u =
     (if \<not> HasPrefix rest ''/'' \<and> u_Scheme u \<noteq> '''' then Some (u\<lparr>u_Opaque := rest\<rparr>)
      else if \<not> HasPrefix rest ''/'' \<and> CHR '':'' \<in> set (fst (cut_or (CHR ''/'') rest)) then None
      else if (u_Scheme u \<noteq> '''' \<or> \<not> HasPrefix rest ''///'') \<and> HasPrefix rest ''//'' then
        (let body = drop 2 rest;
             authority = takeWhile (\<lambda>c. c \<noteq> CHR ''/'') body;
             path = dropWhile (\<lambda>c. c \<noteq> CHR ''/'') body
         in case parseAuthority authority of
              None \<Rightarrow> None
            | Some (user, host) \<Rightarrow> setPath path (u\<lparr>u_User := user, u_Host := host\<rparr>))
      else setPath rest (u\<lparr>u_OmitHost := (u_Scheme u \<noteq> '''' \<and> HasPrefix rest ''/'')\<rparr>))"

definition is_ctl :: "char \<Rightarrow> bool" where
  "is_ctl c \<longleftrightarrow> byte c < (32::nat) \<or> byte c = (127::nat)"

definition url_parse_main :: "string \<Rightarrow> go_url option" where
  "url_parse_main raw =
     (if list_ex is_ctl raw then None
      else if raw = ''*'' then Some (zero_url\<lparr>u_Path := ''*''\<rparr>)
      else case getScheme raw of
             None \<Rightarrow> None
           | Some (scheme, rest) \<Rightarrow>
               (let (rest', u) = parse_query rest (zero_url\<lparr>u_Scheme := map lower_byte scheme\<rparr>)
                in parse_hierarchy rest' u))"

text \<open>\<open>url.Parse\<close>.\<close>

definition url_Parse :: "string \<Rightarrow> go_url option" where
  "url_Parse raw =
     (let (u, frag) = cut_or (CHR ''#'') raw
      in case url_parse_main u of
           None \<Rightarrow> None
         | Some parsed \<Rightarrow> if frag = '''' then Some parsed else setFragment frag parsed)"

subsection \<open>Printing\<close>

definition validEncoded :: "escape_mode \<Rightarrow> string \<Rightarrow> bool" where
  "validEncoded mode s \<longleftrightarrow>
     list_all (\<lambda>c. c \<in> set ''!$&()*+,;=:@[]%'' \<or> byte c = (39::nat) \<or> \<not> shouldEscape mode c) s"

definition EscapedPath :: "go_url \<Rightarrow> string" where
  "EscapedPath u =
     (if u_RawPath u \<noteq> '''' \<and> validEncoded encodePath (u_RawPath u)
         \<and> unescape encodePath (u_RawPath u) = Some (u_Path u) then u_RawPath u
      else if u_Path u = ''*'' then ''*'' else escape encodePath (u_Path u))"

definition EscapedFragment :: "go_url \<Rightarrow> string" where
  "EscapedFragment u =
     (if u_RawFragment u \<noteq> '''' \<and> validEncoded encodeFragment (u_RawFragment u)
         \<and> unescape encodeFragment (u_RawFragment u) = Some (u_Fragment u) then u_RawFragment u
      else escape encodeFragment (u_Fragment u))"

definition user_String :: "string \<times> string option \<Rightarrow> string" where
  "user_String up =
     escape encodeUserPassword (fst up)
     @ (case snd up of None \<Rightarrow> [] | Some p \<Rightarrow> '':'' @ escape encodeUserPassword p)"

definition authority_String :: "go_url \<Rightarrow> string" where
  "authority_String u =
     (if u_Scheme u = '''' \<and> u_Host u = '''' \<and> u_User u = None then ''''
      else if u_OmitHost u \<and> u_Host u = '''' \<and> u_User u = None then ''''
      else (if u_Host u \<noteq> '''' \<or> u_Path u \<noteq> '''' \<or> u_User u \<noteq> None then ''//'' else '''')
           @ (case u_User u of None \<Rightarrow> '''' | Some up \<Rightarrow> user_String up @ ''@'')
           @ escape encodeHost (u_Host u))"

definition url_body :: "go_url \<Rightarrow> string" where
  "url_body u =
     (let buf = (if u_Scheme u \<noteq> '''' then u_Scheme u @ '':'' else '''')
      in if u_Opaque u \<noteq> '''' then buf @ u_Opaque u
         else
           (let buf = buf @ authority_String u;
                path = EscapedPath u;
                buf = buf @ (if path \<noteq> '''' \<and> hd path \<noteq> CHR ''/'' \<and> u_Host u \<noteq> '''' then ''/''
                             else '''');
                buf = buf @ (if buf = '''' \<and> CHR '':'' \<in> set (fst (cut_or (CHR ''/'') path))
                             then ''./'' else '''')
            in buf @ path))"

text \<open>\<open>URL.String\<close>.\<close>

definition url_String :: "go_url \<Rightarrow> string" where
  "url_String u =
     url_body u
     @ (if u_ForceQuery u \<or> u_RawQuery u \<noteq> '''' then ''?'' @ u_RawQuery u else '''')
     @ (if u_Fragment u \<noteq> '''' then ''#'' @ EscapedFragment u else '''')"

subsection \<open>Host and port\<close>

definition splitHostPort :: "string \<Rightarrow> string \<times> string" where
  "splitHostPort hostPort =
     (let (host, port) =
        (case last_cut (CHR '':'') hostPort of
           Some (a, b) \<Rightarrow> if validOptionalPort (CHR '':'' # b) then (a, b) else (hostPort, [])
         | None \<Rightarrow> (hostPort, []))
      in (if HasPrefix host ''['' \<and> HasSuffix host '']'' \<and> 2 \<le> length host
          then butlast (tl host) else host, port))"

definition Hostname :: "go_url \<Rightarrow> string" where
  "Hostname u = fst (splitHostPort (u_Host u))"

definition Port :: "go_url \<Rightarrow> string" where
  "Port u = snd (splitHostPort (u_Host u))"

subsection \<open>Queries\<close>

text \<open>\<open>ParseQuery\<close> as \<open>URL.Query\<close> uses it: malformed pairs are dropped. The order of
  the pairs is kept; \<open>Values\<close> is a map from a key to its values in that order.\<close>

definition parse_pair :: "string \<Rightarrow> (string \<times> string) option" where
  "parse_pair pair =
     (if CHR '';'' \<in> set pair \<or> pair = '''' then None
      else (let (k, v) = cut_or (CHR ''='') pair
            in case (QueryUnescape k, QueryUnescape v) of
                 (Some k', Some v') \<Rightarrow> Some (k', v') | _ \<Rightarrow> None))"

definition query_pairs :: "string \<Rightarrow> (string \<times> string) list" where
  "query_pairs q = List.map_filter parse_pair (Split q (CHR ''&''))"

definition query_values :: "(string \<times> string) list \<Rightarrow> string \<Rightarrow> string list" where
  "query_values ps k = map snd (filter (\<lambda>p. fst p = k) ps)"

text \<open>\<open>Values.Encode\<close>: the keys in ascending order, the values of a key in their order.\<close>

definition encode_values :: "string list \<Rightarrow> (string \<Rightarrow> string list) \<Rightarrow> string" where
  "encode_values keys m =
     Join (concat (map (\<lambda>k. map (\<lambda>v. QueryEscape k @ ''='' @ QueryEscape v) (m k)) keys)) ''&''"

definition query_keys :: "(string \<times> string) list \<Rightarrow> string list" where
  "query_keys ps = sorted_list_of_set (fst ` set ps)"

subsection \<open>Facts\<close>

lemma getScheme_from_Some:
  "getScheme_from acc raw s = Some (scheme, rest) \<Longrightarrow>
     list_all (\<lambda>c. is_letter c \<or> is_digit c \<or> c \<in> set ''+-.'') acc \<Longrightarrow>
     scheme = [] \<or> list_all (\<lambda>c. is_letter c \<or> is_digit c \<or> c \<in> set ''+-.'') scheme"
  by (induction s arbitrary: acc) (auto split: if_splits)

lemma last_cut_Some: "last_cut sep s = Some (a, b) \<Longrightarrow> s = a @ sep # b \<and> sep \<notin> set b"
proof (induction s arbitrary: a b)
  case (Cons c cs)
  have none: "last_cut sep cs = None \<Longrightarrow> sep \<notin> set cs"
    by (induction cs) (auto split: option.splits if_splits)
  show ?case using Cons none by (auto split: option.splits if_splits)
qed simp

lemma setPath_fields:
  assumes "setPath p u = Some u'"
  shows "u_Scheme u' = u_Scheme u" and "u_User u' = u_User u" and "u_Host u' = u_Host u"
    and "u_Opaque u' = u_Opaque u" and "u_RawQuery u' = u_RawQuery u"
    and "u_OmitHost u' = u_OmitHost u" and "u_ForceQuery u' = u_ForceQuery u"
    and "u_Fragment u' = u_Fragment u"
  using assms by (auto simp: setPath_def)

lemma setFragment_fields:
  assumes "setFragment p u = Some u'"
  shows "u_Scheme u' = u_Scheme u" and "u_User u' = u_User u" and "u_Host u' = u_Host u"
    and "u_Opaque u' = u_Opaque u" and "u_RawQuery u' = u_RawQuery u" and "u_Path u' = u_Path u"
    and "u_OmitHost u' = u_OmitHost u"
  using assms by (auto simp: setFragment_def)

text \<open>A parsed URL with a host is not opaque.\<close>

lemma parse_query_fields:
  assumes "parse_query rest u = (r, u')"
  shows "u_Host u' = u_Host u" and "u_Opaque u' = u_Opaque u" and "u_Scheme u' = u_Scheme u"
    and "u_User u' = u_User u"
  using assms by (auto simp: parse_query_def Let_def split: if_splits prod.splits)

lemma parse_hierarchy_fields:
  assumes "parse_hierarchy rest u = Some u'" and "u_Host u = ''''" and "u_Opaque u = ''''"
  shows "u_Host u' \<noteq> '''' \<longrightarrow> u_Opaque u' = ''''" and "u_Scheme u' = u_Scheme u"
  using assms
  by (auto simp: parse_hierarchy_def Let_def setPath_fields split: if_splits option.splits
      dest: setPath_fields(1,3,4))

lemma zero_url_simps [simp]:
  "u_Host zero_url = ''''" "u_Opaque zero_url = ''''" "u_Scheme zero_url = ''''"
  "u_User zero_url = None"
  by (simp_all add: zero_url_def)

lemma url_parse_main_hosted:
  assumes "url_parse_main raw = Some u" and "u_Host u \<noteq> ''''"
  shows "u_Opaque u = ''''"
proof -
  have "raw \<noteq> ''*''" using assms by (auto simp: url_parse_main_def split: if_splits)
  then obtain scheme rest where "getScheme raw = Some (scheme, rest)"
    and p: "(let (rest', u) = parse_query rest (zero_url\<lparr>u_Scheme := map lower_byte scheme\<rparr>)
             in parse_hierarchy rest' u) = Some u"
    using assms(1) by (auto simp: url_parse_main_def split: if_splits option.splits)
  obtain rest' u0 where q: "parse_query rest (zero_url\<lparr>u_Scheme := map lower_byte scheme\<rparr>) = (rest', u0)"
    by fastforce
  then show ?thesis
    using p parse_hierarchy_fields(1) [of rest' u0 u] parse_query_fields(1,2) [OF q] assms(2)
    by simp
qed

lemma url_Parse_hosted:
  assumes "url_Parse raw = Some u" and "u_Host u \<noteq> ''''"
  shows "u_Opaque u = ''''"
proof -
  obtain v frag u0 where c: "cut_or (CHR ''#'') raw = (v, frag)" and m: "url_parse_main v = Some u0"
    and u: "u = u0 \<or> setFragment frag u0 = Some u"
    using assms(1)
    by (auto simp: url_Parse_def split: prod.splits option.splits if_splits)
  then have "u_Host u0 = u_Host u" "u_Opaque u0 = u_Opaque u"
    using setFragment_fields(3,4) by auto
  then show ?thesis using url_parse_main_hosted [OF m] assms(2) by simp
qed

lemma url_String_web:
  assumes "u_Opaque u = ''''" and "u_Scheme u \<noteq> ''''" and "u_Host u \<noteq> ''''" and "u_User u = None"
  shows "\<exists>rest. url_String u = u_Scheme u @ ''://'' @ escape encodeHost (u_Host u) @ rest"
  using assms by (auto simp: url_String_def url_body_def authority_String_def Let_def)

end
