(* ===== verification/Sanitize.thy ===== *)
theory Sanitize
  imports Errors Go_URL
begin

section \<open>The HTML sanitizer\<close>

text \<open>
  \<open>internal/sanitize/sanitize.go\<close> and \<open>internal/sanitize/article.go\<close>. A node is a tree with
  the fields of \<open>html.Node\<close> the code reads; \<open>OtherNode\<close> is a comment, doctype, document or
  raw node. The \<open>DataAtom\<close> of a node only mirrors its \<open>Data\<close>. The parser and the renderer
  of \<open>golang.org/x/net/html\<close> are the parameters \<open>html_lib\<close>; \<open>ulow\<close> is the lower-case table
  outside ASCII.
\<close>

type_synonym lower_table = "rune \<Rightarrow> rune"

record attribute =
  at_Key :: string
  at_Val :: string

datatype node =
    TextNode string
  | ElementNode (el_tag: string) (el_ns: string) "attribute list" "node list"
  | OtherNode string "node list"

record html_lib =
  html_ParseFragment :: "string \<Rightarrow> error + node list"
  html_Parse :: "string \<Rightarrow> error + node"
  html_Render :: "node \<Rightarrow> error + string"

definition maxInlineImageBytes :: nat where "maxInlineImageBytes = 1048576"
definition maxAttributeRunes :: nat where "maxAttributeRunes = 1000"
definition maxDimension :: int where "maxDimension = 4096"
definition maxSpan :: int where "maxSpan = 1000"

definition allowedElements :: "string list" where
  "allowedElements =
     [''a'', ''abbr'', ''address'', ''article'', ''aside'', ''b'', ''bdi'', ''bdo'',
      ''blockquote'', ''br'', ''caption'', ''cite'', ''code'', ''col'', ''colgroup'', ''dd'',
      ''del'', ''details'', ''div'', ''dl'', ''dt'', ''em'', ''figcaption'', ''figure'',
      ''footer'', ''h1'', ''h2'', ''h3'', ''h4'', ''h5'', ''h6'', ''header'', ''hgroup'', ''hr'',
      ''i'', ''img'', ''ins'', ''kbd'', ''li'', ''main'', ''mark'', ''nav'', ''ol'', ''p'',
      ''pre'', ''q'', ''rp'', ''rt'', ''ruby'', ''s'', ''samp'', ''section'', ''small'',
      ''span'', ''strong'', ''sub'', ''summary'', ''sup'', ''table'', ''tbody'', ''td'',
      ''tfoot'', ''th'', ''thead'', ''time'', ''tr'', ''u'', ''ul'', ''var'', ''wbr'']"

definition droppedElements :: "string list" where
  "droppedElements =
     [''applet'', ''audio'', ''base'', ''button'', ''canvas'', ''embed'', ''fieldset'',
      ''form'', ''frame'', ''frameset'', ''head'', ''iframe'', ''input'', ''link'', ''map'',
      ''math'', ''meta'', ''noscript'', ''object'', ''optgroup'', ''option'', ''param'',
      ''picture'', ''portal'', ''script'', ''select'', ''slot'', ''source'', ''style'', ''svg'',
      ''template'', ''textarea'', ''track'', ''video'', ''xmp'']"

definition voidElements :: "string list" where
  "voidElements = [''br'', ''col'', ''hr'', ''img'', ''wbr'']"

subsection \<open>Attribute values\<close>

definition has_control :: "string \<Rightarrow> bool" where
  "has_control s \<longleftrightarrow> list_ex IsControl (string_runes s)"

definition absoluteHTTPURL :: "string \<Rightarrow> string option" where
  "absoluteHTTPURL value =
     (if value = '''' \<or> has_control value then None
      else case url_Parse value of
             None \<Rightarrow> None
           | Some parsed \<Rightarrow>
               if u_Host parsed = '''' \<or> Hostname parsed = '''' \<or> u_User parsed \<noteq> None then None
               else (let parsed = parsed\<lparr>u_Scheme := map lower_byte (u_Scheme parsed)\<rparr>
                     in if u_Scheme parsed \<noteq> ''http'' \<and> u_Scheme parsed \<noteq> ''https'' then None
                        else Some (url_String parsed)))"

definition base64_rune :: "rune \<Rightarrow> bool" where
  "base64_rune r \<longleftrightarrow>
     (65 \<le> r \<and> r \<le> 90) \<or> (97 \<le> r \<and> r \<le> 122) \<or> (48 \<le> r \<and> r \<le> 57) \<or> r = 43 \<or> r = 47"

text \<open>The loop of \<open>base64Payload\<close>: \<open>i\<close> is the byte index of the rune, \<open>n\<close> the length.\<close>

fun base64Payload_from :: "nat \<Rightarrow> nat \<Rightarrow> nat \<Rightarrow> (rune \<times> string) list \<Rightarrow> bool" where
  "base64Payload_from n i padding [] = True"
| "base64Payload_from n i padding ((r, bs) # ps) =
     (if base64_rune r then padding = 0 \<and> base64Payload_from n (i + length bs) padding ps
      else if r = 61 then
        \<not> (2 < padding + 1 \<or> int i < int n - 2)
        \<and> base64Payload_from n (i + length bs) (padding + 1) ps
      else False)"

definition base64Payload :: "string \<Rightarrow> bool" where
  "base64Payload value = base64Payload_from (length value) 0 0 (runes value)"

definition image_media_type :: "lower_table \<Rightarrow> string \<Rightarrow> string option" where
  "image_media_type ulow s =
     (let t = ToLower ulow s
      in if t = ''data:image/png;base64'' then Some ''png''
         else if t = ''data:image/jpeg;base64'' then Some ''jpeg''
         else if t = ''data:image/webp;base64'' then Some ''webp'' else None)"

definition inlineImageURL :: "lower_table \<Rightarrow> string \<Rightarrow> string option" where
  "inlineImageURL ulow value =
     (case SplitN2 (TrimSpace value) (CHR '','') of
        [head, payload] \<Rightarrow>
          (case image_media_type ulow head of
             None \<Rightarrow> None
           | Some mediaType \<Rightarrow>
               if payload = '''' \<or> (maxInlineImageBytes + 2) div 3 * 4 + 4 < length payload
                  \<or> \<not> base64Payload payload then None
               else
                 (let decoded = (case b64_decode StdEncoding True True payload of
                                   Some d \<Rightarrow> Some d
                                 | None \<Rightarrow> b64_decode StdEncoding False True payload)
                  in case decoded of
                       None \<Rightarrow> None
                     | Some d \<Rightarrow>
                         if length d = 0 \<or> maxInlineImageBytes < length d then None
                         else Some (''data:image/'' @ mediaType @ '';base64,''
                                    @ b64_encode StdEncoding True d)))
      | _ \<Rightarrow> None)"

definition boundedAttribute :: "string \<Rightarrow> nat \<Rightarrow> string option" where
  "boundedAttribute value maxRunes =
     (if maxRunes < RuneCountInString value \<or> has_control value then None else Some value)"

definition language_rune :: "rune \<Rightarrow> bool" where
  "language_rune r \<longleftrightarrow>
     (97 \<le> r \<and> r \<le> 122) \<or> (65 \<le> r \<and> r \<le> 90) \<or> (48 \<le> r \<and> r \<le> 57) \<or> r = 45"

definition safeLanguage :: "string \<Rightarrow> bool" where
  "safeLanguage value \<longleftrightarrow>
     \<not> (value = '''' \<or> 35 < RuneCountInString value) \<and> list_all language_rune (string_runes value)"

definition allowed_rels :: "string list" where
  "allowed_rels = [''nofollow'', ''noopener'', ''noreferrer'', ''sponsored'', ''ugc'']"

text \<open>The words in order, each once.\<close>

fun dedup :: "string list \<Rightarrow> string list \<Rightarrow> string list" where
  "dedup seen [] = []"
| "dedup seen (w # ws) = (if w \<in> set seen then dedup seen ws else w # dedup (w # seen) ws)"

definition safeRel :: "lower_table \<Rightarrow> string \<Rightarrow> string option" where
  "safeRel ulow value =
     (let ws = Fields (ToLower ulow value)
      in if ws = [] \<or> \<not> list_all (\<lambda>w. w \<in> set allowed_rels) ws then None
         else Some (Join (dedup [] ws) '' ''))"

definition boundedInteger :: "string \<Rightarrow> int \<Rightarrow> int \<Rightarrow> string option" where
  "boundedInteger value lo hi =
     (if value = '''' \<or> TrimSpace value \<noteq> value then None
      else case ParseInt64 value of
             None \<Rightarrow> None
           | Some number \<Rightarrow> if number < lo \<or> hi < number then None else Some (Itoa number))"

subsection \<open>Attributes\<close>

text \<open>The value an attribute other than \<open>src\<close> is kept with: the cases of the switch.\<close>

definition kept_value :: "lower_table \<Rightarrow> string \<Rightarrow> string \<Rightarrow> string \<Rightarrow> string option" where
  "kept_value ulow tag key value =
     (if key = ''href'' then (if tag \<noteq> ''a'' then None else absoluteHTTPURL value)
      else if key = ''alt'' then
        (if tag = ''img'' then boundedAttribute value maxAttributeRunes else None)
      else if key = ''title'' then boundedAttribute value maxAttributeRunes
      else if key = ''lang'' then
        (if safeLanguage value then Some (ToLower ulow value) else None)
      else if key = ''dir'' then
        (let value = ToLower ulow value
         in if value = ''ltr'' \<or> value = ''rtl'' \<or> value = ''auto'' then Some value else None)
      else if key = ''rel'' then (if tag = ''a'' then safeRel ulow value else None)
      else if key = ''width'' \<or> key = ''height'' then
        (if tag = ''img'' then boundedInteger value 0 maxDimension else None)
      else if key = ''datetime'' then
        (if tag = ''time'' then boundedAttribute value 100 else None)
      else if key = ''start'' then
        (if tag = ''ol'' then boundedInteger value (- maxSpan) maxSpan else None)
      else if key = ''value'' then
        (if tag = ''li'' then boundedInteger value (- maxSpan) maxSpan else None)
      else if key = ''colspan'' \<or> key = ''rowspan'' then
        (if tag = ''td'' \<or> tag = ''th'' then boundedInteger value 1 maxSpan else None)
      else if key = ''scope'' then
        (if tag = ''th'' then
           (let value = ToLower ulow value
            in if value = ''row'' \<or> value = ''col'' \<or> value = ''rowgroup''
                  \<or> value = ''colgroup'' then Some value else None)
         else None)
      else if key = ''reversed'' then
        (if tag = ''ol'' \<and> value = '''' then Some '''' else None)
      else None)"

text \<open>One iteration: the attributes kept, the keys seen and the image source so far.\<close>

definition sanitize_attribute ::
  "lower_table \<Rightarrow> string \<Rightarrow> attribute \<Rightarrow> attribute list \<times> string list \<times> string
     \<Rightarrow> attribute list \<times> string list \<times> string" where
  "sanitize_attribute ulow tag attr st =
     (let (clean, seen, imageSource) = st;
          key = ToLower ulow (TrimSpace (at_Key attr));
          value = TrimSpace (at_Val attr)
      in if key = '''' \<or> key \<in> set seen then (clean, seen, imageSource)
         else if key = ''src'' then
           (clean, key # seen,
            if tag \<noteq> ''img'' then imageSource
            else case inlineImageURL ulow value of Some u \<Rightarrow> u | None \<Rightarrow> imageSource)
         else
           (case kept_value ulow tag key value of
              Some v \<Rightarrow> clean @ [\<lparr>at_Key = key, at_Val = v\<rparr>] | None \<Rightarrow> clean,
            key # seen, imageSource))"

definition sanitizeAttributes ::
  "lower_table \<Rightarrow> string \<Rightarrow> attribute list \<Rightarrow> attribute list option" where
  "sanitizeAttributes ulow tag attrs =
     (let (clean, seen, imageSource) = fold (sanitize_attribute ulow tag) attrs ([], [], '''')
      in if tag = ''img'' then
           (if imageSource = '''' then None
            else Some (sort_key at_Key (clean @ [\<lparr>at_Key = ''src'', at_Val = imageSource\<rparr>])))
         else Some (sort_key at_Key clean))"

subsection \<open>Trees\<close>

fun sanitizeNode :: "lower_table \<Rightarrow> node \<Rightarrow> node list" where
  "sanitizeNode ulow (TextNode d) = [TextNode d]"
| "sanitizeNode ulow (ElementNode data ns attrs cs) =
     (let tag = ToLower ulow data
      in if ns \<noteq> '''' then []
         else if tag \<in> set droppedElements then []
         else if tag \<notin> set allowedElements then concat (map (sanitizeNode ulow) cs)
         else (case sanitizeAttributes ulow tag attrs of
                 None \<Rightarrow> []
               | Some as \<Rightarrow>
                   [ElementNode tag '''' as
                      (if tag \<in> set voidElements then []
                       else concat (map (sanitizeNode ulow) cs))]))"
| "sanitizeNode ulow (OtherNode d cs) = []"

definition sanitizeChildren :: "lower_table \<Rightarrow> node list \<Rightarrow> node list" where
  "sanitizeChildren ulow cs = concat (map (sanitizeNode ulow) cs)"

definition hasVisibleText :: "string \<Rightarrow> bool" where
  "hasVisibleText value \<longleftrightarrow> list_ex (\<lambda>r. \<not> (IsSpace r \<or> IsFormat r)) (string_runes value)"

fun node_has_text :: "node \<Rightarrow> bool" where
  "node_has_text (TextNode d) = hasVisibleText d"
| "node_has_text (ElementNode _ _ _ cs) = list_ex node_has_text cs"
| "node_has_text (OtherNode _ cs) = list_ex node_has_text cs"

definition hasSemanticText :: "node list \<Rightarrow> bool" where
  "hasSemanticText nodes = list_ex node_has_text nodes"

fun render_all :: "html_lib \<Rightarrow> node list \<Rightarrow> error + string" where
  "render_all lib [] = Inr ''''"
| "render_all lib (n # ns) =
     (case html_Render lib n of
        Inl e \<Rightarrow> Inl (JoinError ErrMalformedHTML e)
      | Inr s \<Rightarrow> (case render_all lib ns of Inl e \<Rightarrow> Inl e | Inr t \<Rightarrow> Inr (s @ t)))"

definition SanitizeHTML :: "lower_table \<Rightarrow> html_lib \<Rightarrow> string \<Rightarrow> error + string" where
  "SanitizeHTML ulow lib input =
     (case html_ParseFragment lib input of
        Inl e \<Rightarrow> Inl (JoinError ErrMalformedHTML e)
      | Inr nodes \<Rightarrow>
          (let clean = sanitizeChildren ulow nodes
           in if \<not> hasSemanticText clean then Inl ErrNoSemanticContent
              else (case render_all lib clean of
                      Inl e \<Rightarrow> Inl e | Inr out \<Rightarrow> Inr (TrimSpace out))))"

subsection \<open>Article extraction\<close>

text \<open>\<open>article.go\<close>.\<close>

fun articleText :: "node \<Rightarrow> string" where
  "articleText (TextNode d) = d"
| "articleText (ElementNode data _ _ cs) =
     (if data \<in> set droppedElements then '''' else concat (map articleText cs))"
| "articleText (OtherNode _ cs) = concat (map articleText cs)"

definition normalizeTitle :: "lower_table \<Rightarrow> string \<Rightarrow> string" where
  "normalizeTitle ulow s = ToLower ulow (Join (Fields s) '' '')"

fun hasElement :: "string \<Rightarrow> node \<Rightarrow> bool" where
  "hasElement tag (TextNode d) = False"
| "hasElement tag (ElementNode data _ _ cs) = (data = tag \<or> list_ex (hasElement tag) cs)"
| "hasElement tag (OtherNode _ cs) = list_ex (hasElement tag) cs"

definition hasHeading :: "node \<Rightarrow> bool" where
  "hasHeading = hasElement ''h1''"

fun node_data :: "node \<Rightarrow> string" where
  "node_data (TextNode d) = d"
| "node_data (ElementNode data _ _ _) = data"
| "node_data (OtherNode d _) = d"

fun node_children :: "node \<Rightarrow> node list" where
  "node_children (TextNode d) = []"
| "node_children (ElementNode _ _ _ cs) = cs"
| "node_children (OtherNode _ cs) = cs"

text \<open>The walk \<open>choose\<close>: the first article element, in document order, with the longest
  text.\<close>

fun choose_article :: "node \<Rightarrow> node option \<Rightarrow> node option" where
  "choose_article (TextNode d) best = best"
| "choose_article (ElementNode data ns as cs) best =
     fold choose_article cs
       (if data = ''article''
           \<and> (case best of None \<Rightarrow> True
              | Some b \<Rightarrow> length (articleText b) < length (articleText (ElementNode data ns as cs)))
        then Some (ElementNode data ns as cs) else best)"
| "choose_article (OtherNode d cs) best = fold choose_article cs best"

definition chrome_tokens :: "string list" where
  "chrome_tokens = [''toc'', ''table-of-contents'', ''post-meta'', ''post-metadata'',
     ''article-meta'', ''share-buttons'', ''social-share'', ''related-posts'', ''comments'',
     ''sidebar'']"

definition contents_label :: "lower_table \<Rightarrow> node \<Rightarrow> bool" where
  "contents_label ulow c \<longleftrightarrow>
     (let label = normalizeTitle ulow (articleText c)
      in label = ''table of contents'' \<or> label = ''contents'')"

definition chrome_attribute :: "lower_table \<Rightarrow> attribute \<Rightarrow> bool" where
  "chrome_attribute ulow a \<longleftrightarrow>
     (at_Key a = ''role'' \<and> (at_Val a = ''navigation'' \<or> at_Val a = ''doc-toc''))
     \<or> ((at_Key a = ''class'' \<or> at_Key a = ''id'')
        \<and> list_ex (\<lambda>t. t \<in> set chrome_tokens) (Fields (ToLower ulow (at_Val a))))"

text \<open>The anchor labels that are dropped: a pilcrow, a hash, a section sign, nothing.\<close>

definition anchor_label :: "string \<Rightarrow> bool" where
  "anchor_label label \<longleftrightarrow>
     label = [CHR 0xC2, CHR 0xB6] \<or> label = ''#'' \<or> label = [CHR 0xC2, CHR 0xA7] \<or> label = ''''"

definition drops_element ::
  "lower_table \<Rightarrow> string \<Rightarrow> string \<Rightarrow> attribute list \<Rightarrow> node list \<Rightarrow> node \<Rightarrow> bool" where
  "drops_element ulow title data as cs n \<longleftrightarrow>
     (if data = ''nav'' \<or> data = ''footer'' then True
      else if data = ''header'' then hasHeading n
      else if data = ''h1'' then
        normalizeTitle ulow (articleText n) = normalizeTitle ulow title
      else if data = ''details'' then
        fold (\<lambda>child drop. if node_data child = ''summary'' then contents_label ulow child else drop)
          cs False
      else if data = ''a'' then anchor_label (TrimSpace (articleText n))
      else False)
     \<or> list_ex (chrome_attribute ulow) as"

fun clean_node :: "lower_table \<Rightarrow> string \<Rightarrow> node \<Rightarrow> node list" where
  "clean_node ulow title (TextNode d) = [TextNode d]"
| "clean_node ulow title (OtherNode d cs) =
     [OtherNode d (concat (map (clean_node ulow title) cs))]"
| "clean_node ulow title (ElementNode data ns as cs) =
     (if drops_element ulow title data as cs (ElementNode data ns as cs) then []
      else if data = ''pre'' then
        [ElementNode data ns as
           [TextNode (Trim (articleText (ElementNode data ns as cs)) [CHR 0x0A])]]
      else [ElementNode (if data = ''figure'' \<and> \<not> hasElement ''img'' (ElementNode data ns as cs)
                         then ''div'' else data) ns as
              (concat (map (clean_node ulow title) cs))])"

text \<open>The root itself is kept; only what is below it is cleaned.\<close>

fun clean_root :: "lower_table \<Rightarrow> string \<Rightarrow> node \<Rightarrow> node" where
  "clean_root ulow title (TextNode d) = TextNode d"
| "clean_root ulow title (OtherNode d cs) =
     OtherNode d (concat (map (clean_node ulow title) cs))"
| "clean_root ulow title (ElementNode data ns as cs) =
     ElementNode data ns as (concat (map (clean_node ulow title) cs))"

definition ArticleHTML :: "lower_table \<Rightarrow> html_lib \<Rightarrow> string \<Rightarrow> string \<Rightarrow> error + string" where
  "ArticleHTML ulow lib input title =
     (case html_Parse lib input of
        Inl e \<Rightarrow> Inl ErrMalformedHTML
      | Inr parsed \<Rightarrow>
          (let root = (case choose_article parsed None of Some best \<Rightarrow> best | None \<Rightarrow> parsed)
           in case html_Render lib (clean_root ulow title root) of
                Inl e \<Rightarrow> Inl ErrMalformedHTML
              | Inr s \<Rightarrow> SanitizeHTML ulow lib s))"

end
