(* ===== verification/Archive.thy ===== *)
theory Archive
  imports Artifacts Sanitize Memory_Store
begin

section \<open>The job archive\<close>

text \<open>
  \<open>internal/application/archive.go\<close>: validation and normalisation of submissions, the
  projections of a job that clients see, cursors, file names, the mapping of internal errors
  to public ones, and the approval of an article. The archive talks to a job store through
  \<open>archive_ops\<close> and to an artifact store through \<open>artifact_ops\<close>; the clock and the fresh ids
  are arguments of the operations that use them.
\<close>

record 's archive_ops =
  as_CreateOrReuse :: "ctx \<Rightarrow> create_job \<Rightarrow> 's \<Rightarrow> create_outcome \<times> error option \<times> 's"
  as_List :: "ctx \<Rightarrow> store_list_request \<Rightarrow> 's \<Rightarrow> error + store_page"
  as_Get :: "ctx \<Rightarrow> job_id \<Rightarrow> 's \<Rightarrow> error + job"
  as_CreateRetry :: "ctx \<Rightarrow> job_id \<Rightarrow> job_id \<Rightarrow> time \<Rightarrow> 's \<Rightarrow> (job, 's) outcome"
  as_RequestDelete :: "ctx \<Rightarrow> job_id \<Rightarrow> time \<Rightarrow> 's \<Rightarrow> error option \<times> 's"

definition defaultProfile :: string where "defaultProfile = ''a5''"
definition defaultMinChars :: int where "defaultMinChars = 500"
definition maxURLLength :: nat where "maxURLLength = 8192"
definition maxTitleLength :: nat where "maxTitleLength = 500"
definition maxProfileLength :: nat where "maxProfileLength = 100"
definition maxIdempotencyLength :: nat where "maxIdempotencyLength = 255"

subsection \<open>Construction\<close>

record archive_options =
  opt_HasStore :: bool
  opt_HasArtifacts :: bool
  opt_DefaultProfile :: string
  opt_Profiles :: "string list"
  opt_MinContentChars :: int

record archive =
  arc_defaultProfile :: string
  arc_profiles :: "string list"
  arc_minContent :: int

definition supported_profile :: "string \<Rightarrow> bool" where
  "supported_profile name \<longleftrightarrow> name = defaultProfile \<or> name = ''kindle-scribe''"

definition unsupported_profile_error :: error where
  "unsupported_profile_error =
     NewSafeError ''invalid_configuration'' 500 ''The configured PDF profile is not supported''"

definition NewArchive :: "archive_options \<Rightarrow> error + archive" where
  "NewArchive options =
     (if \<not> opt_HasStore options then
        Inl (NewSafeError ''invalid_configuration'' 500 ''Job storage is not configured'')
      else if \<not> opt_HasArtifacts options then
        Inl (NewSafeError ''invalid_configuration'' 500 ''Artifact storage is not configured'')
      else
        (let trimmed = TrimSpace (opt_DefaultProfile options);
             profile = (if trimmed = '''' then defaultProfile else trimmed);
             names = filter (\<lambda>n. n \<noteq> '''') (map TrimSpace (opt_Profiles options))
         in if \<not> list_all supported_profile names then Inl unsupported_profile_error
            else if names = [] \<and> \<not> supported_profile profile then Inl unsupported_profile_error
            else
              (let profiles = (if names = [] then [profile] else names)
               in if profile \<notin> set profiles then Inl unsupported_profile_error
                  else Inr \<lparr>arc_defaultProfile = profile, arc_profiles = profiles,
                            arc_minContent = (if opt_MinContentChars options \<le> 0
                              then defaultMinChars else opt_MinContentChars options)\<rparr>)))"

subsection \<open>Cursors\<close>

definition encodeCursor :: "cursor_position \<Rightarrow> string" where
  "encodeCursor position =
     (let payload = Itoa (wrap64 (cur_CreatedAt position)) @ '':'' @ cur_ID position
      in b64_encode URLEncoding False (map byte payload))"

definition decodeCursor :: "string \<Rightarrow> cursor_position option" where
  "decodeCursor value =
     (case b64_decode URLEncoding False False value of
        None \<Rightarrow> None
      | Some decoded \<Rightarrow>
          (case SplitN2 (map char_of decoded) (CHR '':'') of
             [a, b] \<Rightarrow>
               if b = '''' then None
               else (case ParseInt64 a of None \<Rightarrow> None | Some nanos \<Rightarrow> Some (CursorPosition nanos b))
           | _ \<Rightarrow> None))"

subsection \<open>Public errors\<close>

definition invalid_input :: "string \<Rightarrow> error" where
  "invalid_input message = NewSafeError ''invalid_input'' 400 message"

definition mapStoreError :: "error \<Rightarrow> error" where
  "mapStoreError e =
     (if errors_Is e ErrNotFound then NewSafeError ''not_found'' 404 ''Job was not found''
      else if errors_Is e ErrIdempotencyConflict then
        NewSafeError ''idempotency_conflict'' 409
          ''The idempotency key was already used with a different request''
      else if errors_Is e ErrNotTerminal then
        NewSafeError ''job_not_terminal'' 409 ''Only terminal jobs can be retried''
      else internalError e)"

definition mapStorageError :: "error \<Rightarrow> error" where
  "mapStorageError e =
     SafeError ''storage_failed'' 503 ''Artifact storage is temporarily unavailable'' '''' False
       (Some e)"

subsection \<open>URLs\<close>

definition sourceHost :: "string \<Rightarrow> string" where
  "sourceHost raw = (case url_Parse raw of None \<Rightarrow> '''' | Some parsed \<Rightarrow> Hostname parsed)"

definition redactURL :: "string \<Rightarrow> string" where
  "redactURL raw =
     (if raw = '''' then ''''
      else case url_Parse raw of
             None \<Rightarrow> ''[redacted]''
           | Some parsed \<Rightarrow>
               (let parsed = parsed\<lparr>u_User := None\<rparr>;
                    parsed = (if u_RawQuery parsed \<noteq> '''' then
                        parsed\<lparr>u_RawQuery := encode_values (query_keys (query_pairs (u_RawQuery parsed)))
                                               (\<lambda>_. [''[redacted]''])\<rparr>
                      else parsed)
                in url_String (parsed\<lparr>u_Fragment := ''''\<rparr>)))"

subsection \<open>Submission\<close>

record normalized_submit =
  ns_request :: submit_request
  ns_idempotencyKey :: string
  ns_digest :: string

text \<open>The part of \<open>normalizeSubmit\<close> about the URL.\<close>

definition normalize_url :: "string \<Rightarrow> error + string" where
  "normalize_url raw =
     (let rawURL = TrimSpace raw
      in if rawURL = '''' \<or> maxURLLength < length rawURL
         then Inl (invalid_input ''url must be a bounded HTTP or HTTPS URL'')
         else case url_Parse rawURL of
                None \<Rightarrow> Inl (invalid_input ''url must be a bounded HTTP or HTTPS URL'')
              | Some parsed \<Rightarrow>
                  if u_Host parsed = '''' \<or> u_User parsed \<noteq> None
                  then Inl (invalid_input ''url must be a bounded HTTP or HTTPS URL'')
                  else
                    (let parsed = parsed\<lparr>u_Scheme := map lower_byte (u_Scheme parsed)\<rparr>
                     in if u_Scheme parsed \<noteq> ''http'' \<and> u_Scheme parsed \<noteq> ''https''
                        then Inl (invalid_input ''url must use HTTP or HTTPS'')
                        else if Hostname parsed = ''''
                        then Inl (invalid_input ''url must contain a host'')
                        else Inr (url_String (parsed\<lparr>u_Fragment := ''''\<rparr>))))"

definition request_digest :: "(string \<Rightarrow> string) \<Rightarrow> string \<Rightarrow> string \<Rightarrow> string \<Rightarrow> string" where
  "request_digest sha256 url title profile =
     hex_encode (sha256 (url @ [CHR 0x00] @ title @ [CHR 0x00] @ profile))"

definition normalizeSubmit ::
  "(string \<Rightarrow> string) \<Rightarrow> archive \<Rightarrow> submit_request \<Rightarrow> string \<Rightarrow> error + normalized_submit" where
  "normalizeSubmit sha256 a request idempotencyKey =
     (case normalize_url (sub_URL request) of
        Inl e \<Rightarrow> Inl e
      | Inr normalizedURL \<Rightarrow>
          (let title = TrimSpace (sub_Title request)
           in if maxTitleLength < length title then Inl (invalid_input ''title is too long'')
              else
                (let trimmed = TrimSpace (sub_Profile request);
                     profile = (if trimmed = '''' then arc_defaultProfile a else trimmed)
                 in if maxProfileLength < length profile
                    then Inl (invalid_input ''profile is invalid'')
                    else if profile \<notin> set (arc_profiles a)
                    then Inl (invalid_input ''profile is not configured'')
                    else
                      (let key = TrimSpace idempotencyKey
                       in if maxIdempotencyLength < length key
                          then Inl (invalid_input ''idempotency key is too long'')
                          else Inr \<lparr>ns_request = \<lparr>sub_URL = normalizedURL, sub_Title = title,
                                                   sub_Profile = profile\<rparr>,
                                    ns_idempotencyKey = key,
                                    ns_digest = request_digest sha256 normalizedURL title
                                                  profile\<rparr>))))"

record accepted_job =
  acc_ID :: job_id
  acc_Status :: status
  acc_CreatedAt :: time
  acc_Self :: string

definition acceptedJob :: "job \<Rightarrow> accepted_job" where
  "acceptedJob j = \<lparr>acc_ID = job_ID j, acc_Status = job_Status j, acc_CreatedAt = job_CreatedAt j,
     acc_Self = ''/api/v1/jobs/'' @ job_ID j\<rparr>"

definition SubmitURL ::
  "(string \<Rightarrow> string) \<Rightarrow> archive \<Rightarrow> 's archive_ops \<Rightarrow> ctx \<Rightarrow> submit_request \<Rightarrow> string \<Rightarrow> job_id \<Rightarrow> time
     \<Rightarrow> 's \<Rightarrow> (accepted_job, 's) outcome" where
  "SubmitURL sha256 a ops c request idempotencyKey newID now s =
     (case normalizeSubmit sha256 a request idempotencyKey of
        Inl e \<Rightarrow> (Inl e, s)
      | Inr n \<Rightarrow>
          (case as_CreateOrReuse ops c \<lparr>cj_ID = newID, cj_Request = ns_request n,
                  cj_CreatedAt = now, cj_IdempotencyKey = ns_idempotencyKey n,
                  cj_RequestDigest = ns_digest n\<rparr> s of
             (out, Some e, s') \<Rightarrow> (Inl (mapStoreError e), s')
           | (out, None, s') \<Rightarrow>
               if out_Conflict out
               then (Inl (NewSafeError ''idempotency_conflict'' 409
                       ''The idempotency key was already used with a different request''), s')
               else (Inr (acceptedJob (out_Job out)), s')))"

subsection \<open>Projections\<close>

record job_summary =
  sum_ID :: job_id
  sum_ContentID :: content_id
  sum_Title :: string
  sum_SourceHost :: string
  sum_Status :: status
  sum_Stage :: stage
  sum_CreatedAt :: time
  sum_CompletedAt :: "time option"
  sum_FailureCategory :: string
  sum_HasArtifact :: bool

record job_metadata =
  md_Title :: string
  md_Author :: string
  md_SiteName :: string
  md_PublicationDate :: string
  md_Description :: string
  md_Language :: string

record artifact_info =
  ai_Filename :: string
  ai_MediaType :: string
  ai_ByteSize :: int
  ai_Checksum :: string
  ai_Download :: string

record job_detail =
  det_Summary :: job_summary
  det_SubmittedURL :: string
  det_CanonicalURL :: string
  det_AttemptCount :: int
  det_Metadata :: "job_metadata option"
  det_AIConfidence :: "float64 option"
  det_Artifact :: "artifact_info option"
  det_Delivery :: "(string \<times> int) option"
  det_Failure :: "(string \<times> string \<times> string) option"
  det_RetryOfJobID :: job_id

definition has_artifact :: "job \<Rightarrow> bool" where
  "has_artifact j \<longleftrightarrow> (case job_Artifact j of None \<Rightarrow> False | Some a \<Rightarrow> art_Available a)"

definition contentID :: "job \<Rightarrow> content_id" where
  "contentID j = (case job_Content j of None \<Rightarrow> '''' | Some d \<Rightarrow> doc_ID d)"

definition summarize :: "job \<Rightarrow> job_summary" where
  "summarize j =
     (let title = (case job_Content j of None \<Rightarrow> '''' | Some d \<Rightarrow> doc_Title d)
      in \<lparr>sum_ID = job_ID j, sum_ContentID = contentID j,
          sum_Title = (if title = '''' then job_TitleHint j else title),
          sum_SourceHost = sourceHost (job_SubmittedURL j), sum_Status = job_Status j,
          sum_Stage = job_Stage j, sum_CreatedAt = job_CreatedAt j,
          sum_CompletedAt = job_CompletedAt j,
          sum_FailureCategory = (case job_Failure j of None \<Rightarrow> ''''
             | Some f \<Rightarrow> category_string (fail_Category f)),
          sum_HasArtifact = has_artifact j\<rparr>)"

definition detail :: "job \<Rightarrow> job_detail" where
  "detail j =
     \<lparr>det_Summary = summarize j,
      det_SubmittedURL = redactURL (job_SubmittedURL j),
      det_CanonicalURL = redactURL (job_CanonicalURL j),
      det_AttemptCount = job_AttemptCount j,
      det_Metadata = map_option (\<lambda>d. \<lparr>md_Title = doc_Title d, md_Author = doc_Author d,
         md_SiteName = doc_SiteName d, md_PublicationDate = doc_PublicationDate d,
         md_Description = doc_Description d, md_Language = doc_Language d\<rparr>) (job_Content j),
      det_AIConfidence = map_option doc_AIConfidence (job_Content j),
      det_Artifact = (case job_Artifact j of
         None \<Rightarrow> None
       | Some a \<Rightarrow> if art_Available a then Some \<lparr>ai_Filename = art_Filename a,
            ai_MediaType = art_MediaType a, ai_ByteSize = art_ByteSize a,
            ai_Checksum = art_Checksum a,
            ai_Download = ''/api/v1/jobs/'' @ job_ID j @ ''/artifact''\<rparr> else None),
      det_Delivery = map_option (\<lambda>d. (dlv_Status d, dlv_AttemptCount d)) (job_Delivery j),
      det_Failure = map_option (\<lambda>f. (category_string (fail_Category f), fail_Message f,
         fail_CorrelationID f)) (job_Failure j),
      det_RetryOfJobID = job_RetryOf j\<rparr>"

subsection \<open>Listing and lookup\<close>

record list_jobs_request =
  lr_Limit :: int
  lr_Cursor :: string
  lr_Status :: string

record job_page =
  jp_Items :: "job_summary list"
  jp_NextCursor :: string

definition next_cursor :: "store_page \<Rightarrow> string" where
  "next_cursor page =
     (if page_HasMore page \<and> page_Jobs page \<noteq> []
      then encodeCursor (job_position (last (page_Jobs page))) else '''')"

definition ListJobs ::
  "'s archive_ops \<Rightarrow> ctx \<Rightarrow> list_jobs_request \<Rightarrow> 's \<Rightarrow> error + job_page" where
  "ListJobs ops c request s =
     (let limit = (if lr_Limit request = 0 then 25 else lr_Limit request)
      in if limit < 1 \<or> 100 < limit then Inl (invalid_input ''limit must be between 1 and 100'')
         else
           (let given = TrimSpace (lr_Cursor request) \<noteq> '''';
                position = decodeCursor (lr_Cursor request)
            in if given \<and> position = None then Inl (invalid_input ''cursor is invalid'')
               else
                 (let name = TrimSpace (lr_Status request);
                      candidate = status_of_string name
                  in if name \<noteq> '''' \<and> \<not> status_Valid candidate
                     then Inl (invalid_input ''status is invalid'')
                     else
                       (case as_List ops c
                              \<lparr>slr_Limit = limit, slr_After = (if given then position else None),
                               slr_Status = (if name \<noteq> '''' then Some candidate else None)\<rparr> s of
                          Inl e \<Rightarrow> Inl (mapStoreError e)
                        | Inr page \<Rightarrow>
                            Inr \<lparr>jp_Items = map summarize (page_Jobs page),
                                 jp_NextCursor = next_cursor page\<rparr>))))"

definition GetJob :: "'s archive_ops \<Rightarrow> ctx \<Rightarrow> job_id \<Rightarrow> 's \<Rightarrow> error + job_detail" where
  "GetJob ops c jid s =
     (if TrimSpace jid = '''' then Inl (invalid_input ''job id is required'')
      else case as_Get ops c jid s of
             Inl e \<Rightarrow> Inl (mapStoreError e)
           | Inr j \<Rightarrow> Inr (detail j))"

record artifact_download =
  dl_Filename :: string
  dl_MediaType :: string
  dl_ByteSize :: int
  dl_Checksum :: string
  dl_Body :: string

definition artifact_not_found :: error where
  "artifact_not_found =
     NewSafeError ''artifact_not_found'' 404 ''No complete artifact exists for this job''"

definition OpenArtifact ::
  "'s archive_ops \<Rightarrow> 'a artifact_ops \<Rightarrow> ctx \<Rightarrow> job_id \<Rightarrow> 's \<Rightarrow> 'a \<Rightarrow> error + artifact_download" where
  "OpenArtifact ops aops c jid s files =
     (if TrimSpace jid = '''' then Inl (invalid_input ''job id is required'')
      else case as_Get ops c jid s of
             Inl e \<Rightarrow> Inl (mapStoreError e)
           | Inr j \<Rightarrow>
               (case job_Artifact j of
                  None \<Rightarrow> Inl artifact_not_found
                | Some a \<Rightarrow>
                    if \<not> art_Available a then Inl artifact_not_found
                    else case ao_Open aops c a files of
                           Inl e \<Rightarrow> if errors_Is e OsErrNotExist then Inl artifact_not_found
                                    else Inl (mapStorageError e)
                         | Inr body \<Rightarrow>
                             Inr \<lparr>dl_Filename = art_Filename a, dl_MediaType = ''application/pdf'',
                                  dl_ByteSize = art_ByteSize a, dl_Checksum = art_Checksum a,
                                  dl_Body = body\<rparr>))"

definition RetryJob ::
  "'s archive_ops \<Rightarrow> ctx \<Rightarrow> job_id \<Rightarrow> job_id \<Rightarrow> time \<Rightarrow> 's \<Rightarrow> (accepted_job, 's) outcome" where
  "RetryJob ops c jid newID now s =
     (if TrimSpace jid = '''' then (Inl (invalid_input ''job id is required''), s)
      else case as_CreateRetry ops c jid newID now s of
             (Inl e, s') \<Rightarrow>
               (if errors_Is e ErrNotTerminal
                then Inl (NewSafeError ''job_not_terminal'' 409 ''Only terminal jobs can be retried'')
                else Inl (mapStoreError e), s')
           | (Inr j, s') \<Rightarrow> (Inr (acceptedJob j), s'))"

text \<open>The deletion is recorded before the bytes disappear.\<close>

definition DeleteJob ::
  "'s archive_ops \<Rightarrow> 'a artifact_ops \<Rightarrow> ctx \<Rightarrow> job_id \<Rightarrow> time \<Rightarrow> 's \<Rightarrow> 'a
     \<Rightarrow> error option \<times> 's \<times> 'a" where
  "DeleteJob ops aops c jid now s files =
     (if TrimSpace jid = '''' then (Some (invalid_input ''job id is required''), s, files)
      else case as_Get ops c jid s of
             Inl e \<Rightarrow> (if errors_Is e ErrNotFound then None else Some (mapStoreError e), s, files)
           | Inr j \<Rightarrow>
               (case as_RequestDelete ops c jid now s of
                  (Some e, s') \<Rightarrow>
                    (if errors_Is e ErrNotFound then None else Some (mapStoreError e), s', files)
                | (None, s') \<Rightarrow>
                    (case job_Artifact j of
                       None \<Rightarrow> (None, s', files)
                     | Some a \<Rightarrow>
                         (case ao_Delete aops c a files of
                            (Some e, files') \<Rightarrow> (Some (mapStorageError e), s', files')
                          | (None, files') \<Rightarrow> (None, s', files')))))"

subsection \<open>File names\<close>

definition filenameWithoutParentTraversal :: "string \<Rightarrow> string" where
  "filenameWithoutParentTraversal value = ReplaceAll value ''..'' ''__''"

definition truncateRunes :: "string \<Rightarrow> int \<Rightarrow> string" where
  "truncateRunes value limit =
     (if limit \<le> 0 then ''''
      else if int (RuneCountInString value) \<le> limit then value
      else string_of_runes (take (nat limit) (string_runes value)))"

definition filename_rune :: "rune \<Rightarrow> bool" where
  "filename_rune r \<longleftrightarrow>
     (97 \<le> r \<and> r \<le> 122) \<or> (65 \<le> r \<and> r \<le> 90) \<or> (48 \<le> r \<and> r \<le> 57)
     \<or> r = 45 \<or> r = 95 \<or> r = 32 \<or> r = 46"

definition safeFilename :: "string \<Rightarrow> job_id \<Rightarrow> string" where
  "safeFilename title jid =
     (let title = TrimSpace title;
          fallback = filenameWithoutParentTraversal (''attic-'' @ jid @ ''.pdf'')
      in if title = '''' then fallback
         else
           (let mapped = string_of_runes
                  (map (\<lambda>r. if filename_rune r then r else 95) (string_runes title));
                name = Trim (TrimSpace mapped) ''.''
            in if name = '''' then fallback
               else filenameWithoutParentTraversal (truncateRunes name 100 @ ''.pdf'')))"

definition sanitizeFilename :: "lower_table \<Rightarrow> string \<Rightarrow> string \<Rightarrow> job_id \<Rightarrow> string" where
  "sanitizeFilename ulow value title jid =
     (let value = TrimSpace value;
          value = (if HasSuffix (ToLower ulow value) ''.pdf'' then take (length value - 4) value
                   else value)
      in if value = '''' then safeFilename title jid else safeFilename value jid)"

subsection \<open>Approval\<close>

definition outside_unit :: "float64 \<Rightarrow> bool" where
  "outside_unit x \<longleftrightarrow> f64_less x (Fin 0) \<or> f64_less (Fin 1) x"

definition insufficient :: "string \<Rightarrow> error" where
  "insufficient message =
     NewProcessingError (category_string FailureInsufficientContent) message False"

definition invalid_response :: "string \<Rightarrow> error" where
  "invalid_response message =
     NewProcessingError (category_string FailureAIInvalidResponse) message False"

definition approveArticle ::
  "lower_table \<Rightarrow> html_lib \<Rightarrow> archive \<Rightarrow> article_draft \<Rightarrow> error + approved_article" where
  "approveArticle ulow lib a draft =
     (if draft_Classification draft \<noteq> ''article''
         \<or> (draft_Decision draft \<noteq> ''accept_candidate''
             \<and> draft_Decision draft \<noteq> ''replace_candidate'')
      then Inl (NewProcessingError (category_string FailureUnsupportedContent)
                  ''The page was not classified as an article'' False)
      else
        (let title = TrimSpace (draft_Title draft);
             text = TrimSpace (draft_PlainText draft);
             body = TrimSpace (draft_SemanticHTML draft);
             attempt = TrimSpace (draft_AIAttemptID draft)
         in if title = '''' then Inl (insufficient ''The article has no title'')
            else if int (RuneCountInString text) < arc_minContent a
            then Inl (insufficient ''The article does not contain enough readable content'')
            else if body = '''' then Inl (insufficient ''The article has no semantic content'')
            else if outside_unit (draft_AIConfidence draft)
            then Inl (invalid_response ''The AI confidence value is invalid'')
            else if outside_unit (draft_AICompleteness draft)
            then Inl (invalid_response ''The AI completeness value is invalid'')
            else if attempt = '''' then Inl (invalid_response ''The AI attempt is not recorded'')
            else
              (case SanitizeHTML ulow lib body of
                 Inl e \<Rightarrow>
                   if errors_Is e ErrNoSemanticContent
                   then Inl (insufficient ''The article has no semantic content'')
                   else Inl (invalid_response ''The AI content is not safe HTML'')
               | Inr clean \<Rightarrow>
                   Inr \<lparr>app_draft = draft\<lparr>draft_Title := title, draft_PlainText := text,
                          draft_SemanticHTML := clean, draft_AIAttemptID := attempt,
                          draft_ExtractionMethod := (if draft_ExtractionMethod draft = ''''
                            then ''ai'' else draft_ExtractionMethod draft)\<rparr>,
                        app_valid = True\<rparr>)))"

text \<open>\<open>ApprovedArticle.content\<close>.\<close>

definition article_content ::
  "approved_article \<Rightarrow> job \<Rightarrow> content_id \<Rightarrow> time \<Rightarrow> content_document option" where
  "article_content a j cid now =
     (if \<not> app_valid a then None
      else
        (let d = app_draft a;
             sourceURL = (if job_CanonicalURL j = '''' then job_SubmittedURL j
                          else job_CanonicalURL j)
         in Some \<lparr>doc_ID = cid, doc_JobID = job_ID j, doc_Title = draft_Title d,
                  doc_Author = TrimSpace (draft_Author d),
                  doc_SiteName = TrimSpace (draft_SiteName d),
                  doc_PublicationDate = TrimSpace (draft_PublicationDate d),
                  doc_Description = TrimSpace (draft_Description d),
                  doc_Language = TrimSpace (draft_Language d),
                  doc_SourceURL = redactURL sourceURL,
                  doc_SemanticHTML = draft_SemanticHTML d, doc_PlainText = draft_PlainText d,
                  doc_ExtractionMethod = draft_ExtractionMethod d,
                  doc_AIConfidence = draft_AIConfidence d,
                  doc_AICompleteness = draft_AICompleteness d,
                  doc_CreatedAt = now, doc_UpdatedAt = now\<rparr>))"

text \<open>\<open>reading_edit.go\<close>: an edit of the owner, approved without the AI.\<close>

fun spaced_text :: "node \<Rightarrow> string" where
  "spaced_text (TextNode d) = d @ '' ''"
| "spaced_text (ElementNode _ _ _ cs) = concat (map spaced_text cs)"
| "spaced_text (OtherNode _ cs) = concat (map spaced_text cs)"

definition ApproveReadingEdit ::
  "lower_table \<Rightarrow> html_lib \<Rightarrow> article_draft \<Rightarrow> error + approved_article" where
  "ApproveReadingEdit ulow lib draft =
     (case SanitizeHTML ulow lib (draft_SemanticHTML draft) of
        Inl e \<Rightarrow> Inl (insufficient ''Keep a title and readable content in the reading version'')
      | Inr body \<Rightarrow>
          if TrimSpace (draft_Title draft) = ''''
          then Inl (insufficient ''Keep a title and readable content in the reading version'')
          else case html_Parse lib body of
                 Inl e \<Rightarrow> Inl e
               | Inr doc \<Rightarrow>
                   Inr \<lparr>app_draft = draft\<lparr>draft_SemanticHTML := body,
                          draft_PlainText := TrimSpace (spaced_text doc),
                          draft_ExtractionMethod := ''owner_edit'', draft_AIAttemptID := '''',
                          draft_AIConfidence := Fin 0, draft_AICompleteness := Fin 0\<rparr>,
                        app_valid = True\<rparr>)"

end
