(* ===== verification/Archive_Facts.thy ===== *)
theory Archive_Facts
  imports Archive Memory_Safety Sanitize_Facts
begin

section \<open>Facts about the archive\<close>

text \<open>
  Cursors decode to what was encoded; the store contract the archive relies on, the complete
  walk over a listing through the public cursors, proved once from that contract, and its
  interpretation on the in-memory store; public errors; file names.
\<close>

subsection \<open>Cursors\<close>

lemma map_char_byte [simp]: "map char_of (map byte s) = s"
  by (induction s) simp_all

lemma bytes_small: "\<forall>b \<in> set (map byte s). b < (256::nat)"
  by auto

lemma URLEncoding_alphabet [simp]: "b64_alphabet URLEncoding"
  by (simp add: b64_alphabet_def)

lemma StdEncoding_alphabet [simp]: "b64_alphabet StdEncoding"
  by (simp add: b64_alphabet_def)

definition addressable :: "job_id \<Rightarrow> time \<Rightarrow> bool" where
  "addressable jid t \<longleftrightarrow> jid \<noteq> '''' \<and> min_int64 \<le> t \<and> t \<le> max_int64"

lemma decode_encode_cursor:
  assumes "addressable (cur_ID p) (cur_CreatedAt p)"
  shows "decodeCursor (encodeCursor p) = Some p"
proof -
  let ?t = "cur_CreatedAt p"
  have t: "wrap64 ?t = ?t" and n: "ParseInt64 (Itoa ?t) = Some ?t"
    using assms wrap64_id ParseInt64_Itoa by (auto simp: addressable_def)
  have "b64_decode URLEncoding False False (encodeCursor p)
      = Some (map byte (Itoa ?t @ '':'' @ cur_ID p))"
    unfolding encodeCursor_def Let_def t
    by (rule b64_roundtrip [OF URLEncoding_alphabet bytes_small])
  moreover have "SplitN2 (Itoa ?t @ '':'' @ cur_ID p) (CHR '':'') = [Itoa ?t, cur_ID p]"
    using cut_byte_append [OF colon_not_in_Itoa, of ?t "cur_ID p"] by (simp add: SplitN2_def)
  ultimately show ?thesis
    using n assms unfolding decodeCursor_def
    by (simp only: option.case map_char_byte list.case) (simp add: addressable_def)
qed

lemma TrimSpace_plain:
  assumes "\<forall>c \<in> set s. byte c < (128::nat) \<and> \<not> IsSpace (byte c)"
  shows "TrimSpace s = s"
proof -
  have r: "runes s = map (\<lambda>c. (byte c, [c])) s"
    using assms by (intro runes_is_ascii) (simp add: is_ascii_def)
  have none: "dropWhile (IsSpace \<circ> fst) xs = xs" if "set xs \<subseteq> set (runes s)" for xs
  proof (cases xs)
    case (Cons x ys)
    then have "\<not> IsSpace (fst x)" using that assms by (auto simp: r)
    then show ?thesis using Cons by simp
  qed simp
  have "trim_pieces IsSpace (runes s) = runes s"
    using none [of "runes s"] none [of "rev (runes s)"] by (simp add: trim_pieces_def)
  then show ?thesis by (simp add: TrimSpace_def runes_bytes)
qed

lemma b64_char_visible:
  assumes "b64_alphabet a" and "n < 64"
  shows "byte (b64_char a n) < (128::nat) \<and> \<not> IsSpace (byte (b64_char a n))"
proof -
  have "fst a \<in> {43, 45}" "snd a \<in> {47, 95}"
    using assms(1) by (auto simp: b64_alphabet_def StdEncoding_def URLEncoding_def)
  then show ?thesis
    unfolding byte_b64_char [OF assms] IsSpace_def using assms(2) by auto
qed

lemma encodeCursor_visible: "TrimSpace (encodeCursor p) = encodeCursor p \<and> encodeCursor p \<noteq> ''''"
proof
  have "c = CHR ''='' \<or> (\<exists>n < 64. c = b64_char URLEncoding n)" if "c \<in> set (encodeCursor p)" for c
    using that b64_encode_chars [OF bytes_small] unfolding encodeCursor_def Let_def by blast
  moreover have "byte (CHR ''='') < (128::nat) \<and> \<not> IsSpace (byte (CHR ''=''))"
    by (simp add: IsSpace_def)
  ultimately have "\<forall>c \<in> set (encodeCursor p). byte c < (128::nat) \<and> \<not> IsSpace (byte c)"
    using b64_char_visible [OF URLEncoding_alphabet] by metis
  then show "TrimSpace (encodeCursor p) = encodeCursor p" by (rule TrimSpace_plain)
  obtain x xs where "map byte (Itoa (wrap64 (cur_CreatedAt p)) @ '':'' @ cur_ID p) = x # (xs :: nat list)"
    by (cases "map byte (Itoa (wrap64 (cur_CreatedAt p)) @ '':'' @ cur_ID p) :: nat list") auto
  moreover have "b64_encode a False (x # xs) \<noteq> ''''" for a and x :: nat and xs
    by (cases xs; cases "tl xs") auto
  ultimately show "encodeCursor p \<noteq> ''''" unfolding encodeCursor_def Let_def by metis
qed

subsection \<open>The store contract of the archive\<close>

text \<open>
  \<open>listing s st\<close> is the sequence a listing pages through; every job in it can be addressed
  by a cursor. Lookup and deletion act on \<open>job_of\<close>.
\<close>

locale archive_store =
  fixes ops :: "'s archive_ops"
    and job_of :: "'s \<Rightarrow> job_id \<Rightarrow> job option"
    and listing_of :: "'s \<Rightarrow> status option \<Rightarrow> job list"
    and inv :: "'s \<Rightarrow> bool"
  assumes list_first: "inv s \<Longrightarrow> contextErr c = None \<Longrightarrow> 0 < limit \<Longrightarrow>
      as_List ops c \<lparr>slr_Limit = limit, slr_After = None, slr_Status = st\<rparr> s
      = Inr \<lparr>page_Jobs = take (nat limit) (listing_of s st),
             page_HasMore = limit < int (length (listing_of s st))\<rparr>"
    and list_after: "inv s \<Longrightarrow> contextErr c = None \<Longrightarrow> 0 < limit \<Longrightarrow> i < length (listing_of s st) \<Longrightarrow>
      as_List ops c \<lparr>slr_Limit = limit, slr_After = Some (job_position (listing_of s st ! i)),
                     slr_Status = st\<rparr> s
      = Inr \<lparr>page_Jobs = take (nat limit) (drop (Suc i) (listing_of s st)),
             page_HasMore = limit < int (length (drop (Suc i) (listing_of s st)))\<rparr>"
    and listing_addressable: "inv s \<Longrightarrow> j \<in> set (listing_of s st) \<Longrightarrow>
      addressable (job_ID j) (job_CreatedAt j)"
    and get: "contextErr c = None \<Longrightarrow>
      as_Get ops c k s = (case job_of s k of None \<Rightarrow> Inl ErrNotFound | Some j \<Rightarrow> Inr j)"
    and delete_ok: "contextErr c = None \<Longrightarrow> as_RequestDelete ops c k now s = (None, s') \<Longrightarrow>
      job_of s' k = None \<and> (\<forall>k'. k' \<noteq> k \<longrightarrow> job_of s' k' = job_of s k')"
    and delete_known: "contextErr c = None \<Longrightarrow> job_of s k = Some j \<Longrightarrow>
      \<exists>s'. as_RequestDelete ops c k now s = (None, s')"
    and create_ok: "inv s \<Longrightarrow> contextErr c = None \<Longrightarrow>
      as_CreateOrReuse ops c cmd s = (out, None, s') \<Longrightarrow> \<not> out_Conflict out \<Longrightarrow>
      job_of s' (job_ID (out_Job out)) = Some (out_Job out)"

text \<open>A client that pages through the archive: it presents \<open>NextCursor\<close> until it is empty.\<close>

fun browse ::
  "'s archive_ops \<Rightarrow> ctx \<Rightarrow> int \<Rightarrow> string \<Rightarrow> 's \<Rightarrow> nat \<Rightarrow> string \<Rightarrow> job_summary list option" where
  "browse ops c limit st s 0 cursor = None"
| "browse ops c limit st s (Suc n) cursor =
     (case ListJobs ops c \<lparr>lr_Limit = limit, lr_Cursor = cursor, lr_Status = st\<rparr> s of
        Inl _ \<Rightarrow> None
      | Inr page \<Rightarrow>
          if jp_NextCursor page = '''' then Some (jp_Items page)
          else map_option ((@) (jp_Items page))
                 (browse ops c limit st s n (jp_NextCursor page)))"

text \<open>The status filter a request names.\<close>

definition requested_status :: "string \<Rightarrow> status option" where
  "requested_status name =
     (if TrimSpace name = '''' then None else Some (status_of_string (TrimSpace name)))"

definition status_name_ok :: "string \<Rightarrow> bool" where
  "status_name_ok name \<longleftrightarrow>
     TrimSpace name = '''' \<or> status_Valid (status_of_string (TrimSpace name))"

lemma SubmitURL_ok:
  assumes "SubmitURL sha256 a ops c request key newID now s = (Inr accepted, s')"
  obtains n out where "normalizeSubmit sha256 a request key = Inr n"
    and "as_CreateOrReuse ops c \<lparr>cj_ID = newID, cj_Request = ns_request n, cj_CreatedAt = now,
           cj_IdempotencyKey = ns_idempotencyKey n, cj_RequestDigest = ns_digest n\<rparr> s
         = (out, None, s')"
    and "\<not> out_Conflict out" and "accepted = acceptedJob (out_Job out)"
proof (cases "normalizeSubmit sha256 a request key")
  case (Inl e)
  then show ?thesis using assms by (simp add: SubmitURL_def)
next
  case (Inr n)
  obtain out oe s1 where r: "as_CreateOrReuse ops c \<lparr>cj_ID = newID, cj_Request = ns_request n,
      cj_CreatedAt = now, cj_IdempotencyKey = ns_idempotencyKey n,
      cj_RequestDigest = ns_digest n\<rparr> s = (out, oe, s1)"
    by (metis prod_cases3)
  show ?thesis
    using assms that [OF Inr] r by (cases oe) (simp_all add: SubmitURL_def Inr split: if_splits)
qed

context archive_store
begin

lemma ListJobs_first:
  assumes "inv s" and "contextErr c = None" and "1 \<le> limit" and "limit \<le> 100"
    and "status_name_ok st"
  defines "js \<equiv> listing_of s (requested_status st)"
  shows "ListJobs ops c \<lparr>lr_Limit = limit, lr_Cursor = '''', lr_Status = st\<rparr> s
    = Inr \<lparr>jp_Items = map summarize (take (nat limit) js),
           jp_NextCursor = next_cursor \<lparr>page_Jobs = take (nat limit) js,
             page_HasMore = limit < int (length js)\<rparr>\<rparr>"
  using assms list_first [OF assms(1,2), of limit "requested_status st"]
  by (auto simp: ListJobs_def requested_status_def status_name_ok_def Let_def)

lemma ListJobs_after:
  assumes "inv s" and "contextErr c = None" and "1 \<le> limit" and "limit \<le> 100"
    and "status_name_ok st" and "i < length js"
    and js: "js = listing_of s (requested_status st)"
  shows "ListJobs ops c \<lparr>lr_Limit = limit, lr_Cursor = encodeCursor (job_position (js ! i)),
      lr_Status = st\<rparr> s
    = Inr \<lparr>jp_Items = map summarize (take (nat limit) (drop (Suc i) js)),
           jp_NextCursor = next_cursor \<lparr>page_Jobs = take (nat limit) (drop (Suc i) js),
             page_HasMore = limit < int (length (drop (Suc i) js))\<rparr>\<rparr>"
proof -
  let ?p = "job_position (js ! i)"
  have "js ! i \<in> set js" using assms(6) by simp
  then have "decodeCursor (encodeCursor ?p) = Some ?p"
    using listing_addressable [OF assms(1)] js by (intro decode_encode_cursor) (simp add: job_position_def)
  then show ?thesis
    using assms list_after [OF assms(1,2), of limit i "requested_status st"]
      encodeCursor_visible [of ?p]
    by (auto simp: ListJobs_def requested_status_def status_name_ok_def Let_def)
qed

lemma next_cursor_page:
  assumes "0 < limit" and "i \<le> length js"
  shows "next_cursor \<lparr>page_Jobs = take (nat limit) (drop i js),
      page_HasMore = limit < int (length (drop i js))\<rparr>
    = (if limit < int (length (drop i js)) then encodeCursor (job_position (js ! (i + nat limit - 1)))
       else '''')"
proof -
  have "last (take (nat limit) (drop i js)) = js ! (i + nat limit - 1)"
    if "limit < int (length js - i)"
  proof -
    have "length (take (nat limit) (drop i js)) = nat limit" using that by simp
    then show ?thesis using assms that by (subst last_conv_nth) (auto simp: algebra_simps)
  qed
  then show ?thesis using assms by (auto simp: next_cursor_def)
qed

lemma browse_from:
  assumes "inv s" and "contextErr c = None" and "1 \<le> limit" and "limit \<le> 100"
    and "status_name_ok st" and js: "js = listing_of s (requested_status st)"
    and "i \<le> length js"
    and "cursor = (case i of 0 \<Rightarrow> '''' | Suc p \<Rightarrow> encodeCursor (job_position (js ! p)))"
    and "length js - i < n"
  shows "browse ops c limit st s n cursor = Some (map summarize (drop i js))"
  using assms(7-9)
proof (induction n arbitrary: i cursor)
  case (Suc n)
  have lim: "0 < limit" using assms(3) by simp
  have page: "ListJobs ops c \<lparr>lr_Limit = limit, lr_Cursor = cursor, lr_Status = st\<rparr> s
    = Inr \<lparr>jp_Items = map summarize (take (nat limit) (drop i js)),
           jp_NextCursor = next_cursor \<lparr>page_Jobs = take (nat limit) (drop i js),
             page_HasMore = limit < int (length (drop i js))\<rparr>\<rparr>"
  proof (cases i)
    case 0
    then show ?thesis using ListJobs_first [OF assms(1-5)] Suc.prems(2) js by simp
  next
    case (Suc p)
    then show ?thesis using ListJobs_after [OF assms(1-5) _ js, of p] Suc.prems by simp
  qed
  show ?case
  proof (cases "limit < int (length (drop i js))")
    case False
    then show ?thesis using page next_cursor_page [OF lim Suc.prems(1)] by simp
  next
    case True
    let ?k = "i + nat limit"
    have k: "?k < length js" "0 < nat limit" using True lim by (simp_all add: less_diff_conv)
    have cur: "next_cursor \<lparr>page_Jobs = take (nat limit) (drop i js),
        page_HasMore = limit < int (length (drop i js))\<rparr>
        = (case ?k of 0 \<Rightarrow> '''' | Suc p \<Rightarrow> encodeCursor (job_position (js ! p)))"
      using next_cursor_page [OF lim Suc.prems(1)] True k(2) by (auto split: nat.splits)
    have "browse ops c limit st s n (next_cursor \<lparr>page_Jobs = take (nat limit) (drop i js),
        page_HasMore = limit < int (length (drop i js))\<rparr>) = Some (map summarize (drop ?k js))"
      using Suc.IH [OF _ cur] k Suc.prems(3) by simp
    moreover have "next_cursor \<lparr>page_Jobs = take (nat limit) (drop i js),
        page_HasMore = limit < int (length (drop i js))\<rparr> \<noteq> ''''"
      using next_cursor_page [OF lim Suc.prems(1)] True encodeCursor_visible by simp
    moreover have "take (nat limit) (drop i js) @ drop ?k js = drop i js"
      by (metis append_take_drop_id drop_drop add.commute)
    ultimately show ?thesis using page by (simp flip: map_append)
  qed
qed simp

lemma browse_all:
  assumes "inv s" and "contextErr c = None" and "1 \<le> limit" and "limit \<le> 100"
    and "status_name_ok st" and "length (listing_of s (requested_status st)) < n"
  shows "browse ops c limit st s n '''' = Some (map summarize (listing_of s (requested_status st)))"
  using browse_from [OF assms(1-5) refl, of 0 "''''" n] assms(6) by simp

lemma GetJob_deleted:
  assumes "contextErr c = None" and "contextErr c' = None" and "TrimSpace jid \<noteq> ''''"
    and "DeleteJob ops aops c jid now s files = (None, s', files')"
  shows "job_of s' jid = None
    \<and> GetJob ops c' jid s' = Inl (NewSafeError ''not_found'' 404 ''Job was not found'')
    \<and> (\<forall>k. k \<noteq> jid \<longrightarrow> job_of s' k = job_of s k)"
proof -
  have "job_of s' jid = None \<and> (\<forall>k. k \<noteq> jid \<longrightarrow> job_of s' k = job_of s k)"
  proof (cases "job_of s jid")
    case None
    then show ?thesis using assms(3,4) get [OF assms(1), of jid s] by (auto simp: DeleteJob_def)
  next
    case (Some j)
    obtain s1 where del: "as_RequestDelete ops c jid now s = (None, s1)"
      using delete_known [OF assms(1) Some] by blast
    have "fst (snd (DeleteJob ops aops c jid now s files)) = s1"
      using assms(3) Some get [OF assms(1), of jid s] del
      by (simp add: DeleteJob_def split: option.split prod.split)
    then have s': "s' = s1" using assms(4) by simp
    show ?thesis unfolding s' by (rule delete_ok [OF assms(1) del])
  qed
  then show ?thesis
    using get [OF assms(2), of jid s'] assms(3) by (simp add: GetJob_def mapStoreError_def)
qed

lemma Submit_Get:
  assumes "inv s" and "contextErr c = None" and "contextErr c' = None"
    and "SubmitURL sha256 a ops c request key newID now s = (Inr accepted, s')"
    and "TrimSpace (acc_ID accepted) \<noteq> ''''"
  shows "\<exists>j. job_of s' (acc_ID accepted) = Some j \<and> acc_Status accepted = job_Status j
    \<and> GetJob ops c' (acc_ID accepted) s' = Inr (detail j)"
proof -
  obtain cmd out where out: "as_CreateOrReuse ops c cmd s = (out, None, s')" "\<not> out_Conflict out"
    and acc: "accepted = acceptedJob (out_Job out)"
    using SubmitURL_ok [OF assms(4)] by metis
  have "job_of s' (acc_ID accepted) = Some (out_Job out)"
    using create_ok [OF assms(1,2) out] by (simp add: acc acceptedJob_def)
  then show ?thesis
    using get [OF assms(3)] assms(5) by (simp add: GetJob_def acc acceptedJob_def)
qed

end

subsection \<open>The in-memory store as the store of the archive\<close>

definition mem_archive :: "mem_store archive_ops" where
  "mem_archive = \<lparr>as_CreateOrReuse = CreateOrReuse,
     as_List = (\<lambda>c request s. List_jobs c request (job_keys s) s), as_Get = Get,
     as_CreateRetry = CreateRetry, as_RequestDelete = RequestDelete\<rparr>"

lemma mem_archive_simps [simp]:
  "as_CreateOrReuse mem_archive = CreateOrReuse"
  "as_List mem_archive c request s = List_jobs c request (job_keys s) s"
  "as_Get mem_archive = Get" "as_CreateRetry mem_archive = CreateRetry"
  "as_RequestDelete mem_archive = RequestDelete"
  by (simp_all add: mem_archive_def)

text \<open>Every stored job can be addressed by a cursor.\<close>

definition archive_inv :: "mem_store \<Rightarrow> bool" where
  "archive_inv s \<longleftrightarrow>
     mem_inv s \<and> (\<forall>k j. st_jobs s k = Some j \<longrightarrow> addressable (job_ID j) (job_CreatedAt j))"

lemma CreateOrReuse_stored:
  assumes "store_wf s" and "CreateOrReuse c cmd s = (out, None, s')"
  shows "st_jobs s' (job_ID (out_Job out)) = Some (out_Job out)"
  using assms(2) store_wfD [OF assms(1)]
  by (auto simp: CreateOrReuse_def insert_job_def Let_def split: option.splits if_splits)

lemma archive_inv_facts:
  assumes "archive_inv s"
  shows "store_wf s" and "enumerates (job_keys s) s"
  using assms job_keys_enumerate by (auto simp: archive_inv_def mem_inv_def)

interpretation arc: archive_store mem_archive st_jobs "\<lambda>s st. listing st (job_keys s) s" archive_inv
proof (unfold_locales, unfold mem_archive_simps, goal_cases)
  case (1 s c limit st)
  then show ?case
    using archive_inv_facts [OF 1(1)] by (simp add: List_jobs_eq page_of_def behind_None)
next
  case (2 s c limit i st)
  note wf = archive_inv_facts [OF 2(1)]
  show ?case
    using 2 behind_drop [OF descending_listing [OF wf] 2(4)]
    by (simp add: List_jobs_eq [OF wf 2(2)] page_of_def)
next
  case (3 s j st)
  then show ?case using set_listing [OF archive_inv_facts(2) [OF 3(1)]] by (auto simp: archive_inv_def)
next
  case (4 c k s)
  then show ?case by (simp add: Get_def)
next
  case (5 c k now s s')
  then show ?case by (auto simp: RequestDelete_def Let_def split: option.splits)
next
  case (6 c s k j now)
  then show ?case by (simp add: RequestDelete_def)
next
  case (7 s c cmd out s')
  then show ?case using CreateOrReuse_stored archive_inv_facts(1) by blast
qed

subsection \<open>Public errors\<close>

text \<open>Every error a client of the archive can see has one of these codes, statuses and
  messages; the cause is kept apart.\<close>

definition public_errors :: "(string \<times> nat \<times> string) list" where
  "public_errors =
     [(''invalid_input'', 400, ''url must be a bounded HTTP or HTTPS URL''),
      (''invalid_input'', 400, ''url must use HTTP or HTTPS''),
      (''invalid_input'', 400, ''url must contain a host''),
      (''invalid_input'', 400, ''title is too long''),
      (''invalid_input'', 400, ''profile is invalid''),
      (''invalid_input'', 400, ''profile is not configured''),
      (''invalid_input'', 400, ''idempotency key is too long''),
      (''invalid_input'', 400, ''limit must be between 1 and 100''),
      (''invalid_input'', 400, ''cursor is invalid''),
      (''invalid_input'', 400, ''status is invalid''),
      (''invalid_input'', 400, ''job id is required''),
      (''not_found'', 404, ''Job was not found''),
      (''artifact_not_found'', 404, ''No complete artifact exists for this job''),
      (''idempotency_conflict'', 409,
         ''The idempotency key was already used with a different request''),
      (''job_not_terminal'', 409, ''Only terminal jobs can be retried''),
      (''internal_error'', 500, ''The operation could not be completed''),
      (''storage_failed'', 503, ''Artifact storage is temporarily unavailable'')]"

definition public_error :: "error \<Rightarrow> bool" where
  "public_error e \<longleftrightarrow>
     (\<exists>code status message cause. e = SafeError code status message '''' False cause
        \<and> (code, status, message) \<in> set public_errors)"

lemma public_error_simps [simp]:
  "public_error (mapStorageError e)" "public_error (internalError e)"
  "public_error (invalid_input m) \<longleftrightarrow> (''invalid_input'', 400, m) \<in> set public_errors"
  "public_error (NewSafeError code status m) \<longleftrightarrow> (code, status, m) \<in> set public_errors"
  "public_error artifact_not_found"
  by (auto simp: public_error_def mapStorageError_def internalError_def invalid_input_def
      NewSafeError_def artifact_not_found_def) (simp_all add: public_errors_def)

lemma mapStoreError_public [simp]: "public_error (mapStoreError e)"
  by (simp add: mapStoreError_def) (simp add: public_errors_def)

lemma invalid_input_public [simp]:
  "(''invalid_input'', 400, ''url must be a bounded HTTP or HTTPS URL'') \<in> set public_errors"
  "(''invalid_input'', 400, ''url must use HTTP or HTTPS'') \<in> set public_errors"
  "(''invalid_input'', 400, ''url must contain a host'') \<in> set public_errors"
  "(''invalid_input'', 400, ''title is too long'') \<in> set public_errors"
  "(''invalid_input'', 400, ''profile is invalid'') \<in> set public_errors"
  "(''invalid_input'', 400, ''profile is not configured'') \<in> set public_errors"
  "(''invalid_input'', 400, ''idempotency key is too long'') \<in> set public_errors"
  "(''invalid_input'', 400, ''limit must be between 1 and 100'') \<in> set public_errors"
  "(''invalid_input'', 400, ''cursor is invalid'') \<in> set public_errors"
  "(''invalid_input'', 400, ''status is invalid'') \<in> set public_errors"
  "(''invalid_input'', 400, ''job id is required'') \<in> set public_errors"
  "(''idempotency_conflict'', 409,
     ''The idempotency key was already used with a different request'') \<in> set public_errors"
  "(''job_not_terminal'', 409, ''Only terminal jobs can be retried'') \<in> set public_errors"
  by (simp_all add: public_errors_def)

lemma normalize_url_error: "normalize_url raw = Inl e \<Longrightarrow> public_error e"
  by (auto simp: normalize_url_def Let_def split: option.splits if_splits)

lemma normalizeSubmit_error: "normalizeSubmit sha256 a request key = Inl e \<Longrightarrow> public_error e"
  using normalize_url_error
  by (auto simp: normalizeSubmit_def Let_def split: sum.splits if_splits)

lemma SubmitURL_error:
  assumes "SubmitURL sha256 a ops c request key newID now s = (Inl e, s')"
  shows "public_error e"
proof (cases "normalizeSubmit sha256 a request key")
  case (Inl e')
  then show ?thesis using assms normalizeSubmit_error by (simp add: SubmitURL_def)
next
  case (Inr n)
  obtain out oe s1 where "as_CreateOrReuse ops c \<lparr>cj_ID = newID, cj_Request = ns_request n,
      cj_CreatedAt = now, cj_IdempotencyKey = ns_idempotencyKey n,
      cj_RequestDigest = ns_digest n\<rparr> s = (out, oe, s1)"
    by (metis prod_cases3)
  then show ?thesis using assms Inr by (cases oe) (auto simp: SubmitURL_def split: if_splits)
qed

lemma ListJobs_error: "ListJobs ops c request s = Inl e \<Longrightarrow> public_error e"
  by (auto simp: ListJobs_def Let_def split: sum.splits if_splits)

lemma GetJob_error: "GetJob ops c jid s = Inl e \<Longrightarrow> public_error e"
  by (auto simp: GetJob_def split: sum.splits if_splits)

lemma OpenArtifact_error: "OpenArtifact ops aops c jid s files = Inl e \<Longrightarrow> public_error e"
  by (auto simp: OpenArtifact_def split: sum.splits option.splits if_splits)

lemma RetryJob_error: "RetryJob ops c jid newID now s = (Inl e, s') \<Longrightarrow> public_error e"
  by (auto simp: RetryJob_def split: sum.splits prod.splits if_splits)

lemma DeleteJob_error:
  "DeleteJob ops aops c jid now s files = (Some e, s', files') \<Longrightarrow> public_error e"
  by (auto simp: DeleteJob_def split: sum.splits prod.splits option.splits if_splits)

subsection \<open>Accepted submissions\<close>

lemma normalize_url_ok:
  assumes "normalize_url raw = Inr u"
  shows "web_url u"
proof -
  define v where "v = TrimSpace raw"
  obtain p where p: "url_Parse v = Some p"
    using assms by (cases "url_Parse v") (simp_all add: normalize_url_def v_def [symmetric] split: if_splits)
  define scheme where "scheme = map lower_byte (u_Scheme p)"
  let ?q = "p\<lparr>u_Scheme := scheme, u_Fragment := ''''\<rparr>"
  have h: "u_Host p \<noteq> ''''" and user: "u_User p = None"
    and sc: "scheme = ''http'' \<or> scheme = ''https''" and u: "u = url_String ?q"
    using assms p
    by (cases "u_User p"; simp add: normalize_url_def v_def [symmetric] scheme_def [symmetric] Let_def
        split: if_splits)+
  then have s: "u_Scheme ?q = ''http'' \<or> u_Scheme ?q = ''https''" by simp
  have "u_Opaque ?q = ''''" using url_Parse_hosted [OF p h] by simp
  moreover have "u_Scheme ?q \<noteq> ''''" using s by (elim disjE) simp_all
  ultimately obtain rest where "u = u_Scheme ?q @ ''://'' @ escape encodeHost (u_Host ?q) @ rest"
    using url_String_web [of ?q] h user u by auto
  then show ?thesis using s unfolding web_url_def HasPrefix_def by (elim disjE) simp_all
qed

lemma normalizeSubmit_ok:
  assumes "normalizeSubmit sha256 a request key = Inr n"
  shows "web_url (sub_URL (ns_request n))" and "length (sub_Title (ns_request n)) \<le> maxTitleLength"
    and "sub_Profile (ns_request n) \<in> set (arc_profiles a)"
    and "length (ns_idempotencyKey n) \<le> maxIdempotencyLength"
    and "ns_digest n = request_digest sha256 (sub_URL (ns_request n)) (sub_Title (ns_request n))
           (sub_Profile (ns_request n))"
  using assms normalize_url_ok
  by (auto simp: normalizeSubmit_def Let_def split: sum.splits if_splits)

subsection \<open>Redaction\<close>

text \<open>What a redacted URL may depend on: everything but the user information, the values of
  the query and the fragment.\<close>

definition url_skeleton ::
  "go_url \<Rightarrow> string \<times> string \<times> string \<times> string \<times> string \<times> bool \<times> bool \<times> bool \<times> string list" where
  "url_skeleton u =
     (u_Scheme u, u_Opaque u, u_Host u, u_Path u, u_RawPath u, u_OmitHost u, u_ForceQuery u,
      u_RawQuery u = '''', query_keys (query_pairs (u_RawQuery u)))"

lemma url_String_cong:
  assumes "u_Scheme u = u_Scheme v" and "u_Opaque u = u_Opaque v" and "u_User u = None"
    and "u_User v = None" and "u_Host u = u_Host v" and "u_Path u = u_Path v"
    and "u_RawPath u = u_RawPath v" and "u_OmitHost u = u_OmitHost v"
    and "u_ForceQuery u = u_ForceQuery v" and "u_RawQuery u = u_RawQuery v"
    and "u_Fragment u = ''''" and "u_Fragment v = ''''"
  shows "url_String u = url_String v"
  using assms by (simp add: url_String_def url_body_def authority_String_def EscapedPath_def)

lemma redactURL_parsed:
  assumes "raw \<noteq> ''''" and "url_Parse raw = Some u"
  shows "redactURL raw = url_String (u\<lparr>u_User := None,
     u_RawQuery := (if u_RawQuery u = '''' then ''''
        else encode_values (query_keys (query_pairs (u_RawQuery u))) (\<lambda>_. [''[redacted]''])),
     u_Fragment := ''''\<rparr>)"
proof (cases "u_RawQuery u = ''''")
  case True
  then have "redactURL raw = url_String (u\<lparr>u_User := None, u_Fragment := ''''\<rparr>)"
    using assms by (simp add: redactURL_def)
  also have "\<dots> = url_String (u\<lparr>u_User := None, u_RawQuery := '''', u_Fragment := ''''\<rparr>)"
    using True by (intro url_String_cong) simp_all
  finally show ?thesis using True by simp
qed (use assms in \<open>simp add: redactURL_def\<close>)

subsection \<open>Approval\<close>

lemma SanitizeHTML_ok:
  assumes "SanitizeHTML ulow lib input = Inr out"
  shows "\<exists>nodes raw. list_all inert nodes \<and> hasSemanticText nodes
    \<and> render_all lib nodes = Inr raw \<and> out = TrimSpace raw"
proof -
  obtain parsed where "html_ParseFragment lib input = Inr parsed"
    using assms by (cases "html_ParseFragment lib input") (simp_all add: SanitizeHTML_def)
  moreover have "list_all inert (sanitizeChildren ulow parsed)"
    using sanitizeNode_inert by (auto simp: sanitizeChildren_def list_all_iff)
  ultimately show ?thesis
    using assms by (intro exI [of _ "sanitizeChildren ulow parsed"])
      (auto simp: SanitizeHTML_def Let_def split: if_splits sum.splits)
qed

lemma approveArticle_ok:
  assumes "approveArticle ulow lib a draft = Inr ap"
  defines "d \<equiv> app_draft ap"
  shows "app_valid ap" and "draft_Classification d = ''article''" and "draft_Title d \<noteq> ''''"
    and "arc_minContent a \<le> int (RuneCountInString (draft_PlainText d))"
    and "\<not> outside_unit (draft_AIConfidence d)" and "\<not> outside_unit (draft_AICompleteness d)"
    and "draft_AIAttemptID d \<noteq> ''''"
    and "\<exists>input. SanitizeHTML ulow lib input = Inr (draft_SemanticHTML d)"
  using assms by (auto simp: approveArticle_def Let_def split: sum.splits if_splits)

lemma approveArticle_error:
  assumes "approveArticle ulow lib a draft = Inl e"
  shows "\<exists>c m. e = NewProcessingError c m False
    \<and> c \<in> {category_string FailureUnsupportedContent, category_string FailureInsufficientContent,
           category_string FailureAIInvalidResponse}"
  using assms
  by (auto simp: approveArticle_def Let_def insufficient_def invalid_response_def
      split: sum.splits if_splits)

end
