(* ===== verification/Filenames.thy ===== *)
theory Filenames
  imports Archive_Facts
begin

section \<open>Artifact file names\<close>

text \<open>
  \<open>safeFilename\<close> and \<open>sanitizeFilename\<close>: the names they produce are accepted by the artifact
  store and cannot leave the directory of their job.
\<close>

lemma ReplaceAll_Nil [simp]: "ReplaceAll [] old new = []"
  by (subst ReplaceAll.simps) simp

abbreviation no_dots :: "string \<Rightarrow> string" where
  "no_dots s \<equiv> ReplaceAll s ''..'' ''__''"

lemma no_dots_Cons:
  "no_dots (c # cs) = (if HasPrefix (c # cs) ''..'' then ''__'' @ no_dots (tl cs) else c # no_dots cs)"
  by (subst ReplaceAll.simps) (cases cs, auto simp: HasPrefix_def)

lemma HasPrefix_two: "HasPrefix (c # cs) ''..'' \<longleftrightarrow> c = CHR ''.'' \<and> cs \<noteq> [] \<and> hd cs = CHR ''.''"
  by (cases cs) (auto simp: HasPrefix_def)

lemma no_dots_head: "no_dots s \<noteq> [] \<Longrightarrow> hd (no_dots s) = CHR ''.'' \<Longrightarrow> s \<noteq> [] \<and> hd s = CHR ''.''"
  by (cases s) (auto simp: no_dots_Cons split: if_splits)

lemma no_dots_free: "\<not> Contains (no_dots s) ''..''"
proof (induction "length s" arbitrary: s rule: less_induct)
  case less
  show ?case
  proof (cases s)
    case Nil
    then show ?thesis by simp
  next
    case (Cons c cs)
    show ?thesis
    proof (cases "HasPrefix (c # cs) ''..''")
      case True
      have "\<not> Contains (no_dots (tl cs)) ''..''" using less Cons by (simp add: le_imp_less_Suc)
      then show ?thesis using True by (simp add: Cons no_dots_Cons HasPrefix_two)
    next
      case False
      have "\<not> Contains (no_dots cs) ''..''" using less Cons by simp
      moreover have "\<not> (c = CHR ''.'' \<and> no_dots cs \<noteq> [] \<and> hd (no_dots cs) = CHR ''.'')"
        using False no_dots_head [of cs] by (auto simp: HasPrefix_two)
      ultimately show ?thesis using False by (simp add: Cons no_dots_Cons) (simp add: HasPrefix_two)
    qed
  qed
qed

lemma set_no_dots: "set (no_dots s) \<subseteq> insert (CHR ''_'') (set s)"
proof (induction "length s" arbitrary: s rule: less_induct)
  case less
  show ?case
  proof (cases s)
    case (Cons c cs)
    have "set (no_dots cs) \<subseteq> insert (CHR ''_'') (set cs)" using less Cons by simp
    moreover have "set (no_dots (tl cs)) \<subseteq> insert (CHR ''_'') (set (tl cs))"
      using less Cons by (simp add: le_imp_less_Suc)
    moreover have "set (tl cs) \<subseteq> set cs" by (cases cs) auto
    ultimately show ?thesis by (auto simp: Cons no_dots_Cons)
  qed simp
qed

text \<open>A name that ends in a letter keeps it.\<close>

lemma no_dots_keeps: "c \<in> set s \<Longrightarrow> c \<noteq> CHR ''.'' \<Longrightarrow> c \<in> set (no_dots s)"
proof (induction "length s" arbitrary: s rule: less_induct)
  case less
  show ?case
  proof (cases s)
    case (Cons d cs)
    show ?thesis
    proof (cases "HasPrefix (d # cs) ''..''")
      case True
      then obtain ds where ds: "cs = CHR ''.'' # ds" "d = CHR ''.''"
        by (cases cs) (auto simp: HasPrefix_two)
      then have "c \<in> set ds" using less(2,3) Cons by auto
      then have "c \<in> set (no_dots ds)" using less(1) [of ds] less(3) Cons ds by simp
      then show ?thesis using True ds by (simp add: Cons no_dots_Cons)
    next
      case False
      have "c = d \<or> c \<in> set (no_dots cs)" using less Cons by auto
      then show ?thesis using False by (auto simp: Cons no_dots_Cons)
    qed
  qed (use less in simp)
qed

subsection \<open>The characters of a name\<close>

definition name_char :: "char \<Rightarrow> bool" where
  "name_char c \<longleftrightarrow> filename_rune (byte c)"

lemma filename_rune_encode:
  "filename_rune r \<Longrightarrow> encode_rune r = [char_of r] \<and> name_char (char_of r)"
  by (auto simp: filename_rune_def encode_rune_def name_char_def of_char_of)

lemma name_char_plain [simp]:
  "name_char CHR ''_''" "name_char CHR ''.''" "name_char CHR ''p''" "name_char CHR ''d''"
  "name_char CHR ''f''" "name_char CHR ''a''" "name_char CHR ''t''" "name_char CHR ''i''"
  "name_char CHR ''c''" "name_char CHR ''-''"
  by (simp_all add: name_char_def filename_rune_def)

lemma name_char_not_separator: "name_char c \<Longrightarrow> c \<noteq> CHR ''/'' \<and> c \<noteq> CHR 0x5C"
  by (auto simp: name_char_def filename_rune_def)

lemma name_char_ascii: "name_char c \<Longrightarrow> byte c < (128::nat)"
  by (auto simp: name_char_def filename_rune_def)

lemma mapped_name_chars:
  "\<forall>c \<in> set (string_of_runes (map (\<lambda>r. if filename_rune r then r else 95) rs)). name_char c"
proof
  fix c assume "c \<in> set (string_of_runes (map (\<lambda>r. if filename_rune r then r else 95) rs))"
  then obtain r where c: "c \<in> set (encode_rune (if filename_rune r then r else 95))"
    by (auto simp: string_of_runes_def)
  have "filename_rune (if filename_rune r then r else 95)" by (simp add: filename_rune_def)
  then show "name_char c" using c filename_rune_encode by fastforce
qed

lemma set_Trim: "set (Trim s cs) \<subseteq> set s"
  by (auto simp: Trim_def dest!: set_dropWhileD)

lemma concat_map_single: "\<forall>x \<in> set xs. f x = [x] \<Longrightarrow> concat (map f xs) = xs"
  by (induction xs) auto

lemma encode_rune_ascii: "r < 128 \<Longrightarrow> encode_rune r = [char_of r]"
  by (simp add: encode_rune_def)

lemma truncateRunes_ascii:
  assumes "is_ascii s"
  shows "truncateRunes s (int n) = take n s"
proof -
  have r: "string_runes s = map byte s" using assms by (simp add: string_runes_def runes_is_ascii o_def)
  have "\<forall>c \<in> set (take n s). (encode_rune \<circ> byte) c = [c]"
    using assms set_take_subset [of n s] by (auto simp: is_ascii_def encode_rune_ascii)
  then have "string_of_runes (map byte (take n s)) = take n s"
    unfolding string_of_runes_def map_map by (rule concat_map_single)
  then show ?thesis
    using assms by (simp add: truncateRunes_def r RuneCountInString_ascii take_map)
qed

text \<open>The name is made of the characters of names and of the characters of the job id, has a
  letter, and has no parent component.\<close>

definition good_name :: "string set \<Rightarrow> string \<Rightarrow> bool" where
  "good_name ids name \<longleftrightarrow> \<not> Contains name ''..'' \<and> CHR ''p'' \<in> set name
     \<and> (\<forall>c \<in> set name. name_char c \<or> (\<exists>i \<in> ids. c \<in> set i))"

lemma good_no_dots:
  assumes "\<forall>c \<in> set s. name_char c \<or> c \<in> set jid" and "CHR ''p'' \<in> set s"
  shows "good_name {jid} (no_dots s)"
  using assms no_dots_free [of s] no_dots_keeps [of "CHR ''p''" s] set_no_dots [of s]
  by (auto simp: good_name_def)

lemma safeFilename_good: "good_name {jid} (safeFilename title jid)"
proof -
  define t where "t = TrimSpace title"
  define mapped where "mapped = string_of_runes
    (map (\<lambda>r. if filename_rune r then r else 95) (string_runes t))"
  define name where "name = Trim (TrimSpace mapped) ''.''"
  have "set name \<subseteq> set mapped"
    unfolding name_def using set_Trim set_TrimSpace by fast
  then have chars: "\<forall>c \<in> set name. name_char c" using mapped_name_chars by (auto simp: mapped_def)
  then have "is_ascii name" using name_char_ascii by (auto simp: is_ascii_def)
  then have "truncateRunes name 100 = take 100 name" using truncateRunes_ascii [of name 100] by simp
  then have "good_name {jid} (no_dots (truncateRunes name 100 @ ''.pdf''))"
    using chars by (intro good_no_dots) (auto dest: in_set_takeD)
  moreover have "good_name {jid} (no_dots (''attic-'' @ jid @ ''.pdf''))"
    by (intro good_no_dots) auto
  ultimately show ?thesis
    by (simp add: safeFilename_def Let_def t_def [symmetric] mapped_def [symmetric]
        name_def [symmetric] filenameWithoutParentTraversal_def)
qed

lemma sanitizeFilename_good: "good_name {jid} (sanitizeFilename ulow value title jid)"
  using safeFilename_good by (simp add: sanitizeFilename_def Let_def)

lemma TrimSpace_keeps:
  assumes "is_ascii s" and "c \<in> set s" and "\<not> IsSpace (byte c)"
  shows "c \<in> set (TrimSpace s)"
proof -
  let ?p = "IsSpace \<circ> fst"
  have r: "runes s = map (\<lambda>c. (byte c, [c])) s" using assms(1) by (rule runes_is_ascii)
  have keep: "x \<in> set (dropWhile ?p xs)" if "x \<in> set xs" "\<not> ?p x" for x :: "rune \<times> string" and xs
    using that by (induction xs) auto
  have "(byte c, [c]) \<in> set (runes s)" using assms(2) by (auto simp: r)
  then have "(byte c, [c]) \<in> set (trim_pieces IsSpace (runes s))"
    using assms(3) unfolding trim_pieces_def by (simp add: keep)
  then show ?thesis unfolding TrimSpace_def by force
qed

text \<open>Such a name is accepted by the artifact store.\<close>

lemma good_name_accepted:
  assumes "good_name {jid} name" and "\<forall>c \<in> set jid. name_char c"
  shows "\<not> unsafe_name (TrimSpace name)"
proof -
  have chars: "\<forall>c \<in> set name. name_char c" using assms by (auto simp: good_name_def)
  then have "is_ascii name" using name_char_ascii by (auto simp: is_ascii_def)
  moreover have "CHR ''p'' \<in> set name" using assms(1) by (simp add: good_name_def)
  ultimately have p: "CHR ''p'' \<in> set (TrimSpace name)"
    by (rule TrimSpace_keeps) (simp add: IsSpace_def)
  have "\<not> ContainsAny (TrimSpace name) [CHR ''/'', CHR 0x5C, CHR 0x5C]"
    using chars set_TrimSpace [of name] name_char_not_separator
    by (fastforce simp: ContainsAny_def)
  then show ?thesis using p by (auto simp: unsafe_name_def)
qed

subsection \<open>A truncated title\<close>

lemma no_dots_replicate:
  "no_dots (replicate n (CHR ''a'') @ s) = replicate n (CHR ''a'') @ no_dots s"
  by (induction n) (simp_all add: no_dots_Cons HasPrefix_two)

lemma plain_title:
  assumes "\<forall>c \<in> set s. name_char c \<and> byte c \<noteq> (32::nat)"
  shows "TrimSpace s = s"
    and "string_of_runes (map (\<lambda>r. if filename_rune r then r else 95) (string_runes s)) = s"
proof -
  have "byte c < (128::nat) \<and> \<not> IsSpace (byte c)" if "c \<in> set s" for c
    using assms that by (auto simp: name_char_def filename_rune_def IsSpace_def)
  then show "TrimSpace s = s" by (intro TrimSpace_plain) blast
  have asc: "is_ascii s" using assms name_char_ascii by (auto simp: is_ascii_def)
  have "string_runes s = map byte s" using asc by (simp add: string_runes_def runes_is_ascii o_def)
  moreover have "encode_rune (if filename_rune (byte c) then byte c else 95) = [c]"
    if "c \<in> set s" for c
    using assms that filename_rune_encode [of "byte c"] by (auto simp: name_char_def)
  ultimately show "string_of_runes (map (\<lambda>r. if filename_rune r then r else 95) (string_runes s)) = s"
    by (simp only: string_of_runes_def map_map) (rule concat_map_single, simp)
qed

text \<open>The name of a title that has a full stop at its hundredth place loses its extension.\<close>

lemma truncated_extension:
  "safeFilename (replicate 99 (CHR ''a'') @ ''.b'') jid = replicate 99 (CHR ''a'') @ ''__pdf''"
proof -
  let ?t = "replicate 99 (CHR ''a'') @ ''.b''"
  have chars: "\<forall>c \<in> set ?t. name_char c \<and> byte c \<noteq> (32::nat)"
    by (auto simp: name_char_def filename_rune_def)
  note plain = plain_title [OF chars]
  have "dropWhile (\<lambda>c. c \<in> set ''.'') ?t = ?t" by (subst dropWhile_eq_self_iff) simp
  then have "Trim ?t ''.'' = ?t" by (simp add: Trim_def)
  moreover have "is_ascii ?t" by (auto simp: is_ascii_def)
  then have "truncateRunes ?t 100 = take 100 ?t" using truncateRunes_ascii [of ?t 100] by simp
  then have "truncateRunes ?t 100 = replicate 99 (CHR ''a'') @ ''.''" by simp
  ultimately show ?thesis
    using no_dots_replicate [of 99 "''..pdf''"]
    by (simp add: safeFilename_def plain Let_def filenameWithoutParentTraversal_def)
      (simp add: no_dots_Cons HasPrefix_two)
qed

end
