(* ===== verification/Archive_Properties.thy ===== *)
theory Archive_Properties
  imports Filenames Memory_Properties
begin

section \<open>Properties of the archive and of the sanitizer\<close>

text \<open>
  The claims about \<open>internal/application/archive.go\<close> and \<open>internal/sanitize\<close>, on the
  in-memory job and artifact stores where a store is needed. \<open>plain_html\<close> is the parser and
  renderer of a world in which all markup is text; the witnesses use it.
\<close>

definition plain_html :: html_lib where
  "plain_html = \<lparr>html_ParseFragment = (\<lambda>s. Inr [TextNode s]),
     html_Parse = (\<lambda>s. Inr (TextNode s)),
     html_Render = (\<lambda>n. case n of TextNode d \<Rightarrow> Inr d | _ \<Rightarrow> Inr '''')\<rparr>"

definition ascii_lower :: lower_table where
  "ascii_lower r = r"

definition demo_archive :: archive where
  "demo_archive = \<lparr>arc_defaultProfile = ''a5'', arc_profiles = [''a5''], arc_minContent = 1\<rparr>"

subsection \<open>Sanitizing\<close>

text \<open>
  C7. Whatever the HTML parser makes of an input, what \<open>SanitizeHTML\<close> returns is the
  rendering of inert trees with visible text: only allowed elements, no namespace, attributes
  only from the list of each element and with values of a safe shape (a link is an http or
  https URL, an image is inline base64 data of a bounded size, numbers are bounded, text has
  no control characters), each attribute once and in order, void elements empty.
\<close>

theorem sanitized_html_is_inert:
  assumes "SanitizeHTML ulow lib input = Inr out"
  shows "\<exists>nodes raw. list_all inert nodes \<and> hasSemanticText nodes
    \<and> render_all lib nodes = Inr raw \<and> out = TrimSpace raw"
  using SanitizeHTML_ok [OF assms] .

lemma demo_sanitize: "SanitizeHTML ascii_lower plain_html ''hi'' = Inr ''hi''"
proof -
  have "TrimSpace ''hi'' = ''hi''" by (rule TrimSpace_plain) (simp add: IsSpace_def)
  moreover have "hasVisibleText ''hi''"
    by (simp add: hasVisibleText_def string_runes_def IsSpace_def IsFormat_def)
  ultimately show ?thesis
    by (simp add: SanitizeHTML_def plain_html_def sanitizeChildren_def hasSemanticText_def)
qed

theorem sanitized_html_is_inert_witness:
  "\<exists>nodes raw. list_all inert nodes \<and> hasSemanticText nodes
    \<and> render_all plain_html nodes = Inr raw \<and> ''hi'' = TrimSpace raw"
  by (rule sanitized_html_is_inert [OF demo_sanitize])

text \<open>
  Sanitizing a node never produces a dropped element or an element outside the allow
  list, at any depth, whatever the namespaces, names and attributes of the input.
\<close>

theorem sanitizer_allow_list:
  "list_all inert (sanitizeNode ulow n)"
  by (rule sanitizeNode_inert)

subsection \<open>Cursors and pagination\<close>

text \<open>
  A cursor decodes to the position it was made from, for every job id that is not empty
  and every instant a 64-bit count of nanoseconds can hold.
\<close>

theorem cursor_roundtrip:
  assumes "cur_ID p \<noteq> ''''" and "min_int64 \<le> cur_CreatedAt p" and "cur_CreatedAt p \<le> max_int64"
  shows "decodeCursor (encodeCursor p) = Some p"
  by (rule decode_encode_cursor) (use assms in \<open>simp add: addressable_def\<close>)

theorem cursor_roundtrip_witness:
  "decodeCursor (encodeCursor (CursorPosition 1700000000000000000 ''job:1''))
     = Some (CursorPosition 1700000000000000000 ''job:1'')"
  by (rule cursor_roundtrip) (simp_all add: min_int64_def max_int64_def)

text \<open>
  C8. A client that lists the archive and follows \<open>NextCursor\<close> until it is empty, with any
  legal limit and any legal status filter, sees the summary of every matching job exactly
  once, newest first, and the walk ends.
\<close>

theorem browsing_is_complete:
  assumes "archive_inv s" and "contextErr c = None" and "1 \<le> limit" and "limit \<le> 100"
    and "status_name_ok st" and "card (dom (st_jobs s)) < n"
  shows "\<exists>js. browse mem_archive c limit st s n '''' = Some (map summarize js) \<and> distinct js
    \<and> sorted_wrt list_less js
    \<and> set js = {j. (\<exists>k. st_jobs s k = Some j)
                 \<and> (case requested_status st of None \<Rightarrow> True | Some x \<Rightarrow> job_Status j = x)}"
proof -
  note wf = archive_inv_facts [OF assms(1)]
  let ?js = "listing (requested_status st) (job_keys s) s"
  have "length ?js \<le> length (job_keys s)" by (rule length_listing)
  also have "\<dots> = card (dom (st_jobs s))"
    using wf(2) distinct_card unfolding enumerates_def by metis
  finally have "browse mem_archive c limit st s n '''' = Some (map summarize ?js)"
    using assms by (intro arc.browse_all) auto
  moreover have "set ?js = {j. (\<exists>k. st_jobs s k = Some j)
                 \<and> (case requested_status st of None \<Rightarrow> True | Some x \<Rightarrow> job_Status j = x)}"
    using set_listing [OF wf(2)] by (auto simp: has_status_def split: option.splits)
  ultimately show ?thesis using descending_facts [OF descending_listing [OF wf]] by blast
qed

lemma demo_pair_archive: "archive_inv demo_pair" "card (dom (st_jobs demo_pair)) < 3"
  by (auto simp: demo_pair_def NewStore_def archive_inv_def mem_inv_def store_wf_def
      addressable_def min_int64_def max_int64_def)
    (simp_all add: demo_leased_def lease_job_def new_job_def)

theorem browsing_is_complete_witness:
  "\<exists>js. browse mem_archive live 1 '''' demo_pair 3 '''' = Some (map summarize js) \<and> distinct js"
  using browsing_is_complete [OF demo_pair_archive(1) contextErr_live, of 1 "''''" 3]
    demo_pair_archive(2)
  by (auto simp: status_name_ok_def)

subsection \<open>Errors and privacy\<close>

text \<open>
  C9. Every error of every operation of the archive, whatever the job store and the artifact
  store behind it do, is one of the fixed public errors: code, HTTP status and message come
  from a constant table and carry nothing of the cause.
\<close>

theorem archive_errors_are_public:
  "(SubmitURL sha256 a ops c request key newID now s = (Inl e, s') \<longrightarrow> public_error e)
   \<and> (ListJobs ops c lrequest s = Inl e \<longrightarrow> public_error e)
   \<and> (GetJob ops c jid s = Inl e \<longrightarrow> public_error e)
   \<and> (OpenArtifact ops aops c jid s files = Inl e \<longrightarrow> public_error e)
   \<and> (RetryJob ops c jid newID now s = (Inl e, s') \<longrightarrow> public_error e)
   \<and> (DeleteJob ops aops c jid now s files = (Some e, s', files') \<longrightarrow> public_error e)"
  by (intro conjI impI) (erule SubmitURL_error ListJobs_error GetJob_error OpenArtifact_error
      RetryJob_error DeleteJob_error)+

theorem archive_errors_are_public_witness:
  "public_error (NewSafeError ''not_found'' 404 ''Job was not found'')"
proof -
  have "TrimSpace ''x'' = ''x''" by (rule TrimSpace_plain) (simp add: IsSpace_def)
  then have "GetJob mem_archive live ''x'' NewStore
      = Inl (NewSafeError ''not_found'' 404 ''Job was not found'')"
    by (simp add: GetJob_def Get_def NewStore_def mapStoreError_def)
  then show ?thesis
    using archive_errors_are_public [of id demo_archive mem_archive live undefined "''k''" "''n''" 0
        NewStore "NewSafeError ''not_found'' 404 ''Job was not found''" NewStore undefined "''x''"
        "artifact_mem id" Map.empty Map.empty]
    by simp
qed

text \<open>
  C10. A redacted URL does not depend on the user name, the password, the values of the query
  or the fragment: two URLs that agree in scheme, host, path and the set of query keys are
  redacted to the same string.
\<close>

theorem redaction_hides_secrets:
  assumes "raw \<noteq> ''''" and "raw' \<noteq> ''''" and "url_Parse raw = Some u" and "url_Parse raw' = Some v"
    and "url_skeleton u = url_skeleton v"
  shows "redactURL raw = redactURL raw'"
  using assms(5) unfolding redactURL_parsed [OF assms(1,3)] redactURL_parsed [OF assms(2,4)]
  by (intro url_String_cong) (auto simp: url_skeleton_def)

theorem redaction_hides_secrets_witness:
  "redactURL ''//h/p#a'' = redactURL ''//h/p#b''"
proof -
  have "url_Parse ''//h/p#a'' = Some (zero_url\<lparr>u_Host := ''h'', u_Path := ''/p'', u_Fragment := ''a''\<rparr>)"
    and "url_Parse ''//h/p#b'' = Some (zero_url\<lparr>u_Host := ''h'', u_Path := ''/p'', u_Fragment := ''b''\<rparr>)"
    by (simp_all add: url_Parse_def url_parse_main_def parse_query_def parse_hierarchy_def cut_or_def
        getScheme_def is_ctl_def is_letter_def is_digit_def HasPrefix_def HasSuffix_def
        parseAuthority_def parseHost_def setPath_def setFragment_def shouldEscape_def is_alnum_def
        escape_def escape_char_def zero_url_def Let_def)
  then show ?thesis
    by (rule redaction_hides_secrets [rotated 2]) (simp_all add: url_skeleton_def)
qed

subsection \<open>Submission and deletion\<close>

text \<open>
  What a successful submission hands to the store is normalised: the URL begins with
  http:// or https://, the title and the idempotency key are within their limits, the profile
  is a configured one, and the digest is that of exactly these three.
\<close>

theorem submission_is_normalised:
  assumes "SubmitURL sha256 a ops c request key newID now s = (Inr accepted, s')"
  shows "\<exists>cmd out. as_CreateOrReuse ops c cmd s = (out, None, s')
    \<and> accepted = acceptedJob (out_Job out) \<and> cj_ID cmd = newID \<and> cj_CreatedAt cmd = now
    \<and> web_url (sub_URL (cj_Request cmd)) \<and> length (sub_Title (cj_Request cmd)) \<le> 500
    \<and> sub_Profile (cj_Request cmd) \<in> set (arc_profiles a)
    \<and> length (cj_IdempotencyKey cmd) \<le> 255
    \<and> cj_RequestDigest cmd = request_digest sha256 (sub_URL (cj_Request cmd))
        (sub_Title (cj_Request cmd)) (sub_Profile (cj_Request cmd))"
proof (rule SubmitURL_ok [OF assms])
  fix n out
  assume n: "normalizeSubmit sha256 a request key = Inr n"
    and "as_CreateOrReuse ops c \<lparr>cj_ID = newID, cj_Request = ns_request n, cj_CreatedAt = now,
           cj_IdempotencyKey = ns_idempotencyKey n, cj_RequestDigest = ns_digest n\<rparr> s
         = (out, None, s')"
    and "\<not> out_Conflict out" and "accepted = acceptedJob (out_Job out)"
  then show ?thesis using normalizeSubmit_ok [OF n]
    by (intro exI conjI) (assumption | simp add: maxTitleLength_def maxIdempotencyLength_def)+
qed

lemma demo_normalize:
  "normalize_url ''http://h'' = Inr ''http://h''"
proof -
  have "TrimSpace ''http://h'' = ''http://h''" by (rule TrimSpace_plain) (simp add: IsSpace_def)
  then show ?thesis
    by (simp add: normalize_url_def maxURLLength_def url_Parse_def url_parse_main_def
        parse_query_def parse_hierarchy_def cut_or_def getScheme_def is_ctl_def is_letter_def
        is_digit_def HasPrefix_def HasSuffix_def parseAuthority_def parseHost_def setPath_def
        shouldEscape_def is_alnum_def escape_def escape_char_def zero_url_def Let_def lower_byte_def
        Hostname_def splitHostPort_def url_String_def url_body_def authority_String_def
        EscapedPath_def)
qed

lemma demo_submit:
  "SubmitURL id demo_archive mem_archive live
     \<lparr>sub_URL = ''http://h'', sub_Title = '''', sub_Profile = ''''\<rparr> '''' ''n'' 100 NewStore
   = (Inr \<lparr>acc_ID = ''n'', acc_Status = StatusQueued, acc_CreatedAt = 100,
          acc_Self = ''/api/v1/jobs/n''\<rparr>,
      snd (SubmitURL id demo_archive mem_archive live
        \<lparr>sub_URL = ''http://h'', sub_Title = '''', sub_Profile = ''''\<rparr> '''' ''n'' 100 NewStore))"
  by (simp add: SubmitURL_def normalizeSubmit_def demo_normalize demo_archive_def maxTitleLength_def
      maxProfileLength_def maxIdempotencyLength_def Let_def CreateOrReuse_def insert_job_def
      acceptedJob_def new_job_def)

theorem submission_is_normalised_witness:
  "\<exists>cmd :: create_job. web_url (sub_URL (cj_Request cmd)) \<and> cj_ID cmd = ''n''"
  using submission_is_normalised [OF demo_submit]
  by (elim exE conjE) (intro exI conjI; assumption)

text \<open>
  After a deletion succeeded, whether or not the job existed, the job cannot be looked up
  again, and no other job was touched.
\<close>

theorem deleted_job_is_gone:
  assumes "contextErr c = None" and "contextErr c' = None" and "TrimSpace jid \<noteq> ''''"
    and "DeleteJob mem_archive aops c jid now s files = (None, s', files')"
  shows "GetJob mem_archive c' jid s' = Inl (NewSafeError ''not_found'' 404 ''Job was not found'')
    \<and> st_jobs s' jid = None \<and> (\<forall>k. k \<noteq> jid \<longrightarrow> st_jobs s' k = st_jobs s k)"
  using arc.GetJob_deleted [OF assms] by simp

theorem deleted_job_is_gone_witness:
  "\<exists>s' files'. DeleteJob mem_archive (artifact_mem id) live ''a'' 200 demo_store Map.empty
      = (None, s', files') \<and> st_jobs s' ''a'' = None"
proof -
  have t: "TrimSpace ''a'' \<noteq> ''''"
    by (subst TrimSpace_plain) (simp_all add: IsSpace_def)
  have "\<exists>s' files'. DeleteJob mem_archive (artifact_mem id) live ''a'' 200 demo_store Map.empty
      = (None, s', files')"
    using t by (simp add: DeleteJob_def Get_def RequestDelete_def new_job_def zero_job_def)
  then obtain s' files' where d: "DeleteJob mem_archive (artifact_mem id) live ''a'' 200 demo_store
      Map.empty = (None, s', files')" by blast
  show ?thesis
    using d deleted_job_is_gone [OF contextErr_live contextErr_live t d] by blast
qed

subsection \<open>File names\<close>

text \<open>
  The file name of an artifact is made of letters, digits, dashes, underscores, spaces and
  full stops, has no parent component and no separator, and the artifact store accepts it: for
  any proposed name and title, storing a PDF under it in the in-memory store succeeds.
\<close>

theorem artifact_name_is_safe:
  assumes "\<forall>i \<in> set jid. name_char i" and "contextErr c = None" and "pdf \<noteq> ''''"
  shows "\<not> Contains (sanitizeFilename ulow value title jid) ''..''
    \<and> (\<forall>i \<in> set (sanitizeFilename ulow value title jid). name_char i)
    \<and> (\<exists>a files'. Artifact_Put sha256 c jid (sanitizeFilename ulow value title jid) pdf now files
         = (Inr a, files'))"
proof -
  note good = sanitizeFilename_good [of jid ulow "value" title]
  have "\<not> unsafe_name (TrimSpace (sanitizeFilename ulow value title jid))"
    by (rule good_name_accepted [OF good assms(1)])
  then show ?thesis
    using good assms by (auto simp: good_name_def Artifact_Put_def Let_def)
qed

theorem artifact_name_is_safe_witness:
  "\<not> Contains (sanitizeFilename ascii_lower ''../../etc/passwd'' ''t'' ''a1'') ''..''"
  using artifact_name_is_safe [of "''a1''" live "''%PDF''" ascii_lower "''../../etc/passwd''" "''t''"]
  by (simp add: name_char_def filename_rune_def)

text \<open>
  A title that is cut behind a full stop loses the extension of its file name: the
  hundred-rune limit is applied before the extension is appended and the dots are replaced.
\<close>

theorem long_title_loses_extension:
  "safeFilename (replicate 99 (CHR ''a'') @ ''.b'') jid = replicate 99 (CHR ''a'') @ ''__pdf''
   \<and> \<not> HasSuffix (safeFilename (replicate 99 (CHR ''a'') @ ''.b'') jid) ''.pdf''"
  by (simp add: truncated_extension HasSuffix_def)

subsection \<open>Approval\<close>

text \<open>
  An article is approved only if the AI classified it as an article, it has a title and
  at least the configured number of readable characters, neither confidence is below 0 or
  above 1, its attempt is recorded, and its body is an output of the sanitizer; every refusal
  is a failure that is not retried.
\<close>

theorem approval_is_sound:
  "(approveArticle ulow lib a draft = Inr ap \<longrightarrow>
      app_valid ap \<and> draft_Classification (app_draft ap) = ''article''
      \<and> draft_Title (app_draft ap) \<noteq> ''''
      \<and> arc_minContent a \<le> int (RuneCountInString (draft_PlainText (app_draft ap)))
      \<and> \<not> outside_unit (draft_AIConfidence (app_draft ap))
      \<and> \<not> outside_unit (draft_AICompleteness (app_draft ap))
      \<and> draft_AIAttemptID (app_draft ap) \<noteq> ''''
      \<and> (\<exists>input. SanitizeHTML ulow lib input = Inr (draft_SemanticHTML (app_draft ap))))
   \<and> (approveArticle ulow lib a draft = Inl e \<longrightarrow>
      (\<exists>category m. errors_As_ProcessingError e = Some (category, m, False)
         \<and> Normalized (category_of_string category) = category_of_string category))"
proof (rule conjI; rule impI)
  assume "approveArticle ulow lib a draft = Inl e"
  then obtain category m where e: "e = NewProcessingError category m False"
    and c: "category \<in> {category_string FailureUnsupportedContent,
      category_string FailureInsufficientContent, category_string FailureAIInvalidResponse}"
    using approveArticle_error by blast
  have "Normalized (category_of_string category) = category_of_string category"
    using c by (elim insertE emptyE) (simp_all add: category_of_string_def category_constants_def
        Normalized_def)
  then show "\<exists>category m. errors_As_ProcessingError e = Some (category, m, False)
       \<and> Normalized (category_of_string category) = category_of_string category"
    by (simp add: e NewProcessingError_def)
next
  assume "approveArticle ulow lib a draft = Inr ap"
  note ok = approveArticle_ok [OF this]
  show "app_valid ap \<and> draft_Classification (app_draft ap) = ''article''
      \<and> draft_Title (app_draft ap) \<noteq> ''''
      \<and> arc_minContent a \<le> int (RuneCountInString (draft_PlainText (app_draft ap)))
      \<and> \<not> outside_unit (draft_AIConfidence (app_draft ap))
      \<and> \<not> outside_unit (draft_AICompleteness (app_draft ap))
      \<and> draft_AIAttemptID (app_draft ap) \<noteq> ''''
      \<and> (\<exists>input. SanitizeHTML ulow lib input = Inr (draft_SemanticHTML (app_draft ap)))"
    by (intro conjI ok)
qed

theorem approval_is_sound_witness:
  "\<exists>ap. approveArticle ascii_lower plain_html demo_archive
     (zero_draft\<lparr>draft_Classification := ''article'', draft_Decision := ''accept_candidate'',
        draft_Title := ''t'', draft_PlainText := ''hi'', draft_SemanticHTML := ''hi'',
        draft_AIAttemptID := ''x''\<rparr>) = Inr ap \<and> app_valid ap"
proof -
  let ?d = "zero_draft\<lparr>draft_Classification := ''article'', draft_Decision := ''accept_candidate'',
        draft_Title := ''t'', draft_PlainText := ''hi'', draft_SemanticHTML := ''hi'',
        draft_AIAttemptID := ''x''\<rparr>"
  have trim: "TrimSpace ''t'' = ''t''" "TrimSpace ''hi'' = ''hi''" "TrimSpace ''x'' = ''x''"
    by (rule TrimSpace_plain, simp add: IsSpace_def)+
  have "\<exists>ap. approveArticle ascii_lower plain_html demo_archive ?d = Inr ap"
    by (simp add: approveArticle_def Let_def trim demo_sanitize demo_archive_def zero_draft_def
        outside_unit_def RuneCountInString_def)
  then obtain ap where ap: "approveArticle ascii_lower plain_html demo_archive ?d = Inr ap" by blast
  then show ?thesis
    using approval_is_sound [of ascii_lower plain_html demo_archive ?d ap undefined] by blast
qed

end
