(* ===== verification/Worker.thy ===== *)
theory Worker
  imports Archive
begin

section \<open>The worker\<close>

text \<open>
  \<open>internal/application/worker.go\<close>: one run claims a job, lets the processor work on it while
  a heartbeat renews the lease, and then publishes the result or settles the job.

  The processor is a tree: it is done, or it asks for a stage and goes on with the answer.
  What happens between two of its calls is a schedule: heartbeats of the renewing goroutine,
  and steps of everybody else on the two stores. Every reading of the context and of the
  store's clock is an argument, so all interleavings of the goroutine with the processor and
  all moments of cancellation are schedules.
\<close>

subsection \<open>Processors\<close>

datatype proc =
    ProcDone process_result "error option"
  | ProcSetStage stage "error option \<Rightarrow> proc"

type_synonym processor = "(article_draft \<Rightarrow> error + approved_article) \<Rightarrow> job \<Rightarrow> proc"

definition unavailableProcessor :: processor where
  "unavailableProcessor approve j =
     ProcDone zero_result (Some (NewProcessingError (category_string FailureAIUnavailable)
       ''The AI provider is unavailable'' True))"

subsection \<open>Construction\<close>

definition defaultWorkerLease :: duration where "defaultWorkerLease = 5 * Minute"
definition maxHeartbeatInterval :: duration where "maxHeartbeatInterval = 30 * Second"

record worker_options =
  wo_LeaseDuration :: duration
  wo_HeartbeatInterval :: duration
  wo_PollInterval :: duration
  wo_MaxAttempts :: int
  wo_Processor :: "processor option"

record worker =
  wk_processor :: processor
  wk_approve :: "article_draft \<Rightarrow> error + approved_article"
  wk_lease :: duration
  wk_heartbeat :: duration
  wk_poll :: duration
  wk_maxAttempts :: int

definition boundedHeartbeatInterval :: "duration \<Rightarrow> duration \<Rightarrow> duration" where
  "boundedHeartbeatInterval leaseDuration requested =
     (let leaseDuration = (if leaseDuration \<le> 0 then defaultWorkerLease else leaseDuration);
          requested = (if requested \<le> 0 then leaseDuration div 3 else requested);
          requested = (if requested \<le> 0 then 1 else requested);
          requested = (if maxHeartbeatInterval < requested then maxHeartbeatInterval
                       else requested)
      in if leaseDuration \<le> requested
         then (let half = leaseDuration div 2 in if half \<le> 0 then 1 else half)
         else requested)"

text \<open>The archive brings its processor, its approval and its clock; the clock is the argument
  \<open>now\<close> of the runs.\<close>

definition NewWorker ::
  "lower_table \<Rightarrow> html_lib \<Rightarrow> (archive \<times> processor) option \<Rightarrow> worker_options \<Rightarrow> error + worker" where
  "NewWorker ulow lib archive options =
     (case archive of
        None \<Rightarrow> Inl (NewSafeError ''invalid_configuration'' 500 ''Job archive is not configured'')
      | Some (a, archiveProcessor) \<Rightarrow>
          (let leaseDuration = (if wo_LeaseDuration options \<le> 0 then defaultWorkerLease
                                else wo_LeaseDuration options)
           in Inr \<lparr>wk_processor = (case wo_Processor options of
                     None \<Rightarrow> archiveProcessor | Some p \<Rightarrow> p),
                   wk_approve = approveArticle ulow lib a,
                   wk_lease = leaseDuration,
                   wk_heartbeat = boundedHeartbeatInterval leaseDuration
                     (wo_HeartbeatInterval options),
                   wk_poll = (if wo_PollInterval options \<le> 0 then Second
                              else wo_PollInterval options),
                   wk_maxAttempts = (if wo_MaxAttempts options \<le> 0 then 3
                                     else wo_MaxAttempts options)\<rparr>))"

subsection \<open>Heartbeats\<close>

text \<open>The renewing goroutine is running, or it has reported nil or an error.\<close>

datatype heartbeat = Beating | Stopped "error option"

record ('s, 'a) run_state =
  rs_lease :: "lease option"
  rs_jobs :: 's
  rs_files :: 'a
  rs_beat :: heartbeat

text \<open>The processing context: cancelled by its parent, or by the heartbeat that failed.\<close>

definition process_ctx :: "('s, 'a) run_state \<Rightarrow> error option \<Rightarrow> ctx" where
  "process_ctx st parent =
     (case parent of
        Some e \<Rightarrow> Context (Some e)
      | None \<Rightarrow> (case rs_beat st of Stopped (Some e) \<Rightarrow> Context (Some Canceled) | _ \<Rightarrow> Context None))"

text \<open>
  The timer fires: the readings are the parent context at the call, the store's clock and the
  parent context after the call. \<open>Others\<close> is a step of the rest of the program.
\<close>

datatype ('s, 'a) tick =
    Beat "error option" time "error option"
  | Others "'s \<times> 'a \<Rightarrow> 's \<times> 'a"

definition renew ::
  "'s job_store_ops \<Rightarrow> duration \<Rightarrow> error option \<Rightarrow> time \<Rightarrow> error option
     \<Rightarrow> ('s, 'a) run_state \<Rightarrow> ('s, 'a) run_state" where
  "renew ops d parent clock after st =
     (case rs_beat st of
        Stopped r \<Rightarrow> st
      | Beating \<Rightarrow>
          (case op_RenewLease ops (process_ctx st parent) clock (rs_lease st) d (rs_jobs st) of
             (None, lo, s') \<Rightarrow> st\<lparr>rs_lease := lo, rs_jobs := s'\<rparr>
           | (Some e, lo, s') \<Rightarrow>
               st\<lparr>rs_lease := lo, rs_jobs := s',
                  rs_beat := Stopped (if after \<noteq> None then None else Some e)\<rparr>))"

definition others :: "('s \<times> 'a \<Rightarrow> 's \<times> 'a) \<Rightarrow> ('s, 'a) run_state \<Rightarrow> ('s, 'a) run_state" where
  "others f st = (case f (rs_jobs st, rs_files st) of (s, a) \<Rightarrow> st\<lparr>rs_jobs := s, rs_files := a\<rparr>)"

fun on_tick ::
  "'s job_store_ops \<Rightarrow> duration \<Rightarrow> ('s, 'a) tick \<Rightarrow> ('s, 'a) run_state \<Rightarrow> ('s, 'a) run_state" where
  "on_tick ops d (Beat parent clock after) st = renew ops d parent clock after st"
| "on_tick ops d (Others f) st = others f st"

text \<open>\<open>SetStage\<close> of the processor context, under the lease mutex.\<close>

definition ask_stage ::
  "'s job_store_ops \<Rightarrow> error option \<Rightarrow> time \<Rightarrow> stage \<Rightarrow> ('s, 'a) run_state
     \<Rightarrow> error option \<times> ('s, 'a) run_state" where
  "ask_stage ops parent clock stage st =
     (case op_SetStage ops (process_ctx st parent) clock (rs_lease st) stage (rs_jobs st) of
        (oe, lo, s') \<Rightarrow> (oe, st\<lparr>rs_lease := lo, rs_jobs := s'\<rparr>))"

text \<open>
  The processor under a schedule: the ticks before its \<open>n\<close>-th call and the readings of that
  call. The ticks at the end are those up to the reception of the heartbeat's report.
\<close>

type_synonym ('s, 'a) schedule = "nat \<Rightarrow> ('s, 'a) tick list \<times> error option \<times> time"

primrec run_process ::
  "'s job_store_ops \<Rightarrow> duration \<Rightarrow> ('s, 'a) schedule \<Rightarrow> proc \<Rightarrow> nat \<Rightarrow> ('s, 'a) run_state
     \<Rightarrow> process_result \<times> error option \<times> ('s, 'a) run_state" where
  "run_process ops d sch (ProcDone r e) =
     (\<lambda>n st. (r, e, fold (on_tick ops d) (fst (sch n)) st))"
| "run_process ops d sch (ProcSetStage stage k) =
     (\<lambda>n st. let (ticks, parent, clock) = sch n;
                 (oe, st') = ask_stage ops parent clock stage (fold (on_tick ops d) ticks st)
             in run_process ops d sch (k oe) (Suc n) st')"

subsection \<open>Settling\<close>

text \<open>The heartbeat's error decides over the processor's where the lease is lost, or where the
  processor reports success or only that it was cancelled.\<close>

definition cancellation :: "error \<Rightarrow> bool" where
  "cancellation e \<longleftrightarrow> errors_Is e Canceled \<or> errors_Is e DeadlineExceeded"

definition process_error :: "heartbeat \<Rightarrow> error option \<Rightarrow> error option" where
  "process_error beat processErr =
     (case beat of
        Stopped (Some h) \<Rightarrow>
          (if errors_Is h ErrLeaseLost then Some h
           else case processErr of
                  None \<Rightarrow> Some (NewProcessingError (category_string FailureStorageFailed)
                            ''The processing lease could not be renewed'' True)
                | Some e \<Rightarrow>
                    if cancellation e
                    then Some (NewProcessingError (category_string FailureStorageFailed)
                           ''The processing lease could not be renewed'' True)
                    else processErr)
      | _ \<Rightarrow> processErr)"

text \<open>The readings of a run: the clock of the worker, the context at each call and the clock
  of the store, the random identifiers, and what the others do before each call.\<close>

datatype call_site = BeforeStage | BeforePut | BeforeComplete | BeforeDelete | BeforeSettle

record ('s, 'a) run_env =
  re_now :: time
  re_claim :: "error option"
  re_schedule :: "('s, 'a) schedule"
  re_ctx :: "call_site \<Rightarrow> error option"
  re_clock :: "call_site \<Rightarrow> time"
  re_others :: "call_site \<Rightarrow> 's \<times> 'a \<Rightarrow> 's \<times> 'a"
  re_contentID :: content_id
  re_correlation :: string

abbreviation site_ctx :: "('s, 'a) run_env \<Rightarrow> call_site \<Rightarrow> ctx" where
  "site_ctx env site \<equiv> Context (re_ctx env site)"

definition failure_of :: "error \<Rightarrow> string \<Rightarrow> time \<Rightarrow> failure \<times> bool" where
  "failure_of processErr correlation now =
     (let (category, retryable) =
            (case errors_As_ProcessingError processErr of
               Some (category, _, retryable) \<Rightarrow> (category, retryable)
             | None \<Rightarrow> (category_string FailureInternalError, False));
          safeCategory = Normalized (category_of_string category)
      in (\<lparr>fail_Category = safeCategory, fail_Message = Message safeCategory,
           fail_CorrelationID = correlation, fail_OccurredAt = now\<rparr>, retryable))"

definition backoff :: "int \<Rightarrow> duration" where
  "backoff attempts = wrap64 (wrap64 (attempts * 250) * Millisecond)"

definition handleProcessingError ::
  "'s job_store_ops \<Rightarrow> worker \<Rightarrow> ('s, 'a) run_env \<Rightarrow> error \<Rightarrow> ('s, 'a) run_state
     \<Rightarrow> error option \<times> ('s, 'a) run_state" where
  "handleProcessingError ops w env processErr st =
     (let st = others (re_others env BeforeSettle) st
      in case rs_lease st of
           None \<Rightarrow> (Some ErrLeaseLost, st)
         | Some l \<Rightarrow>
             (let (failure, retryable) = failure_of processErr (re_correlation env) (re_now env);
                  attempts = job_AttemptCount (lease_Job l);
                  c = site_ctx env BeforeSettle; clock = re_clock env BeforeSettle;
                  (oe, lo, s') =
                    (if retryable \<and> attempts < wk_maxAttempts w
                     then op_Requeue ops c clock (Some l) failure (re_now env + backoff attempts)
                            (rs_jobs st)
                     else op_Fail ops c clock (Some l) failure (re_now env) (rs_jobs st))
              in (oe, st\<lparr>rs_lease := lo, rs_jobs := s'\<rparr>)))"

subsection \<open>Publication\<close>

text \<open>A lease that is lost ends the run quietly: another worker owns the job.\<close>

definition unless_lost :: "error \<Rightarrow> error option" where
  "unless_lost e = (if errors_Is e ErrLeaseLost then None else Some e)"

definition lease_job_of :: "lease option \<Rightarrow> job" where
  "lease_job_of lo = (case lo of None \<Rightarrow> zero_job | Some l \<Rightarrow> lease_Job l)"

definition remove_artifact ::
  "'a artifact_ops \<Rightarrow> ('s, 'a) run_env \<Rightarrow> artifact \<Rightarrow> ('s, 'a) run_state \<Rightarrow> ('s, 'a) run_state" where
  "remove_artifact aops env artifact st =
     (let st = others (re_others env BeforeDelete) st
      in st\<lparr>rs_files := snd (ao_Delete aops (site_ctx env BeforeDelete) artifact (rs_files st))\<rparr>)"

text \<open>The end of a run whose artifact is stored: the commit of the article, and what is undone
  when it is refused.\<close>

definition commit_article ::
  "'s job_store_ops \<Rightarrow> 'a artifact_ops \<Rightarrow> worker \<Rightarrow> ('s, 'a) run_env \<Rightarrow> process_result \<Rightarrow> artifact
     \<Rightarrow> ('s, 'a) run_state \<Rightarrow> error option \<times> ('s, 'a) run_state" where
  "commit_article ops aops w env result artifact st =
     (case article_content (res_Article result)
             ((lease_job_of (rs_lease st))\<lparr>job_CanonicalURL := res_CanonicalURL result\<rparr>)
             (re_contentID env) (re_now env) of
        None \<Rightarrow>
          handleProcessingError ops w env
            (NewProcessingError (category_string FailureAIInvalidResponse)
               ''The processor returned invalid article content'' False)
            (remove_artifact aops env artifact st)
      | Some content \<Rightarrow>
          (let st = others (re_others env BeforeComplete) st
           in case op_Complete ops (site_ctx env BeforeComplete) (re_clock env BeforeComplete)
                     (rs_lease st)
                     \<lparr>cmp_Content = content, cmp_Artifact = artifact,
                      cmp_CanonicalURL = res_CanonicalURL result\<rparr> (re_now env) (rs_jobs st) of
                (None, lo, s') \<Rightarrow> (None, st\<lparr>rs_lease := lo, rs_jobs := s'\<rparr>)
              | (Some e, lo, s') \<Rightarrow>
                  (let st = remove_artifact aops env artifact (st\<lparr>rs_lease := lo, rs_jobs := s'\<rparr>)
                   in if cancellation e then (Some e, st)
                      else
                        (let (handled, st) = handleProcessingError ops w env
                               (NewProcessingError (category_string FailureStorageFailed)
                                  ''The completed article could not be committed'' True) st
                         in (case handled of None \<Rightarrow> None | Some h \<Rightarrow> unless_lost h, st)))))"

definition publish ::
  "lower_table \<Rightarrow> 's job_store_ops \<Rightarrow> 'a artifact_ops \<Rightarrow> worker \<Rightarrow> ('s, 'a) run_env
     \<Rightarrow> process_result \<Rightarrow> ('s, 'a) run_state \<Rightarrow> error option \<times> ('s, 'a) run_state" where
  "publish ulow ops aops w env result st =
     (let st = others (re_others env BeforeStage) st
      in case op_SetStage ops (site_ctx env BeforeStage) (re_clock env BeforeStage) (rs_lease st)
                StagePersisting (rs_jobs st) of
           (Some e, lo, s') \<Rightarrow> (unless_lost e, st\<lparr>rs_lease := lo, rs_jobs := s'\<rparr>)
         | (None, lo, s') \<Rightarrow>
             (let st = others (re_others env BeforePut) (st\<lparr>rs_lease := lo, rs_jobs := s'\<rparr>);
                  jid = job_ID (lease_job_of (rs_lease st));
                  filename = sanitizeFilename ulow (res_Filename result)
                    (draft_Title (app_draft (res_Article result))) jid
              in case ao_Put aops (site_ctx env BeforePut) jid filename (res_PDF result)
                        (re_now env) (rs_files st) of
                   (Inl e, files) \<Rightarrow>
                     handleProcessingError ops w env
                       (NewProcessingError (category_string FailureStorageFailed)
                          ''Artifact storage is unavailable'' True) (st\<lparr>rs_files := files\<rparr>)
                 | (Inr artifact, files) \<Rightarrow>
                     commit_article ops aops w env result artifact (st\<lparr>rs_files := files\<rparr>)))"

subsection \<open>Runs\<close>

text \<open>What follows the processor.\<close>

definition finish_run ::
  "lower_table \<Rightarrow> 's job_store_ops \<Rightarrow> 'a artifact_ops \<Rightarrow> worker \<Rightarrow> ('s, 'a) run_env
     \<Rightarrow> process_result \<times> error option \<times> ('s, 'a) run_state
     \<Rightarrow> error option \<times> ('s, 'a) run_state" where
  "finish_run ulow ops aops w env outcome =
     (let (result, processErr, st) = outcome
      in case process_error (rs_beat st) processErr of
           Some e \<Rightarrow>
             (if errors_Is e ErrLeaseLost then (None, st)
              else handleProcessingError ops w env e st)
         | None \<Rightarrow>
             (if \<not> app_valid (res_Article result)
              then handleProcessingError ops w env
                     (NewProcessingError (category_string FailureAIInvalidResponse)
                        ''The processor did not return approved content'' False) st
              else if res_PDF result = ''''
              then handleProcessingError ops w env
                     (NewProcessingError (category_string FailureFormatFailed)
                        ''The processor did not return a PDF'' False) st
              else publish ulow ops aops w env result st))"

definition claimed_state :: "lease \<Rightarrow> 's \<Rightarrow> 'a \<Rightarrow> ('s, 'a) run_state" where
  "claimed_state l s files =
     \<lparr>rs_lease = Some l, rs_jobs = s, rs_files = files, rs_beat = Beating\<rparr>"

definition RunOnce ::
  "lower_table \<Rightarrow> 's job_store_ops \<Rightarrow> 'a artifact_ops \<Rightarrow> worker \<Rightarrow> ('s, 'a) run_env \<Rightarrow> 's \<Rightarrow> 'a
     \<Rightarrow> (bool \<times> error option) \<times> 's \<times> 'a" where
  "RunOnce ulow ops aops w env s files =
     (case op_ClaimNext ops (Context (re_claim env)) (re_now env) (wk_lease w) s of
        (Inl e, s') \<Rightarrow> ((False, Some e), s', files)
      | (Inr None, s') \<Rightarrow> ((False, None), s', files)
      | (Inr (Some l), s') \<Rightarrow>
          (let (oe, st) = finish_run ulow ops aops w env
                 (run_process ops (wk_lease w) (re_schedule env)
                    (wk_processor w (wk_approve w) (lease_Job l)) 0 (claimed_state l s' files))
           in ((True, oe), rs_jobs st, rs_files st)))"

text \<open>
  \<open>Run\<close> over a list of rounds: the readings of one run, the context after it, and whether the
  context ended the wait for the next poll. Without an error the loop is still going when the
  rounds are used up.
\<close>

type_synonym ('s, 'a) round = "('s, 'a) run_env \<times> error option \<times> error option"

definition stops_loop :: "error option \<Rightarrow> error option \<Rightarrow> error option \<Rightarrow> error option" where
  "stops_loop err after waited =
     (case err of
        Some e \<Rightarrow> if cancellation e then (if after = None then waited else after) else Some e
      | None \<Rightarrow> if after = None then waited else after)"

fun Run ::
  "lower_table \<Rightarrow> 's job_store_ops \<Rightarrow> 'a artifact_ops \<Rightarrow> worker \<Rightarrow> ('s, 'a) round list \<Rightarrow> 's \<Rightarrow> 'a
     \<Rightarrow> error option \<times> 's \<times> 'a" where
  "Run ulow ops aops w [] s files = (None, s, files)"
| "Run ulow ops aops w ((env, after, waited) # rounds) s files =
     (case RunOnce ulow ops aops w env s files of
        ((_, err), s', files') \<Rightarrow>
          (case stops_loop err after waited of
             Some e \<Rightarrow> (Some e, s', files')
           | None \<Rightarrow> Run ulow ops aops w rounds s' files'))"

end
