(* ===== verification/Worker_Facts.thy ===== *)
theory Worker_Facts
  imports Worker Memory_Safety
begin

section \<open>What a run of the worker does\<close>

text \<open>
  The lemmas are proved for every job store and artifact store that keep the contracts of
  \<open>job_store\<close> and \<open>artifact_store\<close>, and hold for the in-memory stores by interpretation.
\<close>

locale worker_seams = job_store ops job_of inv + files: artifact_store aops
  for ops :: "'s job_store_ops" and job_of :: "'s \<Rightarrow> job_id \<Rightarrow> job option" and inv :: "'s \<Rightarrow> bool"
    and aops :: "'a artifact_ops"

text \<open>Steps of others may do anything that keeps the invariant of the store.\<close>

definition rely :: "('s \<Rightarrow> bool) \<Rightarrow> ('s \<times> 'a \<Rightarrow> 's \<times> 'a) \<Rightarrow> bool" where
  "rely ok f \<longleftrightarrow> (\<forall>s a. ok s \<longrightarrow> ok (fst (f (s, a))))"

fun tick_rely :: "('s \<Rightarrow> bool) \<Rightarrow> ('s, 'a) tick \<Rightarrow> bool" where
  "tick_rely ok (Beat _ _ _) = True"
| "tick_rely ok (Others f) = rely ok f"

definition env_rely :: "('s \<Rightarrow> bool) \<Rightarrow> ('s, 'a) run_env \<Rightarrow> bool" where
  "env_rely ok env \<longleftrightarrow> (\<forall>n. list_all (tick_rely ok) (fst (re_schedule env n)))
     \<and> (\<forall>site. rely ok (re_others env site))"

definition holds :: "('s \<Rightarrow> bool) \<Rightarrow> lease \<Rightarrow> ('s, 'a) run_state \<Rightarrow> bool" where
  "holds ok l st \<longleftrightarrow> ok (rs_jobs st) \<and> same_lease l (rs_lease st)"

lemma same_lease_trans: "same_lease l (Some l') \<Longrightarrow> same_lease l' lo \<Longrightarrow> same_lease l lo"
  by (auto simp: same_lease_def)

lemma holdsE:
  assumes "holds ok l st"
  obtains l' where "ok (rs_jobs st)" and "rs_lease st = Some l'" and "same_lease l (Some l')"
  using assms by (auto simp: holds_def same_lease_def)

lemma others_simps [simp]:
  "rs_lease (others f st) = rs_lease st" "rs_beat (others f st) = rs_beat st"
  "rs_jobs (others f st) = fst (f (rs_jobs st, rs_files st))"
  "rs_files (others f st) = snd (f (rs_jobs st, rs_files st))"
  by (simp_all add: others_def split: prod.splits)

lemma others_id [simp]: "others id st = st"
  by (simp add: others_def)

lemma holds_others: "holds ok l st \<Longrightarrow> rely ok f \<Longrightarrow> holds ok l (others f st)"
  by (simp add: holds_def rely_def)

lemma remove_artifact_simps [simp]:
  "rs_lease (remove_artifact aops env a st) = rs_lease st"
  "rs_jobs (remove_artifact aops env a st)
     = fst (re_others env BeforeDelete (rs_jobs st, rs_files st))"
  by (simp_all add: remove_artifact_def Let_def)

lemma holds_remove:
  "holds ok l st \<Longrightarrow> env_rely ok env \<Longrightarrow> holds ok l (remove_artifact aops env a st)"
  by (simp add: holds_def env_rely_def rely_def)

context worker_seams
begin

subsection \<open>The invariant, whatever the others do\<close>

lemma holds_renew:
  assumes "holds inv l st"
  shows "holds inv l (renew ops d p clk after st)"
proof -
  from assms obtain l' where l': "inv (rs_jobs st)" "rs_lease st = Some l'" "same_lease l (Some l')"
    by (rule holdsE)
  show ?thesis
  proof (cases "rs_beat st")
    case Beating
    obtain oe lo s' where r:
      "op_RenewLease ops (process_ctx st p) clk (Some l') d (rs_jobs st) = (oe, lo, s')"
      by (metis prod_cases3)
    have "inv s' \<and> same_lease l lo"
      using renew_inv [OF l'(1) r] same_lease_trans [OF l'(3)] by blast
    then show ?thesis using Beating r l'
      by (cases oe) (simp_all add: renew_def holds_def)
  qed (use assms in \<open>simp add: renew_def\<close>)
qed

lemma holds_tick:
  "holds inv l st \<Longrightarrow> tick_rely inv t \<Longrightarrow> holds inv l (on_tick ops d t st)"
  by (cases t) (simp_all add: holds_renew holds_others)

lemma holds_ticks:
  "holds inv l st \<Longrightarrow> list_all (tick_rely inv) ts \<Longrightarrow> holds inv l (fold (on_tick ops d) ts st)"
  by (induction ts arbitrary: st) (simp_all add: holds_tick)

lemma holds_ask:
  assumes "holds inv l st" and "ask_stage ops p clk stage st = (oe, st')"
  shows "holds inv l st'"
proof -
  from assms(1) obtain l' where l': "inv (rs_jobs st)" "rs_lease st = Some l'" "same_lease l (Some l')"
    by (rule holdsE)
  obtain oe' lo s' where r:
    "op_SetStage ops (process_ctx st p) clk (Some l') stage (rs_jobs st) = (oe', lo, s')"
    by (metis prod_cases3)
  show ?thesis
    using stage_inv [OF l'(1) r] same_lease_trans [OF l'(3)] assms(2) r l'
    by (auto simp: ask_stage_def holds_def)
qed

lemma holds_process:
  assumes "holds inv l st" and "\<forall>n. list_all (tick_rely inv) (fst (sch n))"
  shows "holds inv l (snd (snd (run_process ops d sch p n st)))"
  using assms(1)
proof (induction p arbitrary: n st)
  case (ProcDone r e)
  then show ?case using assms(2) by (simp add: holds_ticks)
next
  case (ProcSetStage stage k)
  obtain ticks parent clk where sch: "sch n = (ticks, parent, clk)"
    by (metis prod_cases3)
  let ?st = "fold (on_tick ops d) ticks st"
  have ticks: "holds inv l ?st"
    using ProcSetStage.prems assms(2) sch by (metis holds_ticks fst_conv)
  obtain oe st' where ask: "ask_stage ops parent clk stage ?st = (oe, st')"
    by (metis surj_pair)
  show ?case using ProcSetStage.IH [of "k oe" st' "Suc n"] holds_ask [OF ticks ask] sch ask by simp
qed

lemma inv_handle:
  assumes "holds inv l st" and "env_rely inv env"
  shows "inv (rs_jobs (snd (handleProcessingError ops w env e st)))"
proof -
  let ?st = "others (re_others env BeforeSettle) st"
  have "holds inv l ?st" using assms by (auto intro: holds_others simp: env_rely_def)
  then obtain l' where l': "inv (rs_jobs ?st)" "rs_lease ?st = Some l'" by (rule holdsE)
  then show ?thesis
    by (auto simp: handleProcessingError_def Let_def split: prod.splits
        dest: requeue_inv [rotated] fail_inv [rotated])
qed

lemma inv_handle_eq:
  "holds inv l st \<Longrightarrow> env_rely inv env \<Longrightarrow> handleProcessingError ops w env e st = (oe, st')
    \<Longrightarrow> inv (rs_jobs st')"
  using inv_handle [of l st env w e] by simp

lemma inv_commit:
  assumes "holds inv l st" and "env_rely inv env"
  shows "inv (rs_jobs (snd (commit_article ops aops w env r a st)))"
proof (cases "article_content (res_Article r)
    ((lease_job_of (rs_lease st))\<lparr>job_CanonicalURL := res_CanonicalURL r\<rparr>)
    (re_contentID env) (re_now env)")
  case None
  then show ?thesis
    using inv_handle [OF holds_remove [OF assms] assms(2)] by (simp add: commit_article_def)
next
  case (Some content)
  let ?st = "others (re_others env BeforeComplete) st"
  have "holds inv l ?st" using assms by (auto intro: holds_others simp: env_rely_def)
  then obtain l' where l': "inv (rs_jobs ?st)" "rs_lease ?st = Some l'" "same_lease l (Some l')"
    by (rule holdsE)
  obtain oe lo s' where r: "op_Complete ops (site_ctx env BeforeComplete)
      (re_clock env BeforeComplete) (Some l')
      \<lparr>cmp_Content = content, cmp_Artifact = a, cmp_CanonicalURL = res_CanonicalURL r\<rparr>
      (re_now env) (rs_jobs ?st) = (oe, lo, s')"
    by (metis prod_cases3)
  have "holds inv l (?st\<lparr>rs_lease := lo, rs_jobs := s'\<rparr>)"
    using complete_inv [OF l'(1) r] same_lease_trans [OF l'(3)] by (simp add: holds_def)
  note h = inv_handle_eq [OF holds_remove [OF this assms(2)] assms(2)]
    holds_remove [OF this assms(2)] this
  show ?thesis
    using h(2,3) l' r Some
    by (cases oe) (auto simp: commit_article_def Let_def holds_def split: prod.splits dest!: h(1))
qed

lemma inv_publish:
  assumes "holds inv l st" and "env_rely inv env"
  shows "inv (rs_jobs (snd (publish ulow ops aops w env r st)))"
proof -
  let ?st = "others (re_others env BeforeStage) st"
  have "holds inv l ?st" using assms by (auto intro: holds_others simp: env_rely_def)
  then obtain l' where l': "inv (rs_jobs ?st)" "rs_lease ?st = Some l'" "same_lease l (Some l')"
    by (rule holdsE)
  obtain oe lo s' where s: "op_SetStage ops (site_ctx env BeforeStage)
      (re_clock env BeforeStage) (Some l') StagePersisting (rs_jobs ?st) = (oe, lo, s')"
    by (metis prod_cases3)
  have "holds inv l (?st\<lparr>rs_lease := lo, rs_jobs := s'\<rparr>)"
    using stage_inv [OF l'(1) s] same_lease_trans [OF l'(3)] by (simp add: holds_def)
  then have h: "holds inv l (others (re_others env BeforePut) (?st\<lparr>rs_lease := lo, rs_jobs := s'\<rparr>)
      \<lparr>rs_files := fs\<rparr>)" (is "holds inv l (?h fs)") for fs
    using assms(2) by (simp add: holds_def env_rely_def rely_def)
  have i: "inv s'" using stage_inv [OF l'(1) s] by simp
  note c = inv_commit [OF h assms(2)] and e = inv_handle [OF h assms(2)]
  show ?thesis
  proof (cases oe)
    case (Some err)
    then show ?thesis using s l' i by (simp add: publish_def Let_def)
  next
    case None
    show ?thesis
      using None s l' c e
      by (simp add: publish_def Let_def split: prod.splits sum.splits)
  qed
qed

lemma inv_finish:
  assumes "holds inv l (snd (snd outcome))" and "env_rely inv env"
  shows "inv (rs_jobs (snd (finish_run ulow ops aops w env outcome)))"
proof -
  have "inv (rs_jobs (snd (snd outcome)))" using assms(1) by (simp add: holds_def)
  then show ?thesis
    using inv_handle [OF assms] inv_publish [OF assms]
    by (cases outcome) (simp add: finish_run_def split: option.splits)
qed

lemma holds_claimed: "inv s \<Longrightarrow> holds inv l (claimed_state l s files)"
  by (simp add: holds_def claimed_state_def)

lemma RunOnce_inv:
  assumes "inv s" and "env_rely inv env" and "RunOnce ulow ops aops w env s files = (r, s', files')"
  shows "inv s'"
proof -
  obtain cl s1 where c: "op_ClaimNext ops (Context (re_claim env)) (re_now env) (wk_lease w) s = (cl, s1)"
    by (metis surj_pair)
  have i: "inv s1" by (rule claim_inv [OF assms(1) c])
  show ?thesis
  proof (cases cl)
    case (Inr lo)
    then show ?thesis
    proof (cases lo)
      case (Some l)
      have "inv (rs_jobs (snd (finish_run ulow ops aops w env
          (run_process ops (wk_lease w) (re_schedule env)
            (wk_processor w (wk_approve w) (lease_Job l)) 0 (claimed_state l s1 files)))))"
        by (rule inv_finish [OF holds_process [OF holds_claimed [OF i, of l]] assms(2)])
          (use assms(2) in \<open>simp add: env_rely_def\<close>)
      then show ?thesis
        using assms(3) c Inr Some by (auto simp: RunOnce_def split: prod.splits)
    qed (use assms(3) c i Inr in \<open>simp add: RunOnce_def\<close>)
  qed (use assms(3) c i in \<open>simp add: RunOnce_def\<close>)
qed

lemma Run_inv:
  assumes "inv s" and "list_all (env_rely inv \<circ> fst) rounds"
    and "Run ulow ops aops w rounds s files = (r, s', files')"
  shows "inv s'"
  using assms
proof (induction rounds arbitrary: s files)
  case (Cons round rounds)
  obtain env after waited where round: "round = (env, after, waited)"
    by (metis prod_cases3)
  obtain b err s1 files1 where run: "RunOnce ulow ops aops w env s files = ((b, err), s1, files1)"
    by (metis surj_pair)
  have i: "inv s1"
    using RunOnce_inv [OF Cons.prems(1) _ run] Cons.prems(2) round by simp
  show ?case
  proof (cases "stops_loop err after waited")
    case None
    then show ?thesis using Cons.IH [OF i] Cons.prems(2,3) round run by simp
  next
    case (Some e)
    then show ?thesis using i Cons.prems(3) round run by simp
  qed
qed simp

end

subsection \<open>How a run ends when nobody interferes\<close>

text \<open>No step of others: only the worker and its heartbeats touch the stores.\<close>

fun is_beat :: "('s, 'a) tick \<Rightarrow> bool" where
  "is_beat (Beat _ _ _) = True"
| "is_beat (Others _) = False"

definition undisturbed :: "('s, 'a) run_env \<Rightarrow> bool" where
  "undisturbed env \<longleftrightarrow> (\<forall>n. list_all is_beat (fst (re_schedule env n)))
     \<and> (\<forall>site. re_others env site = id)"

text \<open>The job of the lease is being processed; \<open>m\<close> are the jobs at the start of the run.\<close>

definition working ::
  "('s \<Rightarrow> bool) \<Rightarrow> ('s \<Rightarrow> job_id \<Rightarrow> job option) \<Rightarrow> (job_id \<Rightarrow> job option) \<Rightarrow> lease
     \<Rightarrow> ('s, 'a) run_state \<Rightarrow> bool" where
  "working ok job_of m l st \<longleftrightarrow> holds ok l st
     \<and> (\<exists>j. job_of (rs_jobs st) = m(job_ID (lease_Job l) \<mapsto> j) \<and> job_Status j = StatusProcessing)"

text \<open>The four ways a run ends for the job: it is still processing (the lease was lost or the
  store refused), queued again within the budget of attempts, failed with a public message, or
  ready with an artifact that can be read.\<close>

definition ends_processing :: "job \<Rightarrow> bool" where
  "ends_processing j \<longleftrightarrow> job_Status j = StatusProcessing"

definition ends_queued :: "worker \<Rightarrow> time \<Rightarrow> lease \<Rightarrow> job \<Rightarrow> bool" where
  "ends_queued w now l j \<longleftrightarrow> job_Status j = StatusQueued
     \<and> job_AttemptCount (lease_Job l) < wk_maxAttempts w
     \<and> job_NextAttemptAt j = now + backoff (job_AttemptCount (lease_Job l))"

definition ends_failed :: "job \<Rightarrow> bool" where
  "ends_failed j \<longleftrightarrow> job_Status j = StatusFailed
     \<and> (\<exists>f category. job_Failure j = Some f \<and> fail_Category f = Normalized category
          \<and> fail_Message f = Message category)"

definition ends_ready :: "'a artifact_ops \<Rightarrow> 'a \<Rightarrow> string \<Rightarrow> job \<Rightarrow> bool" where
  "ends_ready aops files pdf j \<longleftrightarrow> job_Status j = StatusReady
     \<and> (\<exists>a. job_Artifact j = Some a \<and> art_Available a \<and> 0 < art_ByteSize a
          \<and> (\<forall>c. contextErr c = None \<longrightarrow> ao_Open aops c a files = Inr pdf))"

lemma workingE:
  assumes "working ok job_of m l st"
  obtains l' j where "ok (rs_jobs st)" and "rs_lease st = Some l'" and "same_lease l (Some l')"
    and "job_of (rs_jobs st) = m(job_ID (lease_Job l) \<mapsto> j)" and "job_Status j = StatusProcessing"
    and "job_ID (lease_Job l') = job_ID (lease_Job l)"
    and "job_AttemptCount (lease_Job l') = job_AttemptCount (lease_Job l)"
  using assms by (auto simp: working_def holds_def same_lease_def)

lemma remove_artifact_undisturbed:
  "undisturbed env \<Longrightarrow> rs_jobs (remove_artifact aops env a st) = rs_jobs st"
  by (simp add: undisturbed_def)

context worker_seams
begin

lemma working_renew:
  assumes "working inv job_of m l st"
  shows "working inv job_of m l (renew ops d p clk after st)"
proof -
  have h: "holds inv l (renew ops d p clk after st)"
    using assms by (intro holds_renew) (simp add: working_def)
  from assms obtain l' j where l': "inv (rs_jobs st)" "rs_lease st = Some l'"
      "job_of (rs_jobs st) = m(job_ID (lease_Job l) \<mapsto> j)" "job_Status j = StatusProcessing"
      "job_ID (lease_Job l') = job_ID (lease_Job l)"
    by (rule workingE)
  show ?thesis
  proof (cases "rs_beat st")
    case Beating
    obtain oe lo s' where r:
      "op_RenewLease ops (process_ctx st p) clk (Some l') d (rs_jobs st) = (oe, lo, s')"
      by (metis prod_cases3)
    have "\<exists>j. job_of s' = m(job_ID (lease_Job l) \<mapsto> j) \<and> job_Status j = StatusProcessing"
    proof (cases oe)
      case None
      with renew_ok [OF l'(1) r [unfolded None]] l'(3-5) show ?thesis by auto
    next
      case (Some e)
      with renew_err [OF l'(1) r [unfolded Some]] l'(3,4) show ?thesis by auto
    qed
    moreover have "rs_jobs (renew ops d p clk after st) = s'"
      using r l'(2) Beating by (cases oe) (simp_all add: renew_def)
    ultimately show ?thesis using h by (simp add: working_def)
  qed (use assms in \<open>simp add: renew_def\<close>)
qed

lemma working_ticks:
  "working inv job_of m l st \<Longrightarrow> list_all is_beat ts
    \<Longrightarrow> working inv job_of m l (fold (on_tick ops d) ts st)"
proof (induction ts arbitrary: st)
  case (Cons t ts)
  then show ?case by (cases t) (simp_all add: working_renew)
qed simp

lemma working_stage:
  assumes "working inv job_of m l st"
    and "op_SetStage ops c clk (rs_lease st) stage (rs_jobs st) = (oe, lo, s')"
  shows "working inv job_of m l (st\<lparr>rs_lease := lo, rs_jobs := s'\<rparr>)"
proof -
  from assms(1) obtain l' j where l': "inv (rs_jobs st)" "rs_lease st = Some l'"
      "same_lease l (Some l')" "job_of (rs_jobs st) = m(job_ID (lease_Job l) \<mapsto> j)"
      "job_Status j = StatusProcessing" "job_ID (lease_Job l') = job_ID (lease_Job l)"
    by (rule workingE)
  note r = assms(2) [unfolded l'(2)]
  have "\<exists>j. job_of s' = m(job_ID (lease_Job l) \<mapsto> j) \<and> job_Status j = StatusProcessing"
  proof (cases oe)
    case None
    with stage_ok [OF l'(1) r [unfolded None]] l'(4-6) show ?thesis by auto
  next
    case (Some e)
    with stage_err [OF l'(1) r [unfolded Some]] l'(4,5) show ?thesis by auto
  qed
  then show ?thesis
    using stage_inv [OF l'(1) r] same_lease_trans [OF l'(3)] by (simp add: working_def holds_def)
qed

lemma working_process:
  assumes "working inv job_of m l st" and "\<forall>n. list_all is_beat (fst (sch n))"
  shows "working inv job_of m l (snd (snd (run_process ops d sch p n st)))"
  using assms(1)
proof (induction p arbitrary: n st)
  case (ProcDone r e)
  then show ?case using assms(2) by (simp add: working_ticks)
next
  case (ProcSetStage stage k)
  obtain ticks parent clk where sch: "sch n = (ticks, parent, clk)"
    by (metis prod_cases3)
  let ?st = "fold (on_tick ops d) ticks st"
  have ticks: "working inv job_of m l ?st"
    using ProcSetStage.prems assms(2) sch by (metis working_ticks fst_conv)
  obtain oe lo s' where ask:
    "op_SetStage ops (process_ctx ?st parent) clk (rs_lease ?st) stage (rs_jobs ?st) = (oe, lo, s')"
    by (metis prod_cases3)
  show ?case
    using ProcSetStage.IH [of "k oe", OF _ working_stage [OF ticks ask], of "Suc n"] sch ask
    by (simp add: ask_stage_def)
qed

end

text \<open>The settling call decides: within the budget a retryable failure queues the job again,
  everything else fails it.\<close>

definition settled ::
  "worker \<Rightarrow> time \<Rightarrow> lease \<Rightarrow> failure \<Rightarrow> bool \<Rightarrow> job \<Rightarrow> bool" where
  "settled w now l f retryable j \<longleftrightarrow>
     (if retryable \<and> job_AttemptCount (lease_Job l) < wk_maxAttempts w then ends_queued w now l j
      else job_Status j = StatusFailed
        \<and> (\<exists>f'. job_Failure j = Some f' \<and> fail_Category f' = fail_Category f
             \<and> fail_Message f' = fail_Message f))"

lemma failure_of_public:
  "failure_of e corr now = (f, retryable) \<Longrightarrow>
     \<exists>category. fail_Category f = Normalized category \<and> fail_Message f = Message category"
  by (auto simp: failure_of_def Let_def Message_Normalized split: option.splits prod.splits)

lemma settled_ends:
  assumes "settled w now l f retryable j" and "failure_of e corr now' = (f, retryable)"
  shows "ends_queued w now l j \<or> ends_failed j"
  using assms(1) failure_of_public [OF assms(2)]
  by (auto simp: settled_def ends_failed_def split: if_splits)

context worker_seams
begin

lemma handle_settles:
  assumes "working inv job_of m l st" and "undisturbed env"
    and f: "failure_of e (re_correlation env) (re_now env) = (f, retryable)"
    and "handleProcessingError ops w env e st = (oe, st')"
  shows "\<exists>j. job_of (rs_jobs st') = m(job_ID (lease_Job l) \<mapsto> j)
    \<and> (case oe of None \<Rightarrow> settled w (re_now env) l f retryable j | Some _ \<Rightarrow> ends_processing j)"
proof -
  from assms(1) obtain l' j where l': "inv (rs_jobs st)" "rs_lease st = Some l'"
      "job_of (rs_jobs st) = m(job_ID (lease_Job l) \<mapsto> j)" "job_Status j = StatusProcessing"
      "job_ID (lease_Job l') = job_ID (lease_Job l)"
      "job_AttemptCount (lease_Job l') = job_AttemptCount (lease_Job l)"
    by (rule workingE)
  obtain category where public:
      "fail_Category f = Normalized category" "fail_Message f = Message category"
    using failure_of_public [OF f] by blast
  let ?c = "site_ctx env BeforeSettle" and ?clk = "re_clock env BeforeSettle"
  let ?n = "job_AttemptCount (lease_Job l)"
  show ?thesis
  proof (cases "retryable \<and> ?n < wk_maxAttempts w")
    case True
    obtain lo s' where r: "op_Requeue ops ?c ?clk (Some l') f (re_now env + backoff ?n) (rs_jobs st)
        = (oe, lo, s')" and st': "rs_jobs st' = s'"
      using assms(2,4) l'(2,6) f True
      by (auto simp: handleProcessingError_def Let_def undisturbed_def split: prod.splits)
    show ?thesis
    proof (cases oe)
      case None
      with requeue_ok [OF l'(1) r [unfolded None]] l'(3,5) st' True show ?thesis
        by (auto simp: settled_def ends_queued_def)
    next
      case (Some err)
      with requeue_err [OF l'(1) r [unfolded Some]] l'(3,4) st' show ?thesis
        by (auto simp: ends_processing_def)
    qed
  next
    case False
    obtain lo s' where r: "op_Fail ops ?c ?clk (Some l') f (re_now env) (rs_jobs st) = (oe, lo, s')"
        and st': "rs_jobs st' = s'"
      using assms(2,4) l'(2,6) f False
      by (auto simp: handleProcessingError_def Let_def undisturbed_def split: prod.splits)
    show ?thesis
    proof (cases oe)
      case None
      with fail_ok [OF l'(1) r [unfolded None]] l'(3,5) st' False public show ?thesis
        by (auto simp: settled_def Message_Normalized Normalized_idem)
    next
      case (Some err)
      with fail_err [OF l'(1) r [unfolded Some]] l'(3,4) st' show ?thesis
        by (auto simp: ends_processing_def)
    qed
  qed
qed

lemma handle_ends:
  assumes "working inv job_of m l st" and "undisturbed env"
    and "handleProcessingError ops w env e st = (oe, st')"
  shows "\<exists>j. job_of (rs_jobs st') = m(job_ID (lease_Job l) \<mapsto> j)
    \<and> (ends_queued w (re_now env) l j \<or> ends_failed j \<or> oe \<noteq> None \<and> ends_processing j)"
proof -
  obtain f retryable where f: "failure_of e (re_correlation env) (re_now env) = (f, retryable)"
    by (metis surj_pair)
  obtain j where j: "job_of (rs_jobs st') = m(job_ID (lease_Job l) \<mapsto> j)"
      "case oe of None \<Rightarrow> settled w (re_now env) l f retryable j | Some _ \<Rightarrow> ends_processing j"
    using handle_settles [OF assms(1,2) f assms(3)] by blast
  then show ?thesis
    using settled_ends [OF _ f, of w "re_now env" l j] by (intro exI [of _ j]) (cases oe, auto)
qed

lemma working_remove:
  "working inv job_of m l st \<Longrightarrow> undisturbed env
    \<Longrightarrow> working inv job_of m l (remove_artifact aops env a st)"
  by (simp add: working_def holds_def undisturbed_def)

lemma working_files [simp]:
  "working inv job_of m l (st\<lparr>rs_files := fs\<rparr>) = working inv job_of m l st"
  by (simp add: working_def holds_def)

lemma undisturbed_others [simp]: "undisturbed env \<Longrightarrow> others (re_others env site) st = st"
  by (simp add: undisturbed_def)

text \<open>After the artifact \<open>a\<close> with the content \<open>pdf\<close> was put.\<close>

lemma commit_ends:
  assumes "working inv job_of m l st" and "undisturbed env"
    and put: "ao_Put aops pc jid name pdf now files0 = (Inr a, rs_files st)"
    and "commit_article ops aops w env r a st = (oe, st')"
  shows "\<exists>j. job_of (rs_jobs st') = m(job_ID (lease_Job l) \<mapsto> j)
    \<and> (ends_queued w (re_now env) l j \<or> ends_failed j \<or> ends_processing j
       \<or> ends_ready aops (rs_files st') pdf j)"
proof -
  let ?doc = "article_content (res_Article r)
      ((lease_job_of (rs_lease st))\<lparr>job_CanonicalURL := res_CanonicalURL r\<rparr>)
      (re_contentID env) (re_now env)"
  show ?thesis
  proof (cases ?doc)
    case None
    show ?thesis
      using handle_ends [OF working_remove [OF assms(1,2)] assms(2)] assms(4) None
      by (fastforce simp: commit_article_def)
  next
    case doc: (Some content)
    from assms(1) obtain l' j where l': "inv (rs_jobs st)" "rs_lease st = Some l'"
        "same_lease l (Some l')" "job_of (rs_jobs st) = m(job_ID (lease_Job l) \<mapsto> j)"
        "job_Status j = StatusProcessing" "job_ID (lease_Job l') = job_ID (lease_Job l)"
      by (rule workingE)
    let ?cm = "\<lparr>cmp_Content = content, cmp_Artifact = a, cmp_CanonicalURL = res_CanonicalURL r\<rparr>"
    obtain ce lo s' where r: "op_Complete ops (site_ctx env BeforeComplete)
        (re_clock env BeforeComplete) (Some l') ?cm (re_now env) (rs_jobs st) = (ce, lo, s')"
      by (metis prod_cases3)
    show ?thesis
    proof (cases ce)
      case None
      have "st' = st\<lparr>rs_lease := lo, rs_jobs := s'\<rparr>"
        using assms(2,4) doc r None l'(2) by (simp add: commit_article_def Let_def)
      with complete_ok [OF l'(1) r [unfolded None]] l'(4,6)
        files.put_open [OF put] files.put_record [OF put]
      show ?thesis by (fastforce simp: ends_ready_def)
    next
      case (Some err)
      let ?st = "st\<lparr>rs_lease := lo, rs_jobs := s'\<rparr>"
      have w: "working inv job_of m l ?st"
        using complete_inv [OF l'(1) r] same_lease_trans [OF l'(3)] l'(4,5)
          complete_err [OF l'(1) r [unfolded Some]] by (auto simp: working_def holds_def)
      note w' = working_remove [OF w assms(2), of a]
      have "st' = remove_artifact aops env a ?st \<or>
          (\<exists>h e. handleProcessingError ops w env e (remove_artifact aops env a ?st) = (h, st'))"
        using assms(2,4) doc r Some l'(2)
        by (auto simp: commit_article_def Let_def split: if_splits prod.splits)
      then show ?thesis
        using w' handle_ends [OF w' assms(2)]
        by (elim disjE exE) (fastforce simp: working_def ends_processing_def)+
    qed
  qed
qed

lemma publish_ends:
  assumes "working inv job_of m l st" and "undisturbed env"
    and "publish ulow ops aops w env r st = (oe, st')"
  shows "\<exists>j. job_of (rs_jobs st') = m(job_ID (lease_Job l) \<mapsto> j)
    \<and> (ends_queued w (re_now env) l j \<or> ends_failed j \<or> ends_processing j
       \<or> ends_ready aops (rs_files st') (res_PDF r) j)"
proof -
  obtain se lo s' where s: "op_SetStage ops (site_ctx env BeforeStage)
      (re_clock env BeforeStage) (rs_lease st) StagePersisting (rs_jobs st) = (se, lo, s')"
    by (metis prod_cases3)
  let ?st = "st\<lparr>rs_lease := lo, rs_jobs := s'\<rparr>"
  have w: "working inv job_of m l ?st" by (rule working_stage [OF assms(1) s])
  show ?thesis
  proof (cases se)
    case (Some e)
    then have "st' = ?st" using assms(2,3) s by (simp add: publish_def Let_def)
    then show ?thesis using w by (auto simp: working_def ends_processing_def)
  next
    case None
    let ?jid = "job_ID (lease_job_of lo)"
    let ?name = "sanitizeFilename ulow (res_Filename r) (draft_Title (app_draft (res_Article r))) ?jid"
    obtain pr fs where put: "ao_Put aops (site_ctx env BeforePut) ?jid ?name (res_PDF r)
        (re_now env) (rs_files st) = (pr, fs)"
      by (metis surj_pair)
    have w': "working inv job_of m l (?st\<lparr>rs_files := fs\<rparr>)" using w by simp
    show ?thesis
    proof (cases pr)
      case (Inl e)
      then show ?thesis
        using handle_ends [OF w' assms(2)] assms(2,3) s None put
        by (fastforce simp: publish_def Let_def)
    next
      case (Inr a)
      have "commit_article ops aops w env r a (?st\<lparr>rs_files := fs\<rparr>) = (oe, st')"
        using assms(2,3) s None put Inr by (simp add: publish_def Let_def)
      then show ?thesis
        using commit_ends [OF w' assms(2)] put Inr by simp
    qed
  qed
qed

lemma finish_ends:
  assumes "working inv job_of m l st" and "undisturbed env"
    and "finish_run ulow ops aops w env (r, pe, st) = (oe, st')"
  shows "\<exists>j. job_of (rs_jobs st') = m(job_ID (lease_Job l) \<mapsto> j)
    \<and> (ends_queued w (re_now env) l j \<or> ends_failed j \<or> ends_processing j
       \<or> ends_ready aops (rs_files st') (res_PDF r) j
         \<and> app_valid (res_Article r) \<and> process_error (rs_beat st) pe = None)"
proof (cases "process_error (rs_beat st) pe")
  case (Some e)
  show ?thesis
  proof (cases "errors_Is e ErrLeaseLost")
    case True
    then show ?thesis using assms Some by (auto simp: finish_run_def working_def ends_processing_def)
  next
    case False
    then show ?thesis
      using handle_ends [OF assms(1,2)] assms(3) Some by (fastforce simp: finish_run_def)
  qed
next
  case None
  show ?thesis
  proof (cases "app_valid (res_Article r) \<and> res_PDF r \<noteq> ''''")
    case True
    then show ?thesis
      using publish_ends [OF assms(1,2), of ulow w r oe st'] assms(3) None
      by (auto simp: finish_run_def)
  next
    case False
    then show ?thesis
      using handle_ends [OF assms(1,2)] assms(3) None
      by (fastforce simp: finish_run_def split: if_splits)
  qed
qed

lemma working_claimed:
  assumes "inv s" and "op_ClaimNext ops c now d s = (Inr (Some l), s1)"
  shows "working inv job_of (job_of s1) l (claimed_state l s1 files)"
proof -
  from claim_Some [OF assms] obtain j where "job_of s1 (job_ID (lease_Job l)) = Some j"
    and "job_Status j = StatusProcessing" by blast
  moreover from this have "job_of s1 = (job_of s1)(job_ID (lease_Job l) \<mapsto> j)"
    by (simp add: fun_upd_idem)
  ultimately show ?thesis
    using claim_inv [OF assms] by (auto simp: working_def holds_def claimed_state_def)
qed

abbreviation processed ::
  "worker \<Rightarrow> ('s, 'a) run_env \<Rightarrow> lease \<Rightarrow> 's \<Rightarrow> 'a
     \<Rightarrow> process_result \<times> error option \<times> ('s, 'a) run_state" where
  "processed w env l s files \<equiv>
     run_process ops (wk_lease w) (re_schedule env) (wk_processor w (wk_approve w) (lease_Job l)) 0
       (claimed_state l s files)"

lemma working_processed:
  assumes "inv s" and "undisturbed env" and "op_ClaimNext ops c now d s = (Inr (Some l), s1)"
    and "processed w env l s1 files = (r, pe, st)"
  shows "working inv job_of (job_of s1) l st"
  using working_process [OF working_claimed [OF assms(1,3)], of "re_schedule env"] assms(2,4)
  by (metis undisturbed_def snd_conv)

lemma RunOnce_claimed:
  assumes "op_ClaimNext ops (Context (re_claim env)) (re_now env) (wk_lease w) s = (Inr (Some l), s1)"
    and "processed w env l s1 files = (r, pe, st)"
    and "RunOnce ulow ops aops w env s files = ((b, oe), s', files')"
  obtains st' where "finish_run ulow ops aops w env (r, pe, st) = (oe, st')" and "b"
    and "s' = rs_jobs st'" and "files' = rs_files st'"
  using assms by (auto simp: RunOnce_def split: prod.splits)

lemma RunOnce_ends:
  assumes "inv s" and "undisturbed env"
    and c: "op_ClaimNext ops (Context (re_claim env)) (re_now env) (wk_lease w) s
        = (Inr (Some l), s1)"
    and p: "processed w env l s1 files = (r, pe, st)"
    and run: "RunOnce ulow ops aops w env s files = ((b, oe), s', files')"
  shows "\<exists>j. job_of s' = (job_of s1)(job_ID (lease_Job l) \<mapsto> j)
    \<and> (ends_queued w (re_now env) l j \<or> ends_failed j \<or> ends_processing j
       \<or> ends_ready aops files' (res_PDF r) j
         \<and> app_valid (res_Article r) \<and> process_error (rs_beat st) pe = None)"
proof (rule RunOnce_claimed [OF c p run])
  fix st' assume "finish_run ulow ops aops w env (r, pe, st) = (oe, st')"
    and "s' = rs_jobs st'" "files' = rs_files st'"
  then show ?thesis
    using finish_ends [OF working_processed [OF assms(1,2) c p] assms(2)] by simp
qed

lemma RunOnce_settles:
  assumes "inv s" and "undisturbed env"
    and c: "op_ClaimNext ops (Context (re_claim env)) (re_now env) (wk_lease w) s
        = (Inr (Some l), s1)"
    and p: "processed w env l s1 files = (r, pe, st)"
    and run: "RunOnce ulow ops aops w env s files = ((b, None), s', files')"
    and e: "process_error (rs_beat st) pe = Some e" "\<not> errors_Is e ErrLeaseLost"
    and f: "failure_of e (re_correlation env) (re_now env) = (f, retryable)"
  shows "\<exists>j. job_of s' = (job_of s1)(job_ID (lease_Job l) \<mapsto> j)
    \<and> settled w (re_now env) l f retryable j"
proof (rule RunOnce_claimed [OF c p run])
  fix st' assume "finish_run ulow ops aops w env (r, pe, st) = (None, st')" and "s' = rs_jobs st'"
  then show ?thesis
    using handle_settles [OF working_processed [OF assms(1,2) c p] assms(2) f] e
    by (fastforce simp: finish_run_def)
qed

text \<open>Whatever the others did: when the commit is refused and the undoing succeeds, no artifact
  can be opened under the key of this run, not even the artifact of another run.\<close>

lemma refused_commit_removes:
  assumes "ao_Delete aops (site_ctx env BeforeDelete) a
      (rs_files (others (re_others env BeforeDelete) st)) = (None, files2)"
    and "art_Key b = art_Key a"
  shows "ao_Open aops c b (rs_files (remove_artifact aops env a st)) \<noteq> Inr data"
  using files.delete_gone [OF assms] assms(1) by (simp add: remove_artifact_def Let_def)

end

interpretation wk: worker_seams "mem_ops token" st_jobs mem_inv "artifact_mem sha256"
  for token sha256
  by unfold_locales

end
