(* ===== verification/Worker_Properties.thy ===== *)
theory Worker_Properties
  imports Worker_Facts Archive_Properties
begin

section \<open>Properties of the worker\<close>

text \<open>
  The claims about \<open>internal/application/worker.go\<close> on the in-memory stores. The fixtures are a
  worker whose processor asks for the three stages of the pipeline and returns an approved
  article with a PDF, an environment in which nothing happens between its calls, and one in
  which a second worker runs to its end just before the first one commits.
\<close>

definition race_processor :: processor where
  "race_processor approve j =
     ProcSetStage StageExtracting (\<lambda>_. ProcSetStage StageAIAnalyzing (\<lambda>_.
       ProcSetStage StageFormatting (\<lambda>_. ProcDone
         \<lparr>res_Article = \<lparr>app_draft = zero_draft, app_valid = True\<rparr>, res_CanonicalURL = ''u'',
          res_Filename = '''', res_PDF = ''pdf''\<rparr> None)))"

definition race_worker :: worker where
  "race_worker = \<lparr>wk_processor = race_processor, wk_approve = (\<lambda>_. Inl ErrNotFound),
     wk_lease = 100, wk_heartbeat = 30, wk_poll = 10, wk_maxAttempts = 3\<rparr>"

definition race_ops :: "mem_store job_store_ops" where
  "race_ops = \<lparr>op_ClaimNext = (\<lambda>c now d s. ClaimNext c now d
       (if now < 200 then ''t1'' else ''t2'') [''a''] s), op_RenewLease = RenewLease,
     op_SetStage = SetStage, op_Complete = Complete, op_Requeue = Requeue, op_Fail = Fail\<rparr>"

definition calm_env :: "time \<Rightarrow> (mem_store, artifact_files) run_env" where
  "calm_env t = \<lparr>re_now = t, re_claim = None, re_schedule = (\<lambda>_. ([], None, t)),
     re_ctx = (\<lambda>_. None), re_clock = (\<lambda>_. t), re_others = (\<lambda>_. id),
     re_contentID = ''c'', re_correlation = ''x''\<rparr>"

text \<open>The second worker runs at 300, when the lease of the first, taken at 100 for 100, is over.\<close>

definition stale_env :: "(mem_store, artifact_files) run_env" where
  "stale_env = (calm_env 100)\<lparr>re_others := (\<lambda>site. if site = BeforeComplete
     then (\<lambda>(s, files). snd (RunOnce id race_ops (artifact_mem id) race_worker (calm_env 300) s files))
     else id), re_clock := (\<lambda>site. if site = BeforeStage then 100 else 301)\<rparr>"

subsection \<open>The stores under the worker\<close>



text \<open>
  C18. A run that nobody disturbs ends in one of four ways for the job it claimed, and changes
  no other job: queued again within the budget of attempts, failed with the public message of
  a known category, still processing because the lease was lost or the store refused, or ready
  with an artifact that opens to exactly the bytes the processor returned, and the last only
  for an approved article.
\<close>

theorem run_outcome:
  assumes "mem_inv s" and "undisturbed env"
    and "op_ClaimNext (mem_ops token) (Context (re_claim env)) (re_now env) (wk_lease w) s
      = (Inr (Some l), s1)"
    and "run_process (mem_ops token) (wk_lease w) (re_schedule env)
        (wk_processor w (wk_approve w) (lease_Job l)) 0 (claimed_state l s1 files) = (result, pe, st)"
    and "RunOnce ulow (mem_ops token) (artifact_mem sha256) w env s files = ((b, oe), s', files')"
  shows "\<exists>j. st_jobs s' = (st_jobs s1)(job_ID (lease_Job l) \<mapsto> j)
    \<and> (ends_queued w (re_now env) l j \<or> ends_failed j \<or> ends_processing j
       \<or> ends_ready (artifact_mem sha256) files' (res_PDF result) j
         \<and> app_valid (res_Article result) \<and> process_error (rs_beat st) pe = None)"
  by (rule wk.RunOnce_ends [OF assms])

lemma undisturbed_calm [simp]: "undisturbed (calm_env t)"
  by (simp add: undisturbed_def calm_env_def)

lemma demo_store_inv [simp]: "mem_inv demo_store"
  by (simp add: mem_inv_def)

lemma demo_first_claim:
  "\<exists>l s1. op_ClaimNext (mem_ops (\<lambda>_. ''t'')) (Context None) 300 100 demo_store = (Inr (Some l), s1)
    \<and> job_ID (lease_Job l) = ''a'' \<and> job_AttemptCount (lease_Job l) = 1"
  by (simp add: job_keys_def ClaimNext_def claim_visit_def claimable_def new_job_def zero_job_def
      Let_def NewLease_def lease_job_def wrap64_def)

theorem run_outcome_witness:
  "\<exists>j s' files'. snd (RunOnce id (mem_ops (\<lambda>_. ''t'')) (artifact_mem id) race_worker (calm_env 300)
      demo_store Map.empty) = (s', files') \<and> st_jobs s' ''a'' = Some j"
proof -
  obtain l s1 where c: "op_ClaimNext (mem_ops (\<lambda>_. ''t'')) (Context (re_claim (calm_env 300)))
      (re_now (calm_env 300)) (wk_lease race_worker) demo_store = (Inr (Some l), s1)"
    and l: "job_ID (lease_Job l) = ''a''"
    using demo_first_claim by (auto simp: calm_env_def race_worker_def)
  obtain result pe st where p: "run_process (mem_ops (\<lambda>_. ''t'')) (wk_lease race_worker)
      (re_schedule (calm_env 300)) (wk_processor race_worker (wk_approve race_worker) (lease_Job l)) 0
      (claimed_state l s1 (Map.empty :: artifact_files)) = (result, pe, st)"
    by (metis prod_cases3)
  obtain b oe s' files' where r: "RunOnce id (mem_ops (\<lambda>_. ''t'')) (artifact_mem id) race_worker
      (calm_env 300) demo_store Map.empty = ((b, oe), s', files')"
    by (metis surj_pair)
  show ?thesis
    using run_outcome [OF demo_store_inv undisturbed_calm c p r] r l by auto
qed

subsection \<open>The budget of attempts\<close>

text \<open>
  C19. When the processor ends with an error, the lease is not lost and the store accepts the
  call, the job is queued again exactly if the error is retryable and attempts are left, with
  a back-off proportional to the attempts made; otherwise it fails, and the failure is recorded
  with the normalised category and its public message, never with the error's own text.
\<close>

theorem retry_budget:
  assumes "mem_inv s" and "undisturbed env"
    and "op_ClaimNext (mem_ops token) (Context (re_claim env)) (re_now env) (wk_lease w) s
      = (Inr (Some l), s1)"
    and "run_process (mem_ops token) (wk_lease w) (re_schedule env)
        (wk_processor w (wk_approve w) (lease_Job l)) 0 (claimed_state l s1 files) = (result, pe, st)"
    and "RunOnce ulow (mem_ops token) (artifact_mem sha256) w env s files = ((b, None), s', files')"
    and "process_error (rs_beat st) pe = Some e" and "\<not> errors_Is e ErrLeaseLost"
    and "failure_of e (re_correlation env) (re_now env) = (f, retryable)"
  shows "\<exists>j. st_jobs s' = (st_jobs s1)(job_ID (lease_Job l) \<mapsto> j)
    \<and> (if retryable \<and> job_AttemptCount (lease_Job l) < wk_maxAttempts w
       then job_Status j = StatusQueued
         \<and> job_NextAttemptAt j = re_now env + backoff (job_AttemptCount (lease_Job l))
       else job_Status j = StatusFailed
         \<and> (\<exists>f'. job_Failure j = Some f' \<and> fail_Category f' = fail_Category f
              \<and> fail_Message f' = Message (fail_Category f)))"
proof -
  obtain j where "st_jobs s' = (st_jobs s1)(job_ID (lease_Job l) \<mapsto> j)"
    and "settled w (re_now env) l f retryable j"
    using wk.RunOnce_settles [OF assms] by blast
  moreover have "fail_Message f = Message (fail_Category f)"
    using failure_of_public [OF assms(8)] by (auto simp: Message_Normalized)
  ultimately show ?thesis by (auto simp: settled_def ends_queued_def)
qed

definition idle_worker :: worker where
  "idle_worker = race_worker\<lparr>wk_processor := unavailableProcessor\<rparr>"

definition idle_job :: job where
  "idle_job = lease_job 300 100 ''t'' (new_job (demo_cmd ''a''))"

lemma idle_claim:
  "ClaimNext (Context None) 300 100 ''t'' (job_keys demo_store) demo_store
    = (Inr (Some (NewLease idle_job ''t'' 400)), put_job idle_job demo_store)"
  by (simp add: job_keys_def ClaimNext_def claim_visit_def claimable_def new_job_def zero_job_def
      Let_def)
    (simp add: idle_job_def lease_job_def new_job_def zero_job_def zero_time_def)

lemma idle_fields [simp]:
  "job_ID idle_job = ''a''" "job_LeaseUntil idle_job = 400" "job_LeaseToken idle_job = ''t''"
  "job_AttemptCount idle_job = 1"
  by (simp_all add: idle_job_def lease_job_def new_job_def zero_job_def zero_time_def wrap64_def)

theorem retry_budget_witness:
  "\<exists>s' j. snd (RunOnce id (mem_ops (\<lambda>_. ''t'')) (artifact_mem id) idle_worker (calm_env 300)
      demo_store Map.empty) = (s', Map.empty) \<and> st_jobs s' ''a'' = Some j
    \<and> job_Status j = StatusQueued \<and> job_NextAttemptAt j = 300 + 250 * Millisecond"
proof -
  let ?e = "NewProcessingError (category_string FailureAIUnavailable)
      ''The AI provider is unavailable'' True"
  let ?l = "NewLease idle_job ''t'' 400"
  obtain f where f: "failure_of ?e (re_correlation (calm_env 300)) (re_now (calm_env 300)) = (f, True)"
    by (simp add: failure_of_def NewProcessingError_def)
  have c: "op_ClaimNext (mem_ops (\<lambda>_. ''t'')) (Context (re_claim (calm_env 300)))
      (re_now (calm_env 300)) (wk_lease idle_worker) demo_store
      = (Inr (Some ?l), put_job idle_job demo_store)"
    using idle_claim by (simp add: calm_env_def idle_worker_def race_worker_def)
  have p: "run_process (mem_ops (\<lambda>_. ''t'')) (wk_lease idle_worker)
      (re_schedule (calm_env 300)) (wk_processor idle_worker (wk_approve idle_worker) (lease_Job ?l)) 0
      (claimed_state ?l (put_job idle_job demo_store) (Map.empty :: artifact_files))
     = (zero_result, Some ?e, claimed_state ?l (put_job idle_job demo_store) Map.empty)"
    by (simp add: calm_env_def idle_worker_def unavailableProcessor_def)
  obtain s' where r: "RunOnce id (mem_ops (\<lambda>_. ''t'')) (artifact_mem id) idle_worker (calm_env 300)
      demo_store Map.empty = ((True, None), s', Map.empty)"
    using c p f
    by (simp add: RunOnce_def finish_run_def process_error_def claimed_state_def NewProcessingError_def
        errors_Is_leaf handleProcessingError_def Let_def)
      (simp add: calm_env_def idle_worker_def race_worker_def Requeue_def lease_lost_def NewLease_def
        CurrentVersion_def put_job_def Let_def)
  have pe: "process_error (rs_beat (claimed_state ?l (put_job idle_job demo_store)
      (Map.empty :: artifact_files))) (Some ?e) = Some ?e"
    by (simp add: process_error_def claimed_state_def)
  have "backoff 1 = 250 * Millisecond"
    by (simp add: backoff_def Millisecond_def wrap64_def)
  then show ?thesis
    using retry_budget [OF demo_store_inv undisturbed_calm c p r pe _ f] r
    by (auto simp: NewLease_def NewProcessingError_def errors_Is_leaf calm_env_def idle_worker_def
        race_worker_def)
qed

text \<open>
  Whatever the options are, a worker has a positive lease, poll interval and number of
  attempts, and a heartbeat that is positive, at most thirty seconds, and shorter than the lease
  (unless the lease is a single nanosecond).
\<close>

theorem worker_bounds:
  assumes "NewWorker ulow lib archive options = Inr w"
  shows "0 < wk_lease w \<and> 0 < wk_poll w \<and> 0 < wk_maxAttempts w
    \<and> 0 < wk_heartbeat w \<and> wk_heartbeat w \<le> 30 * Second
    \<and> (1 < wk_lease w \<longrightarrow> wk_heartbeat w < wk_lease w)"
proof -
  have pos: "0 < defaultWorkerLease" "0 < Second" "1 < maxHeartbeatInterval"
    "maxHeartbeatInterval = 30 * Second"
    by (simp_all add: defaultWorkerLease_def maxHeartbeatInterval_def duration_defs)
  have "0 < d \<Longrightarrow> 0 < boundedHeartbeatInterval d r \<and> boundedHeartbeatInterval d r \<le> 30 * Second
    \<and> (1 < d \<longrightarrow> boundedHeartbeatInterval d r < d)" for d r
    unfolding boundedHeartbeatInterval_def Let_def using pos by (auto split: if_splits)
  then show ?thesis
    using assms pos by (auto simp: NewWorker_def Let_def split: option.splits if_splits)
qed

definition demo_options :: worker_options where
  "demo_options = \<lparr>wo_LeaseDuration = 0, wo_HeartbeatInterval = 7200 * Second,
     wo_PollInterval = - 1, wo_MaxAttempts = 0, wo_Processor = None\<rparr>"

theorem worker_bounds_witness:
  "\<exists>w. NewWorker id plain_html (Some (demo_archive, unavailableProcessor)) demo_options = Inr w
    \<and> wk_heartbeat w < wk_lease w"
proof -
  have n: "NewWorker id plain_html (Some (demo_archive, unavailableProcessor)) demo_options
      = Inr (case NewWorker id plain_html (Some (demo_archive, unavailableProcessor)) demo_options of
               Inr w \<Rightarrow> w)" (is "_ = Inr ?w")
    by (simp add: NewWorker_def Let_def)
  have "wk_lease ?w = 5 * Minute"
    by (simp add: NewWorker_def Let_def demo_options_def defaultWorkerLease_def)
  then show ?thesis
    using worker_bounds [OF n] n by (intro exI [of _ ?w]) (simp add: duration_defs)
qed

subsection \<open>Two workers and one artifact\<close>

text \<open>
  The first worker is in the persisting stage when its lease runs out; the second claims the
  job, produces the same file name and completes. The lemmas follow the two runs.
\<close>

definition staged :: "job \<Rightarrow> stage \<Rightarrow> uint64 \<Rightarrow> job" where
  "staged b st v = b\<lparr>job_Stage := st, job_Version := v\<rparr>"

definition held :: "job \<Rightarrow> stage \<Rightarrow> uint64 \<Rightarrow> lease" where
  "held b st v = \<lparr>lease_Job = staged b st v, lease_Token = job_LeaseToken b,
     lease_ExpiresAt = job_LeaseUntil b, lease_state = Some (v, job_LeaseUntil b)\<rparr>"

lemma staged_simps [simp]:
  "job_ID (staged b st v) = job_ID b" "job_Status (staged b st v) = job_Status b"
  "job_LeaseToken (staged b st v) = job_LeaseToken b" "job_LeaseUntil (staged b st v) = job_LeaseUntil b"
  "job_Version (staged b st v) = v" "job_Stage (staged b st v) = st"
  "(staged b st v)\<lparr>job_Stage := st', job_Version := v'\<rparr> = staged b st' v'"
  by (simp_all add: staged_def)

lemma held_simps [simp]:
  "lease_Job (held b st v) = staged b st v" "lease_Token (held b st v) = job_LeaseToken b"
  "CurrentVersion (Some (held b st v)) = v"
  by (simp_all add: held_def CurrentVersion_def)

lemma race_ops_simps [simp]:
  "op_ClaimNext race_ops c now d s = ClaimNext c now d (if now < 200 then ''t1'' else ''t2'') [''a''] s"
  "op_RenewLease race_ops = RenewLease" "op_SetStage race_ops = SetStage"
  "op_Complete race_ops = Complete" "op_Requeue race_ops = Requeue" "op_Fail race_ops = Fail"
  by (simp_all add: race_ops_def)

lemma race_worker_simps [simp]:
  "wk_processor race_worker = race_processor" "wk_lease race_worker = 100"
  "wk_maxAttempts race_worker = 3"
  by (simp_all add: race_worker_def)

lemma calm_env_simps [simp]:
  "re_now (calm_env t) = t" "re_claim (calm_env t) = None"
  "re_schedule (calm_env t) = (\<lambda>_. ([], None, t))" "re_ctx (calm_env t) site = None"
  "re_clock (calm_env t) site = t" "re_others (calm_env t) site = id"
  "re_contentID (calm_env t) = ''c''"
  by (simp_all add: calm_env_def)

lemma stale_env_simps [simp]:
  "re_now stale_env = 100" "re_claim stale_env = None"
  "re_schedule stale_env = (\<lambda>_. ([], None, 100))" "re_ctx stale_env site = None"
  "re_clock stale_env site = (if site = BeforeStage then 100 else 301)"
  "re_others stale_env site = (if site = BeforeComplete
     then (\<lambda>(s, files). snd (RunOnce id race_ops (artifact_mem id) race_worker (calm_env 300) s files))
     else id)"
  "re_contentID stale_env = ''c''"
  by (simp_all add: stale_env_def)

lemma put_put: "job_ID j = job_ID i \<Longrightarrow> put_job j (put_job i s) = put_job j s"
  by (simp add: put_job_def)








definition slow_job :: job where
  "slow_job = lease_job 100 100 ''t1'' (new_job (demo_cmd ''a''))"

definition fast_job :: job where
  "fast_job = lease_job 300 100 ''t2'' (expire_processing 300 (staged slow_job StagePersisting 6))"

lemma race_jobs [simp]:
  "job_ID slow_job = ''a''" "job_Status slow_job = StatusProcessing" "job_LeaseUntil slow_job = 200"
  "job_LeaseToken slow_job = ''t1''" "job_AttemptCount slow_job = 1"
  "job_ID fast_job = ''a''" "job_Status fast_job = StatusProcessing" "job_LeaseUntil fast_job = 400"
  "job_LeaseToken fast_job = ''t2''" "staged slow_job StageFetching 2 = slow_job"
  "staged fast_job StageFetching 8 = fast_job" "job_Version fast_job = 8"
  by (simp_all add: slow_job_def fast_job_def staged_def lease_job_def expire_processing_def
      new_job_def zero_job_def zero_time_def wrap64_def)








end
