(* ===== verification/Go_Sha256.thy ===== *)
theory Go_Sha256
  imports Go_Encoding
begin

section \<open>SHA-256\<close>

text \<open>
  \<open>crypto/sha256\<close> of the Go standard library, on strings of bytes: the padding, the message
  schedule and the compression of FIPS 180-4. The stores take a digest as an argument; the
  filesystem store needs one of 32 bytes.
\<close>

unbundle bit_operations_syntax

type_synonym word32 = "32 word"

definition sha256_K :: "word32 list" where
  "sha256_K =
     [1116352408, 1899447441, 3049323471, 3921009573, 961987163, 1508970993, 2453635748, 2870763221,
      3624381080, 310598401, 607225278, 1426881987, 1925078388, 2162078206, 2614888103, 3248222580,
      3835390401, 4022224774, 264347078, 604807628, 770255983, 1249150122, 1555081692, 1996064986,
      2554220882, 2821834349, 2952996808, 3210313671, 3336571891, 3584528711, 113926993, 338241895,
      666307205, 773529912, 1294757372, 1396182291, 1695183700, 1986661051, 2177026350, 2456956037,
      2730485921, 2820302411, 3259730800, 3345764771, 3516065817, 3600352804, 4094571909, 275423344,
      430227734, 506948616, 659060556, 883997877, 958139571, 1322822218, 1537002063, 1747873779,
      1955562222, 2024104815, 2227730452, 2361852424, 2428436474, 2756734187, 3204031479, 3329325298]"

definition rotr32 :: "nat \<Rightarrow> word32 \<Rightarrow> word32" where
  "rotr32 n x = drop_bit n x OR push_bit (32 - n) x"

definition sha256_s0 :: "word32 \<Rightarrow> word32" where
  "sha256_s0 x = rotr32 7 x XOR rotr32 18 x XOR drop_bit 3 x"
definition sha256_s1 :: "word32 \<Rightarrow> word32" where
  "sha256_s1 x = rotr32 17 x XOR rotr32 19 x XOR drop_bit 10 x"
definition sha256_S0 :: "word32 \<Rightarrow> word32" where
  "sha256_S0 x = rotr32 2 x XOR rotr32 13 x XOR rotr32 22 x"
definition sha256_S1 :: "word32 \<Rightarrow> word32" where
  "sha256_S1 x = rotr32 6 x XOR rotr32 11 x XOR rotr32 25 x"

text \<open>The schedule, latest word first.\<close>

fun sha256_extend :: "nat \<Rightarrow> word32 list \<Rightarrow> word32 list" where
  "sha256_extend 0 ws = ws"
| "sha256_extend (Suc n) ws =
     sha256_extend n ((sha256_s1 (ws ! 1) + ws ! 6 + sha256_s0 (ws ! 14) + ws ! 15) # ws)"

type_synonym digest = "word32 \<times> word32 \<times> word32 \<times> word32 \<times> word32 \<times> word32 \<times> word32 \<times> word32"

definition sha256_init :: digest where
  "sha256_init = (1779033703, 3144134277, 1013904242, 2773480762,
     1359893119, 2600822924, 528734635, 1541459225)"

fun sha256_round :: "word32 \<times> word32 \<Rightarrow> digest \<Rightarrow> digest" where
  "sha256_round (k, w) (a, b, c, d, e, f, g, h) =
     (let t1 = h + sha256_S1 e + ((e AND f) XOR ((NOT e) AND g)) + k + w;
          t2 = sha256_S0 a + ((a AND b) XOR (a AND c) XOR (b AND c))
      in (t1 + t2, a, b, c, d + t1, e, f, g))"

fun digest_add :: "digest \<Rightarrow> digest \<Rightarrow> digest" where
  "digest_add (a, b, c, d, e, f, g, h) (a', b', c', d', e', f', g', h') =
     (a + a', b + b', c + c', d + d', e + e', f + f', g + g', h + h')"

definition sha256_block :: "word32 list \<Rightarrow> digest \<Rightarrow> digest" where
  "sha256_block ws st =
     digest_add st (fold sha256_round (zip sha256_K (rev (sha256_extend 48 (rev ws)))) st)"

definition be_word :: "nat list \<Rightarrow> word32" where
  "be_word bs = fold (\<lambda>b w. push_bit 8 w OR word_of_nat b) bs 0"

definition word_be :: "word32 \<Rightarrow> nat list" where
  "word_be w = map (\<lambda>i. unat (drop_bit (8 * i) w AND 0xFF)) [3, 2, 1, 0]"

definition sha256_pad :: "nat list \<Rightarrow> nat list" where
  "sha256_pad bs =
     (let n = length bs; bits = (8 * n) mod 2 ^ 64
      in bs @ [0x80] @ replicate ((119 - n mod 64) mod 64) 0
         @ map (\<lambda>i. (bits div 256 ^ i) mod 256) [7, 6, 5, 4, 3, 2, 1, 0])"

definition pieces_of :: "nat \<Rightarrow> 'a list \<Rightarrow> 'a list list" where
  "pieces_of n xs = map (\<lambda>i. take n (drop (n * i) xs)) [0..<length xs div n]"

definition Sum256 :: "string \<Rightarrow> string" where
  "Sum256 s =
     (let blocks = pieces_of 64 (sha256_pad (map byte s));
          (a, b, c, d, e, f, g, h) =
            fold (\<lambda>block st. sha256_block (map be_word (pieces_of 4 block)) st) blocks sha256_init
      in map char_of (concat (map word_be [a, b, c, d, e, f, g, h])))"

lemma length_Sum256 [simp]: "length (Sum256 s) = 32"
  by (simp add: Sum256_def Let_def word_be_def split: prod.splits)

end
