(* ===== verification/Filesystem.thy ===== *)
theory Filesystem
  imports Artifacts Go_URL Go_Sha256
begin

section \<open>The filesystem artifact store\<close>

text \<open>
  \<open>internal/filesystem/store.go\<close>. The host directory below the store's root is a map from
  relative paths, lists of names, to entries; the root itself is the empty path. What the
  operating system may answer is an argument of every operation: for each call the context at
  that moment, an error, or none, the bytes each \<open>Write\<close> accepts, and the name \<open>CreateTemp\<close>
  tries last.
\<close>

datatype entry = Directory | Symlink | RegularFile string

type_synonym path = "string list"

record disk =
  disk_root :: string
  disk_entries :: "path \<rightharpoonup> entry"

datatype fs_site =
    AtStart | AtChunk nat | AfterWrite | BeforeRename | AtVerify
  | LstatDir | MkdirDir | RelstatDir | ChmodDir | LstatPath | CreateTemp | ChmodTemp | SyncTemp
  | CloseTemp | LstatFinal | RenameTemp | OpenDirectory | SyncDirectory | CloseDirectory | OpenFile | StatFile | ReadFile | SeekFile
  | RemoveTemp | RemoveFile

record fs_env =
  fe_ctx :: "fs_site \<Rightarrow> error option"
  fe_io :: "fs_site \<Rightarrow> error option"
  fe_write :: "nat \<Rightarrow> nat \<times> error option"
  fe_temp :: string

subsection \<open>Keys\<close>

definition maxKeyLength :: nat where "maxKeyLength = 1024"
definition maxSegmentLength :: nat where "maxSegmentLength = 255"
definition writeChunkSize :: nat where "writeChunkSize = 32768"

text \<open>\<open>filepath.Clean\<close>, \<open>IsAbs\<close> and \<open>FromSlash\<close> on a Unix host; volume names are empty.\<close>

definition filepath_IsAbs :: "string \<Rightarrow> bool" where
  "filepath_IsAbs p \<longleftrightarrow> HasPrefix p ''/''"

fun clean_parts :: "bool \<Rightarrow> string list \<Rightarrow> string list \<Rightarrow> string list" where
  "clean_parts rooted done [] = rev done"
| "clean_parts rooted done (p # ps) =
     (if p = '''' \<or> p = ''.'' then clean_parts rooted done ps
      else if p = ''..'' then
        (case done of
           d # ds \<Rightarrow> if d = ''..'' then clean_parts rooted (p # done) ps
                     else clean_parts rooted ds ps
         | [] \<Rightarrow> if rooted then clean_parts rooted [] ps else clean_parts rooted [p] ps)
      else clean_parts rooted (p # done) ps)"

definition filepath_Clean :: "string \<Rightarrow> string" where
  "filepath_Clean p =
     (let rooted = filepath_IsAbs p;
          s = Join (clean_parts rooted [] (Split p (CHR ''/''))) ''/''
      in if rooted then ''/'' @ s else if s = '''' then ''.'' else s)"

definition validateKey :: "string \<Rightarrow> error option" where
  "validateKey key =
     (if key = '''' \<or> maxKeyLength < length key \<or> CHR 0x00 \<in> set key then Some ErrUnsafeKey
      else if filepath_IsAbs key \<or> CHR 0x5C \<in> set key then Some ErrUnsafeKey
      else if filepath_Clean key \<noteq> key then Some ErrUnsafeKey
      else None)"

definition validateSegment :: "string \<Rightarrow> error option" where
  "validateSegment segment =
     (if segment = '''' \<or> maxSegmentLength < length segment \<or> TrimSpace segment = ''''
      then Some ErrUnsafeKey
      else if segment = ''.'' \<or> segment = ''..'' \<or> CHR 0x00 \<in> set segment then Some ErrUnsafeKey
      else if ContainsAny segment [CHR ''/'', CHR 0x5C] \<or> filepath_IsAbs segment
      then Some ErrUnsafeKey
      else None)"

fun validate_parts :: "string list \<Rightarrow> error option" where
  "validate_parts [] = None"
| "validate_parts (p # ps) =
     (case validateSegment p of Some e \<Rightarrow> Some e | None \<Rightarrow> validate_parts ps)"

definition splitKey :: "string \<Rightarrow> error + string list" where
  "splitKey key =
     (case validateKey key of
        Some e \<Rightarrow> Inl e
      | None \<Rightarrow> (let parts = Split key (CHR ''/'')
                 in case validate_parts parts of Some e \<Rightarrow> Inl e | None \<Rightarrow> Inr parts))"

subsection \<open>Calls of the operating system\<close>

definition operationError :: "string \<Rightarrow> error \<Rightarrow> error" where
  "operationError operation e =
     (if errors_Is e ErrInvalidRoot \<or> errors_Is e ErrUnsafeKey \<or> errors_Is e ErrEmptyArtifact
         \<or> errors_Is e ErrChecksumMismatch \<or> errors_Is e ErrSizeMismatch \<or> errors_Is e Canceled
         \<or> errors_Is e DeadlineExceeded \<or> errors_Is e OsErrNotExist
      then e else OperationFailure operation e)"

definition ELOOP :: error where
  "ELOOP = NewError ''too many levels of symbolic links''"

definition os_Lstat :: "fs_env \<Rightarrow> fs_site \<Rightarrow> path \<Rightarrow> disk \<Rightarrow> error + entry" where
  "os_Lstat env site p d =
     (case fe_io env site of
        Some e \<Rightarrow> Inl e
      | None \<Rightarrow> if p = [] then Inr Directory
                else case disk_entries d p of None \<Rightarrow> Inl OsErrNotExist | Some x \<Rightarrow> Inr x)"

definition put_entry :: "path \<Rightarrow> entry \<Rightarrow> disk \<Rightarrow> disk" where
  "put_entry p x d = d\<lparr>disk_entries := (disk_entries d)(p \<mapsto> x)\<rparr>"

definition drop_entry :: "path \<Rightarrow> disk \<Rightarrow> disk" where
  "drop_entry p d = d\<lparr>disk_entries := (disk_entries d)(p := None)\<rparr>"

text \<open>A new directory is empty.\<close>

definition make_directory :: "path \<Rightarrow> disk \<Rightarrow> disk" where
  "make_directory p d = d\<lparr>disk_entries := (\<lambda>q.
     if q = p then Some Directory else if take (length p) q = p then None else disk_entries d q)\<rparr>"

definition ensureJobDirectory :: "fs_env \<Rightarrow> string \<Rightarrow> disk \<Rightarrow> (path, disk) outcome" where
  "ensureJobDirectory env jobID d =
     (case validateSegment jobID of
        Some e \<Rightarrow> (Inl e, d)
      | None \<Rightarrow>
          (let found = os_Lstat env LstatDir [jobID] d;
               missing = (case found of Inl e \<Rightarrow> errors_Is e OsErrNotExist | Inr _ \<Rightarrow> False);
               made = (if \<not> missing then (None, d)
                       else case fe_io env MkdirDir of
                              None \<Rightarrow> (None, make_directory [jobID] d)
                            | Some e \<Rightarrow> if errors_Is e OsErrExist then (None, d) else (Some e, d))
           in case made of
                (Some e, d1) \<Rightarrow> (Inl (operationError ''create artifact directory'' e), d1)
              | (None, d1) \<Rightarrow>
                  (case (if missing then os_Lstat env RelstatDir [jobID] d1 else found) of
                     Inl e \<Rightarrow> (Inl (operationError ''inspect artifact directory'' e), d1)
                   | Inr info \<Rightarrow>
                       if info \<noteq> Directory then (Inl ErrUnsafeKey, d1)
                       else (case fe_io env ChmodDir of
                               Some e \<Rightarrow> (Inl (operationError ''secure artifact directory'' e), d1)
                             | None \<Rightarrow> (Inr [jobID], d1)))))"

text \<open>The walk of \<open>resolveParent\<close> below a directory that is already verified.\<close>

fun resolve_from :: "fs_env \<Rightarrow> path \<Rightarrow> string list \<Rightarrow> disk \<Rightarrow> error + path" where
  "resolve_from env parent [] d = Inr parent"
| "resolve_from env parent (part # parts) d =
     (case os_Lstat env LstatPath (parent @ [part]) d of
        Inl e \<Rightarrow> if errors_Is e OsErrNotExist then Inl OsErrNotExist
                 else Inl (operationError ''inspect artifact path'' e)
      | Inr info \<Rightarrow> if info \<noteq> Directory then Inl ErrUnsafeKey
                    else resolve_from env (parent @ [part]) parts d)"

definition resolveParent :: "fs_env \<Rightarrow> string \<Rightarrow> disk \<Rightarrow> error + path \<times> path" where
  "resolveParent env key d =
     (case splitKey key of
        Inl e \<Rightarrow> Inl e
      | Inr parts \<Rightarrow>
          (case resolve_from env [] (butlast parts) d of
             Inl e \<Rightarrow> Inl e
           | Inr parent \<Rightarrow> Inr (parent @ [last parts], parent)))"

subsection \<open>Writing and verifying\<close>

text \<open>\<open>writeContext\<close>: the bytes written so far are the content of the temporary file, and the
  input of the hash. \<open>Write\<close> accepts at most what it is given.\<close>

function writeContext ::
  "fs_env \<Rightarrow> string \<Rightarrow> nat \<Rightarrow> nat \<Rightarrow> string \<Rightarrow> error option \<times> string" where
  "writeContext env data offset i content =
     (if length data \<le> offset then (None, content)
      else case fe_ctx env (AtChunk i) of
             Some e \<Rightarrow> (Some e, content)
           | None \<Rightarrow>
               (let chunk = take writeChunkSize (drop offset data);
                    (accepted, err) = fe_write env i;
                    written = min accepted (length chunk);
                    content = content @ take written chunk
                in case err of
                     Some e \<Rightarrow> (Some (operationError ''write artifact'' e), content)
                   | None \<Rightarrow> if written = 0 then (Some ErrShortWrite, content)
                             else writeContext env data (offset + written) (Suc i) content))"
  by pat_completeness auto
termination
  by (relation "measure (\<lambda>(env, data, offset, i, content). length data - offset)")
    (auto simp: Let_def)

declare writeContext.simps [simp del]

definition is_hex :: "char \<Rightarrow> bool" where
  "is_hex c \<longleftrightarrow> unhex c \<noteq> None"

definition validChecksum :: "string \<Rightarrow> bool" where
  "validChecksum checksum \<longleftrightarrow> length checksum = 64 \<and> list_all is_hex checksum"

text \<open>\<open>strings.EqualFold\<close> of two strings of hexadecimal digits.\<close>

definition hex_EqualFold :: "string \<Rightarrow> string \<Rightarrow> bool" where
  "hex_EqualFold a b \<longleftrightarrow> map lower_byte a = map lower_byte b"

definition verifyFile ::
  "(string \<Rightarrow> string) \<Rightarrow> fs_env \<Rightarrow> string \<Rightarrow> int \<Rightarrow> string \<Rightarrow> error option" where
  "verifyFile sha256 env content expectedSize checksum =
     (if expectedSize < 0 then Some ErrSizeMismatch
      else if \<not> validChecksum checksum then Some ErrChecksumMismatch
      else case fe_io env StatFile of
             Some e \<Rightarrow> Some (operationError ''stat artifact'' e)
           | None \<Rightarrow>
               if int (length content) \<noteq> expectedSize then Some ErrSizeMismatch
               else case fe_ctx env AtVerify of
                      Some e \<Rightarrow> Some e
                    | None \<Rightarrow>
                        (case fe_io env ReadFile of
                           Some e \<Rightarrow> Some (operationError ''read artifact'' e)
                         | None \<Rightarrow>
                             if \<not> hex_EqualFold (hex_encode (sha256 content)) checksum
                             then Some ErrChecksumMismatch else None))"

text \<open>\<open>openReadOnlyNoFollow\<close> of a path that was a regular file when it was inspected.\<close>

definition verifyCommitted ::
  "(string \<Rightarrow> string) \<Rightarrow> fs_env \<Rightarrow> path \<Rightarrow> int \<Rightarrow> string \<Rightarrow> disk \<Rightarrow> error option" where
  "verifyCommitted sha256 env p expectedSize checksum d =
     (case fe_io env OpenFile of
        Some e \<Rightarrow> Some (operationError ''verify artifact'' e)
      | None \<Rightarrow>
          (case disk_entries d p of
             Some (RegularFile content) \<Rightarrow> verifyFile sha256 env content expectedSize checksum
           | Some Directory \<Rightarrow> Some ErrUnsafeKey
           | Some Symlink \<Rightarrow>
               Some (operationError ''verify artifact'' ELOOP)
           | None \<Rightarrow> Some (operationError ''verify artifact'' OsErrNotExist)))"

subsection \<open>Operations\<close>

text \<open>The deferred removal of the temporary file, and \<open>removeFile\<close>, whose errors are dropped.\<close>

definition removeTemporary :: "fs_env \<Rightarrow> path \<Rightarrow> disk \<Rightarrow> disk" where
  "removeTemporary env temporary d =
     (case fe_io env RemoveTemp of None \<Rightarrow> drop_entry temporary d | Some _ \<Rightarrow> d)"

definition removeFile :: "fs_env \<Rightarrow> path \<Rightarrow> disk \<Rightarrow> disk" where
  "removeFile env p d =
     (case fe_io env RemoveFile of None \<Rightarrow> drop_entry p d | Some _ \<Rightarrow> d)"

text \<open>Everything up to the rename: the temporary file with its content, or an error. The
  temporary file exists already, empty.\<close>

definition fill_temporary :: "fs_env \<Rightarrow> path \<Rightarrow> string \<Rightarrow> disk \<Rightarrow> error option \<times> disk" where
  "fill_temporary env temporary data d =
     (case fe_io env ChmodTemp of
        Some e \<Rightarrow> (Some (operationError ''secure temporary artifact'' e), d)
      | None \<Rightarrow>
          (case writeContext env data 0 0 '''' of
             (Some e, content) \<Rightarrow> (Some e, put_entry temporary (RegularFile content) d)
           | (None, content) \<Rightarrow>
               (let d = put_entry temporary (RegularFile content) d
                in case fe_ctx env AfterWrite of
                     Some e \<Rightarrow> (Some e, d)
                   | None \<Rightarrow>
                       (case fe_io env SyncTemp of
                          Some e \<Rightarrow> (Some (operationError ''synchronize artifact'' e), d)
                        | None \<Rightarrow>
                            (case fe_io env CloseTemp of
                               Some e \<Rightarrow> (Some (operationError ''close temporary artifact'' e), d)
                             | None \<Rightarrow> (None, d))))))"

text \<open>A destination that is no regular file is never replaced.\<close>

definition check_destination :: "fs_env \<Rightarrow> path \<Rightarrow> disk \<Rightarrow> error option" where
  "check_destination env final d =
     (case os_Lstat env LstatFinal final d of
        Inl e \<Rightarrow> if errors_Is e OsErrNotExist then None
                 else Some (operationError ''inspect artifact destination'' e)
      | Inr (RegularFile _) \<Rightarrow> None
      | Inr _ \<Rightarrow> Some ErrUnsafeKey)"

definition commit_temporary :: "fs_env \<Rightarrow> path \<Rightarrow> path \<Rightarrow> disk \<Rightarrow> error option \<times> disk" where
  "commit_temporary env temporary final d =
     (case check_destination env final d of
        Some e \<Rightarrow> (Some e, removeTemporary env temporary d)
      | None \<Rightarrow>
          (case fe_ctx env BeforeRename of
             Some e \<Rightarrow> (Some e, removeTemporary env temporary d)
           | None \<Rightarrow>
               (case fe_io env RenameTemp of
                  Some e \<Rightarrow> (Some (operationError ''commit artifact'' e), removeTemporary env temporary d)
                | None \<Rightarrow>
                    (case disk_entries d temporary of
                       None \<Rightarrow> (Some (operationError ''commit artifact'' OsErrNotExist), d)
                     | Some file \<Rightarrow> (None, put_entry final file (drop_entry temporary d))))))"

definition directorySyncUnsupported :: "error \<Rightarrow> bool" where
  "directorySyncUnsupported e \<longleftrightarrow> errors_Is e (NewError ''invalid argument'')
     \<or> errors_Is e (NewError ''is a directory'') \<or> errors_Is e (NewError ''operation not supported'')"

definition syncDirectory :: "fs_env \<Rightarrow> error option" where
  "syncDirectory env =
     (case fe_io env OpenDirectory of
        Some e \<Rightarrow> Some (operationError ''open artifact directory'' e)
      | None \<Rightarrow>
          (case fe_io env SyncDirectory of
             Some e \<Rightarrow>
               if \<not> directorySyncUnsupported e
               then Some (operationError ''synchronize artifact directory'' e)
               else map_option (operationError ''synchronize artifact directory'')
                      (fe_io env CloseDirectory)
           | None \<Rightarrow> map_option (operationError ''synchronize artifact directory'')
                      (fe_io env CloseDirectory)))"

text \<open>From the creation of the temporary file to the verification of the published one.\<close>

definition publish_file ::
  "(string \<Rightarrow> string) \<Rightarrow> fs_env \<Rightarrow> path \<Rightarrow> path \<Rightarrow> string \<Rightarrow> artifact \<Rightarrow> disk \<Rightarrow> error option \<times> disk" where
  "publish_file sha256 env temporary final data a d =
     (case (case fe_io env CreateTemp of
              Some e \<Rightarrow> Some e
            | None \<Rightarrow> if disk_entries d temporary \<noteq> None then Some OsErrExist else None) of
        Some e \<Rightarrow> (Some (operationError ''create temporary artifact'' e), d)
      | None \<Rightarrow>
          (case fill_temporary env temporary data (put_entry temporary (RegularFile '''') d) of
             (Some e, d) \<Rightarrow> (Some e, removeTemporary env temporary d)
           | (None, d) \<Rightarrow>
               (case commit_temporary env temporary final d of
                  (Some e, d) \<Rightarrow> (Some e, d)
                | (None, d) \<Rightarrow>
                    (case syncDirectory env of
                       Some e \<Rightarrow> (Some e, d)
                     | None \<Rightarrow>
                         (case verifyCommitted sha256 env final (art_ByteSize a) (art_Checksum a) d of
                            Some e \<Rightarrow> (Some e, removeFile env final d)
                          | None \<Rightarrow> (None, d))))))"

definition fs_artifact ::
  "(string \<Rightarrow> string) \<Rightarrow> job_id \<Rightarrow> string \<Rightarrow> string \<Rightarrow> time \<Rightarrow> artifact" where
  "fs_artifact sha256 jobID filename data now =
     \<lparr>art_Key = jobID @ ''/'' @ filename, art_Filename = filename,
      art_MediaType = ''application/pdf'', art_ByteSize = int (length data),
      art_Checksum = hex_encode (sha256 data), art_Available = True, art_CreatedAt = now\<rparr>"

definition fs_Put ::
  "(string \<Rightarrow> string) \<Rightarrow> fs_env \<Rightarrow> job_id \<Rightarrow> string \<Rightarrow> string \<Rightarrow> time \<Rightarrow> disk \<Rightarrow> (artifact, disk) outcome"
where
  "fs_Put sha256 env jobID filename data now d =
     (case fe_ctx env AtStart of
        Some e \<Rightarrow> (Inl e, d)
      | None \<Rightarrow>
          if disk_root d = '''' then (Inl ErrInvalidRoot, d)
          else if data = '''' then (Inl ErrEmptyArtifact, d)
          else case validateSegment jobID of
                 Some e \<Rightarrow> (Inl e, d)
               | None \<Rightarrow>
          (case validateSegment filename of
             Some e \<Rightarrow> (Inl e, d)
           | None \<Rightarrow>
          (case ensureJobDirectory env jobID d of
             (Inl e, d1) \<Rightarrow> (Inl e, d1)
           | (Inr jobDir, d1) \<Rightarrow>
          (case resolveParent env (jobID @ ''/'' @ filename) d1 of
             Inl e \<Rightarrow> (Inl e, d1)
           | Inr (final, parent) \<Rightarrow>
               if parent \<noteq> jobDir then (Inl ErrUnsafeKey, d1)
               else
                 (let a = fs_artifact sha256 jobID filename data now
                  in case publish_file sha256 env (parent @ [fe_temp env]) final data a d1 of
                       (Some e, d2) \<Rightarrow> (Inl e, d2)
                     | (None, d2) \<Rightarrow> (Inr a, d2))))))"

definition fs_Open ::
  "(string \<Rightarrow> string) \<Rightarrow> fs_env \<Rightarrow> artifact \<Rightarrow> disk \<Rightarrow> error + string" where
  "fs_Open sha256 env a d =
     (case fe_ctx env AtStart of
        Some e \<Rightarrow> Inl e
      | None \<Rightarrow>
          if disk_root d = '''' then Inl ErrInvalidRoot
          else if \<not> art_Available a then Inl OsErrNotExist
          else case validateKey (art_Key a) of
                 Some e \<Rightarrow> Inl e
               | None \<Rightarrow>
          (case (if art_Filename a = '''' then None else validateSegment (art_Filename a)) of
             Some e \<Rightarrow> Inl e
           | None \<Rightarrow>
               if art_ByteSize a < 0 then Inl ErrSizeMismatch
               else if \<not> validChecksum (art_Checksum a) then Inl ErrChecksumMismatch
               else case resolveParent env (art_Key a) d of
                      Inl e \<Rightarrow> if errors_Is e OsErrNotExist then Inl OsErrNotExist else Inl e
                    | Inr (p, parent) \<Rightarrow>
          (case os_Lstat env LstatFinal p d of
             Inl e \<Rightarrow> if errors_Is e OsErrNotExist then Inl OsErrNotExist
                      else Inl (operationError ''inspect artifact'' e)
           | Inr (RegularFile content) \<Rightarrow>
               (case fe_io env OpenFile of
                  Some e \<Rightarrow> if errors_Is e OsErrNotExist then Inl OsErrNotExist
                            else if errors_Is e ELOOP then Inl ErrUnsafeKey
                            else Inl (operationError ''open artifact'' e)
                | None \<Rightarrow>
                    (case verifyFile sha256 env content (art_ByteSize a) (art_Checksum a) of
                       Some e \<Rightarrow> Inl e
                     | None \<Rightarrow>
                         (case fe_io env SeekFile of
                            Some e \<Rightarrow> Inl (operationError ''rewind artifact'' e)
                          | None \<Rightarrow> Inr content)))
           | Inr _ \<Rightarrow> Inl ErrUnsafeKey)))"

definition fs_Delete :: "fs_env \<Rightarrow> artifact \<Rightarrow> disk \<Rightarrow> error option \<times> disk" where
  "fs_Delete env a d =
     (case fe_ctx env AtStart of
        Some e \<Rightarrow> (Some e, d)
      | None \<Rightarrow>
          if disk_root d = '''' then (Some ErrInvalidRoot, d)
          else case validateKey (art_Key a) of
                 Some e \<Rightarrow> (Some e, d)
               | None \<Rightarrow>
          (case resolveParent env (art_Key a) d of
             Inl e \<Rightarrow> (if errors_Is e OsErrNotExist then None else Some e, d)
           | Inr (p, parent) \<Rightarrow>
               (case os_Lstat env LstatFinal p d of
                  Inl e \<Rightarrow> (if errors_Is e OsErrNotExist then None
                            else Some (operationError ''inspect artifact for deletion'' e), d)
                | Inr Directory \<Rightarrow> (Some ErrUnsafeKey, d)
                | Inr _ \<Rightarrow>
                    (case fe_io env RemoveFile of
                       Some e \<Rightarrow> (if errors_Is e OsErrNotExist then None
                                  else Some (operationError ''delete artifact'' e), d)
                     | None \<Rightarrow>
                         (syncDirectory env, drop_entry p d)))))"

end
