(* ===== verification/Filesystem_Facts.thy ===== *)
theory Filesystem_Facts
  imports Filesystem
begin

section \<open>What the filesystem store keeps\<close>

text \<open>
  The abstraction of a disk is the map \<open>file_at\<close> from paths to the bytes of the regular files
  that can be reached through real directories. The lemmas show what every call of the operating
  system does to it, and then that the operations refine the operations on such a map whatever
  the operating system answers.
\<close>

subsection \<open>Keys\<close>

definition safe_part :: "string \<Rightarrow> bool" where
  "safe_part p \<longleftrightarrow> p \<notin> {'''', ''.'', ''..''} \<and> CHR ''/'' \<notin> set p \<and> CHR 0x5C \<notin> set p
     \<and> CHR 0x00 \<notin> set p \<and> length p \<le> maxSegmentLength"

lemma validateSegment_safe: "validateSegment p = None \<Longrightarrow> safe_part p"
  by (auto simp: validateSegment_def safe_part_def ContainsAny_def split: if_splits)

lemma validate_parts_safe: "validate_parts ps = None \<Longrightarrow> \<forall>p \<in> set ps. safe_part p"
  by (induction ps) (auto simp: validateSegment_safe split: option.splits)

lemma splitKey_safe:
  assumes "splitKey key = Inr parts"
  shows "parts \<noteq> []" and "\<forall>p \<in> set parts. safe_part p" and "Join parts ''/'' = key"
    and "length key \<le> maxKeyLength" and "parts = Split key (CHR ''/'')"
  using assms validate_parts_safe [of parts]
  by (auto simp: splitKey_def Let_def validateKey_def Split_Join split: option.splits if_splits)

lemma splitKey_inj: "splitKey k = Inr ps \<Longrightarrow> splitKey k' = Inr ps \<Longrightarrow> k = k'"
  by (metis splitKey_safe(3))

lemma Split_two:
  assumes "CHR ''/'' \<notin> set a" and "CHR ''/'' \<notin> set b"
  shows "Split (a @ ''/'' @ b) (CHR ''/'') = [a, b]"
proof -
  have b: "Split b (CHR ''/'') = [b]"
    using assms(2) by (induction b) (auto split: list.splits)
  show ?thesis using assms(1) by (induction a) (auto simp: b split: list.splits)
qed

subsection \<open>The files on a disk\<close>

definition dirs_ok :: "disk \<Rightarrow> path \<Rightarrow> bool" where
  "dirs_ok d p \<longleftrightarrow> (\<forall>n. Suc n < length p \<longrightarrow> disk_entries d (take (Suc n) p) = Some Directory)"

definition file_at :: "disk \<Rightarrow> path \<Rightarrow> string option" where
  "file_at d p =
     (case disk_entries d p of
        Some (RegularFile content) \<Rightarrow> if dirs_ok d p then Some content else None
      | _ \<Rightarrow> None)"

lemma file_at_Some:
  "file_at d p = Some c \<longleftrightarrow> disk_entries d p = Some (RegularFile c) \<and> dirs_ok d p"
  by (auto simp: file_at_def split: option.splits entry.splits)

lemma file_at_None_directory: "disk_entries d p = Some Directory \<Longrightarrow> file_at d p = None"
  by (simp add: file_at_def)

lemma disk_root_simps [simp]:
  "disk_root (put_entry p x d) = disk_root d" "disk_root (drop_entry p d) = disk_root d"
  "disk_root (make_directory p d) = disk_root d"
  by (simp_all add: put_entry_def drop_entry_def make_directory_def)

lemma disk_entries_simps [simp]:
  "disk_entries (put_entry p x d) = (disk_entries d)(p \<mapsto> x)"
  "disk_entries (drop_entry p d) = (disk_entries d)(p := None)"
  by (simp_all add: put_entry_def drop_entry_def)

lemma dirs_ok_pair: "dirs_ok d [j, x] \<longleftrightarrow> disk_entries d [j] = Some Directory"
  by (auto simp: dirs_ok_def less_Suc_eq)

lemma file_at_cong:
  assumes "\<And>q. q \<noteq> r \<Longrightarrow> disk_entries d' q = disk_entries d q"
    and "disk_entries d r \<noteq> Some Directory" and "disk_entries d' r \<noteq> Some Directory" and "p \<noteq> r"
  shows "file_at d' p = file_at d p"
proof -
  have "dirs_ok d' p = dirs_ok d p"
    using assms(1,2,3) unfolding dirs_ok_def by metis
  then show ?thesis using assms(1,4) by (simp add: file_at_def split: option.splits entry.splits)
qed

lemma file_at_put_entry:
  assumes "disk_entries d [j] = Some Directory" and "disk_entries d [j, x] \<noteq> Some Directory"
  shows "file_at (put_entry [j, x] (RegularFile c) d) = (file_at d)([j, x] \<mapsto> c)"
proof (rule ext)
  fix p
  show "file_at (put_entry [j, x] (RegularFile c) d) p = ((file_at d)([j, x] \<mapsto> c)) p"
    using assms file_at_cong [of "[j, x]" "put_entry [j, x] (RegularFile c) d" d p]
    by (cases "p = [j, x]") (simp_all add: file_at_def dirs_ok_pair)
qed

lemma file_at_drop_entry:
  assumes "disk_entries d q \<noteq> Some Directory"
  shows "file_at (drop_entry q d) = (file_at d)(q := None)"
proof (rule ext)
  fix p
  show "file_at (drop_entry q d) p = ((file_at d)(q := None)) p"
    using assms file_at_cong [of q "drop_entry q d" d p]
    by (cases "p = q") (simp_all add: file_at_def)
qed

lemma file_at_make_directory:
  assumes "disk_entries d [j] = None"
  shows "file_at (make_directory [j] d) = file_at d"
proof (rule ext)
  fix p
  let ?d = "make_directory [j] d"
  show "file_at ?d p = file_at d p"
  proof (cases "take 1 p = [j]")
    case True
    have "file_at d p = None"
    proof (cases "p = [j]")
      case False
      then have "Suc 0 < length p" using True by (cases p rule: list.exhaust) auto
      then have "\<not> dirs_ok d p" using True assms by (auto simp: dirs_ok_def intro!: exI [of _ 0])
      then show ?thesis by (simp add: file_at_def split: option.splits entry.splits)
    qed (simp add: assms file_at_def)
    moreover have "file_at ?d p = None"
      using True by (simp add: file_at_def make_directory_def)
    ultimately show ?thesis by simp
  next
    case False
    then have same: "disk_entries ?d (take n p) = disk_entries d (take n p)" if "0 < n" for n
      using that by (cases p) (auto simp: make_directory_def take_Cons split: nat.splits)
    moreover have "disk_entries ?d p = disk_entries d p"
      using same [of "length p"] False by (cases p) (auto simp: make_directory_def)
    ultimately show ?thesis by (simp add: file_at_def dirs_ok_def split: option.splits entry.splits)
  qed
qed

subsection \<open>Writing\<close>

lemma writeContext_step:
  assumes "offset < length data" and "fe_ctx env (AtChunk i) = None"
    and "fe_write env i = (accepted, err)"
    and "n = min accepted (length (take writeChunkSize (drop offset data)))"
    and "content' = content @ take n (take writeChunkSize (drop offset data))"
  shows "writeContext env data offset i content =
    (case err of
       Some e \<Rightarrow> (Some (operationError ''write artifact'' e), content')
     | None \<Rightarrow> if n = 0 then (Some ErrShortWrite, content')
               else writeContext env data (offset + n) (Suc i) content')"
proof -
  have "\<not> length data \<le> offset" using assms(1) by simp
  then show ?thesis
    unfolding assms(4,5)
    by (subst writeContext.simps)
      (simp only: assms(2,3) if_False option.case prod.case Let_def)
qed

lemma writeContext_prefix:
  assumes "writeContext env data offset i content = (r, written)"
    and "offset \<le> length data" and "content = take offset data"
  shows "(\<exists>n. written = take n data) \<and> (r = None \<longrightarrow> written = data)"
  using assms
proof (induction "length data - offset" arbitrary: offset i content rule: less_induct)
  case less
  show ?case
  proof (cases "offset < length data \<and> fe_ctx env (AtChunk i) = None")
    case False
    then show ?thesis
      using less.prems by (subst (asm) writeContext.simps)
        (auto split: if_splits option.splits intro: exI [of _ offset] exI [of _ "length data"])
  next
    case True
    obtain accepted err where w: "fe_write env i = (accepted, err)" by (metis surj_pair)
    define n where "n = min accepted (length (take writeChunkSize (drop offset data)))"
    define content' where "content' = content @ take n (take writeChunkSize (drop offset data))"
    have le: "offset + n \<le> length data" using True by (auto simp: n_def)
    have app: "content' = take (offset + n) data"
      using less.prems(3) by (simp add: content'_def n_def take_add min_def)
    have step: "writeContext env data offset i content = (r, written)" by (rule less.prems(1))
    note step = step [unfolded writeContext_step [OF conjunct1 [OF True] conjunct2 [OF True] w n_def
      content'_def]]
    show ?thesis
    proof (cases "err = None \<and> n \<noteq> 0")
      case True
      then show ?thesis
        using step less.hyps [of "offset + n" "Suc i" content'] app le
          \<open>offset < length data \<and> fe_ctx env (AtChunk i) = None\<close> by auto
    next
      case False
      then show ?thesis using step app True by (auto split: option.splits if_splits)
    qed
  qed
qed

subsection \<open>Publishing\<close>

text \<open>The operating system does not report a file missing that is there.\<close>

definition honest :: "fs_env \<Rightarrow> bool" where
  "honest env \<longleftrightarrow> (\<forall>site e. fe_io env site = Some e \<longrightarrow> \<not> errors_Is e OsErrNotExist)"

lemma os_Lstat_Inr: "os_Lstat env site p d = Inr x \<Longrightarrow> p \<noteq> [] \<Longrightarrow> disk_entries d p = Some x"
  by (auto simp: os_Lstat_def split: option.splits if_splits)

lemma os_Lstat_missing:
  "honest env \<Longrightarrow> os_Lstat env site p d = Inl e \<Longrightarrow> errors_Is e OsErrNotExist
    \<Longrightarrow> p \<noteq> [] \<and> disk_entries d p = None"
  by (auto simp: os_Lstat_def honest_def split: option.splits if_splits)

lemma ensureJobDirectory_effect:
  assumes "honest env" and "ensureJobDirectory env j d = (r, d1)"
  shows "disk_root d1 = disk_root d \<and> file_at d1 = file_at d
    \<and> (\<forall>p. r = Inr p \<longrightarrow> p = [j] \<and> disk_entries d1 [j] = Some Directory)"
proof -
  have missing: "disk_entries d [j] = None"
    if "os_Lstat env LstatDir [j] d = Inl e" "errors_Is e OsErrNotExist" for e
    using os_Lstat_missing [OF assms(1) that] by simp
  show ?thesis
    using assms(2)
    by (auto simp: ensureJobDirectory_def Let_def file_at_make_directory missing
        dest!: os_Lstat_Inr missing
        split: option.splits sum.splits prod.splits if_splits)
qed

lemma resolveParent_pair:
  assumes "resolveParent env (j @ ''/'' @ x) d = Inr (final, parent)"
    and "validateSegment j = None" and "validateSegment x = None"
  shows "final = [j, x] \<and> parent = [j] \<and> splitKey (j @ ''/'' @ x) = Inr [j, x]
    \<and> disk_entries d [j] = Some Directory"
proof -
  have "Split (j @ ''/'' @ x) (CHR ''/'') = [j, x]"
    using validateSegment_safe [OF assms(2)] validateSegment_safe [OF assms(3)]
    by (intro Split_two) (simp_all add: safe_part_def)
  then have "splitKey (j @ ''/'' @ x) = Inr [j, x]"
    using assms(1) splitKey_safe(5) [of "j @ ''/'' @ x"]
    by (auto simp: resolveParent_def split: sum.splits)
  then show ?thesis
    using assms(1) by (auto simp: resolveParent_def dest!: os_Lstat_Inr split: sum.splits if_splits)
qed

lemma put_entry_twice: "put_entry p x (put_entry p y d) = put_entry p x d"
  by (simp add: put_entry_def)

lemma drop_put_entry: "disk_entries d p = None \<Longrightarrow> drop_entry p (put_entry p x d) = d"
  by (simp add: put_entry_def drop_entry_def fun_upd_idem)

lemma fill_temporary_effect:
  assumes "fill_temporary env t data (put_entry t (RegularFile '''') d) = (r, d2)"
  shows "(\<exists>n. d2 = put_entry t (RegularFile (take n data)) d)
    \<and> (r = None \<longrightarrow> d2 = put_entry t (RegularFile data) d)"
proof -
  obtain w c where w: "writeContext env data 0 0 '''' = (w, c)" by (metis surj_pair)
  have "(\<exists>n. c = take n data) \<and> (w = None \<longrightarrow> c = data)"
    by (rule writeContext_prefix [OF w]) simp_all
  then obtain n where c: "c = take n data" and c': "w = None \<Longrightarrow> c = data" by blast
  show ?thesis
  proof (cases "fe_io env ChmodTemp")
    case (Some e)
    then show ?thesis
      using assms by (auto simp: fill_temporary_def intro: exI [of _ 0])
  next
    case None
    then have "d2 = put_entry t (RegularFile c) d \<and> (r = None \<longrightarrow> w = None)"
      using assms w
      by (auto simp: fill_temporary_def Let_def put_entry_twice split: option.splits)
    then show ?thesis using c c' by auto
  qed
qed

lemma commit_temporary_effect:
  assumes "commit_temporary env t final (put_entry t (RegularFile data) d) = (r, d3)"
    and "honest env" and "final \<noteq> []"
  shows "r \<noteq> None \<and> d3 = removeTemporary env t (put_entry t (RegularFile data) d)
    \<or> r = None \<and> (final = t \<or> disk_entries d final \<noteq> Some Directory)
      \<and> d3 = put_entry final (RegularFile data) (drop_entry t (put_entry t (RegularFile data) d))"
proof -
  have "final = t \<or> disk_entries d final \<noteq> Some Directory"
    if "check_destination env final (put_entry t (RegularFile data) d) = None"
    using that assms(3)
    by (auto simp: check_destination_def dest!: os_Lstat_Inr os_Lstat_missing [OF assms(2)]
        split: sum.splits entry.splits if_splits)
  then show ?thesis
    using assms(1) by (auto simp: commit_temporary_def split: option.splits)
qed

text \<open>The four disks a publication can leave: nothing happened, a partial temporary file is left
  over, the new content is in place, or it was in place and has been removed again.\<close>

lemma publish_file_effect:
  assumes "publish_file sha256 env [j, tmp] [j, x] data a d = (r, d')"
    and "honest env" and dir: "disk_entries d [j] = Some Directory"
  shows "disk_root d' = disk_root d
    \<and> (case r of
         None \<Rightarrow> file_at d' = (file_at d)([j, x] \<mapsto> data)
           \<and> verifyCommitted sha256 env [j, x] (art_ByteSize a) (art_Checksum a) d' = None
       | Some e \<Rightarrow> file_at d' = file_at d
           \<or> (\<exists>n. file_at d' = (file_at d)([j, tmp] \<mapsto> take n data))
           \<or> file_at d' = (file_at d)([j, x] \<mapsto> data)
           \<or> file_at d' = (file_at d)([j, x] := None))"
proof (cases "fe_io env CreateTemp = None \<and> disk_entries d [j, tmp] = None")
  case False
  then show ?thesis using assms(1) by (auto simp: publish_file_def split: option.splits if_splits)
next
  case True
  let ?t = "[j, tmp]" and ?q = "[j, x]"
  obtain fr d2 where fill:
    "fill_temporary env ?t data (put_entry ?t (RegularFile '''') d) = (fr, d2)" by (metis surj_pair)
  obtain n where d2: "d2 = put_entry ?t (RegularFile (take n data)) d"
    and d2': "fr = None \<Longrightarrow> d2 = put_entry ?t (RegularFile data) d"
    using fill_temporary_effect [OF fill] by blast
  have left: "file_at (put_entry ?t (RegularFile c) d) = (file_at d)(?t \<mapsto> c)" for c
    using True by (intro file_at_put_entry dir) simp
  have removed: "file_at (removeTemporary env ?t (put_entry ?t (RegularFile c) d)) \<in>
      {file_at d, (file_at d)(?t \<mapsto> c)} \<and>
      disk_root (removeTemporary env ?t (put_entry ?t (RegularFile c) d)) = disk_root d" for c
    using True left by (auto simp: removeTemporary_def drop_put_entry split: option.splits)
  show ?thesis
  proof (cases fr)
    case (Some e)
    then show ?thesis
      using assms(1) True fill removed [of "take n data"] d2
      by (auto simp: publish_file_def)
  next
    case None
    obtain cr d3 where commit: "commit_temporary env ?t ?q d2 = (cr, d3)" by (metis surj_pair)
    note effect = commit_temporary_effect [OF commit [unfolded d2' [OF None]] assms(2)]
    show ?thesis
    proof (cases cr)
      case (Some e)
      then have "d' = removeTemporary env ?t (put_entry ?t (RegularFile data) d)" "r = Some e"
        using assms(1) True fill None commit effect by (auto simp: publish_file_def)
      then show ?thesis using removed [of data] take_all [of data "length data"]
        by (auto intro: exI [of _ "length data"])
    next
      case cr: None
      have d3: "d3 = put_entry ?q (RegularFile data) d" and nodir: "disk_entries d ?q \<noteq> Some Directory"
        using effect cr True by (auto simp: drop_put_entry)
      have new: "file_at d3 = (file_at d)(?q \<mapsto> data)" "disk_root d3 = disk_root d"
        unfolding d3 by (simp_all add: file_at_put_entry [OF dir nodir])
      have gone: "file_at (drop_entry ?q d3) = (file_at d)(?q := None)"
        using file_at_drop_entry [of d3 ?q] new by (simp add: d3)
      show ?thesis
        using assms(1) True fill None commit cr new gone
        by (auto simp: publish_file_def removeFile_def split: option.splits)
    qed
  qed
qed

subsection \<open>The operations\<close>

lemma fs_Put_effect:
  assumes "fs_Put sha256 env j x data now d = (r, d')" and "honest env"
  shows "disk_root d' = disk_root d
    \<and> (case r of
         Inr a \<Rightarrow> file_at d' = (file_at d)([j, x] \<mapsto> data) \<and> a = fs_artifact sha256 j x data now
           \<and> splitKey (art_Key a) = Inr [j, x] \<and> validateSegment x = None
           \<and> data \<noteq> '''' \<and> disk_root d \<noteq> ''''
       | Inl e \<Rightarrow> file_at d' = file_at d
           \<or> (\<exists>n. file_at d' = (file_at d)([j, fe_temp env] \<mapsto> take n data))
           \<or> file_at d' = (file_at d)([j, x] \<mapsto> data)
           \<or> file_at d' = (file_at d)([j, x] := None))"
proof (cases "fe_ctx env AtStart = None \<and> disk_root d \<noteq> '''' \<and> data \<noteq> ''''
    \<and> validateSegment j = None \<and> validateSegment x = None")
  case False
  then show ?thesis using assms(1) by (auto simp: fs_Put_def split: option.splits if_splits)
next
  case True
  obtain er d1 where ensure: "ensureJobDirectory env j d = (er, d1)" by (metis surj_pair)
  note made = ensureJobDirectory_effect [OF assms(2) ensure]
  show ?thesis
  proof (cases er)
    case (Inl e)
    then show ?thesis using assms(1) True ensure made by (auto simp: fs_Put_def)
  next
    case (Inr dir)
    show ?thesis
    proof (cases "resolveParent env (j @ ''/'' @ x) d1")
      case (Inl e)
      then show ?thesis using assms(1) True ensure made Inr by (auto simp: fs_Put_def)
    next
      case (Inr fp)
      obtain final parent where fp: "fp = (final, parent)" by (metis surj_pair)
      note pair = resolveParent_pair [OF Inr [unfolded fp]]
      let ?a = "fs_artifact sha256 j x data now"
      obtain pr d2 where p: "publish_file sha256 env [j, fe_temp env] [j, x] data ?a d1 = (pr, d2)"
        by (metis surj_pair)
      have "disk_entries d1 [j] = Some Directory" using pair True by simp
      note effect = publish_file_effect [OF p assms(2) this]
      have "(r, d') = (case pr of None \<Rightarrow> Inr ?a | Some e \<Rightarrow> Inl e, d2)"
        using assms(1) True ensure made \<open>er = Inr dir\<close> Inr fp pair p
        by (auto simp: fs_Put_def Let_def split: option.splits)
      then show ?thesis
        using effect made pair True by (cases pr) (auto simp: fs_artifact_def)
    qed
  qed
qed

lemma resolve_from_parent: "resolve_from env parent parts d = Inr q \<Longrightarrow> q = parent @ parts"
proof (induction parts arbitrary: parent)
  case (Cons x parts)
  then have "resolve_from env (parent @ [x]) parts d = Inr q"
    by (auto split: sum.splits if_splits)
  then show ?case using Cons.IH [of "parent @ [x]"] by simp
qed simp

lemma resolve_from_directories:
  "resolve_from env parent parts d = Inr q
    \<Longrightarrow> \<forall>n < length parts. disk_entries d (parent @ take (Suc n) parts) = Some Directory"
proof (induction parts arbitrary: parent)
  case (Cons x parts)
  then have "os_Lstat env LstatPath (parent @ [x]) d = Inr Directory"
    and "resolve_from env (parent @ [x]) parts d = Inr q"
    by (auto split: sum.splits if_splits)
  with Cons.IH [of "parent @ [x]"] show ?case
    by (auto simp: less_Suc_eq_0_disj dest: os_Lstat_Inr)
qed simp

text \<open>Reading: without faults \<open>Open\<close> succeeds on exactly the readable artifacts.\<close>

definition quiet :: "ctx \<Rightarrow> fs_env" where
  "quiet c = \<lparr>fe_ctx = (\<lambda>_. contextErr c), fe_io = (\<lambda>_. None), fe_write = (\<lambda>_. (0, None)),
     fe_temp = ''''\<rparr>"

lemma quiet_simps [simp]: "fe_ctx (quiet c) s = contextErr c" "fe_io (quiet c) s = None"
  by (simp_all add: quiet_def)

definition readable :: "(string \<Rightarrow> string) \<Rightarrow> artifact \<Rightarrow> disk \<Rightarrow> string \<Rightarrow> bool" where
  "readable sha256 a d data \<longleftrightarrow> disk_root d \<noteq> '''' \<and> art_Available a
     \<and> (art_Filename a = '''' \<or> validateSegment (art_Filename a) = None)
     \<and> validChecksum (art_Checksum a) \<and> int (length data) = art_ByteSize a
     \<and> hex_EqualFold (hex_encode (sha256 data)) (art_Checksum a)
     \<and> (\<exists>p. splitKey (art_Key a) = Inr p \<and> file_at d p = Some data)"

lemma os_Lstat_quiet:
  "p \<noteq> [] \<Longrightarrow> os_Lstat (quiet c) site p d = Inr x \<longleftrightarrow> disk_entries d p = Some x"
  by (auto simp: os_Lstat_def split: option.splits)

lemma resolve_from_quiet:
  "resolve_from (quiet c) parent parts d = Inr p \<longleftrightarrow>
     p = parent @ parts
     \<and> (\<forall>n < length parts. disk_entries d (parent @ take (Suc n) parts) = Some Directory)"
proof (induction parts arbitrary: parent)
  case (Cons x parts)
  have all: "(\<forall>n < length (x # parts). P (take (Suc n) (x # parts))) \<longleftrightarrow>
      P [x] \<and> (\<forall>n < length parts. P (x # take (Suc n) parts))" for P
    by (auto simp: less_Suc_eq_0_disj)
  show ?case
  proof (cases "os_Lstat (quiet c) LstatPath (parent @ [x]) d")
    case (Inl e)
    then have "disk_entries d (parent @ [x]) \<noteq> Some Directory"
      using os_Lstat_quiet [of "parent @ [x]" c LstatPath d Directory] by auto
    then show ?thesis
      using Inl by (auto simp: intro!: exI [of _ 0])
  next
    case (Inr y)
    then have "disk_entries d (parent @ [x]) = Some y"
      using os_Lstat_quiet [of "parent @ [x]" c LstatPath d y] by simp
    then show ?thesis
      using Inr Cons.IH [of "parent @ [x]"] all [of "\<lambda>q. disk_entries d (parent @ q) = Some Directory"]
      by auto
  qed
qed auto

lemma resolveParent_Inr:
  assumes "resolveParent env key d = Inr (final, parent)"
  shows "splitKey key = Inr final \<and> parent = butlast final"
proof -
  obtain parts where parts: "splitKey key = Inr parts" "resolve_from env [] (butlast parts) d = Inr parent"
      "final = parent @ [last parts]"
    using assms by (auto simp: resolveParent_def split: sum.splits)
  then have "final = parts" "parent = butlast parts"
    using resolve_from_parent [OF parts(2)] splitKey_safe(1) [OF parts(1)] by simp_all
  then show ?thesis using parts(1) by simp
qed

lemma resolveParent_quiet:
  "resolveParent (quiet c) key d = Inr (final, parent) \<longleftrightarrow>
     splitKey key = Inr final \<and> parent = butlast final \<and> dirs_ok d final"
proof (cases "splitKey key")
  case (Inr parts)
  have "(\<forall>n < length (butlast parts). disk_entries d (take (Suc n) (butlast parts)) = Some Directory)
      \<longleftrightarrow> dirs_ok d parts"
    by (auto simp: dirs_ok_def take_butlast)
  then have r: "resolve_from (quiet c) [] (butlast parts) d = Inr q
      \<longleftrightarrow> q = butlast parts \<and> dirs_ok d parts" for q
    by (simp add: resolve_from_quiet)
  show ?thesis
  proof (cases "resolve_from (quiet c) [] (butlast parts) d")
    case (Inl e)
    then show ?thesis using Inr r [of "butlast parts"] by (auto simp: resolveParent_def)
  next
    case q: (Inr q)
    then show ?thesis using Inr r [of q] splitKey_safe(1) [OF Inr] by (auto simp: resolveParent_def)
  qed
qed (auto simp: resolveParent_def)

lemma validateKey_splitKey: "splitKey key = Inr parts \<Longrightarrow> validateKey key = None"
  by (auto simp: splitKey_def split: option.splits)

lemma verifyFile_quiet:
  "verifyFile sha256 (quiet c) content n checksum = None \<longleftrightarrow>
     contextErr c = None \<and> validChecksum checksum \<and> int (length content) = n
     \<and> hex_EqualFold (hex_encode (sha256 content)) checksum"
  by (auto simp: verifyFile_def split: option.splits)

lemma fs_Open_quiet:
  "fs_Open sha256 (quiet c) a d = Inr data \<longleftrightarrow> contextErr c = None \<and> readable sha256 a d data"
  (is "?open = Inr data \<longleftrightarrow> _")
proof
  assume o: "?open = Inr data"
  then obtain p parent where r: "resolveParent (quiet c) (art_Key a) d = Inr (p, parent)"
    by (auto simp: fs_Open_def split: option.splits if_splits sum.splits)
  then have p: "splitKey (art_Key a) = Inr p" "dirs_ok d p" by (auto simp: resolveParent_quiet)
  have "p \<noteq> []" using splitKey_safe(1) [OF p(1)] .
  then show "contextErr c = None \<and> readable sha256 a d data"
    using o r p
    by (auto simp: fs_Open_def readable_def file_at_Some os_Lstat_quiet verifyFile_quiet
        split: option.splits if_splits sum.splits entry.splits)
next
  assume "contextErr c = None \<and> readable sha256 a d data"
  then obtain p where p: "splitKey (art_Key a) = Inr p" "file_at d p = Some data"
    and c: "contextErr c = None" and a: "readable sha256 a d data"
    by (auto simp: readable_def)
  have "p \<noteq> []" using splitKey_safe(1) [OF p(1)] .
  then have l: "os_Lstat (quiet c) LstatFinal p d = Inr (RegularFile data)"
    using p(2) by (simp add: os_Lstat_quiet file_at_Some)
  have r: "resolveParent (quiet c) (art_Key a) d = Inr (p, butlast p)"
    using p by (simp add: resolveParent_quiet file_at_Some)
  have v: "verifyFile sha256 (quiet c) data (art_ByteSize a) (art_Checksum a) = None"
    using a c by (simp add: verifyFile_quiet readable_def)
  show "?open = Inr data"
    using a c l r v validateKey_splitKey [OF p(1)] by (auto simp: fs_Open_def readable_def)
qed

lemma errors_Is_OperationFailure:
  "errors_Is (OperationFailure op e) t \<longleftrightarrow> OperationFailure op e = t \<or> errors_Is e t"
  by (subst errors_Is.simps) simp

lemma operationError_missing:
  "errors_Is (operationError op e) OsErrNotExist \<longleftrightarrow> errors_Is e OsErrNotExist"
  by (simp add: operationError_def errors_Is_OperationFailure)

lemma resolve_from_missing:
  assumes "honest env" and "resolve_from env parent parts d = Inl e" and "errors_Is e OsErrNotExist"
  shows "\<exists>n < length parts. disk_entries d (parent @ take (Suc n) parts) = None"
  using assms(2)
proof (induction parts arbitrary: parent)
  case (Cons x parts)
  show ?case
  proof (cases "os_Lstat env LstatPath (parent @ [x]) d")
    case (Inl e')
    then have "errors_Is e' OsErrNotExist"
      using Cons.prems assms(3) by (auto simp: operationError_missing split: if_splits)
    then show ?thesis using os_Lstat_missing [OF assms(1) Inl] by (auto intro: exI [of _ 0])
  next
    case (Inr y)
    then have "resolve_from env (parent @ [x]) parts d = Inl e"
      using Cons.prems assms(3) by (auto split: if_splits)
    from Cons.IH [OF this] show ?thesis by (auto intro: exI [of _ "Suc _"])
  qed
qed simp

lemma fs_Delete_effect:
  assumes "fs_Delete env a d = (r, d')" and "honest env"
  shows "disk_root d' = disk_root d
    \<and> (d' = d \<or> (\<exists>p. splitKey (art_Key a) = Inr p \<and> file_at d' = (file_at d)(p := None)))
    \<and> (r = None \<longrightarrow> (\<forall>p. splitKey (art_Key a) = Inr p \<longrightarrow> file_at d' p = None))"
proof (cases "fe_ctx env AtStart = None \<and> disk_root d \<noteq> '''' \<and> validateKey (art_Key a) = None")
  case False
  then show ?thesis using assms(1) by (auto simp: fs_Delete_def split: option.splits if_splits)
next
  case True
  show ?thesis
  proof (cases "resolveParent env (art_Key a) d")
    case (Inl e)
    have "file_at d p = None" if missing: "errors_Is e OsErrNotExist" and p: "splitKey (art_Key a) = Inr p" for p
    proof -
      have "resolve_from env [] (butlast p) d = Inl e"
        using Inl p by (auto simp: resolveParent_def split: sum.splits)
      from resolve_from_missing [OF assms(2) this missing]
      have "\<not> dirs_ok d p" by (fastforce simp: dirs_ok_def take_butlast)
      then show ?thesis by (simp add: file_at_def split: option.splits entry.splits)
    qed
    then show ?thesis using assms(1) True Inl by (auto simp: fs_Delete_def split: if_splits)
  next
    case (Inr fp)
    obtain p parent where fp: "fp = (p, parent)" by (metis surj_pair)
    have split: "splitKey (art_Key a) = Inr p"
      using resolveParent_Inr [OF Inr [unfolded fp]] by simp
    then have ne: "p \<noteq> []" by (rule splitKey_safe(1))
    show ?thesis
    proof (cases "os_Lstat env LstatFinal p d")
      case (Inl e)
      then show ?thesis
        using assms(1) True Inr fp split os_Lstat_missing [OF assms(2) Inl]
        by (auto simp: fs_Delete_def file_at_def operationError_missing split: if_splits)
    next
      case info: (Inr y)
      have none: "file_at (drop_entry p d) = (file_at d)(p := None)" if "y \<noteq> Directory"
        using os_Lstat_Inr [OF info ne] that by (intro file_at_drop_entry) simp
      show ?thesis
      proof (cases "y = Directory")
        case True
        then show ?thesis using assms(1) \<open>fe_ctx env AtStart = None \<and> _\<close> Inr fp info
          by (auto simp: fs_Delete_def)
      next
        case False
        have "(r, d') = (case fe_io env RemoveFile of
            Some e \<Rightarrow> (Some (operationError ''delete artifact'' e), d)
          | None \<Rightarrow> (syncDirectory env, drop_entry p d))"
          using assms \<open>fe_ctx env AtStart = None \<and> _\<close> Inr fp info False
          by (auto simp: fs_Delete_def honest_def split: option.splits entry.splits)
        then show ?thesis using none [OF False] split by (auto split: option.splits)
      qed
    qed
  qed
qed

subsection \<open>The contract of the artifact store\<close>

text \<open>
  The operations as the archive and the worker call them: one context for the whole call, faults
  of the operating system that never claim a file to be missing, and reads without faults.
\<close>

definition honest_env :: "ctx \<Rightarrow> fs_env \<Rightarrow> fs_env" where
  "honest_env c env = env\<lparr>fe_ctx := (\<lambda>_. contextErr c),
     fe_io := (\<lambda>site. case fe_io env site of
       None \<Rightarrow> None | Some e \<Rightarrow> if errors_Is e OsErrNotExist then None else Some e)\<rparr>"

definition fs_ops :: "(string \<Rightarrow> string) \<Rightarrow> fs_env \<Rightarrow> disk artifact_ops" where
  "fs_ops sha256 env =
     \<lparr>ao_Put = (\<lambda>c. fs_Put sha256 (honest_env c env)), ao_Open = (\<lambda>c. fs_Open sha256 (quiet c)),
      ao_Delete = (\<lambda>c. fs_Delete (honest_env c env))\<rparr>"

lemma fs_ops_simps [simp]:
  "ao_Put (fs_ops sha256 env) c = fs_Put sha256 (honest_env c env)"
  "ao_Open (fs_ops sha256 env) c = fs_Open sha256 (quiet c)"
  "ao_Delete (fs_ops sha256 env) c = fs_Delete (honest_env c env)"
  by (simp_all add: fs_ops_def)

lemma honest_honest_env [simp]: "honest (honest_env c env)"
  by (simp add: honest_def honest_env_def split: option.splits)

lemma is_hex_hex_char: "n < 16 \<Longrightarrow> is_hex (hex_char n)"
  by (simp add: is_hex_def unhex_def byte_hex_char Let_def)

lemma hex_encode_checksum: "length s = 32 \<Longrightarrow> validChecksum (hex_encode s)"
proof -
  have "byte c div 16 < (16::nat)" for c
  proof -
    have "byte c < (16 * 16::nat)" by simp
    then show ?thesis by (rule less_mult_imp_div_less)
  qed
  then have "list_all is_hex (hex_encode s)" for s
    by (induction s) (simp_all add: hex_encode_def is_hex_hex_char)
  then show "length s = 32 \<Longrightarrow> validChecksum (hex_encode s)"
    by (simp add: validChecksum_def length_hex_encode)
qed

lemma readable_frame:
  assumes "file_at d' = (file_at d)(q := c)" and "disk_root d' = disk_root d"
    and "splitKey (art_Key b) \<noteq> Inr q"
  shows "readable sha256 b d' x \<longleftrightarrow> readable sha256 b d x"
  using assms by (auto simp: readable_def)

lemma readable_same:
  "file_at d' = file_at d \<Longrightarrow> disk_root d' = disk_root d \<Longrightarrow> readable sha256 b d' x \<longleftrightarrow> readable sha256 b d x"
  by (simp add: readable_def)

lemma fs_Put_fails:
  assumes "fs_Put sha256 env j x data now d = (Inl e, d')" and "honest env"
  shows "disk_root d' = disk_root d
    \<and> (file_at d' = file_at d \<or> (\<exists>q c. file_at d' = (file_at d)(q := c)))"
  using fs_Put_effect [OF assms] by (simp only: sum.case) blast

lemma readable_put:
  assumes "fs_Put sha256 env j x data now d = (Inr a, d')" and "honest env"
    and "length (sha256 data) = 32"
  shows "readable sha256 a d' data"
proof -
  from fs_Put_effect [OF assms(1,2)] have e: "disk_root d' = disk_root d"
      "file_at d' = (file_at d)([j, x] \<mapsto> data)" "a = fs_artifact sha256 j x data now"
      "splitKey (art_Key a) = Inr [j, x]" "validateSegment x = None" "disk_root d \<noteq> ''''"
    unfolding sum.case by blast+
  have "file_at d' [j, x] = Some data" unfolding e(2) by simp
  then show ?thesis
    unfolding readable_def using e(1,4-6) hex_encode_checksum [OF assms(3)]
    unfolding e(3) by (simp add: fs_artifact_def hex_EqualFold_def)
qed

lemma fs_put_open:
  assumes "fs_Put Sum256 (honest_env c env) j x data now d = (Inr a, d')" and "contextErr c' = None"
  shows "fs_Open Sum256 (quiet c') a d' = Inr data"
  using readable_put [OF assms(1) honest_honest_env length_Sum256] assms(2)
  unfolding fs_Open_quiet by blast

lemma fs_put_err:
  assumes "fs_Put sha256 (honest_env c env) j x data now d = (Inl e, d')"
  shows "\<exists>k. \<forall>b. art_Key b \<noteq> k \<longrightarrow>
    fs_Open sha256 (quiet c') b d' = Inr y \<longleftrightarrow> fs_Open sha256 (quiet c') b d = Inr y"
proof -
  from fs_Put_fails [OF assms honest_honest_env] obtain q where root: "disk_root d' = disk_root d"
    and q: "file_at d' = file_at d \<or> (\<exists>c. file_at d' = (file_at d)(q := c))" by auto
  have "readable sha256 b d' y \<longleftrightarrow> readable sha256 b d y" if key: "art_Key b \<noteq> Join q ''/''" for b
  proof -
    have ne: "splitKey (art_Key b) \<noteq> Inr q" using key splitKey_safe(3) [of "art_Key b" q] by auto
    from q show ?thesis
    proof
      assume "file_at d' = file_at d"
      then show ?thesis using root by (rule readable_same)
    next
      assume "\<exists>c. file_at d' = (file_at d)(q := c)"
      then obtain c where "file_at d' = (file_at d)(q := c)" by (rule exE)
      then show ?thesis using root ne by (rule readable_frame)
    qed
  qed
  then show ?thesis unfolding fs_Open_quiet by (intro exI [of _ "Join q ''/''"]) simp
qed

lemma fs_other:
  assumes "file_at d' = (file_at d)(q := z)" and "disk_root d' = disk_root d"
    and "splitKey k = Inr q" and "art_Key b \<noteq> k"
  shows "fs_Open sha256 (quiet c') b d' = Inr y \<longleftrightarrow> fs_Open sha256 (quiet c') b d = Inr y"
proof -
  have "splitKey (art_Key b) \<noteq> Inr q" using splitKey_inj [OF assms(3)] assms(4) by blast
  then show ?thesis using readable_frame [OF assms(1,2)] by (simp add: fs_Open_quiet)
qed

interpretation fs: artifact_store "fs_ops Sum256 env" for env
proof (unfold_locales, unfold fs_ops_simps, goal_cases)
  case (1 c jid name data now s a s' c')
  then show ?case by (rule fs_put_open)
next
  case (2 c jid name data now s a s')
  then show ?case using fs_Put_effect [OF 2 honest_honest_env] by (simp add: fs_artifact_def)
next
  case (3 c jid name data now s a s' b c' x)
  note e = fs_Put_effect [OF 3(1) honest_honest_env]
  show ?case by (rule fs_other [of s' s "[jid, name]" "Some data" "art_Key a"]) (use e 3(2) in auto)
next
  case (4 c jid name data now s e s' c' x)
  then show ?case by (rule fs_put_err)
next
  case (5 c a s s' b c' data)
  note e = fs_Delete_effect [OF 5(1) honest_honest_env]
  then show ?case using 5(2) by (auto simp: fs_Open_quiet readable_def)
next
  case (6 c a s oe s' b c' x)
  note e = fs_Delete_effect [OF 6(1) honest_honest_env]
  then show ?case using fs_other [of s' s _ None "art_Key a" b] 6(2) by auto
next
  case (7 c a s data)
  then show ?case by (simp add: fs_Open_quiet readable_def)
qed

end
