(* ===== verification/Filesystem_Properties.thy ===== *)
theory Filesystem_Properties
  imports Filesystem_Facts Worker_Properties
begin

section \<open>Properties of the filesystem store\<close>

text \<open>
  The claims about \<open>internal/filesystem/store.go\<close>, and the worker over it. The witnesses use an
  empty disk and an operating system that accepts everything, or refuses the rename.
\<close>

interpretation wkfs: worker_seams "mem_ops token" st_jobs mem_inv "fs_ops Sum256 env"
  for token env
  by unfold_locales

definition demo_disk :: disk where
  "demo_disk = \<lparr>disk_root = ''/r'', disk_entries = Map.empty\<rparr>"

definition demo_host :: fs_env where
  "demo_host = \<lparr>fe_ctx = (\<lambda>_. None), fe_io = (\<lambda>_. None), fe_write = (\<lambda>_. (3, None)),
     fe_temp = ''t''\<rparr>"

lemma demo_segments:
  "validateSegment ''j'' = None" "validateSegment ''x'' = None"
proof -
  have "TrimSpace ''j'' = ''j''" "TrimSpace ''x'' = ''x''"
    by (rule TrimSpace_plain, simp add: IsSpace_def)+
  then show "validateSegment ''j'' = None" "validateSegment ''x'' = None"
    by (simp_all add: validateSegment_def maxSegmentLength_def ContainsAny_def filepath_IsAbs_def
        HasPrefix_def)
qed

lemma demo_key: "splitKey ''j/x'' = Inr [''j'', ''x'']"
  by (simp add: splitKey_def validateKey_def maxKeyLength_def filepath_IsAbs_def HasPrefix_def
      filepath_Clean_def Let_def demo_segments)

subsection \<open>Confinement\<close>

text \<open>
  C11. A key that is accepted resolves to a path below the root whose names are those of the
  key: no name is empty, a dot or two dots, or has a slash, a backslash or a NUL, and every
  directory on the way is a real directory, so that no symbolic link is followed.
\<close>

theorem resolved_path_is_confined:
  assumes "resolveParent env key d = Inr (final, parent)"
  shows "Join final ''/'' = key \<and> final \<noteq> [] \<and> parent = butlast final
    \<and> (\<forall>p \<in> set final. safe_part p) \<and> dirs_ok d final"
proof -
  have split: "splitKey key = Inr final" and parent: "parent = butlast final"
    using resolveParent_Inr [OF assms] by simp_all
  have "resolve_from env [] (butlast final) d = Inr parent"
    using assms split by (auto simp: resolveParent_def split: sum.splits)
  from resolve_from_directories [OF this] have "dirs_ok d final"
    by (auto simp: dirs_ok_def take_butlast)
  then show ?thesis using splitKey_safe [OF split] parent by blast
qed

theorem resolved_path_is_confined_witness:
  "Join [''j'', ''x''] ''/'' = ''j/x'' \<and> dirs_ok (put_entry [''j''] Directory demo_disk) [''j'', ''x'']"
proof -
  have "resolveParent demo_host ''j/x'' (put_entry [''j''] Directory demo_disk)
      = Inr ([''j'', ''x''], [''j''])"
    by (simp add: resolveParent_def demo_key os_Lstat_def demo_host_def)
  from resolved_path_is_confined [OF this] show ?thesis by blast
qed

subsection \<open>Atomicity\<close>

text \<open>
  C12. A put is atomic whatever the operating system answers and whenever the context is
  cancelled: the artifact is afterwards the previous one, the complete new content, or gone (when
  the verification of the new content failed); a reported success means the new content; and no
  other file has changed, except that a temporary file may be left over after a failure.
\<close>

theorem put_is_atomic:
  assumes "fs_Put sha256 env j x data now d = (r, d')" and "honest env" and "fe_temp env \<noteq> x"
  shows "file_at d' [j, x] \<in> {file_at d [j, x], Some data, None}
    \<and> (\<forall>a. r = Inr a \<longrightarrow> file_at d' [j, x] = Some data)
    \<and> (\<forall>p. p \<noteq> [j, x] \<longrightarrow> (\<exists>e. r = Inl e) \<and> p = [j, fe_temp env] \<or> file_at d' p = file_at d p)"
proof (cases r)
  case (Inl e)
  then show ?thesis using fs_Put_effect [OF assms(1,2)] assms(3) by (auto split: if_splits)
next
  case (Inr a)
  then show ?thesis using fs_Put_effect [OF assms(1,2)] by auto
qed

definition full_disk_host :: fs_env where
  "full_disk_host = demo_host\<lparr>fe_io := (\<lambda>site. if site = RenameTemp then Some (NewError ''full'') else None)\<rparr>"

theorem put_is_atomic_witness:
  "\<exists>r d'. fs_Put Sum256 full_disk_host ''j'' ''x'' ''pdf'' 0 demo_disk = (r, d')
    \<and> file_at d' [''j'', ''x''] \<in> {file_at demo_disk [''j'', ''x''], Some ''pdf'', None}"
proof -
  obtain r d' where p: "fs_Put Sum256 full_disk_host ''j'' ''x'' ''pdf'' 0 demo_disk = (r, d')"
    by (metis surj_pair)
  have "honest full_disk_host" and "fe_temp full_disk_host \<noteq> ''x''"
    by (simp_all add: full_disk_host_def demo_host_def honest_def)
  then show ?thesis using put_is_atomic [OF p] p by blast
qed

subsection \<open>Round trip\<close>

text \<open>
  C13. What a put has stored is what an open returns, byte for byte, whatever was in the place
  before; SHA-256 is the real function.
\<close>

theorem stored_artifact_opens:
  assumes "fs_Put Sum256 (honest_env c env) j x data now d = (Inr a, d')" and "contextErr c' = None"
  shows "fs_Open Sum256 (quiet c') a d' = Inr data"
  using fs.put_open [of env c j x data now d a d' c'] assms by simp

lemma demo_write: "writeContext (honest_env live demo_host) ''pdf'' 0 0 '''' = (None, ''pdf'')"
  by (subst writeContext.simps, simp add: honest_env_def demo_host_def live_def writeChunkSize_def Let_def)
    (subst writeContext.simps, simp)

theorem stored_artifact_opens_witness:
  "\<exists>a d'. fs_Put Sum256 (honest_env live demo_host) ''j'' ''x'' ''pdf'' 0 demo_disk = (Inr a, d')
    \<and> fs_Open Sum256 (quiet live) a d' = Inr ''pdf''"
proof -
  let ?env = "honest_env live demo_host"
  have io [simp]: "fe_io ?env s = None" "fe_ctx ?env s = None" "fe_temp ?env = ''t''" for s
    by (simp_all add: honest_env_def demo_host_def live_def)
  have "\<exists>a d'. fs_Put Sum256 ?env ''j'' ''x'' ''pdf'' 0 demo_disk = (Inr a, d')"
    using demo_write
    by (simp add: fs_Put_def demo_segments ensureJobDirectory_def os_Lstat_def demo_disk_def Let_def
        make_directory_def resolveParent_def demo_key publish_file_def fill_temporary_def
        commit_temporary_def check_destination_def put_entry_def drop_entry_def syncDirectory_def
        verifyCommitted_def verifyFile_def fs_artifact_def hex_encode_checksum hex_EqualFold_def)
  then show ?thesis using stored_artifact_opens [of live demo_host] contextErr_live by blast
qed

end
