(* ===== verification/Go_Netip.thy ===== *)
theory Go_Netip
  imports Go_URL
begin

unbundle bit_operations_syntax

section \<open>Package \<open>net/netip\<close> and reference resolution of \<open>net/url\<close>\<close>

text \<open>
  \<open>netip.ParseAddr\<close>, \<open>netip.AddrFromSlice\<close>, the classes of addresses, \<open>Prefix.Contains\<close> and
  \<open>URL.ResolveReference\<close>, as Go 1.23 defines them. An address is its number; the zone of an
  IPv6 address plays no role after \<open>AsSlice\<close>, which drops it.
\<close>

datatype addr = Addr4 "32 word" | Addr6 "128 word"

type_synonym ip_bytes = "8 word list"

definition bytes_value :: "ip_bytes \<Rightarrow> nat" where
  "bytes_value bs = foldl (\<lambda>acc b. acc * 256 + unat b) 0 bs"

definition AddrFromSlice :: "ip_bytes \<Rightarrow> addr option" where
  "AddrFromSlice bs =
     (if length bs = 4 then Some (Addr4 (of_nat (bytes_value bs)))
      else if length bs = 16 then Some (Addr6 (of_nat (bytes_value bs)))
      else None)"

subsection \<open>Parsing\<close>

definition parse_octet :: "string \<Rightarrow> (8 word) option" where
  "parse_octet s =
     (if s = '''' \<or> \<not> list_all is_digit s \<or> (1 < length s \<and> hd s = CHR ''0'') then None
      else case read_digits s 0 of
             None \<Rightarrow> None | Some n \<Rightarrow> if 255 < n then None else Some (of_nat n))"

definition parseIPv4 :: "string \<Rightarrow> ip_bytes option" where
  "parseIPv4 s =
     (case map parse_octet (Split s (CHR ''.'')) of
        [Some a, Some b, Some c, Some d] \<Rightarrow> Some [a, b, c, d]
      | _ \<Rightarrow> None)"

definition hex_group :: "string \<Rightarrow> nat" where
  "hex_group s = foldl (\<lambda>acc c. acc * 16 + (case unhex c of None \<Rightarrow> 0 | Some d \<Rightarrow> d)) 0 s"

text \<open>The loop of \<open>parseIPv6\<close> over the groups: what is left of the text, the bytes read so far
  and the position of the ellipsis.\<close>

function parse_groups :: "string \<Rightarrow> ip_bytes \<Rightarrow> nat option \<Rightarrow> (ip_bytes \<times> nat option) option" where
  "parse_groups s ip ellipsis =
     (if 16 \<le> length ip then (if s = '''' then Some (ip, ellipsis) else None)
      else
        (let digits = takeWhile (\<lambda>c. unhex c \<noteq> None) s; rest = drop (length digits) s
         in if digits = '''' \<or> 4 < length digits then None
            else if rest \<noteq> '''' \<and> hd rest = CHR ''.'' then
              (if (ellipsis = None \<and> length ip \<noteq> 12) \<or> 16 < length ip + 4 then None
               else map_option (\<lambda>v4. (ip @ v4, ellipsis)) (parseIPv4 s))
            else
              (let ip' = ip @ [of_nat (hex_group digits div 256), of_nat (hex_group digits mod 256)]
               in case rest of
                    [] \<Rightarrow> Some (ip', ellipsis)
                  | [c] \<Rightarrow> None
                  | c # d # tail \<Rightarrow>
                      if c \<noteq> CHR '':'' then None
                      else if d = CHR '':'' then
                        (if ellipsis \<noteq> None then None
                         else if tail = '''' then Some (ip', Some (length ip'))
                         else parse_groups tail ip' (Some (length ip')))
                      else parse_groups (d # tail) ip' ellipsis)))"
  by pat_completeness auto
termination
  by (relation "measure (\<lambda>(s, ip, e). 16 - length ip)") auto

declare parse_groups.simps [simp del]

definition expand_ellipsis :: "ip_bytes \<Rightarrow> nat option \<Rightarrow> ip_bytes option" where
  "expand_ellipsis ip ellipsis =
     (case ellipsis of
        None \<Rightarrow> if length ip < 16 then None else Some ip
      | Some e \<Rightarrow> if length ip < 16 then Some (take e ip @ replicate (16 - length ip) 0 @ drop e ip)
                  else None)"

definition parseIPv6 :: "string \<Rightarrow> ip_bytes option" where
  "parseIPv6 text =
     (let (s, zone) = (case cut_byte (CHR ''%'') text of
                         None \<Rightarrow> (text, None) | Some (a, b) \<Rightarrow> (a, Some b))
      in if zone = Some '''' then None
         else if s = ''::'' then Some (replicate 16 0)
         else case (if HasPrefix s ''::'' then parse_groups (drop 2 s) [] (Some 0)
                    else parse_groups s [] None) of
                None \<Rightarrow> None
              | Some (ip, ellipsis) \<Rightarrow> expand_ellipsis ip ellipsis)"

text \<open>\<open>ParseAddr(s)\<close> followed by \<open>AsSlice\<close>.\<close>

definition ParseAddr :: "string \<Rightarrow> ip_bytes option" where
  "ParseAddr s =
     (case dropWhile (\<lambda>c. c \<notin> set ''.:%'') s of
        [] \<Rightarrow> None
      | c # _ \<Rightarrow> if c = CHR ''.'' then parseIPv4 s
                 else if c = CHR '':'' then parseIPv6 s else None)"

subsection \<open>Classes of addresses\<close>

definition Is4In6 :: "addr \<Rightarrow> bool" where
  "Is4In6 a = (case a of Addr4 _ \<Rightarrow> False | Addr6 v \<Rightarrow> drop_bit 32 v = 0xFFFF)"

definition Unmap :: "addr \<Rightarrow> addr" where
  "Unmap a = (case a of Addr4 v \<Rightarrow> Addr4 v
                      | Addr6 v \<Rightarrow> if Is4In6 a then Addr4 (ucast v) else a)"

text \<open>\<open>v4(i)\<close>, the \<open>i\<close>-th octet of an IPv4 address, and the leading bits of an IPv6 one.\<close>

definition v4 :: "nat \<Rightarrow> 32 word \<Rightarrow> 8 word" where
  "v4 i v = ucast (drop_bit (24 - 8 * i) v)"

definition v6u16 :: "128 word \<Rightarrow> 16 word" where
  "v6u16 v = ucast (drop_bit 112 v)"

definition v6 :: "128 word \<Rightarrow> 8 word" where
  "v6 v = ucast (drop_bit 120 v)"

definition IsLinkLocalUnicast :: "addr \<Rightarrow> bool" where
  "IsLinkLocalUnicast a =
     (case Unmap a of Addr4 v \<Rightarrow> v4 0 v = 169 \<and> v4 1 v = 254
                    | Addr6 v \<Rightarrow> v6u16 v AND 0xFFC0 = 0xFE80)"

definition IsLoopback :: "addr \<Rightarrow> bool" where
  "IsLoopback a = (case Unmap a of Addr4 v \<Rightarrow> v4 0 v = 127 | Addr6 v \<Rightarrow> v = 1)"

definition IsMulticast :: "addr \<Rightarrow> bool" where
  "IsMulticast a =
     (case Unmap a of Addr4 v \<Rightarrow> v4 0 v AND 0xF0 = 0xE0 | Addr6 v \<Rightarrow> drop_bit 120 v = 0xFF)"

definition IsUnspecified :: "addr \<Rightarrow> bool" where
  "IsUnspecified a \<longleftrightarrow> a = Addr4 0 \<or> a = Addr6 0"

definition IsGlobalUnicast :: "addr \<Rightarrow> bool" where
  "IsGlobalUnicast a \<longleftrightarrow>
     Unmap a \<noteq> Addr4 0 \<and> Unmap a \<noteq> Addr4 0xFFFFFFFF \<and> Unmap a \<noteq> Addr6 0
     \<and> \<not> IsLoopback a \<and> \<not> IsMulticast a \<and> \<not> IsLinkLocalUnicast a"

definition IsPrivate :: "addr \<Rightarrow> bool" where
  "IsPrivate a =
     (case Unmap a of
        Addr4 v \<Rightarrow> v4 0 v = 10 \<or> (v4 0 v = 172 \<and> v4 1 v AND 0xF0 = 16)
                  \<or> (v4 0 v = 192 \<and> v4 1 v = 168)
      | Addr6 v \<Rightarrow> v6 v AND 0xFE = 0xFC)"

datatype prefix = Prefix addr nat

fun Contains_addr :: "prefix \<Rightarrow> addr \<Rightarrow> bool" where
  "Contains_addr (Prefix (Addr4 p) bits) (Addr4 v) \<longleftrightarrow> drop_bit (32 - bits) (v XOR p) = 0"
| "Contains_addr (Prefix (Addr6 p) bits) (Addr6 v) \<longleftrightarrow> drop_bit (128 - bits) (v XOR p) = 0"
| "Contains_addr _ _ \<longleftrightarrow> False"

subsection \<open>Resolving references\<close>

text \<open>\<open>resolvePath\<close>: the elements of the path in turn. The text written so far is without the
  leading slash; the flags are \<open>first\<close> and whether the last element was a dot element.\<close>

definition before_last_slash :: "string \<Rightarrow> string option" where
  "before_last_slash s = map_option fst (last_cut (CHR ''/'') s)"

fun resolve_elems :: "string list \<Rightarrow> string \<Rightarrow> bool \<Rightarrow> string" where
  "resolve_elems [] dst first = dst"
| "resolve_elems (elem # elems) dst first =
     (if elem = ''.'' then
        (if elems = [] then dst @ ''/'' else resolve_elems elems dst False)
      else if elem = ''..'' then
        (let (dst, first) = (case before_last_slash dst of
                               None \<Rightarrow> ('''', True) | Some d \<Rightarrow> (d, first))
         in if elems = [] then dst @ ''/'' else resolve_elems elems dst first)
      else resolve_elems elems ((if first then dst else dst @ ''/'') @ elem) False)"

definition resolvePath :: "string \<Rightarrow> string \<Rightarrow> string" where
  "resolvePath base ref =
     (let full = (if ref = '''' then base
                  else if hd ref \<noteq> CHR ''/''
                  then (case last_cut (CHR ''/'') base of
                          None \<Rightarrow> ref | Some (a, _) \<Rightarrow> a @ ''/'' @ ref)
                  else ref)
      in if full = '''' then ''''
         else (let r = CHR ''/'' # resolve_elems (Split full (CHR ''/'')) '''' True
               in if HasPrefix r ''//'' then tl r else r))"

definition set_path :: "string \<Rightarrow> go_url \<Rightarrow> go_url" where
  "set_path p u = (case setPath p u of None \<Rightarrow> u | Some u' \<Rightarrow> u')"

definition ResolveReference :: "go_url \<Rightarrow> go_url \<Rightarrow> go_url" where
  "ResolveReference u ref =
     (let url = (if u_Scheme ref = '''' then ref\<lparr>u_Scheme := u_Scheme u\<rparr> else ref)
      in if u_Scheme ref \<noteq> '''' \<or> u_Host ref \<noteq> '''' \<or> u_User ref \<noteq> None
         then set_path (resolvePath (EscapedPath ref) '''') url
         else if u_Opaque ref \<noteq> '''' then url\<lparr>u_User := None, u_Host := '''', u_Path := ''''\<rparr>
         else
           (let url = (if u_Path ref = '''' \<and> \<not> u_ForceQuery ref \<and> u_RawQuery ref = ''''
                       then (let url = url\<lparr>u_RawQuery := u_RawQuery u\<rparr>
                             in if u_Fragment ref = ''''
                                then url\<lparr>u_Fragment := u_Fragment u,
                                         u_RawFragment := u_RawFragment u\<rparr>
                                else url)
                       else url)
            in if u_Path ref = '''' \<and> u_Opaque u \<noteq> ''''
               then url\<lparr>u_Opaque := u_Opaque u, u_User := None, u_Host := '''', u_Path := ''''\<rparr>
               else set_path (resolvePath (EscapedPath u) (EscapedPath ref))
                      (url\<lparr>u_Host := u_Host u, u_User := u_User u\<rparr>)))"

text \<open>What the simplifier needs to evaluate URLs and addresses on literals.\<close>

lemmas url_eval =
  url_Parse_def cut_or_def url_parse_main_def is_ctl_def getScheme_def is_letter_def parse_query_def
  HasSuffix_def HasPrefix_def parse_hierarchy_def parseAuthority_def parseHost_def shouldEscape_def
  setPath_def lower_byte_def zero_url_def is_digit_def is_alnum_def escape_def escape_char_def

lemmas addr_eval = ParseAddr_def parseIPv4_def parse_octet_def bytes_value_def

end
