(* ===== verification/Network_Policy.thy ===== *)
theory Network_Policy
  imports Errors Go_Netip
begin

section \<open>Network policy\<close>

text \<open>
  The address policy of \<open>internal/acquisition/acquisition.go\<close> with its fetcher, the proxy of
  \<open>internal/acquisition/proxy.go\<close> and the request accounting of
  \<open>internal/acquisition/browser_policy.go\<close>. The resolver, the connection to an address and
  the exchange of a request over a connection are arguments; \<open>'c\<close> is the type of connections.
  A dial also returns the addresses it has tried.
\<close>

subsection \<open>Addresses\<close>

definition blocked_prefixes :: "prefix list" where
  "blocked_prefixes =
     [Prefix (Addr4 0x00000000) 8, Prefix (Addr4 0x64400000) 10, Prefix (Addr4 0xC0000000) 24,
      Prefix (Addr4 0xC0000200) 24, Prefix (Addr4 0xC6120000) 15, Prefix (Addr4 0xC6336400) 24,
      Prefix (Addr4 0xCB007100) 24, Prefix (Addr4 0xF0000000) 4,
      Prefix (Addr6 0x20010DB8000000000000000000000000) 32,
      Prefix (Addr6 0x20010002000000000000000000000000) 48,
      Prefix (Addr6 0x20010010000000000000000000000000) 28,
      Prefix (Addr6 0x20010020000000000000000000000000) 28,
      Prefix (Addr6 0x20020000000000000000000000000000) 16]"

definition public_addr :: "addr \<Rightarrow> bool" where
  "public_addr ip \<longleftrightarrow>
     \<not> (\<not> IsGlobalUnicast ip \<or> IsPrivate ip \<or> IsLoopback ip \<or> IsLinkLocalUnicast ip
        \<or> IsMulticast ip \<or> IsUnspecified ip)
     \<and> list_all (\<lambda>p. \<not> Contains_addr p (Unmap ip)) blocked_prefixes"

definition isPublic :: "ip_bytes \<Rightarrow> bool" where
  "isPublic b = (case AddrFromSlice b of None \<Rightarrow> False | Some ip \<Rightarrow> public_addr ip)"

definition ValidateURL :: "(rune \<Rightarrow> rune) \<Rightarrow> go_url option \<Rightarrow> error option" where
  "ValidateURL ulow target =
     (case target of
        None \<Rightarrow> Some ErrBlockedTarget
      | Some u \<Rightarrow>
          if (u_Scheme u \<noteq> ''http'' \<and> u_Scheme u \<noteq> ''https'') \<or> u_User u \<noteq> None
             \<or> Hostname u = '''' then Some ErrBlockedTarget
          else
            (let h = TrimSuffix (ToLower ulow (Hostname u)) ''.''
             in if h = ''localhost'' \<or> HasSuffix h ''.localhost'' then Some ErrBlockedTarget
                else case ParseAddr h of
                       Some ip \<Rightarrow> if isPublic ip then None else Some ErrBlockedTarget
                     | None \<Rightarrow> None))"

subsection \<open>Connections\<close>

type_synonym resolver = "string \<Rightarrow> error + ip_bytes list"
type_synonym 'c connect = "ip_bytes \<Rightarrow> string \<Rightarrow> error + 'c"

text \<open>\<open>net.SplitHostPort\<close> and \<open>net.JoinHostPort\<close>.\<close>

definition SplitHostPort :: "string \<Rightarrow> (string \<times> string) option" where
  "SplitHostPort hostport =
     (case last_cut (CHR '':'') hostport of
        None \<Rightarrow> None
      | Some (host, port) \<Rightarrow>
          if HasPrefix hostport ''['' then
            (case cut_byte (CHR '']'') hostport of
               None \<Rightarrow> None
             | Some (inner, after) \<Rightarrow>
                 if after \<noteq> CHR '':'' # port \<or> CHR ''['' \<in> set (tl inner @ after)
                    \<or> CHR '']'' \<in> set after then None
                 else Some (tl inner, port))
          else if CHR '':'' \<in> set host \<or> CHR ''['' \<in> set hostport \<or> CHR '']'' \<in> set hostport
          then None else Some (host, port))"

definition JoinHostPort :: "string \<Rightarrow> string \<Rightarrow> string" where
  "JoinHostPort host port =
     (if CHR '':'' \<in> set host then ''['' @ host @ '']:'' @ port else host @ '':'' @ port)"

text \<open>The addresses in turn until one answers; the last error otherwise.\<close>

fun connect_first ::
  "'c connect \<Rightarrow> string \<Rightarrow> ip_bytes list \<Rightarrow> error option \<Rightarrow> ip_bytes list \<times> (error + 'c)" where
  "connect_first connect port [] lastErr =
     ([], Inl (case lastErr of None \<Rightarrow> ErrBlockedTarget | Some e \<Rightarrow> e))"
| "connect_first connect port (ip # ips) lastErr =
     (case connect ip port of
        Inr c \<Rightarrow> ([ip], Inr c)
      | Inl e \<Rightarrow> (let (tried, r) = connect_first connect port ips (Some e) in (ip # tried, r)))"

definition checked_connect ::
  "'c connect \<Rightarrow> string \<Rightarrow> error + ip_bytes list \<Rightarrow> ip_bytes list \<times> (error + 'c)" where
  "checked_connect connect port resolved =
     (case resolved of
        Inl e \<Rightarrow> ([], Inl e)
      | Inr ips \<Rightarrow>
          if ips = [] \<or> \<not> list_all isPublic ips then ([], Inl ErrBlockedTarget)
          else connect_first connect port ips None)"

subsection \<open>The fetcher\<close>

record fetch_config =
  fc_MaxBytes :: int
  fc_Timeout :: duration
  fc_DialTimeout :: duration
  fc_MaxRedirects :: int

definition defaultMaxResponseBytes :: int where "defaultMaxResponseBytes = 4194304"
definition defaultFetchTimeout :: duration where "defaultFetchTimeout = 30 * Second"
definition defaultMaxRedirects :: int where "defaultMaxRedirects = 5"

definition newFetcher :: "fetch_config \<Rightarrow> fetch_config" where
  "newFetcher cfg =
     \<lparr>fc_MaxBytes = (if fc_MaxBytes cfg \<le> 0 then defaultMaxResponseBytes else fc_MaxBytes cfg),
      fc_Timeout = (if fc_Timeout cfg \<le> 0 then defaultFetchTimeout else fc_Timeout cfg),
      fc_DialTimeout = (if fc_DialTimeout cfg \<le> 0 then 5 * Second else fc_DialTimeout cfg),
      fc_MaxRedirects = (if fc_MaxRedirects cfg \<le> 0 then defaultMaxRedirects
                         else fc_MaxRedirects cfg)\<rparr>"

text \<open>A response: its status, the \<open>Location\<close> and \<open>Content-Type\<close> headers and what reading
  the whole body gives.\<close>

record response =
  rp_Status :: int
  rp_Location :: string
  rp_ContentType :: string
  rp_Body :: "error + string"

record 'c network =
  nw_resolve :: resolver
  nw_connect :: "'c connect"
  nw_exchange :: "'c \<Rightarrow> go_url \<Rightarrow> error + response"

definition fetcher_dial ::
  "'c network \<Rightarrow> string \<Rightarrow> ip_bytes list \<times> (error + 'c)" where
  "fetcher_dial net address =
     (case SplitHostPort address of
        None \<Rightarrow> ([], Inl (NewError ''address''))
      | Some (host, port) \<Rightarrow> checked_connect (nw_connect net) port (nw_resolve net host))"

text \<open>The transport dials the host of the URL, at the port of its scheme by default.\<close>

definition canonical_address :: "go_url \<Rightarrow> string" where
  "canonical_address u =
     JoinHostPort (Hostname u)
       (if Port u \<noteq> '''' then Port u else if u_Scheme u = ''https'' then ''443'' else ''80'')"

definition round_trip ::
  "(string \<Rightarrow> ip_bytes list \<times> (error + 'c)) \<Rightarrow> 'c network \<Rightarrow> go_url
     \<Rightarrow> ip_bytes list \<times> (error + response)" where
  "round_trip dial net u =
     (let (tried, r) = dial (canonical_address u)
      in (tried, case r of Inl e \<Rightarrow> Inl e | Inr c \<Rightarrow> nw_exchange net c u))"

definition redirect_status :: "int \<Rightarrow> bool" where
  "redirect_status code \<longleftrightarrow> code \<in> set [301, 302, 303, 307, 308]"

text \<open>\<open>client.Do\<close> with the \<open>CheckRedirect\<close> of the fetcher. The network may answer differently
  at every request: it is a function of how many have been sent. The trace lists the URL of
  every request with the addresses tried for it.\<close>

type_synonym trace = "(go_url \<times> ip_bytes list) list"

definition CheckRedirect ::
  "(rune \<Rightarrow> rune) \<Rightarrow> fetch_config \<Rightarrow> go_url \<Rightarrow> nat \<Rightarrow> error option" where
  "CheckRedirect ulow f target via =
     (if fc_MaxRedirects f < int via then Some ErrTooManyRedirects
      else ValidateURL ulow (Some target))"

function client_Do ::
  "(rune \<Rightarrow> rune) \<Rightarrow> fetch_config \<Rightarrow> (nat \<Rightarrow> 'c network) \<Rightarrow> go_url \<Rightarrow> nat
     \<Rightarrow> trace \<times> (error + go_url \<times> response)" where
  "client_Do ulow f net u sent =
     (let (tried, r) = round_trip (fetcher_dial (net sent)) (net sent) u
      in case r of
           Inl e \<Rightarrow> ([(u, tried)], Inl e)
         | Inr resp \<Rightarrow>
             if \<not> redirect_status (rp_Status resp) \<or> rp_Location resp = ''''
             then ([(u, tried)], Inr (u, resp))
             else case url_Parse (rp_Location resp) of
                    None \<Rightarrow> ([(u, tried)], Inl (NewError ''failed to parse Location header''))
                  | Some ref \<Rightarrow>
                      (let target = ResolveReference u ref
                       in case CheckRedirect ulow f target (Suc sent) of
                            Some e \<Rightarrow> ([(u, tried)], Inl e)
                          | None \<Rightarrow>
                              (let (trace, result) = client_Do ulow f net target (Suc sent)
                               in ((u, tried) # trace, result))))"
  by pat_completeness auto
termination
  by (relation "measure (\<lambda>(ulow, f, net, u, sent). nat (fc_MaxRedirects f + 1 - int sent))")
    (auto simp: CheckRedirect_def split: if_splits)

declare client_Do.simps [simp del]

record page =
  pg_FinalURL :: string
  pg_Status :: int
  pg_HTML :: string

definition removeEmptyPort :: "string \<Rightarrow> string" where
  "removeEmptyPort host = (if HasSuffix host '':'' then butlast host else host)"

text \<open>\<open>http.NewRequestWithContext\<close> parses the printed URL again.\<close>

definition NewRequest :: "string \<Rightarrow> error + go_url" where
  "NewRequest raw =
     (case url_Parse raw of
        None \<Rightarrow> Inl (NewError ''parse'')
      | Some u \<Rightarrow> Inr (u\<lparr>u_Host := removeEmptyPort (u_Host u)\<rparr>))"

definition content_type_ok :: "(rune \<Rightarrow> rune) \<Rightarrow> bool \<Rightarrow> string \<Rightarrow> bool" where
  "content_type_ok ulow jsonResponse header =
     (let ct = ToLower ulow header
      in if jsonResponse then Contains ct ''application/json''
         else ct = '''' \<or> Contains ct ''text/html'' \<or> Contains ct ''application/xhtml+xml'')"

definition read_page :: "(rune \<Rightarrow> rune) \<Rightarrow> fetch_config \<Rightarrow> bool \<Rightarrow> go_url \<times> response \<Rightarrow> error + page" where
  "read_page ulow f jsonResponse answer =
     (let (u, resp) = answer
      in if rp_Status resp < 200 \<or> 400 \<le> rp_Status resp
         then Inl (NewError (''fetch status '' @ Itoa (rp_Status resp)))
         else if \<not> content_type_ok ulow jsonResponse (rp_ContentType resp)
         then Inl (NewError ''unsupported content type'')
         else case rp_Body resp of
                Inl e \<Rightarrow> Inl e
              | Inr b \<Rightarrow>
                  if fc_MaxBytes f < int (length b) then Inl ErrResponseTooLarge
                  else Inr \<lparr>pg_FinalURL = url_String u, pg_Status = rp_Status resp, pg_HTML = b\<rparr>)"

definition fetch ::
  "(rune \<Rightarrow> rune) \<Rightarrow> fetch_config \<Rightarrow> (nat \<Rightarrow> 'c network) \<Rightarrow> string \<Rightarrow> bool
     \<Rightarrow> trace \<times> (error + page)" where
  "fetch ulow f net raw jsonResponse =
     (case url_Parse raw of
        None \<Rightarrow> ([], Inl ErrBlockedTarget)
      | Some u \<Rightarrow>
          (case ValidateURL ulow (Some u) of
             Some e \<Rightarrow> ([], Inl e)
           | None \<Rightarrow>
               (case NewRequest (url_String u) of
                  Inl e \<Rightarrow> ([], Inl e)
                | Inr req \<Rightarrow>
                    (let (trace, answer) = client_Do ulow f net req 0
                     in (trace, case answer of
                           Inl e \<Rightarrow> Inl (WrapError ''fetch'' e)
                         | Inr a \<Rightarrow> read_page ulow f jsonResponse a)))))"

subsection \<open>The proxy\<close>

record proxy_config =
  px_dialTimeout :: duration
  px_maxBytes :: int
  px_maxRequests :: int

definition newPolicyProxy :: "proxy_config \<Rightarrow> proxy_config" where
  "newPolicyProxy cfg =
     \<lparr>px_dialTimeout = (if px_dialTimeout cfg \<le> 0 then 5 * Second else px_dialTimeout cfg),
      px_maxBytes = (if px_maxBytes cfg \<le> 0 then 33554432 else px_maxBytes cfg),
      px_maxRequests = (if px_maxRequests cfg \<le> 0 then 256 else px_maxRequests cfg)\<rparr>"

record proxy_state =
  ps_requests :: int
  ps_blocked :: int

record proxy_request =
  pq_Method :: string
  pq_URL :: "go_url option"
  pq_Host :: string

text \<open>What the client of the proxy gets: an error status, the response of the target, or a
  tunnel over a connection.\<close>

datatype 'c proxy_reply = Refused nat | Forwarded response | Tunnel 'c

definition proxy_dial :: "'c network \<Rightarrow> string \<Rightarrow> ip_bytes list \<times> (error + 'c)" where
  "proxy_dial net address =
     (case SplitHostPort address of
        None \<Rightarrow> ([], Inl ErrBlockedTarget)
      | Some (host, port) \<Rightarrow>
          (case ParseInt64 port of
             None \<Rightarrow> ([], Inl ErrBlockedTarget)
           | Some n \<Rightarrow>
               if n < 1 \<or> 65535 < n then ([], Inl ErrBlockedTarget)
               else checked_connect (nw_connect net) port
                      (nw_resolve net (TrimSuffix host ''.''))))"

definition count_blocked :: "error \<Rightarrow> proxy_state \<Rightarrow> proxy_state" where
  "count_blocked e st =
     (if errors_Is e ErrBlockedTarget then st\<lparr>ps_blocked := ps_blocked st + 1\<rparr> else st)"

text \<open>\<open>hijack\<close> is what \<open>http.Hijacker\<close> offers: nothing, or a tunnel that is handed over or not.\<close>

definition proxy_connect ::
  "(rune \<Rightarrow> rune) \<Rightarrow> 'c network \<Rightarrow> bool option \<Rightarrow> proxy_request \<Rightarrow> proxy_state
     \<Rightarrow> 'c proxy_reply option \<times> ip_bytes list \<times> proxy_state" where
  "proxy_connect ulow net hijack req st =
     (let address = (if SplitHostPort (pq_Host req) = None then JoinHostPort (pq_Host req) ''443''
                     else pq_Host req);
          u = zero_url\<lparr>u_Scheme := ''https'', u_Host := address\<rparr>
      in if ValidateURL ulow (Some u) \<noteq> None
         then (Some (Refused 403), [], st\<lparr>ps_blocked := ps_blocked st + 1\<rparr>)
         else (case proxy_dial net address of
                 (tried, Inl e) \<Rightarrow> (Some (Refused 502), tried, count_blocked e st)
               | (tried, Inr c) \<Rightarrow>
                   (case hijack of
                      None \<Rightarrow> (Some (Refused 500), tried, st)
                    | Some ok \<Rightarrow> (if ok then Some (Tunnel c) else None, tried, st))))"

definition ServeHTTP ::
  "(rune \<Rightarrow> rune) \<Rightarrow> proxy_config \<Rightarrow> 'c network \<Rightarrow> bool option \<Rightarrow> proxy_request \<Rightarrow> proxy_state
     \<Rightarrow> 'c proxy_reply option \<times> ip_bytes list \<times> proxy_state" where
  "ServeHTTP ulow cfg net hijack req st0 =
     (let st = st0\<lparr>ps_requests := ps_requests st0 + 1\<rparr>; blocked = st\<lparr>ps_blocked := ps_blocked st + 1\<rparr>
      in if px_maxRequests cfg < ps_requests st then (Some (Refused 429), [], blocked)
         else if pq_Method req = ''CONNECT'' then proxy_connect ulow net hijack req st
         else case pq_URL req of
                None \<Rightarrow> (Some (Refused 403), [], blocked)
              | Some u \<Rightarrow>
                  if (u_Scheme u \<noteq> ''http'' \<and> u_Scheme u \<noteq> ''https'')
                     \<or> ValidateURL ulow (Some u) \<noteq> None
                  then (Some (Refused 403), [], blocked)
                  else (case round_trip (proxy_dial net) net u of
                          (tried, Inl e) \<Rightarrow> (Some (Refused 502), tried, count_blocked e st)
                        | (tried, Inr resp) \<Rightarrow> (Some (Forwarded resp), tried, st)))"

subsection \<open>The byte budget\<close>

text \<open>
  \<open>budgetWriter.Write\<close>: several writers share one counter. A writer is between two calls, has
  read the counter, has reserved bytes by its compare-and-swap, or has to give back what its
  own writer did not take. The steps interleave in any order.
\<close>

datatype writer_state = Idle | Loaded int int | Reserved int | Refund int

record budget =
  bu_bytes :: int
  bu_written :: int
  bu_writers :: "writer_state list"

inductive budget_step :: "int \<Rightarrow> budget \<Rightarrow> budget \<Rightarrow> bool" for maxBytes where
  load: "i < length (bu_writers b) \<Longrightarrow> bu_writers b ! i = Idle \<Longrightarrow> 0 \<le> len \<Longrightarrow>
     0 < maxBytes - bu_bytes b \<Longrightarrow>
     budget_step maxBytes b (b\<lparr>bu_writers := (bu_writers b)[i :=
        Loaded (bu_bytes b) (min len (maxBytes - bu_bytes b))]\<rparr>)"
| swap: "i < length (bu_writers b) \<Longrightarrow> bu_writers b ! i = Loaded used want \<Longrightarrow>
     bu_bytes b = used \<Longrightarrow>
     budget_step maxBytes b (b\<lparr>bu_bytes := used + want,
        bu_writers := (bu_writers b)[i := Reserved want]\<rparr>)"
| swap_fails: "i < length (bu_writers b) \<Longrightarrow> bu_writers b ! i = Loaded used want \<Longrightarrow>
     bu_bytes b \<noteq> used \<Longrightarrow>
     budget_step maxBytes b (b\<lparr>bu_writers := (bu_writers b)[i := Idle]\<rparr>)"
| written: "i < length (bu_writers b) \<Longrightarrow> bu_writers b ! i = Reserved want \<Longrightarrow>
     0 \<le> n \<Longrightarrow> n \<le> want \<Longrightarrow>
     budget_step maxBytes b (b\<lparr>bu_written := bu_written b + n,
        bu_writers := (bu_writers b)[i := if n < want then Refund (want - n) else Idle]\<rparr>)"
| refund: "i < length (bu_writers b) \<Longrightarrow> bu_writers b ! i = Refund k \<Longrightarrow>
     budget_step maxBytes b (b\<lparr>bu_bytes := bu_bytes b - k,
        bu_writers := (bu_writers b)[i := Idle]\<rparr>)"

definition new_budget :: "nat \<Rightarrow> budget" where
  "new_budget writers = \<lparr>bu_bytes = 0, bu_written = 0, bu_writers = replicate writers Idle\<rparr>"

subsection \<open>The browser\<close>

record browser_policy =
  bp_maximum :: int
  bp_maxRedirects :: int
  bp_saved :: "(string \<times> string) option"
  bp_servedSaved :: bool
  bp_count :: int
  bp_blocked :: int
  bp_redirects :: int
  bp_err :: "error option"

text \<open>The saved page is a URL with its HTML; \<open>None\<close> where \<open>savedHTML\<close> is nil. During replay the
  resolver refuses every name.\<close>

definition newBrowserPolicy ::
  "proxy_config \<Rightarrow> int \<Rightarrow> (string \<times> string) option \<Rightarrow> resolver \<Rightarrow> resolver \<times> browser_policy" where
  "newBrowserPolicy cfg maxRedirects saved resolve =
     ((if saved = None then resolve else (\<lambda>_. Inl ErrBlockedTarget)),
      \<lparr>bp_maximum = px_maxRequests (newPolicyProxy cfg), bp_maxRedirects = maxRedirects,
       bp_saved = saved, bp_servedSaved = False, bp_count = 0, bp_blocked = 0, bp_redirects = 0,
       bp_err = None\<rparr>)"

definition err_is :: "error option \<Rightarrow> error \<Rightarrow> bool" where
  "err_is oe t = (case oe of None \<Rightarrow> False | Some e \<Rightarrow> errors_Is e t)"

definition policy_exhausted :: "browser_policy \<Rightarrow> bool" where
  "policy_exhausted p \<longleftrightarrow> err_is (bp_err p) ErrRequestLimit \<or> err_is (bp_err p) ErrTooManyRedirects"

definition allow ::
  "(rune \<Rightarrow> rune) \<Rightarrow> string \<Rightarrow> bool \<Rightarrow> browser_policy \<Rightarrow> bool \<times> browser_policy" where
  "allow ulow raw redirected p =
     (let p = p\<lparr>bp_count := bp_count p + 1\<rparr>;
          p = (if bp_maximum p < bp_count p then p\<lparr>bp_err := Some ErrRequestLimit\<rparr> else p);
          p = (if redirected then
                 (let p = p\<lparr>bp_redirects := bp_redirects p + 1\<rparr>
                  in if bp_maxRedirects p < bp_redirects p \<and> \<not> err_is (bp_err p) ErrRequestLimit
                     then p\<lparr>bp_err := Some ErrTooManyRedirects\<rparr> else p)
               else p)
      in if policy_exhausted p then (False, p)
         else if ValidateURL ulow (url_Parse raw) \<noteq> None
         then (False, p\<lparr>bp_err := Some ErrBlockedTarget\<rparr>)
         else (True, p))"

text \<open>A paused request of the browser: continued, answered with the saved page, or failed.\<close>

record paused_request =
  rq_document :: bool
  rq_url :: string
  rq_redirected :: bool

datatype browser_action = ContinueRequest | FulfillRequest string | FailRequest

definition on_request ::
  "(rune \<Rightarrow> rune) \<Rightarrow> paused_request \<Rightarrow> browser_policy \<Rightarrow> browser_action \<times> browser_policy" where
  "on_request ulow e p =
     (case bp_saved p of
        Some (savedURL, savedHTML) \<Rightarrow>
          if rq_document e \<and> rq_url e = savedURL \<and> \<not> bp_servedSaved p
          then (FulfillRequest savedHTML, p\<lparr>bp_servedSaved := True\<rparr>)
          else (FailRequest, p\<lparr>bp_blocked := bp_blocked p + 1\<rparr>)
      | None \<Rightarrow>
          (case allow ulow (rq_url e) (rq_redirected e) p of
             (True, p') \<Rightarrow> (ContinueRequest, p')
           | (False, p') \<Rightarrow> (FailRequest, p'\<lparr>bp_blocked := bp_blocked p' + 1\<rparr>)))"

fun on_requests ::
  "(rune \<Rightarrow> rune) \<Rightarrow> paused_request list \<Rightarrow> browser_policy \<Rightarrow> browser_action list \<times> browser_policy" where
  "on_requests ulow [] p = ([], p)"
| "on_requests ulow (e # es) p =
     (let (a, p') = on_request ulow e p; (as, p'') = on_requests ulow es p' in (a # as, p''))"

definition exhausted :: "browser_policy \<Rightarrow> error option" where
  "exhausted p = (if policy_exhausted p then bp_err p else None)"

record diagnostics =
  dg_Requests :: int
  dg_BlockedRequests :: int
  dg_TransferredBytes :: int

definition proxy_diagnostics :: "proxy_state \<Rightarrow> budget \<Rightarrow> diagnostics" where
  "proxy_diagnostics st b =
     \<lparr>dg_Requests = ps_requests st, dg_BlockedRequests = ps_blocked st,
      dg_TransferredBytes = bu_bytes b\<rparr>"

definition policy_diagnostics :: "proxy_state \<Rightarrow> budget \<Rightarrow> browser_policy \<Rightarrow> diagnostics" where
  "policy_diagnostics st b p =
     (let d = proxy_diagnostics st b
      in d\<lparr>dg_Requests := max (dg_Requests d) (bp_count p),
           dg_BlockedRequests := dg_BlockedRequests d + bp_blocked p\<rparr>)"

end
