(* ===== verification/Network_Facts.thy ===== *)
theory Network_Facts
  imports Network_Policy
begin

section \<open>Facts about the network policy\<close>

text \<open>
  Address blocks as ranges of numbers, the addresses a fetch and the proxy connect to, and the
  budget of the browser policy.
\<close>

subsection \<open>Addresses as numbers\<close>

lemma unat_drop: "unat (drop_bit k w) = unat w div 2 ^ k" for w :: "'a::len word"
  by (simp only: unat_drop_bit_eq) (rule drop_bit_eq_div)

lemma unat_and_not_mask: "unat (w AND NOT (mask k)) = unat w div 2 ^ k * 2 ^ k"
  for w :: "'a::len word"
proof -
  have eq: "w AND NOT (mask k) = push_bit k (drop_bit k w)"
    by (rule bit_eqI) (auto simp: bit_simps)
  have "unat w div 2 ^ k * 2 ^ k \<le> unat w" by simp
  also have "\<dots> < 2 ^ LENGTH('a)" by simp
  finally have "unat w div 2 ^ k * 2 ^ k < 2 ^ LENGTH('a)" .
  then show ?thesis
    by (simp only: eq unsigned_push_bit_eq unat_drop push_bit_eq_mult [where 'a = nat]
        take_bit_eq_mod mod_less)
qed

lemma masked_eq:
  fixes w c m :: "'a::len word"
  assumes "m = NOT (mask k)" and "unat c = n * 2 ^ k"
  shows "w AND m = c \<longleftrightarrow> unat w div 2 ^ k = n"
proof -
  have "w AND m = c \<longleftrightarrow> unat w div 2 ^ k * 2 ^ k = n * 2 ^ k"
    using unat_and_not_mask [of w k] assms by (metis word_unat_eq_iff)
  then show ?thesis by simp
qed

lemma unat_v4: "unat (v4 i v) = unat v div 2 ^ (24 - 8 * i) mod 256"
  by (simp add: v4_def unat_drop unsigned_ucast_eq take_bit_eq_mod)

lemma unat_v6: "unat (v6 v) = unat v div 2 ^ 120 mod 256"
  by (simp add: v6_def unat_drop unsigned_ucast_eq take_bit_eq_mod)

lemma unat_v6u16: "unat (v6u16 v) = unat v div 2 ^ 112 mod 65536"
  by (simp add: v6u16_def unat_drop unsigned_ucast_eq take_bit_eq_mod)

lemma drop_bit_xor_zero:
  "drop_bit k (v XOR p) = 0 \<longleftrightarrow> unat v div 2 ^ k = unat p div 2 ^ k" for v p :: "'a::len word"
proof -
  have "drop_bit k (v XOR p) = 0 \<longleftrightarrow> drop_bit k v = drop_bit k p"
    by (auto simp: bit_eq_iff bit_simps)
  also have "\<dots> \<longleftrightarrow> unat v div 2 ^ k = unat p div 2 ^ k"
    by (simp only: word_unat_eq_iff unat_drop)
  finally show ?thesis .
qed

lemma drop_bit_zero: "drop_bit k v = 0 \<longleftrightarrow> unat v div 2 ^ k = 0" for v :: "'a::len word"
  using drop_bit_xor_zero [of k v 0] by simp

lemma bytes_value_step: "foldl (\<lambda>acc b. acc * 256 + unat b) n bs < (n + 1) * 256 ^ length bs"
  for bs :: "8 word list"
proof (induction bs arbitrary: n)
  case (Cons b bs)
  have "unat b < 256" using unsigned_less [of b] by simp
  then have "n * 256 + unat b + 1 \<le> (n + 1) * 256" by simp
  then have "(n * 256 + unat b + 1) * 256 ^ length bs \<le> (n + 1) * 256 * 256 ^ length bs"
    by (rule mult_le_mono1)
  then have "(n * 256 + unat b + 1) * 256 ^ length bs \<le> (n + 1) * 256 ^ length (b # bs)"
    by (simp only: list.size power_Suc mult.assoc One_nat_def add_Suc_right add_0_right)
  moreover have "foldl (\<lambda>acc b. acc * 256 + unat b) n (b # bs) < (n * 256 + unat b + 1) * 256 ^ length bs"
    using Cons.IH [of "n * 256 + unat b"] by simp
  ultimately show ?case by (rule less_le_trans [rotated])
qed simp

lemma bytes_value_bound: "bytes_value bs < 256 ^ length bs"
  using bytes_value_step [of 0 bs] by (simp add: bytes_value_def)

text \<open>The special-purpose blocks of the address registries the policy keeps out: the first
  octets of a block and the length of its prefix.\<close>

definition block :: "nat \<Rightarrow> nat \<Rightarrow> nat \<Rightarrow> nat \<Rightarrow> bool" where
  "block width base bits n \<longleftrightarrow> n div 2 ^ (width - bits) = base div 2 ^ (width - bits)"

definition special4 :: "nat \<Rightarrow> bool" where
  "special4 n \<longleftrightarrow> (\<exists>(base, bits) \<in> set [(0x00000000, 8), (0x0A000000, 8), (0x64400000, 10),
     (0x7F000000, 8), (0xA9FE0000, 16), (0xAC100000, 12), (0xC0000000, 24), (0xC0000200, 24),
     (0xC0A80000, 16), (0xC6120000, 15), (0xC6336400, 24), (0xCB007100, 24), (0xE0000000, 4),
     (0xF0000000, 4)]. block 32 base bits n)"

definition special6 :: "nat \<Rightarrow> bool" where
  "special6 n \<longleftrightarrow> (\<exists>(base, bits) \<in> set [(0, 128), (1, 128),
     (0xFE800000000000000000000000000000, 10), (0xFC000000000000000000000000000000, 7),
     (0xFF000000000000000000000000000000, 8), (0x20010DB8000000000000000000000000, 32),
     (0x20010002000000000000000000000000, 48), (0x20010010000000000000000000000000, 28),
     (0x20010020000000000000000000000000, 28), (0x20020000000000000000000000000000, 16)].
     block 128 base bits n)"

subsection \<open>The classes of an IPv4 address\<close>

lemma unat_word32: "unat v < 2 ^ 32" for v :: "32 word"
  using unsigned_less [of v] by simp

lemma unat_word128: "unat v < 2 ^ 128" for v :: "128 word"
  using unsigned_less [of v] by simp

lemma word8_eq: "n < 256 \<Longrightarrow> b = of_nat n \<longleftrightarrow> unat b = n" for b :: "8 word"
  by (simp add: word_unat_eq_iff unat_of_nat)

lemmas word8_eqs = word8_eq [of 10, simplified] word8_eq [of 127, simplified]
  word8_eq [of 168, simplified] word8_eq [of 169, simplified] word8_eq [of 172, simplified]
  word8_eq [of 192, simplified] word8_eq [of 254, simplified]

lemma v4_first: "unat (v4 0 v) = unat v div 2 ^ 24"
proof -
  have "unat v div 2 ^ 24 < 256" using unat_word32 [of v] by (simp add: div_less_iff_less_mult)
  then show ?thesis by (simp add: unat_v4)
qed

lemma v4_octets:
  assumes "x < 256" and "y < 256"
  shows "unat (v4 0 v) = x \<and> unat (v4 1 v) = y \<longleftrightarrow> unat v div 2 ^ 16 = x * 256 + y"
proof -
  let ?q = "unat v div 2 ^ 16"
  have "unat v div 2 ^ 24 = ?q div 256" by (simp add: div_mult2_eq [symmetric])
  then have "unat (v4 0 v) = ?q div 256" and "unat (v4 1 v) = ?q mod 256"
    using v4_first [of v] by (simp, simp add: unat_v4)
  then show ?thesis using assms by auto
qed

lemma halved: "m div 256 = x \<and> m mod 256 div 16 = y \<longleftrightarrow> m div 16 = x * 16 + y"
  if "y < 16" for m x y :: nat
proof -
  have "m div 256 = m div 16 div 16" by (simp add: div_mult2_eq [symmetric])
  moreover have "m mod 256 div 16 = m div 16 mod 16"
    using mod_mult2_eq [of m 16 16] by simp
  ultimately show ?thesis using that by auto
qed

lemma v4_halved:
  assumes "x < 256" and "y < 16"
  shows "unat (v4 0 v) = x \<and> unat (v4 1 v) div 16 = y \<longleftrightarrow> unat v div 2 ^ 20 = x * 16 + y"
proof -
  let ?q = "unat v div 2 ^ 16"
  have "unat v div 2 ^ 24 = ?q div 256" and q: "unat v div 2 ^ 20 = ?q div 16"
    by (simp_all add: div_mult2_eq [symmetric])
  then have "unat (v4 0 v) = ?q div 256" and "unat (v4 1 v) = ?q mod 256"
    using v4_first [of v] by (simp, simp add: unat_v4)
  then show ?thesis unfolding q using halved [OF assms(2)] by simp
qed

lemma class4:
  "IsLoopback (Addr4 v) \<longleftrightarrow> unat v div 2 ^ 24 = 127"
  "IsMulticast (Addr4 v) \<longleftrightarrow> unat v div 2 ^ 28 = 14"
  "IsLinkLocalUnicast (Addr4 v) \<longleftrightarrow> unat v div 2 ^ 16 = 43518"
  "IsPrivate (Addr4 v) \<longleftrightarrow>
     unat v div 2 ^ 24 = 10 \<or> unat v div 2 ^ 20 = 2753 \<or> unat v div 2 ^ 16 = 49320"
proof -
  have m1: "(v4 0 v AND 0xF0 = 0xE0) \<longleftrightarrow> unat (v4 0 v) div 2 ^ 4 = 14"
    and m2: "(v4 1 v AND 0xF0 = 16) \<longleftrightarrow> unat (v4 1 v) div 2 ^ 4 = 1"
    by (rule masked_eq; simp add: mask_eq_decr_exp)+
  have "unat v div 2 ^ 24 div 2 ^ 4 = unat v div 2 ^ 28"
    by (simp add: div_mult2_eq [symmetric])
  then show "IsMulticast (Addr4 v) \<longleftrightarrow> unat v div 2 ^ 28 = 14"
    by (simp only: IsMulticast_def Unmap_def addr.case m1 v4_first)
  show "IsLoopback (Addr4 v) \<longleftrightarrow> unat v div 2 ^ 24 = 127"
    using v4_first [of v] by (simp add: IsLoopback_def Unmap_def word8_eqs)
  show "IsLinkLocalUnicast (Addr4 v) \<longleftrightarrow> unat v div 2 ^ 16 = 43518"
    using v4_octets [of 169 254 v] by (simp add: IsLinkLocalUnicast_def Unmap_def word8_eqs)
  show "IsPrivate (Addr4 v) \<longleftrightarrow>
     unat v div 2 ^ 24 = 10 \<or> unat v div 2 ^ 20 = 2753 \<or> unat v div 2 ^ 16 = 49320"
    using v4_halved [of 172 1 v] v4_octets [of 192 168 v] v4_first [of v] m2
    by (simp add: IsPrivate_def Unmap_def word8_eqs)
qed

lemma public_addr4: "public_addr (Addr4 v) \<longleftrightarrow> \<not> special4 (unat v)"
proof -
  have zero: "v = 0 \<Longrightarrow> unat v div 2 ^ 24 = 0" by simp
  have ones: "v = 0xFFFFFFFF \<Longrightarrow> unat v div 2 ^ 28 = 15" by simp
  have contains: "list_all (\<lambda>p. \<not> Contains_addr p (Addr4 v)) blocked_prefixes \<longleftrightarrow>
      \<not> (unat v div 2 ^ 24 = 0 \<or> unat v div 2 ^ 22 = 401 \<or> unat v div 2 ^ 8 = 12582912
        \<or> unat v div 2 ^ 8 = 12582914 \<or> unat v div 2 ^ 17 = 25353 \<or> unat v div 2 ^ 8 = 12989284
        \<or> unat v div 2 ^ 8 = 13303921 \<or> unat v div 2 ^ 28 = 15)"
    by (simp add: blocked_prefixes_def drop_bit_xor_zero drop_bit_zero [of 24 v] del: drop_bit_xor)
  have "public_addr (Addr4 v) \<longleftrightarrow>
      \<not> (v = 0 \<or> v = 0xFFFFFFFF \<or> IsLoopback (Addr4 v) \<or> IsMulticast (Addr4 v)
         \<or> IsLinkLocalUnicast (Addr4 v) \<or> IsPrivate (Addr4 v))
      \<and> list_all (\<lambda>p. \<not> Contains_addr p (Addr4 v)) blocked_prefixes"
    by (auto simp: public_addr_def IsGlobalUnicast_def IsUnspecified_def Unmap_def)
  then show ?thesis
    unfolding class4 contains special4_def block_def using zero ones by auto
qed

subsection \<open>The classes of an IPv6 address\<close>

lemma v6_first: "unat (v6 v) = unat v div 2 ^ 120"
proof -
  have "unat v div 2 ^ 120 < 256" using unat_word128 [of v] by (simp add: div_less_iff_less_mult)
  then show ?thesis by (simp add: unat_v6)
qed

lemma v6u16_first: "unat (v6u16 v) = unat v div 2 ^ 112"
proof -
  have "unat v div 2 ^ 112 < 65536" using unat_word128 [of v] by (simp add: div_less_iff_less_mult)
  then show ?thesis by (simp add: unat_v6u16)
qed

lemma Is4In6_iff: "Is4In6 (Addr6 v) \<longleftrightarrow> unat v div 2 ^ 32 = 65535"
  by (simp only: Is4In6_def addr.case word_unat_eq_iff unat_drop) simp

lemma class6:
  assumes "\<not> Is4In6 (Addr6 v)"
  shows "IsLoopback (Addr6 v) \<longleftrightarrow> unat v = 1"
    and "IsMulticast (Addr6 v) \<longleftrightarrow> unat v div 2 ^ 120 = 255"
    and "IsLinkLocalUnicast (Addr6 v) \<longleftrightarrow> unat v div 2 ^ 118 = 1018"
    and "IsPrivate (Addr6 v) \<longleftrightarrow> unat v div 2 ^ 121 = 126"
proof -
  have um: "Unmap (Addr6 v) = Addr6 v" using assms by (simp add: Unmap_def)
  have m1: "(v6u16 v AND 0xFFC0 = 0xFE80) \<longleftrightarrow> unat (v6u16 v) div 2 ^ 6 = 1018"
    and m2: "(v6 v AND 0xFE = 0xFC) \<longleftrightarrow> unat (v6 v) div 2 ^ 1 = 126"
    by (rule masked_eq; simp add: mask_eq_decr_exp)+
  have d: "unat v div 2 ^ 112 div 2 ^ 6 = unat v div 2 ^ 118"
    "unat v div 2 ^ 120 div 2 ^ 1 = unat v div 2 ^ 121"
    by (simp_all add: div_mult2_eq [symmetric])
  show "IsLoopback (Addr6 v) \<longleftrightarrow> unat v = 1"
    by (simp add: IsLoopback_def um word_unat_eq_iff)
  show "IsMulticast (Addr6 v) \<longleftrightarrow> unat v div 2 ^ 120 = 255"
    by (simp only: IsMulticast_def um addr.case word_unat_eq_iff unat_drop) simp
  show "IsLinkLocalUnicast (Addr6 v) \<longleftrightarrow> unat v div 2 ^ 118 = 1018"
    by (simp only: IsLinkLocalUnicast_def um addr.case m1 v6u16_first d)
  show "IsPrivate (Addr6 v) \<longleftrightarrow> unat v div 2 ^ 121 = 126"
    by (simp only: IsPrivate_def um addr.case m2 v6_first d)
qed

lemma public_addr6:
  assumes "\<not> Is4In6 (Addr6 v)"
  shows "public_addr (Addr6 v) \<longleftrightarrow> \<not> special6 (unat v)"
proof -
  have um: "Unmap (Addr6 v) = Addr6 v" using assms by (simp add: Unmap_def)
  have zero: "v = 0 \<longleftrightarrow> unat v = 0" by (simp add: word_unat_eq_iff)
  have contains: "list_all (\<lambda>p. \<not> Contains_addr p (Addr6 v)) blocked_prefixes \<longleftrightarrow>
      \<not> (unat v div 2 ^ 96 = 0x20010DB8 \<or> unat v div 2 ^ 80 = 0x200100020000
        \<or> unat v div 2 ^ 100 = 0x2001001 \<or> unat v div 2 ^ 100 = 0x2001002
        \<or> unat v div 2 ^ 112 = 0x2002)"
    by (simp add: blocked_prefixes_def drop_bit_xor_zero del: drop_bit_xor)
  have "public_addr (Addr6 v) \<longleftrightarrow>
      \<not> (v = 0 \<or> IsLoopback (Addr6 v) \<or> IsMulticast (Addr6 v)
         \<or> IsLinkLocalUnicast (Addr6 v) \<or> IsPrivate (Addr6 v))
      \<and> list_all (\<lambda>p. \<not> Contains_addr p (Addr6 v)) blocked_prefixes"
    by (auto simp: public_addr_def IsGlobalUnicast_def IsUnspecified_def um)
  then show ?thesis
    unfolding class6 [OF assms] contains zero special6_def block_def by auto
qed

text \<open>An IPv4 address mapped into IPv6 is the IPv4 address.\<close>

lemma public_mapped:
  assumes "Is4In6 (Addr6 v)"
  shows "public_addr (Addr6 v) \<longleftrightarrow> public_addr (Addr4 (ucast v))"
proof -
  have um: "Unmap (Addr6 v) = Addr4 (ucast v)" using assms by (simp add: Unmap_def)
  have um4: "Unmap (Addr4 w) = Addr4 w" for w by (simp add: Unmap_def)
  have "v \<noteq> 0" using assms by (auto simp: Is4In6_def)
  then show ?thesis
    by (auto simp: public_addr_def IsGlobalUnicast_def IsUnspecified_def IsPrivate_def
        IsLoopback_def IsLinkLocalUnicast_def IsMulticast_def um um4 simp del: Contains_addr.simps)
qed

theorem isPublic_special:
  "isPublic bs \<longleftrightarrow>
     (if length bs = 4 then \<not> special4 (bytes_value bs)
      else if length bs = 16 then
        (if bytes_value bs div 2 ^ 32 = 65535 then \<not> special4 (bytes_value bs mod 2 ^ 32)
         else \<not> special6 (bytes_value bs))
      else False)"
proof -
  note bound = bytes_value_bound [of bs]
  show ?thesis
  proof (cases "length bs = 4")
    case True
    then have "unat (of_nat (bytes_value bs) :: 32 word) = bytes_value bs"
      using bound by (simp add: unat_of_nat)
    then show ?thesis using True by (simp add: isPublic_def AddrFromSlice_def public_addr4)
  next
    case n4: False
    show ?thesis
    proof (cases "length bs = 16")
      case True
      let ?v = "of_nat (bytes_value bs) :: 128 word"
      have v: "unat ?v = bytes_value bs" using True bound by (simp add: unat_of_nat)
      have "unat (ucast ?v :: 32 word) = bytes_value bs mod 2 ^ 32"
        using v by (simp add: unsigned_ucast_eq take_bit_eq_mod)
      then show ?thesis
        using True v public_addr6 [of ?v] public_mapped [of ?v] public_addr4 [of "ucast ?v"]
        by (simp add: isPublic_def AddrFromSlice_def Is4In6_iff)
    next
      case False
      with n4 show ?thesis by (simp add: isPublic_def AddrFromSlice_def)
    qed
  qed
qed

subsection \<open>Only public addresses are dialled\<close>

lemma connect_first_tried:
  "connect_first connect port ips e = (tried, r) \<Longrightarrow> set tried \<subseteq> set ips"
proof (induction ips arbitrary: e tried)
  case (Cons ip ips)
  then show ?case
    by (cases "connect ip port") (auto split: prod.splits dest!: Cons.IH [THEN subsetD])
qed simp

lemma checked_connect_public:
  "checked_connect connect port resolved = (tried, r) \<Longrightarrow> list_all isPublic tried"
  by (auto simp: checked_connect_def list_all_iff split: sum.splits if_splits
      dest: connect_first_tried)

lemma fetcher_dial_public: "fetcher_dial net address = (tried, r) \<Longrightarrow> list_all isPublic tried"
  by (auto simp: fetcher_dial_def split: option.splits prod.splits dest: checked_connect_public)

lemma proxy_dial_public: "proxy_dial net address = (tried, r) \<Longrightarrow> list_all isPublic tried"
  by (auto simp: proxy_dial_def split: option.splits prod.splits if_splits
      dest: checked_connect_public)

lemma round_trip_public:
  assumes "\<And>address tried r. dial address = (tried, r) \<Longrightarrow> list_all isPublic tried"
    and "round_trip dial net u = (tried, r)"
  shows "list_all isPublic tried"
  using assms(2) by (auto simp: round_trip_def dest: assms(1) split: prod.splits)

text \<open>The trace of a request with its redirects.\<close>

definition trace_ok :: "(rune \<Rightarrow> rune) \<Rightarrow> trace \<Rightarrow> bool" where
  "trace_ok ulow trace \<longleftrightarrow>
     (\<forall>(u, tried) \<in> set trace. list_all isPublic tried)
     \<and> (\<forall>(u, tried) \<in> set (tl trace). ValidateURL ulow (Some u) = None)"

lemma client_Do_trace:
  "client_Do ulow f net u sent = (trace, r) \<Longrightarrow>
     trace_ok ulow trace \<and> trace \<noteq> [] \<and> fst (hd trace) = u
     \<and> length trace \<le> 1 + nat (fc_MaxRedirects f - int sent)"
proof (induction ulow f net u sent arbitrary: trace r rule: client_Do.induct)
  case (1 ulow f net u sent)
  obtain tried a where rt: "round_trip (fetcher_dial (net sent)) (net sent) u = (tried, a)"
    by fastforce
  have pub: "list_all isPublic tried"
    by (rule round_trip_public [OF _ rt]) (rule fetcher_dial_public)
  note eq = "1.prems" [unfolded client_Do.simps [of ulow f net u sent] rt, simplified]
  consider (stop) "trace = [(u, tried)]"
    | (follow) resp ref rest where "a = Inr resp"
        "\<not> (\<not> redirect_status (rp_Status resp) \<or> rp_Location resp = '''')"
        "url_Parse (rp_Location resp) = Some ref"
        "CheckRedirect ulow f (ResolveReference u ref) (Suc sent) = None"
        "client_Do ulow f net (ResolveReference u ref) (Suc sent) = (rest, r)"
        "trace = (u, tried) # rest"
    using eq by (auto split: sum.splits if_splits option.splits prod.splits simp: Let_def)
  then show ?case
  proof cases
    case stop
    then show ?thesis using pub by (simp add: trace_ok_def)
  next
    case follow
    have ih: "trace_ok ulow rest \<and> rest \<noteq> [] \<and> fst (hd rest) = ResolveReference u ref
        \<and> length rest \<le> 1 + nat (fc_MaxRedirects f - int (Suc sent))"
      by (rule "1.IH" [OF rt [symmetric] refl follow(1,2,3) refl follow(4,5)])
    have ok: "int (Suc sent) \<le> fc_MaxRedirects f"
        "ValidateURL ulow (Some (ResolveReference u ref)) = None"
      using follow(4) by (auto simp: CheckRedirect_def split: if_splits)
    obtain v ips rest' where rest: "rest = (v, ips) # rest'" using ih by (cases rest) auto
    with ih ok(2) have "\<forall>(u, tried) \<in> set rest. ValidateURL ulow (Some u) = None"
      by (auto simp: trace_ok_def)
    then show ?thesis using ih pub ok(1) follow(6) by (auto simp: trace_ok_def)
  qed
qed

lemma read_page_bound:
  "read_page ulow f j a = Inr p \<Longrightarrow> int (length (pg_HTML p)) \<le> fc_MaxBytes f
     \<and> 200 \<le> pg_Status p \<and> pg_Status p < 400"
  by (auto simp: read_page_def Let_def split: prod.splits if_splits sum.splits)

subsection \<open>The byte budget\<close>

definition held :: "writer_state \<Rightarrow> int" where
  "held w = (case w of Reserved k \<Rightarrow> k | Refund k \<Rightarrow> k | _ \<Rightarrow> 0)"

definition writer_ok :: "int \<Rightarrow> writer_state \<Rightarrow> bool" where
  "writer_ok m w = (case w of Idle \<Rightarrow> True | Loaded used want \<Rightarrow> 0 \<le> want \<and> used + want \<le> m
                            | Reserved k \<Rightarrow> 0 \<le> k | Refund k \<Rightarrow> 0 \<le> k)"

definition budget_inv :: "int \<Rightarrow> budget \<Rightarrow> bool" where
  "budget_inv m b \<longleftrightarrow>
     bu_bytes b = bu_written b + sum_list (map held (bu_writers b)) \<and> bu_bytes b \<le> m
     \<and> 0 \<le> bu_written b \<and> list_all (writer_ok m) (bu_writers b)"

lemma sum_list_map_update:
  "i < length xs \<Longrightarrow> sum_list (map f (xs[i := x])) = sum_list (map f xs) - f (xs ! i) + f x"
  for f :: "'a \<Rightarrow> int"
  by (induction xs arbitrary: i) (auto split: nat.splits)

lemma list_all_update: "list_all P xs \<Longrightarrow> P x \<Longrightarrow> list_all P (xs[i := x])"
  by (auto simp: list_all_iff dest: set_update_subset_insert [THEN subsetD])

lemma budget_step_inv:
  assumes "budget_step m b b'" and "budget_inv m b"
  shows "budget_inv m b'"
  using assms
proof (cases rule: budget_step.cases)
  case (written i want n)
  have "writer_ok m (bu_writers b ! i)"
    using assms(2) written(2) by (simp add: budget_inv_def list_all_length)
  with written assms(2) show ?thesis
    by (auto simp: budget_inv_def sum_list_map_update held_def writer_ok_def intro!: list_all_update)
next
  case (swap i used want)
  have "writer_ok m (bu_writers b ! i)"
    using assms(2) swap(2) by (simp add: budget_inv_def list_all_length)
  with swap assms(2) show ?thesis
    by (auto simp: budget_inv_def sum_list_map_update held_def writer_ok_def intro!: list_all_update)
next
  case (refund i k)
  have "writer_ok m (bu_writers b ! i)"
    using assms(2) refund(2) by (simp add: budget_inv_def list_all_length)
  with refund assms(2) show ?thesis
    by (auto simp: budget_inv_def sum_list_map_update held_def writer_ok_def intro!: list_all_update)
qed (auto simp: budget_inv_def sum_list_map_update held_def writer_ok_def intro!: list_all_update)

lemma budget_inv_init: "0 \<le> m \<Longrightarrow> budget_inv m (new_budget n)"
  by (auto simp: budget_inv_def new_budget_def held_def writer_ok_def list_all_iff sum_list_replicate)

lemma budget_reachable:
  assumes "(budget_step m)\<^sup>*\<^sup>* (new_budget n) b" and "0 \<le> m"
  shows "budget_inv m b"
  using assms(1)
  by (induction rule: rtranclp_induct) (auto intro: budget_step_inv budget_inv_init assms(2))

lemma held_nonneg: "list_all (writer_ok m) ws \<Longrightarrow> 0 \<le> sum_list (map held ws)"
  by (induction ws) (auto simp: writer_ok_def held_def split: writer_state.splits)

subsection \<open>The browser policy\<close>

lemma allow_fields:
  assumes "allow ulow raw redirected p = (ok, p')"
  shows "bp_maximum p' = bp_maximum p" and "bp_maxRedirects p' = bp_maxRedirects p"
    and "bp_saved p' = bp_saved p" and "bp_count p' = bp_count p + 1"
    and "bp_redirects p' = bp_redirects p + (if redirected then 1 else 0)"
    and "ok \<Longrightarrow> bp_count p' \<le> bp_maximum p \<and> ValidateURL ulow (url_Parse raw) = None"
    and "ok \<Longrightarrow> redirected \<Longrightarrow> bp_redirects p' \<le> bp_maxRedirects p"
    and "policy_exhausted p \<Longrightarrow> \<not> ok \<and> policy_exhausted p'"
  using assms
  by (auto simp: allow_def Let_def policy_exhausted_def err_is_def split: if_splits)

lemma held_none: "\<forall>w \<in> set ws. held w = 0 \<Longrightarrow> sum_list (map held ws) = 0"
  by (induction ws) auto

definition continued :: "browser_action list \<Rightarrow> int" where
  "continued as = int (length (filter (\<lambda>a. a = ContinueRequest) as))"

definition continued_redirects :: "paused_request list \<Rightarrow> browser_action list \<Rightarrow> int" where
  "continued_redirects es as =
     int (length (filter (\<lambda>(e, a). rq_redirected e \<and> a = ContinueRequest) (zip es as)))"

definition continued_valid :: "(rune \<Rightarrow> rune) \<Rightarrow> paused_request list \<Rightarrow> browser_action list \<Rightarrow> bool" where
  "continued_valid ulow es as \<longleftrightarrow>
     (\<forall>(e, a) \<in> set (zip es as). a = ContinueRequest \<longrightarrow>
        ValidateURL ulow (url_Parse (rq_url e)) = None)"

lemma on_request_live:
  assumes "on_request ulow e p = (a, p')" and "bp_saved p = None"
  shows "bp_saved p' = None" and "bp_maximum p' = bp_maximum p"
    and "bp_maxRedirects p' = bp_maxRedirects p" and "bp_count p' = bp_count p + 1"
    and "bp_redirects p' = bp_redirects p + (if rq_redirected e then 1 else 0)"
    and "a = ContinueRequest \<Longrightarrow> bp_count p' \<le> bp_maximum p"
    and "a = ContinueRequest \<Longrightarrow> ValidateURL ulow (url_Parse (rq_url e)) = None"
    and "a = ContinueRequest \<Longrightarrow> rq_redirected e \<Longrightarrow> bp_redirects p' \<le> bp_maxRedirects p"
proof -
  obtain ok q where al: "allow ulow (rq_url e) (rq_redirected e) p = (ok, q)" by fastforce
  note f = allow_fields [OF al]
  have p': "p' = (if ok then q else q\<lparr>bp_blocked := bp_blocked q + 1\<rparr>)"
    and a: "a = (if ok then ContinueRequest else FailRequest)"
    using assms al by (auto simp: on_request_def split: bool.splits)
  show "bp_saved p' = None" "bp_maximum p' = bp_maximum p" "bp_maxRedirects p' = bp_maxRedirects p"
    "bp_count p' = bp_count p + 1"
    "bp_redirects p' = bp_redirects p + (if rq_redirected e then 1 else 0)"
    using f assms(2) p' by simp_all
  show "a = ContinueRequest \<Longrightarrow> bp_count p' \<le> bp_maximum p"
    "a = ContinueRequest \<Longrightarrow> ValidateURL ulow (url_Parse (rq_url e)) = None"
    "a = ContinueRequest \<Longrightarrow> rq_redirected e \<Longrightarrow> bp_redirects p' \<le> bp_maxRedirects p"
    using f p' a by (auto split: if_splits)
qed

lemma on_requests_live:
  assumes "on_requests ulow es p = (as, p')" and "bp_saved p = None"
  shows "continued as \<le> max 0 (bp_maximum p - bp_count p)
    \<and> continued_redirects es as \<le> max 0 (bp_maxRedirects p - bp_redirects p)
    \<and> continued_valid ulow es as"
  using assms
proof (induction es arbitrary: p as)
  case Nil
  then show ?case by (simp add: continued_def continued_redirects_def continued_valid_def)
next
  case (Cons e es)
  obtain a q where one: "on_request ulow e p = (a, q)" by fastforce
  obtain as' where as: "on_requests ulow es q = (as', p')" "as = a # as'"
    using Cons.prems(1) one by (auto split: prod.splits)
  note live = on_request_live [OF one Cons.prems(2)]
  note ih = Cons.IH [OF as(1) live(1)]
  have c: "continued as = (if a = ContinueRequest then 1 else 0) + continued as'"
    and r: "continued_redirects (e # es) as
      = (if rq_redirected e \<and> a = ContinueRequest then 1 else 0) + continued_redirects es as'"
    and v: "continued_valid ulow (e # es) as \<longleftrightarrow>
      (a = ContinueRequest \<longrightarrow> ValidateURL ulow (url_Parse (rq_url e)) = None)
      \<and> continued_valid ulow es as'"
    by (simp_all add: as(2) continued_def continued_redirects_def continued_valid_def)
  have "continued as \<le> max 0 (bp_maximum p - bp_count p)"
    using c ih live(2,4,6) by (auto split: if_splits)
  moreover have "continued_redirects (e # es) as \<le> max 0 (bp_maxRedirects p - bp_redirects p)"
    using r ih live(3,5,8) by (auto split: if_splits)
  ultimately show ?case using v ih live(7) by blast
qed

text \<open>During replay one request at most is answered, and none reaches the network.\<close>

lemma on_requests_saved:
  assumes "on_requests ulow es p = (as, p')" and "bp_saved p = Some (u, h)"
  shows "ContinueRequest \<notin> set as
    \<and> length (filter (\<lambda>a. a \<noteq> FailRequest) as) \<le> (if bp_servedSaved p then 0 else 1)
    \<and> (\<forall>(e, a) \<in> set (zip es as). a \<noteq> FailRequest \<longrightarrow> a = FulfillRequest h \<and> rq_url e = u)"
  using assms
proof (induction es arbitrary: p as)
  case (Cons e es)
  obtain a q where one: "on_request ulow e p = (a, q)" by fastforce
  obtain as' where as: "on_requests ulow es q = (as', p')" "as = a # as'"
    using Cons.prems(1) one by (auto split: prod.splits)
  have q: "bp_saved q = Some (u, h)"
    and step: "(a = FulfillRequest h \<and> rq_url e = u \<and> \<not> bp_servedSaved p \<and> bp_servedSaved q)
      \<or> (a = FailRequest \<and> bp_servedSaved q = bp_servedSaved p)"
    using one Cons.prems(2) by (auto simp: on_request_def split: if_splits)
  show ?case using Cons.IH [OF as(1) q] step as(2) by auto
qed simp

end
