(* ===== verification/Network_Properties.thy ===== *)
theory Network_Properties
  imports Network_Facts
begin

section \<open>Properties of the network policy\<close>

text \<open>
  The claims about the address policy, the fetcher, the proxy and the browser policy of
  \<open>internal/acquisition\<close>.
\<close>


text \<open>C15. A fetch, whatever the names resolve to at each of its requests, only ever connects to
  public addresses, sends at most the configured number of redirected requests after the first,
  each to a URL the policy accepts, and returns a page of at most the configured size with a
  success status.\<close>

theorem fetch_stays_public:
  assumes "fetch ulow (newFetcher cfg) net raw json = (trace, r)"
  shows "(\<forall>(u, tried) \<in> set trace. list_all isPublic tried)
    \<and> (\<forall>(u, tried) \<in> set (tl trace). ValidateURL ulow (Some u) = None)
    \<and> int (length trace) \<le> 1 + fc_MaxRedirects (newFetcher cfg)
    \<and> (\<forall>p. r = Inr p \<longrightarrow> int (length (pg_HTML p)) \<le> fc_MaxBytes (newFetcher cfg)
           \<and> 200 \<le> pg_Status p \<and> pg_Status p < 400)"
proof -
  let ?f = "newFetcher cfg"
  have pos: "0 \<le> fc_MaxRedirects ?f" by (simp add: newFetcher_def defaultMaxRedirects_def)
  have "trace = [] \<and> (\<exists>e. r = Inl e)
      \<or> (\<exists>req a. client_Do ulow ?f net req 0 = (trace, a)
           \<and> (\<forall>p. r = Inr p \<longrightarrow> (\<exists>b. read_page ulow ?f json b = Inr p)))"
    using assms by (auto simp: fetch_def split: option.splits sum.splits prod.splits)
  then have "trace_ok ulow trace \<and> int (length trace) \<le> 1 + fc_MaxRedirects ?f
      \<and> (\<forall>p. r = Inr p \<longrightarrow> (\<exists>b. read_page ulow ?f json b = Inr p))"
  proof
    assume "trace = [] \<and> (\<exists>e. r = Inl e)"
    then show ?thesis using pos by (auto simp: trace_ok_def)
  next
    assume "\<exists>req a. client_Do ulow ?f net req 0 = (trace, a)
           \<and> (\<forall>p. r = Inr p \<longrightarrow> (\<exists>b. read_page ulow ?f json b = Inr p))"
    then obtain req a where "client_Do ulow ?f net req 0 = (trace, a)"
      and "\<forall>p. r = Inr p \<longrightarrow> (\<exists>b. read_page ulow ?f json b = Inr p)" by blast
    moreover from this(1) have "trace_ok ulow trace" and len: "length trace \<le> 1 + nat (fc_MaxRedirects ?f)"
      using client_Do_trace [of ulow ?f net req 0 trace a] by simp_all
    moreover from len pos have "int (length trace) \<le> 1 + fc_MaxRedirects ?f" by linarith
    ultimately show ?thesis by blast
  qed
  then show ?thesis unfolding trace_ok_def using read_page_bound by blast
qed

text \<open>A host that redirects once, to a name that resolves to a private address: the first
  request is answered, the second one connects to nothing.\<close>

definition rebinding_network :: "nat \<Rightarrow> string network" where
  "rebinding_network n =
     \<lparr>nw_resolve = (\<lambda>host. Inr (if n = 0 then [[93, 184, 216, 34]] else [[10, 0, 0, 1]])),
      nw_connect = (\<lambda>ip port. Inr port),
      nw_exchange = (\<lambda>c u. Inr \<lparr>rp_Status = 302, rp_Location = ''/next'',
        rp_ContentType = '''', rp_Body = Inr ''''\<rparr>)\<rparr>"

definition zero_config :: fetch_config where
  "zero_config = \<lparr>fc_MaxBytes = 0, fc_Timeout = 0, fc_DialTimeout = 0, fc_MaxRedirects = 0\<rparr>"

text \<open>The same URL before and after the redirection, printed and parsed.\<close>

definition a_url :: "string \<Rightarrow> go_url" where
  "a_url path = zero_url\<lparr>u_Scheme := ''https'', u_Host := ''a.example'', u_Path := path\<rparr>"

lemma a_url_parsed:
  "url_Parse ''https://a.example/'' = Some (a_url ''/'')"
  "url_String (a_url ''/'') = ''https://a.example/''"
  "url_Parse ''/next'' = Some (zero_url\<lparr>u_Path := ''/next''\<rparr>)"
  "ResolveReference (a_url ''/'') (zero_url\<lparr>u_Path := ''/next''\<rparr>) = a_url ''/next''"
  "ValidateURL id (Some (a_url p)) = None"
  "canonical_address (a_url p) = ''a.example:443''"
  by (simp_all add: a_url_def url_eval url_String_def url_body_def authority_String_def
      EscapedPath_def ResolveReference_def resolvePath_def set_path_def ValidateURL_def
      canonical_address_def Hostname_def Port_def splitHostPort_def JoinHostPort_def
      go_string_eval addr_eval)

lemma rebinding_dial:
  "fetcher_dial (rebinding_network n) ''a.example:443''
     = (if n = 0 then ([[93, 184, 216, 34]], Inr ''443'') else ([], Inl ErrBlockedTarget))"
  by (simp add: fetcher_dial_def SplitHostPort_def HasPrefix_def checked_connect_def
      rebinding_network_def isPublic_special special4_def block_def bytes_value_def)

lemma fetch_stays_public_witness:
  "\<exists>trace r. fetch id (newFetcher zero_config) rebinding_network ''https://a.example/'' False = (trace, r)
     \<and> trace = [(a_url ''/'', [[93, 184, 216, 34]]), (a_url ''/next'', [])]
     \<and> r = Inl (WrapError ''fetch'' ErrBlockedTarget)
     \<and> (\<forall>(u, tried) \<in> set trace. list_all isPublic tried)"
proof -
  have stop: "client_Do id (newFetcher zero_config) rebinding_network (a_url ''/next'') (Suc 0)
      = ([(a_url ''/next'', [])], Inl ErrBlockedTarget)"
    by (simp add: client_Do.simps [of _ _ _ "a_url ''/next''"] round_trip_def a_url_parsed
        rebinding_dial)
  have answer: "nw_exchange (rebinding_network 0) ''443'' (a_url ''/'') = Inr \<lparr>rp_Status = 302,
      rp_Location = ''/next'', rp_ContentType = '''', rp_Body = Inr ''''\<rparr>"
    by (simp add: rebinding_network_def)
  have "client_Do id (newFetcher zero_config) rebinding_network (a_url ''/'') 0
      = ([(a_url ''/'', [[93, 184, 216, 34]]), (a_url ''/next'', [])], Inl ErrBlockedTarget)"
    by (simp add: client_Do.simps [of _ _ _ "a_url ''/''"] round_trip_def a_url_parsed
        rebinding_dial answer redirect_status_def CheckRedirect_def newFetcher_def zero_config_def
        defaultMaxRedirects_def stop [unfolded newFetcher_def zero_config_def
          defaultMaxRedirects_def, simplified])
  moreover have "NewRequest ''https://a.example/'' = Inr (a_url ''/'')"
    by (simp add: NewRequest_def a_url_parsed) (simp add: a_url_def removeEmptyPort_def HasSuffix_def)
  ultimately have run: "fetch id (newFetcher zero_config) rebinding_network ''https://a.example/'' False
      = ([(a_url ''/'', [[93, 184, 216, 34]]), (a_url ''/next'', [])],
         Inl (WrapError ''fetch'' ErrBlockedTarget))"
    by (simp add: fetch_def a_url_parsed)
  from fetch_stays_public [OF run] run show ?thesis by blast
qed

text \<open>C16. However the writers of the proxy interleave, the bytes they pass on together never
  exceed the budget, the counter never falls below them, and once no writer holds a reservation
  the counter is exactly what was written.\<close>

theorem budget_is_kept:
  assumes "(budget_step m)\<^sup>*\<^sup>* (new_budget n) b" and "0 \<le> m"
  shows "0 \<le> bu_written b \<and> bu_written b \<le> bu_bytes b \<and> bu_bytes b \<le> m
    \<and> ((\<forall>w \<in> set (bu_writers b). held w = 0) \<longrightarrow> bu_bytes b = bu_written b)"
proof -
  have inv: "budget_inv m b" by (rule budget_reachable [OF assms])
  then have "0 \<le> sum_list (map held (bu_writers b))"
    by (auto simp: budget_inv_def intro: held_nonneg)
  moreover have "(\<forall>w \<in> set (bu_writers b). held w = 0) \<Longrightarrow> sum_list (map held (bu_writers b)) = 0"
    by (rule held_none)
  ultimately show ?thesis using inv by (auto simp: budget_inv_def)
qed

text \<open>Two writers that have both read the counter: the second reservation has to start again.\<close>

lemma budget_is_kept_witness:
  "\<exists>b. (budget_step 10)\<^sup>*\<^sup>* (new_budget 2) b \<and> bu_written b = 6 \<and> bu_bytes b \<le> 10"
proof -
  let ?b0 = "new_budget 2"
  let ?b1 = "?b0\<lparr>bu_writers := [Loaded 0 6, Idle]\<rparr>"
  let ?b2 = "?b0\<lparr>bu_writers := [Loaded 0 6, Loaded 0 7]\<rparr>"
  let ?b3 = "?b0\<lparr>bu_bytes := 6, bu_writers := [Reserved 6, Loaded 0 7]\<rparr>"
  let ?b4 = "?b0\<lparr>bu_bytes := 6, bu_writers := [Reserved 6, Idle]\<rparr>"
  let ?b5 = "?b0\<lparr>bu_bytes := 6, bu_written := 6, bu_writers := [Idle, Idle]\<rparr>"
  have s: "budget_step 10 ?b0 ?b1" "budget_step 10 ?b1 ?b2" "budget_step 10 ?b2 ?b3"
    "budget_step 10 ?b3 ?b4" "budget_step 10 ?b4 ?b5"
    using budget_step.load [of 0 ?b0 6 10] budget_step.load [of 1 ?b1 7 10]
      budget_step.swap [of 0 ?b2 0 6 10] budget_step.swap_fails [of 1 ?b3 0 7 10]
      budget_step.written [of 0 ?b4 6 6 10]
    by (simp_all add: new_budget_def numeral_2_eq_2)
  then have "(budget_step 10)\<^sup>*\<^sup>* ?b0 ?b5"
    by (meson converse_rtranclp_into_rtranclp rtranclp.rtrancl_refl)
  then show ?thesis using budget_is_kept [of 10 2 ?b5] by (intro exI [of _ ?b5]) (simp add: new_budget_def)
qed

text \<open>The browser: while it is online it continues at most as many requests as its budget, at
  most the configured number of redirected ones, and only requests whose URL the policy
  accepts. While it replays a saved page no request reaches the network, no name resolves, and
  one request at most is answered, that of the saved page with the saved HTML.\<close>

theorem browser_stays_in_budget:
  assumes "newBrowserPolicy cfg r saved resolve = (resolve', p)" and "0 \<le> r"
    and "on_requests ulow es p = (as, p')"
  shows "case saved of
      None \<Rightarrow> continued as \<le> bp_maximum p \<and> continued_redirects es as \<le> r
        \<and> continued_valid ulow es as
    | Some (u, h) \<Rightarrow> (\<forall>host. resolve' host = Inl ErrBlockedTarget) \<and> ContinueRequest \<notin> set as
        \<and> length (filter (\<lambda>a. a \<noteq> FailRequest) as) \<le> 1
        \<and> (\<forall>(e, a) \<in> set (zip es as). a \<noteq> FailRequest \<longrightarrow> a = FulfillRequest h \<and> rq_url e = u)"
proof (cases saved)
  case None
  then have p: "bp_saved p = None" "bp_maxRedirects p = r" "bp_count p = 0" "bp_redirects p = 0"
      "0 < bp_maximum p"
    using assms(1) by (auto simp: newBrowserPolicy_def newPolicyProxy_def)
  then show ?thesis using on_requests_live [OF assms(3)] assms(2) None by simp
next
  case (Some uh)
  obtain u h where uh: "uh = (u, h)" by fastforce
  have p: "bp_saved p = Some (u, h)" "\<not> bp_servedSaved p" "resolve' = (\<lambda>_. Inl ErrBlockedTarget)"
    using assms(1) Some uh by (auto simp: newBrowserPolicy_def)
  then show ?thesis using on_requests_saved [OF assms(3) p(1)] Some uh by simp
qed

definition request_at :: "string \<Rightarrow> bool \<Rightarrow> paused_request" where
  "request_at u redirected = \<lparr>rq_document = True, rq_url = u, rq_redirected = redirected\<rparr>"

lemma policy_on_literals:
  "ValidateURL id (url_Parse ''https://a.example/'') = None"
  "ValidateURL id (url_Parse ''https://a.example/b'') = None"
  "ValidateURL id (url_Parse ''https://10.0.0.1/'') = Some ErrBlockedTarget"
  by (simp_all add: url_eval ValidateURL_def Hostname_def splitHostPort_def go_string_eval addr_eval
      validOptionalPort_def isPublic_special special4_def block_def)

lemma browser_stays_in_budget_witness:
  "\<exists>as p'. on_requests id [request_at ''https://a.example/'' False,
        request_at ''https://10.0.0.1/'' False, request_at ''https://a.example/b'' True]
      (snd (newBrowserPolicy \<lparr>px_dialTimeout = 0, px_maxBytes = 0, px_maxRequests = 2\<rparr> 3 None
         (\<lambda>_. Inr []))) = (as, p') \<and> as = [ContinueRequest, FailRequest, FailRequest]
    \<and> continued as \<le> 2"
proof -
  let ?cfg = "\<lparr>px_dialTimeout = 0, px_maxBytes = 0, px_maxRequests = 2\<rparr>"
  let ?p = "snd (newBrowserPolicy ?cfg 3 None (\<lambda>_. Inr []))"
  let ?es = "[request_at ''https://a.example/'' False, request_at ''https://10.0.0.1/'' False,
        request_at ''https://a.example/b'' True]"
  obtain as p' where run: "on_requests id ?es ?p = (as, p')" by fastforce
  have "fst (on_requests id ?es ?p) = [ContinueRequest, FailRequest, FailRequest]"
    by (simp add: newBrowserPolicy_def newPolicyProxy_def on_request_def allow_def request_at_def
        policy_on_literals policy_exhausted_def err_is_def)
  then have as: "as = [ContinueRequest, FailRequest, FailRequest]" using run by simp
  have "newBrowserPolicy ?cfg 3 None (\<lambda>_. Inr []) = (\<lambda>_. Inr [], ?p)"
    by (simp add: newBrowserPolicy_def)
  from browser_stays_in_budget [OF this _ run]
  have "continued as \<le> bp_maximum ?p" by simp
  moreover have "bp_maximum ?p = 2" by (simp add: newBrowserPolicy_def newPolicyProxy_def)
  ultimately show ?thesis using run as by auto
qed

text \<open>The proxy counts every request; it connects to public addresses only, and to none once
  its request limit is used up or where the target of the request is refused.\<close>

theorem proxy_admits_public_only:
  assumes "ServeHTTP ulow cfg net hijack req st = (reply, tried, st')"
  shows "ps_requests st' = ps_requests st + 1 \<and> ps_blocked st \<le> ps_blocked st'
    \<and> list_all isPublic tried
    \<and> (tried \<noteq> [] \<longrightarrow> ps_requests st' \<le> px_maxRequests cfg)
    \<and> (\<forall>n. reply = Some (Refused n) \<longrightarrow> n \<in> {403, 429, 500, 502})
    \<and> (\<forall>r. reply = Some (Forwarded r) \<longrightarrow>
         pq_Method req \<noteq> ''CONNECT'' \<and> ValidateURL ulow (pq_URL req) = None)"
proof -
  have pub: "list_all isPublic tried"
    using assms round_trip_public [of "proxy_dial net" net _ tried] proxy_dial_public [of net]
    by (auto simp: ServeHTTP_def proxy_connect_def Let_def
        split: if_splits option.splits prod.splits sum.splits bool.splits)
  then show ?thesis
    using assms
    by (auto simp: ServeHTTP_def proxy_connect_def count_blocked_def Let_def
        split: if_splits option.splits prod.splits sum.splits bool.splits)
qed

lemma refused_target: "ValidateURL id (Some (zero_url\<lparr>u_Scheme := ''https'', u_Host := ''localhost:443''\<rparr>))
    = Some ErrBlockedTarget"
  by (simp add: ValidateURL_def Hostname_def splitHostPort_def validOptionalPort_def url_eval
      go_string_eval)

lemma proxy_admits_public_only_witness:
  "\<exists>tried st'. ServeHTTP id \<lparr>px_dialTimeout = 0, px_maxBytes = 1, px_maxRequests = 1\<rparr>
      (rebinding_network 1) (Some True) \<lparr>pq_Method = ''CONNECT'', pq_URL = None,
         pq_Host = ''localhost:443''\<rparr> \<lparr>ps_requests = 0, ps_blocked = 0\<rparr>
      = (Some (Refused 403), tried, st') \<and> list_all isPublic tried \<and> ps_requests st' = 1"
proof -
  let ?cfg = "\<lparr>px_dialTimeout = 0, px_maxBytes = 1, px_maxRequests = 1\<rparr>"
  let ?req = "\<lparr>pq_Method = ''CONNECT'', pq_URL = None, pq_Host = ''localhost:443''\<rparr>"
  let ?st = "\<lparr>ps_requests = 0, ps_blocked = 0\<rparr>"
  have run: "ServeHTTP id ?cfg (rebinding_network 1) (Some True) ?req ?st
      = (Some (Refused 403), [], \<lparr>ps_requests = 1, ps_blocked = 1\<rparr>)"
    by (simp add: ServeHTTP_def proxy_connect_def SplitHostPort_def HasPrefix_def refused_target)
  from proxy_admits_public_only [OF run] run show ?thesis by auto
qed

text \<open>The blocks that carry an IPv4 address inside an IPv6 one are not all covered: the address
  that NAT64 translates to 10.0.0.1, and the IPv4-compatible form of 127.0.0.1, count as
  public.\<close>

lemma translated_addresses_are_public:
  "isPublic [0, 0x64, 0xFF, 0x9B, 0, 0, 0, 0, 0, 0, 0, 0, 10, 0, 0, 1]"
  "isPublic [0, 0, 0, 0, 0, 0, 0, 0, 0, 0, 0, 0, 127, 0, 0, 1]"
  unfolding isPublic_special by (simp_all add: bytes_value_def special6_def block_def)

end
