(* ===== verification/Capture_Sources.thy ===== *)
theory Capture_Sources
  imports Sanitize Network_Policy
begin

section \<open>Where a page is retrieved from\<close>

text \<open>
  \<open>internal/capture/x_mirror.go\<close>, \<open>x_embed.go\<close>, \<open>sources.go\<close> and \<open>capture.go\<close>: the mirror and
  the embedding of a post on X, the order and the limits of retrieval, and the choice of the
  snapshot that is kept. The renderer, the archives and the fetchers are arguments;
  \<open>convert\<close> (\<open>static.go\<close>), which turns a rendered page into an inert snapshot, and the decoding
  of JSON are arguments, too.
\<close>

record rendered_page =
  rn_Truncated :: bool
  rn_FinalURL :: string
  rn_Status :: int
  rn_Title :: string
  rn_DOM :: string
  rn_MHTML :: string
  rn_Screenshot :: string
  rn_Diagnostics :: diagnostics

definition zero_rendered :: rendered_page where
  "zero_rendered = \<lparr>rn_Truncated = False, rn_FinalURL = '''', rn_Status = 0, rn_Title = '''',
     rn_DOM = '''', rn_MHTML = '''', rn_Screenshot = '''',
     rn_Diagnostics = \<lparr>dg_Requests = 0, dg_BlockedRequests = 0, dg_TransferredBytes = 0\<rparr>\<rparr>"

record attempt_record =
  atp_URL :: string
  atp_Status :: string

record capture_result =
  cap_HTML :: string
  cap_PlainText :: string
  cap_Title :: string
  cap_OriginalURL :: string
  cap_FinalURL :: string
  cap_Status :: string
  cap_MissingResources :: "string list"
  cap_Attempts :: "attempt_record list"

definition zero_capture :: capture_result where
  "zero_capture = \<lparr>cap_HTML = '''', cap_PlainText = '''', cap_Title = '''', cap_OriginalURL = '''',
     cap_FinalURL = '''', cap_Status = '''', cap_MissingResources = [], cap_Attempts = []\<rparr>"

subsection \<open>Trees\<close>

fun node_attribute :: "attribute list \<Rightarrow> string \<Rightarrow> string" where
  "node_attribute [] key = ''''"
| "node_attribute (a # as) key = (if at_Key a = key then at_Val a else node_attribute as key)"

definition has_class :: "attribute list \<Rightarrow> string \<Rightarrow> bool" where
  "has_class as cls \<longleftrightarrow> Contains ('' '' @ node_attribute as ''class'' @ '' '') ('' '' @ cls @ '' '')"

text \<open>The first node, in document order, with a property of its tag and its attributes.\<close>

fun find_element :: "(string \<Rightarrow> attribute list \<Rightarrow> bool) \<Rightarrow> node \<Rightarrow> node option" where
  "find_element p (TextNode d) = None"
| "find_element p (ElementNode data ns as cs) =
     (if p data as then Some (ElementNode data ns as cs) else first_Some (map (find_element p) cs))"
| "find_element p (OtherNode d cs) = first_Some (map (find_element p) cs)"

definition mirrorClass :: "node option \<Rightarrow> string \<Rightarrow> node option" where
  "mirrorClass n cls = Option.bind n (find_element (\<lambda>_ as. has_class as cls))"

definition mirrorElement :: "node option \<Rightarrow> string \<Rightarrow> node option" where
  "mirrorElement n tag = Option.bind n (find_element (\<lambda>data _. data = tag))"

fun node_text :: "node \<Rightarrow> string" where
  "node_text (TextNode d) = d"
| "node_text (ElementNode data _ _ cs) =
     (if data = ''script'' \<or> data = ''style'' then '''' else concat (map node_text cs))"
| "node_text (OtherNode d cs) =
     (if d = ''script'' \<or> d = ''style'' then '''' else concat (map node_text cs))"

definition mirrorText :: "node option \<Rightarrow> string" where
  "mirrorText n = (case n of None \<Rightarrow> '''' | Some x \<Rightarrow> node_text x)"

definition element_attribute :: "node option \<Rightarrow> string \<Rightarrow> string" where
  "element_attribute n key =
     (case n of Some (ElementNode _ _ as _) \<Rightarrow> node_attribute as key | _ \<Rightarrow> '''')"

text \<open>\<open>html.EscapeString\<close>.\<close>

definition EscapeString :: "string \<Rightarrow> string" where
  "EscapeString s = concat (map (\<lambda>c.
     if c = CHR ''&'' then ''&amp;'' else if byte c = (39::nat) then ''&#39;''
     else if c = CHR ''<'' then ''&lt;'' else if c = CHR ''>'' then ''&gt;''
     else if byte c = (34::nat) then ''&#34;'' else [c]) s)"

definition absolute :: "string \<Rightarrow> string \<Rightarrow> string" where
  "absolute base raw =
     (case (url_Parse base, url_Parse (TrimSpace raw)) of
        (Some b, Some u) \<Rightarrow> url_String (ResolveReference b u)
      | _ \<Rightarrow> raw)"

subsection \<open>Posts on X\<close>

text \<open>The expression \<open>xStatusPath\<close> on the segments of a path.\<close>

definition x_user :: "string \<Rightarrow> bool" where
  "x_user s \<longleftrightarrow> 1 \<le> length s \<and> length s \<le> 15 \<and> list_all (\<lambda>c. is_alnum c \<or> c = CHR ''_'') s"

definition x_number :: "string \<Rightarrow> bool" where
  "x_number s \<longleftrightarrow> s \<noteq> '''' \<and> list_all is_digit s"

definition x_rest :: "string list \<Rightarrow> bool" where
  "x_rest rest \<longleftrightarrow>
     (case rest of
        [] \<Rightarrow> True
      | [a] \<Rightarrow> a = ''''
      | [a, b] \<Rightarrow> (a = ''photo'' \<or> a = ''video'') \<and> x_number b
      | [a, b, c] \<Rightarrow> (a = ''photo'' \<or> a = ''video'') \<and> x_number b \<and> c = ''''
      | _ \<Rightarrow> False)"

definition x_tail :: "string list \<Rightarrow> string option" where
  "x_tail segments =
     (case segments of
        post # rest \<Rightarrow> if x_number post \<and> length post \<le> 20 \<and> x_rest rest then Some post else None
      | [] \<Rightarrow> None)"

definition xStatusPath :: "string \<Rightarrow> string option" where
  "xStatusPath path =
     (case Split path (CHR ''/'') of
        lead # user # status # rest \<Rightarrow>
          if lead \<noteq> '''' then None
          else if status = ''status'' \<and> x_user user then x_tail rest
          else if user = ''i'' \<and> status = ''web'' \<and> rest \<noteq> [] \<and> hd rest = ''status''
          then x_tail (tl rest) else None
      | _ \<Rightarrow> None)"

definition xPostID :: "(rune \<Rightarrow> rune) \<Rightarrow> string \<Rightarrow> string" where
  "xPostID ulow raw =
     (case url_Parse raw of
        None \<Rightarrow> ''''
      | Some u \<Rightarrow>
          if (u_Scheme u \<noteq> ''https'' \<and> u_Scheme u \<noteq> ''http'') \<or> u_User u \<noteq> None \<or> Port u \<noteq> ''''
          then ''''
          else if ToLower ulow (Hostname u) \<notin> set [''x.com'', ''www.x.com'', ''twitter.com'',
                    ''www.twitter.com'', ''mobile.twitter.com'', ''mobile.x.com''] then ''''
          else (case xStatusPath (u_Path u) of None \<Rightarrow> '''' | Some post \<Rightarrow> post))"

text \<open>\<open>strings.EqualFold\<close>: two runes outside ASCII fold to a letter of ASCII.\<close>

definition fold_rune :: "(rune \<Rightarrow> rune) \<Rightarrow> rune \<Rightarrow> rune" where
  "fold_rune ulow r = (if r = 383 then 115 else if r = 8490 then 107 else lower_rune ulow r)"

definition EqualFold :: "(rune \<Rightarrow> rune) \<Rightarrow> string \<Rightarrow> string \<Rightarrow> bool" where
  "EqualFold ulow s t \<longleftrightarrow> map (fold_rune ulow) (string_runes s) = map (fold_rune ulow) (string_runes t)"

definition xMirrorPostID :: "(rune \<Rightarrow> rune) \<Rightarrow> string \<Rightarrow> string" where
  "xMirrorPostID ulow raw =
     (if xPostID ulow raw \<noteq> '''' then xPostID ulow raw
      else case url_Parse raw of
             None \<Rightarrow> ''''
           | Some u \<Rightarrow>
               if u_Scheme u \<noteq> ''https'' \<or> \<not> EqualFold ulow (u_Host u) ''xcancel.com''
                  \<or> u_User u \<noteq> None then ''''
               else xPostID ulow (url_String (u\<lparr>u_Host := ''x.com''\<rparr>)))"

definition xMirrorURL :: "(rune \<Rightarrow> rune) \<Rightarrow> string \<Rightarrow> string" where
  "xMirrorURL ulow original =
     (let post = xMirrorPostID ulow original
      in if post = '''' then ''''
         else case url_Parse original of
                None \<Rightarrow> ''''
              | Some u \<Rightarrow> ''https://xcancel.com/'' @ hd (Split (TrimPrefix (u_Path u) ''/'') (CHR ''/''))
                           @ ''/status/'' @ post)"

definition xEmbedURL :: "(rune \<Rightarrow> rune) \<Rightarrow> string \<Rightarrow> string" where
  "xEmbedURL ulow original =
     (let post = xPostID ulow original
      in if post = '''' then ''''
         else ''https://publish.x.com/oembed?''
           @ encode_values [''dnt'', ''omit_script'', ''url'']
               (\<lambda>k. if k = ''url'' then [''https://x.com/i/status/'' @ post] else [''true'']))"

definition maxMirrorBytes :: nat where "maxMirrorBytes = 2097152"
definition maxEmbedBytes :: nat where "maxEmbedBytes = 131072"

text \<open>What a fetched page, the HTML library, JSON and the conversion give.\<close>

record capture_lib =
  cl_html :: html_lib
  cl_convert :: "rendered_page \<Rightarrow> error + capture_result"
  cl_embed :: "string \<Rightarrow> error + string \<times> string \<times> string \<times> string"

definition mirror_page :: "go_url option \<Rightarrow> page \<Rightarrow> bool" where
  "mirror_page final page \<longleftrightarrow>
     (case final of
        None \<Rightarrow> False
      | Some f \<Rightarrow> u_Scheme f = ''https'' \<and> u_Host f = ''xcancel.com'' \<and> u_User f = None
                  \<and> pg_Status page = 200)"

text \<open>The permalink of the post itself, not of what it quotes.\<close>

definition mirror_matches :: "(rune \<Rightarrow> rune) \<Rightarrow> string \<Rightarrow> string \<Rightarrow> node option \<Rightarrow> error option" where
  "mirror_matches ulow original base link =
     (case url_Parse (absolute base (element_attribute link ''href'')) of
        None \<Rightarrow> Some (NewError ''X mirror has an invalid post permalink'')
      | Some permalink \<Rightarrow>
          if u_Scheme permalink \<noteq> ''https'' \<or> u_Host permalink \<noteq> ''xcancel.com''
             \<or> u_User permalink \<noteq> None then Some (NewError ''X mirror has an invalid post permalink'')
          else if xPostID ulow (url_String (permalink\<lparr>u_Host := ''x.com''\<rparr>))
                  \<noteq> xMirrorPostID ulow original
          then Some (NewError ''X mirror does not match requested post'')
          else None)"

definition render_optional :: "html_lib \<Rightarrow> node option \<Rightarrow> error + string" where
  "render_optional lib n = (case n of None \<Rightarrow> Inr '''' | Some x \<Rightarrow> html_Render lib x)"

definition mirror_body ::
  "html_lib \<Rightarrow> node option \<Rightarrow> node option \<Rightarrow> node option \<Rightarrow> node \<Rightarrow> error + string \<times> string" where
  "mirror_body lib main header link content =
     (let author = TrimSpace (mirrorText (mirrorClass header ''fullname''));
          username = TrimSpace (mirrorText (mirrorClass header ''username''));
          title = (if author \<noteq> '''' then ''Post by '' @ author else ''Post on X'');
          published = (let t = element_attribute link ''title''
                       in if t = '''' then mirrorText link else t)
      in case (html_Render lib content, render_optional lib (mirrorClass main ''attachments'')) of
           (Inr body, Inr attachments) \<Rightarrow>
             Inr (title,
               ''<!doctype html><html><head><title>'' @ EscapeString title
               @ ''</title></head><body><article><header><p rel=author>''
               @ EscapeString (author @ '' '' @ username) @ ''</p><p>''
               @ EscapeString published @ ''</p></header>'' @ body @ attachments
               @ ''</article></body></html>'')
         | (Inl e, _) \<Rightarrow> Inl e
         | (Inr _, Inl e) \<Rightarrow> Inl e)"

text \<open>A static result keeps the status \<open>partial\<close> and says what is not verified.\<close>

definition partial_result :: "string \<Rightarrow> string list \<Rightarrow> capture_result \<Rightarrow> capture_result" where
  "partial_result original missing r =
     r\<lparr>cap_OriginalURL := original, cap_Status := ''partial'',
       cap_MissingResources := cap_MissingResources r @ missing\<rparr>"

definition static_page :: "string \<Rightarrow> string \<Rightarrow> string \<Rightarrow> rendered_page" where
  "static_page markup title final =
     zero_rendered\<lparr>rn_DOM := markup, rn_Title := title, rn_FinalURL := final, rn_Status := 200\<rparr>"

definition xMirror ::
  "(rune \<Rightarrow> rune) \<Rightarrow> capture_lib \<Rightarrow> (string \<Rightarrow> error + page) \<Rightarrow> string \<Rightarrow> string
     \<Rightarrow> error + capture_result" where
  "xMirror ulow lib get original endpoint =
     (case get endpoint of
        Inl e \<Rightarrow> Inl e
      | Inr page \<Rightarrow>
          if maxMirrorBytes < length (pg_HTML page) then Inl ErrResponseTooLarge
          else if \<not> mirror_page (url_Parse (pg_FinalURL page)) page
          then Inl (NewError ''X mirror returned an unexpected page'')
          else case html_Parse (cl_html lib) (pg_HTML page) of
                 Inl e \<Rightarrow> Inl e
               | Inr doc \<Rightarrow>
                   (let main = mirrorClass (Some doc) ''main-tweet'';
                        header = mirrorClass main ''tweet-header'';
                        link = mirrorElement (mirrorClass header ''tweet-date'') ''a'';
                        content = mirrorClass main ''tweet-content''
                    in if main = None then Inl (NewError ''X mirror has no main post'')
                       else if link = None then Inl (NewError ''X mirror has no post permalink'')
                       else case mirror_matches ulow original (pg_FinalURL page) link of
                              Some e \<Rightarrow> Inl e
                            | None \<Rightarrow>
                                (case content of
                                   None \<Rightarrow> Inl (NewError ''X mirror has no post text'')
                                 | Some c \<Rightarrow>
                                     if TrimSpace (node_text c) = ''''
                                     then Inl (NewError ''X mirror has no post text'')
                                     else case mirror_body (cl_html lib) main header link c of
                                            Inl e \<Rightarrow> Inl e
                                          | Inr (title, markup) \<Rightarrow>
                                              (case cl_convert lib (static_page markup title
                                                      (pg_FinalURL page)) of
                                                 Inl e \<Rightarrow> Inl e
                                               | Inr r \<Rightarrow>
                                                   if cap_Status r = ''blocked''
                                                   then Inl (NewError ''X mirror returned a challenge'')
                                                   else Inr (partial_result original
                                                     [''X mirror: main post preserved; media and thread context are not verified''] r)))))"

text \<open>The walk over the quoted post: its prose, and whether a link of it leads to the post.\<close>

fun embed_prose :: "bool \<Rightarrow> node \<Rightarrow> string" where
  "embed_prose paragraph (TextNode d) = (if paragraph then d else '''')"
| "embed_prose paragraph (ElementNode data _ _ cs) =
     (if data = ''script'' \<or> data = ''style'' then ''''
      else concat (map (embed_prose (paragraph \<or> data = ''p'')) cs))"
| "embed_prose paragraph (OtherNode _ cs) = concat (map (embed_prose paragraph) cs)"

fun embed_links :: "(string \<Rightarrow> bool) \<Rightarrow> node \<Rightarrow> bool" where
  "embed_links p (TextNode d) = False"
| "embed_links p (ElementNode data _ as cs) =
     (if data = ''script'' \<or> data = ''style'' then False
      else (data = ''a'' \<and> p (node_attribute as ''href'')) \<or> list_ex (embed_links p) cs)"
| "embed_links p (OtherNode _ cs) = list_ex (embed_links p) cs"

definition ellipsis :: string where "ellipsis = [CHR 0xE2, CHR 0x80, CHR 0xA6]"

definition xEmbed ::
  "(rune \<Rightarrow> rune) \<Rightarrow> capture_lib \<Rightarrow> (string \<Rightarrow> error + page) \<Rightarrow> string \<Rightarrow> string
     \<Rightarrow> error + capture_result" where
  "xEmbed ulow lib getJSON original endpoint =
     (case getJSON endpoint of
        Inl e \<Rightarrow> Inl e
      | Inr page \<Rightarrow>
          if maxEmbedBytes < length (pg_HTML page) then Inl ErrResponseTooLarge
          else case cl_embed lib (pg_HTML page) of
                 Inl e \<Rightarrow> Inl e
               | Inr (url, html, author, kind) \<Rightarrow>
                   if kind \<noteq> ''rich'' \<or> xPostID ulow url \<noteq> xPostID ulow original
                   then Inl (NewError ''X embed does not match requested post'')
                   else case html_Parse (cl_html lib) html of
                          Inl e \<Rightarrow> Inl e
                        | Inr doc \<Rightarrow>
                            (case find_element (\<lambda>data as. data = ''blockquote''
                                    \<and> has_class as ''twitter-tweet'') doc of
                               None \<Rightarrow> Inl (NewError ''X embed has no post'')
                             | Some quote \<Rightarrow>
                                 (let prose = embed_prose False quote;
                                      name = TrimSpace author;
                                      title = (if name \<noteq> '''' then ''Post by '' @ name else ''Post on X'');
                                      missing = ''X embed only: full post, media and thread context are not verified''
                                        # (if Contains prose ellipsis \<or> Contains prose ''...''
                                           then [''X embed text may be truncated; full post is missing'']
                                           else [])
                                  in if \<not> embed_links (\<lambda>h. xPostID ulow h = xPostID ulow original) quote
                                        \<or> TrimSpace prose = ''''
                                     then Inl (NewError ''X embed has no matching post text'')
                                     else case html_Render (cl_html lib) quote of
                                            Inl e \<Rightarrow> Inl e
                                          | Inr body \<Rightarrow>
                                              map_sum id (partial_result original missing)
                                                (cl_convert lib (static_page
                                                  (''<!doctype html><html><head><title>''
                                                   @ EscapeString title
                                                   @ ''</title></head><body><article>'' @ body
                                                   @ ''</article></body></html>'') title url)))))"

end
