(* ===== verification/Web_Archives.thy ===== *)
theory Web_Archives
  imports Capture_Sources
begin

section \<open>Public web archives\<close>

text \<open>
  \<open>internal/acquisition/archives.go\<close>: which existing snapshots of a page are worth trying. The
  guarded fetch and the decoding of the two JSON answers are arguments: \<open>wb_closest\<close> gives the
  fields \<open>available\<close>, \<open>url\<close> and \<open>status\<close> of the closest snapshot, \<open>wb_rows\<close> the rows of an
  index.
\<close>

definition archiveHost :: "(rune \<Rightarrow> rune) \<Rightarrow> string \<Rightarrow> bool" where
  "archiveHost ulow host \<longleftrightarrow>
     ToLower ulow host \<in> set [''archive.org'', ''archive.ph'', ''archive.is'', ''archive.today'',
       ''archive.md'', ''archive.fo'', ''archive.li'', ''archive.vn'', ''web.archive.org'']"

definition replayStamp :: "string \<Rightarrow> bool" where
  "replayStamp s \<longleftrightarrow>
     (let n = length (takeWhile is_digit s)
      in 1 \<le> n \<and> n \<le> 14
         \<and> drop n s \<in> set ['''', ''id_'', ''im_'', ''if_'', ''js_'', ''cs_''])"

text \<open>A pattern in which \<open>d\<close> stands for a digit.\<close>

definition digit_pattern :: "string \<Rightarrow> string \<Rightarrow> bool" where
  "digit_pattern pat s \<longleftrightarrow>
     length s = length pat
     \<and> list_all (\<lambda>(p, c). if p = CHR ''d'' then is_digit c else c = p) (zip pat s)"

definition archiveTodayStamp :: "string \<Rightarrow> bool" where
  "archiveTodayStamp s \<longleftrightarrow>
     s = ''newest'' \<or> digit_pattern ''dddd.dd.dd-dddddd'' s \<or> digit_pattern ''dddddddddddddd'' s"

definition embedded_url :: "(rune \<Rightarrow> rune) \<Rightarrow> go_url \<Rightarrow> string" where
  "embedded_url ulow u =
     (let path = EscapedPath u
      in if EqualFold ulow (Hostname u) ''web.archive.org'' then
           (case SplitN2 (TrimPrefix path ''/web/'') (CHR ''/'') of
              [a, b] \<Rightarrow> if HasPrefix path ''/web/'' \<and> replayStamp a then b else ''''
            | _ \<Rightarrow> '''')
         else if archiveHost ulow (Hostname u) then
           (let path = TrimPrefix path ''/''
            in if HasPrefix path ''https://'' \<or> HasPrefix path ''http://'' then path
               else (case SplitN2 path (CHR ''/'') of
                       [a, b] \<Rightarrow> if archiveTodayStamp a then b else ''''
                     | _ \<Rightarrow> ''''))
         else '''')"

definition archiveOriginal :: "(rune \<Rightarrow> rune) \<Rightarrow> go_url \<Rightarrow> string" where
  "archiveOriginal ulow u =
     (let embedded = embedded_url ulow u
      in if embedded = '''' then ''''
         else case url_Parse (if u_RawQuery u \<noteq> '''' then embedded @ ''?'' @ u_RawQuery u
                              else embedded) of
                None \<Rightarrow> ''''
              | Some target \<Rightarrow>
                  if ValidateURL ulow (Some target) \<noteq> None \<or> archiveHost ulow (Hostname target)
                  then '''' else url_String (target\<lparr>u_Fragment := ''''\<rparr>))"

definition matchingSource :: "(rune \<Rightarrow> rune) \<Rightarrow> string \<Rightarrow> string \<Rightarrow> bool" where
  "matchingSource ulow source original =
     (case (url_Parse source, url_Parse original) of
        (Some target, Some wanted) \<Rightarrow>
          ValidateURL ulow (Some target) = None
          \<and> EqualFold ulow (u_Host target) (u_Host wanted)
          \<and> EscapedPath target = EscapedPath wanted \<and> u_RawQuery target = u_RawQuery wanted
      | _ \<Rightarrow> False)"

record archive_json =
  wb_closest :: "string \<Rightarrow> (bool \<times> string \<times> string) option"
  wb_rows :: "string \<Rightarrow> string list list option"

definition waybackSnapshot :: "(rune \<Rightarrow> rune) \<Rightarrow> archive_json \<Rightarrow> string \<Rightarrow> string \<Rightarrow> string" where
  "waybackSnapshot ulow json body original =
     (case wb_closest json body of
        None \<Rightarrow> ''''
      | Some (available, snapshot, status) \<Rightarrow>
          (case url_Parse snapshot of
             None \<Rightarrow> ''''
           | Some u \<Rightarrow>
               if \<not> available \<or> status \<noteq> ''200'' \<or> \<not> EqualFold ulow (u_Host u) ''web.archive.org''
                  \<or> ValidateURL ulow (Some u) \<noteq> None
                  \<or> \<not> matchingSource ulow (archiveOriginal ulow u) original then ''''
               else url_String (u\<lparr>u_Scheme := ''https'', u_Fragment := ''''\<rparr>)))"

definition row_matches :: "(rune \<Rightarrow> rune) \<Rightarrow> string \<Rightarrow> string list \<Rightarrow> bool" where
  "row_matches ulow original row =
     (case row of
        [stamp, source, status] \<Rightarrow>
          length stamp = 14 \<and> replayStamp stamp \<and> status = ''200''
          \<and> matchingSource ulow source original
      | _ \<Rightarrow> False)"

definition replay_url :: "string list \<Rightarrow> string" where
  "replay_url row = ''https://web.archive.org/web/'' @ row ! 0 @ ''/'' @ row ! 1"

text \<open>The loop over the rows, with the latest time stamp and its URL.\<close>

fun latest_row ::
  "(rune \<Rightarrow> rune) \<Rightarrow> string \<Rightarrow> string \<Rightarrow> string list list \<Rightarrow> string \<Rightarrow> string \<Rightarrow> string" where
  "latest_row ulow original exclude [] latest result = result"
| "latest_row ulow original exclude (row # rows) latest result =
     (if row_matches ulow original row \<and> replay_url row \<noteq> exclude \<and> latest < row ! 0
      then latest_row ulow original exclude rows (row ! 0) (replay_url row)
      else latest_row ulow original exclude rows latest result)"

definition cdxSnapshot ::
  "(rune \<Rightarrow> rune) \<Rightarrow> archive_json \<Rightarrow> string \<Rightarrow> string \<Rightarrow> string \<Rightarrow> string" where
  "cdxSnapshot ulow json body original exclude =
     (case wb_rows json body of
        None \<Rightarrow> ''''
      | Some rows \<Rightarrow>
          if length rows < 2 \<or> hd rows \<noteq> [''timestamp'', ''original'', ''statuscode''] then ''''
          else latest_row ulow original exclude (tl rows) '''' '''')"

definition availability_url :: "string \<Rightarrow> string" where
  "availability_url original =
     ''https://archive.org/wayback/available?url='' @ QueryEscape original"

definition cdx_url :: "string \<Rightarrow> string" where
  "cdx_url original =
     ''https://web.archive.org/cdx/search/cdx?''
     @ encode_values [''fastLatest'', ''filter'', ''fl'', ''limit'', ''matchType'', ''output'', ''url'']
         (\<lambda>k. if k = ''url'' then [original] else if k = ''matchType'' then [''exact'']
              else if k = ''output'' then [''json'']
              else if k = ''fl'' then [''timestamp,original,statuscode'']
              else if k = ''filter'' then [''statuscode:200'', ''mimetype:text/html'']
              else if k = ''limit'' then [''-3''] else [''true''])"

text \<open>\<open>discover\<close> is the part after the source is known: what the two services offer, with the
  context read before the second.\<close>

definition discover ::
  "(rune \<Rightarrow> rune) \<Rightarrow> archive_json \<Rightarrow> (string \<Rightarrow> error + page) \<Rightarrow> error option \<Rightarrow> string \<Rightarrow> string
     \<Rightarrow> string" where
  "discover ulow json get before_cdx original submitted =
     (let snapshot = (case get (availability_url original) of
                        Inl e \<Rightarrow> '''' | Inr page \<Rightarrow> waybackSnapshot ulow json (pg_HTML page) original)
      in if snapshot = '''' \<or> snapshot = submitted then
           (if before_cdx \<noteq> None then snapshot
            else case get (cdx_url original) of
                   Inl e \<Rightarrow> snapshot
                 | Inr page \<Rightarrow> cdxSnapshot ulow json (pg_HTML page) original submitted)
         else snapshot)"

text \<open>\<open>Candidates\<close>; \<open>None\<close> is the panic of the code where the printed original of a replay URL
  does not parse again.\<close>

definition Candidates ::
  "(rune \<Rightarrow> rune) \<Rightarrow> archive_json \<Rightarrow> (string \<Rightarrow> error + page) \<Rightarrow> error option \<Rightarrow> error option \<Rightarrow> string
     \<Rightarrow> string list option" where
  "Candidates ulow json get ctx before_cdx original =
     (case url_Parse original of
        None \<Rightarrow> Some []
      | Some parsed \<Rightarrow>
          if ValidateURL ulow (Some parsed) \<noteq> None \<or> ctx \<noteq> None then Some []
          else
            (let u = parsed\<lparr>u_Fragment := ''''\<rparr>; submitted = url_String u;
                 archived = archiveHost ulow (Hostname u);
                 recovered = archiveOriginal ulow u
             in if archived \<and> recovered = '''' then Some []
                else case (if archived then url_Parse recovered else Some u) of
                       None \<Rightarrow> None
                     | Some u \<Rightarrow>
                         (let source = url_String u;
                              snapshot = discover ulow json get before_cdx source submitted
                          in Some ((if archived then [recovered] else [])
                               @ (if snapshot \<noteq> '''' \<and> snapshot \<noteq> submitted then [snapshot] else [])
                               @ [''https://archive.ph/newest/'' @ source,
                                  ''https://archive.is/newest/'' @ source]))))"

subsection \<open>Facts\<close>

text \<open>A replayed original is a public URL that is not itself an archive.\<close>

lemma archiveOriginal_target:
  assumes "archiveOriginal ulow u \<noteq> ''''"
  obtains target where "archiveOriginal ulow u = url_String (target\<lparr>u_Fragment := ''''\<rparr>)"
    and "ValidateURL ulow (Some target) = None" and "\<not> archiveHost ulow (Hostname target)"
  using assms that by (auto simp: archiveOriginal_def Let_def split: if_splits option.splits)

text \<open>The row that is picked is the latest of those that match and are not excluded.\<close>

lemma latest_row_result:
  "latest_row ulow original exclude rows latest result = r \<Longrightarrow>
     (r = result \<and> (\<forall>row \<in> set rows. row_matches ulow original row \<longrightarrow> replay_url row \<noteq> exclude
          \<longrightarrow> \<not> latest < row ! 0))
     \<or> (\<exists>row \<in> set rows. r = replay_url row \<and> row_matches ulow original row \<and> r \<noteq> exclude
          \<and> latest < row ! 0
          \<and> (\<forall>row' \<in> set rows. row_matches ulow original row' \<longrightarrow> replay_url row' \<noteq> exclude
               \<longrightarrow> row' ! 0 \<le> row ! 0))"
proof (induction rows arbitrary: latest result)
  case (Cons row rows)
  show ?case
  proof (cases "row_matches ulow original row \<and> replay_url row \<noteq> exclude \<and> latest < row ! 0")
    case True
    with Cons.prems have "latest_row ulow original exclude rows (row ! 0) (replay_url row) = r"
      by simp
    from Cons.IH [OF this] show ?thesis
    proof (elim disjE bexE conjE)
      assume "r = replay_url row" and "\<forall>row'\<in>set rows. row_matches ulow original row' \<longrightarrow>
          replay_url row' \<noteq> exclude \<longrightarrow> \<not> row ! 0 < row' ! 0"
      then show ?thesis using True by (intro disjI2 bexI [of _ row]) (auto simp: not_less)
    next
      fix x assume "x \<in> set rows" "r = replay_url x" "row_matches ulow original x" "r \<noteq> exclude"
        "row ! 0 < x ! 0" "\<forall>row'\<in>set rows. row_matches ulow original row' \<longrightarrow>
          replay_url row' \<noteq> exclude \<longrightarrow> row' ! 0 \<le> x ! 0"
      then show ?thesis using True by (intro disjI2 bexI [of _ x]) auto
    qed
  next
    case False
    with Cons.prems have "latest_row ulow original exclude rows latest result = r" by auto
    from Cons.IH [OF this] show ?thesis
    proof (elim disjE bexE conjE)
      assume "r = result" and "\<forall>row\<in>set rows. row_matches ulow original row \<longrightarrow>
          replay_url row \<noteq> exclude \<longrightarrow> \<not> latest < row ! 0"
      then show ?thesis using False by auto
    next
      fix x assume "x \<in> set rows" "r = replay_url x" "row_matches ulow original x" "r \<noteq> exclude"
        "latest < x ! 0" "\<forall>row'\<in>set rows. row_matches ulow original row' \<longrightarrow>
          replay_url row' \<noteq> exclude \<longrightarrow> row' ! 0 \<le> x ! 0"
      then show ?thesis using False by (intro disjI2 bexI [of _ x]) auto
    qed
  qed
qed simp

end
