(* ===== verification/Capture.thy ===== *)
theory Capture
  imports Web_Archives
begin

section \<open>Retrieval order and preservation\<close>

text \<open>
  \<open>internal/capture/sources.go\<close> and \<open>capture.go\<close>. The iterator of sources is lazy: a consumer
  that accepts a source stops it. Its model is the list of the sources it would yield to a
  consumer that accepts none, so that accepting one means ignoring the rest. Every reading of
  the context is an argument, at a site that names the place in the code.
\<close>

datatype source_site =
    SourcesStart | AfterMirror | BeforeEmbed | AfterEmbed | AfterCanonical | BeforeSnapshot
  | AfterSnapshot | BeforeArchives | BeforeArchive nat | AfterArchive nat

record source =
  src_URL :: string
  src_Page :: rendered_page
  src_Static :: "capture_result option"
  src_Err :: "error option"
  src_Fallback :: bool
  src_original :: string

record capturer =
  cp_lib :: capture_lib
  cp_Snapshot :: "string \<Rightarrow> error + rendered_page"
  cp_archives :: "(string \<Rightarrow> string list) option"
  cp_fetchJSON :: "string \<Rightarrow> error + page"
  cp_fetchMirror :: "string \<Rightarrow> error + page"
  cp_ctx :: "source_site \<Rightarrow> error option"

text \<open>A failed retrieval leaves the zero value beside its error.\<close>

definition static_source :: "string \<Rightarrow> string \<Rightarrow> bool \<Rightarrow> error + capture_result \<Rightarrow> source" where
  "static_source original url fallback r =
     \<lparr>src_URL = url, src_Page = zero_rendered,
      src_Static = Some (case r of Inl _ \<Rightarrow> zero_capture | Inr c \<Rightarrow> c),
      src_Err = (case r of Inl e \<Rightarrow> Some e | Inr _ \<Rightarrow> None), src_Fallback = fallback,
      src_original = original\<rparr>"

definition page_source :: "string \<Rightarrow> string \<Rightarrow> error + rendered_page \<Rightarrow> source" where
  "page_source original url r =
     \<lparr>src_URL = url, src_Page = (case r of Inl _ \<Rightarrow> zero_rendered | Inr p \<Rightarrow> p), src_Static = None,
      src_Err = (case r of Inl e \<Rightarrow> Some e | Inr _ \<Rightarrow> None), src_Fallback = False,
      src_original = original\<rparr>"

text \<open>\<open>emit\<close>: nothing is yielded once the context has ended, and the iterator stops.\<close>

definition emit :: "capturer \<Rightarrow> source_site \<Rightarrow> source \<Rightarrow> source list \<Rightarrow> source list" where
  "emit c site s rest = (if cp_ctx c site \<noteq> None then [] else s # rest)"

fun archive_sources ::
  "capturer \<Rightarrow> string \<Rightarrow> nat \<Rightarrow> string list \<Rightarrow> nat \<Rightarrow> string list \<Rightarrow> source list" where
  "archive_sources c original i seen attempts [] = []"
| "archive_sources c original i seen attempts (url # urls) =
     (if cp_ctx c (BeforeArchive i) \<noteq> None \<or> attempts = 3 then []
      else if url = '''' \<or> url \<in> set seen
      then archive_sources c original (Suc i) seen attempts urls
      else emit c (AfterArchive i) (page_source original url (cp_Snapshot c url))
             (archive_sources c original (Suc i) (url # seen) (Suc attempts) urls))"

definition snapshot_sources :: "capturer \<Rightarrow> string \<Rightarrow> source list" where
  "snapshot_sources c original =
     (if cp_ctx c BeforeSnapshot \<noteq> None then []
      else emit c AfterSnapshot (page_source original original (cp_Snapshot c original))
             (case cp_archives c of
                None \<Rightarrow> []
              | Some candidates \<Rightarrow>
                  if cp_ctx c BeforeArchives \<noteq> None then []
                  else archive_sources c original 0 [original] 0 (candidates original)))"

definition embed_sources ::
  "(rune \<Rightarrow> rune) \<Rightarrow> capturer \<Rightarrow> string \<Rightarrow> string \<Rightarrow> source list \<Rightarrow> source list" where
  "embed_sources ulow c original mirror rest =
     (let endpoint = xEmbedURL ulow original
      in if endpoint = '''' \<or> cp_ctx c BeforeEmbed \<noteq> None then rest
         else
           (let r = xEmbed ulow (cp_lib c) (cp_fetchJSON c) original endpoint
            in emit c AfterEmbed (static_source original endpoint True r)
                 (case r of
                    Inl _ \<Rightarrow> rest
                  | Inr post \<Rightarrow>
                      (let canonical = xMirrorURL ulow (cap_FinalURL post)
                       in if canonical = '''' \<or> canonical = mirror then rest
                          else emit c AfterCanonical
                                 (static_source original canonical False
                                    (xMirror ulow (cp_lib c) (cp_fetchMirror c) original canonical))
                                 rest))))"

definition Sources :: "(rune \<Rightarrow> rune) \<Rightarrow> capturer \<Rightarrow> string \<Rightarrow> source list" where
  "Sources ulow c original =
     (if cp_ctx c SourcesStart \<noteq> None then []
      else
        (let mirror = xMirrorURL ulow original;
             rest = embed_sources ulow c original mirror (snapshot_sources c original)
         in if mirror = '''' then rest
            else emit c AfterMirror
                   (static_source original mirror False
                      (xMirror ulow (cp_lib c) (cp_fetchMirror c) original mirror)) rest))"

subsection \<open>Preservation\<close>

definition source_Result :: "capture_lib \<Rightarrow> source \<Rightarrow> error + capture_result" where
  "source_Result lib s =
     (case src_Err s of
        Some e \<Rightarrow> Inl e
      | None \<Rightarrow>
          (case src_Static s of
             Some r \<Rightarrow> Inr r
           | None \<Rightarrow>
               (case cl_convert lib (src_Page s) of
                  Inl e \<Rightarrow> Inl e
                | Inr r \<Rightarrow> Inr (r\<lparr>cap_OriginalURL := src_original s\<rparr>))))"

text \<open>The state of the loop: the best result so far, what was tried and the last error.\<close>

record capture_loop =
  lp_best :: capture_result
  lp_attempts :: "attempt_record list"
  lp_lastErr :: "error option"

definition capture_step :: "capture_lib \<Rightarrow> source \<Rightarrow> capture_loop \<Rightarrow> bool \<times> capture_loop" where
  "capture_step lib s st =
     (case source_Result lib s of
        Inl e \<Rightarrow>
          (False, st\<lparr>lp_lastErr := Some e,
                     lp_attempts := lp_attempts st @ [\<lparr>atp_URL = src_URL s, atp_Status = ''failed''\<rparr>]\<rparr>)
      | Inr r \<Rightarrow>
          (let best = (if cap_HTML (lp_best st) = '''' \<or> cap_Status r \<noteq> ''blocked'' then r
                       else lp_best st)
           in (cap_Status r \<noteq> ''blocked'' \<and> cap_HTML best \<noteq> '''' \<and> \<not> src_Fallback s,
               st\<lparr>lp_best := best,
                  lp_attempts := lp_attempts st
                    @ [\<lparr>atp_URL = src_URL s, atp_Status = cap_Status r\<rparr>]\<rparr>)))"

fun capture_sources :: "capture_lib \<Rightarrow> source list \<Rightarrow> capture_loop \<Rightarrow> bool \<times> capture_loop" where
  "capture_sources lib [] st = (False, st)"
| "capture_sources lib (s # ss) st =
     (case capture_step lib s st of
        (True, st') \<Rightarrow> (True, st') | (False, st') \<Rightarrow> capture_sources lib ss st')"

definition with_attempts :: "capture_loop \<Rightarrow> capture_result" where
  "with_attempts st = (lp_best st)\<lparr>cap_Attempts := lp_attempts st\<rparr>"

definition start_loop :: "string \<Rightarrow> capture_loop" where
  "start_loop original =
     \<lparr>lp_best = zero_capture\<lparr>cap_OriginalURL := original, cap_Status := ''blocked''\<rparr>,
      lp_attempts = [], lp_lastErr = None\<rparr>"

text \<open>\<open>Capture\<close>, with the context as it is read after the loop.\<close>

definition Capture_page ::
  "(rune \<Rightarrow> rune) \<Rightarrow> capturer \<Rightarrow> error option \<Rightarrow> string \<Rightarrow> capture_result \<times> error option" where
  "Capture_page ulow c after original =
     (case capture_sources (cp_lib c) (Sources ulow c original) (start_loop original) of
        (True, st) \<Rightarrow> (with_attempts st, None)
      | (False, st) \<Rightarrow>
          (with_attempts st,
           case after of
             Some e \<Rightarrow> Some e
           | None \<Rightarrow>
               if cap_HTML (lp_best st) \<noteq> '''' then None
               else case lp_lastErr st of
                      Some e \<Rightarrow> Some e | None \<Rightarrow> Some (NewError ''no usable page capture'')))"

definition en_dash :: string where "en_dash = [CHR 0xE2, CHR 0x80, CHR 0x93]"
definition apostrophe :: string where "apostrophe = [CHR 0xE2, CHR 0x80, CHR 0x99]"

definition blocked :: "(rune \<Rightarrow> rune) \<Rightarrow> rendered_page \<Rightarrow> string \<Rightarrow> bool" where
  "blocked ulow page text \<longleftrightarrow>
     (let title = ToLower ulow (TrimSpace (rn_Title page)); body = ToLower ulow text;
          words = length (Fields body)
      in 400 \<le> rn_Status page
         \<or> list_ex (\<lambda>marker. title = marker \<or> title = marker @ ''...''
               \<or> title = marker @ '' '' @ en_dash @ '' archive.today'')
             [''just a moment'', ''access denied'', ''captcha'', ''security verification'',
              ''robot check'']
         \<or> (words < 100 \<and> list_ex (Contains body)
             [''something went wrong. try reloading'',
              ''something went wrong, but don'' @ apostrophe @ ''t fret'',
              ''something went wrong, but don'' @ [CHR 0x27] @ ''t fret'', ''sign in to x'',
              ''log in to x'', ''too many requests''])
         \<or> (words < 300 \<and> list_ex (Contains body)
             [''verify you are human'', ''verify that you are human'',
              ''enable javascript and cookies to continue'', ''complete the captcha'',
              ''please solve the captcha'', ''why do i have to complete a captcha'',
              ''please complete the security check'', ''subscribe to continue reading'',
              ''subscribe to read the full'', ''sign in to continue reading''])
         \<or> TrimSpace text = '''')"

end
