(* ===== verification/Page_Extraction.thy ===== *)
theory Page_Extraction
  imports Capture_Sources
begin

section \<open>Extraction of a candidate article\<close>

text \<open>
  \<open>Extract\<close> of \<open>internal/acquisition/acquisition.go\<close> and \<open>metadata.go\<close>: the article of a page
  with its metadata, read from the document tree. A decoded JSON value is a tree; its decoder
  is an argument, and so is what the HTML renderer has written where it fails, because the code
  ignores that error here.
\<close>

datatype json =
    JNull | JBool bool | JNumber string | JString string | JArray "json list"
  | JObject "(string \<times> json) list"

record extraction_lib =
  el_html :: html_lib
  el_partial :: "node \<Rightarrow> string"
  el_json :: "string \<Rightarrow> json option"

record candidate =
  cand_Title :: string
  cand_Author :: string
  cand_SiteName :: string
  cand_PublicationDate :: string
  cand_Description :: string
  cand_Language :: string
  cand_CanonicalURL :: string
  cand_SemanticHTML :: string
  cand_PlainText :: string
  cand_ExtractionMethod :: string

definition zero_candidate :: candidate where
  "zero_candidate = \<lparr>cand_Title = '''', cand_Author = '''', cand_SiteName = '''',
     cand_PublicationDate = '''', cand_Description = '''', cand_Language = '''',
     cand_CanonicalURL = '''', cand_SemanticHTML = '''', cand_PlainText = '''',
     cand_ExtractionMethod = ''''\<rparr>"

definition maxMetadataTitleRunes :: nat where "maxMetadataTitleRunes = 500"
definition maxMetadataAuthorRunes :: nat where "maxMetadataAuthorRunes = 300"
definition maxMetadataSiteNameRunes :: nat where "maxMetadataSiteNameRunes = 300"
definition maxMetadataDateRunes :: nat where "maxMetadataDateRunes = 128"
definition maxMetadataDescriptionRunes :: nat where "maxMetadataDescriptionRunes = 2000"
definition maxMetadataLanguageRunes :: nat where "maxMetadataLanguageRunes = 32"
definition maxCanonicalURLBytes :: nat where "maxCanonicalURLBytes = 8192"

subsection \<open>Trees\<close>

fun nodeText :: "node \<Rightarrow> string" where
  "nodeText (TextNode d) = d"
| "nodeText (ElementNode _ _ _ cs) =
     concat (map (\<lambda>t. if t = '''' then '''' else t @ '' '') (map nodeText cs))"
| "nodeText (OtherNode _ cs) =
     concat (map (\<lambda>t. if t = '''' then '''' else t @ '' '') (map nodeText cs))"

definition textLen :: "node \<Rightarrow> nat" where
  "textLen n = RuneCountInString (nodeText n)"

text \<open>\<open>treeSize\<close>: the number of nodes and the greatest depth.\<close>

fun tree_nodes :: "node \<Rightarrow> nat" where
  "tree_nodes (TextNode d) = 1"
| "tree_nodes (ElementNode _ _ _ cs) = 1 + sum_list (map tree_nodes cs)"
| "tree_nodes (OtherNode _ cs) = 1 + sum_list (map tree_nodes cs)"

fun tree_depth :: "nat \<Rightarrow> node \<Rightarrow> nat" where
  "tree_depth depth (TextNode d) = depth"
| "tree_depth depth (ElementNode _ _ _ cs) = fold max (map (tree_depth (Suc depth)) cs) depth"
| "tree_depth depth (OtherNode _ cs) = fold max (map (tree_depth (Suc depth)) cs) depth"

text \<open>The elements in document order: every walk of the extraction visits all of them.\<close>

fun elements :: "node \<Rightarrow> node list" where
  "elements (TextNode d) = []"
| "elements (ElementNode data ns as cs) =
     ElementNode data ns as cs # concat (map elements cs)"
| "elements (OtherNode _ cs) = concat (map elements cs)"

fun node_attrs :: "node \<Rightarrow> attribute list" where
  "node_attrs (ElementNode _ _ as _) = as"
| "node_attrs _ = []"

definition node_attr :: "(rune \<Rightarrow> rune) \<Rightarrow> node \<Rightarrow> string \<Rightarrow> string" where
  "node_attr ulow n name =
     (case find (\<lambda>a. EqualFold ulow (at_Key a) name) (node_attrs n) of
        None \<Rightarrow> '''' | Some a \<Rightarrow> TrimSpace (at_Val a))"

fun firstNonEmpty :: "string list \<Rightarrow> string" where
  "firstNonEmpty [] = ''''"
| "firstNonEmpty (v # vs) = (if TrimSpace v \<noteq> '''' then v else firstNonEmpty vs)"

definition setFirst :: "string \<Rightarrow> string \<Rightarrow> string" where
  "setFirst target v = (if target = '''' \<and> TrimSpace v \<noteq> '''' then v else target)"

definition relContains :: "(rune \<Rightarrow> rune) \<Rightarrow> string \<Rightarrow> string \<Rightarrow> bool" where
  "relContains ulow v wanted = list_ex (\<lambda>r. EqualFold ulow r wanted) (Fields v)"

fun firstElementText :: "string \<Rightarrow> node \<Rightarrow> string" where
  "firstElementText element (TextNode d) = ''''"
| "firstElementText element (ElementNode data ns as cs) =
     (if data = element then nodeText (ElementNode data ns as cs)
      else firstNonEmpty (map (firstElementText element) cs))"
| "firstElementText element (OtherNode _ cs) = firstNonEmpty (map (firstElementText element) cs)"

text \<open>The loop of \<open>boundedMetadata\<close>: runs of white space and control characters become one
  space, none at the ends.\<close>

fun bounded_from :: "rune list \<Rightarrow> string \<Rightarrow> bool \<Rightarrow> string" where
  "bounded_from [] b spacePending = b"
| "bounded_from (r # rs) b spacePending =
     (if IsControl r \<or> IsSpace r then bounded_from rs b (b \<noteq> '''')
      else bounded_from rs ((if spacePending then b @ '' '' else b) @ encode_rune r) False)"

definition boundedMetadata :: "string \<Rightarrow> nat \<Rightarrow> string" where
  "boundedMetadata v limit =
     (let rs = string_runes (bounded_from (string_runes (TrimSpace v)) '''' False)
      in string_of_runes (if limit < length rs then take limit rs else rs))"

definition boundedCanonicalFallback :: "string \<Rightarrow> string" where
  "boundedCanonicalFallback v =
     (let v = TrimSpace v in if maxCanonicalURLBytes < length v then '''' else v)"

definition absoluteReference :: "(rune \<Rightarrow> rune) \<Rightarrow> string \<Rightarrow> string \<Rightarrow> string" where
  "absoluteReference ulow base v =
     (case (url_Parse base, url_Parse (TrimSpace v)) of
        (Some b, Some ref) \<Rightarrow>
          (let resolved = ResolveReference b ref
           in if (\<not> EqualFold ulow (u_Scheme resolved) ''http''
                  \<and> \<not> EqualFold ulow (u_Scheme resolved) ''https'')
                 \<or> u_User resolved \<noteq> None \<or> Hostname resolved = '''' then ''''
              else (let s = url_String (resolved\<lparr>u_Fragment := ''''\<rparr>)
                    in if maxCanonicalURLBytes < length s then '''' else s))
      | _ \<Rightarrow> '''')"

subsection \<open>Attribution\<close>

text \<open>\<open>supplementalMetadata\<close>: authors, publisher and date of the structured data, and the authors
  and the date that are visible.\<close>

record attribution =
  ab_authors :: "string list"
  ab_publisher :: string
  ab_date :: string

definition add_name :: "string list \<Rightarrow> string \<Rightarrow> string list" where
  "add_name names v =
     (let v = boundedMetadata v maxMetadataAuthorRunes
      in if v = '''' \<or> v \<in> set names then names else names @ [v])"

definition json_field :: "(string \<times> json) list \<Rightarrow> string \<Rightarrow> json" where
  "json_field members key = (case map_of (rev members) key of None \<Rightarrow> JNull | Some v \<Rightarrow> v)"

definition json_string :: "json \<Rightarrow> string option" where
  "json_string v = (case v of JString s \<Rightarrow> Some s | _ \<Rightarrow> None)"

fun json_names :: "json \<Rightarrow> string list \<Rightarrow> string list" where
  "json_names (JString s) names = add_name names s"
| "json_names (JArray items) names = fold json_names items names"
| "json_names (JObject members) names =
     (case json_string (json_field members ''name'') of None \<Rightarrow> names | Some s \<Rightarrow> add_name names s)"
| "json_names _ names = names"

definition json_types :: "json \<Rightarrow> string list" where
  "json_types v =
     (case v of JString t \<Rightarrow> [t] | JArray ts \<Rightarrow> List.map_filter json_string ts | _ \<Rightarrow> [])"

definition article_types :: "string list" where
  "article_types = [''Article'', ''NewsArticle'', ''BlogPosting'', ''TechArticle'']"

definition set_first_json :: "string \<Rightarrow> json \<Rightarrow> string" where
  "set_first_json target v = (case json_string v of None \<Rightarrow> target | Some s \<Rightarrow> setFirst target s)"

definition article_attribution :: "(string \<times> json) list \<Rightarrow> attribution \<Rightarrow> attribution" where
  "article_attribution members a =
     a\<lparr>ab_authors := json_names (json_field members ''author'') (ab_authors a),
       ab_date := set_first_json (ab_date a) (json_field members ''datePublished''),
       ab_publisher := (case json_field members ''publisher'' of
          JObject publisher \<Rightarrow> set_first_json (ab_publisher a) (json_field publisher ''name'')
        | _ \<Rightarrow> ab_publisher a)\<rparr>"

text \<open>The first argument is how many levels may still be entered: 17 at the start, for the
  depths 0 to 16.\<close>

fun structured :: "nat \<Rightarrow> json \<Rightarrow> attribution \<Rightarrow> attribution" where
  "structured 0 v a = a"
| "structured (Suc levels) v a =
     (case v of
        JArray items \<Rightarrow> fold (structured levels) items a
      | JObject members \<Rightarrow>
          (let a = (if list_ex (\<lambda>t. t \<in> set article_types) (json_types (json_field members ''@type''))
                    then article_attribution members a else a)
           in structured levels (json_field members ''mainEntity'')
                (structured levels (json_field members ''@graph'') a))
      | _ \<Rightarrow> a)"

fun firstElementProperty :: "(rune \<Rightarrow> rune) \<Rightarrow> string \<Rightarrow> node \<Rightarrow> string" where
  "firstElementProperty ulow property (TextNode d) = ''''"
| "firstElementProperty ulow property (ElementNode data ns as cs) =
     (let n = ElementNode data ns as cs
      in if relContains ulow (node_attr ulow n ''itemprop'') property
         then firstNonEmpty [node_attr ulow n ''content'', nodeText n]
         else (case find (\<lambda>v. v \<noteq> '''') (map (firstElementProperty ulow property) cs) of
                 None \<Rightarrow> '''' | Some v \<Rightarrow> v))"
| "firstElementProperty ulow property (OtherNode _ cs) =
     (case find (\<lambda>v. v \<noteq> '''') (map (firstElementProperty ulow property) cs) of
        None \<Rightarrow> '''' | Some v \<Rightarrow> v)"

definition structured_step ::
  "(rune \<Rightarrow> rune) \<Rightarrow> (string \<Rightarrow> json option) \<Rightarrow> node \<Rightarrow> attribution \<Rightarrow> attribution" where
  "structured_step ulow json n a =
     (if node_data n = ''script'' \<and> EqualFold ulow (node_attr ulow n ''type'') ''application/ld+json''
         \<and> length (nodeText n) \<le> 1048576
      then (case json (nodeText n) of None \<Rightarrow> a | Some v \<Rightarrow> structured 17 v a) else a)"

definition visible_step :: "(rune \<Rightarrow> rune) \<Rightarrow> node \<Rightarrow> string list \<times> string \<Rightarrow> string list \<times> string" where
  "visible_step ulow n seen =
     (let (authors, date) = seen;
          authors = (if relContains ulow (node_attr ulow n ''rel'') ''author''
                        \<or> relContains ulow (node_attr ulow n ''itemprop'') ''author''
                     then (let v = firstElementProperty ulow ''name'' n
                           in add_name authors (if v = '''' then nodeText n else v))
                     else authors)
      in (authors,
          if node_data n = ''time'' \<and> relContains ulow (node_attr ulow n ''itemprop'') ''datePublished''
          then setFirst date (node_attr ulow n ''datetime'') else date))"

definition supplementalMetadata ::
  "(rune \<Rightarrow> rune) \<Rightarrow> (string \<Rightarrow> json option) \<Rightarrow> node \<Rightarrow> string \<times> string \<times> string" where
  "supplementalMetadata ulow json doc =
     (let a = fold (structured_step ulow json) (elements doc)
                \<lparr>ab_authors = [], ab_publisher = '''', ab_date = ''''\<rparr>;
          (visibleAuthors, visibleDate) = fold (visible_step ulow) (elements doc) ([], '''')
      in (firstNonEmpty [Join (ab_authors a) '', '', Join visibleAuthors '', ''],
          ab_publisher a, firstNonEmpty [ab_date a, visibleDate]))"

subsection \<open>The page\<close>

definition longer_article :: "node \<Rightarrow> node option \<Rightarrow> node option" where
  "longer_article n best =
     (if (node_data n = ''article'' \<or> node_data n = ''main'')
         \<and> (case best of None \<Rightarrow> True | Some b \<Rightarrow> textLen b < textLen n)
      then Some n else best)"

datatype meta_slot =
    ArticleAuthor | StandardAuthor | OpenGraphSiteName | StandardSiteName | OpenGraphDescription
  | StandardDescription | ArticleDate | StandardDate | OpenGraphLanguage | OpenGraphTitle
  | TwitterTitle | StandardTitle

definition meta_slots :: "(string \<times> meta_slot) list" where
  "meta_slots =
     [(''article:author'', ArticleAuthor), (''author'', StandardAuthor),
      (''og:site_name'', OpenGraphSiteName), (''application-name'', StandardSiteName),
      (''og:description'', OpenGraphDescription), (''description'', StandardDescription),
      (''article:published_time'', ArticleDate), (''date'', StandardDate),
      (''datepublished'', StandardDate), (''date-published'', StandardDate),
      (''pubdate'', StandardDate), (''og:locale'', OpenGraphLanguage),
      (''content-language'', OpenGraphLanguage), (''language'', OpenGraphLanguage),
      (''og:title'', OpenGraphTitle), (''twitter:title'', TwitterTitle), (''title'', StandardTitle)]"

definition metadataKeys :: "(rune \<Rightarrow> rune) \<Rightarrow> node \<Rightarrow> string list" where
  "metadataKeys ulow n =
     filter (\<lambda>k. k \<noteq> '''')
       (map (\<lambda>a. ToLower ulow (TrimSpace (node_attr ulow n a)))
          [''property'', ''name'', ''itemprop'', ''http-equiv''])"

definition set_slot :: "string \<Rightarrow> string \<Rightarrow> (meta_slot \<Rightarrow> string) \<Rightarrow> meta_slot \<Rightarrow> string" where
  "set_slot content key m =
     (case map_of meta_slots key of
        None \<Rightarrow> m
      | Some slot \<Rightarrow>
          m(slot := setFirst (m slot)
              (if slot = OpenGraphLanguage then ReplaceAll content ''_'' ''-'' else content)))"

record page_meta =
  pm_slots :: "meta_slot \<Rightarrow> string"
  pm_htmlLanguage :: string
  pm_canonical :: "string option"

definition metadata_step ::
  "(rune \<Rightarrow> rune) \<Rightarrow> string \<Rightarrow> node \<Rightarrow> page_meta \<Rightarrow> page_meta" where
  "metadata_step ulow base n m =
     (let m = (if node_data n = ''html'' \<and> pm_htmlLanguage m = ''''
               then m\<lparr>pm_htmlLanguage := node_attr ulow n ''lang''\<rparr> else m);
          m = (if node_data n = ''link'' \<and> pm_canonical m = None
                  \<and> relContains ulow (node_attr ulow n ''rel'') ''canonical''
               then (let v = absoluteReference ulow base (node_attr ulow n ''href'')
                     in if v \<noteq> '''' then m\<lparr>pm_canonical := Some v\<rparr> else m)
               else m)
      in if node_data n = ''meta''
         then m\<lparr>pm_slots := fold (set_slot (node_attr ulow n ''content'')) (metadataKeys ulow n)
                  (pm_slots m)\<rparr>
         else m)"

definition render :: "extraction_lib \<Rightarrow> node \<Rightarrow> string" where
  "render lib n = (case html_Render (el_html lib) n of Inl _ \<Rightarrow> el_partial lib n | Inr s \<Rightarrow> s)"

definition document_title :: "node \<Rightarrow> string" where
  "document_title doc =
     fold (\<lambda>n t. if node_data n = ''title'' \<and> t = '''' then nodeText n else t) (elements doc) ''''"

definition page_candidate ::
  "(rune \<Rightarrow> rune) \<Rightarrow> extraction_lib \<Rightarrow> page \<Rightarrow> node \<Rightarrow> node \<Rightarrow> candidate" where
  "page_candidate ulow lib p doc best =
     (let m = fold (metadata_step ulow (pg_FinalURL p)) (elements doc)
                \<lparr>pm_slots = (\<lambda>_. ''''), pm_htmlLanguage = '''', pm_canonical = None\<rparr>;
          s = pm_slots m;
          (extraAuthor, extraPublisher, extraDate) = supplementalMetadata ulow (el_json lib) doc
      in \<lparr>cand_Title = boundedMetadata (firstNonEmpty [s OpenGraphTitle, s TwitterTitle,
            s StandardTitle, document_title doc, firstElementText ''h1'' best]) maxMetadataTitleRunes,
          cand_Author = boundedMetadata (firstNonEmpty [s ArticleAuthor, extraAuthor,
            s StandardAuthor]) maxMetadataAuthorRunes,
          cand_SiteName = boundedMetadata (firstNonEmpty [s OpenGraphSiteName, extraPublisher,
            s StandardSiteName]) maxMetadataSiteNameRunes,
          cand_PublicationDate = boundedMetadata (firstNonEmpty [s ArticleDate, extraDate,
            s StandardDate]) maxMetadataDateRunes,
          cand_Description = boundedMetadata (firstNonEmpty [s OpenGraphDescription,
            s StandardDescription]) maxMetadataDescriptionRunes,
          cand_Language = boundedMetadata (firstNonEmpty [pm_htmlLanguage m,
            s OpenGraphLanguage]) maxMetadataLanguageRunes,
          cand_CanonicalURL = (case pm_canonical m of
            Some v \<Rightarrow> v | None \<Rightarrow> boundedCanonicalFallback (pg_FinalURL p)),
          cand_SemanticHTML = '''', cand_PlainText = '''',
          cand_ExtractionMethod = ''deterministic''\<rparr>)"

definition Extract ::
  "(rune \<Rightarrow> rune) \<Rightarrow> extraction_lib \<Rightarrow> page \<Rightarrow> error + candidate" where
  "Extract ulow lib p =
     (case html_Parse (el_html lib) (pg_HTML p) of
        Inl e \<Rightarrow> Inl e
      | Inr doc \<Rightarrow>
          if 100000 < tree_nodes doc \<or> 256 < tree_depth 0 doc
          then Inl (NewError ''document exceeds DOM limits'')
          else
            (let best = (case fold longer_article (elements doc) None of None \<Rightarrow> doc | Some b \<Rightarrow> b);
                 c = page_candidate ulow lib p doc best
             in case ArticleHTML ulow (el_html lib) (render lib best) (cand_Title c) of
                  Inl e \<Rightarrow> Inl e
                | Inr safe \<Rightarrow>
                    (case html_Parse (el_html lib) safe of
                       Inl e \<Rightarrow> Inl e
                     | Inr safeDocument \<Rightarrow>
                         (let plain = TrimSpace (nodeText safeDocument)
                          in if RuneCountInString plain < 80
                             then Inl (NewError ''insufficient article content'')
                             else Inr (c\<lparr>cand_SemanticHTML := safe, cand_PlainText := plain\<rparr>)))))"

subsection \<open>Facts\<close>

text \<open>What a candidate promises: its HTML is the output of the article sanitizer, its text is long
  enough and every piece of metadata is within its limit.\<close>

lemma Extract_ok:
  assumes "Extract ulow lib p = Inr c"
  obtains doc best where "html_Parse (el_html lib) (pg_HTML p) = Inr doc"
    and "tree_nodes doc \<le> 100000" and "tree_depth 0 doc \<le> 256"
    and "c = (page_candidate ulow lib p doc best)\<lparr>cand_SemanticHTML := cand_SemanticHTML c,
           cand_PlainText := cand_PlainText c\<rparr>"
    and "ArticleHTML ulow (el_html lib) (render lib best) (cand_Title c) = Inr (cand_SemanticHTML c)"
    and "80 \<le> RuneCountInString (cand_PlainText c)"
  using assms that
  by (force simp: Extract_def Let_def split: sum.splits if_splits option.splits)

end
