(* ===== verification/Processing.thy ===== *)
theory Processing
  imports Worker Capture Page_Extraction
begin

section \<open>The processing pipeline\<close>

text \<open>
  \<open>internal/processing/processor.go\<close>: a job is processed from an edit of its owner, from a saved
  page, or from the sources of its URL in turn; every article crosses the approval, and then
  the formatter. The processor is a tree of stage requests (\<open>proc\<close>), so it composes with the
  worker. The seams of the pipeline are fields of a record. A seam that is called once per
  attempt also gets the attempt, and so does every reading of the two contexts: the answers may
  differ from one call to the next.
\<close>

datatype attempt_site = SavedAttempt | EditAttempt | SourceAttempt nat | FallbackAttempt | RecoveredAttempt

datatype ctx_site =
    RenderFailed attempt_site | FormatFailed attempt_site | SavedDone | LoopFailed nat
  | BeforeFallback | AfterFallback | BeforeRecovery | Ended

record approval_input =
  ai_TargetLanguage :: string
  ai_RetrievedURL :: string
  ai_SourceURL :: string
  ai_CandidateText :: string
  ai_CandidateHTML :: string
  ai_Title :: string
  ai_Author :: string
  ai_SiteName :: string
  ai_PublicationDate :: string
  ai_Description :: string
  ai_Language :: string
  ai_ExtractionMethod :: string
  ai_ScreenshotDataURL :: string

record format_article =
  fa_Profile :: string
  fa_Title :: string
  fa_Author :: string
  fa_SiteName :: string
  fa_PublicationDate :: string
  fa_SourceURL :: string
  fa_SemanticHTML :: string
  fa_GeneratedAt :: time

type_synonym approval = "article_draft \<Rightarrow> error + approved_article"
type_synonym approver = "attempt_site \<Rightarrow> job_id \<Rightarrow> approval_input \<Rightarrow> approval \<Rightarrow> error + approved_article"

record pipeline =
  pl_readingEdits :: "(job_id \<Rightarrow> error + article_draft option) option"
  pl_outputLanguages :: "(job_id \<Rightarrow> error + string) option"
  pl_browserRecovery :: "(string \<Rightarrow> error + rendered_page) option"
  pl_saved :: "(job_id \<Rightarrow> error + rendered_page option) option"
  pl_savedRenderer :: "(attempt_site \<Rightarrow> string \<Rightarrow> string \<Rightarrow> error + rendered_page) option"
  pl_renderer :: "capturer option"
  pl_approver :: "approver option"
  pl_formatter :: "(attempt_site \<Rightarrow> format_article \<Rightarrow> error + string) option"

text \<open>What is not a seam of the pipeline: the extraction, the owner's approval of an edit, the
  clock, and the readings of the caller's context and of the recovery context.\<close>

record process_env =
  pv_lower :: "rune \<Rightarrow> rune"
  pv_extract :: extraction_lib
  pv_now :: "attempt_site \<Rightarrow> time"
  pv_ctx :: "ctx_site \<Rightarrow> error option"
  pv_recovery :: "ctx_site \<Rightarrow> error option"

subsection \<open>Construction\<close>

text \<open>The renderer may be able to render saved pages itself. An option is a change of the
  pipeline.\<close>

definition WithArchives :: "(string \<Rightarrow> string list) \<Rightarrow> pipeline \<Rightarrow> pipeline" where
  "WithArchives resolver p =
     p\<lparr>pl_renderer := map_option (\<lambda>c. c\<lparr>cp_archives := Some resolver\<rparr>) (pl_renderer p)\<rparr>"

definition WithSavedPages ::
  "(job_id \<Rightarrow> error + rendered_page option)
     \<Rightarrow> (attempt_site \<Rightarrow> string \<Rightarrow> string \<Rightarrow> error + rendered_page) \<Rightarrow> pipeline \<Rightarrow> pipeline" where
  "WithSavedPages source renderer p = p\<lparr>pl_saved := Some source, pl_savedRenderer := Some renderer\<rparr>"

definition WithBrowserRecovery :: "(string \<Rightarrow> error + rendered_page) \<Rightarrow> pipeline \<Rightarrow> pipeline" where
  "WithBrowserRecovery browser p = p\<lparr>pl_browserRecovery := Some browser\<rparr>"

definition WithOutputLanguages :: "(job_id \<Rightarrow> error + string) \<Rightarrow> pipeline \<Rightarrow> pipeline" where
  "WithOutputLanguages source p = p\<lparr>pl_outputLanguages := Some source\<rparr>"

definition WithReadingEdits :: "(job_id \<Rightarrow> error + article_draft option) \<Rightarrow> pipeline \<Rightarrow> pipeline" where
  "WithReadingEdits source p = p\<lparr>pl_readingEdits := Some source\<rparr>"

definition NewProcessor ::
  "capturer option \<Rightarrow> (attempt_site \<Rightarrow> string \<Rightarrow> string \<Rightarrow> error + rendered_page) option
     \<Rightarrow> approver option \<Rightarrow> (attempt_site \<Rightarrow> format_article \<Rightarrow> error + string) option
     \<Rightarrow> (pipeline \<Rightarrow> pipeline) list \<Rightarrow> error + pipeline" where
  "NewProcessor renderer rendersSaved approver pdf options =
     (if renderer = None \<or> approver = None \<or> pdf = None
      then Inl (NewError ''renderer, AI approver, and formatter are required'')
      else Inr (fold (\<lambda>option p. option p) options
             \<lparr>pl_readingEdits = None, pl_outputLanguages = None, pl_browserRecovery = None,
              pl_saved = None, pl_savedRenderer = rendersSaved, pl_renderer = renderer,
              pl_approver = approver, pl_formatter = pdf\<rparr>))"

subsection \<open>Errors\<close>

definition processingError :: "failure_category \<Rightarrow> bool \<Rightarrow> error" where
  "processingError category retryable =
     NewProcessingError (category_string category) (''processing failed: '' @ category_string category)
       retryable"

definition failure_category_of :: "error \<Rightarrow> failure_category option" where
  "failure_category_of e =
     (case errors_As_ProcessingError e of
        None \<Rightarrow> None | Some (category, _, _) \<Rightarrow> Some (category_of_string category))"

definition recoverable :: "error \<Rightarrow> bool" where
  "recoverable e =
     (case failure_category_of e of
        None \<Rightarrow> False
      | Some c \<Rightarrow> c \<in> set [FailurePaywallDetected, FailureAccessDenied, FailureFetchFailed,
          FailureRenderTimeout, FailureInsufficientContent, FailureUnsupportedContent,
          FailurePDFQualityFailed, FailureFormatFailed])"

definition mapRenderError :: "error option \<Rightarrow> error \<Rightarrow> error" where
  "mapRenderError ctx e =
     (case ctx of
        Some c \<Rightarrow> c
      | None \<Rightarrow>
          if errors_Is e ErrBlockedTarget then processingError FailureBlockedTarget False
          else if errors_Is e ErrRenderTimeout \<or> errors_Is e DeadlineExceeded
          then processingError FailureRenderTimeout True
          else if errors_Is e ErrDOMTooLarge \<or> errors_Is e ErrScreenshotTooLarge
                  \<or> errors_Is e ErrResponseTooLarge \<or> errors_Is e ErrRequestLimit
                  \<or> errors_Is e ErrTooManyRedirects
          then processingError FailureFetchFailed False
          else processingError FailureFetchFailed True)"

text \<open>\<open>errors.As(err, *formatter.QualityError)\<close>.\<close>

function errors_As_QualityError :: "error \<Rightarrow> bool" where
  "errors_As_QualityError e \<longleftrightarrow>
     (case e of QualityError _ \<Rightarrow> True | _ \<Rightarrow> (\<exists>c \<in> set (Unwrap e). errors_As_QualityError c))"
  by pat_completeness auto
termination
  by (relation "measure size") (auto simp: Unwrap_size)

declare errors_As_QualityError.simps [simp del]

definition ValidTargetLanguage :: "string \<Rightarrow> bool" where
  "ValidTargetLanguage v \<longleftrightarrow>
     v \<in> set ['''', ''en'', ''es'', ''fr'', ''de'', ''it'', ''pt'', ''nl'', ''ja'', ''ko'', ''zh'']"

subsection \<open>One page\<close>

text \<open>Every step ends with a result and an error, which the continuation receives.\<close>

type_synonym proc_cont = "process_result \<times> error option \<Rightarrow> proc"

definition proc_fail :: "proc_cont \<Rightarrow> error \<Rightarrow> proc" where
  "proc_fail k e = k (zero_result, Some e)"

definition in_stage :: "stage \<Rightarrow> proc_cont \<Rightarrow> proc \<Rightarrow> proc" where
  "in_stage stage k rest =
     ProcSetStage stage (\<lambda>oe. case oe of Some e \<Rightarrow> proc_fail k e | None \<Rightarrow> rest)"

definition format_request ::
  "process_env \<Rightarrow> attempt_site \<Rightarrow> job \<Rightarrow> article_draft \<Rightarrow> string \<Rightarrow> format_article" where
  "format_request env site j draft canonicalURL =
     \<lparr>fa_Profile = job_Profile j, fa_Title = draft_Title draft, fa_Author = draft_Author draft,
      fa_SiteName = draft_SiteName draft, fa_PublicationDate = draft_PublicationDate draft,
      fa_SourceURL = canonicalURL, fa_SemanticHTML = draft_SemanticHTML draft,
      fa_GeneratedAt = pv_now env site\<rparr>"

definition formatArticle ::
  "process_env \<Rightarrow> (attempt_site \<Rightarrow> format_article \<Rightarrow> error + string) \<Rightarrow> attempt_site
     \<Rightarrow> (ctx_site \<Rightarrow> error option) \<Rightarrow> job \<Rightarrow> approved_article \<Rightarrow> string \<Rightarrow> proc_cont \<Rightarrow> proc" where
  "formatArticle env format site ctx j approved canonicalURL k =
     (case Snapshot approved of
        (draft, ok) \<Rightarrow>
          if \<not> ok then proc_fail k (processingError FailureAIInvalidResponse False)
          else in_stage StageFormatting k
                 (case format site (format_request env site j draft canonicalURL) of
                    Inr pdf \<Rightarrow>
                      k (\<lparr>res_Article = approved, res_CanonicalURL = canonicalURL,
                          res_Filename = draft_Title draft @ ''.pdf'', res_PDF = pdf\<rparr>, None)
                  | Inl e \<Rightarrow>
                      (case ctx (FormatFailed site) of
                         Some c \<Rightarrow> proc_fail k c
                       | None \<Rightarrow>
                           if errors_As_QualityError e
                           then proc_fail k (processingError FailurePDFQualityFailed False)
                           else proc_fail k (processingError FailureFormatFailed False))))"

definition page_candidate_of ::
  "process_env \<Rightarrow> rendered_page \<Rightarrow> string \<Rightarrow> candidate" where
  "page_candidate_of env page sourceURL =
     (let c = (case Extract (pv_lower env) (pv_extract env)
                      \<lparr>pg_FinalURL = sourceURL, pg_Status = rn_Status page, pg_HTML = rn_DOM page\<rparr> of
                 Inl _ \<Rightarrow> zero_candidate\<lparr>cand_CanonicalURL := sourceURL\<rparr> | Inr c \<Rightarrow> c)
      in if cand_Title c = '''' then c\<lparr>cand_Title := TrimSpace (rn_Title page)\<rparr> else c)"

definition approval_request ::
  "job \<Rightarrow> rendered_page \<Rightarrow> candidate \<Rightarrow> string \<Rightarrow> string \<Rightarrow> approval_input" where
  "approval_request j page c sourceURL targetLanguage =
     \<lparr>ai_TargetLanguage = targetLanguage, ai_RetrievedURL = sourceURL,
      ai_SourceURL = job_SubmittedURL j, ai_CandidateText = cand_PlainText c,
      ai_CandidateHTML = cand_SemanticHTML c, ai_Title = cand_Title c, ai_Author = cand_Author c,
      ai_SiteName = cand_SiteName c, ai_PublicationDate = cand_PublicationDate c,
      ai_Description = cand_Description c, ai_Language = cand_Language c,
      ai_ExtractionMethod = cand_ExtractionMethod c,
      ai_ScreenshotDataURL = ''data:image/png;base64,''
        @ b64_encode StdEncoding True (map byte (rn_Screenshot page))\<rparr>"

definition processPage ::
  "process_env \<Rightarrow> approver \<Rightarrow> (attempt_site \<Rightarrow> format_article \<Rightarrow> error + string) \<Rightarrow> approval
     \<Rightarrow> attempt_site \<Rightarrow> (ctx_site \<Rightarrow> error option) \<Rightarrow> job \<Rightarrow> rendered_page \<Rightarrow> string \<Rightarrow> bool \<Rightarrow> string
     \<Rightarrow> proc_cont \<Rightarrow> proc" where
  "processPage env approver format approve site ctx j page requestedURL archived targetLanguage k =
     (if rn_Screenshot page = '''' then proc_fail k (processingError FailureFetchFailed True)
      else
        (let final = TrimSpace (rn_FinalURL page);
             sourceURL = (if final = '''' then requestedURL else final);
             c = page_candidate_of env page sourceURL;
             canonical = TrimSpace (cand_CanonicalURL c);
             canonicalURL = (if archived \<or> canonical = '''' then sourceURL else canonical)
         in in_stage StageExtracting k
              (in_stage StageAIAnalyzing k
                 (case approver site (job_ID j)
                         (approval_request j page c sourceURL targetLanguage) approve of
                    Inl e \<Rightarrow> proc_fail k e
                  | Inr approved \<Rightarrow>
                      formatArticle env format site ctx j approved canonicalURL k))))"

subsection \<open>One source\<close>

definition titled :: "rendered_page \<Rightarrow> string \<Rightarrow> rendered_page" where
  "titled page title = (if rn_Title page = '''' then page\<lparr>rn_Title := title\<rparr> else page)"

definition processAttempt ::
  "process_env \<Rightarrow> pipeline \<Rightarrow> approver \<Rightarrow> (attempt_site \<Rightarrow> format_article \<Rightarrow> error + string)
     \<Rightarrow> approval \<Rightarrow> attempt_site \<Rightarrow> job \<Rightarrow> source \<Rightarrow> string \<Rightarrow> proc_cont \<Rightarrow> proc" where
  "processAttempt env p approver format approve site j source targetLanguage k =
     (let ctx = pv_recovery env; archived = (src_URL source \<noteq> job_SubmittedURL j);
          go = (\<lambda>page. processPage env approver format approve site ctx j page (src_URL source)
                         archived targetLanguage k)
      in case src_Err source of
           Some e \<Rightarrow> proc_fail k (mapRenderError (ctx (RenderFailed site)) e)
         | None \<Rightarrow>
             (case src_Static source of
                None \<Rightarrow> go (src_Page source)
              | Some static \<Rightarrow>
                  (case pl_savedRenderer p of
                     None \<Rightarrow> proc_fail k (processingError FailureUnsupportedContent False)
                   | Some renderSaved \<Rightarrow>
                       (case renderSaved site (cap_FinalURL static) (cap_HTML static) of
                          Inl e \<Rightarrow> proc_fail k (mapRenderError (ctx (RenderFailed site)) e)
                        | Inr page \<Rightarrow> go (titled page (cap_Title static))))))"

subsection \<open>All sources\<close>

text \<open>The variables of the loop over the sources.\<close>

record attempts_state =
  at_count :: nat
  at_originalErr :: "error option"
  at_transient :: bool
  at_fallback :: "source option"

definition failed_attempt :: "job \<Rightarrow> source \<Rightarrow> error \<Rightarrow> attempts_state \<Rightarrow> attempts_state" where
  "failed_attempt j source e st =
     st\<lparr>at_originalErr := (if src_URL source = job_SubmittedURL j \<or> at_originalErr st = None
                           then Some e else at_originalErr st),
        at_transient := (at_transient st
          \<or> (src_URL source \<noteq> job_SubmittedURL j
             \<and> (case errors_As_ProcessingError e of Some (_, _, r) \<Rightarrow> r | None \<Rightarrow> False)))\<rparr>"

definition blocked_archive :: "job \<Rightarrow> source \<Rightarrow> error \<Rightarrow> bool" where
  "blocked_archive j source e \<longleftrightarrow>
     (case errors_As_ProcessingError e of
        None \<Rightarrow> False
      | Some (c, _, _) \<Rightarrow> c = category_string FailureBlockedTarget)
     \<and> src_URL source \<noteq> job_SubmittedURL j"

definition final_error :: "process_env \<Rightarrow> attempts_state \<Rightarrow> error" where
  "final_error env st =
     (let mapped = mapRenderError (pv_recovery env Ended)
            (case pv_recovery env Ended of None \<Rightarrow> NewError '''' | Some e \<Rightarrow> e)
      in case at_originalErr st of
           None \<Rightarrow> mapped
         | Some e \<Rightarrow>
             (case (at_transient st, errors_As_ProcessingError e) of
                (True, Some (c, m, _)) \<Rightarrow> NewProcessingError c m True
              | _ \<Rightarrow> e))"

definition recover_in_browser ::
  "process_env \<Rightarrow> pipeline \<Rightarrow> approver \<Rightarrow> (attempt_site \<Rightarrow> format_article \<Rightarrow> error + string)
     \<Rightarrow> approval \<Rightarrow> job \<Rightarrow> string \<Rightarrow> attempts_state \<Rightarrow> proc_cont \<Rightarrow> proc" where
  "recover_in_browser env p approver format approve j targetLanguage st k =
     (case pv_ctx env Ended of
        Some e \<Rightarrow> proc_fail k e
      | None \<Rightarrow>
          (case pl_browserRecovery p of
             None \<Rightarrow> proc_fail k (final_error env st)
           | Some browse \<Rightarrow>
               if pv_recovery env BeforeRecovery \<noteq> None then proc_fail k (final_error env st)
               else in_stage StageFetching k
                      (case browse (job_SubmittedURL j) of
                         Inr page \<Rightarrow>
                           processPage env approver format approve RecoveredAttempt (pv_recovery env)
                             j page (job_SubmittedURL j) True targetLanguage k
                       | Inl _ \<Rightarrow> proc_fail k (final_error env st))))"

definition after_sources ::
  "process_env \<Rightarrow> pipeline \<Rightarrow> approver \<Rightarrow> (attempt_site \<Rightarrow> format_article \<Rightarrow> error + string)
     \<Rightarrow> approval \<Rightarrow> job \<Rightarrow> string \<Rightarrow> attempts_state \<Rightarrow> proc_cont \<Rightarrow> proc" where
  "after_sources env p approver format approve j targetLanguage st k =
     (let rest = recover_in_browser env p approver format approve j targetLanguage st k
      in case at_fallback st of
           None \<Rightarrow> rest
         | Some fallback \<Rightarrow>
             if pv_recovery env BeforeFallback \<noteq> None then rest
             else in_stage StageFetching k
                    (processAttempt env p approver format approve FallbackAttempt j fallback
                       targetLanguage
                       (\<lambda>(result, oe). case oe of
                          None \<Rightarrow> k (result, None)
                        | Some e \<Rightarrow> if \<not> recoverable e then k (result, Some e) else rest)))"

fun process_sources ::
  "process_env \<Rightarrow> pipeline \<Rightarrow> approver \<Rightarrow> (attempt_site \<Rightarrow> format_article \<Rightarrow> error + string)
     \<Rightarrow> approval \<Rightarrow> job \<Rightarrow> string \<Rightarrow> source list \<Rightarrow> attempts_state \<Rightarrow> proc_cont \<Rightarrow> proc" where
  "process_sources env p approver format approve j targetLanguage [] st k =
     after_sources env p approver format approve j targetLanguage st k"
| "process_sources env p approver format approve j targetLanguage (source # sources) st k =
     (if src_Fallback source \<and> src_Err source = None
      then process_sources env p approver format approve j targetLanguage sources
             (st\<lparr>at_fallback := Some source\<rparr>) k
      else
        (let attempt =
               processAttempt env p approver format approve (SourceAttempt (at_count st)) j source
                 targetLanguage
                 (\<lambda>(result, oe). case oe of
                    None \<Rightarrow> k (result, None)
                  | Some e \<Rightarrow>
                      if \<not> recoverable e \<and> \<not> blocked_archive j source e
                         \<and> pv_recovery env (LoopFailed (at_count st)) = None
                      then proc_fail k e
                      else process_sources env p approver format approve j targetLanguage sources
                             (failed_attempt j source e (st\<lparr>at_count := Suc (at_count st)\<rparr>)) k)
         in if 0 < at_count st then in_stage StageFetching k attempt else attempt))"

definition new_attempts :: attempts_state where
  "new_attempts = \<lparr>at_count = 0, at_originalErr = None, at_transient = False, at_fallback = None\<rparr>"

subsection \<open>A job\<close>

definition process_fresh ::
  "process_env \<Rightarrow> pipeline \<Rightarrow> capturer \<Rightarrow> approver \<Rightarrow> (attempt_site \<Rightarrow> format_article \<Rightarrow> error + string)
     \<Rightarrow> approval \<Rightarrow> job \<Rightarrow> string \<Rightarrow> proc_cont \<Rightarrow> proc" where
  "process_fresh env p renderer approver format approve j targetLanguage k =
     process_sources env p approver format approve j targetLanguage
       (Sources (pv_lower env) renderer (job_SubmittedURL j)) new_attempts k"

definition process_saved ::
  "process_env \<Rightarrow> pipeline \<Rightarrow> approver \<Rightarrow> (attempt_site \<Rightarrow> format_article \<Rightarrow> error + string) \<Rightarrow> approval
     \<Rightarrow> job \<Rightarrow> string \<Rightarrow> proc \<Rightarrow> proc_cont \<Rightarrow> proc" where
  "process_saved env p approver format approve j targetLanguage fresh k =
     (case (pl_saved p, pl_savedRenderer p) of
        (Some savedPage, Some renderSaved) \<Rightarrow>
          (case savedPage (job_ID j) of
             Inl e \<Rightarrow> proc_fail k (processingError FailureFetchFailed True)
           | Inr None \<Rightarrow> fresh
           | Inr (Some saved) \<Rightarrow>
               (case renderSaved SavedAttempt (rn_FinalURL saved) (rn_DOM saved) of
                  Inl e \<Rightarrow> proc_fail k (mapRenderError (pv_ctx env (RenderFailed SavedAttempt)) e)
                | Inr page \<Rightarrow>
                    processPage env approver format approve SavedAttempt (pv_ctx env) j
                      (titled page (rn_Title saved)) (rn_FinalURL saved) True targetLanguage
                      (\<lambda>(result, oe). case oe of
                         None \<Rightarrow> k (result, None)
                       | Some e \<Rightarrow>
                           if \<not> recoverable e \<or> pv_ctx env SavedDone \<noteq> None then k (result, Some e)
                           else in_stage StageFetching k fresh)))
      | _ \<Rightarrow> fresh)"

definition with_language ::
  "pipeline \<Rightarrow> job \<Rightarrow> (string \<Rightarrow> proc) \<Rightarrow> proc_cont \<Rightarrow> proc" where
  "with_language p j go k =
     (case pl_outputLanguages p of
        None \<Rightarrow> go ''''
      | Some languages \<Rightarrow>
          (case languages (job_ID j) of
             Inl e \<Rightarrow> proc_fail k (processingError FailureStorageFailed True)
           | Inr language \<Rightarrow>
               if \<not> ValidTargetLanguage language
               then proc_fail k (processingError FailureAIInvalidResponse False)
               else go language))"

definition with_edit ::
  "process_env \<Rightarrow> pipeline \<Rightarrow> (attempt_site \<Rightarrow> format_article \<Rightarrow> error + string) \<Rightarrow> job \<Rightarrow> proc
     \<Rightarrow> proc_cont \<Rightarrow> proc" where
  "with_edit env p format j fresh k =
     (case pl_readingEdits p of
        None \<Rightarrow> fresh
      | Some edits \<Rightarrow>
          (case edits (job_ID j) of
             Inl e \<Rightarrow> proc_fail k (processingError FailureStorageFailed True)
           | Inr None \<Rightarrow> fresh
           | Inr (Some draft) \<Rightarrow>
               (case ApproveReadingEdit (pv_lower env) (el_html (pv_extract env)) draft of
                  Inl e \<Rightarrow> proc_fail k e
                | Inr approved \<Rightarrow>
                    formatArticle env format EditAttempt (pv_ctx env) j approved
                      (job_SubmittedURL j) k)))"

definition finished :: proc_cont where
  "finished r = ProcDone (fst r) (snd r)"

definition Process :: "process_env \<Rightarrow> pipeline \<Rightarrow> approval \<Rightarrow> job \<Rightarrow> proc" where
  "Process env p approve j =
     (case (pl_renderer p, pl_approver p, pl_formatter p) of
        (Some renderer, Some approver, Some format) \<Rightarrow>
          with_edit env p format j
            (with_language p j
               (\<lambda>targetLanguage.
                  process_saved env p approver format approve j targetLanguage
                    (process_fresh env p renderer approver format approve j targetLanguage finished)
                    finished)
               finished)
            finished
      | _ \<Rightarrow> proc_fail finished (processingError FailureInternalError False))"

end
