(* ===== verification/AI_Approval.thy ===== *)
theory AI_Approval
  imports AI_Answers
begin

section \<open>The mandatory approval\<close>

text \<open>
  \<open>internal/ai/approval.go\<close>: an analysis, the durable record of its provider calls, the mapping
  of its failures, and only then the approval seam of the application. The analyzer and the
  recorder are fields of a record; both are asked once per attempt of the pipeline.
\<close>

record ai_attempt =
  aa_Purpose :: string
  aa_Model :: string
  aa_PromptVersion :: string
  aa_Latency :: duration
  aa_ProviderRequestID :: string
  aa_InputTokens :: int
  aa_OutputTokens :: int
  aa_UsageReported :: bool
  aa_Status :: string
  aa_ErrorCategory :: string
  aa_CreatedAt :: time

record approver_env =
  av_lower :: "rune \<Rightarrow> rune"
  av_html :: html_lib
  av_Analyze :: "attempt_site \<Rightarrow> analyze_request \<Rightarrow> analysis"
  av_Record :: "attempt_site \<Rightarrow> job_id \<Rightarrow> ai_attempt list \<Rightarrow> error + string list"
  av_ctx :: "attempt_site \<Rightarrow> error option"

definition NewArticleApprover ::
  "'analyzer option \<Rightarrow> 'recorder option \<Rightarrow> ai_error + 'analyzer \<times> 'recorder" where
  "NewArticleApprover analyzer recorder =
     (case (analyzer, recorder) of
        (Some a, Some r) \<Rightarrow> Inr (a, r)
      | _ \<Rightarrow> Inl (ai_err CodeInvalidConfig ''AI analyzer and attempt recorder are required'' False))"

definition analysis_request :: "approval_input \<Rightarrow> analyze_request" where
  "analysis_request i =
     \<lparr>ar_TargetLanguage = ai_TargetLanguage i, ar_RetrievedURL = ai_RetrievedURL i,
      ar_SourceURL = ai_SourceURL i, ar_CandidateText = ai_CandidateText i,
      ar_CandidateHTML = ai_CandidateHTML i, ar_Title = ai_Title i, ar_Author = ai_Author i,
      ar_SiteName = ai_SiteName i, ar_PublicationDate = ai_PublicationDate i,
      ar_Description = ai_Description i, ar_Language = ai_Language i,
      ar_ScreenshotDataURL = ai_ScreenshotDataURL i\<rparr>"

definition recorded_attempt :: "nat \<Rightarrow> attempt \<Rightarrow> ai_attempt" where
  "recorded_attempt i a =
     \<lparr>aa_Purpose = (if 0 < i then ''repair'' else ''analysis''), aa_Model = at_Model a,
      aa_PromptVersion = at_PromptVersion a, aa_Latency = at_Latency a,
      aa_ProviderRequestID = at_ProviderRequestID a, aa_InputTokens = at_InputTokens a,
      aa_OutputTokens = at_OutputTokens a, aa_UsageReported = at_UsageReported a,
      aa_Status = attempt_status_string (at_Status a),
      aa_ErrorCategory = (case at_ErrorCode a of None \<Rightarrow> '''' | Some c \<Rightarrow> ai_code_string c),
      aa_CreatedAt = at_CreatedAt a\<rparr>"

definition recorded_attempts :: "attempt list \<Rightarrow> ai_attempt list" where
  "recorded_attempts attempts =
     map (\<lambda>(i, a). recorded_attempt i a) (enumerate 0 attempts)"

fun category_of_code :: "ai_code \<Rightarrow> failure_category \<times> bool" where
  "category_of_code CodeAITimeout = (FailureAIUnavailable, True)"
| "category_of_code CodeAIUnavailable = (FailureAIUnavailable, True)"
| "category_of_code CodeAIRateLimited = (FailureAIUnavailable, True)"
| "category_of_code CodeAIAuthFailed = (FailureAIAuthFailed, False)"
| "category_of_code CodeAIModelUnsupported = (FailureAIModelUnsupported, False)"
| "category_of_code CodePaywallDetected = (FailurePaywallDetected, False)"
| "category_of_code CodeAccessDenied = (FailureAccessDenied, False)"
| "category_of_code CodeFetchFailed = (FailureFetchFailed, False)"
| "category_of_code CodeUnsupportedContent = (FailureUnsupportedContent, False)"
| "category_of_code CodeInsufficientContent = (FailureInsufficientContent, False)"
| "category_of_code _ = (FailureAIInvalidResponse, False)"

text \<open>Neither a typed error nor a malformed completion wraps anything.\<close>

definition mapProcessingError :: "ai_failure \<Rightarrow> error" where
  "mapProcessingError f =
     (let mapped = (case CodeOf f of
            None \<Rightarrow> (FailureAIInvalidResponse, False) | Some code \<Rightarrow> category_of_code code);
          failed = NewProcessingError (category_string (fst mapped))
            ''AI analysis did not approve the article'' (snd mapped)
      in case f of
           OtherFailure e \<Rightarrow>
             if errors_Is e Canceled \<or> errors_Is e DeadlineExceeded then e else failed
         | _ \<Rightarrow> failed)"

fun text_values :: "node \<Rightarrow> string list" where
  "text_values (TextNode d) = (if TrimSpace d = '''' then [] else [TrimSpace d])"
| "text_values (ElementNode _ _ _ cs) = concat (map text_values cs)"
| "text_values (OtherNode _ cs) = concat (map text_values cs)"

definition semanticText :: "html_lib \<Rightarrow> string \<Rightarrow> string" where
  "semanticText lib markup =
     (case html_Parse lib markup of Inl _ \<Rightarrow> '''' | Inr doc \<Rightarrow> Join (text_values doc) '' '')"

text \<open>The content of the draft: its HTML, its text and the way it was extracted. The candidate
  is kept as it is; a replacement crosses the sanitizer.\<close>

definition draft_content ::
  "(rune \<Rightarrow> rune) \<Rightarrow> html_lib \<Rightarrow> approval_input \<Rightarrow> approved \<Rightarrow> error + string \<times> string \<times> string" where
  "draft_content ulow lib i result =
     (if av_Decision result = ''replace_candidate''
      then (case ArticleHTML ulow lib (av_ContentHTML result) (av_Title result) of
              Inl e \<Rightarrow> Inl (NewProcessingError
                (category_string (if errors_Is e ErrNoSemanticContent
                   then FailureInsufficientContent else FailureAIInvalidResponse))
                ''The AI replacement did not contain safe article content'' False)
            | Inr cleaned \<Rightarrow> Inr (cleaned, semanticText lib cleaned, ''ai''))
      else Inr (av_ContentHTML result, ai_CandidateText i, TrimSpace (ai_ExtractionMethod i)))"

definition approval_draft ::
  "approved \<Rightarrow> string \<times> string \<times> string \<Rightarrow> string \<Rightarrow> article_draft" where
  "approval_draft result content attemptID =
     (case content of (html, plain, extraction) \<Rightarrow>
        \<lparr>draft_Classification = av_Classification result, draft_Decision = av_Decision result,
         draft_Title = av_Title result, draft_Author = av_Author result,
         draft_SiteName = av_SiteName result, draft_PublicationDate = av_PublicationDate result,
         draft_Description = av_Description result, draft_Language = av_Language result,
         draft_SemanticHTML = html, draft_PlainText = plain, draft_ExtractionMethod = extraction,
         draft_AIConfidence = av_Confidence result, draft_AICompleteness = av_Completeness result,
         draft_AIAttemptID = attemptID\<rparr>)"

text \<open>No call was made, so there is nothing to record; otherwise the record must be complete.\<close>

definition record_attempts ::
  "approver_env \<Rightarrow> attempt_site \<Rightarrow> job_id \<Rightarrow> attempt list \<Rightarrow> error + string list" where
  "record_attempts env site j attempts =
     (if attempts = [] then Inr []
      else case av_Record env site j (recorded_attempts attempts) of
             Inl _ \<Rightarrow> Inl (NewProcessingError (category_string FailureStorageFailed)
               ''AI attempt metadata could not be committed'' True)
           | Inr ids \<Rightarrow>
               if length ids \<noteq> length attempts
               then Inl (NewProcessingError (category_string FailureStorageFailed)
                 ''AI attempt metadata could not be committed'' True)
               else Inr ids)"

definition wrong_translation :: "approval_input \<Rightarrow> approved \<Rightarrow> bool" where
  "wrong_translation i result \<longleftrightarrow>
     ai_TargetLanguage i \<noteq> ''''
     \<and> (\<not> ValidTargetLanguage (ai_TargetLanguage i) \<or> av_Decision result \<noteq> ''replace_candidate''
        \<or> av_Language result \<noteq> ai_TargetLanguage i)"

definition Approve :: "approver_env \<Rightarrow> approver" where
  "Approve env site j i approve =
     (case av_Analyze env site (analysis_request i) of (outcome, attempts) \<Rightarrow>
        case record_attempts env site j attempts of
          Inl e \<Rightarrow> Inl e
        | Inr ids \<Rightarrow>
            (case outcome of
               Inl f \<Rightarrow> Inl (case av_ctx env site of Some e \<Rightarrow> e | None \<Rightarrow> mapProcessingError f)
             | Inr result \<Rightarrow>
                 if ids = []
                 then Inl (NewProcessingError (category_string FailureAIInvalidResponse)
                        ''The AI attempt is not recorded'' False)
                 else if wrong_translation i result
                 then Inl (mapProcessingError (AIError invalidResponseError))
                 else case draft_content (av_lower env) (av_html env) i result of
                        Inl e \<Rightarrow> Inl e
                      | Inr content \<Rightarrow> approve (approval_draft result content (last ids))))"

text \<open>The production adapter: the client, with one sequence of exchanges per attempt.\<close>

definition client_analyzer ::
  "ai_lib \<Rightarrow> (attempt_site \<Rightarrow> nat \<Rightarrow> exchange) \<Rightarrow> ('http, 'sub) ai_client
     \<Rightarrow> attempt_site \<Rightarrow> analyze_request \<Rightarrow> analysis" where
  "client_analyzer lib exchanges client site = Analyze lib (exchanges site) (Some client)"

subsection \<open>Facts\<close>

definition approved_ok :: "ai_lib \<Rightarrow> analyze_request \<Rightarrow> approved \<Rightarrow> bool" where
  "approved_ok lib r a \<longleftrightarrow>
     av_Classification a = ''article''
     \<and> (av_Decision a = ''accept_candidate''
          \<and> av_ContentHTML a = restoreImages (al_order lib) (ar_CandidateHTML r) (ar_CandidateHTML r)
          \<and> TrimSpace (ar_CandidateHTML r) \<noteq> '''' \<and> ar_TargetLanguage r = ''''
        \<or> av_Decision a = ''replace_candidate''
          \<and> (ar_TargetLanguage r = '''' \<or> av_Language a = ar_TargetLanguage r))
     \<and> in_unit (av_Completeness a) \<and> in_unit (av_Confidence a)
     \<and> TrimSpace (av_Title a) \<noteq> '''' \<and> av_DecisionReason a \<noteq> ''''
     \<and> RuneCountInString (av_DecisionReason a) \<le> 512"

lemma parse_article_ok:
  assumes "parse_article lib r members ''article'' decision = Parsed a"
    and "decision = ''accept_candidate'' \<or> decision = ''replace_candidate''"
  shows "approved_ok lib r a"
proof -
  obtain completeness confidence title reason content
    where s: "article_scores lib members = Some (completeness, confidence)"
      and t: "article_text members = Some (title, reason)" and c: "contentField members = Some content"
    using assms(1) by (auto simp: parse_article_def split: option.splits)
  have unit: "in_unit completeness" "in_unit confidence"
    using s by (auto simp: article_scores_def split: option.splits if_splits)
  have wording: "TrimSpace title \<noteq> ''''" "reason \<noteq> ''''" "RuneCountInString reason \<le> 512"
    using t by (auto simp: article_text_def split: option.splits if_splits)
  have lang: "ar_TargetLanguage r = '''' \<or> decision = ''replace_candidate''
      \<and> stringField members ''language'' = Some (ar_TargetLanguage r)"
    using assms(1) s t c by (auto simp: parse_article_def split: if_splits)
  then have language: "ar_TargetLanguage r = ''''
      \<or> decision = ''replace_candidate'' \<and> meta_or members ''language'' (ar_Language r) = ar_TargetLanguage r"
    by (auto simp: meta_or_def)
  show ?thesis
  proof (cases "decision = ''accept_candidate''")
    case True
    then have "a = approved_of lib r members ''article'' decision (completeness, confidence) (title, reason)
        (ar_CandidateHTML r)" "TrimSpace (ar_CandidateHTML r) \<noteq> ''''"
      using assms(1) s t c by (auto simp: parse_article_def split: if_splits)
    then show ?thesis using True unit wording language by (auto simp: approved_ok_def approved_of_def)
  next
    case False
    with assms(2) have d: "decision = ''replace_candidate''" by simp
    obtain html where "a = approved_of lib r members ''article'' decision (completeness, confidence)
        (title, reason) html"
      using assms(1) s t c d by (auto simp: parse_article_def split: if_splits option.splits)
    then show ?thesis using d unit wording language by (auto simp: approved_ok_def approved_of_def)
  qed
qed

lemma parseApproved_ok: "parseApproved lib content r = Parsed a \<Longrightarrow> approved_ok lib r a"
  by (auto simp: parseApproved_def intro: parse_article_ok split: option.splits json.splits if_splits)

lemma client_call_number:
  "client_call lib ex c body n = (x, a) \<Longrightarrow> at_Number a = n \<and> at_Status a = AttemptFailed"
  by (auto simp: client_call_def provider_call_def subscriptionCall_def subscription_exchange_def
      subscription_answer_def new_attempt_def used_def Let_def
      split: if_splits sum.splits option.splits prod.splits list.splits)

end
