(* ===== verification/Processing_Facts.thy ===== *)
theory Processing_Facts
  imports Processing Worker_Facts
begin

section \<open>What a processor may do\<close>

text \<open>
  \<open>proc_ok P p st\<close>: whatever its stage requests are answered, the processor \<open>p\<close> only asks for
  legal stages, where \<open>st\<close> is the stage it is in, and ends with a result for which \<open>P\<close> holds.
\<close>

primrec proc_ok :: "(stage \<Rightarrow> process_result \<Rightarrow> error option \<Rightarrow> bool) \<Rightarrow> proc \<Rightarrow> stage \<Rightarrow> bool" where
  "proc_ok P (ProcDone r e) = (\<lambda>st. P st r e)"
| "proc_ok P (ProcSetStage s k) =
     (\<lambda>st. CanTransitionTo st s \<and> (\<forall>oe. proc_ok P (k oe) (if oe = None then s else st)))"

text \<open>The stages a processor is granted, with its result, for given answers.\<close>

primrec proc_run ::
  "(nat \<Rightarrow> error option) \<Rightarrow> proc \<Rightarrow> nat \<Rightarrow> stage list \<times> process_result \<times> error option" where
  "proc_run answers (ProcDone r e) = (\<lambda>n. ([], r, e))"
| "proc_run answers (ProcSetStage s k) =
     (\<lambda>n. let (ss, r, e) = proc_run answers (k (answers n)) (Suc n)
          in (if answers n = None then s # ss else ss, r, e))"

lemma stage_path_Cons: "stage_path (s # t # ts) \<longleftrightarrow> CanTransitionTo s t \<and> stage_path (t # ts)"
  by simp

lemma proc_run_ok:
  "proc_ok P p st \<Longrightarrow> proc_run answers p n = (ss, r, e) \<Longrightarrow>
     stage_path (st # ss) \<and> P (last (st # ss)) r e"
proof (induction p arbitrary: st n ss)
  case (ProcSetStage s k)
  obtain ss' r' e' where run: "proc_run answers (k (answers n)) (Suc n) = (ss', r', e')"
    by (metis prod_cases3)
  have ok: "CanTransitionTo st s" "proc_ok P (k (answers n)) (if answers n = None then s else st)"
    using ProcSetStage.prems(1) by auto
  have eq: "ss = (if answers n = None then s # ss' else ss')" "r' = r" "e' = e"
    using ProcSetStage.prems(2) run by auto
  have "proc_run answers (k (answers n)) (Suc n) = (ss', r, e)" using run eq by simp
  from ProcSetStage.IH [OF _ ok(2) this] show ?case
    using ok(1) eq(1) by (cases "answers n") auto
qed simp

text \<open>The worker runs the same processor.\<close>

lemma run_process_ok:
  "proc_ok P p st0 \<Longrightarrow> run_process ops d sch p n st = (r, e, st') \<Longrightarrow> \<exists>stage. P stage r e"
proof (induction p arbitrary: st0 n st)
  case (ProcSetStage s k)
  obtain ticks parent clk where sch: "sch n = (ticks, parent, clk)"
    by (metis prod_cases3)
  obtain oe st1 where ask: "ask_stage ops parent clk s (fold (on_tick ops d) ticks st) = (oe, st1)"
    by fastforce
  have "proc_ok P (k oe) (if oe = None then s else st0)" using ProcSetStage.prems(1) by auto
  moreover have "run_process ops d sch (k oe) (Suc n) st1 = (r, e, st')"
    using ProcSetStage.prems(2) sch ask by simp
  ultimately show ?case using ProcSetStage.IH [of "k oe"] by blast
qed auto

section \<open>The pipeline\<close>

text \<open>The article of a result is one an approval has returned, in the pipeline or for an edit of
  the owner, and the PDF is what the formatter made of that article.\<close>

definition approved_by :: "process_env \<Rightarrow> pipeline \<Rightarrow> approval \<Rightarrow> job \<Rightarrow> approved_article \<Rightarrow> bool" where
  "approved_by env p approve j a \<longleftrightarrow>
     (\<exists>approver site input. pl_approver p = Some approver \<and> ai_SourceURL input = job_SubmittedURL j
        \<and> approver site (job_ID j) input approve = Inr a)
     \<or> (\<exists>edits draft. pl_readingEdits p = Some edits \<and> edits (job_ID j) = Inr (Some draft)
        \<and> ApproveReadingEdit (pv_lower env) (el_html (pv_extract env)) draft = Inr a)"

definition made_from :: "process_env \<Rightarrow> pipeline \<Rightarrow> job \<Rightarrow> process_result \<Rightarrow> bool" where
  "made_from env p j r \<longleftrightarrow>
     (\<exists>format site. pl_formatter p = Some format
        \<and> format site (format_request env site j (app_draft (res_Article r)) (res_CanonicalURL r))
            = Inr (res_PDF r))
     \<and> res_Filename r = draft_Title (app_draft (res_Article r)) @ ''.pdf''"

definition good_result ::
  "process_env \<Rightarrow> pipeline \<Rightarrow> approval \<Rightarrow> job \<Rightarrow> stage \<Rightarrow> process_result \<Rightarrow> error option \<Rightarrow> bool" where
  "good_result env p approve j st r oe \<longleftrightarrow>
     (oe = None \<longrightarrow> st = StageFormatting \<and> app_valid (res_Article r)
        \<and> approved_by env p approve j (res_Article r) \<and> made_from env p j r)"

text \<open>The stages a fresh attempt can start from.\<close>

definition open_stage :: "stage \<Rightarrow> bool" where
  "open_stage st \<longleftrightarrow>
     st \<in> {StageFetching, StageExtracting, StageAIAnalyzing, StageFormatting}"

lemma open_stage_simps [simp]:
  "open_stage StageFetching" "open_stage StageExtracting" "open_stage StageAIAnalyzing"
  "open_stage StageFormatting"
  by (simp_all add: open_stage_def)

lemma legal_stages [simp]:
  "CanTransitionTo StageFetching StageExtracting" "CanTransitionTo StageExtracting StageAIAnalyzing"
  "CanTransitionTo StageAIAnalyzing StageFormatting" "CanTransitionTo StageFetching StageFormatting"
  "open_stage st \<Longrightarrow> CanTransitionTo st StageFetching"
  by (auto simp: CanTransitionTo_def open_stage_def)

text \<open>A continuation that can deal with an error in every open stage, and with a good result.\<close>

definition cont_ok ::
  "process_env \<Rightarrow> pipeline \<Rightarrow> approval \<Rightarrow> job \<Rightarrow> proc_cont \<Rightarrow> bool" where
  "cont_ok env p approve j k \<longleftrightarrow>
     (\<forall>st r oe. open_stage st \<longrightarrow> good_result env p approve j st r oe
        \<longrightarrow> proc_ok (good_result env p approve j) (k (r, oe)) st)"

lemma cont_fail:
  "cont_ok env p approve j k \<Longrightarrow> open_stage st \<Longrightarrow>
     proc_ok (good_result env p approve j) (proc_fail k e) st"
  by (auto simp: cont_ok_def proc_fail_def good_result_def)

lemma cont_finished: "cont_ok env p approve j finished"
  by (simp add: cont_ok_def finished_def)

lemma in_stage_ok:
  assumes "cont_ok env p approve j k" and "open_stage st" and "CanTransitionTo st s"
    and "proc_ok (good_result env p approve j) rest s"
  shows "proc_ok (good_result env p approve j) (in_stage s k rest) st"
  using assms by (auto simp: in_stage_def cont_fail split: option.splits)

lemma formatArticle_ok:
  assumes "cont_ok env p approve j k" and "st = StageFetching \<or> st = StageAIAnalyzing"
    and "pl_formatter p = Some format" and "approved_by env p approve j a"
  shows "proc_ok (good_result env p approve j)
     (formatArticle env format site ctx j a url k) st"
proof -
  have open_st: "open_stage st" "CanTransitionTo st StageFormatting" using assms(2) by auto
  have fine: "proc_ok (good_result env p approve j)
      (k (\<lparr>res_Article = a, res_CanonicalURL = url, res_Filename = draft_Title (app_draft a) @ ''.pdf'',
           res_PDF = pdf\<rparr>, None)) StageFormatting"
    if "app_valid a" and "format site (format_request env site j (app_draft a) url) = Inr pdf" for pdf
  proof -
    have "good_result env p approve j StageFormatting
        \<lparr>res_Article = a, res_CanonicalURL = url, res_Filename = draft_Title (app_draft a) @ ''.pdf'',
         res_PDF = pdf\<rparr> None"
      using that assms(3,4) by (auto simp: good_result_def made_from_def)
    then show ?thesis using assms(1) by (simp add: cont_ok_def)
  qed
  show ?thesis
    using open_st cont_fail [OF assms(1)]
    by (auto simp: formatArticle_def Snapshot_def intro!: in_stage_ok [OF assms(1)] fine
        split: sum.splits option.splits)
qed

lemma processPage_ok:
  assumes "cont_ok env p approve j k" and "pl_formatter p = Some format"
    and "pl_approver p = Some approver"
  shows "proc_ok (good_result env p approve j)
     (processPage env approver format approve site ctx j page requested archived lang k) StageFetching"
proof -
  have "approved_by env p approve j a"
    if "approver site (job_ID j) (approval_request j page c url lang) approve = Inr a" for a c url
    using that assms(3) by (auto simp: approved_by_def approval_request_def)
  then show ?thesis
    using cont_fail [OF assms(1)]
    by (auto simp: processPage_def Let_def intro!: in_stage_ok [OF assms(1)]
        formatArticle_ok [OF assms(1) _ assms(2)] split: sum.splits)
qed

lemma processAttempt_ok:
  assumes "cont_ok env p approve j k" and "pl_formatter p = Some format"
    and "pl_approver p = Some approver"
  shows "proc_ok (good_result env p approve j)
     (processAttempt env p approver format approve site j source lang k) StageFetching"
  using cont_fail [OF assms(1)] processPage_ok [OF assms]
  by (auto simp: processAttempt_def Let_def split: option.splits sum.splits)

lemma recover_in_browser_ok:
  assumes "cont_ok env p approve j k" and "pl_formatter p = Some format"
    and "pl_approver p = Some approver" and "open_stage st"
  shows "proc_ok (good_result env p approve j)
     (recover_in_browser env p approver format approve j lang ast k) st"
  using cont_fail [OF assms(1)] processPage_ok [OF assms(1-3)] assms(4)
  by (auto simp: recover_in_browser_def intro!: in_stage_ok [OF assms(1)]
      split: option.splits sum.splits)

lemma after_sources_ok:
  assumes "cont_ok env p approve j k" and "pl_formatter p = Some format"
    and "pl_approver p = Some approver" and "open_stage st"
  shows "proc_ok (good_result env p approve j)
     (after_sources env p approver format approve j lang ast k) st"
proof -
  let ?rest = "recover_in_browser env p approver format approve j lang ast k"
  note rest = recover_in_browser_ok [OF assms(1-3)]
  have "cont_ok env p approve j (\<lambda>(r, oe). case oe of None \<Rightarrow> k (r, None)
      | Some e \<Rightarrow> if \<not> recoverable e then k (r, Some e) else ?rest)"
    using assms(1) rest by (auto simp: cont_ok_def split: option.splits)
  note attempt = processAttempt_ok [OF this assms(2,3)]
  show ?thesis
    using rest [OF assms(4)] attempt assms(4)
    by (auto simp: after_sources_def Let_def intro!: in_stage_ok [OF assms(1)] split: option.splits)
qed

lemma process_sources_ok:
  assumes "cont_ok env p approve j k" and "pl_formatter p = Some format"
    and "pl_approver p = Some approver"
    and "open_stage st" and "at_count ast = 0 \<Longrightarrow> st = StageFetching"
  shows "proc_ok (good_result env p approve j)
     (process_sources env p approver format approve j lang sources ast k) st"
  using assms(4,5)
proof (induction sources arbitrary: ast st)
  case Nil
  then show ?case using after_sources_ok [OF assms(1-3)] by simp
next
  case (Cons source sources)
  show ?case
  proof (cases "src_Fallback source \<and> src_Err source = None")
    case True
    then show ?thesis using Cons.IH [of st "ast\<lparr>at_fallback := Some source\<rparr>"] Cons.prems by simp
  next
    case False
    let ?k = "\<lambda>(r, oe). case oe of None \<Rightarrow> k (r, None)
      | Some e \<Rightarrow>
          if \<not> recoverable e \<and> \<not> blocked_archive j source e
             \<and> pv_recovery env (LoopFailed (at_count ast)) = None then proc_fail k e
          else process_sources env p approver format approve j lang sources
                 (failed_attempt j source e (ast\<lparr>at_count := Suc (at_count ast)\<rparr>)) k"
    have "proc_ok (good_result env p approve j) (process_sources env p approver format approve j lang
        sources (failed_attempt j source e (ast\<lparr>at_count := Suc (at_count ast)\<rparr>)) k) s"
      if "open_stage s" for e s
      by (rule Cons.IH [OF that]) (simp add: failed_attempt_def)
    then have "cont_ok env p approve j ?k"
      using assms(1) cont_fail [OF assms(1)] by (auto simp: cont_ok_def split: option.splits)
    from processAttempt_ok [OF this assms(2,3)]
    have attempt: "proc_ok (good_result env p approve j)
        (processAttempt env p approver format approve (SourceAttempt (at_count ast)) j source lang ?k)
        StageFetching" (is "proc_ok _ ?attempt _") .
    then have staged: "proc_ok (good_result env p approve j) (in_stage StageFetching k ?attempt) st"
      using Cons.prems(1) by (intro in_stage_ok [OF assms(1)]) simp_all
    have eq: "process_sources env p approver format approve j lang (source # sources) ast k
        = (if 0 < at_count ast then in_stage StageFetching k ?attempt else ?attempt)"
      by (simp only: process_sources.simps Let_def if_not_P [OF False])
    show ?thesis
    proof (cases "0 < at_count ast")
      case True
      from staged show ?thesis by (simp only: eq if_P [OF True])
    next
      case False
      then have "st = StageFetching" using Cons.prems(2) by simp
      with attempt show ?thesis by (simp only: eq if_not_P [OF False])
    qed
  qed
qed

lemma Process_ok: "proc_ok (good_result env p approve j) (Process env p approve j) StageFetching"
proof -
  let ?P = "good_result env p approve j"
  note fin = cont_finished [of env p approve j]
  note fail = cont_fail [OF fin]
  show ?thesis
  proof (cases "\<exists>renderer approver format. pl_renderer p = Some renderer
      \<and> pl_approver p = Some approver \<and> pl_formatter p = Some format")
    case False
    then show ?thesis using fail by (auto simp: Process_def split: option.splits)
  next
    case True
    then obtain renderer approver format where seams: "pl_renderer p = Some renderer"
      "pl_approver p = Some approver" "pl_formatter p = Some format" by blast
    let ?fresh = "\<lambda>lang. process_fresh env p renderer approver format approve j lang finished"
    have fresh: "proc_ok ?P (?fresh lang) StageFetching" for lang
      unfolding process_fresh_def by (rule process_sources_ok [OF fin seams(3,2)]) simp_all
    have saved: "proc_ok ?P (process_saved env p approver format approve j lang (?fresh lang) finished)
        StageFetching" for lang
    proof -
      let ?k = "\<lambda>(r, oe). case oe of None \<Rightarrow> finished (r, None)
          | Some e \<Rightarrow> if \<not> recoverable e \<or> pv_ctx env SavedDone \<noteq> None then finished (r, Some e)
                      else in_stage StageFetching finished (?fresh lang)"
      have "cont_ok env p approve j ?k"
        using fin fresh by (auto simp: cont_ok_def intro!: in_stage_ok [OF fin] split: option.splits)
      note page = processPage_ok [OF this seams(3,2)]
      show ?thesis
      proof (cases "\<exists>savedPage renderSaved saved rendered. pl_saved p = Some savedPage
          \<and> pl_savedRenderer p = Some renderSaved \<and> savedPage (job_ID j) = Inr (Some saved)
          \<and> renderSaved SavedAttempt (rn_FinalURL saved) (rn_DOM saved) = Inr rendered")
        case True
        then obtain savedPage renderSaved saved rendered where s: "pl_saved p = Some savedPage"
          "pl_savedRenderer p = Some renderSaved" "savedPage (job_ID j) = Inr (Some saved)"
          "renderSaved SavedAttempt (rn_FinalURL saved) (rn_DOM saved) = Inr rendered" by blast
        have "process_saved env p approver format approve j lang (?fresh lang) finished
            = processPage env approver format approve SavedAttempt (pv_ctx env) j
                (titled rendered (rn_Title saved)) (rn_FinalURL saved) True lang ?k"
          by (simp only: process_saved_def s prod.case option.case sum.case)
        with page show ?thesis by simp
      next
        case False
        then show ?thesis
          using fresh fail by (auto simp: process_saved_def split: option.splits sum.splits)
      qed
    qed
    have lang: "proc_ok ?P (with_language p j (\<lambda>lang. process_saved env p approver format approve j lang
        (?fresh lang) finished) finished) StageFetching"
      using saved fail by (auto simp: with_language_def split: option.splits sum.splits)
    have edit: "approved_by env p approve j a"
      if "pl_readingEdits p = Some edits" "edits (job_ID j) = Inr (Some draft)"
        "ApproveReadingEdit (pv_lower env) (el_html (pv_extract env)) draft = Inr a" for edits draft a
      using that by (auto simp: approved_by_def)
    show ?thesis
      using lang fail edit seams
      by (auto simp: Process_def with_edit_def intro!: formatArticle_ok [OF fin _ seams(3)]
          split: option.splits sum.splits)
  qed
qed

end
