(* ===== verification/Capture_Facts.thy ===== *)
theory Capture_Facts
  imports Capture
begin

section \<open>Facts about the sources and the choice of a snapshot\<close>

text \<open>
  The order and the limits of the sources a capture tries, the hosts it asks for a static copy,
  and the snapshot it keeps.
\<close>

subsection \<open>Order and limits\<close>

definition rendered_urls :: "source list \<Rightarrow> string list" where
  "rendered_urls ss = map src_URL (filter (\<lambda>s. src_Static s = None) ss)"

definition static_urls :: "source list \<Rightarrow> string list" where
  "static_urls ss = map src_URL (filter (\<lambda>s. src_Static s \<noteq> None) ss)"

lemma urls_simps [simp]:
  "rendered_urls [] = []" "static_urls [] = []"
  "rendered_urls (page_source original url r # ss) = url # rendered_urls ss"
  "rendered_urls (static_source original url fallback r' # ss) = rendered_urls ss"
  "static_urls (page_source original url r # ss) = static_urls ss"
  "static_urls (static_source original url fallback r' # ss) = url # static_urls ss"
  by (simp_all add: rendered_urls_def static_urls_def page_source_def static_source_def)

lemma archive_sources_bounds:
  "archive_sources c original i seen attempts urls = ss \<Longrightarrow> attempts \<le> 3 \<Longrightarrow>
     static_urls ss = [] \<and> distinct (rendered_urls ss) \<and> set (rendered_urls ss) \<inter> set seen = {}
     \<and> set (rendered_urls ss) \<subseteq> set urls \<and> length (rendered_urls ss) + attempts \<le> 3"
proof (induction c original i seen attempts urls arbitrary: ss rule: archive_sources.induct)
  case (2 c original i seen attempts url urls)
  show ?case
  proof (cases "cp_ctx c (BeforeArchive i) \<noteq> None \<or> attempts = 3")
    case True
    then show ?thesis using "2.prems" by auto
  next
    case go: False
    then have small: "attempts < 3" using "2.prems"(2) by simp
    show ?thesis
    proof (cases "url = '''' \<or> url \<in> set seen")
      case True
      with go "2.prems"(1) have "archive_sources c original (Suc i) seen attempts urls = ss" by auto
      from "2.IH"(1) [OF go True this "2.prems"(2)] show ?thesis by auto
    next
      case False
      let ?rest = "archive_sources c original (Suc i) (url # seen) (Suc attempts) urls"
      have ih: "static_urls ?rest = [] \<and> distinct (rendered_urls ?rest)
          \<and> set (rendered_urls ?rest) \<inter> set (url # seen) = {}
          \<and> set (rendered_urls ?rest) \<subseteq> set urls \<and> length (rendered_urls ?rest) + Suc attempts \<le> 3"
        by (rule "2.IH"(2) [OF go False refl]) (use small in simp)
      have "ss = emit c (AfterArchive i) (page_source original url (cp_Snapshot c url)) ?rest"
        using "2.prems"(1) go False by auto
      then show ?thesis using ih False small by (auto simp: emit_def)
    qed
  qed
qed simp

lemma snapshot_sources_bounds:
  assumes "snapshot_sources c original = ss"
  shows "static_urls ss = [] \<and> distinct (rendered_urls ss) \<and> length (rendered_urls ss) \<le> 4
    \<and> (rendered_urls ss \<noteq> [] \<longrightarrow> hd (rendered_urls ss) = original)
    \<and> set (tl (rendered_urls ss)) \<subseteq> (case cp_archives c of None \<Rightarrow> {} | Some f \<Rightarrow> set (f original))"
proof (cases "cp_ctx c BeforeSnapshot = None \<and> cp_ctx c AfterSnapshot = None")
  case True
  let ?first = "page_source original original (cp_Snapshot c original)"
  show ?thesis
  proof (cases "cp_archives c")
    case None
    then show ?thesis using True assms by (auto simp: snapshot_sources_def emit_def)
  next
    case (Some f)
    let ?rest = "archive_sources c original 0 [original] 0 (f original)"
    note b = archive_sources_bounds [OF refl, of 0 c original 0 "[original]" "f original"]
    have "ss = ?first # (if cp_ctx c BeforeArchives \<noteq> None then [] else ?rest)"
      using True Some assms by (auto simp: snapshot_sources_def emit_def)
    then show ?thesis using b Some by auto
  qed
next
  case False
  then have "ss = []" using assms by (auto simp: snapshot_sources_def emit_def)
  then show ?thesis by simp
qed

lemma length_urls: "length ss = length (rendered_urls ss) + length (static_urls ss)"
  by (induction ss) (auto simp: rendered_urls_def static_urls_def)

text \<open>The only hosts that are asked for a static copy of a post.\<close>

definition static_host :: "string \<Rightarrow> bool" where
  "static_host url \<longleftrightarrow>
     HasPrefix url ''https://xcancel.com/'' \<or> HasPrefix url ''https://publish.x.com/oembed?''"

lemma xMirrorURL_host: "xMirrorURL ulow original \<noteq> '''' \<Longrightarrow> static_host (xMirrorURL ulow original)"
  by (auto simp: xMirrorURL_def static_host_def Let_def HasPrefix_def split: option.splits if_splits)

lemma xEmbedURL_host: "xEmbedURL ulow original \<noteq> '''' \<Longrightarrow> static_host (xEmbedURL ulow original)"
  by (auto simp: xEmbedURL_def static_host_def Let_def HasPrefix_def split: if_splits)

lemma embed_sources_bounds:
  assumes "embed_sources ulow c original mirror rest = ss" and "static_urls rest = []"
  shows "(rendered_urls ss = rendered_urls rest \<or> rendered_urls ss = [])
    \<and> length (static_urls ss) \<le> 2 \<and> list_all static_host (static_urls ss)"
  using assms xEmbedURL_host [of ulow original] xMirrorURL_host [of ulow]
  by (auto simp: embed_sources_def Let_def emit_def split: if_splits sum.splits)

lemma Sources_bounds:
  assumes "Sources ulow c original = ss"
  shows "distinct (rendered_urls ss) \<and> length (rendered_urls ss) \<le> 4 \<and> length (static_urls ss) \<le> 3
    \<and> (rendered_urls ss \<noteq> [] \<longrightarrow> hd (rendered_urls ss) = original)
    \<and> set (tl (rendered_urls ss)) \<subseteq> (case cp_archives c of None \<Rightarrow> {} | Some f \<Rightarrow> set (f original))
    \<and> list_all static_host (static_urls ss)"
proof -
  define mirror where "mirror = xMirrorURL ulow original"
  define rest where "rest = embed_sources ulow c original mirror (snapshot_sources c original)"
  note snap = snapshot_sources_bounds [OF refl, of c original]
  have r: "(rendered_urls rest = rendered_urls (snapshot_sources c original) \<or> rendered_urls rest = [])
      \<and> length (static_urls rest) \<le> 2 \<and> list_all static_host (static_urls rest)"
    using embed_sources_bounds [OF rest_def [symmetric]] snap by simp
  have host: "mirror \<noteq> '''' \<Longrightarrow> static_host mirror"
    unfolding mirror_def by (rule xMirrorURL_host)
  have "ss = [] \<or> ss = rest \<or> (mirror \<noteq> '''' \<and> (\<exists>r. ss = static_source original mirror False r # rest))"
    using assms unfolding Sources_def Let_def mirror_def [symmetric] rest_def [symmetric]
    by (auto simp: emit_def split: if_splits)
  then show ?thesis using r snap host by (elim disjE exE conjE) auto
qed

subsection \<open>The snapshot that is kept\<close>

text \<open>What a consumer of all sources would pick: the first acceptable one; without one, the last
  that is not blocked; without that, the first that gave any snapshot.\<close>

definition gives :: "capture_lib \<Rightarrow> source \<Rightarrow> bool" where
  "gives lib s = (case source_Result lib s of Inl _ \<Rightarrow> False | Inr _ \<Rightarrow> True)"

definition result_of :: "capture_lib \<Rightarrow> source \<Rightarrow> capture_result" where
  "result_of lib s = (case source_Result lib s of Inl _ \<Rightarrow> zero_capture | Inr r \<Rightarrow> r)"

definition unblocked :: "capture_lib \<Rightarrow> source \<Rightarrow> bool" where
  "unblocked lib s \<longleftrightarrow> gives lib s \<and> cap_Status (result_of lib s) \<noteq> ''blocked''"

definition acceptable :: "capture_lib \<Rightarrow> source \<Rightarrow> bool" where
  "acceptable lib s \<longleftrightarrow> unblocked lib s \<and> \<not> src_Fallback s"

definition last_that :: "('a \<Rightarrow> bool) \<Rightarrow> 'a list \<Rightarrow> 'a option" where
  "last_that p xs = find p (rev xs)"

definition best_source :: "capture_lib \<Rightarrow> source list \<Rightarrow> source option" where
  "best_source lib ss =
     (case find (acceptable lib) ss of
        Some s \<Rightarrow> Some s
      | None \<Rightarrow> (case last_that (unblocked lib) ss of
                   Some s \<Rightarrow> Some s | None \<Rightarrow> find (gives lib) ss))"

lemma find_append: "find p (xs @ ys) = (case find p xs of Some x \<Rightarrow> Some x | None \<Rightarrow> find p ys)"
  by (induction xs) auto

lemma last_that_Cons:
  "last_that p (x # xs) = (case last_that p xs of Some y \<Rightarrow> Some y | None \<Rightarrow> if p x then Some x else None)"
  by (auto simp: last_that_def find_append split: option.splits)

lemma last_that_holds: "last_that p xs = Some x \<Longrightarrow> p x \<and> x \<in> set xs"
  by (auto simp: last_that_def find_Some_iff) (metis nth_mem length_rev set_rev)

lemma capture_sources_best:
  assumes "capture_sources lib ss st = (acc, st')"
    and "\<forall>s \<in> set ss. gives lib s \<longrightarrow> cap_HTML (result_of lib s) \<noteq> ''''"
  shows "case find (acceptable lib) ss of
      Some s \<Rightarrow> acc \<and> lp_best st' = result_of lib s
    | None \<Rightarrow> \<not> acc \<and> lp_best st' =
        (case last_that (unblocked lib) ss of
           Some s \<Rightarrow> result_of lib s
         | None \<Rightarrow> if cap_HTML (lp_best st) \<noteq> '''' then lp_best st
                   else (case find (gives lib) ss of Some s \<Rightarrow> result_of lib s | None \<Rightarrow> lp_best st))"
  using assms
proof (induction ss arbitrary: st)
  case Nil
  then show ?case by (simp add: last_that_def)
next
  case (Cons s ss)
  show ?case
  proof (cases "source_Result lib s")
    case (Inl e)
    then have no: "\<not> gives lib s" "\<not> unblocked lib s" "\<not> acceptable lib s"
      by (simp_all add: gives_def unblocked_def acceptable_def)
    obtain st1 where "capture_step lib s st = (False, st1)" and b: "lp_best st1 = lp_best st"
      using Inl by (simp add: capture_step_def)
    with Cons.prems have "capture_sources lib ss st1 = (acc, st')" by simp
    from Cons.IH [OF this] Cons.prems(2) show ?thesis
      using no b by (simp add: last_that_Cons split: option.splits)
  next
    case (Inr r)
    then have r: "gives lib s" "result_of lib s = r" by (simp_all add: gives_def result_of_def)
    then have html: "cap_HTML r \<noteq> ''''" using Cons.prems(2) by auto
    obtain b st1 where step: "capture_step lib s st = (b, st1)" by fastforce
    have b: "b \<longleftrightarrow> acceptable lib s"
      and best: "lp_best st1 = (if cap_HTML (lp_best st) = '''' \<or> unblocked lib s then r else lp_best st)"
      using step Inr r html
      by (auto simp: capture_step_def Let_def acceptable_def unblocked_def)
    show ?thesis
    proof (cases b)
      case True
      then show ?thesis
        using Cons.prems(1) step b best r by (simp add: acceptable_def)
    next
      case False
      with Cons.prems(1) step have "capture_sources lib ss st1 = (acc, st')" by simp
      note ih = Cons.IH [OF this]
      have html1: "cap_HTML (lp_best st1) \<noteq> ''''" using best html by auto
      show ?thesis
        using ih Cons.prems(2) False b best r html1
        by (auto simp: last_that_Cons split: option.splits)
    qed
  qed
qed

lemma capture_sources_attempts:
  "capture_sources lib ss st = (acc, st') \<Longrightarrow>
     \<exists>n. map atp_URL (lp_attempts st') = map atp_URL (lp_attempts st) @ map src_URL (take n ss)
       \<and> (\<not> acc \<longrightarrow> n = length ss)"
proof (induction ss arbitrary: st)
  case (Cons s ss)
  obtain b st1 where step: "capture_step lib s st = (b, st1)" by fastforce
  have one: "map atp_URL (lp_attempts st1) = map atp_URL (lp_attempts st) @ [src_URL s]"
    using step by (auto simp: capture_step_def Let_def split: sum.splits)
  show ?case
  proof (cases b)
    case True
    then show ?thesis using Cons.prems step one by (intro exI [of _ 1]) auto
  next
    case False
    with Cons.prems step have "capture_sources lib ss st1 = (acc, st')" by simp
    from Cons.IH [OF this] one show ?thesis
      by (metis append.assoc append_Cons append_Nil length_Cons list.simps(9) take_Suc_Cons)
  qed
qed simp

end
