(* ===== verification/Processing_Properties.thy ===== *)
theory Processing_Properties
  imports Processing_Facts Capture_Facts Worker_Properties
begin

section \<open>Properties of capture and processing\<close>

text \<open>
  The claims about the order of the sources, the snapshot that is kept, and the path of an
  article through the pipeline; the last lemma composes the pipeline with the worker and the
  stores. The fixtures are a capturer whose context has ended and a pipeline that recovers its
  page with the browser.
\<close>

definition demo_html :: html_lib where
  "demo_html = \<lparr>html_ParseFragment = (\<lambda>_. Inr []), html_Parse = (\<lambda>_. Inl (NewError ''parse'')),
     html_Render = (\<lambda>_. Inr '''')\<rparr>"

definition demo_capture :: capture_result where
  "demo_capture = zero_capture\<lparr>cap_HTML := ''<p>'', cap_Status := ''complete''\<rparr>"

definition demo_capturer :: "(source_site \<Rightarrow> error option) \<Rightarrow> capturer" where
  "demo_capturer ctx = \<lparr>cp_lib = \<lparr>cl_html = demo_html, cl_convert = (\<lambda>_. Inr demo_capture),
       cl_embed = (\<lambda>_. Inl (NewError ''json''))\<rparr>,
     cp_Snapshot = (\<lambda>_. Inr zero_rendered), cp_archives = None,
     cp_fetchJSON = (\<lambda>_. Inl (NewError ''fetch'')), cp_fetchMirror = (\<lambda>_. Inl (NewError ''fetch'')),
     cp_ctx = ctx\<rparr>"

subsection \<open>Sources\<close>

text \<open>
  A page is retrieved from at most seven places: at most four renderings, of different URLs,
  the first of the submitted page and the others of candidates of the archives, and at most
  three static copies, which are only asked of the two hosts for posts on X.
\<close>

theorem sources_are_bounded:
  "distinct (rendered_urls (Sources ulow c original))
   \<and> length (rendered_urls (Sources ulow c original)) \<le> 4
   \<and> take 1 (rendered_urls (Sources ulow c original)) \<in> {[], [original]}
   \<and> set (tl (rendered_urls (Sources ulow c original)))
       \<subseteq> (case cp_archives c of None \<Rightarrow> {} | Some f \<Rightarrow> set (f original))
   \<and> length (static_urls (Sources ulow c original)) \<le> 3
   \<and> list_all static_host (static_urls (Sources ulow c original))"
  using Sources_bounds [OF refl, of ulow c original]
  by (cases "rendered_urls (Sources ulow c original)") auto

lemma find_SomeD: "find p xs = Some x \<Longrightarrow> p x \<and> x \<in> set xs"
  by (auto simp: find_Some_iff)

text \<open>
  A capture keeps the result a consumer of all sources would choose: the first one that is
  usable and no mere fallback, otherwise the last that is not blocked, otherwise the first
  blocked snapshot. Every source up to the accepted one is on record in order, all of them when
  none is accepted, and a capture without any snapshot is an error.
\<close>

theorem capture_keeps_best:
  assumes "\<forall>s \<in> set (Sources ulow c original).
      gives (cp_lib c) s \<longrightarrow> cap_HTML (result_of (cp_lib c) s) \<noteq> ''''"
    and "Capture_page ulow c after original = (r, e)"
  shows "(case best_source (cp_lib c) (Sources ulow c original) of
       Some s \<Rightarrow> r = (result_of (cp_lib c) s)\<lparr>cap_Attempts := cap_Attempts r\<rparr>
         \<and> e = (if acceptable (cp_lib c) s then None else after)
     | None \<Rightarrow> cap_HTML r = '''' \<and> e \<noteq> None)
   \<and> (\<exists>n. map atp_URL (cap_Attempts r) = map src_URL (take n (Sources ulow c original))
        \<and> (e \<noteq> None \<longrightarrow> n = length (Sources ulow c original)))"
proof -
  let ?ss = "Sources ulow c original"
  obtain acc st where run: "capture_sources (cp_lib c) ?ss (start_loop original) = (acc, st)"
    by fastforce
  note best = capture_sources_best [OF run assms(1)]
  obtain n where n: "map atp_URL (lp_attempts st) = map src_URL (take n ?ss)" "\<not> acc \<longrightarrow> n = length ?ss"
    using capture_sources_attempts [OF run] by (auto simp: start_loop_def)
  have r: "r = with_attempts st" and e: "acc \<Longrightarrow> e = None"
    using assms(2) run by (auto simp: Capture_page_def split: bool.splits)
  have attempts: "cap_Attempts r = lp_attempts st" and keep: "r = (lp_best st)\<lparr>cap_Attempts := lp_attempts st\<rparr>"
    by (simp_all add: r with_attempts_def)
  have recorded: "\<exists>n. map atp_URL (cap_Attempts r) = map src_URL (take n ?ss) \<and> (e \<noteq> None \<longrightarrow> n = length ?ss)"
    unfolding attempts by (rule exI [of _ n]) (use n e in \<open>cases acc; simp\<close>)
  have html: "cap_HTML (result_of (cp_lib c) s) \<noteq> ''''" if "s \<in> set ?ss" "gives (cp_lib c) s" for s
    using assms(1) that by blast
  have start: "cap_HTML (lp_best (start_loop original)) = ''''"
    by (simp add: start_loop_def zero_capture_def)
  have no: "e = after \<or> after = None \<and> cap_HTML (lp_best st) = '''' \<and> e \<noteq> None" if "\<not> acc"
    using assms(2) run that by (auto simp: Capture_page_def split: option.splits if_splits)
  have "case best_source (cp_lib c) ?ss of
      Some s \<Rightarrow> r = (result_of (cp_lib c) s)\<lparr>cap_Attempts := cap_Attempts r\<rparr>
        \<and> e = (if acceptable (cp_lib c) s then None else after)
    | None \<Rightarrow> cap_HTML r = '''' \<and> e \<noteq> None"
  proof (cases "find (acceptable (cp_lib c)) ?ss")
    case (Some s)
    then show ?thesis
      using best keep attempts e find_SomeD [OF Some] by (simp add: best_source_def)
  next
    case none: None
    then have acc: "\<not> acc" using best by simp
    have nobody: "\<And>s. s \<in> set ?ss \<Longrightarrow> \<not> acceptable (cp_lib c) s"
      using none by (simp add: find_None_iff)
    show ?thesis
    proof (cases "last_that (unblocked (cp_lib c)) ?ss")
      case (Some s)
      then have s: "s \<in> set ?ss" "unblocked (cp_lib c) s" using last_that_holds by metis+
      then show ?thesis
        using Some none best keep attempts no [OF acc] html [of s] nobody
        by (auto simp: best_source_def unblocked_def)
    next
      case None
      show ?thesis
      proof (cases "find (gives (cp_lib c)) ?ss")
        case (Some s)
        then have "s \<in> set ?ss" "gives (cp_lib c) s" using find_SomeD [OF Some] by simp_all
        then show ?thesis
          using Some None none best keep attempts no [OF acc] html [of s] nobody start
          by (auto simp: best_source_def)
      next
        case no_snapshot: None
        then have "lp_best st = lp_best (start_loop original)"
          using None none best by (simp split: if_splits)
        then have empty: "cap_HTML (lp_best st) = ''''" using start by simp
        have "e = (case after of Some e \<Rightarrow> Some e | None \<Rightarrow> if cap_HTML (lp_best st) \<noteq> '''' then None
            else (case lp_lastErr st of
              Some e \<Rightarrow> Some e | None \<Rightarrow> Some (NewError ''no usable page capture'')))"
          using assms(2) run acc by (auto simp: Capture_page_def)
        then have "e \<noteq> None" unfolding empty by (cases after; cases "lp_lastErr st"; clarsimp)
        then show ?thesis using None none no_snapshot keep empty by (simp add: best_source_def)
      qed
    qed
  qed
  then show ?thesis using recorded by blast
qed

theorem capture_keeps_best_witness:
  "\<exists>r. Capture_page id (demo_capturer (\<lambda>_. None)) None ''https://a.example/'' = (r, None)
     \<and> cap_HTML r = ''<p>'' \<and> map atp_URL (cap_Attempts r) = [''https://a.example/'']"
proof -
  let ?c = "demo_capturer (\<lambda>_. None)"
  let ?s = "page_source ''https://a.example/'' ''https://a.example/'' (Inr zero_rendered)"
  have no: "xMirrorURL id ''https://a.example/'' = ''''" "xEmbedURL id ''https://a.example/'' = ''''"
    by (simp_all add: xMirrorURL_def xEmbedURL_def xMirrorPostID_def xPostID_def url_eval
        Hostname_def Port_def splitHostPort_def EqualFold_def runes_is_ascii fold_rune_def
        go_string_eval Let_def is_ascii_def)
  have ss: "Sources id ?c ''https://a.example/'' = [?s]"
    by (simp add: Sources_def no embed_sources_def snapshot_sources_def emit_def demo_capturer_def)
  have res: "source_Result (cp_lib ?c) ?s = Inr (demo_capture\<lparr>cap_OriginalURL := ''https://a.example/''\<rparr>)"
    by (simp add: source_Result_def page_source_def demo_capturer_def)
  then have given: "gives (cp_lib ?c) ?s" and of: "cap_HTML (result_of (cp_lib ?c) ?s) = ''<p>''"
    and ok: "acceptable (cp_lib ?c) ?s"
    by (simp_all add: gives_def result_of_def acceptable_def unblocked_def demo_capture_def page_source_def)
  obtain r e where run: "Capture_page id ?c None ''https://a.example/'' = (r, e)" by fastforce
  have "\<forall>s \<in> set (Sources id ?c ''https://a.example/'').
      gives (cp_lib ?c) s \<longrightarrow> cap_HTML (result_of (cp_lib ?c) s) \<noteq> ''''"
    using of by (simp add: ss)
  from capture_keeps_best [OF this run]
  have r: "r = (result_of (cp_lib ?c) ?s)\<lparr>cap_Attempts := cap_Attempts r\<rparr>" and e: "e = None"
    using ok by (simp_all add: ss best_source_def split: if_splits)
  have html: "cap_HTML r = ''<p>''" using arg_cong [OF r, of cap_HTML] of by simp
  have step: "capture_step (cp_lib ?c) ?s st = (True, st') \<Longrightarrow>
      lp_attempts st' = lp_attempts st @ [\<lparr>atp_URL = src_URL ?s, atp_Status = ''complete''\<rparr>]" for st st'
    by (auto simp: capture_step_def res Let_def demo_capture_def)
  have accepted: "fst (capture_step (cp_lib ?c) ?s st)" for st
    by (simp add: capture_step_def res Let_def demo_capture_def) (simp add: page_source_def)
  obtain b st' where both: "capture_step (cp_lib ?c) ?s (start_loop ''https://a.example/'') = (b, st')"
    by (cases "capture_step (cp_lib ?c) ?s (start_loop ''https://a.example/'')")
  have st': "capture_step (cp_lib ?c) ?s (start_loop ''https://a.example/'') = (True, st')"
    using accepted [of "start_loop ''https://a.example/''"] by (simp only: both fst_conv)
  have "r = with_attempts st'" using run by (simp add: Capture_page_def ss st')
  then have "cap_Attempts r = lp_attempts st'" by (simp add: with_attempts_def)
  then have "map atp_URL (cap_Attempts r) = [''https://a.example/'']"
    using step [OF st'] by (simp add: start_loop_def page_source_def)
  then show ?thesis using run html unfolding e by (intro exI [of _ r] conjI)
qed

subsection \<open>The path of an article\<close>

text \<open>
  C21. Whatever the seams of the pipeline answer and whatever its stage requests are answered,
  the processor only asks for legal stages; a result without error is in the formatting stage,
  carries a valid approval that the approver gave for the submitted URL (or that the owner's
  edit got), and its PDF is what the formatter made of exactly the approved article.
\<close>

theorem processing_is_gated:
  assumes "proc_run answers (Process env p approve j) 0 = (stages, r, e)"
  shows "stage_path (StageFetching # stages)
    \<and> (e = None \<longrightarrow> last (StageFetching # stages) = StageFormatting \<and> app_valid (res_Article r)
         \<and> approved_by env p approve j (res_Article r) \<and> made_from env p j r)"
  using proc_run_ok [OF Process_ok assms] by (simp add: good_result_def)

definition demo_page :: rendered_page where
  "demo_page = zero_rendered\<lparr>rn_Screenshot := ''png'', rn_FinalURL := ''https://a.example/x''\<rparr>"

definition demo_article :: approved_article where
  "demo_article = \<lparr>app_draft = zero_draft\<lparr>draft_Title := ''T''\<rparr>, app_valid = True\<rparr>"

definition demo_pipeline :: pipeline where
  "demo_pipeline = \<lparr>pl_readingEdits = None, pl_outputLanguages = None,
     pl_browserRecovery = Some (\<lambda>_. Inr demo_page), pl_saved = None, pl_savedRenderer = None,
     pl_renderer = Some (demo_capturer (\<lambda>_. Some Canceled)),
     pl_approver = Some (\<lambda>_ _ _ _. Inr demo_article), pl_formatter = Some (\<lambda>_ _. Inr ''pdf'')\<rparr>"

definition demo_process_env :: process_env where
  "demo_process_env = \<lparr>pv_lower = id,
     pv_extract = \<lparr>el_html = demo_html, el_partial = (\<lambda>_. ''''), el_json = (\<lambda>_. None)\<rparr>,
     pv_now = (\<lambda>_. 0), pv_ctx = (\<lambda>_. None), pv_recovery = (\<lambda>_. None)\<rparr>"

definition demo_result :: process_result where
  "demo_result = \<lparr>res_Article = demo_article, res_CanonicalURL = ''https://a.example/x'',
     res_Filename = ''T.pdf'', res_PDF = ''pdf''\<rparr>"

lemma demo_stages:
  "proc_run (\<lambda>_. None) (Process demo_process_env demo_pipeline approve j) 0
    = ([StageFetching, StageExtracting, StageAIAnalyzing, StageFormatting], demo_result, None)"
proof -
  have plain: "TrimSpace ''https://a.example/x'' = ''https://a.example/x''"
    by (rule TrimSpace_plain) (simp add: IsSpace_def)
  show ?thesis
    by (simp add: Process_def demo_pipeline_def with_edit_def with_language_def process_saved_def
        process_fresh_def Sources_def demo_capturer_def new_attempts_def after_sources_def Let_def
        recover_in_browser_def demo_process_env_def in_stage_def processPage_def demo_page_def
        zero_rendered_def plain page_candidate_of_def Extract_def demo_html_def zero_candidate_def
        formatArticle_def Snapshot_def demo_article_def finished_def demo_result_def)
qed

theorem processing_is_gated_witness:
  "proc_run (\<lambda>_. None) (Process demo_process_env demo_pipeline (\<lambda>_. Inl ErrNotFound) zero_job) 0
     = ([StageFetching, StageExtracting, StageAIAnalyzing, StageFormatting], demo_result, None)
   \<and> approved_by demo_process_env demo_pipeline (\<lambda>_. Inl ErrNotFound) zero_job demo_article
   \<and> made_from demo_process_env demo_pipeline zero_job demo_result"
  using processing_is_gated [OF demo_stages [of "\<lambda>_. Inl ErrNotFound" zero_job]] demo_stages
  by (simp add: demo_result_def)

subsection \<open>Processor, worker and stores\<close>

text \<open>
  The pipeline under the worker, on the in-memory stores: if an undisturbed run makes the
  job it claimed ready, then the article had crossed the approval, its PDF was made from the
  approved article, and the published artifact opens to exactly these bytes. No other job of
  the store changes.
\<close>

lemma published_is_approved:
  assumes "mem_inv s" and "undisturbed env" and "wk_processor w = Process penv p"
    and "op_ClaimNext (mem_ops token) (Context (re_claim env)) (re_now env) (wk_lease w) s
      = (Inr (Some l), s1)"
    and "RunOnce ulow (mem_ops token) (artifact_mem sha256) w env s files = ((b, oe), s', files')"
  shows "\<exists>j. st_jobs s' = (st_jobs s1)(job_ID (lease_Job l) \<mapsto> j)
    \<and> (job_Status j = StatusReady \<longrightarrow>
        (\<exists>r. app_valid (res_Article r)
           \<and> approved_by penv p (wk_approve w) (lease_Job l) (res_Article r)
           \<and> made_from penv p (lease_Job l) r
           \<and> ends_ready (artifact_mem sha256) files' (res_PDF r) j))"
proof -
  obtain r pe st where run: "run_process (mem_ops token) (wk_lease w) (re_schedule env)
      (wk_processor w (wk_approve w) (lease_Job l)) 0 (claimed_state l s1 files) = (r, pe, st)"
    by (metis prod_cases3)
  obtain j where j: "st_jobs s' = (st_jobs s1)(job_ID (lease_Job l) \<mapsto> j)"
    and ends: "ends_queued w (re_now env) l j \<or> ends_failed j \<or> ends_processing j
      \<or> ends_ready (artifact_mem sha256) files' (res_PDF r) j
        \<and> app_valid (res_Article r) \<and> process_error (rs_beat st) pe = None"
    using wk.RunOnce_ends [OF assms(1,2,4) run assms(5)] by blast
  obtain stage where good: "good_result penv p (wk_approve w) (lease_Job l) stage r pe"
    using run_process_ok [OF Process_ok run [unfolded assms(3)]] by blast
  have "app_valid (res_Article r) \<and> approved_by penv p (wk_approve w) (lease_Job l) (res_Article r)
      \<and> made_from penv p (lease_Job l) r
      \<and> ends_ready (artifact_mem sha256) files' (res_PDF r) j" if "job_Status j = StatusReady"
  proof -
    have "ends_ready (artifact_mem sha256) files' (res_PDF r) j" "process_error (rs_beat st) pe = None"
      using ends that by (auto simp: ends_queued_def ends_failed_def ends_processing_def)
    moreover from this(2) have "pe = None"
      by (cases pe) (auto simp: process_error_def split: heartbeat.splits option.splits if_splits)
    ultimately show ?thesis using good by (simp add: good_result_def)
  qed
  then show ?thesis using j by blast
qed

end
