(* ===== verification/AI_Properties.thy ===== *)
theory AI_Properties
  imports AI_Approval Processing_Properties
begin

section \<open>Properties of the AI client and of the approval\<close>

text \<open>
  The protocol of an analysis, the bounds of what is accepted from a model, and the composition
  of approval, pipeline, worker and stores.
\<close>

subsection \<open>The protocol\<close>

text \<open>What an analysis promises about its outcome and the calls it has made.\<close>

definition analysis_protocol :: "ai_lib \<Rightarrow> analyze_request \<Rightarrow> analysis \<Rightarrow> bool" where
  "analysis_protocol lib r result \<longleftrightarrow>
     map at_Number (snd result) = take (length (snd result)) [1, 2]
     \<and> list_all (\<lambda>a. at_Status a = AttemptMalformed) (butlast (snd result))
     \<and> (case fst result of
          Inr a \<Rightarrow> snd result \<noteq> [] \<and> at_Status (last (snd result)) = AttemptSucceeded \<and> approved_ok lib r a
        | Inl f \<Rightarrow> CodeOf f \<noteq> None \<and> list_all (\<lambda>a. at_Status a \<noteq> AttemptSucceeded) (snd result))"

lemma transport_failure: "CodeOf (AIError e) \<noteq> None"
  by (simp add: CodeOf_def)

lemma stream_failure:
  "read_lines lib answer ls st = Inl f \<Longrightarrow> f = MalformedAnswer \<or> (\<exists>e. f = AIError e)"
  by (induction ls arbitrary: st)
    (auto simp: end_of_stream_def consume_def consume_event_def Let_def response_too_large_def
      split: if_splits sum.splits option.splits)

lemma client_call_failure:
  assumes "client_call lib ex c body n = (Inl f, a)"
  shows "f = MalformedAnswer \<or> (\<exists>e. f = AIError e)"
proof -
  have provider: "f = MalformedAnswer \<or> (\<exists>e. f = AIError e)" if "provider_call lib ex c body n = (Inl f, a)"
    using that by (auto simp: provider_call_def Let_def split: if_splits sum.splits option.splits
        prod.splits list.splits)
  have sub: "f = MalformedAnswer \<or> (\<exists>e. f = AIError e)" if "subscriptionCall lib ex c body n = (Inl f, a)"
    using that stream_failure
    by (fastforce simp: subscriptionCall_def subscription_exchange_def subscription_answer_def
        readResponsesStream_def Let_def split: if_splits sum.splits option.splits prod.splits)
  show ?thesis using assms provider sub by (auto simp: client_call_def split: if_splits)
qed

lemma repair_protocol:
  assumes "at_Number first = 1" and "at_Status first = AttemptMalformed"
  shows "analysis_protocol lib r (repair_answer lib ex c r content first)"
proof (cases "buildRequestBody lib c r content repairInstruction")
  case (Inl e)
  then show ?thesis using assms by (simp add: repair_answer_def analysis_protocol_def CodeOf_def)
next
  case (Inr body)
  obtain x a where call: "client_call lib ex c body 2 = (x, a)" by fastforce
  note n = client_call_number [OF call]
  show ?thesis
  proof (cases x)
    case (Inl f)
    then consider "f = MalformedAnswer" | e where "f = AIError e"
      using client_call_failure call by blast
    then show ?thesis
      using Inl Inr call n assms
      by cases (simp_all add: repair_answer_def analysis_protocol_def CodeOf_def malformed_attempt_def judged_def)
  next
    case content': (Inr content')
    show ?thesis
      using content' Inr call n assms
      by (cases "parseApproved lib content' r")
        (simp_all add: repair_answer_def analysis_protocol_def CodeOf_def malformed_attempt_def judged_def
          parseApproved_ok)
  qed
qed

lemma analysis_protocol_Analyze: "analysis_protocol lib r (Analyze lib ex client r)"
proof (cases client)
  case None
  then show ?thesis by (simp add: Analyze_def analysis_protocol_def CodeOf_def)
next
  case (Some c)
  show ?thesis
  proof (cases "validateAnalyzeRequest (al_lower lib) r = None
      \<and> (\<exists>body. buildRequestBody lib c r '''' '''' = Inr body)")
    case False
    then show ?thesis
      using Some by (auto simp: Analyze_def analysis_protocol_def CodeOf_def split: option.splits sum.splits)
  next
    case True
    then obtain body where body: "buildRequestBody lib c r '''' '''' = Inr body" by blast
    obtain x a where call: "client_call lib (ex 1) c body 1 = (x, a)" by fastforce
    note n = client_call_number [OF call]
    have first: "at_Number (malformed_attempt a) = 1" "at_Status (malformed_attempt a) = AttemptMalformed"
      using n by (simp_all add: malformed_attempt_def judged_def)
    show ?thesis
    proof (cases x)
      case (Inl f)
      then consider "f = MalformedAnswer" | e where "f = AIError e"
        using client_call_failure call by blast
      then show ?thesis
      proof cases
        case 1
        then have "Analyze lib ex client r = repair_answer lib (ex 2) c r '''' (malformed_attempt a)"
          using Some True body call Inl by (simp add: Analyze_def)
        then show ?thesis using repair_protocol [OF first] by simp
      next
        case 2
        then have "Analyze lib ex client r = (Inl f, [a])"
          using Some True body call Inl by (simp add: Analyze_def)
        then show ?thesis using n 2 by (simp add: analysis_protocol_def CodeOf_def)
      qed
    next
      case (Inr content)
      show ?thesis
      proof (cases "parseApproved lib content r")
        case Malformed
        then have "Analyze lib ex client r = repair_answer lib (ex 2) c r content (malformed_attempt a)"
          using Some True body call Inr by (simp add: Analyze_def)
        then show ?thesis using repair_protocol [OF first] by simp
      next
        case (Refused e)
        then show ?thesis
          using Some True body call Inr n
          by (simp add: Analyze_def analysis_protocol_def judged_def CodeOf_def)
      next
        case (Parsed v)
        then show ?thesis
          using Some True body call Inr n parseApproved_ok [OF Parsed]
          by (simp add: Analyze_def analysis_protocol_def)
      qed
    qed
  qed
qed

text \<open>
  C22. An analysis makes at most two calls, and the second only after a malformed first answer.
  It succeeds exactly when its last call is recorded as succeeded, and every failure carries a
  code. What it accepts is well-typed: an article, with both scores between 0 and 1, a title and
  a short reason; a kept candidate is exactly the candidate that was sent, with its own images,
  and a requested translation is in the requested language.
\<close>

theorem analysis_is_bounded:
  "analysis_protocol lib r (Analyze lib ex client r)"
  by (rule analysis_protocol_Analyze)

subsection \<open>The stream of the subscription\<close>









subsection \<open>From the answer to the artifact\<close>











end
