(* ===== verification/Postgres_Model.thy ===== *)
theory Postgres_Model
  imports Job_Interfaces
begin

section \<open>The database of the PostgreSQL store: tables, constraints, statements\<close>

text \<open>
  The tables of \<open>migrations/\<close> that \<open>internal/postgres/store.go\<close> and \<open>delivery.go\<close> use, with
  their CHECK and uniqueness constraints, and what the store does with the answers of the
  server (\<open>internal/postgres/errors.go\<close>). A table is the list of its rows; a nullable column
  is an \<open>option\<close>. The constants that the store itself always writes into a column
  (\<open>source_kind\<close>, \<open>output_kind\<close>) are left out.

  Everything the server decides is an argument: whether a statement fails for a reason of
  its own (\<open>pg_fail\<close>, by the name the store gives the operation and a position in a loop),
  what the commit answers, which rows other transactions have locked, how it rounds instants
  and decimals and in which order it sorts text. A statement that violates a constraint fails
  in the model itself.
\<close>

subsection \<open>Rows\<close>

record job_row =
  row_id :: job_id
  row_retry_of :: "job_id option"
  row_submitted_url :: "string option"
  row_canonical_url :: "string option"
  row_title_hint :: "string option"
  row_display_title :: "string option"
  row_profile :: string
  row_status :: status
  row_stage :: "stage option"
  row_attempt_count :: int
  row_version :: int
  row_next_attempt :: time
  row_category :: "failure_category option"
  row_message :: "string option"
  row_correlation :: string
  row_token :: "string option"
  row_expires :: "time option"
  row_created :: time
  row_updated :: time
  row_started :: "time option"
  row_completed :: "time option"
  row_destination :: "string option"
  row_pending :: bool
  row_retries :: int
  row_paused :: bool

record idem_row =
  ir_scope :: string
  ir_key :: string
  ir_hash :: string
  ir_job :: job_id
  ir_created :: time
  ir_expires :: time

record content_row =
  cr_id :: content_id
  cr_job :: job_id
  cr_title :: string
  cr_author :: "string option"
  cr_site :: "string option"
  cr_published :: "time option"
  cr_description :: "string option"
  cr_source_url :: string
  cr_html :: string
  cr_text :: string
  cr_method :: string
  cr_confidence :: rat
  cr_completeness :: "rat option"
  cr_language :: "string option"
  cr_created :: time
  cr_updated :: time

record artifact_row =
  fr_id :: string
  fr_job :: job_id
  fr_content :: "content_id option"
  fr_profile :: string
  fr_path :: string
  fr_filename :: string
  fr_media :: string
  fr_size :: int
  fr_checksum :: string
  fr_availability :: string
  fr_created :: time

record ai_row =
  tr_id :: string
  tr_job :: job_id
  tr_purpose :: string
  tr_number :: int
  tr_model :: string
  tr_prompt :: string
  tr_latency :: int
  tr_request :: "string option"
  tr_input :: "int option"
  tr_output :: "int option"
  tr_status :: string
  tr_category :: "string option"
  tr_created :: time

record delivery_row =
  er_id :: string
  er_job :: job_id
  er_artifact :: "string option"
  er_number :: int
  er_message_id :: string
  er_started :: time
  er_completed :: "time option"
  er_outcome :: string
  er_code :: "string option"
  er_category :: "string option"

record deletion_row =
  lr_id :: string
  lr_job :: "job_id option"
  lr_artifact :: "string option"
  lr_path :: string
  lr_status :: string
  lr_next_attempt :: time
  lr_created :: time
  lr_updated :: time

record pg_db =
  db_jobs :: "job_row list"
  db_idem :: "idem_row list"
  db_content :: "content_row list"
  db_artifacts :: "artifact_row list"
  db_attempts :: "ai_row list"
  db_deliveries :: "delivery_row list"
  db_deletions :: "deletion_row list"

definition empty_db :: pg_db where
  "empty_db = \<lparr>db_jobs = [], db_idem = [], db_content = [], db_artifacts = [],
     db_attempts = [], db_deliveries = [], db_deletions = []\<rparr>"

text \<open>\<open>WHERE id = $1\<close>.\<close>

definition job_at :: "pg_db \<Rightarrow> job_id \<Rightarrow> job_row option" where
  "job_at db i = find (\<lambda>r. row_id r = i) (db_jobs db)"

subsection \<open>Constraints\<close>

text \<open>\<open>char_length(btrim(s)) BETWEEN 1 AND n\<close>: \<open>btrim\<close> removes spaces only.\<close>

definition char_length :: "string \<Rightarrow> nat" where
  "char_length s = RuneCountInString s"

definition not_blank :: "nat \<Rightarrow> string \<Rightarrow> bool" where
  "not_blank n s \<longleftrightarrow> (let l = char_length (Trim s '' '') in 1 \<le> l \<and> l \<le> n)"

definition filled :: "string \<Rightarrow> bool" where
  "filled s \<longleftrightarrow> 0 < char_length (Trim s '' '')"

definition is_active :: "status \<Rightarrow> bool" where
  "is_active st \<longleftrightarrow> st = StatusProcessing \<or> st = StatusDelivering"

definition row_ok :: "job_row \<Rightarrow> bool" where
  "row_ok r \<longleftrightarrow>
     not_blank 200 (row_id r)
     \<and> row_retry_of r \<noteq> Some (row_id r)
     \<and> row_submitted_url r \<noteq> None
     \<and> not_blank 100 (row_profile r)
     \<and> status_Valid (row_status r)
     \<and> (case row_stage r of None \<Rightarrow> True | Some st \<Rightarrow> stage_Valid st)
     \<and> (row_status r = StatusProcessing \<longleftrightarrow> row_stage r \<noteq> None)
     \<and> 0 \<le> row_attempt_count r \<and> row_attempt_count r < 2 ^ 31
     \<and> 0 < row_version r \<and> row_version r < 2 ^ 63
     \<and> (case row_category r of None \<Rightarrow> True | Some c \<Rightarrow> c \<in> set category_constants)
     \<and> (row_status r \<in> {StatusFailed, StatusDeliveryFailed} \<longrightarrow> row_category r \<noteq> None)
     \<and> not_blank 200 (row_correlation r)
     \<and> (row_token r = None \<longleftrightarrow> row_expires r = None)
     \<and> (is_active (row_status r) \<longleftrightarrow> row_token r \<noteq> None \<and> row_expires r \<noteq> None)
     \<and> (case row_message r of None \<Rightarrow> True | Some m \<Rightarrow> char_length m \<le> 2000)
     \<and> (row_completed r = None \<or> status_Terminal (row_status r))
     \<and> row_retries r < 2 ^ 31"

definition idem_ok :: "idem_row \<Rightarrow> bool" where
  "idem_ok i \<longleftrightarrow> not_blank 100 (ir_scope i) \<and> not_blank 512 (ir_key i)
     \<and> not_blank 512 (ir_hash i) \<and> ir_created i < ir_expires i"

definition content_ok :: "content_row \<Rightarrow> bool" where
  "content_ok c \<longleftrightarrow>
     not_blank 200 (cr_id c) \<and> filled (cr_title c) \<and> filled (cr_source_url c)
     \<and> filled (cr_html c) \<and> filled (cr_text c) \<and> not_blank 100 (cr_method c)
     \<and> 0 \<le> cr_confidence c \<and> cr_confidence c \<le> 1
     \<and> (case cr_completeness c of None \<Rightarrow> True | Some q \<Rightarrow> 0 \<le> q \<and> q \<le> 1)
     \<and> (case cr_language c of None \<Rightarrow> True | Some l \<Rightarrow> char_length l \<le> 32)"

definition path_ok :: "string \<Rightarrow> bool" where
  "path_ok p \<longleftrightarrow> filled p \<and> take 1 p \<noteq> ''/'' \<and> \<not> Contains p ''..'' \<and> char_of (92::nat) \<notin> set p"

definition checksum_ok :: "string \<Rightarrow> bool" where
  "checksum_ok s \<longleftrightarrow> length s = 64 \<and> list_all (\<lambda>c. c \<in> set ''0123456789abcdef'') s"

definition artifact_ok :: "artifact_row \<Rightarrow> bool" where
  "artifact_ok a \<longleftrightarrow>
     not_blank 200 (fr_id a) \<and> not_blank 100 (fr_profile a) \<and> path_ok (fr_path a)
     \<and> not_blank 255 (fr_filename a) \<and> CHR ''/'' \<notin> set (fr_filename a)
     \<and> char_of (92::nat) \<notin> set (fr_filename a) \<and> \<not> Contains (fr_filename a) ''..''
     \<and> not_blank 255 (fr_media a) \<and> 0 \<le> fr_size a \<and> fr_size a < 2 ^ 63
     \<and> checksum_ok (fr_checksum a)
     \<and> fr_availability a \<in> {''pending'', ''available'', ''unavailable'', ''delete_pending'',
                            ''delete_failed''}"

definition ai_categories :: "string list" where
  "ai_categories =
     [''invalid_input'', ''input_too_large'', ''ai_timeout'', ''ai_canceled'',
      ''ai_unavailable'', ''ai_auth_failed'', ''ai_model_unsupported'', ''ai_rate_limited'',
      ''ai_provider_rejected'', ''ai_response_too_large'', ''ai_invalid_response'',
      ''fetch_failed'', ''paywall'', ''paywall_detected'', ''access_denied'', ''error_page'',
      ''interactive'', ''non_article'', ''unsupported_content'', ''insufficient_content'']"

definition ai_row_ok :: "ai_row \<Rightarrow> bool" where
  "ai_row_ok a \<longleftrightarrow>
     not_blank 200 (tr_id a) \<and> tr_purpose a \<in> {''analysis'', ''repair''}
     \<and> 0 < tr_number a \<and> tr_number a < 2 ^ 31 \<and> not_blank 200 (tr_model a)
     \<and> not_blank 200 (tr_prompt a) \<and> 0 \<le> tr_latency a
     \<and> (case tr_input a of None \<Rightarrow> True | Some n \<Rightarrow> 0 \<le> n)
     \<and> (case tr_output a of None \<Rightarrow> True | Some n \<Rightarrow> 0 \<le> n)
     \<and> tr_status a \<in> {''succeeded'', ''malformed_response'', ''rejected'', ''failed''}
     \<and> (case tr_category a of None \<Rightarrow> True | Some c \<Rightarrow> c \<in> set ai_categories)
     \<and> (tr_status a = ''succeeded'' \<longleftrightarrow> tr_category a = None)"

definition delivery_row_ok :: "delivery_row \<Rightarrow> bool" where
  "delivery_row_ok d \<longleftrightarrow>
     not_blank 200 (er_id d) \<and> 0 < er_number d \<and> er_number d < 2 ^ 31
     \<and> not_blank 512 (er_message_id d)
     \<and> (case er_completed d of None \<Rightarrow> True | Some t \<Rightarrow> er_started d \<le> t)
     \<and> er_outcome d \<in> {''accepted'', ''rejected'', ''transient_failure'', ''uncertain'', ''disabled''}
     \<and> (case er_code d of None \<Rightarrow> True | Some c \<Rightarrow> char_length c \<le> 128)
     \<and> (case er_category d of None \<Rightarrow> True
        | Some c \<Rightarrow> c \<in> {''delivery_rejected'', ''delivery_timeout'', ''internal_error''})
     \<and> (er_outcome d = ''accepted'' \<longrightarrow> er_category d = None)"

definition deletion_row_ok :: "deletion_row \<Rightarrow> bool" where
  "deletion_row_ok d \<longleftrightarrow> not_blank 200 (lr_id d) \<and> path_ok (lr_path d)"

subsection \<open>Errors of the driver\<close>

text \<open>What \<open>database/sql\<close> reports: an error that is not the server's, or the server's code
  and the constraint it names. \<open>mapDBError\<close> keeps cancellation, \<open>sql.ErrNoRows\<close> and two
  codes apart; the text of everything else is replaced by the name of the operation.\<close>

datatype db_error = DriverError error | PgError (pg_code: string) (pg_constraint: string)

definition databaseFailure :: "string \<Rightarrow> error" where
  "databaseFailure operation =
     NewError (if operation = '''' then ''postgres operation failed''
               else ''postgres '' @ operation @ '' failed'')"

fun mapDBError :: "string \<Rightarrow> db_error \<Rightarrow> error" where
  "mapDBError operation (DriverError e) =
     (if errors_Is e Canceled \<or> errors_Is e DeadlineExceeded then e
      else if errors_Is e SqlErrNoRows then ErrNotFound
      else databaseFailure operation)"
| "mapDBError operation (PgError code con) =
     (if code = ''23505'' \<and> con = ''idempotency_records_pkey'' then ErrIdempotencyConflict
      else if code = ''23503'' then ErrNotFound
      else databaseFailure operation)"

fun is_no_rows :: "db_error \<Rightarrow> bool" where
  "is_no_rows (DriverError e) = errors_Is e SqlErrNoRows"
| "is_no_rows (PgError _ _) = False"

definition check_violation :: db_error where
  "check_violation = PgError ''23514'' ''''"

definition unique_violation :: "string \<Rightarrow> db_error" where
  "unique_violation con = PgError ''23505'' con"

text \<open>Scanning NULL into a Go \<open>string\<close> or \<open>time.Time\<close> is an error of the driver.\<close>

definition null_scan :: db_error where
  "null_scan = DriverError (NewError ''sql: Scan error: converting NULL is unsupported'')"

subsection \<open>The server's side of a call\<close>

text \<open>A commit that reports an error may have been lost or may have been applied.\<close>

datatype commit_answer = Committed | CommitLost db_error | CommitUnknown db_error

record pg_env =
  pg_fail :: "string \<Rightarrow> nat \<Rightarrow> db_error option"
  pg_commit :: commit_answer
  pg_clock :: "nat \<Rightarrow> time"
  pg_token :: "nat \<Rightarrow> string"
  pg_locked :: "job_id \<Rightarrow> bool"
  pg_between :: "pg_db \<Rightarrow> pg_db"
  pg_stamp :: "time \<Rightarrow> time"
  pg_text_less :: "string \<Rightarrow> string \<Rightarrow> bool"
  pg_numeric :: "float64 \<Rightarrow> rat option"
  pg_numeric_text :: "rat \<Rightarrow> string"
  pg_ParseFloat :: "string \<Rightarrow> float64 option"
  pg_ParseTime :: "string \<Rightarrow> string \<Rightarrow> time option"
  pg_FormatTime :: "time \<Rightarrow> string"

record pg_store =
  ps_destination :: string
  ps_scope :: string

fun and_then :: "'e + 'a \<Rightarrow> ('a \<Rightarrow> 'e + 'b) \<Rightarrow> 'e + 'b" where
  "and_then (Inl e) f = Inl e"
| "and_then (Inr x) f = f x"

text \<open>\<open>tx.ExecContext\<close> under an operation name, at position \<open>i\<close> of its loop.\<close>

definition exec :: "pg_env \<Rightarrow> string \<Rightarrow> nat \<Rightarrow> db_error + 'a \<Rightarrow> error + 'a" where
  "exec env operation i result =
     (case pg_fail env operation i of
        Some e \<Rightarrow> Inl (mapDBError operation e)
      | None \<Rightarrow> (case result of Inl e \<Rightarrow> Inl (mapDBError operation e) | Inr x \<Rightarrow> Inr x))"

text \<open>\<open>QueryRowContext(...).Scan\<close>, with the error the store returns for no row.\<close>

definition query_row :: "pg_env \<Rightarrow> string \<Rightarrow> error \<Rightarrow> 'a option \<Rightarrow> error + 'a" where
  "query_row env operation missing result =
     (case pg_fail env operation 0 of
        Some e \<Rightarrow> Inl (if is_no_rows e then missing else mapDBError operation e)
      | None \<Rightarrow> (case result of None \<Rightarrow> Inl missing | Some x \<Rightarrow> Inr x))"

definition scan :: "string \<Rightarrow> 'a option \<Rightarrow> error + 'a" where
  "scan operation column =
     (case column of None \<Rightarrow> Inl (mapDBError operation null_scan) | Some x \<Rightarrow> Inr x)"

text \<open>A transaction: the deferred \<open>Rollback\<close> undoes the body unless it was committed.\<close>

definition run_tx ::
  "pg_env \<Rightarrow> string \<Rightarrow> string \<Rightarrow> (pg_db \<Rightarrow> error + 'a \<times> pg_db) \<Rightarrow> pg_db \<Rightarrow> ('a, pg_db) outcome" where
  "run_tx env begin_name commit_name body db =
     (case pg_fail env begin_name 0 of
        Some e \<Rightarrow> (Inl (mapDBError begin_name e), db)
      | None \<Rightarrow>
          (case body db of
             Inl e \<Rightarrow> (Inl e, db)
           | Inr (x, db') \<Rightarrow>
               (case pg_commit env of
                  Committed \<Rightarrow> (Inr x, db')
                | CommitLost e \<Rightarrow> (Inl (mapDBError commit_name e), db)
                | CommitUnknown e \<Rightarrow> (Inl (mapDBError commit_name e), db'))))"

subsection \<open>Statements on the table of jobs\<close>

text \<open>\<open>UPDATE jobs SET ... WHERE ...\<close> with the number of affected rows, \<open>INSERT\<close> and
  \<open>DELETE\<close> with the \<open>ON DELETE\<close> actions of the foreign keys.\<close>

definition update_jobs ::
  "(job_row \<Rightarrow> bool) \<Rightarrow> (job_row \<Rightarrow> job_row) \<Rightarrow> pg_db \<Rightarrow> db_error + nat \<times> pg_db" where
  "update_jobs P f db =
     (if list_all (\<lambda>r. P r \<longrightarrow> row_ok (f r)) (db_jobs db)
      then Inr (length (filter P (db_jobs db)),
                db\<lparr>db_jobs := map (\<lambda>r. if P r then f r else r) (db_jobs db)\<rparr>)
      else Inl check_violation)"

definition insert_job_row :: "job_row \<Rightarrow> pg_db \<Rightarrow> db_error + pg_db" where
  "insert_job_row r db =
     (if \<not> row_ok r then Inl check_violation
      else if row_id r \<in> row_id ` set (db_jobs db) then Inl (unique_violation ''jobs_pkey'')
      else if row_correlation r \<in> row_correlation ` set (db_jobs db)
      then Inl (unique_violation ''jobs_correlation_id_uq'')
      else Inr (db\<lparr>db_jobs := db_jobs db @ [r]\<rparr>))"

definition delete_job_row :: "job_id \<Rightarrow> pg_db \<Rightarrow> pg_db" where
  "delete_job_row i db =
     (let gone = map fr_id (filter (\<lambda>a. fr_job a = i) (db_artifacts db))
      in db\<lparr>db_jobs := map (\<lambda>r. if row_retry_of r = Some i then r\<lparr>row_retry_of := None\<rparr> else r)
                         (filter (\<lambda>r. row_id r \<noteq> i) (db_jobs db)),
            db_idem := filter (\<lambda>x. ir_job x \<noteq> i) (db_idem db),
            db_content := filter (\<lambda>x. cr_job x \<noteq> i) (db_content db),
            db_artifacts := filter (\<lambda>x. fr_job x \<noteq> i) (db_artifacts db),
            db_attempts := filter (\<lambda>x. tr_job x \<noteq> i) (db_attempts db),
            db_deliveries := filter (\<lambda>x. er_job x \<noteq> i) (db_deliveries db),
            db_deletions := map (\<lambda>x. x\<lparr>lr_job := (if lr_job x = Some i then None else lr_job x),
                lr_artifact := (case lr_artifact x of None \<Rightarrow> None
                  | Some a \<Rightarrow> if a \<in> set gone then None else Some a)\<rparr>) (db_deletions db)\<rparr>)"

subsection \<open>Statements on the other tables\<close>

definition insert_content :: "content_row \<Rightarrow> pg_db \<Rightarrow> db_error + pg_db" where
  "insert_content c db =
     (if \<not> content_ok c then Inl check_violation
      else if cr_id c \<in> cr_id ` set (db_content db) then Inl (unique_violation ''content_documents_pkey'')
      else if cr_job c \<in> cr_job ` set (db_content db)
      then Inl (unique_violation ''content_documents_job_id_key'')
      else Inr (db\<lparr>db_content := db_content db @ [c]\<rparr>))"

definition insert_artifact :: "artifact_row \<Rightarrow> pg_db \<Rightarrow> db_error + pg_db" where
  "insert_artifact a db =
     (if \<not> artifact_ok a then Inl check_violation
      else if fr_id a \<in> fr_id ` set (db_artifacts db) then Inl (unique_violation ''artifacts_pkey'')
      else if (fr_job a, fr_profile a) \<in> (\<lambda>x. (fr_job x, fr_profile x)) ` set (db_artifacts db)
      then Inl (unique_violation ''artifacts_job_output_profile_uq'')
      else Inr (db\<lparr>db_artifacts := db_artifacts db @ [a]\<rparr>))"

definition insert_ai_row :: "ai_row \<Rightarrow> pg_db \<Rightarrow> db_error + pg_db" where
  "insert_ai_row a db =
     (if \<not> ai_row_ok a then Inl check_violation
      else if tr_id a \<in> tr_id ` set (db_attempts db) then Inl (unique_violation ''ai_attempts_pkey'')
      else if (tr_job a, tr_purpose a, tr_number a)
              \<in> (\<lambda>x. (tr_job x, tr_purpose x, tr_number x)) ` set (db_attempts db)
      then Inl (unique_violation ''ai_attempts_job_purpose_number_uq'')
      else Inr (db\<lparr>db_attempts := db_attempts db @ [a]\<rparr>))"

definition insert_delivery :: "delivery_row \<Rightarrow> pg_db \<Rightarrow> db_error + pg_db" where
  "insert_delivery d db =
     (if \<not> delivery_row_ok d then Inl check_violation
      else if er_id d \<in> er_id ` set (db_deliveries db)
      then Inl (unique_violation ''delivery_attempts_pkey'')
      else if (er_job d, er_number d) \<in> (\<lambda>x. (er_job x, er_number x)) ` set (db_deliveries db)
      then Inl (unique_violation ''delivery_attempts_job_kind_number_uq'')
      else Inr (db\<lparr>db_deliveries := db_deliveries db @ [d]\<rparr>))"

definition insert_deletion :: "deletion_row \<Rightarrow> pg_db \<Rightarrow> db_error + pg_db" where
  "insert_deletion d db =
     (if \<not> deletion_row_ok d then Inl check_violation
      else if lr_id d \<in> lr_id ` set (db_deletions db)
      then Inl (unique_violation ''deletion_tasks_pkey'')
      else if \<exists>x \<in> set (db_deletions db). lr_artifact d \<noteq> None
                \<and> lr_artifact x = lr_artifact d \<and> lr_status x \<noteq> ''completed''
      then Inl (unique_violation ''deletion_tasks_one_active_artifact_uq'')
      else Inr (db\<lparr>db_deletions := db_deletions db @ [d]\<rparr>))"

text \<open>\<open>SELECT COALESCE(MAX(n), 0) + 1\<close>.\<close>

definition next_number :: "int list \<Rightarrow> int" where
  "next_number ns = (if ns = [] then 0 else Max (set ns)) + 1"

subsection \<open>What a successful statement says\<close>

lemma sort_slice_first: "sort_slice lt xs = r # rs \<Longrightarrow> r \<in> set xs"
  using set_sort_slice [of lt xs] by auto

lemma and_then_Inr: "and_then r f = Inr x \<longleftrightarrow> (\<exists>y. r = Inr y \<and> f y = Inr x)"
  by (cases r) auto

lemma exec_Inr: "exec env op n r = Inr x \<longleftrightarrow> r = Inr x \<and> pg_fail env op n = None"
  by (auto simp: exec_def split: option.splits sum.splits)

lemma scan_Inr: "scan op column = Inr x \<longleftrightarrow> column = Some x"
  by (auto simp: scan_def split: option.splits)

lemma query_row_Inr: "query_row env op missing result = Inr x \<longleftrightarrow>
    result = Some x \<and> pg_fail env op 0 = None"
  by (auto simp: query_row_def split: option.splits if_splits)

lemma update_jobs_Inr: "update_jobs P f db = Inr (n, db') \<longleftrightarrow>
    list_all (\<lambda>r. P r \<longrightarrow> row_ok (f r)) (db_jobs db) \<and> n = length (filter P (db_jobs db))
    \<and> db' = db\<lparr>db_jobs := map (\<lambda>r. if P r then f r else r) (db_jobs db)\<rparr>"
  by (auto simp: update_jobs_def split: if_splits)

lemmas statement_Inr = and_then_Inr exec_Inr scan_Inr query_row_Inr update_jobs_Inr

lemma insert_delivery_jobs: "insert_delivery d db = Inr db' \<Longrightarrow> db_jobs db' = db_jobs db"
  by (auto simp: insert_delivery_def split: if_splits)

end
