(* ===== verification/Postgres_Store.thy ===== *)
theory Postgres_Store
  imports Postgres_Model Go_Encoding
begin

section \<open>The PostgreSQL job store\<close>

text \<open>
  \<open>internal/postgres/store.go\<close>, type \<open>Store\<close>. Every method is a transaction on the tables of
  \<open>Postgres_Model\<close>; the row locks of \<open>FOR UPDATE\<close> make it atomic for the job it works on.
  The one place where another transaction can come between two statements that matter, the
  first submission under an idempotency key, is explicit (\<open>pg_between\<close>).
\<close>

subsection \<open>Column values\<close>

definition nullableString :: "string \<Rightarrow> string option" where
  "nullableString value = (if TrimSpace value = '''' then None else Some value)"

text \<open>\<open>NULLIF(s, '')\<close>, and \<open>NullString.String\<close> of a scanned column.\<close>

definition nullif_empty :: "string \<Rightarrow> string option" where
  "nullif_empty s = (if s = '''' then None else Some s)"

definition text_of :: "string option \<Rightarrow> string" where
  "text_of column = (case column of None \<Rightarrow> '''' | Some s \<Rightarrow> s)"

definition nullableTokenCount :: "int \<Rightarrow> bool \<Rightarrow> int option" where
  "nullableTokenCount count reported = (if \<not> reported \<or> count < 0 then None else Some count)"

definition publication_layouts :: "string list" where
  "publication_layouts =
     [''2006-01-02T15:04:05.999999999Z07:00'', ''2006-01-02T15:04:05Z07:00'', ''2006-01-02'']"

definition nullablePublicationDate :: "pg_env \<Rightarrow> string \<Rightarrow> time option" where
  "nullablePublicationDate env s =
     (let value = TrimSpace s
      in if value = '''' then None
         else first_Some (map (\<lambda>layout. pg_ParseTime env layout value) publication_layouts))"

definition parseFloat :: "pg_env \<Rightarrow> string \<Rightarrow> float64" where
  "parseFloat env value =
     (if TrimSpace value = '''' then Fin 0
      else case pg_ParseFloat env value of
             Some (Fin q) \<Rightarrow> Fin q
           | _ \<Rightarrow> Fin 0)"

subsection \<open>Scanning rows\<close>

text \<open>A column of an instant that is NULL scans to the zero \<open>sql.NullTime\<close>, whose instant is
  the zero instant.\<close>

definition instant_of :: "time option \<Rightarrow> time" where
  "instant_of column = (case column of None \<Rightarrow> zero_time | Some t \<Rightarrow> t)"

definition stage_of :: "stage option \<Rightarrow> stage" where
  "stage_of column = (case column of None \<Rightarrow> StageNone | Some st \<Rightarrow> st)"

definition scanned_job :: "job_row \<Rightarrow> job" where
  "scanned_job r = zero_job\<lparr>job_ID := row_id r,
     job_RetryOf := text_of (row_retry_of r),
     job_SubmittedURL := text_of (row_submitted_url r),
     job_CanonicalURL := text_of (row_canonical_url r),
     job_TitleHint := text_of (row_title_hint r),
     job_Profile := row_profile r,
     job_Status := row_status r,
     job_Stage := stage_of (row_stage r),
     job_AttemptCount := row_attempt_count r,
     job_CreatedAt := row_created r,
     job_Version := word_of_int (row_version r),
     job_NextAttemptAt := row_next_attempt r,
     job_CompletedAt := row_completed r\<rparr>"

text \<open>\<open>version <= 0 || !nextAttemptAt.Valid\<close>: the second column is never NULL.\<close>

definition bad_row :: "job_row \<Rightarrow> bool" where
  "bad_row r \<longleftrightarrow> row_version r \<le> 0"

definition completedOrCreated :: "job \<Rightarrow> time" where
  "completedOrCreated j = (case job_CompletedAt j of Some t \<Rightarrow> t | None \<Rightarrow> job_CreatedAt j)"

definition scanned_content :: "pg_env \<Rightarrow> content_row \<Rightarrow> content_document" where
  "scanned_content env c =
     \<lparr>doc_ID = cr_id c, doc_JobID = cr_job c, doc_Title = cr_title c,
      doc_Author = text_of (cr_author c), doc_SiteName = text_of (cr_site c),
      doc_PublicationDate = (case cr_published c of None \<Rightarrow> '''' | Some t \<Rightarrow> pg_FormatTime env t),
      doc_Description = text_of (cr_description c), doc_Language = text_of (cr_language c),
      doc_SourceURL = cr_source_url c, doc_SemanticHTML = cr_html c, doc_PlainText = cr_text c,
      doc_ExtractionMethod = cr_method c,
      doc_AIConfidence = parseFloat env (pg_numeric_text env (cr_confidence c)),
      doc_AICompleteness = (case cr_completeness c of None \<Rightarrow> Fin 0
         | Some q \<Rightarrow> parseFloat env (pg_numeric_text env q)),
      doc_CreatedAt = cr_created c, doc_UpdatedAt = cr_updated c\<rparr>"

definition scanned_artifact :: "artifact_row \<Rightarrow> artifact" where
  "scanned_artifact a =
     \<lparr>art_Key = fr_path a, art_Filename = fr_filename a, art_MediaType = fr_media a,
      art_ByteSize = fr_size a, art_Checksum = fr_checksum a,
      art_Available = (fr_availability a = ''available''), art_CreatedAt = fr_created a\<rparr>"

text \<open>The joins of \<open>jobSelect\<close>: the document of the job, the artifact of its profile, its
  delivery attempt with the greatest number.\<close>

definition content_of :: "pg_db \<Rightarrow> job_row \<Rightarrow> content_row option" where
  "content_of db r = find (\<lambda>c. cr_job c = row_id r) (db_content db)"

definition artifact_of :: "pg_db \<Rightarrow> job_row \<Rightarrow> artifact_row option" where
  "artifact_of db r =
     find (\<lambda>a. fr_job a = row_id r \<and> fr_profile a = row_profile r) (db_artifacts db)"

definition delivery_of :: "pg_db \<Rightarrow> job_row \<Rightarrow> delivery_row option" where
  "delivery_of db r =
     (case sort_slice (\<lambda>x y. er_number y < er_number x)
             (filter (\<lambda>d. er_job d = row_id r) (db_deliveries db)) of
        [] \<Rightarrow> None | d # ds \<Rightarrow> Some d)"

definition with_failure :: "job_row \<Rightarrow> (job \<Rightarrow> time) \<Rightarrow> job \<Rightarrow> job" where
  "with_failure r occurred j =
     (case row_category r of
        None \<Rightarrow> j
      | Some c \<Rightarrow> j\<lparr>job_Failure := Some \<lparr>fail_Category = c, fail_Message = Message c,
            fail_CorrelationID = row_correlation r, fail_OccurredAt = occurred j\<rparr>\<rparr>)"

definition with_content :: "content_document option \<Rightarrow> job \<Rightarrow> job" where
  "with_content co j =
     (case co of
        None \<Rightarrow> j
      | Some d \<Rightarrow> j\<lparr>job_Content := Some d, job_AIConfidence := doc_AIConfidence d\<rparr>)"

definition scanJob :: "pg_env \<Rightarrow> pg_db \<Rightarrow> job_row \<Rightarrow> error + job" where
  "scanJob env db r =
     (if bad_row r then Inl (databaseFailure ''scan job'')
      else Inr (with_content (map_option (scanned_content env) (content_of db r))
             (with_failure r completedOrCreated
               ((scanned_job r)\<lparr>job_LeaseToken := text_of (row_token r),
                  job_LeaseUntil := instant_of (row_expires r)\<rparr>))
            \<lparr>job_Artifact := map_option scanned_artifact (artifact_of db r),
             job_Delivery := map_option (\<lambda>d. \<lparr>dlv_Status = er_outcome d,
                dlv_AttemptCount = er_number d, dlv_MessageID = er_message_id d\<rparr>)
                (delivery_of db r)\<rparr>))"

definition loadJob :: "pg_env \<Rightarrow> pg_db \<Rightarrow> job_id \<Rightarrow> error + job" where
  "loadJob env db i =
     (case pg_fail env ''load job'' 0 of
        Some e \<Rightarrow> Inl (if is_no_rows e then ErrNotFound else databaseFailure ''scan job'')
      | None \<Rightarrow> (case job_at db i of None \<Rightarrow> Inl ErrNotFound | Some r \<Rightarrow> scanJob env db r))"

text \<open>The listing does not select the lease, the text of the document, the storage key or the
  deliveries.\<close>

definition scanListJob :: "pg_env \<Rightarrow> pg_db \<Rightarrow> job_row \<Rightarrow> error + job" where
  "scanListJob env db r =
     (if bad_row r then Inl (databaseFailure ''scan list jobs'')
      else Inr (with_content
             (map_option (\<lambda>c. (scanned_content env c)\<lparr>doc_JobID := row_id r, doc_SourceURL := '''',
                 doc_SemanticHTML := '''', doc_PlainText := '''', doc_ExtractionMethod := '''',
                 doc_CreatedAt := zero_time, doc_UpdatedAt := zero_time\<rparr>) (content_of db r))
             (with_failure r (\<lambda>j. zero_time) (scanned_job r))
            \<lparr>job_Artifact := map_option (\<lambda>a. (scanned_artifact a)\<lparr>art_Key := ''''\<rparr>)
               (artifact_of db r)\<rparr>))"

definition scanClaimJob :: "job_row \<Rightarrow> error + job" where
  "scanClaimJob r =
     (if bad_row r then Inl (databaseFailure ''scan claim job'')
      else Inr (with_failure r (\<lambda>j. zero_time) (scanned_job r)))"

subsection \<open>Construction\<close>

definition NewPostgresStore :: "'db option \<Rightarrow> string \<Rightarrow> string \<Rightarrow> error + 'db \<times> pg_store" where
  "NewPostgresStore db scope destination =
     (case db of
        None \<Rightarrow> Inl (NewError ''postgres database is required'')
      | Some d \<Rightarrow> Inr (d, \<lparr>ps_destination = destination,
           ps_scope = (if TrimSpace scope = '''' then ''owner'' else TrimSpace scope)\<rparr>))"

subsection \<open>Creation\<close>

definition idem_lookup :: "pg_db \<Rightarrow> string \<Rightarrow> string \<Rightarrow> idem_row option" where
  "idem_lookup db scope key = find (\<lambda>i. ir_scope i = scope \<and> ir_key i = key) (db_idem db)"

definition idem_delete :: "string \<Rightarrow> string \<Rightarrow> pg_db \<Rightarrow> pg_db" where
  "idem_delete scope key db =
     db\<lparr>db_idem := filter (\<lambda>i. \<not> (ir_scope i = scope \<and> ir_key i = key)) (db_idem db)\<rparr>"

definition created_row :: "pg_env \<Rightarrow> create_job \<Rightarrow> time \<Rightarrow> job_row" where
  "created_row env cmd since =
     \<lparr>row_id = cj_ID cmd, row_retry_of = None,
      row_submitted_url = Some (sub_URL (cj_Request cmd)), row_canonical_url = None,
      row_title_hint = nullableString (sub_Title (cj_Request cmd)), row_display_title = None,
      row_profile = sub_Profile (cj_Request cmd), row_status = StatusQueued, row_stage = None,
      row_attempt_count = 0, row_version = 1, row_next_attempt = pg_stamp env since,
      row_category = None, row_message = None, row_correlation = pg_token env 0,
      row_token = None, row_expires = None, row_created = pg_stamp env since,
      row_updated = pg_stamp env since, row_started = None, row_completed = None,
      row_destination = None, row_pending = False, row_retries = 0, row_paused = False\<rparr>"

text \<open>\<open>INSERT ... ON CONFLICT DO NOTHING\<close> and the number of inserted rows. A violation of a
  constraint other than the key still fails.\<close>

definition insert_idem :: "idem_row \<Rightarrow> pg_db \<Rightarrow> db_error + bool \<times> pg_db" where
  "insert_idem i db =
     (if \<not> idem_ok i then Inl check_violation
      else if idem_lookup db (ir_scope i) (ir_key i) \<noteq> None then Inr (False, db)
      else Inr (True, db\<lparr>db_idem := db_idem db @ [i]\<rparr>))"

text \<open>The answer of a transaction body: the outcome, the name of its commit, the tables.\<close>

type_synonym create_answer = "(create_outcome \<times> error) + (create_outcome \<times> string \<times> pg_db)"

definition plain :: "error + 'a \<Rightarrow> (create_outcome \<times> error) + 'a" where
  "plain r = (case r of Inl e \<Rightarrow> Inl (zero_outcome, e) | Inr x \<Rightarrow> Inr x)"

definition conflict :: "(create_outcome \<times> error) + 'a" where
  "conflict = Inl (zero_outcome\<lparr>out_Conflict := True\<rparr>, ErrIdempotencyConflict)"

definition replay ::
  "pg_env \<Rightarrow> create_job \<Rightarrow> idem_row \<Rightarrow> string \<Rightarrow> pg_db \<Rightarrow> create_answer" where
  "replay env cmd i commit_name db =
     (if ir_hash i \<noteq> cj_RequestDigest cmd then conflict
      else and_then (plain (loadJob env db (ir_job i)))
             (\<lambda>j. Inr (\<lparr>out_Job = j, out_Replayed = True, out_Conflict = False\<rparr>,
                       commit_name, db)))"

text \<open>The part after the look at the existing record. \<open>since\<close> is the creation instant, \<open>clk\<close> the
  present.\<close>

definition insert_created ::
  "pg_env \<Rightarrow> pg_store \<Rightarrow> create_job \<Rightarrow> time \<Rightarrow> time \<Rightarrow> pg_db \<Rightarrow> create_answer" where
  "insert_created env ps cmd since clk db =
     (let fresh = (\<lambda>db'. and_then (plain (loadJob env db' (cj_ID cmd)))
            (\<lambda>j. Inr (\<lparr>out_Job = j, out_Replayed = False, out_Conflict = False\<rparr>,
                      ''commit create'', db')))
      in and_then (plain (exec env ''create job'' 0 (insert_job_row (created_row env cmd since) db)))
        (\<lambda>db1.
           if cj_IdempotencyKey cmd = '''' then fresh db1
           else and_then (plain (exec env ''create idempotency record'' 0
               (insert_idem \<lparr>ir_scope = ps_scope ps, ir_key = cj_IdempotencyKey cmd,
                  ir_hash = cj_RequestDigest cmd, ir_job = cj_ID cmd,
                  ir_created = pg_stamp env since,
                  ir_expires = pg_stamp env (since + 24 * Hour)\<rparr> db1)))
             (\<lambda>(inserted, db2).
                and_then (plain (exec env ''inspect idempotency record'' 0 (Inr ())))
                 (\<lambda>_.
                   if inserted then fresh db2
                   else and_then (plain (exec env ''discard duplicate job'' 0
                            (Inr (delete_job_row (cj_ID cmd) db2))))
                     (\<lambda>db3. and_then (plain (query_row env ''read concurrent idempotency record''
                            ErrNotFound
                            (idem_lookup db3 (ps_scope ps) (cj_IdempotencyKey cmd))))
                        (\<lambda>i. if \<not> clk < ir_expires i
                             then plain (Inl (databaseFailure ''create idempotency record''))
                             else replay env cmd i ''commit concurrent replay'' db3)))))) "

text \<open>The tables the rest of the transaction starts from, and those a rollback leaves: where
  there was no record under the key, other transactions may commit before the insertion.\<close>

definition create_body ::
  "pg_env \<Rightarrow> pg_store \<Rightarrow> create_job \<Rightarrow> time \<Rightarrow> time \<Rightarrow> pg_db \<Rightarrow> create_answer \<times> pg_db" where
  "create_body env ps cmd since clk db =
     (if cj_IdempotencyKey cmd = '''' then (insert_created env ps cmd since clk db, db)
      else case pg_fail env ''read idempotency record'' 0 of
             Some e \<Rightarrow>
               if is_no_rows e
               then (insert_created env ps cmd since clk (pg_between env db), pg_between env db)
               else (Inl (zero_outcome, mapDBError ''read idempotency record'' e), db)
           | None \<Rightarrow>
               (case idem_lookup db (ps_scope ps) (cj_IdempotencyKey cmd) of
                  None \<Rightarrow>
                    (insert_created env ps cmd since clk (pg_between env db), pg_between env db)
                | Some i \<Rightarrow>
                    if clk < ir_expires i
                    then (replay env cmd i ''commit idempotent replay'' db, db)
                    else (and_then (plain (exec env ''expire idempotency record'' 0
                            (Inr (idem_delete (ps_scope ps) (cj_IdempotencyKey cmd) db))))
                            (insert_created env ps cmd since clk), db)))"

definition pg_CreateOrReuse ::
  "pg_env \<Rightarrow> pg_store \<Rightarrow> ctx \<Rightarrow> create_job \<Rightarrow> pg_db \<Rightarrow> create_outcome \<times> error option \<times> pg_db" where
  "pg_CreateOrReuse env ps c cmd db =
     (case contextErr c of
        Some e \<Rightarrow> (zero_outcome, Some e, db)
      | None \<Rightarrow>
          if TrimSpace (cj_ID cmd) = '''' then (zero_outcome, Some (databaseFailure ''create''), db)
          else
            (let since = (if time_IsZero (cj_CreatedAt cmd) then pg_clock env 0 else cj_CreatedAt cmd)
             in case pg_fail env ''begin create'' 0 of
                  Some e \<Rightarrow> (zero_outcome, Some (mapDBError ''begin create'' e), db)
                | None \<Rightarrow>
                    (case create_body env ps cmd since (pg_clock env 1) db of
                       (Inl (out, e), base) \<Rightarrow> (out, Some e, base)
                     | (Inr (out, commit_name, db'), base) \<Rightarrow>
                         (case pg_commit env of
                            Committed \<Rightarrow> (out, None, db')
                          | CommitLost e \<Rightarrow> (zero_outcome, Some (mapDBError commit_name e), base)
                          | CommitUnknown e \<Rightarrow> (zero_outcome, Some (mapDBError commit_name e), db')))))"

subsection \<open>Reading and listing\<close>

definition pg_Get :: "pg_env \<Rightarrow> ctx \<Rightarrow> job_id \<Rightarrow> pg_db \<Rightarrow> error + job" where
  "pg_Get env c i db =
     (case contextErr c of Some e \<Rightarrow> Inl e | None \<Rightarrow> loadJob env db i)"

text \<open>\<open>ORDER BY j.created_at DESC, j.id DESC\<close>; the server compares the ids.\<close>

definition row_newer :: "pg_env \<Rightarrow> job_row \<Rightarrow> job_row \<Rightarrow> bool" where
  "row_newer env a b \<longleftrightarrow>
     row_created b < row_created a
     \<or> (row_created a = row_created b \<and> pg_text_less env (row_id b) (row_id a))"

definition row_selected :: "pg_env \<Rightarrow> store_list_request \<Rightarrow> job_row \<Rightarrow> bool" where
  "row_selected env request r \<longleftrightarrow>
     (case slr_Status request of None \<Rightarrow> True | Some st \<Rightarrow> row_status r = st)
     \<and> (case slr_After request of
          None \<Rightarrow> True
        | Some p \<Rightarrow> row_created r < pg_stamp env (cur_CreatedAt p)
            \<or> (row_created r = pg_stamp env (cur_CreatedAt p)
               \<and> pg_text_less env (row_id r) (cur_ID p)))"

fun scan_rows :: "(job_row \<Rightarrow> error + job) \<Rightarrow> job_row list \<Rightarrow> error + job list" where
  "scan_rows f [] = Inr []"
| "scan_rows f (r # rs) = and_then (f r) (\<lambda>j. and_then (scan_rows f rs) (\<lambda>js. Inr (j # js)))"

definition pg_List ::
  "pg_env \<Rightarrow> ctx \<Rightarrow> store_list_request \<Rightarrow> pg_db \<Rightarrow> error + store_page" where
  "pg_List env c request db =
     (case contextErr c of
        Some e \<Rightarrow> Inl e
      | None \<Rightarrow>
          (let limit = (if slr_Limit request \<le> 0 then 25 else slr_Limit request);
               n = wrap64 (limit + 1);
               rows = sort_slice (row_newer env) (filter (row_selected env request) (db_jobs db))
           in and_then (exec env ''list jobs'' 0
                  (if n < 0 then Inl (PgError ''2201W'' '''') else Inr (take (nat n) rows)))
                (\<lambda>page. case scan_rows (scanListJob env db) page of
                    Inl e \<Rightarrow> Inl (mapDBError ''scan jobs'' (DriverError e))
                  | Inr jobs \<Rightarrow>
                      and_then (exec env ''iterate jobs'' 0 (Inr ()))
                        (\<lambda>_. let hasMore = limit < int (length jobs)
                             in Inr \<lparr>page_Jobs = (if hasMore then take (nat limit) jobs else jobs),
                                     page_HasMore = hasMore\<rparr>))))"

subsection \<open>Retry and deletion\<close>

text \<open>An explicit retry of a failed delivery sends the stored PDF again and keeps the job; any
  other terminal job is submitted as a new one.\<close>

definition redeliver_row :: "time \<Rightarrow> job_row \<Rightarrow> job_row" where
  "redeliver_row now r = r\<lparr>row_status := StatusReady, row_pending := True, row_retries := 0,
     row_category := None, row_message := None, row_next_attempt := now, row_updated := now,
     row_version := row_version r + 1\<rparr>"

definition retry_row :: "pg_env \<Rightarrow> job_row \<Rightarrow> job_id \<Rightarrow> time \<Rightarrow> job_row" where
  "retry_row env source newID now =
     \<lparr>row_id = newID, row_retry_of = Some (row_id source),
      row_submitted_url = Some (text_of (row_submitted_url source)), row_canonical_url = None,
      row_title_hint = nullableString (text_of (row_title_hint source)), row_display_title = None,
      row_profile = row_profile source, row_status = StatusQueued, row_stage = None,
      row_attempt_count = 0, row_version = 1, row_next_attempt = now,
      row_category = None, row_message = None, row_correlation = pg_token env 0,
      row_token = None, row_expires = None, row_created = now, row_updated = now,
      row_started = None, row_completed = None, row_destination = None, row_pending = False,
      row_retries = 0, row_paused = False\<rparr>"

definition retry_email :: "pg_env \<Rightarrow> job_id \<Rightarrow> time \<Rightarrow> pg_db \<Rightarrow> error + job \<times> pg_db" where
  "retry_email env sourceID now db =
     and_then (exec env ''retry email'' 0
         (update_jobs (\<lambda>r. row_id r = sourceID \<and> row_destination r \<noteq> None)
            (redeliver_row (pg_stamp env now)) db))
       (\<lambda>(affected, db'). and_then (loadJob env db' sourceID) (\<lambda>j. Inr (j, db')))"

definition create_retry :: "pg_env \<Rightarrow> job_row \<Rightarrow> job_id \<Rightarrow> time \<Rightarrow> pg_db \<Rightarrow> error + job \<times> pg_db" where
  "create_retry env source newID now db =
     and_then (exec env ''create retry'' 0
         (insert_job_row (retry_row env source newID (pg_stamp env now)) db))
       (\<lambda>db'. and_then (loadJob env db' newID) (\<lambda>j. Inr (j, db')))"

text \<open>The two branches commit under different names.\<close>

definition pg_CreateRetry ::
  "pg_env \<Rightarrow> ctx \<Rightarrow> job_id \<Rightarrow> job_id \<Rightarrow> time \<Rightarrow> pg_db \<Rightarrow> (job, pg_db) outcome" where
  "pg_CreateRetry env c sourceID newID t db =
     (case contextErr c of
        Some e \<Rightarrow> (Inl e, db)
      | None \<Rightarrow>
          (let now = (if time_IsZero t then pg_clock env 0 else t);
               found = job_at db sourceID;
               email = (case found of None \<Rightarrow> False | Some r \<Rightarrow> row_status r = StatusDeliveryFailed)
           in run_tx env ''begin retry'' (if email then ''commit email retry'' else ''commit retry'')
                (\<lambda>db. and_then (query_row env ''read retry source'' ErrNotFound found)
                   (\<lambda>r. if \<not> status_Terminal (row_status r) then Inl ErrNotTerminal
                        else if row_status r = StatusDeliveryFailed
                        then retry_email env sourceID now db
                        else create_retry env r newID now db)) db))"

definition cancelled_row :: "time \<Rightarrow> job_row \<Rightarrow> job_row" where
  "cancelled_row now r = r\<lparr>row_status := StatusCancelled, row_stage := None, row_token := None,
     row_expires := None, row_completed := Some now, row_updated := now\<rparr>"

definition artifact_newer :: "pg_env \<Rightarrow> artifact_row \<Rightarrow> artifact_row \<Rightarrow> bool" where
  "artifact_newer env a b \<longleftrightarrow>
     fr_created b < fr_created a
     \<or> (fr_created a = fr_created b \<and> pg_text_less env (fr_id b) (fr_id a))"

text \<open>One deletion task per artifact that has no unfinished one; \<open>n\<close> is the position.\<close>

fun queue_deletions ::
  "pg_env \<Rightarrow> job_id \<Rightarrow> time \<Rightarrow> nat \<Rightarrow> artifact_row list \<Rightarrow> pg_db \<Rightarrow> error + pg_db" where
  "queue_deletions env i now n [] db = Inr db"
| "queue_deletions env i now n (a # as) db =
     and_then (exec env ''check deletion task'' n
         (Inr (\<exists>x \<in> set (db_deletions db). lr_artifact x = Some (fr_id a)
                 \<and> lr_status x \<noteq> ''completed'')))
       (\<lambda>exists. if exists then queue_deletions env i now (Suc n) as db
         else and_then (exec env ''create deletion task'' n
                (insert_deletion \<lparr>lr_id = pg_token env n, lr_job = Some i,
                   lr_artifact = Some (fr_id a), lr_path = fr_path a, lr_status = ''queued'',
                   lr_next_attempt = now, lr_created = now, lr_updated = now\<rparr> db))
              (queue_deletions env i now (Suc n) as))"

definition pg_RequestDelete ::
  "pg_env \<Rightarrow> ctx \<Rightarrow> job_id \<Rightarrow> time \<Rightarrow> pg_db \<Rightarrow> error option \<times> pg_db" where
  "pg_RequestDelete env c i t db =
     (case contextErr c of
        Some e \<Rightarrow> (Some e, db)
      | None \<Rightarrow>
          (let now = pg_stamp env (if time_IsZero t then pg_clock env 0 else t)
           in case run_tx env ''begin deletion'' ''commit deletion''
                (\<lambda>db. and_then (query_row env ''read deletion target'' ErrNotFound (job_at db i))
                  (\<lambda>_. and_then (exec env ''read deletion artifacts'' 0
                        (Inr (sort_slice (artifact_newer env)
                                (filter (\<lambda>a. fr_job a = i) (db_artifacts db)))))
                  (\<lambda>targets. and_then (exec env ''iterate deletion artifacts'' 0 (Inr ()))
                  (\<lambda>_. and_then (queue_deletions env i now 0 targets db)
                  (\<lambda>db1. and_then (exec env ''cancel deletion target'' 0
                        (update_jobs (\<lambda>r. row_id r = i) (cancelled_row now) db1))
                  (\<lambda>(affected, db2). and_then (exec env ''delete job'' 0
                        (Inr (delete_job_row i db2)))
                  (\<lambda>db3. Inr ((), db3)))))))) db of
                (Inl e, db') \<Rightarrow> (Some e, db')
              | (Inr _, db') \<Rightarrow> (None, db')))"

end
