(* ===== verification/Postgres_Leases.thy ===== *)
theory Postgres_Leases
  imports Postgres_Store
begin

section \<open>The PostgreSQL job store: claims and leases\<close>

text \<open>
  The second half of \<open>internal/postgres/store.go\<close>: what a worker does under a lease, with
  \<open>expireDeliveries\<close> of \<open>delivery.go\<close>, which every claim runs first. An update that names the
  token, the revision and the expiry in its \<open>WHERE\<close> clause is fenced by the database itself.
\<close>

subsection \<open>Claiming\<close>

definition expired_delivery_row :: "time \<Rightarrow> job_row \<Rightarrow> job_row" where
  "expired_delivery_row now r = r\<lparr>row_status := StatusDeliveryFailed, row_pending := False,
     row_category := Some FailureDeliveryTimeout,
     row_message := Some ''Email delivery could not be confirmed'', row_token := None,
     row_expires := None, row_completed := Some now, row_updated := now,
     row_version := row_version r + 1\<rparr>"

definition lease_ran_out :: "status \<Rightarrow> time \<Rightarrow> job_row \<Rightarrow> bool" where
  "lease_ran_out st now r \<longleftrightarrow>
     row_status r = st \<and> (case row_expires r of None \<Rightarrow> False | Some t \<Rightarrow> t \<le> now)"

definition expireDeliveries :: "pg_env \<Rightarrow> time \<Rightarrow> pg_db \<Rightarrow> error + pg_db" where
  "expireDeliveries env now db =
     and_then (exec env ''expire delivery leases'' 0
         (update_jobs (lease_ran_out StatusDelivering now) (expired_delivery_row now) db))
       (\<lambda>(affected, db'). Inr db')"

definition reclaimed_row :: "time \<Rightarrow> job_row \<Rightarrow> job_row" where
  "reclaimed_row now r = r\<lparr>row_status := StatusQueued, row_stage := None, row_token := None,
     row_expires := None, row_category := None, row_message := None, row_completed := None,
     row_next_attempt := now, row_updated := now, row_version := row_version r + 1\<rparr>"

definition row_claimable :: "pg_env \<Rightarrow> time \<Rightarrow> job_row \<Rightarrow> bool" where
  "row_claimable env now r \<longleftrightarrow>
     row_status r = StatusQueued \<and> row_next_attempt r \<le> now \<and> \<not> pg_locked env (row_id r)"

definition row_older :: "pg_env \<Rightarrow> job_row \<Rightarrow> job_row \<Rightarrow> bool" where
  "row_older env a b \<longleftrightarrow>
     row_created a < row_created b
     \<or> (row_created a = row_created b \<and> pg_text_less env (row_id a) (row_id b))"

definition select_claim :: "pg_env \<Rightarrow> time \<Rightarrow> pg_db \<Rightarrow> job_row option" where
  "select_claim env now db =
     (case sort_slice (row_older env) (filter (row_claimable env now) (db_jobs db)) of
        [] \<Rightarrow> None | r # rs \<Rightarrow> Some r)"

definition claimed_row :: "time \<Rightarrow> string \<Rightarrow> time \<Rightarrow> job_row \<Rightarrow> job_row" where
  "claimed_row now token expires r = r\<lparr>row_status := StatusProcessing,
     row_stage := Some StageFetching, row_attempt_count := row_attempt_count r + 1,
     row_token := Some token, row_expires := Some expires,
     row_started := Some (case row_started r of None \<Rightarrow> now | Some t \<Rightarrow> t),
     row_updated := now, row_version := row_version r + 1\<rparr>"

definition leased_job :: "string \<Rightarrow> time \<Rightarrow> job \<Rightarrow> job" where
  "leased_job token expires j = j\<lparr>job_Status := StatusProcessing, job_Stage := StageFetching,
     job_AttemptCount := job_AttemptCount j + 1, job_LeaseToken := token,
     job_LeaseUntil := expires, job_Version := job_Version j + 1\<rparr>"

definition claim_selected ::
  "pg_env \<Rightarrow> time \<Rightarrow> time \<Rightarrow> job_row \<Rightarrow> pg_db \<Rightarrow> error + lease option \<times> pg_db" where
  "claim_selected env now expires r db =
     (case scanClaimJob r of
        Inl e \<Rightarrow> Inl (mapDBError ''select claim'' (DriverError e))
      | Inr j \<Rightarrow>
          and_then (exec env ''claim job'' 0
              (update_jobs (\<lambda>x. row_id x = row_id r \<and> row_status x = StatusQueued
                              \<and> row_version x = row_version r)
                 (claimed_row (pg_stamp env now) (pg_token env 0) (pg_stamp env expires)) db))
            (\<lambda>(affected, db'). and_then (exec env ''inspect claimed job'' 0 (Inr ()))
               (\<lambda>_. if affected \<noteq> 1 then Inl ErrLeaseLost
                    else Inr (Some (NewLease (leased_job (pg_token env 0) expires j)
                                     (pg_token env 0) expires), db'))))"

text \<open>The transaction without its commit, whose name depends on whether a job was found.\<close>

definition claim_body ::
  "pg_env \<Rightarrow> time \<Rightarrow> duration \<Rightarrow> pg_db \<Rightarrow> error + lease option \<times> pg_db" where
  "claim_body env now d db =
     and_then (expireDeliveries env (pg_stamp env now) db)
       (\<lambda>db1. and_then (exec env ''reclaim processing leases'' 0
            (update_jobs (lease_ran_out StatusProcessing (pg_stamp env now))
               (reclaimed_row (pg_stamp env now)) db1))
          (\<lambda>(affected, db2).
             case pg_fail env ''select claim'' 0 of
               Some e \<Rightarrow> if is_no_rows e then Inr (None, db2)
                         else Inl (mapDBError ''select claim'' e)
             | None \<Rightarrow>
                 (case select_claim env (pg_stamp env now) db2 of
                    None \<Rightarrow> Inr (None, db2)
                  | Some r \<Rightarrow> claim_selected env now (now + d) r db2)))"

definition found_none :: "error + lease option \<times> pg_db \<Rightarrow> bool" where
  "found_none r = (case r of Inr (None, db) \<Rightarrow> True | _ \<Rightarrow> False)"

definition pg_ClaimNext ::
  "pg_env \<Rightarrow> ctx \<Rightarrow> time \<Rightarrow> duration \<Rightarrow> pg_db \<Rightarrow> (lease option, pg_db) outcome" where
  "pg_ClaimNext env c t leaseDuration db =
     (case contextErr c of
        Some e \<Rightarrow> (Inl e, db)
      | None \<Rightarrow>
          (let now = (if time_IsZero t then pg_clock env 0 else t);
               d = (if leaseDuration \<le> 0 then 5 * Minute else leaseDuration)
           in run_tx env ''begin claim''
                (if found_none (claim_body env now d db) then ''commit empty claim''
                 else ''commit claim'')
                (claim_body env now d) db))"

subsection \<open>Under the lease\<close>

text \<open>\<open>id = .. AND lease_token = .. AND version = .. AND lease_expires_at > ..\<close> with the lease
  a worker presents.\<close>

definition holds_lease :: "lease \<Rightarrow> time \<Rightarrow> job_row \<Rightarrow> bool" where
  "holds_lease l now r \<longleftrightarrow>
     row_id r = job_ID (lease_Job l) \<and> row_token r = Some (lease_Token l)
     \<and> row_version r = uint (CurrentVersion (Some l))
     \<and> (case row_expires r of None \<Rightarrow> False | Some t \<Rightarrow> now < t)"

definition renewed_row :: "time \<Rightarrow> duration \<Rightarrow> job_row \<Rightarrow> job_row" where
  "renewed_row now d r = r\<lparr>row_expires := map_option (\<lambda>t. max t now + d) (row_expires r),
     row_updated := now, row_version := row_version r + 1\<rparr>"

text \<open>Durations reach the server in microseconds, at least one.\<close>

definition lease_micros :: "duration \<Rightarrow> duration" where
  "lease_micros d = (let m = d div 1000 in (if m \<le> 0 then 1 else m) * 1000)"

text \<open>A single statement is a transaction of its own (\<open>sql.DB\<close>), which may have been applied
  although the statement reports an error.\<close>

definition autocommit_lost :: "pg_env \<Rightarrow> pg_db \<Rightarrow> db_error + nat \<times> pg_db \<Rightarrow> pg_db" where
  "autocommit_lost env db applied =
     (case (pg_commit env, applied) of
        (CommitUnknown _, Inr (_, db')) \<Rightarrow> db'
      | _ \<Rightarrow> db)"

definition pg_RenewLease ::
  "pg_env \<Rightarrow> ctx \<Rightarrow> time \<Rightarrow> lease option \<Rightarrow> duration \<Rightarrow> pg_db \<Rightarrow> pg_db lease_result" where
  "pg_RenewLease env c clk lo leaseDuration db =
     (case contextErr c of
        Some e \<Rightarrow> (Some e, lo, db)
      | None \<Rightarrow>
          (case lo of
             None \<Rightarrow> (Some ErrLeaseLost, lo, db)
           | Some l \<Rightarrow>
               (let d = lease_micros (if leaseDuration \<le> 0 then 5 * Minute else leaseDuration);
                    now = pg_stamp env clk;
                    P = (\<lambda>r. holds_lease l now r \<and> is_active (row_status r))
                in case pg_fail env ''renew lease'' 0 of
                     Some e \<Rightarrow> (Some (if is_no_rows e then ErrLeaseLost
                                     else mapDBError ''renew lease'' e), lo,
                                autocommit_lost env db (update_jobs P (renewed_row now d) db))
                   | None \<Rightarrow>
                       (case update_jobs P (renewed_row now d) db of
                          Inl e \<Rightarrow> (Some (mapDBError ''renew lease'' e), lo, db)
                        | Inr (affected, db') \<Rightarrow>
                            (case find P (db_jobs db) of
                               None \<Rightarrow> (Some ErrLeaseLost, lo, db')
                             | Some r \<Rightarrow>
                                 (let r' = renewed_row now d r
                                  in if row_version r' \<le> 0 then (Some ErrLeaseLost, lo, db')
                                     else (None, Observe (word_of_int (row_version r'))
                                             (instant_of (row_expires r'))
                                             (job_Stage (lease_Job l)) lo, db')))))))"

text \<open>The guard that \<open>SetStage\<close> and \<open>Complete\<close> evaluate on the row they have locked.\<close>

definition lease_stale :: "lease \<Rightarrow> time \<Rightarrow> job_row \<Rightarrow> string \<Rightarrow> time \<Rightarrow> bool" where
  "lease_stale l clk r token expiry \<longleftrightarrow>
     row_version r \<le> 0 \<or> row_status r \<noteq> StatusProcessing \<or> token \<noteq> lease_Token l
     \<or> (word_of_int (row_version r) :: uint64) \<noteq> CurrentVersion (Some l) \<or> \<not> clk < expiry"

definition staged_row :: "stage \<Rightarrow> time \<Rightarrow> job_row \<Rightarrow> job_row" where
  "staged_row st now r =
     r\<lparr>row_stage := Some st, row_updated := now, row_version := row_version r + 1\<rparr>"

text \<open>The body of \<open>SetStage\<close> answers with the revision and the expiry it has read.\<close>

definition stage_body ::
  "pg_env \<Rightarrow> time \<Rightarrow> lease \<Rightarrow> stage \<Rightarrow> pg_db \<Rightarrow> error + (int \<times> time) \<times> pg_db" where
  "stage_body env clk l stage db =
     and_then (query_row env ''read stage'' ErrLeaseLost (job_at db (job_ID (lease_Job l))))
       (\<lambda>r. and_then (scan ''read stage'' (row_token r))
       (\<lambda>token. and_then (scan ''read stage'' (row_expires r))
       (\<lambda>expiry.
          if lease_stale l clk r token expiry then Inl ErrLeaseLost
          else if \<not> CanTransitionTo (stage_of (row_stage r)) stage then Inl ErrInvalidStage
          else and_then (exec env ''set stage'' 0
                 (update_jobs (\<lambda>x. row_status x = StatusProcessing \<and> row_id x = job_ID (lease_Job l)
                      \<and> row_token x = Some (lease_Token l) \<and> row_version x = row_version r
                      \<and> (case row_expires x of None \<Rightarrow> False | Some t \<Rightarrow> pg_stamp env clk < t))
                    (staged_row stage (pg_stamp env clk)) db))
               (\<lambda>(affected, db'). and_then (exec env ''inspect stage'' 0 (Inr ()))
                  (\<lambda>_. if affected \<noteq> 1 then Inl ErrLeaseLost
                       else Inr ((row_version r, expiry), db'))))))"

definition pg_SetStage ::
  "pg_env \<Rightarrow> ctx \<Rightarrow> time \<Rightarrow> lease option \<Rightarrow> stage \<Rightarrow> pg_db \<Rightarrow> pg_db lease_result" where
  "pg_SetStage env c clk lo stage db =
     (case contextErr c of
        Some e \<Rightarrow> (Some e, lo, db)
      | None \<Rightarrow>
          if \<not> stage_Valid stage then (Some ErrInvalidStage, lo, db)
          else (case lo of
                  None \<Rightarrow> (Some ErrLeaseLost, lo, db)
                | Some l \<Rightarrow>
                    (case run_tx env ''begin stage'' ''commit stage'' (stage_body env clk l stage) db of
                       (Inl e, db') \<Rightarrow> (Some e, lo, db')
                     | (Inr (version, expiry), db') \<Rightarrow>
                         (None, Observe (word_of_int version + 1) expiry stage lo, db'))))"

definition completed_content ::
  "pg_env \<Rightarrow> job_id \<Rightarrow> completion \<Rightarrow> time \<Rightarrow> rat \<Rightarrow> rat \<Rightarrow> content_row" where
  "completed_content env i cm now confidence completeness =
     \<lparr>cr_id = doc_ID (cmp_Content cm), cr_job = i, cr_title = doc_Title (cmp_Content cm),
      cr_author = nullableString (doc_Author (cmp_Content cm)),
      cr_site = nullableString (doc_SiteName (cmp_Content cm)),
      cr_published = map_option (pg_stamp env)
        (nullablePublicationDate env (doc_PublicationDate (cmp_Content cm))),
      cr_description = nullableString (doc_Description (cmp_Content cm)),
      cr_source_url = doc_SourceURL (cmp_Content cm), cr_html = doc_SemanticHTML (cmp_Content cm),
      cr_text = doc_PlainText (cmp_Content cm), cr_method = doc_ExtractionMethod (cmp_Content cm),
      cr_confidence = confidence, cr_completeness = Some completeness,
      cr_language = nullableString (doc_Language (cmp_Content cm)),
      cr_created = now, cr_updated = now\<rparr>"

text \<open>A confidence the column cannot hold (\<open>numeric(4,3)\<close>) is an error of the server.\<close>

definition insert_completed_content ::
  "pg_env \<Rightarrow> job_id \<Rightarrow> completion \<Rightarrow> time \<Rightarrow> pg_db \<Rightarrow> db_error + pg_db" where
  "insert_completed_content env i cm now db =
     (case (pg_numeric env (doc_AIConfidence (cmp_Content cm)),
            pg_numeric env (doc_AICompleteness (cmp_Content cm))) of
        (Some q, Some p) \<Rightarrow> insert_content (completed_content env i cm now q p) db
      | _ \<Rightarrow> Inl (PgError ''22003'' ''''))"

definition completed_artifact ::
  "pg_env \<Rightarrow> job_id \<Rightarrow> string \<Rightarrow> completion \<Rightarrow> time \<Rightarrow> artifact_row" where
  "completed_artifact env i profile cm now =
     \<lparr>fr_id = pg_token env 0, fr_job = i, fr_content = Some (doc_ID (cmp_Content cm)),
      fr_profile = profile, fr_path = art_Key (cmp_Artifact cm),
      fr_filename = art_Filename (cmp_Artifact cm),
      fr_media = (if TrimSpace (art_MediaType (cmp_Artifact cm)) = '''' then ''application/pdf''
                  else art_MediaType (cmp_Artifact cm)),
      fr_size = art_ByteSize (cmp_Artifact cm), fr_checksum = art_Checksum (cmp_Artifact cm),
      fr_availability = ''available'', fr_created = now\<rparr>"

definition coalesce :: "'a option \<Rightarrow> 'a option \<Rightarrow> 'a option" where
  "coalesce a b = (case a of None \<Rightarrow> b | Some x \<Rightarrow> Some x)"

definition finished_row :: "string \<Rightarrow> completion \<Rightarrow> time \<Rightarrow> job_row \<Rightarrow> job_row" where
  "finished_row destination cm now r =
     (let d = coalesce (row_destination r) (nullif_empty destination)
      in r\<lparr>row_display_title := Some (doc_Title (cmp_Content cm)),
           row_canonical_url := nullif_empty (cmp_CanonicalURL cm), row_status := StatusReady,
           row_stage := None, row_destination := d, row_pending := d \<noteq> None, row_token := None,
           row_expires := None, row_completed := Some now, row_updated := now,
           row_version := row_version r + 1\<rparr>)"

definition complete_body ::
  "pg_env \<Rightarrow> pg_store \<Rightarrow> time \<Rightarrow> lease \<Rightarrow> completion \<Rightarrow> time \<Rightarrow> pg_db \<Rightarrow> error + int \<times> pg_db" where
  "complete_body env ps clk l cm now db =
     and_then (query_row env ''read completion job'' ErrLeaseLost (job_at db (job_ID (lease_Job l))))
       (\<lambda>r. and_then (scan ''read completion job'' (row_stage r))
       (\<lambda>current. and_then (scan ''read completion job'' (row_token r))
       (\<lambda>token. and_then (scan ''read completion job'' (row_expires r))
       (\<lambda>expiry.
          if lease_stale l clk r token expiry then Inl ErrLeaseLost
          else if current \<noteq> StagePersisting then Inl ErrInvalidStage
          else and_then (exec env ''persist content'' 0
                 (insert_completed_content env (job_ID (lease_Job l)) cm (pg_stamp env now) db))
               (\<lambda>db1. and_then (exec env ''persist artifact'' 0
                    (insert_artifact (completed_artifact env (job_ID (lease_Job l)) (row_profile r)
                       cm (pg_stamp env now)) db1))
               (\<lambda>db2. and_then (exec env ''complete job'' 0
                    (update_jobs (\<lambda>x. row_status x = StatusProcessing
                        \<and> row_id x = job_ID (lease_Job l)
                        \<and> row_token x = Some (lease_Token l) \<and> row_version x = row_version r
                        \<and> (case row_expires x of None \<Rightarrow> False | Some t \<Rightarrow> pg_stamp env clk < t))
                      (finished_row (ps_destination ps) cm (pg_stamp env now)) db2))
               (\<lambda>(affected, db3). and_then (exec env ''inspect completed job'' 0 (Inr ()))
                  (\<lambda>_. if affected \<noteq> 1 then Inl ErrLeaseLost
                       else Inr (row_version r, db3)))))))))"

definition pg_Complete ::
  "pg_env \<Rightarrow> pg_store \<Rightarrow> ctx \<Rightarrow> time \<Rightarrow> lease option \<Rightarrow> completion \<Rightarrow> time \<Rightarrow> pg_db
     \<Rightarrow> pg_db lease_result" where
  "pg_Complete env ps c clk lo cm t db =
     (case contextErr c of
        Some e \<Rightarrow> (Some e, lo, db)
      | None \<Rightarrow>
          if doc_ID (cmp_Content cm) = '''' \<or> \<not> art_Available (cmp_Artifact cm)
             \<or> art_ByteSize (cmp_Artifact cm) \<le> 0
          then (Some (databaseFailure ''complete''), lo, db)
          else (case lo of
                  None \<Rightarrow> (Some ErrLeaseLost, lo, db)
                | Some l \<Rightarrow>
                    (let now = (if time_IsZero t then pg_clock env 0 else t)
                     in case run_tx env ''begin complete'' ''commit complete''
                               (complete_body env ps clk l cm now) db of
                          (Inl e, db') \<Rightarrow> (Some e, lo, db')
                        | (Inr version, db') \<Rightarrow>
                            (None, Observe (word_of_int version + 1) zero_time StageNone lo, db'))))"

subsection \<open>Giving the lease back\<close>

definition requeued_row :: "time \<Rightarrow> job_row \<Rightarrow> job_row" where
  "requeued_row nxt r = r\<lparr>row_status := StatusQueued, row_stage := None, row_token := None,
     row_expires := None, row_category := None, row_message := None, row_next_attempt := nxt,
     row_updated := nxt, row_version := row_version r + 1\<rparr>"

definition failed_row :: "failure_category \<Rightarrow> time \<Rightarrow> job_row \<Rightarrow> job_row" where
  "failed_row c now r = r\<lparr>row_status := StatusFailed, row_stage := None,
     row_category := Some (Normalized c), row_message := Some (Message (Normalized c)),
     row_token := None, row_expires := None, row_completed := Some now, row_next_attempt := now,
     row_updated := now, row_version := row_version r + 1\<rparr>"

text \<open>Both are one fenced update.\<close>

definition settle ::
  "pg_env \<Rightarrow> string \<Rightarrow> string \<Rightarrow> time \<Rightarrow> lease option \<Rightarrow> (job_row \<Rightarrow> job_row) \<Rightarrow> pg_db
     \<Rightarrow> pg_db lease_result" where
  "settle env operation inspect clk lo f db =
     (case lo of
        None \<Rightarrow> (Some ErrLeaseLost, lo, db)
      | Some l \<Rightarrow>
          (let applied = update_jobs
                 (\<lambda>r. holds_lease l (pg_stamp env clk) r \<and> is_active (row_status r)) f db
           in case pg_fail env operation 0 of
                Some e \<Rightarrow> (Some (mapDBError operation e), lo, autocommit_lost env db applied)
              | None \<Rightarrow>
                  (case applied of
                     Inl e \<Rightarrow> (Some (mapDBError operation e), lo, db)
                   | Inr (affected, db') \<Rightarrow>
                       (case exec env inspect 0 (Inr ()) of
                          Inl e \<Rightarrow> (Some e, lo, db')
                        | Inr _ \<Rightarrow>
                            if affected \<noteq> 1 then (Some ErrLeaseLost, lo, db')
                            else (None, Observe (CurrentVersion lo + 1) zero_time StageNone lo,
                                  db')))))"

definition pg_Requeue ::
  "pg_env \<Rightarrow> ctx \<Rightarrow> time \<Rightarrow> lease option \<Rightarrow> failure \<Rightarrow> time \<Rightarrow> pg_db \<Rightarrow> pg_db lease_result" where
  "pg_Requeue env c clk lo f t db =
     (case contextErr c of
        Some e \<Rightarrow> (Some e, lo, db)
      | None \<Rightarrow>
          settle env ''requeue job'' ''inspect requeue'' clk lo
            (requeued_row (pg_stamp env (if time_IsZero t then pg_clock env 0 else t))) db)"

definition pg_Fail ::
  "pg_env \<Rightarrow> ctx \<Rightarrow> time \<Rightarrow> lease option \<Rightarrow> failure \<Rightarrow> time \<Rightarrow> pg_db \<Rightarrow> pg_db lease_result" where
  "pg_Fail env c clk lo f t db =
     (case contextErr c of
        Some e \<Rightarrow> (Some e, lo, db)
      | None \<Rightarrow>
          settle env ''fail job'' ''inspect failed job'' clk lo
            (failed_row (fail_Category f)
               (pg_stamp env (if time_IsZero t then pg_clock env 0 else t))) db)"

end
