(* ===== verification/Delivery.thy ===== *)
theory Delivery
  imports Job_Interfaces Go_Encoding Go_Sha256 Network_Policy
begin

section \<open>Email delivery: messages, SMTP, the delivery worker\<close>

text \<open>
  \<open>internal/delivery/smtp.go\<close> and \<open>delivery.go\<close>. The SMTP connection is the list of the
  commands it has carried out, and the answer to each is an argument, as are the body writer's
  capacity, the PDF behind the reader and what \<open>net/mail\<close>, \<open>mime\<close> and the random boundary
  contribute. The queue is a record of the two operations the worker calls.
\<close>

subsection \<open>Claims, results, configuration\<close>

record delivery_claim =
  dc_JobID :: job_id
  dc_Token :: string
  dc_MessageID :: string
  dc_Destination :: string
  dc_Title :: string
  dc_Artifact :: artifact

record delivery_result =
  dr_Outcome :: string
  dr_Code :: string

record smtp_config =
  sc_Enabled :: bool
  sc_Host :: string
  sc_Port :: int
  sc_TLSMode :: string
  sc_Username :: string
  sc_Password :: string
  sc_Sender :: string
  sc_Destination :: string
  sc_Timeout :: duration

definition isASCII :: "string \<Rightarrow> bool" where
  "isASCII s \<longleftrightarrow> list_all (\<lambda>r. r \<le> 127) (string_runes s)"

text \<open>\<open>parse_address\<close> is the address of \<open>mail.ParseAddress\<close>.\<close>

definition crlf :: string where "crlf = [char_of (13::nat), char_of (10::nat)]"

definition validAddress :: "(string \<Rightarrow> string option) \<Rightarrow> string \<Rightarrow> bool" where
  "validAddress parse_address s \<longleftrightarrow>
     parse_address s = Some s \<and> \<not> ContainsAny s crlf \<and> isASCII s"

text \<open>The error names the field; \<open>None\<close> is a valid configuration.\<close>

definition config_Validate :: "(string \<Rightarrow> string option) \<Rightarrow> smtp_config \<Rightarrow> error option" where
  "config_Validate parse_address c =
     (if \<not> sc_Enabled c then None
      else if sc_Host c = '''' \<or> ContainsAny (sc_Host c) (crlf @ '' /@'')
      then Some (NewError ''SMTP_HOST'')
      else if sc_Port c < 1 \<or> 65535 < sc_Port c then Some (NewError ''SMTP_PORT'')
      else if sc_TLSMode c \<noteq> ''starttls'' \<and> sc_TLSMode c \<noteq> ''implicit_tls''
              \<and> sc_TLSMode c \<noteq> ''none''
      then Some (NewError ''SMTP_TLS_MODE'')
      else if sc_TLSMode c = ''none'' \<and> (sc_Username c \<noteq> '''' \<or> sc_Password c \<noteq> '''')
      then Some (NewError ''SMTP_TLS_MODE'')
      else if (sc_Username c = '''') \<noteq> (sc_Password c = '''')
      then Some (NewError ''SMTP_USERNAME/SMTP_PASSWORD'')
      else if \<not> validAddress parse_address (sc_Sender c) then Some (NewError ''SMTP_SENDER'')
      else if \<not> validAddress parse_address (sc_Destination c)
      then Some (NewError ''SMTP_DESTINATION'')
      else if sc_Timeout c \<le> 0 \<or> 5 * Minute < sc_Timeout c then Some (NewError ''SMTP_TIMEOUT'')
      else None)"

definition NewSMTP :: "(string \<Rightarrow> string option) \<Rightarrow> smtp_config \<Rightarrow> error + smtp_config" where
  "NewSMTP parse_address c =
     (if \<not> sc_Enabled c then Inl (NewError ''SMTP_ENABLED'')
      else case config_Validate parse_address c of Some e \<Rightarrow> Inl e | None \<Rightarrow> Inr c)"

definition MessageID :: "string \<Rightarrow> string" where
  "MessageID i = ''<'' @ hex_encode (Sum256 i) @ ''@attic.invalid>''"

subsection \<open>Classification of SMTP answers\<close>

text \<open>\<open>errors.As(err, *textproto.Error)\<close>.\<close>

function errors_As_SMTP :: "error \<Rightarrow> nat option" where
  "errors_As_SMTP e =
     (case e of
        SMTPReply code m \<Rightarrow> Some code
      | _ \<Rightarrow> first_Some (map errors_As_SMTP (Unwrap e)))"
  by pat_completeness auto
termination
  by (relation "measure size") (auto simp: Unwrap_size)

declare errors_As_SMTP.simps [simp del]

definition classify :: "error \<Rightarrow> bool \<Rightarrow> delivery_result" where
  "classify e afterData =
     (let other = \<lparr>dr_Outcome = (if afterData then ''uncertain'' else ''transient_failure''),
                   dr_Code = ''''\<rparr>
      in case errors_As_SMTP e of
           None \<Rightarrow> other
         | Some code \<Rightarrow>
             if 500 \<le> code then \<lparr>dr_Outcome = ''rejected'', dr_Code = Itoa (int code)\<rparr>
             else if 400 \<le> code
             then \<lparr>dr_Outcome = ''transient_failure'', dr_Code = Itoa (int code)\<rparr>
             else other)"

subsection \<open>Writing the message\<close>

text \<open>The writer below: what has been written, and after how many more bytes it fails with
  which error.\<close>

record sink =
  sink_bytes :: string
  sink_limit :: "(nat \<times> error) option"

definition sink_write :: "string \<Rightarrow> sink \<Rightarrow> nat \<times> error option \<times> sink" where
  "sink_write p s =
     (case sink_limit s of
        None \<Rightarrow> (length p, None, s\<lparr>sink_bytes := sink_bytes s @ p\<rparr>)
      | Some (k, e) \<Rightarrow>
          if length p \<le> k
          then (length p, None, s\<lparr>sink_bytes := sink_bytes s @ p,
                                  sink_limit := Some (k - length p, e)\<rparr>)
          else (k, Some e, s\<lparr>sink_bytes := sink_bytes s @ take k p, sink_limit := Some (0, e)\<rparr>))"

lemma sink_write_count: "sink_write p s = (n, None, s') \<Longrightarrow> n = length p"
  by (auto simp: sink_write_def split: option.splits if_splits)

lemma sink_write_ok:
  "sink_write p s = (n, None, s') \<Longrightarrow> sink_bytes s' = sink_bytes s @ p"
  by (auto simp: sink_write_def split: option.splits if_splits)

text \<open>\<open>lineWriter\<close>: the column and the writer below. A short write without an error does not
  happen for this writer; the branch is the code's. The column never exceeds 76, where the Go
  slice expression would panic.\<close>

type_synonym line_writer = "nat \<times> sink"

function (sequential) lineWriter_Write ::
  "string \<Rightarrow> nat \<Rightarrow> line_writer \<Rightarrow> nat \<times> error option \<times> line_writer" where
  "lineWriter_Write [] count w = (count, None, w)"
| "lineWriter_Write p count (column, s) =
     (if 76 < column then (count, Some ErrShortWrite, (column, s))
      else
       (let n = min (length p) (76 - column);
            (written, oe, s1) = sink_write (take n p) s;
            column1 = column + written
        in case oe of
             Some e \<Rightarrow> (count + written, Some e, (column1, s1))
           | None \<Rightarrow>
               if written \<noteq> n then (count + written, Some ErrShortWrite, (column1, s1))
               else if column1 = 76
               then (case sink_write crlf s1 of
                       (_, Some e, s2) \<Rightarrow> (count + written, Some e, (column1, s2))
                     | (_, None, s2) \<Rightarrow>
                         lineWriter_Write (drop written p) (count + written) (0, s2))
               else lineWriter_Write (drop written p) (count + written) (column1, s1)))"
  by pat_completeness auto
termination
  by (relation "measure (\<lambda>(p, count, (column, s)). 2 * length p + (if 76 \<le> column then 1 else 0))")
     (auto dest: sink_write_count split: if_splits)

declare lineWriter_Write.simps [simp del]

text \<open>The encoded PDF reaches the line writer in chunks.\<close>

fun write_chunks :: "string list \<Rightarrow> line_writer \<Rightarrow> error option \<times> line_writer" where
  "write_chunks [] w = (None, w)"
| "write_chunks (p # ps) w =
     (case lineWriter_Write p 0 w of
        (_, Some e, w') \<Rightarrow> (Some e, w')
      | (_, None, w') \<Rightarrow> write_chunks ps w')"

definition cleanHeader :: "string \<Rightarrow> string" where
  "cleanHeader s = Join (Fields s) '' ''"

text \<open>What the standard library contributes: the encoded subject, the disposition header, the
  date, the boundary, and how the base64 encoder cuts its output.\<close>

record mime_env =
  me_QEncode :: "string \<Rightarrow> string"
  me_Disposition :: "string \<Rightarrow> string"
  me_Date :: string
  me_Boundary :: string
  me_chunks :: "string \<Rightarrow> string list"

definition mail_header :: "mime_env \<Rightarrow> string \<Rightarrow> delivery_claim \<Rightarrow> string" where
  "mail_header me from c =
     ''From: '' @ from @ crlf @ ''To: '' @ dc_Destination c @ crlf
     @ ''Subject: '' @ me_QEncode me (cleanHeader (dc_Title c)) @ crlf
     @ ''Date: '' @ me_Date me @ crlf @ ''Message-ID: '' @ dc_MessageID c @ crlf
     @ ''MIME-Version: 1.0'' @ crlf
     @ ''Content-Type: multipart/mixed; boundary='' @ [char_of (34::nat)] @ me_Boundary me
     @ [char_of (34::nat)] @ crlf @ crlf"

text \<open>\<open>multipart.Writer.CreatePart\<close> writes the boundary and the headers in the order of their
  names.\<close>

fun part_headers :: "(string \<times> string) list \<Rightarrow> string" where
  "part_headers [] = crlf"
| "part_headers ((k, v) # hs) = k @ '': '' @ v @ crlf @ part_headers hs"

definition plain_part :: "mime_env \<Rightarrow> string" where
  "plain_part me = ''--'' @ me_Boundary me @ crlf
     @ part_headers [(''Content-Transfer-Encoding'', ''quoted-printable''),
                     (''Content-Type'', ''text/plain; charset=utf-8'')]"

definition body_text :: string where
  "body_text = ''Your article is attached as a PDF.'' @ crlf @ ''Saved with Attic.'' @ crlf"

definition pdf_part :: "mime_env \<Rightarrow> delivery_claim \<Rightarrow> string" where
  "pdf_part me c = crlf @ ''--'' @ me_Boundary me @ crlf
     @ part_headers [(''Content-Disposition'',
                        me_Disposition me (cleanHeader (art_Filename (dc_Artifact c)))),
                     (''Content-Transfer-Encoding'', ''base64''),
                     (''Content-Type'', ''application/pdf'')]"

definition closing_boundary :: "mime_env \<Rightarrow> string" where
  "closing_boundary me = crlf @ ''--'' @ me_Boundary me @ ''--'' @ crlf"

text \<open>The reader of the stored PDF: its bytes and the error that ends it, if any. The copy
  reads at most one byte more than the size on record.\<close>

record pdf_reader =
  pr_bytes :: string
  pr_error :: "error option"

definition write_all :: "string \<Rightarrow> sink \<Rightarrow> error option \<times> sink" where
  "write_all p s = (case sink_write p s of (_, oe, s') \<Rightarrow> (oe, s'))"

definition encoded_pdf :: "string \<Rightarrow> string" where
  "encoded_pdf bs = b64_encode StdEncoding True (map byte bs)"

text \<open>The encoder holds back an incomplete group of three bytes until it is closed.\<close>

definition whole_groups :: "string \<Rightarrow> string" where
  "whole_groups bs = take (3 * (length bs div 3)) bs"

definition write_pdf ::
  "mime_env \<Rightarrow> delivery_claim \<Rightarrow> pdf_reader \<Rightarrow> sink \<Rightarrow> error option \<times> sink" where
  "write_pdf me c pdf s =
     (let limit = art_ByteSize (dc_Artifact c) + 1;
          data = take (nat limit) (pr_bytes pdf)
      in case write_chunks (me_chunks me (encoded_pdf (whole_groups data))) (0, s) of
           (Some e, (_, s1)) \<Rightarrow> (Some e, s1)
         | (None, (column, s1)) \<Rightarrow>
             (case (if int (length (pr_bytes pdf)) < limit then pr_error pdf else None) of
                Some e \<Rightarrow> (Some e, s1)
              | None \<Rightarrow>
                  if int (length data) \<noteq> art_ByteSize (dc_Artifact c)
                  then (Some (NewError ''artifact size mismatch''), s1)
                  else (case write_chunks
                              [encoded_pdf (drop (length (whole_groups data)) data)] (column, s1) of
                          (oe, (_, s2)) \<Rightarrow> (oe, s2))))"

definition writeMessage ::
  "mime_env \<Rightarrow> string \<Rightarrow> delivery_claim \<Rightarrow> pdf_reader \<Rightarrow> sink \<Rightarrow> error option \<times> sink" where
  "writeMessage me from c pdf s =
     (case write_all (mail_header me from c) s of
        (Some e, s1) \<Rightarrow> (Some e, s1)
      | (None, s1) \<Rightarrow>
     (case write_all (plain_part me) s1 of
        (Some e, s2) \<Rightarrow> (Some e, s2)
      | (None, s2) \<Rightarrow>
     (case write_all body_text s2 of
        (Some e, s3) \<Rightarrow> (Some e, s3)
      | (None, s3) \<Rightarrow>
     (case write_all (pdf_part me c) s3 of
        (Some e, s4) \<Rightarrow> (Some e, s4)
      | (None, s4) \<Rightarrow>
     (case write_pdf me c pdf s4 of
        (Some e, s5) \<Rightarrow> (Some e, s5)
      | (None, s5) \<Rightarrow> write_all (closing_boundary me) s5)))))"

subsection \<open>One SMTP session\<close>

text \<open>A command that was attempted, in order, and the answer each attempt gets. A session stops
  at the first error.\<close>

datatype smtp_event =
    Dialled string | TLSHandshake string | Greeting string | StartTLS string
  | Auth string string | MailFrom string | RcptTo string | DataStart | DataBytes string
  | DataDone | Disconnected

record smtp_answers =
  sa_Dial :: "error option"
  sa_Handshake :: "error option"
  sa_NewClient :: "error option"
  sa_StartTLS :: "error option"
  sa_Auth :: "error option"
  sa_Mail :: "error option"
  sa_Rcpt :: "error option"
  sa_Data :: "error option"
  sa_limit :: "(nat \<times> error) option"
  sa_Close :: "error option"

fun run_steps :: "(smtp_event \<times> error option) list \<Rightarrow> error option \<times> smtp_event list" where
  "run_steps [] = (None, [])"
| "run_steps ((ev, Some e) # rest) = (Some e, [ev])"
| "run_steps ((ev, None) # rest) = (case run_steps rest of (oe, evs) \<Rightarrow> (oe, ev # evs))"

text \<open>Every failure of the TLS setup is reported as a permanent one.\<close>

definition tls_failure :: "error option \<Rightarrow> error option" where
  "tls_failure answer = map_option (\<lambda>_. SMTPReply 550 ''TLS verification failed'') answer"

definition connect_steps :: "smtp_answers \<Rightarrow> smtp_config \<Rightarrow> (smtp_event \<times> error option) list" where
  "connect_steps a c =
     [(Dialled (JoinHostPort (sc_Host c) (Itoa (sc_Port c))), sa_Dial a)]
     @ (if sc_TLSMode c = ''implicit_tls''
        then [(TLSHandshake (sc_Host c), tls_failure (sa_Handshake a))] else [])
     @ [(Greeting (sc_Host c), sa_NewClient a)]
     @ (if sc_TLSMode c = ''starttls''
        then [(StartTLS (sc_Host c), tls_failure (sa_StartTLS a))] else [])
     @ (if sc_Username c \<noteq> ''''
        then [(Auth (sc_Username c) (sc_Password c), sa_Auth a)] else [])"

text \<open>A failed \<open>connect\<close> closes what it has opened.\<close>

definition smtp_connect :: "smtp_answers \<Rightarrow> smtp_config \<Rightarrow> error option \<times> smtp_event list" where
  "smtp_connect a c =
     (case run_steps (connect_steps a c) of
        (Some e, evs) \<Rightarrow> (Some e, evs @ (if sa_Dial a = None then [Disconnected] else []))
      | (None, evs) \<Rightarrow> (None, evs))"

definition accepted :: delivery_result where
  "accepted = \<lparr>dr_Outcome = ''accepted'', dr_Code = ''250''\<rparr>"

text \<open>The end of the data phase: the writer is closed only after the whole message.\<close>

definition submit_data ::
  "smtp_answers \<Rightarrow> bool \<Rightarrow> error option \<times> sink \<Rightarrow> delivery_result \<times> smtp_event list" where
  "submit_data a late message =
     (case message of
        (Some e, s) \<Rightarrow> (classify e late, [DataBytes (sink_bytes s), Disconnected])
      | (None, s) \<Rightarrow>
          (case sa_Close a of
             Some e \<Rightarrow> (classify e True, [DataBytes (sink_bytes s), DataDone, Disconnected])
           | None \<Rightarrow> (accepted, [DataBytes (sink_bytes s), DataDone, Disconnected])))"

text \<open>\<open>MAIL\<close>, \<open>RCPT\<close> and \<open>DATA\<close> on an open connection, and then the message.\<close>

definition transaction ::
  "smtp_answers \<Rightarrow> string \<Rightarrow> string \<Rightarrow> bool \<Rightarrow> (sink \<Rightarrow> error option \<times> sink)
     \<Rightarrow> delivery_result \<times> smtp_event list" where
  "transaction a sender destination late message =
     (case run_steps [(MailFrom sender, sa_Mail a), (RcptTo destination, sa_Rcpt a),
                      (DataStart, sa_Data a)] of
        (Some e, evs) \<Rightarrow> (classify e False, evs @ [Disconnected])
      | (None, evs) \<Rightarrow>
          (case submit_data a late (message \<lparr>sink_bytes = '''', sink_limit = sa_limit a\<rparr>) of
             (r, evs') \<Rightarrow> (r, evs @ evs')))"

definition in_session ::
  "smtp_answers \<Rightarrow> smtp_config \<Rightarrow> delivery_result \<times> smtp_event list
     \<Rightarrow> delivery_result \<times> smtp_event list" where
  "in_session a c body =
     (case smtp_connect a c of
        (Some e, evs) \<Rightarrow> (classify e False, evs)
      | (None, evs) \<Rightarrow> (case body of (r, evs') \<Rightarrow> (r, evs @ evs')))"

definition Send ::
  "(string \<Rightarrow> string option) \<Rightarrow> smtp_answers \<Rightarrow> mime_env \<Rightarrow> smtp_config \<Rightarrow> delivery_claim
     \<Rightarrow> pdf_reader \<Rightarrow> delivery_result \<times> smtp_event list" where
  "Send parse_address a me c claim pdf =
     (if \<not> validAddress parse_address (dc_Destination claim)
      then (\<lparr>dr_Outcome = ''rejected'', dr_Code = ''''\<rparr>, [])
      else in_session a c (transaction a (sc_Sender c) (dc_Destination claim) False
             (writeMessage me (sc_Sender c) claim pdf)))"

definition TestConnection :: "smtp_answers \<Rightarrow> smtp_config \<Rightarrow> error option \<times> smtp_event list" where
  "TestConnection a c =
     (case smtp_connect a c of
        (Some e, evs) \<Rightarrow> (Some (NewError (''SMTP connection, TLS verification or authentication failed; '' @
            ''check host, port, certificate and app password'')), evs)
      | (None, evs) \<Rightarrow> (None, evs @ [Disconnected]))"

definition test_message :: "string \<Rightarrow> string \<Rightarrow> string" where
  "test_message sender destination =
     ''From: '' @ sender @ crlf @ ''To: '' @ destination @ crlf
     @ ''Subject: Attic SMTP test'' @ crlf @ ''MIME-Version: 1.0'' @ crlf
     @ ''Content-Type: text/plain; charset=utf-8'' @ crlf @ crlf
     @ ''This is an explicitly requested Attic SMTP test. SMTP acceptance does not confirm ''
     @ ''Kindle receipt. Use Send to Kindle on a saved PDF to test document delivery.'' @ crlf"

definition SendTest :: "smtp_answers \<Rightarrow> smtp_config \<Rightarrow> delivery_result \<times> smtp_event list" where
  "SendTest a c =
     in_session a c (transaction a (sc_Sender c) (sc_Destination c) True
       (write_all (test_message (sc_Sender c) (sc_Destination c))))"

subsection \<open>The delivery worker\<close>

text \<open>\<open>delivery.Queue\<close>, what a round of the worker meets, and \<open>Worker\<close>. Between the claim and
  the report the rest of the system goes on (\<open>others\<close>).\<close>

record 's delivery_queue =
  dq_Claim :: "duration \<Rightarrow> 's \<Rightarrow> (delivery_claim option, 's) outcome"
  dq_Finish :: "delivery_claim \<Rightarrow> delivery_result \<Rightarrow> 's \<Rightarrow> error option \<times> 's"

record 's delivery_round =
  rd_queue :: "'s delivery_queue"
  rd_Open :: "artifact \<Rightarrow> error + pdf_reader"
  rd_Send :: "delivery_claim \<Rightarrow> pdf_reader \<Rightarrow> delivery_result"
  rd_others :: "'s \<Rightarrow> 's"
  rd_stop :: "error option"

definition send_claim :: "'s delivery_round \<Rightarrow> delivery_claim \<Rightarrow> delivery_result" where
  "send_claim rd c =
     (case rd_Open rd (dc_Artifact c) of
        Inl e \<Rightarrow> \<lparr>dr_Outcome = ''transient_failure'', dr_Code = ''''\<rparr>
      | Inr body \<Rightarrow> rd_Send rd c body)"

definition claim_duration :: "duration \<Rightarrow> duration" where
  "claim_duration timeout = wrap64 ((if timeout \<le> 0 then 30 * Second else timeout) + 15 * Second)"

definition delivery_RunOnce ::
  "duration \<Rightarrow> 's delivery_round \<Rightarrow> 's \<Rightarrow> (bool \<times> error option) \<times> 's" where
  "delivery_RunOnce timeout rd s =
     (case dq_Claim (rd_queue rd) (claim_duration timeout) s of
        (Inl e, s') \<Rightarrow> ((False, Some e), s')
      | (Inr None, s') \<Rightarrow> ((False, None), s')
      | (Inr (Some c), s') \<Rightarrow>
          (case dq_Finish (rd_queue rd) c (send_claim rd c) (rd_others rd s') of
             (oe, s'') \<Rightarrow> ((True, oe), s'')))"

text \<open>\<open>Run\<close> over a list of rounds; \<open>rd_stop\<close> is the error of a context that ended the wait.\<close>

fun delivery_Run :: "duration \<Rightarrow> 's delivery_round list \<Rightarrow> 's \<Rightarrow> error option \<times> 's" where
  "delivery_Run timeout [] s = (None, s)"
| "delivery_Run timeout (rd # rds) s =
     (case delivery_RunOnce timeout rd s of
        ((_, Some e), s') \<Rightarrow> (Some e, s')
      | ((_, None), s') \<Rightarrow>
          (case rd_stop rd of Some e \<Rightarrow> (Some e, s') | None \<Rightarrow> delivery_Run timeout rds s'))"

text \<open>What a run hands to the sender, with the results.\<close>

definition round_sends :: "duration \<Rightarrow> 's delivery_round \<Rightarrow> 's \<Rightarrow> (job_id \<times> delivery_result) list" where
  "round_sends timeout rd s =
     (case dq_Claim (rd_queue rd) (claim_duration timeout) s of
        (Inr (Some c), s') \<Rightarrow> [(dc_JobID c, send_claim rd c)]
      | _ \<Rightarrow> [])"

fun run_sends ::
  "duration \<Rightarrow> 's delivery_round list \<Rightarrow> 's \<Rightarrow> (job_id \<times> delivery_result) list" where
  "run_sends timeout [] s = []"
| "run_sends timeout (rd # rds) s =
     round_sends timeout rd s
     @ (case delivery_RunOnce timeout rd s of
          ((_, Some e), s') \<Rightarrow> []
        | ((_, None), s') \<Rightarrow>
            (case rd_stop rd of Some e \<Rightarrow> [] | None \<Rightarrow> run_sends timeout rds s'))"

lemma round_sends_cases:
  assumes "(i, res) \<in> set (round_sends t rd s)"
  shows "\<exists>c s'. dq_Claim (rd_queue rd) (claim_duration t) s = (Inr (Some c), s')
           \<and> i = dc_JobID c \<and> res = send_claim rd c"
  using assms
  by (cases "dq_Claim (rd_queue rd) (claim_duration t) s")
     (auto simp: round_sends_def split: sum.splits option.splits)

text \<open>The contract of the queue, for every behaviour (\<open>queues\<close>) its server may show.
  \<open>sendable\<close> says that a job waits to be sent; a claim takes it out, and only a transient
  failure may put it back.\<close>

locale delivery_contract =
  fixes queues :: "'s delivery_queue set"
    and sendable :: "'s \<Rightarrow> job_id \<Rightarrow> bool"
  assumes claim_takes: "q \<in> queues \<Longrightarrow> dq_Claim q d s = (Inr (Some c), s') \<Longrightarrow>
      sendable s (dc_JobID c) \<and> \<not> sendable s' (dc_JobID c)"
    and claim_adds_none: "q \<in> queues \<Longrightarrow> dq_Claim q d s = (r, s') \<Longrightarrow> sendable s' i \<Longrightarrow>
      sendable s i"
    and finish_adds: "q \<in> queues \<Longrightarrow> dq_Finish q c res s = (oe, s') \<Longrightarrow> sendable s' i \<Longrightarrow>
      sendable s i \<or> (i = dc_JobID c \<and> dr_Outcome res = ''transient_failure'')"
begin

text \<open>A round makes no job sendable that was not, and a job it sends without a transient
  failure is not sendable afterwards. \<open>others\<close> may do anything but queue a delivery.\<close>

lemma round_adds_none:
  assumes q: "rd_queue rd \<in> queues"
    and others: "\<And>s i. sendable (rd_others rd s) i \<Longrightarrow> sendable s i"
    and run: "delivery_RunOnce t rd s = (r, s')" and i: "sendable s' i"
  shows "sendable s i"
proof (cases "dq_Claim (rd_queue rd) (claim_duration t) s")
  case (Pair a s1)
  show ?thesis
  proof (cases a)
    case (Inl e)
    then show ?thesis
      using run Pair i claim_adds_none [OF q Pair] by (auto simp: delivery_RunOnce_def)
  next
    case (Inr oc)
    show ?thesis
    proof (cases oc)
      case None
      then show ?thesis
        using run Pair Inr i claim_adds_none [OF q Pair] by (auto simp: delivery_RunOnce_def)
    next
      case (Some c)
      obtain oe where fin:
          "dq_Finish (rd_queue rd) c (send_claim rd c) (rd_others rd s1) = (oe, s')"
        using run Pair Inr Some by (auto simp: delivery_RunOnce_def split: prod.splits)
      have "sendable s (dc_JobID c)"
        using claim_takes [OF q] Pair Inr Some by blast
      then show ?thesis
        using finish_adds [OF q fin i] others claim_adds_none [OF q Pair] by blast
    qed
  qed
qed

lemma sent_is_settled:
  assumes q: "rd_queue rd \<in> queues"
    and others: "\<And>s i. sendable (rd_others rd s) i \<Longrightarrow> sendable s i"
    and run: "delivery_RunOnce t rd s = (r, s')"
    and sent: "(i, res) \<in> set (round_sends t rd s)" "dr_Outcome res \<noteq> ''transient_failure''"
  shows "\<not> sendable s' i"
proof -
  from round_sends_cases [OF sent(1)] obtain c s1
    where c: "dq_Claim (rd_queue rd) (claim_duration t) s = (Inr (Some c), s1)"
      "i = dc_JobID c" "res = send_claim rd c"
    by blast
  obtain oe where fin: "dq_Finish (rd_queue rd) c res (rd_others rd s1) = (oe, s')"
    using run c by (auto simp: delivery_RunOnce_def split: prod.splits)
  show ?thesis
    using finish_adds [OF q fin] sent(2) c(2) claim_takes [OF q c(1)] others by blast
qed

lemma sent_was_sendable:
  "rd_queue rd \<in> queues \<Longrightarrow> (i, res) \<in> set (round_sends t rd s) \<Longrightarrow> sendable s i"
  by (drule round_sends_cases) (auto dest: claim_takes)

text \<open>A whole run sends only what was sendable when it started.\<close>

lemma run_sends_sendable:
  assumes "(i, res) \<in> set (run_sends t rds s)"
    and "list_all (\<lambda>rd. rd_queue rd \<in> queues
           \<and> (\<forall>s i. sendable (rd_others rd s) i \<longrightarrow> sendable s i)) rds"
  shows "sendable s i"
  using assms
proof (induction rds arbitrary: s)
  case Nil
  then show ?case by simp
next
  case (Cons rd rds)
  obtain b oe s' where run: "delivery_RunOnce t rd s = ((b, oe), s')"
    by (metis prod_cases3 prod.collapse)
  have q: "rd_queue rd \<in> queues" and others: "\<And>s i. sendable (rd_others rd s) i \<Longrightarrow> sendable s i"
    using Cons.prems(2) by auto
  show ?case
  proof (cases "(i, res) \<in> set (round_sends t rd s)")
    case True
    then show ?thesis by (rule sent_was_sendable [OF q])
  next
    case False
    then have "(i, res) \<in> set (run_sends t rds s')"
      using Cons.prems(1) run by (auto split: option.splits)
    then have "sendable s' i" using Cons.IH Cons.prems(2) by auto
    then show ?thesis using round_adds_none [OF q _ run] others by blast
  qed
qed

text \<open>After a send that did not fail transiently the job is not sent again.\<close>

lemma settled_is_never_resent:
  assumes "run_sends t rds s = before @ (i, res) # after"
    and "dr_Outcome res \<noteq> ''transient_failure''"
    and "list_all (\<lambda>rd. rd_queue rd \<in> queues
           \<and> (\<forall>s i. sendable (rd_others rd s) i \<longrightarrow> sendable s i)) rds"
  shows "i \<notin> fst ` set after"
  using assms
proof (induction rds arbitrary: s before)
  case Nil
  then show ?case by simp
next
  case (Cons rd rds)
  obtain b oe s' where run: "delivery_RunOnce t rd s = ((b, oe), s')"
    by (metis prod_cases3 prod.collapse)
  have q: "rd_queue rd \<in> queues" and others: "\<And>s i. sendable (rd_others rd s) i \<Longrightarrow> sendable s i"
    using Cons.prems(3) by auto
  define rest where "rest = (if oe = None \<and> rd_stop rd = None then run_sends t rds s' else [])"
  have split: "round_sends t rd s @ rest = before @ (i, res) # after"
    using Cons.prems(1) run by (auto simp: rest_def split: option.splits)
  have rest: "rest = [] \<or> rest = run_sends t rds s'" by (simp add: rest_def)
  have one: "round_sends t rd s = [] \<or> (\<exists>x. round_sends t rd s = [x])"
    by (auto simp: round_sends_def split: prod.splits sum.splits option.splits)
  show ?case
  proof (cases "round_sends t rd s = [] \<or> before \<noteq> []")
    case True
    then obtain before' where "rest = before' @ (i, res) # after"
      using split one by (cases before) auto
    then show ?thesis using Cons.IH [of s' before'] Cons.prems(2,3) rest by auto
  next
    case False
    then have first: "round_sends t rd s = [(i, res)]" "rest = after"
      using split one by auto
    have settled: "\<not> sendable s' i"
      using sent_is_settled [OF q others run, of i res] Cons.prems(2) first(1) by simp
    show ?thesis
    proof
      assume "i \<in> fst ` set after"
      then obtain r where "(i, r) \<in> set (run_sends t rds s')" using first(2) rest by auto
      then have "sendable s' i" using run_sends_sendable Cons.prems(3) by auto
      then show False using settled by simp
    qed
  qed
qed

end

text \<open>The retry budget. \<open>tries s i n\<close> says that a job that waits to be sent or is being sent has
  used at least \<open>n\<close> attempts; the queue counts every claim and gives up at the third.\<close>

locale delivery_budget =
  delivery_contract queues sendable
    for queues :: "'s delivery_queue set" and sendable :: "'s \<Rightarrow> job_id \<Rightarrow> bool" +
  fixes tries :: "'s \<Rightarrow> job_id \<Rightarrow> nat \<Rightarrow> bool"
  assumes claim_tries: "q \<in> queues \<Longrightarrow> dq_Claim q d s = (r, s') \<Longrightarrow> tries s i n \<Longrightarrow> tries s' i n"
    and claim_counts: "q \<in> queues \<Longrightarrow> dq_Claim q d s = (Inr (Some c), s') \<Longrightarrow>
      tries s (dc_JobID c) n \<Longrightarrow> tries s' (dc_JobID c) (Suc n)"
    and finish_tries: "q \<in> queues \<Longrightarrow> dq_Finish q c res s = (oe, s') \<Longrightarrow> tries s i n \<Longrightarrow>
      tries s' i n"
    and finish_spent: "q \<in> queues \<Longrightarrow> dq_Finish q c res s = (oe, s') \<Longrightarrow> tries s i 3 \<Longrightarrow>
      sendable s' i \<Longrightarrow> sendable s i"
begin

lemma round_tries:
  assumes q: "rd_queue rd \<in> queues"
    and others: "\<forall>s i. sendable (rd_others rd s) i \<longrightarrow> sendable s i"
      "\<forall>s i n. tries s i n \<longrightarrow> tries (rd_others rd s) i n"
    and run: "delivery_RunOnce t rd s = (r, s')" and n: "tries s i n"
  shows "tries s' i n"
    and "i \<in> fst ` set (round_sends t rd s) \<Longrightarrow> tries s' i (Suc n)"
    and "i \<in> fst ` set (round_sends t rd s) \<Longrightarrow> n = 2 \<Longrightarrow> \<not> sendable s' i"
proof -
  obtain a s1 where claim: "dq_Claim (rd_queue rd) (claim_duration t) s = (a, s1)"
    by (cases "dq_Claim (rd_queue rd) (claim_duration t) s")
  have n1: "tries s1 i n" by (rule claim_tries [OF q claim n])
  have settle: "\<exists>oe. dq_Finish (rd_queue rd) c (send_claim rd c) (rd_others rd s1) = (oe, s')"
    if "a = Inr (Some c)" for c
    using run claim that by (auto simp: delivery_RunOnce_def split: prod.splits)
  show "tries s' i n"
  proof (cases "\<exists>c. a = Inr (Some c)")
    case True
    then show ?thesis using settle finish_tries [OF q] others(2) n1 by blast
  next
    case False
    then have "s' = s1"
      using run claim by (auto simp: delivery_RunOnce_def split: sum.splits option.splits)
    then show ?thesis using n1 by simp
  qed
  assume "i \<in> fst ` set (round_sends t rd s)"
  then obtain c where c: "a = Inr (Some c)" "i = dc_JobID c"
    using claim by (auto dest!: round_sends_cases)
  have taken: "tries s1 i (Suc n)" "\<not> sendable s1 i"
    using claim_counts [OF q] claim_takes [OF q] claim c n by blast+
  obtain oe where fin: "dq_Finish (rd_queue rd) c (send_claim rd c) (rd_others rd s1) = (oe, s')"
    using settle [OF c(1)] by blast
  show "tries s' i (Suc n)" using finish_tries [OF q fin] others(2) taken(1) by blast
  assume "n = 2"
  then have "tries (rd_others rd s1) i 3" using taken(1) others(2) by simp
  then show "\<not> sendable s' i" using finish_spent [OF q fin] taken(2) others(1) by blast
qed

text \<open>A job whose attempts are at \<open>n\<close> is sent at most \<open>3 - n\<close> more times.\<close>

lemma sends_are_bounded:
  assumes "list_all (\<lambda>rd. rd_queue rd \<in> queues
             \<and> (\<forall>s i. sendable (rd_others rd s) i \<longrightarrow> sendable s i)
             \<and> (\<forall>s i n. tries s i n \<longrightarrow> tries (rd_others rd s) i n)) rds"
    and "tries s i n" and "n \<le> 3" and "n = 3 \<Longrightarrow> \<not> sendable s i"
  shows "length (filter (\<lambda>x. fst x = i) (run_sends t rds s)) \<le> 3 - n"
  using assms
proof (induction rds arbitrary: s n)
  case Nil
  then show ?case by simp
next
  case (Cons rd rds)
  obtain b oe s' where run: "delivery_RunOnce t rd s = ((b, oe), s')"
    by (metis prod_cases3 prod.collapse)
  have q: "rd_queue rd \<in> queues"
    and others: "\<forall>s i. sendable (rd_others rd s) i \<longrightarrow> sendable s i"
      "\<forall>s i n. tries s i n \<longrightarrow> tries (rd_others rd s) i n"
    using Cons.prems(1) by auto
  define rest where "rest = (if oe = None \<and> rd_stop rd = None then run_sends t rds s' else [])"
  have sends: "run_sends t (rd # rds) s = round_sends t rd s @ rest"
    using run by (auto simp: rest_def split: option.splits)
  have rest: "length (filter P rest) \<le> length (filter P (run_sends t rds s'))" for P
    by (simp add: rest_def)
  note steps = round_tries [OF q others run Cons.prems(2)]
  show ?case
  proof (cases "i \<in> fst ` set (round_sends t rd s)")
    case True
    have "sendable s i" using True sent_was_sendable [OF q] by auto
    then have n: "n \<le> 2" using Cons.prems(3,4) by (cases "n = 3") auto
    have "length (round_sends t rd s) \<le> 1"
      by (auto simp: round_sends_def split: prod.splits sum.splits option.splits)
    then have one: "length (filter (\<lambda>x. fst x = i) (round_sends t rd s)) \<le> 1"
      using length_filter_le order_trans by blast
    have "length (filter (\<lambda>x. fst x = i) (run_sends t rds s')) \<le> 3 - Suc n"
      using Cons.IH [OF _ steps(2) [OF True]] steps(3) [OF True] Cons.prems(1) n by simp
    then show ?thesis using one rest [of "\<lambda>x. fst x = i"] n by (simp add: sends del: run_sends.simps)
  next
    case False
    have "\<not> sendable s' i" if "n = 3"
      using that Cons.prems(4) round_adds_none [OF q _ run] others(1) by blast
    then have "length (filter (\<lambda>x. fst x = i) (run_sends t rds s')) \<le> 3 - n"
      using Cons.IH [OF _ steps(1)] Cons.prems(1,3) by simp
    moreover have "filter (\<lambda>x. fst x = i) (round_sends t rd s) = []"
      using False by (auto simp: filter_empty_conv)
    ultimately show ?thesis using rest [of "\<lambda>x. fst x = i"] by (simp add: sends del: run_sends.simps)
  qed
qed

end

end
