(* ===== verification/Postgres_Delivery.thy ===== *)
theory Postgres_Delivery
  imports Postgres_Leases Delivery
begin

section \<open>The delivery queue on PostgreSQL\<close>

text \<open>
  \<open>internal/postgres/delivery.go\<close>: the claim of a ready job for sending, with an attempt row
  that says \<open>uncertain\<close> until the result is known, and the report of the result. At the end the
  contract of the delivery worker's queue is interpreted on these two operations.
\<close>

subsection \<open>Claiming a delivery\<close>

definition email_claimable :: "pg_env \<Rightarrow> time \<Rightarrow> job_row \<Rightarrow> bool" where
  "email_claimable env now r \<longleftrightarrow>
     row_status r = StatusReady \<and> row_pending r \<and> \<not> row_paused r \<and> row_next_attempt r \<le> now
     \<and> \<not> pg_locked env (row_id r)"

definition email_before :: "job_row \<Rightarrow> job_row \<Rightarrow> bool" where
  "email_before a b \<longleftrightarrow>
     row_next_attempt a < row_next_attempt b
     \<or> (row_next_attempt a = row_next_attempt b \<and> row_created a < row_created b)"

definition select_email :: "pg_env \<Rightarrow> time \<Rightarrow> pg_db \<Rightarrow> job_row option" where
  "select_email env now db =
     (case sort_slice email_before (filter (email_claimable env now) (db_jobs db)) of
        [] \<Rightarrow> None | r # rs \<Rightarrow> Some r)"

definition delivering_row :: "string \<Rightarrow> time \<Rightarrow> time \<Rightarrow> job_row \<Rightarrow> job_row" where
  "delivering_row token expires now r = r\<lparr>row_status := StatusDelivering, row_completed := None,
     row_token := Some token, row_expires := Some expires, row_updated := now,
     row_version := row_version r + 1, row_retries := row_retries r + 1\<rparr>"

text \<open>The newest available artifact of the job, for the attempt row.\<close>

definition available_artifact :: "pg_db \<Rightarrow> job_id \<Rightarrow> string option" where
  "available_artifact db i =
     (case sort_slice (\<lambda>a b. fr_created b < fr_created a)
             (filter (\<lambda>a. fr_job a = i \<and> fr_availability a = ''available'') (db_artifacts db)) of
        [] \<Rightarrow> None | a # as \<Rightarrow> Some (fr_id a))"

definition email_attempt :: "string \<Rightarrow> job_id \<Rightarrow> time \<Rightarrow> pg_db \<Rightarrow> delivery_row" where
  "email_attempt token i now db =
     \<lparr>er_id = token, er_job = i, er_artifact = available_artifact db i,
      er_number = next_number (map er_number (filter (\<lambda>d. er_job d = i) (db_deliveries db))),
      er_message_id = MessageID i, er_started = now, er_completed = None,
      er_outcome = ''uncertain'', er_code = None, er_category = Some ''delivery_timeout''\<rparr>"

definition email_title :: "job \<Rightarrow> string" where
  "email_title j = (case job_Content j of None \<Rightarrow> job_TitleHint j | Some d \<Rightarrow> doc_Title d)"

definition claim_email ::
  "pg_env \<Rightarrow> time \<Rightarrow> duration \<Rightarrow> job_row \<Rightarrow> pg_db \<Rightarrow> error + delivery_claim option \<times> pg_db" where
  "claim_email env now d r db =
     and_then (scan ''claim email'' (row_destination r))
       (\<lambda>destination. and_then (loadJob env db (row_id r))
       (\<lambda>j. case job_Artifact j of
              None \<Rightarrow> Inl (databaseFailure ''delivery artifact'')
            | Some a \<Rightarrow>
                and_then (exec env ''lease email'' 0
                    (update_jobs (\<lambda>x. row_id x = row_id r)
                       (delivering_row (pg_token env 0) (pg_stamp env (now + d)) (pg_stamp env now)) db))
                  (\<lambda>(affected, db1). and_then (exec env ''record email attempt'' 0
                        (insert_delivery
                           (email_attempt (pg_token env 0) (row_id r) (pg_stamp env now) db1) db1))
                  (\<lambda>db2. Inr (Some \<lparr>dc_JobID = job_ID j, dc_Token = pg_token env 0,
                       dc_MessageID = MessageID (row_id r), dc_Destination = destination,
                       dc_Title = email_title j, dc_Artifact = a\<rparr>, db2)))))"

definition email_body ::
  "pg_env \<Rightarrow> time \<Rightarrow> duration \<Rightarrow> pg_db \<Rightarrow> error + delivery_claim option \<times> pg_db" where
  "email_body env now d db =
     and_then (expireDeliveries env (pg_stamp env now) db)
       (\<lambda>db1. case pg_fail env ''claim email'' 0 of
                Some e \<Rightarrow> if is_no_rows e then Inr (None, db1)
                          else Inl (mapDBError ''claim email'' e)
              | None \<Rightarrow>
                  (case select_email env (pg_stamp env now) db1 of
                     None \<Rightarrow> Inr (None, db1)
                   | Some r \<Rightarrow> claim_email env now d r db1))"

text \<open>The commit of an empty claim is the one whose error is not mapped.\<close>

fun raw_error :: "db_error \<Rightarrow> error" where
  "raw_error (DriverError e) = e"
| "raw_error (PgError code con) = NewError (''ERROR SQLSTATE '' @ code)"

definition email_commit_error :: "delivery_claim option \<Rightarrow> db_error \<Rightarrow> error" where
  "email_commit_error claim e =
     (if claim = None then raw_error e else mapDBError ''commit email claim'' e)"

definition pg_ClaimDelivery ::
  "pg_env \<Rightarrow> duration \<Rightarrow> pg_db \<Rightarrow> (delivery_claim option, pg_db) outcome" where
  "pg_ClaimDelivery env d db =
     (case pg_fail env ''begin delivery'' 0 of
        Some e \<Rightarrow> (Inl (mapDBError ''begin delivery'' e), db)
      | None \<Rightarrow>
          (case email_body env (pg_clock env 0) d db of
             Inl e \<Rightarrow> (Inl e, db)
           | Inr (claim, db') \<Rightarrow>
               (case pg_commit env of
                  Committed \<Rightarrow> (Inr claim, db')
                | CommitLost e \<Rightarrow> (Inl (email_commit_error claim e), db)
                | CommitUnknown e \<Rightarrow> (Inl (email_commit_error claim e), db'))))"

subsection \<open>Reporting a result\<close>

text \<open>What an outcome makes of the job: its status, whether it is queued again, and the
  failure. \<open>None\<close> is an outcome the code does not know.\<close>

definition email_plan ::
  "string \<Rightarrow> int \<Rightarrow> (status \<times> bool \<times> (failure_category \<times> string) option) option" where
  "email_plan outcome retries =
     (let unconfirmed = (StatusDeliveryFailed, False,
            Some (FailureDeliveryTimeout, ''Email delivery could not be confirmed''))
      in if outcome = ''accepted'' then Some (StatusDelivered, False, None)
         else if outcome = ''rejected''
         then Some (StatusDeliveryFailed, False,
                    Some (FailureDeliveryRejected, ''Email delivery was rejected''))
         else if outcome = ''transient_failure''
         then Some (if retries < 3 then (StatusReady, True, None) else unconfirmed)
         else if outcome = ''uncertain'' then Some unconfirmed
         else None)"

definition reported_row ::
  "status \<times> bool \<times> (failure_category \<times> string) option \<Rightarrow> time \<Rightarrow> time \<Rightarrow> job_row \<Rightarrow> job_row" where
  "reported_row plan now nxt r =
     (case plan of (st, pending, failure) \<Rightarrow>
        r\<lparr>row_status := st, row_pending := pending, row_category := map_option fst failure,
          row_message := map_option snd failure, row_token := None, row_expires := None,
          row_completed := Some now, row_updated := now, row_next_attempt := nxt,
          row_version := row_version r + 1\<rparr>)"

definition attempt_category :: "string \<Rightarrow> string option" where
  "attempt_category outcome =
     (if outcome = ''accepted'' then None
      else if outcome = ''rejected'' then Some ''delivery_rejected''
      else Some ''delivery_timeout'')"

definition reported_attempt :: "delivery_result \<Rightarrow> time \<Rightarrow> delivery_row \<Rightarrow> delivery_row" where
  "reported_attempt res now d =
     d\<lparr>er_outcome := dr_Outcome res, er_code := nullif_empty (dr_Code res),
       er_category := attempt_category (dr_Outcome res), er_completed := Some now\<rparr>"

definition update_deliveries ::
  "(delivery_row \<Rightarrow> bool) \<Rightarrow> (delivery_row \<Rightarrow> delivery_row) \<Rightarrow> pg_db \<Rightarrow> db_error + pg_db" where
  "update_deliveries P f db =
     (if list_all (\<lambda>d. P d \<longrightarrow> delivery_row_ok (f d)) (db_deliveries db)
      then Inr (db\<lparr>db_deliveries := map (\<lambda>d. if P d then f d else d) (db_deliveries db)\<rparr>)
      else Inl check_violation)"

definition holds_email :: "delivery_claim \<Rightarrow> time \<Rightarrow> job_row \<Rightarrow> bool" where
  "holds_email c now r \<longleftrightarrow>
     row_id r = dc_JobID c \<and> row_status r = StatusDelivering \<and> row_token r = Some (dc_Token c)
     \<and> (case row_expires r of None \<Rightarrow> False | Some t \<Rightarrow> now < t)"

text \<open>\<open>Inr None\<close>: the claim is no longer held, and nothing is reported.\<close>

definition report_body ::
  "pg_env \<Rightarrow> time \<Rightarrow> delivery_claim \<Rightarrow> delivery_result \<Rightarrow> pg_db \<Rightarrow> error + pg_db option" where
  "report_body env now c res db =
     (case pg_fail env ''read email claim'' 0 of
        Some e \<Rightarrow> if is_no_rows e then Inr None else Inl (mapDBError ''read email claim'' e)
      | None \<Rightarrow>
          (case find (holds_email c (pg_stamp env now)) (db_jobs db) of
             None \<Rightarrow> Inr None
           | Some r \<Rightarrow>
               (case email_plan (dr_Outcome res) (row_retries r) of
                  None \<Rightarrow> Inl (databaseFailure ''invalid email result'')
                | Some plan \<Rightarrow>
                    and_then (exec env ''record email result'' 0
                        (update_deliveries (\<lambda>d. er_id d = dc_Token c)
                           (reported_attempt res (pg_stamp env now)) db))
                      (\<lambda>db1. and_then (exec env ''finish email'' 0
                          (update_jobs (\<lambda>x. row_id x = dc_JobID c \<and> row_token x = Some (dc_Token c))
                             (reported_row plan (pg_stamp env now)
                                (pg_stamp env (now + row_retries r * (30 * Second)))) db1))
                        (\<lambda>(affected, db2). Inr (Some db2))))))"

definition pg_FinishDelivery ::
  "pg_env \<Rightarrow> delivery_claim \<Rightarrow> delivery_result \<Rightarrow> pg_db \<Rightarrow> error option \<times> pg_db" where
  "pg_FinishDelivery env c res db =
     (case pg_fail env ''begin email result'' 0 of
        Some e \<Rightarrow> (Some (mapDBError ''begin email result'' e), db)
      | None \<Rightarrow>
          (case report_body env (pg_clock env 0) c res db of
             Inl e \<Rightarrow> (Some e, db)
           | Inr None \<Rightarrow> (None, db)
           | Inr (Some db') \<Rightarrow>
               (case pg_commit env of
                  Committed \<Rightarrow> (None, db')
                | CommitLost e \<Rightarrow> (Some (mapDBError ''commit email result'' e), db)
                | CommitUnknown e \<Rightarrow> (Some (mapDBError ''commit email result'' e), db'))))"

subsection \<open>The contract of the queue\<close>

definition pg_queue :: "pg_env \<Rightarrow> pg_env \<Rightarrow> pg_db delivery_queue" where
  "pg_queue claim_env report_env =
     \<lparr>dq_Claim = pg_ClaimDelivery claim_env, dq_Finish = pg_FinishDelivery report_env\<rparr>"

definition waits_for_email :: "pg_db \<Rightarrow> job_id \<Rightarrow> bool" where
  "waits_for_email db i \<longleftrightarrow>
     (\<exists>r \<in> set (db_jobs db). row_id r = i \<and> row_status r = StatusReady \<and> row_pending r)"

lemma update_deliveries_jobs: "update_deliveries P f db = Inr db' \<Longrightarrow> db_jobs db' = db_jobs db"
  by (auto simp: update_deliveries_def split: if_splits)

text \<open>An update that leaves no row ready and pending adds no waiting job.\<close>

lemma update_waits:
  assumes "update_jobs P f db = Inr (n, db')"
    and "\<And>r. row_id (f r) = row_id r"
    and "\<And>r. row_status (f r) \<noteq> StatusReady \<or> \<not> row_pending (f r)"
  shows "waits_for_email db' i \<Longrightarrow> waits_for_email db i"
    and "(\<And>r. row_id r = i \<Longrightarrow> P r) \<Longrightarrow> \<not> waits_for_email db' i"
  using assms by (fastforce simp: update_jobs_Inr waits_for_email_def split: if_splits)+

lemma expireDeliveries_waits:
  "expireDeliveries env now db = Inr db' \<Longrightarrow> waits_for_email db' i \<Longrightarrow> waits_for_email db i"
  unfolding expireDeliveries_def
  by (auto simp: and_then_Inr exec_Inr expired_delivery_row_def elim!: update_waits(1) [rotated -1])

lemma loadJob_ID: "loadJob env db i = Inr j \<Longrightarrow> job_ID j = i"
  by (auto simp: loadJob_def job_at_def scanJob_def scanned_job_def with_failure_def
      with_content_def find_Some_iff split: option.splits if_splits)

lemma select_email_waits:
  assumes "select_email env now db = Some r"
  shows "waits_for_email db (row_id r)"
  using assms sort_slice_first [of email_before _ r]
  by (fastforce simp: select_email_def email_claimable_def waits_for_email_def split: list.splits)

lemma email_body_waits:
  assumes "email_body env now d db = Inr (oc, db')"
  shows "waits_for_email db' i \<Longrightarrow> waits_for_email db i"
    and "oc = Some c \<Longrightarrow> waits_for_email db (dc_JobID c) \<and> \<not> waits_for_email db' (dc_JobID c)"
proof -
  obtain db1 where db1: "expireDeliveries env (pg_stamp env now) db = Inr db1"
    and rest: "oc = None \<and> db' = db1
      \<or> (\<exists>r. select_email env (pg_stamp env now) db1 = Some r
            \<and> claim_email env now d r db1 = Inr (oc, db'))"
    using assms by (auto simp: email_body_def and_then_Inr split: option.splits if_splits)
  have old: "waits_for_email db1 j \<Longrightarrow> waits_for_email db j" for j
    by (rule expireDeliveries_waits [OF db1])
  have claim: "\<not> waits_for_email db' (row_id r) \<and> dc_JobID (the oc) = row_id r \<and> oc \<noteq> None
      \<and> (waits_for_email db' j \<longrightarrow> waits_for_email db1 j)"
    if r: "claim_email env now d r db1 = Inr (oc, db')" for r j
  proof -
    obtain destination jb a n db2 where u: "update_jobs (\<lambda>x. row_id x = row_id r)
          (delivering_row (pg_token env 0) (pg_stamp env (now + d)) (pg_stamp env now)) db1
          = Inr (n, db2)"
      and ins: "insert_delivery (email_attempt (pg_token env 0) (row_id r) (pg_stamp env now) db2)
          db2 = Inr db'"
      and jb: "loadJob env db1 (row_id r) = Inr jb"
      and oc: "oc = Some \<lparr>dc_JobID = job_ID jb, dc_Token = pg_token env 0,
          dc_MessageID = MessageID (row_id r), dc_Destination = destination,
          dc_Title = email_title jb, dc_Artifact = a\<rparr>"
      using r by (auto simp: claim_email_def and_then_Inr exec_Inr scan_Inr split: option.splits)
    have same: "waits_for_email db' k \<longleftrightarrow> waits_for_email db2 k" for k
      by (simp add: waits_for_email_def insert_delivery_jobs [OF ins])
    have "job_ID jb = row_id r" by (rule loadJob_ID [OF jb])
    moreover have "\<not> waits_for_email db2 (row_id r)"
      by (rule update_waits(2) [OF u]) (simp_all add: delivering_row_def)
    moreover have "waits_for_email db2 j \<Longrightarrow> waits_for_email db1 j"
      by (rule update_waits(1) [OF u]) (simp_all add: delivering_row_def)
    ultimately show ?thesis using oc same by simp
  qed
  show "waits_for_email db' i \<Longrightarrow> waits_for_email db i"
  proof -
    assume w: "waits_for_email db' i"
    from rest have "waits_for_email db1 i"
    proof (elim disjE exE conjE)
      show "oc = None \<Longrightarrow> db' = db1 \<Longrightarrow> waits_for_email db1 i" using w by simp
    next
      fix r
      assume "claim_email env now d r db1 = Inr (oc, db')"
      from claim [OF this, of i] w show "waits_for_email db1 i" by simp
    qed
    then show "waits_for_email db i" by (rule old)
  qed
  show "oc = Some c \<Longrightarrow> waits_for_email db (dc_JobID c) \<and> \<not> waits_for_email db' (dc_JobID c)"
  proof -
    assume oc: "oc = Some c"
    then obtain r where r: "select_email env (pg_stamp env now) db1 = Some r"
        "claim_email env now d r db1 = Inr (oc, db')"
      using rest by blast
    have "dc_JobID c = row_id r" "\<not> waits_for_email db' (row_id r)"
      using claim [OF r(2)] oc by simp_all
    moreover have "waits_for_email db (row_id r)"
      by (rule old [OF select_email_waits [OF r(1)]])
    ultimately show ?thesis by simp
  qed
qed

lemma report_body_cases:
  assumes "report_body env now c res db = Inr (Some db')"
  obtains r plan db1 n
  where "r \<in> set (db_jobs db)" and "holds_email c (pg_stamp env now) r"
    and "email_plan (dr_Outcome res) (row_retries r) = Some plan"
    and "update_deliveries (\<lambda>d. er_id d = dc_Token c)
           (reported_attempt res (pg_stamp env now)) db = Inr db1"
    and "update_jobs (\<lambda>x. row_id x = dc_JobID c \<and> row_token x = Some (dc_Token c))
           (reported_row plan (pg_stamp env now)
              (pg_stamp env (now + row_retries r * (30 * Second)))) db1 = Inr (n, db')"
proof -
  obtain r where r: "find (holds_email c (pg_stamp env now)) (db_jobs db) = Some r"
    using assms by (auto simp: report_body_def split: option.splits if_splits)
  obtain plan where plan: "email_plan (dr_Outcome res) (row_retries r) = Some plan"
    using assms r by (auto simp: report_body_def split: option.splits if_splits)
  have r_in: "r \<in> set (db_jobs db)" and held: "holds_email c (pg_stamp env now) r"
    using r by (auto simp: find_Some_iff)
  obtain db1 n where
      "update_deliveries (\<lambda>d. er_id d = dc_Token c)
         (reported_attempt res (pg_stamp env now)) db = Inr db1"
      "update_jobs (\<lambda>x. row_id x = dc_JobID c \<and> row_token x = Some (dc_Token c))
         (reported_row plan (pg_stamp env now)
            (pg_stamp env (now + row_retries r * (30 * Second)))) db1 = Inr (n, db')"
    using assms r plan
    by (cases plan) (auto simp: report_body_def and_then_Inr exec_Inr split: option.splits if_splits)
  then show ?thesis by (rule that [OF r_in held plan])
qed

lemma report_body_waits:
  assumes "report_body env now c res db = Inr (Some db')" and w: "waits_for_email db' i"
  shows "waits_for_email db i \<or> (i = dc_JobID c \<and> dr_Outcome res = ''transient_failure'')"
  using assms(1)
proof (rule report_body_cases)
  fix r plan db1 n
  assume plan: "email_plan (dr_Outcome res) (row_retries r) = Some plan"
    and db1: "update_deliveries (\<lambda>d. er_id d = dc_Token c)
           (reported_attempt res (pg_stamp env now)) db = Inr db1"
    and u: "update_jobs (\<lambda>x. row_id x = dc_JobID c \<and> row_token x = Some (dc_Token c))
           (reported_row plan (pg_stamp env now)
              (pg_stamp env (now + row_retries r * (30 * Second)))) db1 = Inr (n, db')"
  have same: "waits_for_email db1 i = waits_for_email db i"
    by (simp add: waits_for_email_def update_deliveries_jobs [OF db1])
  have ids: "row_id (reported_row plan t1 t2 x) = row_id x" for t1 t2 x
    by (simp add: reported_row_def split: prod.splits)
  show ?thesis
  proof (cases "dr_Outcome res = ''transient_failure'' \<and> i = dc_JobID c")
    case False
    show ?thesis
    proof (cases "dr_Outcome res = ''transient_failure''")
      case True
      then have "i \<noteq> dc_JobID c" using False by simp
      then have "waits_for_email db1 i"
        using w u ids by (auto simp: update_jobs_Inr waits_for_email_def split: if_splits)
      then show ?thesis using same by simp
    next
      case other: False
      have "\<not> fst (snd plan)"
        using plan other by (auto simp: email_plan_def Let_def split: if_splits)
      then have "waits_for_email db1 i"
        by (intro update_waits(1) [OF u ids _ w]) (auto simp: reported_row_def split: prod.splits)
      then show ?thesis using same by simp
    qed
  qed simp
qed

lemma ClaimDelivery_cases:
  assumes "pg_ClaimDelivery env d db = (r, db')"
  shows "db' = db \<and> (\<exists>e. r = Inl e)
    \<or> (\<exists>oc. email_body env (pg_clock env 0) d db = Inr (oc, db') \<and> (r = Inr oc \<or> (\<exists>e. r = Inl e)))"
  using assms by (auto simp: pg_ClaimDelivery_def split: option.splits sum.splits commit_answer.splits)

lemma FinishDelivery_cases:
  assumes "pg_FinishDelivery env c res db = (oe, db')"
  shows "db' = db \<or> report_body env (pg_clock env 0) c res db = Inr (Some db')"
  using assms by (auto simp: pg_FinishDelivery_def split: option.splits sum.splits commit_answer.splits)

interpretation pg_email: delivery_contract "{pg_queue a b | a b. True}" waits_for_email
proof
  fix q d s c s'
  assume "q \<in> {pg_queue a b | a b. True}" and "dq_Claim q d s = (Inr (Some c), s')"
  then obtain a where "pg_ClaimDelivery a d s = (Inr (Some c), s')"
    by (auto simp: pg_queue_def)
  then show "waits_for_email s (dc_JobID c) \<and> \<not> waits_for_email s' (dc_JobID c)"
    using ClaimDelivery_cases [of a d s "Inr (Some c)" s'] email_body_waits(2) by fastforce
next
  fix q d s r s' i
  assume "q \<in> {pg_queue a b | a b. True}" and "dq_Claim q d s = (r, s')"
    and w: "waits_for_email s' i"
  then obtain a where "pg_ClaimDelivery a d s = (r, s')"
    by (auto simp: pg_queue_def)
  from ClaimDelivery_cases [OF this] w show "waits_for_email s i"
    using email_body_waits(1) by blast
next
  fix q c res s oe s' i
  assume "q \<in> {pg_queue a b | a b. True}" and "dq_Finish q c res s = (oe, s')"
    and w: "waits_for_email s' i"
  then obtain b where "pg_FinishDelivery b c res s = (oe, s')"
    by (auto simp: pg_queue_def)
  from FinishDelivery_cases [OF this] w
  show "waits_for_email s i \<or> (i = dc_JobID c \<and> dr_Outcome res = ''transient_failure'')"
    using report_body_waits by blast
qed

subsection \<open>The retry budget of the queue\<close>

definition email_live :: "job_row \<Rightarrow> bool" where
  "email_live r \<longleftrightarrow> (row_status r = StatusReady \<and> row_pending r) \<or> row_status r = StatusDelivering"

definition email_tries :: "pg_db \<Rightarrow> job_id \<Rightarrow> nat \<Rightarrow> bool" where
  "email_tries db i n \<longleftrightarrow>
     distinct (map row_id (db_jobs db))
     \<and> (\<forall>r \<in> set (db_jobs db). row_id r = i \<and> email_live r \<longrightarrow> int n \<le> row_retries r)"

lemma row_by_id:
  "distinct (map row_id rs) \<Longrightarrow> x \<in> set rs \<Longrightarrow> y \<in> set rs \<Longrightarrow> row_id x = row_id y \<Longrightarrow> x = y"
  by (auto simp: distinct_map inj_on_def)

text \<open>An update keeps the count of a job if the rows it makes live were live and lose none.\<close>

lemma update_tries:
  assumes u: "update_jobs P f db = Inr (k, db')"
    and ids: "\<And>r. row_id (f r) = row_id r"
    and live: "\<And>r. r \<in> set (db_jobs db) \<Longrightarrow> P r \<Longrightarrow> row_id r = i \<Longrightarrow> email_live (f r) \<Longrightarrow>
      int m \<le> row_retries (f r)"
    and old: "\<And>r. r \<in> set (db_jobs db) \<Longrightarrow> \<not> P r \<Longrightarrow> row_id r = i \<Longrightarrow> email_live r \<Longrightarrow>
      int m \<le> row_retries r"
    and distinct: "distinct (map row_id (db_jobs db))"
  shows "email_tries db' i m"
proof -
  have jobs: "db_jobs db' = map (\<lambda>r. if P r then f r else r) (db_jobs db)"
    using u by (simp add: update_jobs_Inr)
  have "map row_id (db_jobs db') = map row_id (db_jobs db)"
    using ids by (simp add: jobs)
  moreover have "\<forall>r \<in> set (db_jobs db'). row_id r = i \<and> email_live r \<longrightarrow> int m \<le> row_retries r"
    using ids live old by (auto simp: jobs)
  ultimately show ?thesis using distinct by (simp add: email_tries_def)
qed

lemma expireDeliveries_tries:
  assumes "expireDeliveries env now db = Inr db'" and "email_tries db i n"
  shows "email_tries db' i n"
proof -
  obtain k where u: "update_jobs (lease_ran_out StatusDelivering now) (expired_delivery_row now) db
      = Inr (k, db')"
    using assms(1) by (auto simp: expireDeliveries_def and_then_Inr exec_Inr)
  show ?thesis
    using assms(2) unfolding email_tries_def [of db]
    by (intro update_tries [OF u]) (auto simp: expired_delivery_row_def email_live_def)
qed

lemma email_body_tries:
  assumes "email_body env now d db = Inr (oc, db')" and n: "email_tries db i n"
  shows "email_tries db' i n" and "oc = Some c \<Longrightarrow> i = dc_JobID c \<Longrightarrow> email_tries db' i (Suc n)"
proof -
  obtain db1 where db1: "expireDeliveries env (pg_stamp env now) db = Inr db1"
    and rest: "oc = None \<and> db' = db1
      \<or> (\<exists>r. select_email env (pg_stamp env now) db1 = Some r
            \<and> claim_email env now d r db1 = Inr (oc, db'))"
    using assms by (auto simp: email_body_def and_then_Inr split: option.splits if_splits)
  have n1: "email_tries db1 i n" by (rule expireDeliveries_tries [OF db1 n])
  have claim: "email_tries db' i n \<and> (i = dc_JobID (the oc) \<longrightarrow> email_tries db' i (Suc n))"
    if s: "select_email env (pg_stamp env now) db1 = Some r"
      and r: "claim_email env now d r db1 = Inr (oc, db')" for r
  proof -
    obtain destination jb a k db2 where u: "update_jobs (\<lambda>x. row_id x = row_id r)
          (delivering_row (pg_token env 0) (pg_stamp env (now + d)) (pg_stamp env now)) db1
          = Inr (k, db2)"
      and ins: "insert_delivery (email_attempt (pg_token env 0) (row_id r) (pg_stamp env now) db2)
          db2 = Inr db'"
      and jb: "loadJob env db1 (row_id r) = Inr jb"
      and oc: "oc = Some \<lparr>dc_JobID = job_ID jb, dc_Token = pg_token env 0,
          dc_MessageID = MessageID (row_id r), dc_Destination = destination,
          dc_Title = email_title jb, dc_Artifact = a\<rparr>"
      using r by (auto simp: claim_email_def and_then_Inr exec_Inr scan_Inr split: option.splits)
    have r_in: "r \<in> set (db_jobs db1)" "email_live r"
      using s sort_slice_first [of email_before _ r]
      by (fastforce simp: select_email_def email_claimable_def email_live_def split: list.splits)+
    have distinct: "distinct (map row_id (db_jobs db1))"
      and tries: "\<And>x. x \<in> set (db_jobs db1) \<Longrightarrow> row_id x = i \<Longrightarrow> email_live x \<Longrightarrow>
          int n \<le> row_retries x"
      using n1 by (auto simp: email_tries_def)
    have counted: "int n \<le> row_retries x" if "x \<in> set (db_jobs db1)" "row_id x = row_id r" "row_id x = i"
      for x
      using row_by_id [OF distinct that(1) r_in(1) that(2)] tries r_in that by blast
    have same: "email_tries db' i m \<longleftrightarrow> email_tries db2 i m" for m
      by (simp add: email_tries_def insert_delivery_jobs [OF ins])
    have "email_tries db2 i n"
      by (rule update_tries [OF u])
         (use counted tries distinct in \<open>force simp: delivering_row_def\<close>)+
    moreover have "email_tries db2 i (Suc n)" if "i = row_id r"
      by (rule update_tries [OF u])
         (use counted distinct that in \<open>force simp: delivering_row_def\<close>)+
    ultimately show ?thesis using oc same loadJob_ID [OF jb] by auto
  qed
  show "email_tries db' i n" using rest n1 claim by (elim disjE exE conjE) auto
  show "oc = Some c \<Longrightarrow> i = dc_JobID c \<Longrightarrow> email_tries db' i (Suc n)"
    using rest claim by (elim disjE exE conjE) auto
qed

lemma report_body_tries:
  assumes "report_body env now c res db = Inr (Some db')" and n: "email_tries db i n"
  shows "email_tries db' i n" and "3 \<le> n \<Longrightarrow> waits_for_email db' i \<Longrightarrow> waits_for_email db i"
proof -
  obtain r plan db1 k t1 t2
    where r: "r \<in> set (db_jobs db)" "holds_email c (pg_stamp env now) r"
    and plan: "email_plan (dr_Outcome res) (row_retries r) = Some plan"
    and db1: "update_deliveries (\<lambda>d. er_id d = dc_Token c)
           (reported_attempt res (pg_stamp env now)) db = Inr db1"
    and u: "update_jobs (\<lambda>x. row_id x = dc_JobID c \<and> row_token x = Some (dc_Token c))
           (reported_row plan t1 t2) db1 = Inr (k, db')"
    by (rule report_body_cases [OF assms(1)]) blast
  have jobs: "db_jobs db1 = db_jobs db" by (rule update_deliveries_jobs [OF db1])
  have ids: "row_id (reported_row plan t1 t2 x) = row_id x"
    and retries: "row_retries (reported_row plan t1 t2 x) = row_retries x" for x
    by (simp_all add: reported_row_def split: prod.splits)
  have distinct: "distinct (map row_id (db_jobs db))"
    and tries: "\<And>x. x \<in> set (db_jobs db) \<Longrightarrow> row_id x = i \<Longrightarrow> email_live x \<Longrightarrow> int n \<le> row_retries x"
    using n by (auto simp: email_tries_def)
  have r_live: "email_live r" "row_id r = dc_JobID c"
    using r(2) by (auto simp: holds_email_def email_live_def)
  have counted: "int n \<le> row_retries x" if "x \<in> set (db_jobs db)" "row_id x = dc_JobID c" "row_id x = i"
    for x
    using row_by_id [OF distinct that(1) r(1)] tries r r_live that by metis
  show "email_tries db' i n"
    by (rule update_tries [OF u ids]) (use counted tries distinct jobs retries in auto)
  assume "3 \<le> n" and w: "waits_for_email db' i"
  show "waits_for_email db i"
  proof (cases "i = dc_JobID c")
    case True
    have "3 \<le> row_retries r" using counted [OF r(1) r_live(2)] True \<open>3 \<le> n\<close> r_live by simp
    then have "\<not> fst (snd plan)"
      using plan by (auto simp: email_plan_def Let_def split: if_splits)
    then have "waits_for_email db1 i"
      by (intro update_waits(1) [OF u ids _ w]) (auto simp: reported_row_def split: prod.splits)
    then show ?thesis by (simp add: waits_for_email_def jobs)
  next
    case False
    then have "waits_for_email db1 i"
      using w u ids by (auto simp: update_jobs_Inr waits_for_email_def split: if_splits)
    then show ?thesis by (simp add: waits_for_email_def jobs)
  qed
qed

interpretation pg_budget:
  delivery_budget "{pg_queue a b | a b. True}" waits_for_email email_tries
proof
  fix q d s r s' i n
  assume "q \<in> {pg_queue a b | a b. True}" and "dq_Claim q d s = (r, s')"
    and n: "email_tries s i n"
  then obtain a where "pg_ClaimDelivery a d s = (r, s')"
    by (auto simp: pg_queue_def)
  from ClaimDelivery_cases [OF this] n show "email_tries s' i n"
    using email_body_tries(1) by blast
next
  fix q d s c s' n
  assume "q \<in> {pg_queue a b | a b. True}" and "dq_Claim q d s = (Inr (Some c), s')"
    and n: "email_tries s (dc_JobID c) n"
  then obtain a where "pg_ClaimDelivery a d s = (Inr (Some c), s')"
    by (auto simp: pg_queue_def)
  from ClaimDelivery_cases [OF this] n show "email_tries s' (dc_JobID c) (Suc n)"
    using email_body_tries(2) by fastforce
next
  fix q c res s oe s' i n
  assume "q \<in> {pg_queue a b | a b. True}" and "dq_Finish q c res s = (oe, s')"
    and n: "email_tries s i n"
  then obtain b where "pg_FinishDelivery b c res s = (oe, s')"
    by (auto simp: pg_queue_def)
  from FinishDelivery_cases [OF this] n show "email_tries s' i n"
    using report_body_tries(1) by blast
next
  fix q c res s oe s' i
  assume "q \<in> {pg_queue a b | a b. True}" and "dq_Finish q c res s = (oe, s')"
    and n: "email_tries s i 3" and w: "waits_for_email s' i"
  then obtain b where "pg_FinishDelivery b c res s = (oe, s')"
    by (auto simp: pg_queue_def)
  from FinishDelivery_cases [OF this] w show "waits_for_email s i"
    using report_body_tries(2) [OF _ n] by auto
qed

end
