(* ===== verification/Delivery_Facts.thy ===== *)
theory Delivery_Facts
  imports Delivery
begin

section \<open>What an accepted message contains\<close>

text \<open>
  The line writer against a reference that inserts a line break after every 76th character,
  whatever the chunks it is handed; the bytes of a message that has been written without an
  error; and the order of the commands of a session.
\<close>

subsection \<open>Lines of 76 characters\<close>

fun wrap76 :: "nat \<Rightarrow> string \<Rightarrow> string" where
  "wrap76 column [] = []"
| "wrap76 column (c # cs) =
     (if column + 1 = 76 then c # crlf @ wrap76 0 cs else c # wrap76 (column + 1) cs)"

lemma wrap76_short: "column + length xs < 76 \<Longrightarrow>
    wrap76 column (xs @ ys) = xs @ wrap76 (column + length xs) ys"
  by (induction xs arbitrary: column) auto

lemma wrap76_full: "xs \<noteq> [] \<Longrightarrow> column + length xs = 76 \<Longrightarrow>
    wrap76 column (xs @ ys) = xs @ crlf @ wrap76 0 ys"
proof (induction xs arbitrary: column)
  case (Cons x xs)
  then show ?case by (cases "xs = []") auto
qed simp

lemma wrap76_append: "column < 76 \<Longrightarrow>
    wrap76 column (xs @ ys) = wrap76 column xs @ wrap76 ((column + length xs) mod 76) ys"
proof (induction xs arbitrary: column)
  case (Cons x xs)
  show ?case
  proof (cases "column + 1 = 76")
    case True
    then have "column = 75" by simp
    then show ?thesis using Cons.IH [of 0] by (simp add: mod_simps)
  next
    case False
    then show ?thesis using Cons.IH [of "column + 1"] Cons.prems by simp
  qed
qed simp

definition line_break :: "char \<Rightarrow> bool" where
  "line_break c \<longleftrightarrow> byte c = (10::nat) \<or> byte c = (13::nat)"

lemma filter_wrap76:
  "filter (\<lambda>c. \<not> line_break c) (wrap76 column p) = filter (\<lambda>c. \<not> line_break c) p"
  by (induction column p rule: wrap76.induct) (auto simp: crlf_def line_break_def)

text \<open>No line is longer than 76 characters.\<close>

lemma crlf_breaks [simp]: "line_break (char_of (13::nat))" "line_break (char_of (10::nat))"
  by (simp_all add: line_break_def of_char_of)

lemma wrap76_lines:
  assumes "column < 76" and "wrap76 column p = a @ b @ c" and "\<forall>x \<in> set b. \<not> line_break x"
  shows "length b \<le> (if a = [] then 76 - column else 76)"
  using assms
proof (induction column p arbitrary: a b rule: wrap76.induct)
  case (1 column)
  then show ?case by simp
next
  case (2 column x xs)
  show ?case
  proof (cases "column + 1 = 76")
    case True
    have str: "x # char_of (13::nat) # char_of (10::nat) # wrap76 0 xs = a @ b @ c"
      using "2.prems"(2) True by (simp add: crlf_def)
    have IH: "length b \<le> 76" if "wrap76 0 xs = a' @ b @ c" for a'
      using "2.IH"(1) [OF True _ that "2.prems"(3)] by (simp split: if_splits)
    show ?thesis
    proof (cases a)
      case Nil
      have "length b \<le> 1"
      proof (cases b)
        case (Cons y ys)
        then show ?thesis using str Nil "2.prems"(3) by (cases ys) auto
      qed simp
      then show ?thesis using Nil True by simp
    next
      case a1: (Cons y ys)
      show ?thesis
      proof (cases ys)
        case Nil
        then have "b = []" using str a1 "2.prems"(3) by (cases b) auto
        then show ?thesis by simp
      next
        case a2: (Cons z zs)
        show ?thesis
        proof (cases zs)
          case Nil
          then have "b = []" using str a1 a2 "2.prems"(3) by (cases b) auto
          then show ?thesis by simp
        next
          case (Cons u us)
          then show ?thesis using str a1 a2 IH by auto
        qed
      qed
    qed
  next
    case False
    then have col: "column + 1 < 76" using "2.prems"(1) by simp
    have str: "x # wrap76 (column + 1) xs = a @ b @ c" using "2.prems"(2) False by simp
    show ?thesis
    proof (cases a)
      case Nil
      show ?thesis
      proof (cases b)
        case (Cons y ys)
        have "length ys \<le> 76 - (column + 1)"
          using "2.IH"(2) [OF False col, of "[]" ys] str Nil Cons "2.prems"(3) by simp
        then show ?thesis using Nil Cons col by simp
      qed simp
    next
      case (Cons y ys)
      have "length b \<le> (if ys = [] then 76 - (column + 1) else 76)"
        using "2.IH"(2) [OF False col, of ys b] str Cons "2.prems"(3) by simp
      then show ?thesis using Cons by (auto split: if_splits)
    qed
  qed
qed

lemma lineWriter_ok:
  assumes "lineWriter_Write p k (column, s) = (n, None, (column', s'))" and "column < 76"
  shows "sink_bytes s' = sink_bytes s @ wrap76 column p \<and> column' = (column + length p) mod 76
    \<and> n = k + length p"
  using assms
proof (induction "length p" arbitrary: p k column s rule: less_induct)
  case less
  show ?case
  proof (cases p)
    case Nil
    then show ?thesis using less.prems by (simp add: lineWriter_Write.simps)
  next
    case (Cons x xs)
    define m where "m = min (length p) (76 - column)"
    have m: "0 < m" "m \<le> length p" "m \<le> 76 - column"
      using less.prems(2) Cons by (auto simp: m_def)
    have mC: "min (Suc (length xs)) (76 - column) = m" by (simp add: m_def Cons)
    obtain w oe s1 where w: "sink_write (take m p) s = (w, oe, s1)" by (metis prod_cases3)
    have run: "(case oe of
             Some e \<Rightarrow> (k + w, Some e, (column + w, s1))
           | None \<Rightarrow>
               if w \<noteq> m then (k + w, Some ErrShortWrite, (column + w, s1))
               else if column + w = 76
               then (case sink_write crlf s1 of
                       (_, Some e, s2) \<Rightarrow> (k + w, Some e, (column + w, s2))
                     | (_, None, s2) \<Rightarrow> lineWriter_Write (drop w p) (k + w) (0, s2))
               else lineWriter_Write (drop w p) (k + w) (column + w, s1))
        = (n, None, (column', s'))"
      using less.prems w mC unfolding Cons
      by (simp add: lineWriter_Write.simps(2) Let_def split del: if_split)
    have ok: "oe = None" "w = m"
      using run by (auto split: option.splits if_splits)
    have s1: "sink_bytes s1 = sink_bytes s @ take m p"
      using sink_write_ok w ok by blast
    have len: "length (take m p) = m" "length (drop m p) < length p" using m by auto
    show ?thesis
    proof (cases "column + m = 76")
      case True
      obtain w2 oe2 s2 where w2: "sink_write crlf s1 = (w2, oe2, s2)" by (metis prod_cases3)
      have rec: "lineWriter_Write (drop m p) (k + m) (0, s2) = (n, None, (column', s'))"
        and "oe2 = None"
        using run ok True w2 by (auto split: option.splits)
      then have s2: "sink_bytes s2 = sink_bytes s1 @ crlf" using sink_write_ok w2 by blast
      have "wrap76 column p = take m p @ crlf @ wrap76 0 (drop m p)"
        using wrap76_full [of "take m p" column "drop m p"] m True len Cons by auto
      moreover have "(column + length p) mod 76 = length (drop m p) mod 76"
        using True m by (metis add_diff_inverse_nat add.assoc length_drop mod_add_self1 not_less)
      ultimately show ?thesis
        using less.hyps [OF len(2) rec] s1 s2 m by simp
    next
      case False
      then have all: "m = length p" and col: "column + m < 76" using m by (auto simp: m_def)
      have rec: "lineWriter_Write (drop m p) (k + m) (column + m, s1) = (n, None, (column', s'))"
        using run ok False by simp
      have "wrap76 column p = p"
        using wrap76_short [of column p "[]"] col all by simp
      then show ?thesis using rec s1 all col by (simp add: lineWriter_Write.simps)
    qed
  qed
qed

lemma write_chunks_ok:
  assumes "write_chunks ps (column, s) = (None, (column', s'))" and "column < 76"
  shows "sink_bytes s' = sink_bytes s @ wrap76 column (concat ps)
    \<and> column' = (column + length (concat ps)) mod 76"
  using assms
proof (induction ps arbitrary: column s)
  case (Cons p ps)
  obtain n oe col1 s1 where w: "lineWriter_Write p 0 (column, s) = (n, oe, (col1, s1))"
    by (metis prod_cases4)
  then have oe: "oe = None" and rest: "write_chunks ps (col1, s1) = (None, (column', s'))"
    using Cons.prems(1) by (auto split: option.splits)
  note first = lineWriter_ok [OF w [unfolded oe] Cons.prems(2)]
  then have "col1 < 76" by simp
  from Cons.IH [OF rest this] first show ?case
    by (simp add: wrap76_append [OF Cons.prems(2)] mod_simps add.assoc)
qed simp

subsection \<open>The bytes of a message\<close>

lemma write_all_ok: "write_all p s = (None, s') \<Longrightarrow> sink_bytes s' = sink_bytes s @ p"
  by (auto simp: write_all_def dest: sink_write_ok split: prod.splits)

lemma b64_encode_append:
  "length xs mod 3 = 0 \<Longrightarrow> b64_encode a pad (xs @ ys) = b64_encode a pad xs @ b64_encode a pad ys"
  by (induction a pad xs rule: b64_encode.induct) (auto simp: mod_Suc split: if_splits)

lemma encoded_groups:
  "encoded_pdf (whole_groups bs) @ encoded_pdf (drop (length (whole_groups bs)) bs) = encoded_pdf bs"
proof -
  define n where "n = 3 * (length bs div 3)"
  have n: "n \<le> length bs" "n mod 3 = 0" by (simp_all add: n_def)
  have "b64_encode StdEncoding True (map byte (take n bs) @ map byte (drop n bs))
      = b64_encode StdEncoding True (map byte (take n bs))
        @ b64_encode StdEncoding True (map byte (drop n bs))"
    by (rule b64_encode_append) (use n in \<open>simp add: min_absorb2\<close>)
  moreover have "map byte (take n bs) @ map byte (drop n bs) = map byte bs"
    by (metis append_take_drop_id map_append)
  moreover have "length (whole_groups bs) = n" "whole_groups bs = take n bs"
    using n by (simp_all add: whole_groups_def n_def)
  ultimately show ?thesis by (simp add: encoded_pdf_def)
qed

lemma encoded_plain: "x \<in> set (encoded_pdf bs) \<Longrightarrow> \<not> line_break x"
  using b64_plain_text [of StdEncoding "map byte bs" x True]
  by (auto simp: encoded_pdf_def line_break_def b64_alphabet_def)

lemma attachment_decodes:
  "b64_decode StdEncoding True strict (wrap76 column (encoded_pdf bs)) = Some (map byte bs)"
proof -
  have "filter (\<lambda>c. byte c \<noteq> (10::nat) \<and> byte c \<noteq> (13::nat)) (wrap76 column (encoded_pdf bs))
      = encoded_pdf bs"
    using filter_wrap76 [of column "encoded_pdf bs"] encoded_plain [of _ bs]
    by (simp add: line_break_def filter_id_conv)
  moreover have "b64_decode StdEncoding True strict (encoded_pdf bs) = Some (map byte bs)"
    unfolding encoded_pdf_def by (rule b64_roundtrip) (auto simp: b64_alphabet_def)
  moreover have "filter (\<lambda>c. byte c \<noteq> (10::nat) \<and> byte c \<noteq> (13::nat)) (encoded_pdf bs) = encoded_pdf bs"
    using encoded_plain [of _ bs] by (simp add: line_break_def filter_id_conv)
  ultimately show ?thesis by (simp add: b64_decode_def)
qed

lemma write_pdf_ok:
  assumes "write_pdf me c pdf s = (None, s')" and "\<And>x. concat (me_chunks me x) = x"
  shows "sink_bytes s' = sink_bytes s @ wrap76 0 (encoded_pdf (pr_bytes pdf))"
    and "int (length (pr_bytes pdf)) = art_ByteSize (dc_Artifact c)" and "pr_error pdf = None"
proof -
  define limit where "limit = art_ByteSize (dc_Artifact c) + 1"
  define bs where "bs = take (nat limit) (pr_bytes pdf)"
  obtain oe col s1 where w:
      "write_chunks (me_chunks me (encoded_pdf (whole_groups bs))) (0, s) = (oe, (col, s1))"
    by (metis prod_cases3)
  have run: "oe = None" "int (length bs) = art_ByteSize (dc_Artifact c)"
      "int (length (pr_bytes pdf)) < limit \<Longrightarrow> pr_error pdf = None"
    and last: "\<exists>col'. write_chunks [encoded_pdf (drop (length (whole_groups bs)) bs)] (col, s1)
        = (None, (col', s'))"
    using assms(1) w unfolding write_pdf_def limit_def bs_def Let_def
    by (auto split: option.splits if_splits prod.splits)
  have all: "bs = pr_bytes pdf"
    using run(2) unfolding bs_def limit_def by (cases "pr_bytes pdf") (auto simp: min_def split: if_splits)
  then show size: "int (length (pr_bytes pdf)) = art_ByteSize (dc_Artifact c)" using run(2) by simp
  then show "pr_error pdf = None" using run(3) by (simp add: limit_def)
  obtain col' where last: "write_chunks [encoded_pdf (drop (length (whole_groups bs)) bs)] (col, s1)
        = (None, (col', s'))"
    using last by blast
  have 1: "sink_bytes s1 = sink_bytes s @ wrap76 0 (encoded_pdf (whole_groups bs))"
      "col = length (encoded_pdf (whole_groups bs)) mod 76"
    using write_chunks_ok [OF w [unfolded run(1)]] assms(2) by simp_all
  then have "col < 76" by simp
  from write_chunks_ok [OF last this] 1
  have "sink_bytes s' = sink_bytes s @ wrap76 0 (encoded_pdf (whole_groups bs))
      @ wrap76 (length (encoded_pdf (whole_groups bs)) mod 76)
          (encoded_pdf (drop (length (whole_groups bs)) bs))"
    by simp
  then show "sink_bytes s' = sink_bytes s @ wrap76 0 (encoded_pdf (pr_bytes pdf))"
    using wrap76_append [of 0 "encoded_pdf (whole_groups bs)"
        "encoded_pdf (drop (length (whole_groups bs)) bs)"]
    by (simp add: encoded_groups all)
qed

definition message_head :: "mime_env \<Rightarrow> string \<Rightarrow> delivery_claim \<Rightarrow> string" where
  "message_head me from c = mail_header me from c @ plain_part me @ body_text @ pdf_part me c"

lemma writeMessage_ok:
  assumes "writeMessage me from c pdf s = (None, s')" and "\<And>x. concat (me_chunks me x) = x"
  shows "sink_bytes s' = sink_bytes s @ message_head me from c
           @ wrap76 0 (encoded_pdf (pr_bytes pdf)) @ closing_boundary me"
    and "int (length (pr_bytes pdf)) = art_ByteSize (dc_Artifact c)" and "pr_error pdf = None"
proof -
  obtain s1 s2 s3 s4 s5
    where s1: "write_all (mail_header me from c) s = (None, s1)"
      and s2: "write_all (plain_part me) s1 = (None, s2)"
      and s3: "write_all body_text s2 = (None, s3)"
      and s4: "write_all (pdf_part me c) s3 = (None, s4)"
      and s5: "write_pdf me c pdf s4 = (None, s5)"
      and s6: "write_all (closing_boundary me) s5 = (None, s')"
    using assms(1) unfolding writeMessage_def by (auto split: prod.splits option.splits)
  note pdf = write_pdf_ok [OF s5 assms(2)]
  show "sink_bytes s' = sink_bytes s @ message_head me from c
           @ wrap76 0 (encoded_pdf (pr_bytes pdf)) @ closing_boundary me"
    using write_all_ok [OF s1] write_all_ok [OF s2] write_all_ok [OF s3] write_all_ok [OF s4]
      write_all_ok [OF s6] pdf(1)
    by (simp add: message_head_def)
  show "int (length (pr_bytes pdf)) = art_ByteSize (dc_Artifact c)" by (rule pdf(2))
  show "pr_error pdf = None" by (rule pdf(3))
qed

subsection \<open>Sessions\<close>

lemma classify_not_accepted: "dr_Outcome (classify e late) \<noteq> ''accepted''"
  by (auto simp: classify_def Let_def split: option.splits)

lemma submit_data_accepted:
  assumes "submit_data a late m = (r, evs)" and "dr_Outcome r = ''accepted''"
  shows "\<exists>s. m = (None, s) \<and> sa_Close a = None
           \<and> evs = [DataBytes (sink_bytes s), DataDone, Disconnected]"
proof (cases m)
  case (Pair oe s)
  then show ?thesis
    using assms classify_not_accepted
    by (cases oe; cases "sa_Close a") (auto simp: submit_data_def)
qed

lemma run_steps_clean: "run_steps steps = (None, evs) \<longleftrightarrow>
    list_all (\<lambda>x. snd x = None) steps \<and> evs = map fst steps"
proof (induction steps arbitrary: evs rule: run_steps.induct)
  case (3 ev rest)
  obtain oe evs' where "run_steps rest = (oe, evs')" by (cases "run_steps rest")
  then show ?case using "3.IH" [of evs'] "3.IH" [of "map fst rest"] by (cases oe) auto
qed auto

lemma run_steps_events: "run_steps steps = (None, evs) \<Longrightarrow> evs = map fst steps"
  by (simp add: run_steps_clean)

lemma run_steps_prefix: "run_steps steps = (oe, evs) \<Longrightarrow> \<exists>n. evs = take n (map fst steps)"
proof (induction steps arbitrary: evs rule: run_steps.induct)
  case (2 ev e rest)
  then show ?case by (intro exI [of _ 1]) auto
next
  case (3 ev rest)
  obtain evs' where "run_steps rest = (oe, evs')" "evs = ev # evs'"
    using "3.prems" by (auto split: prod.splits)
  with "3.IH" obtain n where "evs' = take n (map fst rest)" by blast
  then show ?case using \<open>evs = ev # evs'\<close> by (intro exI [of _ "Suc n"]) simp
qed simp

lemma transaction_accepted:
  assumes "transaction a sender destination late m = (r, evs)" and "dr_Outcome r = ''accepted''"
  shows "\<exists>s. m \<lparr>sink_bytes = '''', sink_limit = sa_limit a\<rparr> = (None, s) \<and> sa_Close a = None
           \<and> evs = [MailFrom sender, RcptTo destination, DataStart, DataBytes (sink_bytes s),
                    DataDone, Disconnected]"
proof -
  obtain oe evs1 where steps: "run_steps [(MailFrom sender, sa_Mail a),
      (RcptTo destination, sa_Rcpt a), (DataStart, sa_Data a)] = (oe, evs1)"
    by (cases "run_steps [(MailFrom sender, sa_Mail a),
      (RcptTo destination, sa_Rcpt a), (DataStart, sa_Data a)]")
  have oe: "oe = None"
    using assms steps classify_not_accepted
    unfolding transaction_def by (cases oe) (auto simp del: run_steps.simps)
  obtain r' evs2 where sub: "submit_data a late (m \<lparr>sink_bytes = '''', sink_limit = sa_limit a\<rparr>)
      = (r', evs2)"
    by (cases "submit_data a late (m \<lparr>sink_bytes = '''', sink_limit = sa_limit a\<rparr>)")
  have "r = r'" "evs = evs1 @ evs2"
    using assms(1) steps sub oe unfolding transaction_def by (simp_all del: run_steps.simps)
  then show ?thesis
    using submit_data_accepted [OF sub] assms(2) run_steps_events [OF steps [unfolded oe]] by auto
qed

end
