(* ===== verification/Delivery_Properties.thy ===== *)
theory Delivery_Properties
  imports Postgres_Delivery Delivery_Facts
begin

section \<open>Properties of the email delivery\<close>

text \<open>
  The claims about \<open>internal/delivery\<close> over the queue on PostgreSQL. The fixtures are a server
  that never fails and a job that waits to be sent.
\<close>

subsection \<open>A concrete server and queue\<close>

text \<open>A server without failures, and a ready job that waits to be sent.\<close>

definition quiet_pg :: pg_env where
  "quiet_pg = \<lparr>pg_fail = (\<lambda>op n. None), pg_commit = Committed, pg_clock = (\<lambda>n. 1000),
     pg_token = (\<lambda>n. ''token''), pg_locked = (\<lambda>i. False), pg_between = (\<lambda>db. db),
     pg_stamp = (\<lambda>t. t), pg_text_less = (<),
     pg_numeric = (\<lambda>x. case x of Fin q \<Rightarrow> Some q | _ \<Rightarrow> None), pg_numeric_text = (\<lambda>q. ''1''),
     pg_ParseFloat = (\<lambda>s. Some (Fin 1)), pg_ParseTime = (\<lambda>layout s. None),
     pg_FormatTime = (\<lambda>t. '''')\<rparr>"

definition demo_row :: job_row where
  "demo_row =
     \<lparr>row_id = ''j'', row_retry_of = None, row_submitted_url = Some ''https://a/'',
      row_canonical_url = None, row_title_hint = None, row_display_title = Some ''T'',
      row_profile = ''p'', row_status = StatusReady, row_stage = None, row_attempt_count = 1,
      row_version = 5, row_next_attempt = 10, row_category = None, row_message = None,
      row_correlation = ''c'', row_token = None, row_expires = None, row_created = 1,
      row_updated = 10, row_started = Some 2, row_completed = Some 10,
      row_destination = Some ''k@x'', row_pending = True, row_retries = 0, row_paused = False\<rparr>"

definition demo_artifact_row :: artifact_row where
  "demo_artifact_row =
     \<lparr>fr_id = ''a'', fr_job = ''j'', fr_content = None, fr_profile = ''p'', fr_path = ''j/x.pdf'',
      fr_filename = ''x.pdf'', fr_media = ''application/pdf'', fr_size = 3,
      fr_checksum = '''', fr_availability = ''available'', fr_created = 10\<rparr>"

definition demo_email_db :: pg_db where
  "demo_email_db = empty_db\<lparr>db_jobs := [demo_row], db_artifacts := [demo_artifact_row]\<rparr>"

lemma hex_char_ascii: "n < 16 \<Longrightarrow> byte (hex_char n) < (128::nat)"
  by (simp add: byte_hex_char)

lemma MessageID_ascii: "is_ascii (MessageID i)"
proof -
  have "byte y div 16 < (16::nat)" for y :: char
    by (rule less_mult_imp_div_less) simp
  then show ?thesis
    by (auto simp: MessageID_def is_ascii_def hex_encode_def hex_char_ascii)
qed

lemma MessageID_not_blank: "not_blank 512 (MessageID i)"
proof -
  have "Trim (MessageID i) '' '' = MessageID i"
    by (simp add: Trim_def MessageID_def)
  then show ?thesis
    by (simp add: not_blank_def char_length_def RuneCountInString_ascii [OF MessageID_ascii])
       (simp add: MessageID_def length_hex_encode)
qed

lemmas demo_email_defs = quiet_pg_def demo_row_def demo_artifact_row_def demo_email_db_def
  empty_db_def

lemma quiet_pg_simps [simp]:
  "pg_fail quiet_pg op n = None" "pg_commit quiet_pg = Committed" "pg_stamp quiet_pg t = t"
  "pg_clock quiet_pg n = 1000" "pg_token quiet_pg n = ''token''" "\<not> pg_locked quiet_pg i"
  "exec quiet_pg op n (Inr x) = Inr x"
  by (simp_all add: quiet_pg_def exec_def)

lemma not_blank_eval: "is_ascii s \<Longrightarrow> not_blank n s \<longleftrightarrow>
    1 \<le> length (Trim s '' '') \<and> length (Trim s '' '') \<le> n"
proof -
  assume "is_ascii s"
  moreover have "set (Trim s '' '') \<subseteq> set s" by (fastforce simp: Trim_def dest: set_dropWhileD)
  ultimately have "is_ascii (Trim s '' '')" by (auto simp: is_ascii_def)
  then show ?thesis by (simp add: not_blank_def char_length_def RuneCountInString_ascii Let_def)
qed

lemma demo_claim:
  "\<exists>c db'. pg_ClaimDelivery quiet_pg d demo_email_db = (Inr (Some c), db') \<and> dc_JobID c = ''j''
     \<and> dc_Artifact c = scanned_artifact demo_artifact_row \<and> waits_for_email db' ''j'' = False"
proof -
  have expire: "expireDeliveries quiet_pg 1000 demo_email_db = Inr demo_email_db"
    by (simp add: expireDeliveries_def update_jobs_def lease_ran_out_def demo_email_defs exec_def)
  have selected: "select_email quiet_pg 1000 demo_email_db = Some demo_row"
    by (simp add: select_email_def email_claimable_def demo_email_defs)
  define db1 where "db1 = demo_email_db\<lparr>db_jobs := [delivering_row ''token'' (1000 + d) 1000 demo_row]\<rparr>"
  have row: "row_ok (delivering_row ''token'' (1000 + d) 1000 demo_row)"
    by (simp add: row_ok_def delivering_row_def demo_row_def is_active_def not_blank_eval
        Trim_def is_ascii_def)
  have update: "update_jobs (\<lambda>x. row_id x = ''j'')
      (delivering_row ''token'' (1000 + d) 1000) demo_email_db = Inr (1, db1)"
    using row by (simp add: update_jobs_def db1_def demo_email_db_def empty_db_def)
      (simp add: demo_row_def)
  have attempt: "insert_delivery (email_attempt ''token'' ''j'' 1000 db1) db1
      = Inr (db1\<lparr>db_deliveries := [email_attempt ''token'' ''j'' 1000 db1]\<rparr>)"
    by (simp add: insert_delivery_def email_attempt_def delivery_row_ok_def MessageID_not_blank
        not_blank_eval is_ascii_def Trim_def next_number_def db1_def demo_email_db_def empty_db_def)
  have job: "\<exists>j. loadJob quiet_pg demo_email_db ''j'' = Inr j \<and> job_ID j = ''j''
      \<and> job_Artifact j = Some (scanned_artifact demo_artifact_row)"
    by (simp add: loadJob_def job_at_def scanJob_def bad_row_def artifact_of_def content_of_def
        scanned_job_def with_failure_def with_content_def demo_row_def demo_artifact_row_def
        demo_email_db_def empty_db_def)
  then obtain j where j: "loadJob quiet_pg demo_email_db ''j'' = Inr j" "job_ID j = ''j''"
      "job_Artifact j = Some (scanned_artifact demo_artifact_row)"
    by blast
  have r: "row_id demo_row = ''j''" "row_destination demo_row = Some ''k@x''"
    by (simp_all add: demo_row_def)
  have not_waiting: "\<not> waits_for_email (db1\<lparr>db_deliveries := ds\<rparr>) ''j''" for ds
    by (simp add: waits_for_email_def db1_def delivering_row_def)
  show ?thesis
    by (simp add: pg_ClaimDelivery_def email_body_def expire selected claim_email_def r scan_def
        j update attempt not_waiting)
qed

text \<open>One round against that server, and its sender.\<close>

definition demo_round :: "delivery_result \<Rightarrow> pg_db delivery_round" where
  "demo_round res =
     \<lparr>rd_queue = pg_queue quiet_pg quiet_pg, rd_Open = (\<lambda>a. Inr \<lparr>pr_bytes = ''abc'', pr_error = None\<rparr>),
      rd_Send = (\<lambda>c body. res), rd_others = (\<lambda>s. s), rd_stop = None\<rparr>"

lemma demo_sends: "round_sends t (demo_round res) demo_email_db = [(''j'', res)]"
proof -
  obtain c db' where "pg_ClaimDelivery quiet_pg (claim_duration t) demo_email_db = (Inr (Some c), db')"
      "dc_JobID c = ''j''"
    using demo_claim by blast
  then show ?thesis
    by (simp add: round_sends_def demo_round_def pg_queue_def send_claim_def)
qed

lemma demo_run_sends: "\<exists>after. run_sends t [demo_round res, demo_round res] demo_email_db = (''j'', res) # after"
  by (simp add: demo_sends split: prod.splits option.splits)

lemma demo_tries: "email_tries demo_email_db ''j'' 0"
  by (simp add: email_tries_def demo_email_defs)

subsection \<open>No delivery is repeated\<close>

text \<open>C27. No automatic resend. In every run of the delivery worker on the PostgreSQL queue,
  whatever its server answers and whatever else the system does short of queueing a delivery
  again, a job that was handed to the sender with any result but a transient failure (accepted,
  rejected, uncertain or unknown to the store) is never handed to the sender again.\<close>

theorem delivery_is_never_repeated:
  assumes "run_sends t rds db = before @ (i, res) # after"
    and "dr_Outcome res \<noteq> ''transient_failure''"
    and "list_all (\<lambda>rd. (\<exists>a b. rd_queue rd = pg_queue a b)
           \<and> (\<forall>s i. waits_for_email (rd_others rd s) i \<longrightarrow> waits_for_email s i)) rds"
  shows "i \<notin> fst ` set after"
  using pg_email.settled_is_never_resent [OF assms(1,2)] assms(3)
  by (auto simp: list_all_iff)

theorem delivery_is_never_repeated_witness:
  "\<exists>after. run_sends 0 [demo_round accepted, demo_round accepted] demo_email_db
      = [] @ (''j'', accepted) # after \<and> ''j'' \<notin> fst ` set after"
proof -
  obtain after where run: "run_sends 0 [demo_round accepted, demo_round accepted] demo_email_db
      = [] @ (''j'', accepted) # after"
    using demo_run_sends [of 0 accepted] by auto
  have "''j'' \<notin> fst ` set after"
    by (rule delivery_is_never_repeated [OF run])
       (auto simp: demo_round_def accepted_def pg_queue_def)
  then show ?thesis using run by blast
qed

text \<open>C28. The retry budget. A job whose delivery was just queued (its attempts are zero) is
  handed to the sender at most three times, however long the worker runs and whatever its
  server and the rest of the system do short of queueing it again or forgetting attempts.\<close>

theorem delivery_retries_are_bounded:
  assumes "email_tries db i 0"
    and "list_all (\<lambda>rd. (\<exists>a b. rd_queue rd = pg_queue a b)
           \<and> (\<forall>s i. waits_for_email (rd_others rd s) i \<longrightarrow> waits_for_email s i)
           \<and> (\<forall>s i n. email_tries s i n \<longrightarrow> email_tries (rd_others rd s) i n)) rds"
  shows "length (filter (\<lambda>x. fst x = i) (run_sends t rds db)) \<le> 3"
  using pg_budget.sends_are_bounded [of rds db i 0 t] assms by (auto simp: list_all_iff)

theorem delivery_retries_are_bounded_witness:
  "round_sends 0 (demo_round (classify DeadlineExceeded False)) demo_email_db
     = [(''j'', classify DeadlineExceeded False)]
   \<and> length (filter (\<lambda>x. fst x = ''j'')
       (run_sends 0 (replicate 9 (demo_round (classify DeadlineExceeded False))) demo_email_db)) \<le> 3"
  using demo_sends delivery_retries_are_bounded [OF demo_tries,
      of "replicate 9 (demo_round (classify DeadlineExceeded False))" 0]
  by (auto simp: list_all_iff demo_round_def pg_queue_def)

subsection \<open>What acceptance means\<close>

text \<open>C30. Acceptance. \<open>Send\<close> reports a message as accepted only if the server confirmed the end
  of the data, and then the session carried exactly one message: its attachment decodes to the
  stored PDF, all of it and of the recorded size, in lines of at most 76 characters; it was sent
  from the configured sender to the address of the claim.\<close>

theorem accepted_message_carries_the_pdf:
  assumes "Send parse a me c claim pdf = (r, evs)" and "dr_Outcome r = ''accepted''"
    and "\<And>x. concat (me_chunks me x) = x"
  shows "\<exists>before b. evs = before @ [MailFrom (sc_Sender c), RcptTo (dc_Destination claim), DataStart,
            DataBytes (message_head me (sc_Sender c) claim @ b @ closing_boundary me),
            DataDone, Disconnected]
       \<and> sa_Close a = None
       \<and> b64_decode StdEncoding True True b = Some (map byte (pr_bytes pdf))
       \<and> int (length (pr_bytes pdf)) = art_ByteSize (dc_Artifact claim) \<and> pr_error pdf = None
       \<and> (\<forall>x y z. b = x @ y @ z \<and> (\<forall>k \<in> set y. \<not> line_break k) \<longrightarrow> length y \<le> 76)"
proof -
  define tr where "tr = transaction a (sc_Sender c) (dc_Destination claim) False
      (writeMessage me (sc_Sender c) claim pdf)"
  have session: "in_session a c tr = (r, evs)"
    using assms(1,2) by (auto simp: Send_def tr_def split: if_splits)
  obtain before evs' where tr: "tr = (r, evs')" and evs: "evs = before @ evs'"
  proof (cases "smtp_connect a c")
    case (Pair oe before)
    show ?thesis
    proof (cases oe)
      case None
      then show ?thesis using that session Pair by (cases tr) (auto simp: in_session_def)
    next
      case (Some e)
      then show ?thesis using session Pair assms(2) classify_not_accepted by (auto simp: in_session_def)
    qed
  qed
  obtain s where s: "writeMessage me (sc_Sender c) claim pdf
        \<lparr>sink_bytes = '''', sink_limit = sa_limit a\<rparr> = (None, s)" "sa_Close a = None"
      "evs' = [MailFrom (sc_Sender c), RcptTo (dc_Destination claim), DataStart,
               DataBytes (sink_bytes s), DataDone, Disconnected]"
    using transaction_accepted [OF tr [unfolded tr_def] assms(2)] by blast
  note message = writeMessage_ok [OF s(1) assms(3)]
  have lines: "length y \<le> 76"
    if "wrap76 0 (encoded_pdf (pr_bytes pdf)) = x @ y @ z" "\<forall>k \<in> set y. \<not> line_break k" for x y z
    using wrap76_lines [OF _ that] by (auto split: if_splits)
  show ?thesis
    by (rule exI [of _ before], rule exI [of _ "wrap76 0 (encoded_pdf (pr_bytes pdf))"])
       (use evs s message lines attachment_decodes in auto)
qed

definition demo_config :: smtp_config where
  "demo_config = \<lparr>sc_Enabled = True, sc_Host = ''mail'', sc_Port = 587, sc_TLSMode = ''starttls'',
     sc_Username = ''u'', sc_Password = ''p'', sc_Sender = ''s@x'', sc_Destination = ''k@x'',
     sc_Timeout = Second\<rparr>"

definition demo_answers :: smtp_answers where
  "demo_answers = \<lparr>sa_Dial = None, sa_Handshake = None, sa_NewClient = None, sa_StartTLS = None,
     sa_Auth = None, sa_Mail = None, sa_Rcpt = None, sa_Data = None, sa_limit = None,
     sa_Close = None\<rparr>"

definition demo_mime :: mime_env where
  "demo_mime = \<lparr>me_QEncode = (\<lambda>s. s), me_Disposition = (\<lambda>s. ''attachment''), me_Date = ''today'',
     me_Boundary = ''b'', me_chunks = (\<lambda>s. [s])\<rparr>"

definition demo_claim_value :: delivery_claim where
  "demo_claim_value = \<lparr>dc_JobID = ''j'', dc_Token = ''t'', dc_MessageID = ''<m>'',
     dc_Destination = ''k@x'', dc_Title = ''T'', dc_Artifact = scanned_artifact demo_artifact_row\<rparr>"

definition demo_pdf :: pdf_reader where
  "demo_pdf = \<lparr>pr_bytes = ''abc'', pr_error = None\<rparr>"

lemma write_all_unlimited: "sink_limit s = None \<Longrightarrow>
    write_all p s = (None, s\<lparr>sink_bytes := sink_bytes s @ p\<rparr>)"
  by (simp add: write_all_def sink_write_def)

lemma not_crlf: "byte c \<noteq> n \<Longrightarrow> n < 256 \<Longrightarrow> (c = char_of (n::nat)) = False"
  by (auto simp: of_char_of)

lemma demo_address: "validAddress Some ''k@x''" "validAddress Some ''s@x''"
  by (simp_all add: validAddress_def crlf_def isASCII_def go_string_eval string_runes_def
      runes_is_ascii is_ascii_def not_crlf)

lemma demo_write_pdf: "sink_limit s = None \<Longrightarrow>
    \<exists>s'. write_pdf demo_mime demo_claim_value demo_pdf s = (None, s') \<and> sink_limit s' = None"
  by (simp add: write_pdf_def demo_mime_def demo_claim_value_def demo_pdf_def scanned_artifact_def
      demo_artifact_row_def whole_groups_def encoded_pdf_def lineWriter_Write.simps sink_write_def)

lemma demo_send: "\<exists>evs. Send Some demo_answers demo_mime demo_config demo_claim_value demo_pdf
    = (accepted, evs)"
proof -
  have "\<exists>s'. writeMessage demo_mime ''s@x'' demo_claim_value demo_pdf
      \<lparr>sink_bytes = '''', sink_limit = None\<rparr> = (None, s')"
  proof -
    obtain s' where "write_pdf demo_mime demo_claim_value demo_pdf
        \<lparr>sink_bytes = message_head demo_mime ''s@x'' demo_claim_value, sink_limit = None\<rparr> = (None, s')"
        "sink_limit s' = None"
      using demo_write_pdf [of "\<lparr>sink_bytes = message_head demo_mime ''s@x'' demo_claim_value,
          sink_limit = None\<rparr>"]
      by auto
    then show ?thesis by (simp add: writeMessage_def write_all_unlimited message_head_def)
  qed
  then show ?thesis
    using demo_address
    by (auto simp: Send_def demo_claim_value_def demo_config_def demo_answers_def in_session_def
        smtp_connect_def connect_steps_def tls_failure_def transaction_def submit_data_def)
qed

theorem accepted_message_carries_the_pdf_witness:
  "\<exists>evs. Send Some demo_answers demo_mime demo_config demo_claim_value demo_pdf = (accepted, evs)
     \<and> (\<exists>before b. evs = before @ [MailFrom ''s@x'', RcptTo ''k@x'', DataStart,
            DataBytes (message_head demo_mime ''s@x'' demo_claim_value @ b @ closing_boundary demo_mime),
            DataDone, Disconnected]
          \<and> b64_decode StdEncoding True True b = Some (map byte ''abc''))"
proof -
  obtain evs where s: "Send Some demo_answers demo_mime demo_config demo_claim_value demo_pdf
      = (accepted, evs)"
    using demo_send by blast
  have "dr_Outcome accepted = ''accepted''" "\<And>x. concat (me_chunks demo_mime x) = x"
    by (simp_all add: accepted_def demo_mime_def)
  from accepted_message_carries_the_pdf [OF s this] s show ?thesis
    by (auto simp: demo_config_def demo_claim_value_def demo_pdf_def)
qed

subsection \<open>Credentials\<close>

fun is_auth :: "smtp_event \<Rightarrow> bool" where
  "is_auth (Auth u p) = True"
| "is_auth _ = False"

lemma transaction_no_auth: "\<not> list_ex is_auth (snd (transaction a sender destination late m))"
  by (cases "m \<lparr>sink_bytes = '''', sink_limit = sa_limit a\<rparr>"; cases "sa_Mail a"; cases "sa_Rcpt a";
      cases "sa_Data a"; cases "sa_Close a"; cases "fst (m \<lparr>sink_bytes = '''', sink_limit = sa_limit a\<rparr>)")
     (auto simp: transaction_def submit_data_def)

text \<open>What happens before the first command that authenticates.\<close>

lemma connect_auth:
  assumes "run_steps (connect_steps a c) = (oe, evs)" and "list_ex is_auth evs"
  shows "sc_Username c \<noteq> '''' \<and> (\<exists>before. takeWhile (\<lambda>e. \<not> is_auth e) (evs @ rest) = before
       \<and> (sc_TLSMode c = ''implicit_tls'' \<longrightarrow> TLSHandshake (sc_Host c) \<in> set before \<and> sa_Handshake a = None)
       \<and> (sc_TLSMode c = ''starttls'' \<longrightarrow> StartTLS (sc_Host c) \<in> set before \<and> sa_StartTLS a = None))"
  using assms
  by (cases "sa_Dial a"; cases "sa_Handshake a"; cases "sa_NewClient a"; cases "sa_StartTLS a")
     (auto simp: connect_steps_def tls_failure_def split: if_splits prod.splits)

text \<open>C31. Credentials. A sender built from a validated configuration authenticates, in a
  delivery, a test message or a connection test, only after a successful TLS handshake with the
  configured host; a connection test sends no mail command at all.\<close>

theorem credentials_only_under_tls:
  assumes "NewSMTP parse c0 = Inr c"
    and "session \<in> {snd (Send parse a me c claim pdf), snd (SendTest a c), snd (TestConnection a c)}"
    and "list_ex is_auth session"
  shows "\<exists>e \<in> set (takeWhile (\<lambda>e. \<not> is_auth e) session).
      (e = TLSHandshake (sc_Host c) \<and> sa_Handshake a = None)
      \<or> (e = StartTLS (sc_Host c) \<and> sa_StartTLS a = None)"
proof -
  have modes: "sc_Username c \<noteq> '''' \<Longrightarrow> sc_TLSMode c = ''implicit_tls'' \<or> sc_TLSMode c = ''starttls''"
    using assms(1) by (auto simp: NewSMTP_def config_Validate_def split: if_splits option.splits)
  obtain oe evs where steps: "run_steps (connect_steps a c) = (oe, evs)"
    by (cases "run_steps (connect_steps a c)")
  have connect: "\<exists>rest. snd (smtp_connect a c) = evs @ rest \<and> \<not> list_ex is_auth rest"
    using steps by (cases oe) (auto simp: smtp_connect_def)
  have session: "\<exists>rest. snd (in_session a c body) = evs @ rest \<and> \<not> list_ex is_auth rest"
    if "\<not> list_ex is_auth (snd body)" for body
    using connect that
    by (cases "smtp_connect a c"; cases "fst (smtp_connect a c)"; cases body)
       (auto simp: in_session_def)
  have "\<exists>rest. session = evs @ rest \<and> \<not> list_ex is_auth rest \<or> session = []"
    using assms(2) connect session [OF transaction_no_auth]
    by (cases "smtp_connect a c"; cases "fst (smtp_connect a c)")
       (auto simp: Send_def SendTest_def TestConnection_def)
  then obtain rest where rest: "session = evs @ rest" "\<not> list_ex is_auth rest"
    using assms(3) by auto
  then have "list_ex is_auth evs" using assms(3) by simp
  from connect_auth [OF steps this, of rest] show ?thesis
    using modes rest(1) by auto
qed

lemma demo_new: "NewSMTP Some demo_config = Inr demo_config"
proof -
  have "\<not> ContainsAny ''mail'' (crlf @ '' /@'')"
    by (simp add: ContainsAny_def crlf_def go_string_eval runes_is_ascii is_ascii_def not_crlf)
  then show ?thesis
    using demo_address
    by (simp add: NewSMTP_def config_Validate_def demo_config_def duration_defs)
qed

theorem credentials_only_under_tls_witness:
  "list_ex is_auth (snd (TestConnection demo_answers demo_config))
   \<and> (\<exists>e \<in> set (takeWhile (\<lambda>e. \<not> is_auth e) (snd (TestConnection demo_answers demo_config))).
      (e = TLSHandshake ''mail'' \<and> sa_Handshake demo_answers = None)
      \<or> (e = StartTLS ''mail'' \<and> sa_StartTLS demo_answers = None))"
proof -
  have auth: "list_ex is_auth (snd (TestConnection demo_answers demo_config))"
    by (simp add: TestConnection_def smtp_connect_def connect_steps_def demo_answers_def
        demo_config_def tls_failure_def)
  have host: "sc_Host demo_config = ''mail''" by (simp add: demo_config_def)
  have "snd (TestConnection demo_answers demo_config)
      \<in> {snd (Send Some demo_answers demo_mime demo_config demo_claim_value demo_pdf),
         snd (SendTest demo_answers demo_config), snd (TestConnection demo_answers demo_config)}"
    by simp
  from credentials_only_under_tls [OF demo_new this auth] auth show ?thesis by (simp add: host)
qed

subsection \<open>Trouble with TLS\<close>

text \<open>Trouble with TLS is final. Whatever stops the STARTTLS exchange, a server that is busy
  for the moment (454), a connection that drops or a deadline, \<open>Send\<close> reports it as rejected
  with the code 550; the queue then fails the delivery for good on the first attempt.\<close>

theorem tls_trouble_is_permanent:
  assumes "validAddress parse (dc_Destination claim)" and "sc_TLSMode c = ''starttls''"
    and "sa_Dial a = None" and "sa_NewClient a = None" and "sa_StartTLS a = Some e"
  shows "fst (Send parse a me c claim pdf) = \<lparr>dr_Outcome = ''rejected'', dr_Code = ''550''\<rparr>
      \<and> email_plan (dr_Outcome (fst (Send parse a me c claim pdf))) retries
      = Some (StatusDeliveryFailed, False,
              Some (FailureDeliveryRejected, ''Email delivery was rejected''))"
proof -
  have code550: "Itoa 550 = ''550''" by code_simp
  have "errors_As_SMTP (SMTPReply 550 ''TLS verification failed'') = Some 550"
    by (subst errors_As_SMTP.simps) simp
  then have classified: "classify (SMTPReply 550 ''TLS verification failed'') False
      = \<lparr>dr_Outcome = ''rejected'', dr_Code = ''550''\<rparr>"
    by (simp add: classify_def code550)
  have sent: "fst (Send parse a me c claim pdf) = \<lparr>dr_Outcome = ''rejected'', dr_Code = ''550''\<rparr>"
    using assms
    by (simp add: Send_def in_session_def smtp_connect_def connect_steps_def tls_failure_def classified)
  then show ?thesis by (simp add: email_plan_def)
qed

theorem tls_trouble_is_permanent_witness:
  "fst (Send Some (demo_answers\<lparr>sa_StartTLS := Some (SMTPReply 454 ''busy'')\<rparr>) demo_mime demo_config
        demo_claim_value demo_pdf) = \<lparr>dr_Outcome = ''rejected'', dr_Code = ''550''\<rparr>"
  by (rule tls_trouble_is_permanent [THEN conjunct1])
     (use demo_address in \<open>simp_all add: demo_claim_value_def demo_config_def demo_answers_def\<close>)

end
