(* ===== verification/Postgres_Attempts.thy ===== *)
theory Postgres_Attempts
  imports Postgres_Store AI_Approval
begin

section \<open>The durable record of AI calls\<close>

text \<open>
  \<open>RecordAIAttempts\<close> of \<open>internal/postgres/store.go\<close>: all attempts of one analysis in one
  transaction, numbered per purpose after those already on record. The owning job is locked, so
  the numbering of concurrent workers does not interleave.
\<close>

definition attempt_row :: "pg_env \<Rightarrow> job_id \<Rightarrow> nat \<Rightarrow> string \<Rightarrow> int \<Rightarrow> ai_attempt \<Rightarrow> ai_row" where
  "attempt_row env i n purpose number a =
     \<lparr>tr_id = pg_token env n, tr_job = i, tr_purpose = purpose, tr_number = number,
      tr_model = aa_Model a, tr_prompt = aa_PromptVersion a,
      tr_latency = (if aa_Latency a < 0 then 0 else aa_Latency a div Millisecond),
      tr_request = nullableString (aa_ProviderRequestID a),
      tr_input = nullableTokenCount (aa_InputTokens a) (aa_UsageReported a),
      tr_output = nullableTokenCount (aa_OutputTokens a) (aa_UsageReported a),
      tr_status = aa_Status a, tr_category = nullableString (aa_ErrorCategory a),
      tr_created = pg_stamp env (if time_IsZero (aa_CreatedAt a) then pg_clock env n
                                 else aa_CreatedAt a)\<rparr>"

definition numbers_of :: "pg_db \<Rightarrow> job_id \<Rightarrow> string \<Rightarrow> int list" where
  "numbers_of db i purpose =
     map tr_number (filter (\<lambda>x. tr_job x = i \<and> tr_purpose x = purpose) (db_attempts db))"

text \<open>\<open>nexts\<close> is the Go map \<open>next\<close>, with zero for a purpose that has not been asked for.\<close>

fun record_loop ::
  "pg_env \<Rightarrow> job_id \<Rightarrow> nat \<Rightarrow> (string \<Rightarrow> int) \<Rightarrow> ai_attempt list \<Rightarrow> string list \<Rightarrow> pg_db
     \<Rightarrow> error + string list \<times> pg_db" where
  "record_loop env i n nexts [] ids db = Inr (ids, db)"
| "record_loop env i n nexts (a # as) ids db =
     (let purpose = TrimSpace (aa_Purpose a)
      in if purpose \<noteq> ''analysis'' \<and> purpose \<noteq> ''repair''
         then Inl (databaseFailure ''record AI attempts'')
         else and_then (if nexts purpose = 0
                        then exec env ''number AI attempt'' n (Inr (next_number (numbers_of db i purpose)))
                        else Inr (nexts purpose))
           (\<lambda>k. and_then (exec env ''record AI attempt'' n
                  (insert_ai_row (attempt_row env i n purpose k a) db))
             (\<lambda>db'. record_loop env i (Suc n) (nexts(purpose := k + 1)) as
                      (ids @ [pg_token env n]) db')))"

definition pg_RecordAIAttempts ::
  "pg_env \<Rightarrow> ctx \<Rightarrow> job_id \<Rightarrow> ai_attempt list \<Rightarrow> pg_db \<Rightarrow> (string list, pg_db) outcome" where
  "pg_RecordAIAttempts env c i attempts db =
     (case contextErr c of
        Some e \<Rightarrow> (Inl e, db)
      | None \<Rightarrow>
          if TrimSpace i = '''' \<or> attempts = []
          then (Inl (databaseFailure ''record AI attempts''), db)
          else run_tx env ''begin AI attempts'' ''commit AI attempts''
                 (\<lambda>db. and_then (query_row env ''lock AI attempt job'' ErrLeaseLost (job_at db i))
                    (\<lambda>_. record_loop env i 0 (\<lambda>p. 0) attempts [] db)) db)"

subsection \<open>Numbering\<close>

text \<open>The attempts on record for a purpose are numbered from one without a gap.\<close>

definition numbered :: "pg_db \<Rightarrow> bool" where
  "numbered db \<longleftrightarrow> (\<forall>i purpose. \<exists>n. numbers_of db i purpose = map int [1..<Suc n])"

lemma next_number_upto: "next_number (map int [1..<Suc n]) = int n + 1"
proof (cases n)
  case (Suc m)
  have "Max (set (map int [1..<Suc n])) = int n"
    using Suc by (intro Max_eqI) auto
  then show ?thesis using Suc by (simp add: next_number_def)
qed (simp add: next_number_def)

lemma insert_ai_row_numbers:
  assumes "insert_ai_row r db = Inr db'"
  shows "numbers_of db' i p =
      numbers_of db i p @ (if tr_job r = i \<and> tr_purpose r = p then [tr_number r] else [])"
    and "db_jobs db' = db_jobs db" and "db_content db' = db_content db"
    and "db_artifacts db' = db_artifacts db" and "db_idem db' = db_idem db"
    and "db_attempts db' = db_attempts db @ [r]"
  using assms by (auto simp: insert_ai_row_def numbers_of_def split: if_splits)

lemma record_loop_ok:
  assumes "record_loop env i n nexts attempts ids db = Inr (ids', db')"
    and "numbered db"
    and "\<And>p. nexts p \<noteq> 0 \<Longrightarrow> nexts p = int (length (numbers_of db i p)) + 1"
  shows "numbered db' \<and> db_jobs db' = db_jobs db \<and> db_content db' = db_content db
    \<and> db_artifacts db' = db_artifacts db \<and> db_idem db' = db_idem db
    \<and> (\<exists>rows. db_attempts db' = db_attempts db @ rows \<and> ids' = ids @ map tr_id rows
         \<and> map tr_purpose rows = map (\<lambda>a. TrimSpace (aa_Purpose a)) attempts
         \<and> map tr_model rows = map aa_Model attempts
         \<and> (\<forall>r \<in> set rows. tr_job r = i \<and> ai_row_ok r))"
  using assms
proof (induction attempts arbitrary: n nexts ids db)
  case Nil
  then show ?case by auto
next
  case (Cons a as)
  define purpose where "purpose = TrimSpace (aa_Purpose a)"
  obtain k db1
    where k: "(if nexts purpose = 0 then exec env ''number AI attempt'' n
                 (Inr (next_number (numbers_of db i purpose))) else Inr (nexts purpose)) = Inr k"
      and ins: "insert_ai_row (attempt_row env i n purpose k a) db = Inr db1"
      and rest: "record_loop env i (Suc n) (nexts(purpose := k + 1)) as (ids @ [pg_token env n]) db1
        = Inr (ids', db')"
    using Cons.prems(1) unfolding record_loop.simps Let_def purpose_def [symmetric]
    by (auto simp: and_then_Inr exec_Inr simp del: record_loop.simps split: if_splits)
  obtain m where m: "numbers_of db i purpose = map int [1..<Suc m]"
    using Cons.prems(2) unfolding numbered_def by blast
  have km: "k = int m + 1"
    using k Cons.prems(3) [of purpose] m next_number_upto [of m]
    by (auto simp: exec_Inr split: if_splits)
  note facts = insert_ai_row_numbers [OF ins]
  have "numbered db1"
    unfolding numbered_def
  proof (intro allI)
    fix j p
    show "\<exists>n. numbers_of db1 j p = map int [1..<Suc n]"
    proof (cases "j = i \<and> p = purpose")
      case True
      then have "numbers_of db1 j p = map int [1..<Suc (Suc m)]"
        using m km facts(1) [of i purpose] by (simp add: attempt_row_def)
      then show ?thesis by blast
    next
      case False
      then have "numbers_of db1 j p = numbers_of db j p"
        using facts(1) [of j p] by (auto simp: attempt_row_def)
      then show ?thesis using Cons.prems(2) by (simp add: numbered_def)
    qed
  qed
  moreover have "(nexts(purpose := k + 1)) p = int (length (numbers_of db1 i p)) + 1"
    if "(nexts(purpose := k + 1)) p \<noteq> 0" for p
    using that Cons.prems(3) [of p] facts(1) [of i p] m km
    by (auto simp: attempt_row_def split: if_splits)
  ultimately have IH: "numbered db' \<and> db_jobs db' = db_jobs db1 \<and> db_content db' = db_content db1
    \<and> db_artifacts db' = db_artifacts db1 \<and> db_idem db' = db_idem db1
    \<and> (\<exists>rows. db_attempts db' = db_attempts db1 @ rows
         \<and> ids' = (ids @ [pg_token env n]) @ map tr_id rows
         \<and> map tr_purpose rows = map (\<lambda>a. TrimSpace (aa_Purpose a)) as
         \<and> map tr_model rows = map aa_Model as
         \<and> (\<forall>r \<in> set rows. tr_job r = i \<and> ai_row_ok r))"
    by (intro Cons.IH [OF rest]) auto
  then obtain rows where rows: "db_attempts db' = db_attempts db1 @ rows"
      "ids' = (ids @ [pg_token env n]) @ map tr_id rows"
      "map tr_purpose rows = map (\<lambda>a. TrimSpace (aa_Purpose a)) as"
      "map tr_model rows = map aa_Model as" "\<forall>r \<in> set rows. tr_job r = i \<and> ai_row_ok r"
    by blast
  define r where "r = attempt_row env i n purpose k a"
  have r: "tr_id r = pg_token env n" "tr_job r = i" "tr_purpose r = TrimSpace (aa_Purpose a)"
      "tr_model r = aa_Model a" "ai_row_ok r"
    using ins by (simp_all add: r_def attempt_row_def purpose_def insert_ai_row_def split: if_splits)
  have "db_attempts db' = db_attempts db @ r # rows"
    using rows(1) facts(6) by (simp add: r_def)
  then show ?case
    using IH facts(2-5) rows(2-5) r by (intro conjI exI [of _ "r # rows"]) auto
qed

lemma pg_RecordAIAttempts_cases:
  assumes "pg_RecordAIAttempts env c i attempts db = (r, db')"
  shows "db' = db \<or> (\<exists>ids. record_loop env i 0 (\<lambda>p. 0) attempts [] db = Inr (ids, db')
           \<and> (r = Inr ids \<or> (\<exists>e. r = Inl e)))"
  using assms
  by (auto simp: pg_RecordAIAttempts_def run_tx_def and_then_Inr
      split: option.splits if_splits sum.splits commit_answer.splits)

end
