(* ===== verification/Postgres_Facts.thy ===== *)
theory Postgres_Facts
  imports Postgres_Attempts Postgres_Delivery
begin

section \<open>The invariant of the PostgreSQL tables\<close>

text \<open>
  What every operation of the store keeps, whatever the server answers: the constraints on
  every row of the jobs table, the uniqueness of ids and idempotency keys, idempotency records
  that name a job, consecutive attempt numbers, and a document with an available artifact for
  every job that has been published.
\<close>

definition row_published :: "status \<Rightarrow> bool" where
  "row_published st \<longleftrightarrow>
     st \<in> {StatusReady, StatusDelivering, StatusDelivered, StatusDeliveryFailed}"

definition has_document :: "pg_db \<Rightarrow> job_row \<Rightarrow> bool" where
  "has_document db r \<longleftrightarrow>
     (\<exists>c \<in> set (db_content db). cr_job c = row_id r)
     \<and> (\<exists>a \<in> set (db_artifacts db). fr_job a = row_id r \<and> fr_profile a = row_profile r
           \<and> fr_availability a = ''available'')"

definition idem_keys :: "pg_db \<Rightarrow> (string \<times> string) list" where
  "idem_keys db = map (\<lambda>i. (ir_scope i, ir_key i)) (db_idem db)"

definition pg_inv :: "pg_db \<Rightarrow> bool" where
  "pg_inv db \<longleftrightarrow>
     distinct (map row_id (db_jobs db))
     \<and> (\<forall>r \<in> set (db_jobs db). row_ok r)
     \<and> (\<forall>r \<in> set (db_jobs db). row_published (row_status r) \<longrightarrow> has_document db r)
     \<and> distinct (idem_keys db)
     \<and> (\<forall>i \<in> set (db_idem db). ir_job i \<in> row_id ` set (db_jobs db))
     \<and> numbered db"

lemma pg_inv_empty: "pg_inv empty_db"
  by (simp add: pg_inv_def empty_db_def idem_keys_def numbered_def numbers_of_def
      exI [of _ "0::nat"])

subsection \<open>Statements\<close>

lemma numbers_of_jobs [simp]: "numbers_of (db\<lparr>db_jobs := js\<rparr>) i p = numbers_of db i p"
  by (simp add: numbers_of_def)

lemma update_inv:
  assumes "pg_inv db" and u: "update_jobs P f db = Inr (n, db')"
    and ids: "\<And>r. row_id (f r) = row_id r" "\<And>r. row_profile (f r) = row_profile r"
    and published: "\<And>r. r \<in> set (db_jobs db) \<Longrightarrow> P r \<Longrightarrow> row_published (row_status (f r)) \<Longrightarrow>
      row_published (row_status r) \<or> has_document db r"
  shows "pg_inv db'"
proof -
  define g where "g = (\<lambda>r. if P r then f r else r)"
  have db': "db' = db\<lparr>db_jobs := map g (db_jobs db)\<rparr>"
    and ok: "\<And>r. r \<in> set (db_jobs db) \<Longrightarrow> P r \<Longrightarrow> row_ok (f r)"
    using u by (auto simp: update_jobs_Inr g_def list_all_iff)
  have g: "row_id (g r) = row_id r" "row_profile (g r) = row_profile r" for r
    by (simp_all add: g_def ids)
  have comp: "row_id \<circ> g = row_id" by (rule ext) (simp add: g)
  have docs: "has_document db' (g r) = has_document db r" for r
    by (simp add: has_document_def db' g)
  have img: "row_id ` g ` set (db_jobs db) = row_id ` set (db_jobs db)"
    using g by (simp add: image_image)
  show ?thesis
    unfolding pg_inv_def
  proof (intro conjI)
    show "distinct (map row_id (db_jobs db'))"
      using assms(1) by (simp add: db' pg_inv_def comp)
    show "\<forall>r \<in> set (db_jobs db'). row_ok r"
      using assms(1) ok by (auto simp: db' pg_inv_def g_def)
    show "\<forall>r \<in> set (db_jobs db'). row_published (row_status r) \<longrightarrow> has_document db' r"
    proof
      fix r assume "r \<in> set (db_jobs db')"
      then obtain x where x: "x \<in> set (db_jobs db)" "r = g x" by (auto simp: db')
      have "row_published (row_status (g x)) \<Longrightarrow> has_document db x"
        using published [OF x(1)] assms(1) x(1) by (auto simp: g_def pg_inv_def split: if_splits)
      then show "row_published (row_status r) \<longrightarrow> has_document db' r" by (simp add: x(2) docs)
    qed
    show "distinct (idem_keys db')" using assms(1) by (simp add: db' pg_inv_def idem_keys_def)
    show "\<forall>i \<in> set (db_idem db'). ir_job i \<in> row_id ` set (db_jobs db')"
      using assms(1) img by (simp add: db' pg_inv_def)
    show "numbered db'" using assms(1) by (simp add: db' pg_inv_def numbered_def)
  qed
qed

lemma insert_job_inv:
  assumes "pg_inv db" and "insert_job_row r db = Inr db'" and "\<not> row_published (row_status r)"
  shows "pg_inv db'"
proof -
  have db': "db' = db\<lparr>db_jobs := db_jobs db @ [r]\<rparr>" "row_ok r" "row_id r \<notin> row_id ` set (db_jobs db)"
    using assms(2) by (auto simp: insert_job_row_def split: if_splits)
  have docs: "has_document db' x = has_document db x" for x
    by (simp add: has_document_def db')
  show ?thesis
    using assms(1,3) db'(2,3) docs unfolding pg_inv_def
    by (auto simp: db'(1) idem_keys_def numbered_def)
qed

lemma delete_job_inv:
  assumes "pg_inv db"
  shows "pg_inv (delete_job_row i db)"
proof -
  define db' where "db' = delete_job_row i db"
  define g where "g = (\<lambda>r::job_row. if row_retry_of r = Some i then r\<lparr>row_retry_of := None\<rparr> else r)"
  have jobs: "db_jobs db' = map g (filter (\<lambda>r. row_id r \<noteq> i) (db_jobs db))"
    and idem: "db_idem db' = filter (\<lambda>x. ir_job x \<noteq> i) (db_idem db)"
    and content: "db_content db' = filter (\<lambda>x. cr_job x \<noteq> i) (db_content db)"
    and artifacts: "db_artifacts db' = filter (\<lambda>x. fr_job x \<noteq> i) (db_artifacts db)"
    and attempts: "db_attempts db' = filter (\<lambda>x. tr_job x \<noteq> i) (db_attempts db)"
    by (simp_all add: db'_def delete_job_row_def Let_def g_def)
  have g: "row_id (g r) = row_id r" "row_profile (g r) = row_profile r"
      "row_status (g r) = row_status r" "row_ok r \<Longrightarrow> row_ok (g r)" for r
    by (simp_all add: g_def row_ok_def)
  have docs: "has_document db r \<Longrightarrow> row_id r \<noteq> i \<Longrightarrow> has_document db' (g r)" for r
    by (auto simp: has_document_def content artifacts g)
  have numbers: "numbers_of db' j p = (if j = i then [] else numbers_of db j p)" for j p
    by (auto simp: numbers_of_def attempts intro!: arg_cong [of _ _ "map tr_number"] filter_cong)
  show ?thesis
    unfolding db'_def [symmetric] pg_inv_def
  proof (intro conjI)
    have "row_id \<circ> g = row_id" by (rule ext) (simp add: g)
    then show "distinct (map row_id (db_jobs db'))"
      using assms by (simp add: pg_inv_def distinct_map_filter jobs)
    show "\<forall>r \<in> set (db_jobs db'). row_ok r" using assms g by (auto simp: jobs pg_inv_def)
    show "\<forall>r \<in> set (db_jobs db'). row_published (row_status r) \<longrightarrow> has_document db' r"
      using assms docs by (auto simp: jobs pg_inv_def g)
    show "distinct (idem_keys db')"
      using assms by (simp add: pg_inv_def idem_keys_def idem distinct_map_filter)
    show "\<forall>x \<in> set (db_idem db'). ir_job x \<in> row_id ` set (db_jobs db')"
      using assms by (force simp: pg_inv_def idem jobs image_image g)
    have "\<exists>n. numbers_of db' j p = map int [1..<Suc n]" for j p
    proof (cases "j = i")
      case True
      then show ?thesis by (intro exI [of _ 0]) (simp add: numbers)
    next
      case False
      then show ?thesis using assms by (simp add: numbers pg_inv_def numbered_def)
    qed
    then show "numbered db'" by (simp add: numbered_def)
  qed
qed

text \<open>Statements that do not touch what the invariant speaks of.\<close>

lemma pg_inv_cong:
  assumes "pg_inv db" and "db_jobs db' = db_jobs db" and "db_content db' = db_content db"
    and "db_artifacts db' = db_artifacts db" and "db_idem db' = db_idem db"
    and "db_attempts db' = db_attempts db"
  shows "pg_inv db'"
  using assms by (simp add: pg_inv_def has_document_def idem_keys_def numbered_def numbers_of_def)

lemma insert_idem_inv:
  assumes "pg_inv db" and "insert_idem i db = Inr (b, db')" and "ir_job i \<in> row_id ` set (db_jobs db)"
  shows "pg_inv db'"
proof (cases b)
  case True
  have db': "db' = db\<lparr>db_idem := db_idem db @ [i]\<rparr>" "idem_lookup db (ir_scope i) (ir_key i) = None"
    using assms(2) True by (auto simp: insert_idem_def split: if_splits)
  have "(ir_scope i, ir_key i) \<notin> set (idem_keys db)"
    using db'(2) by (auto simp: idem_lookup_def find_None_iff idem_keys_def)
  then show ?thesis
    using assms(1,3) by (auto simp: db'(1) pg_inv_def idem_keys_def has_document_def numbered_def numbers_of_def)
next
  case False
  then show ?thesis using assms by (auto simp: insert_idem_def split: if_splits)
qed

lemma idem_delete_inv: "pg_inv db \<Longrightarrow> pg_inv (idem_delete scope key db)"
  by (auto simp: idem_delete_def pg_inv_def idem_keys_def has_document_def numbered_def
      numbers_of_def distinct_map_filter)

lemma insert_deletion_inv: "insert_deletion d db = Inr db' \<Longrightarrow> pg_inv db \<Longrightarrow> pg_inv db'"
  by (auto simp: insert_deletion_def split: if_splits intro: pg_inv_cong)

lemma queue_deletions_inv:
  "queue_deletions env i now n as db = Inr db' \<Longrightarrow> pg_inv db \<Longrightarrow> pg_inv db'"
proof (induction as arbitrary: n db)
  case (Cons a as)
  then show ?case
    by (auto simp: and_then_Inr exec_Inr dest: insert_deletion_inv split: if_splits)
qed simp

lemma run_tx_cases:
  assumes "run_tx env b c body db = (r, db')"
  shows "db' = db \<and> (\<exists>e. r = Inl e)
    \<or> (\<exists>x. body db = Inr (x, db') \<and> (r = Inr x \<or> (\<exists>e. r = Inl e)))"
  using assms by (auto simp: run_tx_def split: option.splits sum.splits commit_answer.splits)

subsection \<open>Operations\<close>

lemma plain_Inr: "plain r = Inr x \<longleftrightarrow> r = Inr x"
  by (cases r) (auto simp: plain_def)

lemma replay_Inr: "replay env cmd i c db = Inr (out, c', db') \<longleftrightarrow>
    ir_hash i = cj_RequestDigest cmd \<and> c' = c \<and> db' = db
    \<and> (\<exists>j. loadJob env db (ir_job i) = Inr j
         \<and> out = \<lparr>out_Job = j, out_Replayed = True, out_Conflict = False\<rparr>)"
  by (auto simp: replay_def conflict_def and_then_Inr plain_Inr)

text \<open>The three ways in which a submission succeeds once the key is known to be free.\<close>

lemma insert_created_cases:
  assumes "insert_created env ps cmd since clk db = Inr (out, c, db')"
  obtains
    (fresh) db1 where "insert_job_row (created_row env cmd since) db = Inr db1"
      "cj_IdempotencyKey cmd = ''''" "db' = db1" "loadJob env db1 (cj_ID cmd) = Inr (out_Job out)"
      "\<not> out_Replayed out"
  | (keyed) db1 where "insert_job_row (created_row env cmd since) db = Inr db1"
      "cj_IdempotencyKey cmd \<noteq> ''''"
      "insert_idem \<lparr>ir_scope = ps_scope ps, ir_key = cj_IdempotencyKey cmd,
         ir_hash = cj_RequestDigest cmd, ir_job = cj_ID cmd, ir_created = pg_stamp env since,
         ir_expires = pg_stamp env (since + 24 * Hour)\<rparr> db1 = Inr (True, db')"
      "loadJob env db' (cj_ID cmd) = Inr (out_Job out)" "\<not> out_Replayed out"
  | (lost) db1 i where "insert_job_row (created_row env cmd since) db = Inr db1"
      "cj_IdempotencyKey cmd \<noteq> ''''" "db' = delete_job_row (cj_ID cmd) db1"
      "idem_lookup db' (ps_scope ps) (cj_IdempotencyKey cmd) = Some i" "clk < ir_expires i"
      "ir_hash i = cj_RequestDigest cmd" "loadJob env db' (ir_job i) = Inr (out_Job out)"
      "out_Replayed out"
proof -
  obtain db1 where db1: "insert_job_row (created_row env cmd since) db = Inr db1"
    using assms by (auto simp: insert_created_def Let_def and_then_Inr plain_Inr exec_Inr)
  show thesis
  proof (cases "cj_IdempotencyKey cmd = ''''")
    case True
    then show thesis
      using fresh [OF db1] assms db1
      by (auto simp: insert_created_def Let_def and_then_Inr plain_Inr exec_Inr)
  next
    case False
    obtain inserted db2 where db2:
        "insert_idem \<lparr>ir_scope = ps_scope ps, ir_key = cj_IdempotencyKey cmd,
         ir_hash = cj_RequestDigest cmd, ir_job = cj_ID cmd, ir_created = pg_stamp env since,
         ir_expires = pg_stamp env (since + 24 * Hour)\<rparr> db1 = Inr (inserted, db2)"
      using assms db1 False by (auto simp: insert_created_def Let_def and_then_Inr plain_Inr exec_Inr)
    show thesis
    proof (cases inserted)
      case True
      then show thesis
        using keyed [OF db1 False] assms db1 db2 False
        by (auto simp: insert_created_def Let_def and_then_Inr plain_Inr exec_Inr)
    next
      case notins: False
      then have "db2 = db1"
        using db2 by (auto simp: insert_idem_def split: if_splits)
      then show thesis
        using lost [OF db1 False] assms db1 db2 False notins
        by (auto simp: insert_created_def Let_def and_then_Inr plain_Inr exec_Inr query_row_Inr
            replay_Inr split: if_splits)
    qed
  qed
qed

lemma inserted_job: "insert_job_row r db = Inr db' \<Longrightarrow>
    db_jobs db' = db_jobs db @ [r] \<and> db_idem db' = db_idem db"
  by (auto simp: insert_job_row_def split: if_splits)

lemma insert_created_inv:
  assumes "insert_created env ps cmd since clk db = Inr (out, c, db')" and inv: "pg_inv db"
  shows "pg_inv db'"
  using assms(1)
proof (cases rule: insert_created_cases)
  case (fresh db1)
  then show ?thesis
    using insert_job_inv [OF inv fresh(1)] by (simp add: created_row_def row_published_def)
next
  case (keyed db1)
  have "pg_inv db1"
    using insert_job_inv [OF inv keyed(1)] by (simp add: created_row_def row_published_def)
  then show ?thesis
    by (rule insert_idem_inv [OF _ keyed(3)])
       (simp add: inserted_job [OF keyed(1)] created_row_def)
next
  case (lost db1 i)
  have "pg_inv db1"
    using insert_job_inv [OF inv lost(1)] by (simp add: created_row_def row_published_def)
  then show ?thesis unfolding lost(3) by (rule delete_job_inv)
qed

lemma create_body_cases:
  assumes "create_body env ps cmd since clk db = (res, base)"
  shows "(base = db \<or> base = pg_between env db)
    \<and> (\<forall>out c db'. res = Inr (out, c, db') \<longrightarrow>
          db' = base \<or> insert_created env ps cmd since clk base = Inr (out, c, db')
          \<or> insert_created env ps cmd since clk (idem_delete (ps_scope ps) (cj_IdempotencyKey cmd) base)
            = Inr (out, c, db'))"
  using assms
  by (auto simp: create_body_def and_then_Inr plain_Inr exec_Inr replay_Inr
      split: option.splits if_splits)

lemma pg_CreateOrReuse_cases:
  assumes "pg_CreateOrReuse env ps c cmd db = (out, oe, db')"
  shows "(db' = db \<and> oe \<noteq> None)
    \<or> (\<exists>since res base. create_body env ps cmd since (pg_clock env 1) db = (res, base)
         \<and> ((db' = base \<and> oe \<noteq> None)
            \<or> (\<exists>out' cn. res = Inr (out', cn, db') \<and> (oe = None \<longrightarrow> out = out'))))"
proof (cases "contextErr c = None \<and> TrimSpace (cj_ID cmd) \<noteq> '''' \<and> pg_fail env ''begin create'' 0 = None")
  case False
  then show ?thesis
    using assms by (auto simp: pg_CreateOrReuse_def Let_def split: option.splits if_splits)
next
  case True
  define since where "since = (if time_IsZero (cj_CreatedAt cmd) then pg_clock env 0 else cj_CreatedAt cmd)"
  obtain res base where body: "create_body env ps cmd since (pg_clock env 1) db = (res, base)"
    by (cases "create_body env ps cmd since (pg_clock env 1) db")
  have run: "(case res of Inl (out, e) \<Rightarrow> (out, Some e, base)
      | Inr (out, cn, db') \<Rightarrow>
          (case pg_commit env of
             Committed \<Rightarrow> (out, None, db')
           | CommitLost e \<Rightarrow> (zero_outcome, Some (mapDBError cn e), base)
           | CommitUnknown e \<Rightarrow> (zero_outcome, Some (mapDBError cn e), db'))) = (out, oe, db')"
    using assms True body
    by (simp add: pg_CreateOrReuse_def Let_def since_def [symmetric]
        split: sum.splits prod.splits commit_answer.splits)
  have "(db' = base \<and> oe \<noteq> None) \<or> (\<exists>out' cn. res = Inr (out', cn, db') \<and> (oe = None \<longrightarrow> out = out'))"
  proof (cases res)
    case (Inl a)
    then show ?thesis using run by (cases a) auto
  next
    case (Inr a)
    then show ?thesis using run by (cases a; cases "pg_commit env") auto
  qed
  then show ?thesis using body by blast
qed

lemma pg_CreateOrReuse_inv:
  assumes "pg_CreateOrReuse env ps c cmd db = (out, oe, db')" and inv: "pg_inv db"
    and between: "pg_inv (pg_between env db)"
  shows "pg_inv db'"
  using pg_CreateOrReuse_cases [OF assms(1)]
proof (elim disjE exE conjE)
  fix since res base
  assume body: "create_body env ps cmd since (pg_clock env 1) db = (res, base)"
  have base: "pg_inv base" using create_body_cases [OF body] inv between by auto
  then show "db' = base \<Longrightarrow> pg_inv db'" by simp
  fix out' cn
  assume "res = Inr (out', cn, db')"
  with create_body_cases [OF body]
  consider "db' = base" | "insert_created env ps cmd since (pg_clock env 1) base = Inr (out', cn, db')"
    | "insert_created env ps cmd since (pg_clock env 1)
         (idem_delete (ps_scope ps) (cj_IdempotencyKey cmd) base) = Inr (out', cn, db')"
    by metis
  then show "pg_inv db'"
    by cases (simp add: base, erule insert_created_inv [OF _ base],
        erule insert_created_inv [OF _ idem_delete_inv [OF base]])
qed (use inv in simp)

lemma pg_CreateRetry_inv:
  assumes "pg_CreateRetry env c sourceID newID t db = (r, db')" and inv: "pg_inv db"
  shows "pg_inv db'"
proof (cases "db' = db")
  case False
  then obtain s now j where found: "job_at db sourceID = Some s"
    and body: "(row_status s = StatusDeliveryFailed \<and> retry_email env sourceID now db = Inr (j, db'))
      \<or> create_retry env s newID now db = Inr (j, db')"
    using assms(1)
    by (auto simp: pg_CreateRetry_def Let_def and_then_Inr query_row_Inr dest!: run_tx_cases
        split: option.splits if_splits) blast+
  have s: "s \<in> set (db_jobs db)" "row_id s = sourceID"
    using found by (auto simp: job_at_def find_Some_iff)
  from body show ?thesis
  proof
    assume e: "row_status s = StatusDeliveryFailed \<and> retry_email env sourceID now db = Inr (j, db')"
    then obtain n where u: "update_jobs (\<lambda>r. row_id r = sourceID \<and> row_destination r \<noteq> None)
        (redeliver_row (pg_stamp env now)) db = Inr (n, db')"
      by (auto simp: retry_email_def and_then_Inr exec_Inr)
    show ?thesis
    proof (rule update_inv [OF inv u])
      fix r assume r: "r \<in> set (db_jobs db)" "row_id r = sourceID \<and> row_destination r \<noteq> None"
      have "r = s" using row_by_id [of "db_jobs db" r s] inv r s by (simp add: pg_inv_def)
      then show "row_published (row_status r) \<or> has_document db r"
        using e by (simp add: row_published_def)
    qed (simp_all add: redeliver_row_def)
  next
    assume "create_retry env s newID now db = Inr (j, db')"
    then have ins: "insert_job_row (retry_row env s newID (pg_stamp env now)) db = Inr db'"
      by (auto simp: create_retry_def and_then_Inr exec_Inr)
    show ?thesis
      by (rule insert_job_inv [OF inv ins]) (simp add: retry_row_def row_published_def)
  qed
qed (use inv in simp)

lemma pg_RequestDelete_inv:
  assumes "pg_RequestDelete env c i t db = (oe, db')" and inv: "pg_inv db"
  shows "pg_inv db'"
proof (cases "db' = db")
  case False
  then obtain now as db1 n db2 where q: "queue_deletions env i now 0 as db = Inr db1"
    and u: "update_jobs (\<lambda>r. row_id r = i) (cancelled_row now) db1 = Inr (n, db2)"
    and d: "db' = delete_job_row i db2"
    using assms(1)
    by (auto simp: pg_RequestDelete_def Let_def and_then_Inr exec_Inr dest!: run_tx_cases
        split: option.splits prod.splits sum.splits)
  have "pg_inv db1" by (rule queue_deletions_inv [OF q inv])
  then have "pg_inv db2"
    by (rule update_inv [OF _ u]) (simp_all add: cancelled_row_def row_published_def)
  then show ?thesis unfolding d by (rule delete_job_inv)
qed (use inv in simp)

lemma expireDeliveries_inv:
  assumes "expireDeliveries env now db = Inr db'" and "pg_inv db"
  shows "pg_inv db'"
proof -
  obtain n where u: "update_jobs (lease_ran_out StatusDelivering now) (expired_delivery_row now) db
      = Inr (n, db')"
    using assms(1) by (auto simp: expireDeliveries_def and_then_Inr exec_Inr)
  show ?thesis
    by (rule update_inv [OF assms(2) u])
       (auto simp: expired_delivery_row_def lease_ran_out_def row_published_def)
qed

text \<open>The steps of a successful claim.\<close>

lemma claim_body_cases:
  assumes "claim_body env now d db = Inr (oc, db')"
  obtains db1 db2 n1 where "expireDeliveries env (pg_stamp env now) db = Inr db1"
    "update_jobs (lease_ran_out StatusProcessing (pg_stamp env now))
       (reclaimed_row (pg_stamp env now)) db1 = Inr (n1, db2)"
    "(oc = None \<and> db' = db2)
     \<or> (\<exists>r j. select_claim env (pg_stamp env now) db2 = Some r \<and> scanClaimJob r = Inr j
          \<and> update_jobs (\<lambda>x. row_id x = row_id r \<and> row_status x = StatusQueued
                           \<and> row_version x = row_version r)
              (claimed_row (pg_stamp env now) (pg_token env 0) (pg_stamp env (now + d))) db2
            = Inr (1, db')
          \<and> oc = Some (NewLease (leased_job (pg_token env 0) (now + d) j) (pg_token env 0) (now + d)))"
proof -
  obtain db1 where 1: "expireDeliveries env (pg_stamp env now) db = Inr db1"
    using assms by (auto simp: claim_body_def and_then_Inr)
  obtain n1 db2 where 2: "update_jobs (lease_ran_out StatusProcessing (pg_stamp env now))
       (reclaimed_row (pg_stamp env now)) db1 = Inr (n1, db2)"
    using assms 1 by (auto simp: claim_body_def and_then_Inr exec_Inr)
  have 3: "(oc = None \<and> db' = db2)
     \<or> (\<exists>r. select_claim env (pg_stamp env now) db2 = Some r
          \<and> claim_selected env now (now + d) r db2 = Inr (oc, db'))"
    using assms 1 2
    by (auto simp: claim_body_def and_then_Inr exec_Inr split: option.splits if_splits)
  have "\<exists>j. scanClaimJob r = Inr j
          \<and> update_jobs (\<lambda>x. row_id x = row_id r \<and> row_status x = StatusQueued
                           \<and> row_version x = row_version r)
              (claimed_row (pg_stamp env now) (pg_token env 0) (pg_stamp env (now + d))) db2
            = Inr (1, db')
          \<and> oc = Some (NewLease (leased_job (pg_token env 0) (now + d) j) (pg_token env 0) (now + d))"
    if "claim_selected env now (now + d) r db2 = Inr (oc, db')" for r
    using that
    by (auto simp: claim_selected_def and_then_Inr exec_Inr split: sum.splits if_splits)
  then show thesis using that [OF 1 2] 3 by blast
qed

lemma claim_body_inv:
  assumes "claim_body env now d db = Inr (oc, db')" and inv: "pg_inv db"
  shows "pg_inv db'"
  using assms(1)
proof (rule claim_body_cases)
  fix db1 db2 n1
  assume 1: "expireDeliveries env (pg_stamp env now) db = Inr db1"
    and 2: "update_jobs (lease_ran_out StatusProcessing (pg_stamp env now))
       (reclaimed_row (pg_stamp env now)) db1 = Inr (n1, db2)"
    and 3: "(oc = None \<and> db' = db2)
     \<or> (\<exists>r j. select_claim env (pg_stamp env now) db2 = Some r \<and> scanClaimJob r = Inr j
          \<and> update_jobs (\<lambda>x. row_id x = row_id r \<and> row_status x = StatusQueued
                           \<and> row_version x = row_version r)
              (claimed_row (pg_stamp env now) (pg_token env 0) (pg_stamp env (now + d))) db2
            = Inr (1, db')
          \<and> oc = Some (NewLease (leased_job (pg_token env 0) (now + d) j) (pg_token env 0) (now + d)))"
  have "pg_inv db1" by (rule expireDeliveries_inv [OF 1 inv])
  then have db2: "pg_inv db2"
    by (rule update_inv [OF _ 2]) (simp_all add: reclaimed_row_def row_published_def)
  from 3 show "pg_inv db'"
  proof (elim disjE exE conjE)
    fix r
    assume u: "update_jobs (\<lambda>x. row_id x = row_id r \<and> row_status x = StatusQueued
                           \<and> row_version x = row_version r)
              (claimed_row (pg_stamp env now) (pg_token env 0) (pg_stamp env (now + d))) db2
            = Inr (1, db')"
    show "pg_inv db'"
      by (rule update_inv [OF db2 u]) (simp_all add: claimed_row_def row_published_def)
  qed (use db2 in simp)
qed

lemma pg_ClaimNext_cases:
  assumes "pg_ClaimNext env c t d db = (r, db')"
  shows "(db' = db \<and> (\<exists>e. r = Inl e))
    \<or> (\<exists>oc. claim_body env (if time_IsZero t then pg_clock env 0 else t)
               (if d \<le> 0 then 5 * Minute else d) db = Inr (oc, db')
          \<and> (r = Inr oc \<or> (\<exists>e. r = Inl e)))"
  using assms
  by (auto simp: pg_ClaimNext_def Let_def dest!: run_tx_cases split: option.splits if_splits)

lemma pg_ClaimNext_inv: "pg_ClaimNext env c t d db = (r, db') \<Longrightarrow> pg_inv db \<Longrightarrow> pg_inv db'"
  using pg_ClaimNext_cases claim_body_inv by blast

text \<open>The fenced updates.\<close>

lemma update_same_status_inv:
  assumes "update_jobs P f db = Inr (n, db')" and "pg_inv db"
    and "\<And>r. row_id (f r) = row_id r" "\<And>r. row_profile (f r) = row_profile r"
    and "\<And>r. row_status (f r) = row_status r \<or> \<not> row_published (row_status (f r))"
  shows "pg_inv db'"
  by (rule update_inv [OF assms(2,1,3,4)]) (metis assms(5))

lemma pg_RenewLease_cases:
  assumes "pg_RenewLease env c clk (Some l) d db = (oe, lo, db')"
  shows "(db' = db \<and> oe \<noteq> None) \<or> (\<exists>n. update_jobs
      (\<lambda>r. holds_lease l (pg_stamp env clk) r \<and> is_active (row_status r))
      (renewed_row (pg_stamp env clk) (lease_micros (if d \<le> 0 then 5 * Minute else d))) db = Inr (n, db'))"
  using assms
  by (auto simp: pg_RenewLease_def Let_def autocommit_lost_def
      split: option.splits sum.splits if_splits commit_answer.splits prod.splits)

lemma settle_cases:
  assumes "settle env operation inspect clk (Some l) f db = (oe, lo, db')"
  shows "(db' = db \<and> oe \<noteq> None) \<or> (\<exists>n. update_jobs
      (\<lambda>r. holds_lease l (pg_stamp env clk) r \<and> is_active (row_status r)) f db = Inr (n, db')
      \<and> (oe = None \<longrightarrow> n = 1 \<and> lo = Observe (CurrentVersion (Some l) + 1) zero_time StageNone (Some l)))"
  using assms
  by (auto simp: settle_def Let_def autocommit_lost_def
      split: option.splits sum.splits if_splits commit_answer.splits prod.splits)

lemma pg_RenewLease_inv:
  assumes "pg_RenewLease env c clk lo d db = (oe, lo', db')" and inv: "pg_inv db"
  shows "pg_inv db'"
proof (cases lo)
  case None
  then show ?thesis using assms by (auto simp: pg_RenewLease_def split: option.splits)
next
  case (Some l)
  show ?thesis
    using pg_RenewLease_cases [OF assms(1) [unfolded Some]] inv
    by (auto simp: renewed_row_def intro: update_same_status_inv)
qed

lemma settle_inv:
  assumes "settle env operation inspect clk lo f db = (oe, lo', db')" and inv: "pg_inv db"
    and "\<And>r. row_id (f r) = row_id r" "\<And>r. row_profile (f r) = row_profile r"
    and "\<And>r. \<not> row_published (row_status (f r))"
  shows "pg_inv db'"
proof (cases lo)
  case None
  then show ?thesis using assms by (auto simp: settle_def)
next
  case (Some l)
  show ?thesis
    using settle_cases [OF assms(1) [unfolded Some]] inv assms(3-5)
    by (auto intro: update_same_status_inv)
qed

lemma pg_Requeue_inv: "pg_Requeue env c clk lo f t db = (oe, lo', db') \<Longrightarrow> pg_inv db \<Longrightarrow> pg_inv db'"
  by (auto simp: pg_Requeue_def requeued_row_def row_published_def
      split: option.splits elim!: settle_inv)

lemma pg_Fail_inv: "pg_Fail env c clk lo f t db = (oe, lo', db') \<Longrightarrow> pg_inv db \<Longrightarrow> pg_inv db'"
  by (auto simp: pg_Fail_def failed_row_def row_published_def
      split: option.splits elim!: settle_inv)

lemma stage_body_cases:
  assumes "stage_body env clk l stage db = Inr ((version, expiry), db')"
  obtains r where "job_at db (job_ID (lease_Job l)) = Some r" "row_token r = Some (lease_Token l)"
    "row_expires r = Some expiry" "\<not> lease_stale l clk r (lease_Token l) expiry"
    "CanTransitionTo (stage_of (row_stage r)) stage" "version = row_version r"
    "update_jobs (\<lambda>x. row_status x = StatusProcessing \<and> row_id x = job_ID (lease_Job l)
         \<and> row_token x = Some (lease_Token l) \<and> row_version x = row_version r
         \<and> (case row_expires x of None \<Rightarrow> False | Some t \<Rightarrow> pg_stamp env clk < t))
       (staged_row stage (pg_stamp env clk)) db = Inr (1, db')"
proof -
  obtain r where r: "job_at db (job_ID (lease_Job l)) = Some r"
    using assms by (auto simp: stage_body_def and_then_Inr query_row_Inr)
  obtain token where token: "row_token r = Some token"
    using assms r by (auto simp: stage_body_def and_then_Inr query_row_Inr scan_Inr)
  obtain t where t: "row_expires r = Some t"
    using assms r by (auto simp: stage_body_def and_then_Inr query_row_Inr scan_Inr)
  have fresh: "\<not> lease_stale l clk r token t" and "CanTransitionTo (stage_of (row_stage r)) stage"
    and "version = row_version r" and "expiry = t"
    and "update_jobs (\<lambda>x. row_status x = StatusProcessing \<and> row_id x = job_ID (lease_Job l)
         \<and> row_token x = Some (lease_Token l) \<and> row_version x = row_version r
         \<and> (case row_expires x of None \<Rightarrow> False | Some t \<Rightarrow> pg_stamp env clk < t))
       (staged_row stage (pg_stamp env clk)) db = Inr (1, db')"
    using assms r token t
    by (auto simp: stage_body_def and_then_Inr query_row_Inr scan_Inr exec_Inr split: if_splits)
  moreover have "token = lease_Token l" using fresh by (simp add: lease_stale_def)
  ultimately show thesis using that [OF r] token t by simp
qed

lemma pg_SetStage_cases:
  assumes "pg_SetStage env c clk (Some l) stage db = (oe, lo, db')"
  shows "(db' = db \<and> oe \<noteq> None)
    \<or> (\<exists>version expiry. stage_body env clk l stage db = Inr ((version, expiry), db')
         \<and> (oe = None \<longrightarrow> lo = Observe (word_of_int version + 1) expiry stage (Some l)))"
  using assms
  by (auto simp: pg_SetStage_def split: option.splits if_splits sum.splits prod.splits
      dest!: run_tx_cases)

lemma pg_SetStage_inv:
  assumes "pg_SetStage env c clk lo stage db = (oe, lo', db')" and inv: "pg_inv db"
  shows "pg_inv db'"
proof (cases lo)
  case None
  then show ?thesis using assms by (auto simp: pg_SetStage_def split: option.splits if_splits)
next
  case (Some l)
  from pg_SetStage_cases [OF assms(1) [unfolded Some]] show ?thesis
  proof (elim disjE exE conjE)
    fix version expiry
    assume "stage_body env clk l stage db = Inr ((version, expiry), db')"
    then show ?thesis
      by (rule stage_body_cases)
         (erule update_same_status_inv [OF _ inv]; simp add: staged_row_def)
  qed (use inv in simp)
qed

subsection \<open>Publication\<close>

lemma insert_content_facts:
  assumes "insert_content x db = Inr db'"
  shows "db_content db' = db_content db @ [x]" "db_jobs db' = db_jobs db" "db_idem db' = db_idem db"
    "db_artifacts db' = db_artifacts db" "db_attempts db' = db_attempts db"
    "db_deliveries db' = db_deliveries db" "content_ok x"
  using assms by (auto simp: insert_content_def split: if_splits)

lemma insert_artifact_facts:
  assumes "insert_artifact x db = Inr db'"
  shows "db_artifacts db' = db_artifacts db @ [x]" "db_jobs db' = db_jobs db"
    "db_idem db' = db_idem db" "db_content db' = db_content db" "db_attempts db' = db_attempts db"
    "db_deliveries db' = db_deliveries db" "artifact_ok x"
  using assms by (auto simp: insert_artifact_def split: if_splits)

lemma complete_body_cases:
  assumes "complete_body env ps clk l cm now db = Inr (version, db')"
  obtains r expiry x db1 db2 where "job_at db (job_ID (lease_Job l)) = Some r"
    "row_token r = Some (lease_Token l)" "row_expires r = Some expiry"
    "row_stage r = Some StagePersisting" "\<not> lease_stale l clk r (lease_Token l) expiry"
    "version = row_version r"
    "insert_content x db = Inr db1" "cr_job x = job_ID (lease_Job l)"
    "\<exists>q p. pg_numeric env (doc_AIConfidence (cmp_Content cm)) = Some q
        \<and> pg_numeric env (doc_AICompleteness (cmp_Content cm)) = Some p
        \<and> x = completed_content env (job_ID (lease_Job l)) cm (pg_stamp env now) q p"
    "insert_artifact (completed_artifact env (job_ID (lease_Job l)) (row_profile r) cm
        (pg_stamp env now)) db1 = Inr db2"
    "update_jobs (\<lambda>x. row_status x = StatusProcessing \<and> row_id x = job_ID (lease_Job l)
         \<and> row_token x = Some (lease_Token l) \<and> row_version x = row_version r
         \<and> (case row_expires x of None \<Rightarrow> False | Some t \<Rightarrow> pg_stamp env clk < t))
       (finished_row (ps_destination ps) cm (pg_stamp env now)) db2 = Inr (1, db')"
proof -
  obtain r where r: "job_at db (job_ID (lease_Job l)) = Some r"
    using assms by (auto simp: complete_body_def and_then_Inr query_row_Inr)
  obtain token where token: "row_token r = Some token"
    using assms r by (auto simp: complete_body_def and_then_Inr query_row_Inr scan_Inr)
  obtain t where t: "row_expires r = Some t"
    using assms r by (auto simp: complete_body_def and_then_Inr query_row_Inr scan_Inr)
  have fresh: "\<not> lease_stale l clk r token t" and stage: "row_stage r = Some StagePersisting"
    and version: "version = row_version r"
    using assms r token t
    by (auto simp: complete_body_def and_then_Inr query_row_Inr scan_Inr split: if_splits)
  obtain db1 db2 where
      c: "insert_completed_content env (job_ID (lease_Job l)) cm (pg_stamp env now) db = Inr db1"
    and a: "insert_artifact (completed_artifact env (job_ID (lease_Job l)) (row_profile r) cm
        (pg_stamp env now)) db1 = Inr db2"
    and u: "update_jobs (\<lambda>x. row_status x = StatusProcessing \<and> row_id x = job_ID (lease_Job l)
         \<and> row_token x = Some (lease_Token l) \<and> row_version x = row_version r
         \<and> (case row_expires x of None \<Rightarrow> False | Some t \<Rightarrow> pg_stamp env clk < t))
       (finished_row (ps_destination ps) cm (pg_stamp env now)) db2 = Inr (1, db')"
    using assms r token t fresh stage
    by (auto simp: complete_body_def and_then_Inr query_row_Inr scan_Inr exec_Inr split: if_splits)
  obtain q p where qp: "pg_numeric env (doc_AIConfidence (cmp_Content cm)) = Some q"
      "pg_numeric env (doc_AICompleteness (cmp_Content cm)) = Some p"
      "insert_content (completed_content env (job_ID (lease_Job l)) cm (pg_stamp env now) q p) db
        = Inr db1"
    using c by (auto simp: insert_completed_content_def split: option.splits)
  have "token = lease_Token l" using fresh by (simp add: lease_stale_def)
  then show thesis
    using that [OF r _ _ stage _ version qp(3) _ _ a u] token t fresh qp
    by (simp add: completed_content_def)
qed

lemma pg_Complete_cases:
  assumes "pg_Complete env ps c clk (Some l) cm t db = (oe, lo, db')"
  shows "(db' = db \<and> oe \<noteq> None)
    \<or> (\<exists>version. complete_body env ps clk l cm (if time_IsZero t then pg_clock env 0 else t) db
           = Inr (version, db')
         \<and> (oe = None \<longrightarrow> lo = Observe (word_of_int version + 1) zero_time StageNone (Some l)))"
  using assms
  by (auto simp: pg_Complete_def Let_def split: option.splits if_splits sum.splits prod.splits
      dest!: run_tx_cases)

lemma job_at_Some: "job_at db i = Some r \<Longrightarrow> r \<in> set (db_jobs db) \<and> row_id r = i"
  by (auto simp: job_at_def find_Some_iff)

lemma complete_body_inv:
  assumes "complete_body env ps clk l cm now db = Inr (version, db')" and inv: "pg_inv db"
  shows "pg_inv db'"
  using assms(1)
proof (rule complete_body_cases)
  fix r expiry x db1 db2
  assume r: "job_at db (job_ID (lease_Job l)) = Some r"
    and c: "insert_content x db = Inr db1" "cr_job x = job_ID (lease_Job l)"
    and a: "insert_artifact (completed_artifact env (job_ID (lease_Job l)) (row_profile r) cm
        (pg_stamp env now)) db1 = Inr db2"
    and u: "update_jobs (\<lambda>x. row_status x = StatusProcessing \<and> row_id x = job_ID (lease_Job l)
         \<and> row_token x = Some (lease_Token l) \<and> row_version x = row_version r
         \<and> (case row_expires x of None \<Rightarrow> False | Some t \<Rightarrow> pg_stamp env clk < t))
       (finished_row (ps_destination ps) cm (pg_stamp env now)) db2 = Inr (1, db')"
  note facts = insert_content_facts [OF c(1)] insert_artifact_facts [OF a]
  have more: "has_document db y \<Longrightarrow> has_document db2 y" for y
    using facts by (auto simp: has_document_def)
  have "pg_inv db2"
    using inv more facts by (auto simp: pg_inv_def idem_keys_def numbered_def numbers_of_def)
  then show "pg_inv db'"
  proof (rule update_inv [OF _ u])
    fix y
    assume y: "y \<in> set (db_jobs db2)" "row_status y = StatusProcessing
         \<and> row_id y = job_ID (lease_Job l)
         \<and> row_token y = Some (lease_Token l) \<and> row_version y = row_version r
         \<and> (case row_expires y of None \<Rightarrow> False | Some t \<Rightarrow> pg_stamp env clk < t)"
    have "y = r"
      using row_by_id [of "db_jobs db" y r] inv y facts job_at_Some [OF r] by (simp add: pg_inv_def)
    then show "row_published (row_status y) \<or> has_document db2 y"
      using facts c(2) job_at_Some [OF r]
      by (simp add: has_document_def completed_artifact_def)
  qed (simp_all add: finished_row_def Let_def)
qed

lemma pg_Complete_inv:
  assumes "pg_Complete env ps c clk lo cm t db = (oe, lo', db')" and inv: "pg_inv db"
  shows "pg_inv db'"
proof (cases lo)
  case None
  then show ?thesis using assms by (auto simp: pg_Complete_def split: option.splits if_splits)
next
  case (Some l)
  from pg_Complete_cases [OF assms(1) [unfolded Some]] show ?thesis
    using inv complete_body_inv by blast
qed

subsection \<open>Deliveries\<close>

lemma claim_email_cases:
  assumes "claim_email env now d r db = Inr (oc, db')"
  obtains destination j a n db1 where "row_destination r = Some destination"
    "loadJob env db (row_id r) = Inr j" "job_Artifact j = Some a"
    "update_jobs (\<lambda>x. row_id x = row_id r)
       (delivering_row (pg_token env 0) (pg_stamp env (now + d)) (pg_stamp env now)) db = Inr (n, db1)"
    "insert_delivery (email_attempt (pg_token env 0) (row_id r) (pg_stamp env now) db1) db1 = Inr db'"
    "oc = Some \<lparr>dc_JobID = job_ID j, dc_Token = pg_token env 0, dc_MessageID = MessageID (row_id r),
       dc_Destination = destination, dc_Title = email_title j, dc_Artifact = a\<rparr>"
proof -
  obtain destination j where 1: "row_destination r = Some destination"
      "loadJob env db (row_id r) = Inr j"
    using assms by (auto simp: claim_email_def and_then_Inr scan_Inr)
  obtain a where 2: "job_Artifact j = Some a"
    using assms 1 by (auto simp: claim_email_def scan_def split: option.splits)
  show thesis
    using that [OF 1 2] assms 1 2 by (auto simp: claim_email_def scan_def and_then_Inr exec_Inr)
qed

lemma insert_delivery_facts:
  assumes "insert_delivery x db = Inr db'"
  shows "db_jobs db' = db_jobs db" "db_idem db' = db_idem db" "db_content db' = db_content db"
    "db_artifacts db' = db_artifacts db" "db_attempts db' = db_attempts db"
  using assms by (auto simp: insert_delivery_def split: if_splits)

lemma email_body_inv:
  assumes "email_body env now d db = Inr (oc, db')" and inv: "pg_inv db"
  shows "pg_inv db'"
proof -
  obtain db1 where db1: "expireDeliveries env (pg_stamp env now) db = Inr db1"
    and rest: "db' = db1
      \<or> (\<exists>r. select_email env (pg_stamp env now) db1 = Some r
            \<and> claim_email env now d r db1 = Inr (oc, db'))"
    using assms by (auto simp: email_body_def and_then_Inr split: option.splits if_splits)
  have inv1: "pg_inv db1" by (rule expireDeliveries_inv [OF db1 inv])
  from rest show ?thesis
  proof (elim disjE exE conjE)
    fix r
    assume s: "select_email env (pg_stamp env now) db1 = Some r"
      and "claim_email env now d r db1 = Inr (oc, db')"
    from this(2) show ?thesis
    proof (rule claim_email_cases)
      fix n db2
      assume u: "update_jobs (\<lambda>x. row_id x = row_id r)
       (delivering_row (pg_token env 0) (pg_stamp env (now + d)) (pg_stamp env now)) db1 = Inr (n, db2)"
        and ins: "insert_delivery (email_attempt (pg_token env 0) (row_id r) (pg_stamp env now) db2) db2
          = Inr db'"
      have r: "r \<in> set (db_jobs db1)" "row_status r = StatusReady"
        using s sort_slice_first [of email_before _ r]
        by (fastforce simp: select_email_def email_claimable_def split: list.splits)+
      have "pg_inv db2"
      proof (rule update_inv [OF inv1 u])
        fix x assume x: "x \<in> set (db_jobs db1)" "row_id x = row_id r"
        have "x = r" using row_by_id [OF _ x(1) r(1) x(2)] inv1 by (simp add: pg_inv_def)
        then show "row_published (row_status x) \<or> has_document db1 x"
          using r(2) by (simp add: row_published_def)
      qed (simp_all add: delivering_row_def)
      then show ?thesis by (rule pg_inv_cong) (rule insert_delivery_facts [OF ins])+
    qed
  qed (use inv1 in simp)
qed

lemma pg_ClaimDelivery_inv:
  "pg_ClaimDelivery env d db = (r, db') \<Longrightarrow> pg_inv db \<Longrightarrow> pg_inv db'"
  using ClaimDelivery_cases email_body_inv by blast

lemma report_body_inv:
  assumes "report_body env now c res db = Inr (Some db')" and inv: "pg_inv db"
  shows "pg_inv db'"
  using assms(1)
proof (rule report_body_cases)
  fix r plan db1 n
  assume r: "r \<in> set (db_jobs db)" "holds_email c (pg_stamp env now) r"
    and d: "update_deliveries (\<lambda>d. er_id d = dc_Token c)
           (reported_attempt res (pg_stamp env now)) db = Inr db1"
    and u: "update_jobs (\<lambda>x. row_id x = dc_JobID c \<and> row_token x = Some (dc_Token c))
           (reported_row plan (pg_stamp env now)
              (pg_stamp env (now + row_retries r * (30 * Second)))) db1 = Inr (n, db')"
  have db1: "db_jobs db1 = db_jobs db" "pg_inv db1"
    using d inv by (auto simp: update_deliveries_def split: if_splits intro: pg_inv_cong)
  show "pg_inv db'"
  proof (rule update_inv [OF db1(2) u])
    fix x assume x: "x \<in> set (db_jobs db1)" "row_id x = dc_JobID c \<and> row_token x = Some (dc_Token c)"
    have "x = r"
      using row_by_id [of "db_jobs db" x r] inv x db1(1) r by (simp add: pg_inv_def holds_email_def)
    then show "row_published (row_status x) \<or> has_document db1 x"
      using r(2) by (simp add: row_published_def holds_email_def)
  qed (simp_all add: reported_row_def split: prod.splits)
qed

lemma pg_FinishDelivery_inv:
  "pg_FinishDelivery env c res db = (oe, db') \<Longrightarrow> pg_inv db \<Longrightarrow> pg_inv db'"
  using FinishDelivery_cases report_body_inv by blast

lemma pg_RecordAIAttempts_inv:
  assumes "pg_RecordAIAttempts env c i attempts db = (r, db')" and inv: "pg_inv db"
  shows "pg_inv db'"
proof (cases "db' = db")
  case False
  then obtain ids where "record_loop env i 0 (\<lambda>p. 0) attempts [] db = Inr (ids, db')"
    using pg_RecordAIAttempts_cases [OF assms(1)] by blast
  from record_loop_ok [OF this] inv show ?thesis
    by (auto simp: pg_inv_def has_document_def idem_keys_def)
qed (use inv in simp)

subsection \<open>Every reachable database\<close>

text \<open>The tables after any sequence of operations, each with its own clock, failures and
  answers of the server; what other transactions do while a submission runs is reachable too.\<close>

inductive pg_reachable :: "pg_db \<Rightarrow> bool" where
  start: "pg_reachable empty_db"
| create: "pg_reachable db \<Longrightarrow> pg_reachable (pg_between env db) \<Longrightarrow>
    pg_CreateOrReuse env ps c cmd db = (out, oe, db') \<Longrightarrow> pg_reachable db'"
| retry: "pg_reachable db \<Longrightarrow> pg_CreateRetry env c i j t db = (r1, db') \<Longrightarrow> pg_reachable db'"
| delete: "pg_reachable db \<Longrightarrow> pg_RequestDelete env c i t db = (oe, db') \<Longrightarrow> pg_reachable db'"
| claim: "pg_reachable db \<Longrightarrow> pg_ClaimNext env c t d db = (r2, db') \<Longrightarrow> pg_reachable db'"
| renew: "pg_reachable db \<Longrightarrow> pg_RenewLease env c clk lo d db = (oe, lo', db') \<Longrightarrow> pg_reachable db'"
| stage: "pg_reachable db \<Longrightarrow> pg_SetStage env c clk lo st db = (oe, lo', db') \<Longrightarrow> pg_reachable db'"
| complete: "pg_reachable db \<Longrightarrow> pg_Complete env ps c clk lo cm t db = (oe, lo', db') \<Longrightarrow>
    pg_reachable db'"
| requeue: "pg_reachable db \<Longrightarrow> pg_Requeue env c clk lo f t db = (oe, lo', db') \<Longrightarrow> pg_reachable db'"
| fail: "pg_reachable db \<Longrightarrow> pg_Fail env c clk lo f t db = (oe, lo', db') \<Longrightarrow> pg_reachable db'"
| attempts: "pg_reachable db \<Longrightarrow> pg_RecordAIAttempts env c i as db = (r3, db') \<Longrightarrow> pg_reachable db'"
| email: "pg_reachable db \<Longrightarrow> pg_ClaimDelivery env d db = (r4, db') \<Longrightarrow> pg_reachable db'"
| report: "pg_reachable db \<Longrightarrow> pg_FinishDelivery env cl res db = (oe, db') \<Longrightarrow> pg_reachable db'"

lemma pg_reachable_inv: "pg_reachable db \<Longrightarrow> pg_inv db"
proof (induction rule: pg_reachable.induct)
  case start
  show ?case by (rule pg_inv_empty)
qed (blast intro: pg_CreateOrReuse_inv pg_CreateRetry_inv pg_RequestDelete_inv pg_ClaimNext_inv
    pg_RenewLease_inv pg_SetStage_inv pg_Complete_inv pg_Requeue_inv pg_Fail_inv
    pg_RecordAIAttempts_inv pg_ClaimDelivery_inv pg_FinishDelivery_inv)+

end
