(* ===== verification/Postgres_Refinement.thy ===== *)
theory Postgres_Refinement
  imports Postgres_Facts Memory_Store
begin

section \<open>The PostgreSQL store refines the in-memory store\<close>

text \<open>
  Both stores implement \<open>application.JobStore\<close>. The lease view of a job is what the operations
  of a worker look at and change; \<open>store_view\<close> relates the tables to a memory store job by job.
  Every operation that succeeds on PostgreSQL succeeds on the memory store under the same lease,
  and the views agree again.
\<close>

definition lease_view :: "job_row \<Rightarrow> job \<Rightarrow> bool" where
  "lease_view r j \<longleftrightarrow>
     job_ID j = row_id r \<and> job_Status j = row_status r \<and> job_Stage j = stage_of (row_stage r)
     \<and> job_LeaseToken j = text_of (row_token r) \<and> job_LeaseUntil j = instant_of (row_expires r)
     \<and> job_Version j = word_of_int (row_version r) \<and> job_AttemptCount j = row_attempt_count r
     \<and> (row_status r = StatusQueued \<longrightarrow> job_NextAttemptAt j = row_next_attempt r)"

definition store_view :: "pg_db \<Rightarrow> mem_store \<Rightarrow> bool" where
  "store_view db s \<longleftrightarrow> (\<forall>i. rel_option lease_view (job_at db i) (st_jobs s i))"

text \<open>The calls of a worker under its lease.\<close>

datatype lease_call =
    CallRenew duration | CallStage stage | CallComplete Job_Interfaces.completion time
  | CallRequeue failure time | CallFail failure time

fun mem_call :: "ctx \<Rightarrow> time \<Rightarrow> lease option \<Rightarrow> lease_call \<Rightarrow> mem_store \<Rightarrow> mem_store lease_result" where
  "mem_call c clk lo (CallRenew d) s = RenewLease c clk lo d s"
| "mem_call c clk lo (CallStage st) s = SetStage c clk lo st s"
| "mem_call c clk lo (CallComplete cm t) s = Complete c clk lo cm t s"
| "mem_call c clk lo (CallRequeue f t) s = Requeue c clk lo f t s"
| "mem_call c clk lo (CallFail f t) s = Fail c clk lo f t s"

fun pg_call ::
  "pg_env \<Rightarrow> pg_store \<Rightarrow> ctx \<Rightarrow> time \<Rightarrow> lease option \<Rightarrow> lease_call \<Rightarrow> pg_db \<Rightarrow> pg_db lease_result" where
  "pg_call env ps c clk lo (CallRenew d) db = pg_RenewLease env c clk lo d db"
| "pg_call env ps c clk lo (CallStage st) db = pg_SetStage env c clk lo st db"
| "pg_call env ps c clk lo (CallComplete cm t) db = pg_Complete env ps c clk lo cm t db"
| "pg_call env ps c clk lo (CallRequeue f t) db = pg_Requeue env c clk lo f t db"
| "pg_call env ps c clk lo (CallFail f t) db = pg_Fail env c clk lo f t db"

text \<open>The instants and durations of the call are ones the server stores exactly.\<close>

fun exact_call :: "pg_env \<Rightarrow> lease_call \<Rightarrow> bool" where
  "exact_call env (CallRenew d) \<longleftrightarrow> d \<le> 0 \<or> (1000 \<le> d \<and> 1000 dvd d)"
| "exact_call env (CallStage st) \<longleftrightarrow> True"
| "exact_call env (CallComplete cm t) \<longleftrightarrow> True"
| "exact_call env (CallRequeue f t) \<longleftrightarrow> pg_stamp env t = t \<and> \<not> time_IsZero t"
| "exact_call env (CallFail f t) \<longleftrightarrow> True"

subsection \<open>Reading one row\<close>

lemma find_map_id:
  assumes "\<And>r. row_id (g r) = row_id r"
  shows "find (\<lambda>r. row_id r = i) (map g rs) = map_option g (find (\<lambda>r. row_id r = i) rs)"
  by (induction rs) (simp_all add: assms)

lemma job_at_update:
  assumes "update_jobs P f db = Inr (n, db')" and "\<And>r. row_id (f r) = row_id r"
  shows "job_at db' i = map_option (\<lambda>r. if P r then f r else r) (job_at db i)"
  using assms find_map_id [of "\<lambda>r. if P r then f r else r" i "db_jobs db"]
  by (simp add: update_jobs_Inr job_at_def)

lemma job_at_unique:
  assumes "distinct (map row_id (db_jobs db))" and "r \<in> set (db_jobs db)"
  shows "job_at db (row_id r) = Some r"
proof (cases "job_at db (row_id r)")
  case None
  then show ?thesis using assms(2) by (auto simp: job_at_def find_None_iff)
next
  case (Some x)
  then show ?thesis using row_by_id [OF assms(1)] job_at_Some [OF Some] assms(2) by metis
qed

lemma view_update:
  assumes view: "store_view db s" and r: "job_at db i = Some r"
    and u: "update_jobs P f db = Inr (n, db')" and P: "P r" "\<And>x. P x \<Longrightarrow> row_id x = i"
    and ids: "\<And>x. row_id (f x) = row_id x" and j': "lease_view (f r) j'"
  shows "store_view db' (put_job j' s)"
proof -
  have i: "row_id r = i" "job_ID j' = i"
    using job_at_Some [OF r] j' ids by (auto simp: lease_view_def)
  have "rel_option lease_view (job_at db' k) (st_jobs (put_job j' s) k)" for k
  proof (cases "k = i")
    case True
    then show ?thesis using j' P(1) i by (simp add: job_at_update [OF u ids] r put_job_def)
  next
    case False
    have "map_option (\<lambda>r. if P r then f r else r) (job_at db k) = job_at db k"
    proof (cases "job_at db k")
      case (Some x)
      then show ?thesis using P(2) False job_at_Some [OF Some] by auto
    qed simp
    then show ?thesis
      using view False i by (simp add: job_at_update [OF u ids] put_job_def store_view_def)
  qed
  then show ?thesis by (simp add: store_view_def)
qed

lemma view_job:
  assumes "store_view db s" and "job_at db i = Some r"
  obtains j where "st_jobs s i = Some j" "lease_view r j"
  using assms unfolding store_view_def by (metis option_rel_Some1)

text \<open>A row under the presented lease, and the job of the memory store it shows.\<close>

lemma held_job:
  assumes "lease_view r j" and "holds_lease l now r"
  shows "job_LeaseToken j = lease_Token l" and "job_Version j = CurrentVersion (Some l)"
    and "now < job_LeaseUntil j" and "job_ID j = job_ID (lease_Job l)"
  using assms
  by (auto simp: lease_view_def holds_lease_def text_of_def instant_of_def split: option.splits)

lemma stale_held:
  assumes "\<not> lease_stale l clk r (lease_Token l) expiry" and "row_token r = Some (lease_Token l)"
    and "row_expires r = Some expiry" and "row_id r = job_ID (lease_Job l)" and "row_ok r"
  shows "holds_lease l clk r" and "row_status r = StatusProcessing"
proof -
  have v: "0 < row_version r" "row_version r < 2 ^ 63"
      "(word_of_int (row_version r) :: uint64) = CurrentVersion (Some l)"
    using assms by (auto simp: lease_stale_def row_ok_def)
  have "uint (word_of_int (row_version r) :: uint64) = row_version r"
    using v(1,2) by (simp add: unsigned_of_int take_bit_int_eq_self)
  then have "row_version r = uint (CurrentVersion (Some l))" using v(3) by simp
  then show "holds_lease l clk r" using assms by (auto simp: holds_lease_def lease_stale_def)
  show "row_status r = StatusProcessing" using assms(1) by (simp add: lease_stale_def)
qed

subsection \<open>One lemma per call\<close>

definition same_revision :: "lease option \<Rightarrow> lease option \<Rightarrow> bool" where
  "same_revision lo lo' \<longleftrightarrow>
     (case (lo, lo') of
        (Some l, Some l') \<Rightarrow> lease_state l = lease_state l' \<and> lease_Token l = lease_Token l'
      | _ \<Rightarrow> False)"

lemma same_revision_Observe: "same_revision (Observe v t st (Some l)) (Observe v t st' (Some l))"
  by (simp add: same_revision_def Observe_def)

lemma Observe_revision: "v = v' \<Longrightarrow> t = t' \<Longrightarrow>
    same_revision (Observe v t st (Some l)) (Observe v' t' st' (Some l))"
  using same_revision_Observe by simp

lemma pg_RenewLease_ok:
  assumes "pg_RenewLease env c clk (Some l) d db = (None, lo, db')"
  shows "\<exists>n r. update_jobs (\<lambda>r. holds_lease l (pg_stamp env clk) r \<and> is_active (row_status r))
        (renewed_row (pg_stamp env clk) (lease_micros (if d \<le> 0 then 5 * Minute else d))) db
        = Inr (n, db')
      \<and> find (\<lambda>r. holds_lease l (pg_stamp env clk) r \<and> is_active (row_status r)) (db_jobs db) = Some r
      \<and> lo = Observe (word_of_int (row_version (renewed_row (pg_stamp env clk)
               (lease_micros (if d \<le> 0 then 5 * Minute else d)) r)))
             (instant_of (row_expires (renewed_row (pg_stamp env clk)
               (lease_micros (if d \<le> 0 then 5 * Minute else d)) r)))
             (job_Stage (lease_Job l)) (Some l)"
  using assms unfolding pg_RenewLease_def Let_def
  by (auto split: option.splits sum.splits if_splits prod.splits)

lemma renew_refines:
  assumes inv: "pg_inv db" and view: "store_view db s"
    and run: "pg_RenewLease env c clk (Some l) d db = (None, lo, db')"
    and clk: "pg_stamp env clk = clk" and d: "d \<le> 0 \<or> (1000 \<le> d \<and> 1000 dvd d)"
  shows "\<exists>lo' s'. RenewLease c clk (Some l) d s = (None, lo', s') \<and> store_view db' s'
    \<and> same_revision lo lo'"
proof -
  define d' where "d' = (if d \<le> 0 then 5 * Minute else d)"
  have micros: "lease_micros d' = d'"
    using d by (auto simp: d'_def lease_micros_def Let_def duration_defs)
  define P where "P = (\<lambda>r. holds_lease l clk r \<and> is_active (row_status r))"
  have c: "contextErr c = None"
    using run by (auto simp: pg_RenewLease_def split: option.splits)
  obtain n r where u: "update_jobs P (renewed_row clk d') db = Inr (n, db')"
    and r: "find P (db_jobs db) = Some r"
    and lo: "lo = Observe (word_of_int (row_version (renewed_row clk d' r)))
        (instant_of (row_expires (renewed_row clk d' r))) (job_Stage (lease_Job l)) (Some l)"
    using pg_RenewLease_ok [OF run] unfolding clk P_def d'_def [symmetric] micros by blast
  have r_in: "r \<in> set (db_jobs db)" "P r" using r by (auto simp: find_Some_iff)
  then have at: "job_at db (row_id r) = Some r"
    using job_at_unique inv by (simp add: pg_inv_def)
  obtain j where j: "st_jobs s (row_id r) = Some j" "lease_view r j"
    using view_job [OF view at] .
  have held: "holds_lease l clk r" "is_active (row_status r)" using r_in(2) by (simp_all add: P_def)
  note now = held_job [OF j(2) held(1)]
  define j' where "j' = j\<lparr>job_LeaseUntil := job_LeaseUntil j + d', job_Version := job_Version j + 1\<rparr>"
  have at_l: "job_ID (lease_Job l) = row_id r" using held(1) by (simp add: holds_lease_def)
  have mem: "RenewLease c clk (Some l) d s
      = (None, Observe (job_Version j') (job_LeaseUntil j') (job_Stage j') (Some l), put_job j' s)"
    using c j(1) now held(2) j(2) unfolding RenewLease_def
    by (simp add: at_l Let_def d'_def j'_def lease_view_def is_active_def)
  obtain t where t: "row_expires r = Some t" "clk < t"
    using held(1) by (auto simp: holds_lease_def split: option.splits)
  have until: "job_LeaseUntil j = t" using j(2) t by (simp add: lease_view_def instant_of_def)
  have view': "lease_view (renewed_row clk d' r) j'"
    using j(2) t until by (simp add: lease_view_def renewed_row_def j'_def instant_of_def)
  have "store_view db' (put_job j' s)"
    by (rule view_update [OF view at u r_in(2) _ _ view'])
       (auto simp: P_def holds_lease_def at_l renewed_row_def)
  moreover have "same_revision lo (Observe (job_Version j') (job_LeaseUntil j') (job_Stage j') (Some l))"
    unfolding lo using view' by (intro Observe_revision) (simp_all add: lease_view_def)
  ultimately show ?thesis using mem by blast
qed

lemma stage_refines:
  assumes inv: "pg_inv db" and view: "store_view db s"
    and run: "pg_SetStage env c clk (Some l) st db = (None, lo, db')"
    and clk: "pg_stamp env clk = clk"
  shows "\<exists>lo' s'. SetStage c clk (Some l) st s = (None, lo', s') \<and> store_view db' s'
    \<and> same_revision lo lo'"
proof -
  have c: "contextErr c = None" "stage_Valid st"
    using run by (auto simp: pg_SetStage_def split: option.splits if_splits)
  obtain version expiry where body: "stage_body env clk l st db = Inr ((version, expiry), db')"
    and lo: "lo = Observe (word_of_int version + 1) expiry st (Some l)"
    using pg_SetStage_cases [OF run] by auto
  from body show ?thesis
  proof (rule stage_body_cases)
    fix r
    assume at: "job_at db (job_ID (lease_Job l)) = Some r"
      and token: "row_token r = Some (lease_Token l)" and t: "row_expires r = Some expiry"
      and fresh: "\<not> lease_stale l clk r (lease_Token l) expiry"
      and trans: "CanTransitionTo (stage_of (row_stage r)) st" and v: "version = row_version r"
      and u: "update_jobs (\<lambda>x. row_status x = StatusProcessing \<and> row_id x = job_ID (lease_Job l)
         \<and> row_token x = Some (lease_Token l) \<and> row_version x = row_version r
         \<and> (case row_expires x of None \<Rightarrow> False | Some t \<Rightarrow> pg_stamp env clk < t))
       (staged_row st (pg_stamp env clk)) db = Inr (1, db')"
    have r: "row_id r = job_ID (lease_Job l)" "row_ok r"
      using job_at_Some [OF at] inv by (auto simp: pg_inv_def)
    note held = stale_held [OF fresh token t r]
    obtain j where j: "st_jobs s (job_ID (lease_Job l)) = Some j" "lease_view r j"
      using view_job [OF view at] .
    note now = held_job [OF j(2) held(1)]
    define j' where "j' = j\<lparr>job_Stage := st, job_Version := job_Version j + 1\<rparr>"
    have mem: "SetStage c clk (Some l) st s
        = (None, Observe (job_Version j') (job_LeaseUntil j') (job_Stage j') (Some l), put_job j' s)"
      using c j now held(2) trans unfolding SetStage_def
      by (simp add: Let_def j'_def lease_view_def)
    have view': "lease_view (staged_row st (pg_stamp env clk) r) j'"
      using j(2) held(2) by (simp add: lease_view_def staged_row_def j'_def stage_of_def)
    have "store_view db' (put_job j' s)"
      by (rule view_update [OF view at u _ _ _ view'])
         (use r held(2) token t clk fresh in \<open>auto simp: staged_row_def lease_stale_def\<close>)
    moreover have "same_revision lo (Observe (job_Version j') (job_LeaseUntil j') (job_Stage j') (Some l))"
      unfolding lo using j(2) v t
      by (intro Observe_revision) (simp_all add: lease_view_def j'_def instant_of_def)
    ultimately show ?thesis using mem by blast
  qed
qed

lemma complete_refines:
  assumes inv: "pg_inv db" and view: "store_view db s"
    and run: "pg_Complete env ps c clk (Some l) cm t db = (None, lo, db')"
    and clk: "pg_stamp env clk = clk"
  shows "\<exists>lo' s'. Complete c clk (Some l) cm t s = (None, lo', s') \<and> store_view db' s'
    \<and> same_revision lo lo'"
proof -
  have c: "contextErr c = None" "doc_ID (cmp_Content cm) \<noteq> ''''" "art_Available (cmp_Artifact cm)"
      "0 < art_ByteSize (cmp_Artifact cm)"
    using run by (auto simp: pg_Complete_def split: option.splits if_splits)
  obtain version now where body: "complete_body env ps clk l cm now db = Inr (version, db')"
    and lo: "lo = Observe (word_of_int version + 1) zero_time StageNone (Some l)"
    using pg_Complete_cases [OF run] by blast
  from body show ?thesis
  proof (rule complete_body_cases)
    fix r expiry x db1 db2
    assume at: "job_at db (job_ID (lease_Job l)) = Some r"
      and token: "row_token r = Some (lease_Token l)" and expiry: "row_expires r = Some expiry"
      and persisting: "row_stage r = Some StagePersisting"
      and fresh: "\<not> lease_stale l clk r (lease_Token l) expiry" and v: "version = row_version r"
      and x: "insert_content x db = Inr db1"
      and a: "insert_artifact (completed_artifact env (job_ID (lease_Job l)) (row_profile r) cm
        (pg_stamp env now)) db1 = Inr db2"
      and u: "update_jobs (\<lambda>x. row_status x = StatusProcessing \<and> row_id x = job_ID (lease_Job l)
         \<and> row_token x = Some (lease_Token l) \<and> row_version x = row_version r
         \<and> (case row_expires x of None \<Rightarrow> False | Some t \<Rightarrow> pg_stamp env clk < t))
       (finished_row (ps_destination ps) cm (pg_stamp env now)) db2 = Inr (1, db')"
    have same: "job_at db2 i = job_at db i" for i
      using insert_content_facts(2) [OF x] insert_artifact_facts(2) [OF a] by (simp add: job_at_def)
    have view2: "store_view db2 s" using view by (simp add: store_view_def same)
    have r: "row_id r = job_ID (lease_Job l)" "row_ok r"
      using job_at_Some [OF at] inv by (auto simp: pg_inv_def)
    note held = stale_held [OF fresh token expiry r]
    obtain j where j: "st_jobs s (job_ID (lease_Job l)) = Some j" "lease_view r j"
      using view_job [OF view at] .
    note guards = held_job [OF j(2) held(1)]
    define j' where "j' = completed_job cm t j"
    have mem: "Complete c clk (Some l) cm t s
        = (None, Observe (job_Version j') (job_LeaseUntil j') (job_Stage j') (Some l), put_job j' s)"
      using c j guards held(2) persisting unfolding Complete_def
      by (simp add: Let_def j'_def lease_view_def stage_of_def)
    have view': "lease_view (finished_row (ps_destination ps) cm (pg_stamp env now) r) j'"
      using j(2) by (simp add: lease_view_def finished_row_def Let_def j'_def completed_job_def
          stage_of_def text_of_def instant_of_def)
    have "store_view db' (put_job j' s)"
      by (rule view_update [OF view2 _ u _ _ _ view', of "job_ID (lease_Job l)"])
         (use r held(2) token expiry clk fresh at same in
            \<open>auto simp: finished_row_def Let_def lease_stale_def\<close>)
    moreover have "same_revision lo (Observe (job_Version j') (job_LeaseUntil j') (job_Stage j') (Some l))"
      unfolding lo using j(2) v
      by (intro Observe_revision) (simp_all add: lease_view_def j'_def completed_job_def Let_def)
    ultimately show ?thesis using mem by blast
  qed
qed

lemma settle_ok:
  assumes inv: "pg_inv db" and view: "store_view db s"
    and run: "settle env operation inspect clk (Some l) f db = (None, lo, db')"
    and clk: "pg_stamp env clk = clk"
    and ids: "\<And>r. row_id (f r) = row_id r"
  obtains r j where "row_id r = job_ID (lease_Job l)" "st_jobs s (job_ID (lease_Job l)) = Some j"
    "lease_view r j" "\<not> lease_lost clk l (Some j)"
    "\<And>j'. lease_view (f r) j' \<Longrightarrow> store_view db' (put_job j' s)"
    "lo = Observe (job_Version j + 1) zero_time StageNone (Some l)"
proof -
  define P where "P = (\<lambda>r. holds_lease l clk r \<and> is_active (row_status r))"
  obtain n where u: "update_jobs P f db = Inr (n, db')" and n: "n = 1"
    and lo: "lo = Observe (CurrentVersion (Some l) + 1) zero_time StageNone (Some l)"
    using settle_cases [OF run] by (auto simp: P_def clk)
  have "filter P (db_jobs db) \<noteq> []" using u n by (auto simp: update_jobs_Inr)
  then obtain r where r: "r \<in> set (db_jobs db)" "P r" by (auto simp: filter_empty_conv)
  then have at: "job_at db (row_id r) = Some r"
    using job_at_unique inv by (simp add: pg_inv_def)
  have i: "row_id r = job_ID (lease_Job l)" using r(2) by (simp add: P_def holds_lease_def)
  obtain j where j: "st_jobs s (row_id r) = Some j" "lease_view r j"
    using view_job [OF view at] .
  note guards = held_job [OF j(2), of l clk]
  have held: "holds_lease l clk r" using r(2) by (simp add: P_def)
  have fresh: "\<not> lease_lost clk l (Some j)" using guards [OF held] by (simp add: lease_lost_def)
  have "store_view db' (put_job j' s)" if "lease_view (f r) j'" for j'
    by (rule view_update [OF view at u r(2) _ ids that]) (simp add: P_def holds_lease_def i)
  then show thesis
    using that [OF i _ j(2) fresh] j(1) lo guards(2) [OF held] by (simp add: i)
qed

lemma requeue_refines:
  assumes inv: "pg_inv db" and view: "store_view db s"
    and run: "pg_Requeue env c clk (Some l) f t db = (None, lo, db')"
    and clk: "pg_stamp env clk = clk" and t: "pg_stamp env t = t" "\<not> time_IsZero t"
  shows "\<exists>lo' s'. Requeue c clk (Some l) f t s = (None, lo', s') \<and> store_view db' s'
    \<and> same_revision lo lo'"
proof -
  have c: "contextErr c = None"
    and s: "settle env ''requeue job'' ''inspect requeue'' clk (Some l) (requeued_row t) db
      = (None, lo, db')"
    using run t by (auto simp: pg_Requeue_def split: option.splits)
  show ?thesis
  proof (rule settle_ok [OF inv view s clk])
    fix r j
    assume j: "st_jobs s (job_ID (lease_Job l)) = Some j" "lease_view r j"
      and fresh: "\<not> lease_lost clk l (Some j)"
      and put: "\<And>j'. lease_view (requeued_row t r) j' \<Longrightarrow> store_view db' (put_job j' s)"
      and lo: "lo = Observe (job_Version j + 1) zero_time StageNone (Some l)"
    have "lease_view (requeued_row t r) (requeued_job t j)"
      using j(2) by (simp add: lease_view_def requeued_row_def requeued_job_def stage_of_def
          text_of_def instant_of_def)
    from put [OF this] show ?thesis
      using c j(1) fresh
      by (auto simp: Requeue_def Let_def lo requeued_job_def intro!: Observe_revision)
  qed (simp add: requeued_row_def)
qed

lemma fail_refines:
  assumes inv: "pg_inv db" and view: "store_view db s"
    and run: "pg_Fail env c clk (Some l) f t db = (None, lo, db')"
    and clk: "pg_stamp env clk = clk"
  shows "\<exists>lo' s'. Fail c clk (Some l) f t s = (None, lo', s') \<and> store_view db' s'
    \<and> same_revision lo lo'"
proof -
  obtain now where c: "contextErr c = None"
    and s: "settle env ''fail job'' ''inspect failed job'' clk (Some l)
        (failed_row (fail_Category f) now) db = (None, lo, db')"
    using run by (auto simp: pg_Fail_def split: option.splits)
  show ?thesis
  proof (rule settle_ok [OF inv view s clk])
    fix r j
    assume j: "st_jobs s (job_ID (lease_Job l)) = Some j" "lease_view r j"
      and fresh: "\<not> lease_lost clk l (Some j)"
      and put: "\<And>j'. lease_view (failed_row (fail_Category f) now r) j' \<Longrightarrow>
          store_view db' (put_job j' s)"
      and lo: "lo = Observe (job_Version j + 1) zero_time StageNone (Some l)"
    have "lease_view (failed_row (fail_Category f) now r) (failed_job f t j)"
      using j(2) by (simp add: lease_view_def failed_row_def failed_job_def stage_of_def
          text_of_def instant_of_def Let_def)
    from put [OF this] show ?thesis
      using c j(1) fresh
      by (auto simp: Fail_def Let_def lo failed_job_def intro!: Observe_revision)
  qed (simp add: failed_row_def)
qed

lemma call_refines:
  assumes "pg_inv db" and "store_view db s"
    and "pg_call env ps c clk (Some l) call db = (None, lo, db')"
    and "pg_stamp env clk = clk" and "exact_call env call"
  shows "\<exists>lo' s'. mem_call c clk (Some l) call s = (None, lo', s') \<and> store_view db' s'
    \<and> same_revision lo lo'"
  using assms
  by (cases call)
     (simp_all add: renew_refines stage_refines complete_refines requeue_refines fail_refines)

subsection \<open>Calls that fail\<close>

text \<open>The commit was not left open and the number of affected rows was reported.\<close>

definition settled_answers :: "pg_env \<Rightarrow> bool" where
  "settled_answers env \<longleftrightarrow>
     (case pg_commit env of CommitUnknown e \<Rightarrow> False | _ \<Rightarrow> True)
     \<and> pg_fail env ''inspect requeue'' 0 = None \<and> pg_fail env ''inspect failed job'' 0 = None"

lemma run_tx_failed:
  "run_tx env b c body db = (Inl e, db') \<Longrightarrow> settled_answers env \<Longrightarrow> db' = db"
  by (auto simp: run_tx_def settled_answers_def
      split: option.splits sum.splits prod.splits commit_answer.splits)

lemma update_none:
  assumes "update_jobs P f db = Inr (n, db')" and "\<And>r. r \<in> set (db_jobs db) \<Longrightarrow> \<not> P r"
  shows "db' = db"
proof -
  have "map (\<lambda>r. if P r then f r else r) (db_jobs db) = db_jobs db"
    using assms(2) by (intro map_idI) auto
  then show ?thesis using assms(1) by (simp add: update_jobs_Inr)
qed

lemma one_row_per_id:
  assumes "distinct (map row_id rs)" and "\<And>r. P r \<Longrightarrow> row_id r = i"
  shows "length (filter P rs) \<le> 1"
  using assms(1)
proof (induction rs)
  case (Cons r rs)
  show ?case
  proof (cases "P r")
    case True
    then have "filter P rs = []"
      using Cons.prems assms(2) by (auto simp: filter_empty_conv)
    then show ?thesis by simp
  qed (use Cons in simp)
qed simp

lemma settle_failed:
  assumes run: "settle env operation inspect clk (Some l) f db = (Some e, lo, db')"
    and inv: "pg_inv db" and answers: "settled_answers env" "pg_fail env inspect 0 = None"
  shows "db' = db \<and> lo = Some l"
proof -
  define P where "P = (\<lambda>r. holds_lease l (pg_stamp env clk) r \<and> is_active (row_status r))"
  have one: "length (filter P (db_jobs db)) \<le> 1"
    by (rule one_row_per_id [of _ _ "job_ID (lease_Job l)"])
       (use inv in \<open>auto simp: pg_inv_def P_def holds_lease_def\<close>)
  have lost: "autocommit_lost env db r = db" for r
    using answers(1) by (auto simp: autocommit_lost_def settled_answers_def split: commit_answer.splits)
  have "(db' = db \<or> (\<exists>n. update_jobs P f db = Inr (n, db') \<and> n \<noteq> 1)) \<and> lo = Some l"
    using run answers(2) lost unfolding P_def
    by (auto simp: settle_def Let_def exec_def split: option.splits sum.splits if_splits prod.splits)
  moreover have "db' = db" if "update_jobs P f db = Inr (n, db')" "n \<noteq> 1" for n
  proof -
    have "n = length (filter P (db_jobs db))" using that(1) by (simp add: update_jobs_Inr)
    then have "filter P (db_jobs db) = []"
      using that(2) one by (cases "filter P (db_jobs db)") simp_all
    then show ?thesis using update_none [OF that(1)] by (auto simp: filter_empty_conv)
  qed
  ultimately show ?thesis by blast
qed

lemma renew_failed:
  assumes run: "pg_RenewLease env c clk (Some l) d db = (Some e, lo, db')"
    and inv: "pg_inv db" and answers: "settled_answers env"
  shows "db' = db \<and> lo = Some l"
proof -
  define P where "P = (\<lambda>r. holds_lease l (pg_stamp env clk) r \<and> is_active (row_status r))"
  define f where "f = renewed_row (pg_stamp env clk) (lease_micros (if d \<le> 0 then 5 * Minute else d))"
  have lost: "autocommit_lost env db r = db" for r
    using answers by (auto simp: autocommit_lost_def settled_answers_def split: commit_answer.splits)
  have cases: "(db' = db \<or> (\<exists>n. update_jobs P f db = Inr (n, db')
        \<and> (find P (db_jobs db) = None \<or> (\<exists>r. find P (db_jobs db) = Some r \<and> row_version (f r) \<le> 0))))
      \<and> lo = Some l"
    using run lost unfolding P_def f_def pg_RenewLease_def Let_def
    by (auto split: option.splits sum.splits if_splits prod.splits)
  moreover have "db' = db" if "update_jobs P f db = Inr (n, db')" "find P (db_jobs db) = None" for n
    using update_none [OF that(1)] that(2) by (auto simp: find_None_iff)
  moreover have False if "update_jobs P f db = Inr (n, db')" "find P (db_jobs db) = Some r"
      "row_version (f r) \<le> 0" for n r
  proof -
    have "r \<in> set (db_jobs db)" using that(2) by (auto simp: find_Some_iff)
    then have "0 < row_version r" using inv by (auto simp: pg_inv_def row_ok_def)
    then show False using that(3) by (simp add: f_def renewed_row_def)
  qed
  ultimately show ?thesis by blast
qed

lemma call_failed:
  assumes "pg_call env ps c clk (Some l) call db = (Some e, lo, db')"
    and "pg_inv db" and "settled_answers env"
  shows "db' = db \<and> lo = Some l"
proof (cases call)
  case (CallRenew d)
  then show ?thesis using renew_failed assms by simp
next
  case (CallStage st)
  then show ?thesis
    using assms run_tx_failed
    by (fastforce simp: pg_SetStage_def split: option.splits if_splits sum.splits prod.splits)
next
  case (CallComplete cm t)
  then show ?thesis
    using assms run_tx_failed
    by (fastforce simp: pg_Complete_def Let_def split: option.splits if_splits sum.splits prod.splits)
next
  case (CallRequeue f t)
  then show ?thesis
    using assms settle_failed
    by (auto simp: pg_Requeue_def settled_answers_def split: option.splits)
next
  case (CallFail f t)
  then show ?thesis
    using assms settle_failed
    by (auto simp: pg_Fail_def settled_answers_def split: option.splits)
qed

end
