(* ===== verification/Postgres_Properties.thy ===== *)
theory Postgres_Properties
  imports Postgres_Refinement Delivery_Properties Archive_Facts Memory_Properties
begin

section \<open>Properties of the PostgreSQL store\<close>

text \<open>
  The claims about \<open>internal/postgres\<close>, each with a witness on a short history of the tables.
\<close>

subsection \<open>A concrete history\<close>

text \<open>A job is submitted to empty tables and claimed, by the server without failures of
  \<open>Delivery_Properties\<close>.\<close>

definition demo_pg_store :: pg_store where
  "demo_pg_store = \<lparr>ps_destination = ''k@x'', ps_scope = ''owner''\<rparr>"

definition demo_command :: create_job where
  "demo_command = \<lparr>cj_ID = ''j'',
     cj_Request = \<lparr>sub_URL = ''https://a/'', sub_Title = '''', sub_Profile = ''p''\<rparr>,
     cj_CreatedAt = 500, cj_IdempotencyKey = ''k'', cj_RequestDigest = ''d''\<rparr>"

definition demo_idem :: idem_row where
  "demo_idem = \<lparr>ir_scope = ''owner'', ir_key = ''k'', ir_hash = ''d'', ir_job = ''j'',
     ir_created = 500, ir_expires = 500 + 24 * Hour\<rparr>"

definition demo_created :: pg_db where
  "demo_created = empty_db\<lparr>db_jobs := [created_row quiet_pg demo_command 500],
     db_idem := [demo_idem]\<rparr>"

lemmas plain_text_eval = not_blank_eval is_ascii_def Trim_def

lemma demo_created_row_ok: "row_ok (created_row quiet_pg demo_command 500)"
  by (simp add: row_ok_def created_row_def demo_command_def is_active_def plain_text_eval)

lemma demo_created_job: "\<exists>j. loadJob quiet_pg demo_created ''j'' = Inr j \<and> job_ID j = ''j''"
  by (simp add: loadJob_def job_at_def scanJob_def bad_row_def artifact_of_def content_of_def
      scanned_job_def with_failure_def with_content_def demo_created_def created_row_def
      demo_command_def empty_db_def)

lemma demo_create: "\<exists>out. pg_CreateOrReuse quiet_pg demo_pg_store NilContext demo_command empty_db
    = (out, None, demo_created) \<and> job_ID (out_Job out) = ''j''"
proof -
  obtain j where j: "loadJob quiet_pg demo_created ''j'' = Inr j" "job_ID j = ''j''"
    using demo_created_job by blast
  have ins: "insert_job_row (created_row quiet_pg demo_command 500) empty_db
      = Inr (empty_db\<lparr>db_jobs := [created_row quiet_pg demo_command 500]\<rparr>)"
    using demo_created_row_ok by (simp add: insert_job_row_def empty_db_def)
  have idem: "insert_idem demo_idem (empty_db\<lparr>db_jobs := [created_row quiet_pg demo_command 500]\<rparr>)
      = Inr (True, demo_created)"
    by (simp add: insert_idem_def idem_ok_def idem_lookup_def demo_idem_def demo_created_def
        empty_db_def plain_text_eval duration_defs)
  have cmd: "cj_ID demo_command = ''j''" "cj_IdempotencyKey demo_command = ''k''"
      "cj_RequestDigest demo_command = ''d''" "cj_CreatedAt demo_command = 500"
      "ps_scope demo_pg_store = ''owner''"
    by (simp_all add: demo_command_def demo_pg_store_def)
  have row: "\<lparr>ir_scope = ''owner'', ir_key = ''k'', ir_hash = ''d'', ir_job = ''j'',
      ir_created = 500, ir_expires = 500 + 24 * Hour\<rparr> = demo_idem"
    by (simp add: demo_idem_def)
  have created: "insert_created quiet_pg demo_pg_store demo_command 500 clk empty_db
      = Inr (\<lparr>out_Job = j, out_Replayed = False, out_Conflict = False\<rparr>, ''commit create'', demo_created)"
    for clk
    by (simp add: insert_created_def Let_def ins cmd row idem plain_def j)
  have body: "create_body quiet_pg demo_pg_store demo_command 500 clk empty_db
      = (Inr (\<lparr>out_Job = j, out_Replayed = False, out_Conflict = False\<rparr>, ''commit create'',
          demo_created), empty_db)" for clk
    using created [of clk]
    by (simp add: create_body_def cmd idem_lookup_def)
       (simp add: empty_db_def quiet_pg_def)
  have id: "TrimSpace ''j'' = ''j''"
    by (rule TrimSpace_plain) (simp add: IsSpace_def)
  show ?thesis
    using j(2) by (simp add: pg_CreateOrReuse_def cmd id body Let_def time_IsZero_def zero_time_def)
qed

lemma demo_reachable: "pg_reachable demo_created"
proof -
  obtain out where "pg_CreateOrReuse quiet_pg demo_pg_store NilContext demo_command empty_db
      = (out, None, demo_created)"
    using demo_create by blast
  then show ?thesis
    by (rule pg_reachable.create [OF pg_reachable.start, rotated])
       (simp add: quiet_pg_def pg_reachable.start)
qed

subsection \<open>The invariant of the tables\<close>



subsection \<open>Submission\<close>

lemma find_snoc: "find P xs = None \<Longrightarrow> find P (xs @ [x]) = (if P x then Some x else None)"
  by (induction xs) (auto split: if_splits)

lemma insert_idem_lookup:
  assumes "insert_idem i db = Inr (True, db')"
  shows "idem_lookup db' (ir_scope i) (ir_key i) = Some i"
  using assms find_snoc [of "\<lambda>x. ir_scope x = ir_scope i \<and> ir_key x = ir_key i" "db_idem db" i]
  by (auto simp: insert_idem_def idem_lookup_def split: if_splits)

lemma insert_created_lookup:
  assumes "insert_created env ps cmd since clk db = Inr (out, c, db')"
    and "cj_IdempotencyKey cmd \<noteq> ''''"
  shows "\<exists>i. idem_lookup db' (ps_scope ps) (cj_IdempotencyKey cmd) = Some i
    \<and> ir_hash i = cj_RequestDigest cmd \<and> ir_job i = job_ID (out_Job out)"
  using assms(1)
proof (cases rule: insert_created_cases)
  case (fresh db1)
  then show ?thesis using assms(2) by simp
next
  case (keyed db1)
  from insert_idem_lookup [OF keyed(3)] loadJob_ID [OF keyed(4)] show ?thesis by simp
next
  case (lost db1 i)
  from lost(4,6) loadJob_ID [OF lost(7)] show ?thesis by (intro exI [of _ i]) simp
qed

lemma create_lookup:
  assumes "pg_CreateOrReuse env ps c cmd db = (out, None, db')" and key: "cj_IdempotencyKey cmd \<noteq> ''''"
  shows "\<exists>i. idem_lookup db' (ps_scope ps) (cj_IdempotencyKey cmd) = Some i
    \<and> ir_hash i = cj_RequestDigest cmd \<and> ir_job i = job_ID (out_Job out)"
proof -
  obtain since res base cn
    where body: "create_body env ps cmd since (pg_clock env 1) db = (res, base)"
      and res: "res = Inr (out, cn, db')"
    using pg_CreateOrReuse_cases [OF assms(1)] by auto
  have "(\<exists>i cn' cn. replay env cmd i cn' db = Inr (out, cn, db')
            \<and> idem_lookup db (ps_scope ps) (cj_IdempotencyKey cmd) = Some i)
      \<or> (\<exists>db0. insert_created env ps cmd since (pg_clock env 1) db0 = Inr (out, cn, db'))"
    using body key unfolding res
    by (auto simp: create_body_def and_then_Inr plain_Inr exec_Inr split: option.splits if_splits)
  then show ?thesis
  proof (elim disjE exE conjE)
    fix i cn' cn
    assume "replay env cmd i cn' db = Inr (out, cn, db')"
      and "idem_lookup db (ps_scope ps) (cj_IdempotencyKey cmd) = Some i"
    then show ?thesis using loadJob_ID by (auto simp: replay_Inr)
  qed (rule insert_created_lookup [OF _ key])
qed

text \<open>What a submission does while a record under its key is alive.\<close>

lemma create_under_live_key:
  assumes live: "idem_lookup db (ps_scope ps) (cj_IdempotencyKey cmd) = Some i"
      "pg_clock env 1 < ir_expires i"
    and key: "cj_IdempotencyKey cmd \<noteq> ''''"
    and rows: "\<forall>e. pg_fail env ''read idempotency record'' 0 = Some e \<longrightarrow> \<not> is_no_rows e"
    and run: "pg_CreateOrReuse env ps c cmd db = (out, oe, db')"
  shows "db' = db \<and> (oe = None \<longrightarrow> ir_hash i = cj_RequestDigest cmd \<and> out_Replayed out
           \<and> job_ID (out_Job out) = ir_job i)"
  using pg_CreateOrReuse_cases [OF run]
proof (elim disjE exE conjE)
  fix since res base
  assume body: "create_body env ps cmd since (pg_clock env 1) db = (res, base)"
  then have base: "base = db" and res: "res = replay env cmd i ''commit idempotent replay'' db
      \<or> (\<exists>x. res = Inl x)"
    using live key rows by (auto simp: create_body_def split: option.splits if_splits)
  then show "db' = base \<Longrightarrow> oe \<noteq> None \<Longrightarrow> db' = db \<and> (oe = None \<longrightarrow> ir_hash i = cj_RequestDigest cmd
      \<and> out_Replayed out \<and> job_ID (out_Job out) = ir_job i)"
    using base by auto
  fix out' cn
  assume r: "res = Inr (out', cn, db')" and "oe = None \<longrightarrow> out = out'"
  have "replay env cmd i ''commit idempotent replay'' db = Inr (out', cn, db')"
    using res
  proof (elim disjE exE)
    assume "res = replay env cmd i ''commit idempotent replay'' db"
    with r show ?thesis by simp
  next
    fix x
    assume "res = Inl x"
    with r show ?thesis by simp
  qed
  with \<open>oe = None \<longrightarrow> out = out'\<close> show "db' = db \<and> (oe = None \<longrightarrow> ir_hash i = cj_RequestDigest cmd
      \<and> out_Replayed out \<and> job_ID (out_Job out) = ir_job i)"
    using loadJob_ID by (auto simp: replay_Inr)
qed auto

text \<open>C29. Idempotent submission. Once a submission under a key has succeeded, also when another
  transaction took the key between its statements, the key has a record that names the returned
  job; while that record is alive, a further submission under the key changes nothing, and
  succeeds only with the same digest and with the same job.\<close>

theorem submission_is_idempotent:
  assumes "pg_CreateOrReuse env ps c cmd db = (out, None, db')" and "cj_IdempotencyKey cmd \<noteq> ''''"
  shows "\<exists>i. idem_lookup db' (ps_scope ps) (cj_IdempotencyKey cmd) = Some i
    \<and> (\<forall>env2 c2 cmd2 out2 oe2 db2.
          cj_IdempotencyKey cmd2 = cj_IdempotencyKey cmd \<and> pg_clock env2 1 < ir_expires i
          \<and> (\<forall>e. pg_fail env2 ''read idempotency record'' 0 = Some e \<longrightarrow> \<not> is_no_rows e)
          \<and> pg_CreateOrReuse env2 ps c2 cmd2 db' = (out2, oe2, db2) \<longrightarrow>
          db2 = db' \<and> (oe2 = None \<longrightarrow> cj_RequestDigest cmd2 = cj_RequestDigest cmd
             \<and> out_Replayed out2 \<and> job_ID (out_Job out2) = job_ID (out_Job out)))"
proof -
  obtain i where i: "idem_lookup db' (ps_scope ps) (cj_IdempotencyKey cmd) = Some i"
      "ir_hash i = cj_RequestDigest cmd" "ir_job i = job_ID (out_Job out)"
    using create_lookup [OF assms] by blast
  have "db2 = db' \<and> (oe2 = None \<longrightarrow> cj_RequestDigest cmd2 = cj_RequestDigest cmd
      \<and> out_Replayed out2 \<and> job_ID (out_Job out2) = job_ID (out_Job out))"
    if "cj_IdempotencyKey cmd2 = cj_IdempotencyKey cmd" "pg_clock env2 1 < ir_expires i"
      "\<forall>e. pg_fail env2 ''read idempotency record'' 0 = Some e \<longrightarrow> \<not> is_no_rows e"
      "pg_CreateOrReuse env2 ps c2 cmd2 db' = (out2, oe2, db2)" for env2 c2 cmd2 out2 oe2 db2
    using create_under_live_key [of db' ps cmd2 i env2 c2 out2 oe2 db2] that i assms(2) by auto
  then show ?thesis using i(1) by blast
qed

theorem submission_is_idempotent_witness:
  "\<exists>out i. pg_CreateOrReuse quiet_pg demo_pg_store NilContext demo_command empty_db
      = (out, None, demo_created)
    \<and> idem_lookup demo_created ''owner'' ''k'' = Some i"
proof -
  obtain out where out: "pg_CreateOrReuse quiet_pg demo_pg_store NilContext demo_command empty_db
      = (out, None, demo_created)"
    using demo_create by blast
  have "cj_IdempotencyKey demo_command \<noteq> ''''" by (simp add: demo_command_def)
  from submission_is_idempotent [OF out this] out show ?thesis
    by (auto simp: demo_pg_store_def demo_command_def)
qed

subsection \<open>Refinement of the in-memory store\<close>

text \<open>The memory store a database shows.\<close>

definition shown_job :: "job_row \<Rightarrow> job" where
  "shown_job r = zero_job\<lparr>job_ID := row_id r, job_Status := row_status r,
     job_Stage := stage_of (row_stage r), job_LeaseToken := text_of (row_token r),
     job_LeaseUntil := instant_of (row_expires r), job_Version := word_of_int (row_version r),
     job_AttemptCount := row_attempt_count r, job_NextAttemptAt := row_next_attempt r\<rparr>"

definition shown_store :: "pg_db \<Rightarrow> mem_store" where
  "shown_store db = NewStore\<lparr>st_jobs := (\<lambda>i. map_option shown_job (job_at db i))\<rparr>"

lemma store_view_shown: "store_view db (shown_store db)"
proof -
  have "rel_option lease_view (job_at db i) (map_option shown_job (job_at db i))" for i
    by (cases "job_at db i") (simp_all add: lease_view_def shown_job_def)
  then show ?thesis by (simp add: store_view_def shown_store_def)
qed

text \<open>The submitted job is claimed for five minutes.\<close>

definition demo_expiry :: time where
  "demo_expiry = 1000 + 5 * Minute"

definition demo_claimed :: pg_db where
  "demo_claimed = demo_created\<lparr>db_jobs :=
     [claimed_row 1000 ''token'' demo_expiry (created_row quiet_pg demo_command 500)]\<rparr>"

lemma demo_claimed_row_ok:
  "row_ok (claimed_row 1000 ''token'' demo_expiry (created_row quiet_pg demo_command 500))"
  by (simp add: row_ok_def claimed_row_def created_row_def demo_command_def is_active_def
      plain_text_eval)

lemma demo_claim_lease:
  "\<exists>l. pg_ClaimNext quiet_pg NilContext 1000 0 demo_created = (Inr (Some l), demo_claimed)
     \<and> lease_Token l = ''token'' \<and> job_ID (lease_Job l) = ''j'' \<and> CurrentVersion (Some l) = 2"
proof -
  let ?r = "created_row quiet_pg demo_command 500"
  have jobs: "db_jobs demo_created = [?r]" by (simp add: demo_created_def)
  have queued: "row_status ?r = StatusQueued" "row_next_attempt ?r = 500" "row_expires ?r = None"
      "row_id ?r = ''j''" "row_version ?r = 1"
    by (simp_all add: created_row_def demo_command_def)
  have same: "demo_created\<lparr>db_jobs := [?r]\<rparr> = demo_created" by (simp add: demo_created_def)
  have none: "update_jobs (lease_ran_out st 1000) f demo_created = Inr (0, demo_created)" for st f
    using queued same by (simp add: update_jobs_def lease_ran_out_def jobs)
  have expire: "expireDeliveries quiet_pg 1000 demo_created = Inr demo_created"
    by (simp add: expireDeliveries_def none)
  have selected: "select_claim quiet_pg 1000 demo_created = Some ?r"
    using queued by (simp add: select_claim_def jobs row_claimable_def)
  obtain j where j: "scanClaimJob ?r = Inr j" "job_ID j = ''j''" "job_Version j = 1"
    by (simp add: scanClaimJob_def bad_row_def scanned_job_def with_failure_def created_row_def
        demo_command_def)
  define l where "l = NewLease (leased_job ''token'' demo_expiry j) ''token'' demo_expiry"
  have claim: "update_jobs (\<lambda>x. row_id x = ''j'' \<and> row_status x = StatusQueued \<and> row_version x = 1)
      (claimed_row 1000 ''token'' demo_expiry) demo_created = Inr (1, demo_claimed)"
    using queued demo_claimed_row_ok by (simp add: update_jobs_def jobs demo_claimed_def)
  have body: "claim_body quiet_pg 1000 (5 * Minute) demo_created = Inr (Some l, demo_claimed)"
    using claim unfolding claim_body_def
    by (simp add: expire none selected claim_selected_def j queued l_def demo_expiry_def)
  have "pg_ClaimNext quiet_pg NilContext 1000 0 demo_created = (Inr (Some l), demo_claimed)"
    by (simp add: pg_ClaimNext_def Let_def time_IsZero_def zero_time_def body run_tx_def)
  moreover have "lease_Token l = ''token''" "job_ID (lease_Job l) = ''j''" "CurrentVersion (Some l) = 2"
    using j by (simp_all add: l_def NewLease_def leased_job_def CurrentVersion_def)
  ultimately show ?thesis by blast
qed

lemma demo_claimed_reachable: "pg_reachable demo_claimed"
proof -
  obtain l where "pg_ClaimNext quiet_pg NilContext 1000 0 demo_created
      = (Inr (Some l), demo_claimed)"
    using demo_claim_lease by blast
  then show ?thesis by (rule pg_reachable.claim [OF demo_reachable])
qed
text \<open>C26. Refinement. Whatever a worker asks of the PostgreSQL store under its lease, in every
  reachable state of the tables and with instants the server stores exactly: a call that succeeds
  also succeeds on the in-memory store that shows the same jobs, leaves both with the same
  revision and expiry in the lease, and the stores show the same jobs again; a call that fails
  with a settled answer of the server changes neither the tables nor the lease.\<close>

theorem postgres_refines_memory:
  assumes "pg_reachable db" and "store_view db s"
    and "pg_call env ps c clk (Some l) call db = (oe, lo, db')"
    and "pg_stamp env clk = clk" and "exact_call env call"
  shows "(oe = None \<longrightarrow> (\<exists>lo' s'. mem_call c clk (Some l) call s = (None, lo', s')
            \<and> store_view db' s' \<and> same_revision lo lo'))
       \<and> (oe \<noteq> None \<and> settled_answers env \<longrightarrow> db' = db \<and> lo = Some l)"
proof (cases oe)
  case None
  then show ?thesis using call_refines [OF pg_reachable_inv [OF assms(1)] assms(2) _ assms(4,5)] assms(3)
    by simp
next
  case (Some e)
  then show ?thesis using call_failed [OF _ pg_reachable_inv [OF assms(1)]] assms(3) by blast
qed

lemma demo_renewal:
  assumes "lease_Token l = ''token''" and "job_ID (lease_Job l) = ''j''"
    and "CurrentVersion (Some l) = 2"
  shows "\<exists>lo db'. pg_RenewLease quiet_pg NilContext 2000 (Some l) 0 demo_claimed = (None, lo, db')"
proof -
  let ?r = "claimed_row 1000 ''token'' demo_expiry (created_row quiet_pg demo_command 500)"
  have jobs: "db_jobs demo_claimed = [?r]" by (simp add: demo_claimed_def)
  have r: "row_id ?r = ''j''" "row_token ?r = Some ''token''" "row_version ?r = 2"
      "row_expires ?r = Some demo_expiry" "row_status ?r = StatusProcessing"
    by (simp_all add: claimed_row_def created_row_def demo_command_def)
  have now: "2000 < demo_expiry" by (simp add: demo_expiry_def duration_defs)
  have held: "holds_lease l 2000 ?r" using assms r now by (simp add: holds_lease_def)
  have active: "is_active (row_status ?r)" using r by (simp add: is_active_def)
  have ok: "row_ok (renewed_row 2000 d ?r)" for d
    by (simp add: row_ok_def renewed_row_def claimed_row_def created_row_def demo_command_def
        is_active_def plain_text_eval)
  have version: "row_version (renewed_row 2000 d ?r) = 3" for d using r by (simp add: renewed_row_def)
  show ?thesis
    by (simp add: pg_RenewLease_def Let_def update_jobs_def jobs held active ok version)
qed

theorem postgres_refines_memory_witness:
  "\<exists>l lo lo' db' s'. pg_call quiet_pg demo_pg_store NilContext 2000 (Some l) (CallRenew 0) demo_claimed
      = (None, lo, db')
    \<and> mem_call NilContext 2000 (Some l) (CallRenew 0) (shown_store demo_claimed) = (None, lo', s')
    \<and> store_view db' s' \<and> same_revision lo lo'"
proof -
  obtain l where l: "lease_Token l = ''token''" "job_ID (lease_Job l) = ''j''"
      "CurrentVersion (Some l) = 2"
    using demo_claim_lease by blast
  obtain lo db' where run:
      "pg_call quiet_pg demo_pg_store NilContext 2000 (Some l) (CallRenew 0) demo_claimed = (None, lo, db')"
    using demo_renewal [OF l] by auto
  from postgres_refines_memory [OF demo_claimed_reachable store_view_shown run] run
  show ?thesis by (simp (no_asm_use)) blast
qed

subsection \<open>A lease that was taken away\<close>

lemma scan_NULL: "scan op None = Inl (databaseFailure op)"
  by (simp add: scan_def null_scan_def)

lemma scan_Some: "scan op (Some x) = Inr x"
  by (simp add: scan_def)

text \<open>A lost lease can look like a broken database. When the lease was reclaimed,
  given back or used up, so that the token of the row is NULL, renewing the old lease answers that the lease is lost, as the in-memory store does, but
  \<open>SetStage\<close> and \<open>Complete\<close> scan the NULL into a variable that cannot hold it and answer with a
  failure of the database; none of them changes the tables.\<close>

theorem lost_lease_reads_as_storage_failure:
  assumes "contextErr c = None" and "stage_Valid st" and "doc_ID (cmp_Content cm) \<noteq> ''''"
    and "art_Available (cmp_Artifact cm)" and "0 < art_ByteSize (cmp_Artifact cm)"
    and "job_at db (job_ID (lease_Job l)) = Some r" and "row_token r = None"
    and "\<And>op n. pg_fail env op n = None" and "pg_inv db"
  shows "pg_SetStage env c clk (Some l) st db = (Some (databaseFailure ''read stage''), Some l, db)
    \<and> pg_Complete env ps c clk (Some l) cm t db
        = (Some (databaseFailure ''read completion job''), Some l, db)
    \<and> pg_RenewLease env c clk (Some l) d db = (Some ErrLeaseLost, Some l, db)
    \<and> \<not> errors_Is (databaseFailure ''read stage'') ErrLeaseLost
    \<and> (store_view db s \<and> lease_Token l \<noteq> '''' \<longrightarrow>
         SetStage c clk (Some l) st s = (Some ErrLeaseLost, Some l, s))"
proof -
  have id: "row_id r = job_ID (lease_Job l)" and r: "r \<in> set (db_jobs db)"
    using job_at_Some [OF assms(6)] by simp_all
  have no_holder: "\<not> holds_lease l now x" if "x \<in> set (db_jobs db)" for x now
  proof (cases "row_id x = row_id r")
    case True
    then have "x = r" using job_at_unique [of db x] that assms(6,9) id by (simp add: pg_inv_def)
    then show ?thesis using assms(7) by (simp add: holds_lease_def)
  qed (simp add: holds_lease_def id)
  have none: "find (\<lambda>r. holds_lease l now r \<and> is_active (row_status r)) (db_jobs db) = None"
      "filter (\<lambda>r. holds_lease l now r \<and> is_active (row_status r)) (db_jobs db) = []" for now
    using no_holder by (auto simp: find_None_iff filter_empty_conv)
  have stage: "stage_body env clk l st db = Inl (databaseFailure ''read stage'')"
    using assms(6-8) by (simp add: stage_body_def query_row_def scan_NULL)
  have "complete_body env ps clk l cm now db = Inl (databaseFailure ''read completion job'')" for now
    using assms(6-8)
    by (cases "row_stage r") (simp_all add: complete_body_def query_row_def scan_NULL scan_Some)
  then have complete: "pg_Complete env ps c clk (Some l) cm t db
      = (Some (databaseFailure ''read completion job''), Some l, db)"
    using assms(1,3-5,8) by (simp add: pg_Complete_def Let_def run_tx_def)
  have set: "pg_SetStage env c clk (Some l) st db = (Some (databaseFailure ''read stage''), Some l, db)"
    using assms(1,2,8) stage by (simp add: pg_SetStage_def run_tx_def)
  have "update_jobs (\<lambda>r. holds_lease l now r \<and> is_active (row_status r)) f db = Inr (0, db)" for now f
    using no_holder by (simp add: update_jobs_def list_all_iff cong: map_cong)
  then have renew: "pg_RenewLease env c clk (Some l) d db = (Some ErrLeaseLost, Some l, db)"
    using assms(1,8) none by (simp add: pg_RenewLease_def Let_def)
  have "SetStage c clk (Some l) st s = (Some ErrLeaseLost, Some l, s)"
    if view: "store_view db s" and token: "lease_Token l \<noteq> ''''"
  proof -
    obtain j where "st_jobs s (job_ID (lease_Job l)) = Some j" "lease_view r j"
      using view_job [OF view assms(6)] .
    then show ?thesis using assms(1,2,7) token by (simp add: SetStage_def lease_view_def text_of_def)
  qed
  then show ?thesis
    using set complete renew by (simp add: databaseFailure_def)
qed

theorem lost_lease_reads_as_storage_failure_witness:
  "pg_SetStage quiet_pg NilContext 2000 (Some (NewLease (zero_job\<lparr>job_ID := ''j''\<rparr>) ''token'' 9000))
      StageExtracting demo_created
    = (Some (databaseFailure ''read stage''),
       Some (NewLease (zero_job\<lparr>job_ID := ''j''\<rparr>) ''token'' 9000), demo_created)"
proof -
  let ?l = "NewLease (zero_job\<lparr>job_ID := ''j''\<rparr>) ''token'' 9000"
  have at: "job_at demo_created (job_ID (lease_Job ?l)) = Some (created_row quiet_pg demo_command 500)"
    by (simp add: job_at_def demo_created_def created_row_def demo_command_def NewLease_def)
  have inv: "pg_inv demo_created" by (rule pg_reachable_inv [OF demo_reachable])
  have "contextErr NilContext = None" "stage_Valid StageExtracting"
      "doc_ID (cmp_Content demo_completion) \<noteq> ''''" "art_Available (cmp_Artifact demo_completion)"
      "0 < art_ByteSize (cmp_Artifact demo_completion)"
      "row_token (created_row quiet_pg demo_command 500) = None"
      "\<And>op n. pg_fail quiet_pg op n = None"
    by (simp_all add: demo_completion_def created_row_def)
  from lost_lease_reads_as_storage_failure [OF this(1-5) at this(6,7) inv] show ?thesis by blast
qed

subsection \<open>The record of the AI calls\<close>

lemma pg_RecordAIAttempts_answer:
  assumes "pg_RecordAIAttempts env c i attempts db = (r, db')"
  shows "(\<exists>e. db' = db \<and> r = Inl e)
    \<or> (\<exists>ids. record_loop env i 0 (\<lambda>p. 0) attempts [] db = Inr (ids, db')
           \<and> (r = Inr ids \<or> (\<exists>e. r = Inl e)))"
  using assms
  by (auto simp: pg_RecordAIAttempts_def run_tx_def and_then_Inr
      split: option.splits if_splits sum.splits commit_answer.splits)

text \<open>The durable record of AI calls. Recording the attempts of an analysis in a reachable
  state either leaves the record alone or appends one row per attempt, in the order of the calls,
  with its model and purpose; the attempts of each job and purpose stay numbered from one without
  gaps, the identifiers that a success returns are those of the new rows, and the jobs do not
  change.\<close>

theorem attempts_are_numbered:
  assumes "pg_reachable db" and "pg_RecordAIAttempts env c i attempts db = (r, db')"
  shows "numbered db' \<and> db_jobs db' = db_jobs db
    \<and> (db_attempts db' = db_attempts db \<and> (\<exists>e. r = Inl e)
       \<or> (\<exists>rows. db_attempts db' = db_attempts db @ rows
            \<and> map tr_model rows = map aa_Model attempts
            \<and> map tr_purpose rows = map (\<lambda>a. TrimSpace (aa_Purpose a)) attempts
            \<and> (\<forall>x \<in> set rows. tr_job x = i)
            \<and> (\<forall>ids. r = Inr ids \<longrightarrow> ids = map tr_id rows)))"
proof -
  have numbered: "numbered db" using pg_reachable_inv [OF assms(1)] by (simp add: pg_inv_def)
  from pg_RecordAIAttempts_answer [OF assms(2)] show ?thesis
  proof (elim disjE exE)
    fix e
    assume "db' = db \<and> r = Inl e"
    then show ?thesis using numbered by blast
  next
    fix ids
    assume "record_loop env i 0 (\<lambda>p. 0) attempts [] db = Inr (ids, db')
      \<and> (r = Inr ids \<or> (\<exists>e. r = Inl e))"
    then have loop: "record_loop env i 0 (\<lambda>p. 0) attempts [] db = Inr (ids, db')"
      and r: "r = Inr ids \<or> (\<exists>e. r = Inl e)" by blast+
    from record_loop_ok [OF loop numbered] r show ?thesis by auto
  qed
qed

definition demo_attempt :: ai_attempt where
  "demo_attempt = \<lparr>aa_Purpose = ''repair'', aa_Model = ''m'', aa_PromptVersion = ''v'',
     aa_Latency = 7, aa_ProviderRequestID = '''', aa_InputTokens = 0, aa_OutputTokens = 0,
     aa_UsageReported = False, aa_Status = ''succeeded'', aa_ErrorCategory = '''',
     aa_CreatedAt = 900\<rparr>"

theorem attempts_are_numbered_witness:
  "\<exists>db'. pg_RecordAIAttempts quiet_pg NilContext ''j'' [demo_attempt] demo_created
        = (Inr [''token''], db')
     \<and> numbered db' \<and> map tr_model (db_attempts db') = [''m'']"
proof -
  have purpose: "TrimSpace ''repair'' = ''repair''" "TrimSpace ''j'' = ''j''"
    by (rule TrimSpace_plain, simp add: IsSpace_def)+
  let ?row = "attempt_row quiet_pg ''j'' 0 ''repair'' 1 demo_attempt"
  have "ai_row_ok ?row"
    by (simp add: ai_row_ok_def attempt_row_def demo_attempt_def nullableString_def
        nullableTokenCount_def plain_text_eval duration_defs)
  then have ins: "insert_ai_row ?row demo_created = Inr (demo_created\<lparr>db_attempts := [?row]\<rparr>)"
    by (simp add: insert_ai_row_def demo_created_def empty_db_def)
  have job: "\<exists>r. job_at demo_created ''j'' = Some r"
    by (simp add: job_at_def demo_created_def created_row_def demo_command_def)
  have none: "numbers_of demo_created ''j'' ''repair'' = []"
    by (simp add: numbers_of_def demo_created_def empty_db_def)
  have p: "aa_Purpose demo_attempt = ''repair''" by (simp add: demo_attempt_def)
  have run: "pg_RecordAIAttempts quiet_pg NilContext ''j'' [demo_attempt] demo_created
      = (Inr [''token''], demo_created\<lparr>db_attempts := [?row]\<rparr>)"
    using job ins
    by (auto simp: pg_RecordAIAttempts_def purpose run_tx_def query_row_def none next_number_def p)
  from attempts_are_numbered [OF demo_reachable run] run show ?thesis
    by (simp add: attempt_row_def) (simp add: demo_attempt_def)
qed

subsection \<open>An article whose language the table refuses\<close>

text \<open>An article that can never be saved. The model may name any text as the language of
  the article, but the column of the table holds at most 32 characters: completing a job with a
  longer language fails whatever the server answers, and changes nothing, so the job fails
  although its article was approved and formatted.\<close>

theorem long_language_is_never_stored:
  assumes "pg_Complete env ps c clk lo cm t db = (oe, lo', db')"
    and "32 < char_length (doc_Language (cmp_Content cm))"
    and "TrimSpace (doc_Language (cmp_Content cm)) \<noteq> ''''"
  shows "oe \<noteq> None \<and> db' = db"
proof (cases lo)
  case None
  then have "db' = db \<and> (\<exists>e. oe = Some e)"
    using assms(1)
    by (cases "contextErr c") (simp_all add: pg_Complete_def eq_commute [of _ oe] split: if_splits)
  then show ?thesis by blast
next
  case (Some l)
  from pg_Complete_cases [OF assms(1) [unfolded Some]] show ?thesis
  proof (elim disjE exE conjE)
    fix version
    assume "complete_body env ps clk l cm (if time_IsZero t then pg_clock env 0 else t) db
      = Inr (version, db')"
    then show ?thesis
    proof (rule complete_body_cases)
      fix x db1
      assume ins: "insert_content x db = Inr db1"
        and x: "\<exists>q p. pg_numeric env (doc_AIConfidence (cmp_Content cm)) = Some q
          \<and> pg_numeric env (doc_AICompleteness (cmp_Content cm)) = Some p
          \<and> x = completed_content env (job_ID (lease_Job l)) cm
                (pg_stamp env (if time_IsZero t then pg_clock env 0 else t)) q p"
      have "\<not> content_ok x"
        using x assms(2,3) by (auto simp: content_ok_def completed_content_def nullableString_def)
      then show ?thesis using ins by (simp add: insert_content_def)
    qed
  qed simp
qed

lemma long_language: "char_length (replicate 40 (CHR ''l'')) = 40"
    "TrimSpace (replicate 40 (CHR ''l'')) \<noteq> ''''"
proof -
  have "is_ascii (replicate 40 (CHR ''l''))" by (simp add: is_ascii_def)
  then show "char_length (replicate 40 (CHR ''l'')) = 40"
    by (simp add: char_length_def RuneCountInString_ascii)
  have "TrimSpace (replicate 40 (CHR ''l'')) = replicate 40 (CHR ''l'')"
    by (rule TrimSpace_plain) (simp add: IsSpace_def)
  then show "TrimSpace (replicate 40 (CHR ''l'')) \<noteq> ''''" by simp
qed

theorem long_language_is_never_stored_witness:
  "\<exists>oe lo'. pg_Complete quiet_pg demo_pg_store NilContext 2000
      (Some (NewLease (zero_job\<lparr>job_ID := ''j''\<rparr>) ''token'' 9000))
      (demo_completion\<lparr>cmp_Content := (cmp_Content demo_completion)
         \<lparr>doc_Language := replicate 40 (CHR ''l'')\<rparr>\<rparr>) 2000 demo_claimed = (oe, lo', demo_claimed)
    \<and> oe \<noteq> None"
proof -
  let ?cm = "demo_completion\<lparr>cmp_Content := (cmp_Content demo_completion)
    \<lparr>doc_Language := replicate 40 (CHR ''l'')\<rparr>\<rparr>"
  let ?lo = "Some (NewLease (zero_job\<lparr>job_ID := ''j''\<rparr>) ''token'' 9000)"
  have long: "32 < char_length (doc_Language (cmp_Content ?cm))"
      "TrimSpace (doc_Language (cmp_Content ?cm)) \<noteq> ''''"
    using long_language by simp_all
  obtain oe lo' db' where run:
      "pg_Complete quiet_pg demo_pg_store NilContext 2000 ?lo ?cm 2000 demo_claimed = (oe, lo', db')"
    by (metis prod_cases3)
  from long_language_is_never_stored [OF run long] run show ?thesis by blast
qed

end
