(* ===== verification/Configuration.thy ===== *)
theory Configuration
  imports Delivery
begin

section \<open>Deployment configuration\<close>

text \<open>
  \<open>internal/config/config.go\<close>: the environment is read in a fixed order of steps, each of which
  may stop with the name of its variable, and the result is validated. A validation error is the
  list of the names it mentions. What \<open>time.ParseDuration\<close>, \<open>strconv.ParseFloat\<close> and
  \<open>mail.ParseAddress\<close> make of a text is an argument. The keys of the map of profiles are a list
  in the order in which they are visited.
\<close>

subsection \<open>The configuration\<close>

record browser_settings =
  bw_Executable :: string
  bw_NavigationTimeout :: duration
  bw_RenderTimeout :: duration
  bw_Concurrency :: int
  bw_MaxRedirects :: int
  bw_MaxDOMBytes :: int
  bw_MaxDOMNodes :: int
  bw_MaxScreenshotBytes :: int
  bw_MaxTransferredBytes :: int
  bw_ScreenshotWidth :: int
  bw_ScreenshotHeight :: int

record pdf_settings =
  pf_MaxBytes :: int
  pf_Timeout :: duration
  pf_MarginMM :: float64
  pf_BodyFontPT :: float64
  pf_LineHeight :: float64

record ai_settings =
  ai_Provider :: string
  ai_AuthFile :: string
  ai_BaseURL :: string
  ai_APIKey :: string
  ai_Model :: string
  ai_ReasoningEffort :: string
  ai_OmitReasoningEffort :: bool
  ai_OmitResponseFormat :: bool
  ai_Timeout :: duration
  ai_MaxRetries :: int

record app_config =
  cf_SearchURL :: string
  cf_SearchAPIKey :: string
  cf_SearchIndex :: string
  cf_SMTP :: smtp_config
  cf_ListenAddress :: string
  cf_PublicBaseURL :: string
  cf_BearerToken :: string
  cf_DatabaseURL :: string
  cf_MigrationsDir :: string
  cf_DBPoolMin :: int
  cf_DBPoolMax :: int
  cf_ArtifactRoot :: string
  cf_DefaultProfile :: string
  cf_Profiles :: "string list"
  cf_AI :: ai_settings
  cf_Browser :: browser_settings
  cf_PDF :: pdf_settings

record config_lib =
  cl_ParseDuration :: "string \<Rightarrow> duration option"
  cl_ParseFloat :: "string \<Rightarrow> float64 option"
  cl_ParseAddress :: "string \<Rightarrow> string option"

definition validation_message :: "string list \<Rightarrow> string" where
  "validation_message names =
     (if names = [] then ''invalid configuration''
      else ''invalid configuration: '' @ Join names '', '')"

subsection \<open>Reading the environment\<close>

definition valueOr :: "string \<Rightarrow> string \<Rightarrow> string" where
  "valueOr value fallback = (if TrimSpace value = '''' then fallback else TrimSpace value)"

text \<open>\<open>strconv.ParseBool\<close>.\<close>

definition ParseBool :: "string \<Rightarrow> bool option" where
  "ParseBool s =
     (if s \<in> {''1'', ''t'', ''T'', ''true'', ''TRUE'', ''True''} then Some True
      else if s \<in> {''0'', ''f'', ''F'', ''false'', ''FALSE'', ''False''} then Some False
      else None)"

definition parseBool :: "string \<Rightarrow> bool \<Rightarrow> bool option" where
  "parseBool value fallback = (if TrimSpace value = '''' then Some fallback else ParseBool value)"

definition defaultProvider :: "(string \<Rightarrow> string) \<Rightarrow> string" where
  "defaultProvider get = (if get ''AI_API_KEY'' \<noteq> '''' then ''api'' else ''chatgpt'')"

definition omits_reasoning :: "string \<Rightarrow> bool" where
  "omits_reasoning effort \<longleftrightarrow> effort \<in> {''off'', ''none'', ''disabled''}"

definition initial_ai :: "(string \<Rightarrow> string) \<Rightarrow> ai_settings" where
  "initial_ai get =
     (let effort = TrimSpace (get ''AI_REASONING_EFFORT'')
      in \<lparr>ai_Provider = valueOr (get ''AI_PROVIDER'') (defaultProvider get),
          ai_AuthFile = valueOr (get ''CHATGPT_AUTH_FILE'') ''/data/auth/chatgpt.json'',
          ai_BaseURL = get ''AI_BASE_URL'', ai_APIKey = get ''AI_API_KEY'',
          ai_Model = valueOr (get ''AI_MODEL'') ''gpt-5.6-luna'',
          ai_ReasoningEffort = (if omits_reasoning effort then ''''
                                else if effort = '''' then ''medium'' else effort),
          ai_OmitReasoningEffort = omits_reasoning effort, ai_OmitResponseFormat = False,
          ai_Timeout = 90 * Second, ai_MaxRetries = 2\<rparr>)"

definition initial_browser :: "(string \<Rightarrow> string) \<Rightarrow> browser_settings" where
  "initial_browser get =
     \<lparr>bw_Executable = valueOr (get ''BROWSER_EXECUTABLE'') ''/usr/bin/chromium'',
      bw_NavigationTimeout = 30 * Second, bw_RenderTimeout = 45 * Second, bw_Concurrency = 1,
      bw_MaxRedirects = 5, bw_MaxDOMBytes = 10000000, bw_MaxDOMNodes = 100000,
      bw_MaxScreenshotBytes = 5000000, bw_MaxTransferredBytes = 20000000,
      bw_ScreenshotWidth = 1280, bw_ScreenshotHeight = 1600\<rparr>"

definition initial_pdf :: pdf_settings where
  "initial_pdf = \<lparr>pf_MaxBytes = 25000000, pf_Timeout = 45 * Second, pf_MarginMM = Fin 12,
     pf_BodyFontPT = Fin 11, pf_LineHeight = Fin (5 / 4)\<rparr>"

definition zero_smtp :: smtp_config where
  "zero_smtp = \<lparr>sc_Enabled = False, sc_Host = '''', sc_Port = 0, sc_TLSMode = '''',
     sc_Username = '''', sc_Password = '''', sc_Sender = '''', sc_Destination = '''',
     sc_Timeout = 0\<rparr>"

definition initial_smtp :: "(string \<Rightarrow> string) \<Rightarrow> smtp_config" where
  "initial_smtp get =
     \<lparr>sc_Enabled = False, sc_Host = get ''SMTP_HOST'', sc_Port = 587,
      sc_TLSMode = valueOr (get ''SMTP_TLS_MODE'') ''starttls'',
      sc_Username = get ''SMTP_USERNAME'', sc_Password = get ''SMTP_PASSWORD'',
      sc_Sender = get ''SMTP_SENDER'', sc_Destination = get ''SMTP_DESTINATION'',
      sc_Timeout = 30 * Second\<rparr>"

definition initial_config :: "(string \<Rightarrow> string) \<Rightarrow> app_config" where
  "initial_config get =
     \<lparr>cf_SearchURL = get ''SEARCH_URL'', cf_SearchAPIKey = get ''SEARCH_API_KEY'',
      cf_SearchIndex = valueOr (get ''SEARCH_INDEX'') ''attic'', cf_SMTP = zero_smtp,
      cf_ListenAddress = valueOr (get ''LISTEN_ADDRESS'') '':8080'',
      cf_PublicBaseURL = valueOr (get ''PUBLIC_BASE_URL'') ''http://localhost:8080'',
      cf_BearerToken = get ''BEARER_TOKEN'', cf_DatabaseURL = get ''DATABASE_URL'',
      cf_MigrationsDir = valueOr (get ''MIGRATIONS_DIR'') ''/app/migrations'',
      cf_DBPoolMin = 1, cf_DBPoolMax = 5,
      cf_ArtifactRoot = valueOr (get ''ARTIFACT_ROOT'') ''/data/artifacts'',
      cf_DefaultProfile = valueOr (get ''PDF_PROFILE'') ''a5'',
      cf_Profiles = [valueOr (get ''PDF_PROFILE'') ''a5''], cf_AI = initial_ai get,
      cf_Browser = initial_browser get, cf_PDF = initial_pdf\<rparr>"

text \<open>One variable: absent, unreadable, or stored in its field. The fields are written through
  an update function of the record.\<close>

type_synonym config_step = "app_config \<Rightarrow> string list + app_config"

definition read_field ::
  "(string \<Rightarrow> string) \<Rightarrow> (string \<Rightarrow> 'v option) \<Rightarrow> string \<Rightarrow> ('v \<Rightarrow> app_config \<Rightarrow> app_config)
     \<Rightarrow> config_step" where
  "read_field get parse key set_to c =
     (let raw = TrimSpace (get key)
      in if raw = '''' then Inr c
         else case parse raw of None \<Rightarrow> Inl [key] | Some v \<Rightarrow> Inr (set_to v c))"

definition read_flag ::
  "(string \<Rightarrow> string) \<Rightarrow> string \<Rightarrow> (bool \<Rightarrow> app_config \<Rightarrow> app_config) \<Rightarrow> config_step" where
  "read_flag get key set_to c =
     (case parseBool (get key) False of None \<Rightarrow> Inl [key] | Some v \<Rightarrow> Inr (set_to v c))"

fun run_steps_of :: "config_step list \<Rightarrow> config_step" where
  "run_steps_of [] c = Inr c"
| "run_steps_of (f # fs) c = (case f c of Inl e \<Rightarrow> Inl e | Inr c' \<Rightarrow> run_steps_of fs c')"

definition browser_steps :: "config_lib \<Rightarrow> (string \<Rightarrow> string) \<Rightarrow> config_step list" where
  "browser_steps lib get =
     [read_field get (cl_ParseDuration lib) ''BROWSER_NAVIGATION_TIMEOUT''
        (\<lambda>v. cf_Browser_update (bw_NavigationTimeout_update (\<lambda>_. v))),
      read_field get (cl_ParseDuration lib) ''BROWSER_RENDER_TIMEOUT''
        (\<lambda>v. cf_Browser_update (bw_RenderTimeout_update (\<lambda>_. v))),
      read_field get (cl_ParseDuration lib) ''PDF_TIMEOUT''
        (\<lambda>v. cf_PDF_update (pf_Timeout_update (\<lambda>_. v))),
      read_field get ParseInt64 ''BROWSER_CONCURRENCY''
        (\<lambda>v. cf_Browser_update (bw_Concurrency_update (\<lambda>_. v))),
      read_field get ParseInt64 ''BROWSER_MAX_REDIRECTS''
        (\<lambda>v. cf_Browser_update (bw_MaxRedirects_update (\<lambda>_. v))),
      read_field get ParseInt64 ''BROWSER_MAX_DOM_BYTES''
        (\<lambda>v. cf_Browser_update (bw_MaxDOMBytes_update (\<lambda>_. v))),
      read_field get ParseInt64 ''BROWSER_MAX_DOM_NODES''
        (\<lambda>v. cf_Browser_update (bw_MaxDOMNodes_update (\<lambda>_. v))),
      read_field get ParseInt64 ''BROWSER_MAX_SCREENSHOT_BYTES''
        (\<lambda>v. cf_Browser_update (bw_MaxScreenshotBytes_update (\<lambda>_. v))),
      read_field get ParseInt64 ''PDF_MAX_BYTES''
        (\<lambda>v. cf_PDF_update (pf_MaxBytes_update (\<lambda>_. v))),
      read_field get ParseInt64 ''BROWSER_MAX_RESPONSE_BYTES''
        (\<lambda>v. cf_Browser_update (bw_MaxTransferredBytes_update (\<lambda>_. v))),
      read_field get ParseInt64 ''BROWSER_SCREENSHOT_WIDTH''
        (\<lambda>v. cf_Browser_update (bw_ScreenshotWidth_update (\<lambda>_. v))),
      read_field get ParseInt64 ''BROWSER_SCREENSHOT_HEIGHT''
        (\<lambda>v. cf_Browser_update (bw_ScreenshotHeight_update (\<lambda>_. v)))]"

definition layout_steps :: "config_lib \<Rightarrow> (string \<Rightarrow> string) \<Rightarrow> config_step list" where
  "layout_steps lib get =
     [read_field get (cl_ParseFloat lib) ''PDF_MARGIN_MM''
        (\<lambda>v. cf_PDF_update (pf_MarginMM_update (\<lambda>_. v))),
      read_field get (cl_ParseFloat lib) ''PDF_BODY_FONT_PT''
        (\<lambda>v. cf_PDF_update (pf_BodyFontPT_update (\<lambda>_. v))),
      read_field get (cl_ParseFloat lib) ''PDF_LINE_HEIGHT''
        (\<lambda>v. cf_PDF_update (pf_LineHeight_update (\<lambda>_. v)))]"

definition service_steps :: "config_lib \<Rightarrow> (string \<Rightarrow> string) \<Rightarrow> config_step list" where
  "service_steps lib get =
     [read_field get (cl_ParseDuration lib) ''AI_TIMEOUT''
        (\<lambda>v. cf_AI_update (ai_Timeout_update (\<lambda>_. v))),
      read_field get ParseInt64 ''AI_MAX_RETRIES''
        (\<lambda>v. cf_AI_update (ai_MaxRetries_update (\<lambda>_. v))),
      read_flag get ''AI_OMIT_RESPONSE_FORMAT''
        (\<lambda>v. cf_AI_update (ai_OmitResponseFormat_update (\<lambda>_. v))),
      read_field get ParseInt64 ''DB_POOL_MIN'' (\<lambda>v. cf_DBPoolMin_update (\<lambda>_. v)),
      read_field get ParseInt64 ''DB_POOL_MAX'' (\<lambda>v. cf_DBPoolMax_update (\<lambda>_. v)),
      (\<lambda>c. Inr (c\<lparr>cf_SMTP := initial_smtp get\<rparr>)),
      read_flag get ''SMTP_ENABLED'' (\<lambda>v. cf_SMTP_update (sc_Enabled_update (\<lambda>_. v))),
      read_field get ParseInt64 ''SMTP_PORT'' (\<lambda>v. cf_SMTP_update (sc_Port_update (\<lambda>_. v))),
      read_field get (cl_ParseDuration lib) ''SMTP_TIMEOUT''
        (\<lambda>v. cf_SMTP_update (sc_Timeout_update (\<lambda>_. v)))]"

subsection \<open>Validation\<close>

text \<open>Floating point comparisons; both are false for NaN.\<close>

definition f64_le :: "float64 \<Rightarrow> float64 \<Rightarrow> bool" where
  "f64_le x y \<longleftrightarrow> x \<noteq> NaN \<and> y \<noteq> NaN \<and> \<not> f64_less y x"

definition unless_ok :: "bool \<Rightarrow> string list \<Rightarrow> string list" where
  "unless_ok wrong names = (if wrong then names else [])"

definition known_profile :: "string \<Rightarrow> bool" where
  "known_profile p \<longleftrightarrow> p = ''a5'' \<or> p = ''kindle-scribe''"

definition http_url :: "string \<Rightarrow> bool" where
  "http_url raw =
     (case url_Parse raw of
        None \<Rightarrow> False
      | Some u \<Rightarrow> u_Host u \<noteq> '''' \<and> (u_Scheme u = ''http'' \<or> u_Scheme u = ''https''))"

definition plain_http_url :: "string \<Rightarrow> bool" where
  "plain_http_url raw =
     (case url_Parse raw of
        None \<Rightarrow> False
      | Some u \<Rightarrow> u_Host u \<noteq> '''' \<and> (u_Scheme u = ''http'' \<or> u_Scheme u = ''https'')
                 \<and> u_User u = None \<and> u_RawQuery u = '''' \<and> u_Fragment u = '''')"

definition provider_fields :: "ai_settings \<Rightarrow> string list" where
  "provider_fields a =
     (if ai_Provider a = ''api'' \<or> ai_Provider a = ''''
      then unless_ok (ai_APIKey a \<noteq> '''' \<and> TrimSpace (ai_BaseURL a) = '''') [''AI_BASE_URL'']
      else if ai_Provider a = ''chatgpt''
      then unless_ok (TrimSpace (ai_AuthFile a) = '''') [''CHATGPT_AUTH_FILE'']
      else [''AI_PROVIDER''])"

definition browser_fields :: "browser_settings \<Rightarrow> string list" where
  "browser_fields b =
     unless_ok (TrimSpace (bw_Executable b) = '''') [''BROWSER_EXECUTABLE'']
     @ unless_ok (bw_NavigationTimeout b \<le> 0 \<or> bw_RenderTimeout b \<le> 0)
         [''BROWSER_NAVIGATION_TIMEOUT'', ''BROWSER_RENDER_TIMEOUT'']
     @ unless_ok (bw_Concurrency b \<noteq> 1) [''BROWSER_CONCURRENCY'']
     @ unless_ok (bw_MaxRedirects b < 1 \<or> 20 < bw_MaxRedirects b \<or> bw_MaxDOMBytes b < 1
         \<or> bw_MaxDOMNodes b < 1 \<or> bw_MaxScreenshotBytes b < 1 \<or> bw_MaxTransferredBytes b < 1)
         [''BROWSER_LIMITS'']
     @ unless_ok (bw_ScreenshotWidth b < 1 \<or> 4096 < bw_ScreenshotWidth b
         \<or> bw_ScreenshotHeight b < 1 \<or> 4096 < bw_ScreenshotHeight b)
         [''BROWSER_SCREENSHOT_DIMENSIONS'']"

definition pdf_fields :: "pdf_settings \<Rightarrow> string list" where
  "pdf_fields p =
     unless_ok (pf_MaxBytes p < 1 \<or> pf_Timeout p \<le> 0 \<or> f64_le (pf_MarginMM p) (Fin 0)
       \<or> f64_less (Fin 50) (pf_MarginMM p) \<or> f64_less (pf_BodyFontPT p) (Fin 6)
       \<or> f64_less (Fin 30) (pf_BodyFontPT p) \<or> f64_less (pf_LineHeight p) (Fin 1)
       \<or> f64_less (Fin 3) (pf_LineHeight p)) [''PDF_LIMITS'']"

definition invalid_fields :: "app_config \<Rightarrow> string list" where
  "invalid_fields c =
     unless_ok (TrimSpace (cf_BearerToken c) = '''') [''BEARER_TOKEN'']
     @ unless_ok (HasPrefix (cf_BearerToken c) ''replace-'') [''BEARER_TOKEN'']
     @ unless_ok (TrimSpace (cf_DatabaseURL c) = '''') [''DATABASE_URL'']
     @ unless_ok (TrimSpace (cf_MigrationsDir c) = '''') [''MIGRATIONS_DIR'']
     @ provider_fields (cf_AI c)
     @ unless_ok (TrimSpace (cf_ArtifactRoot c) = '''') [''ARTIFACT_ROOT'']
     @ unless_ok (ai_Provider (cf_AI c) \<noteq> ''chatgpt'' \<and> TrimSpace (ai_BaseURL (cf_AI c)) \<noteq> ''''
         \<and> \<not> plain_http_url (ai_BaseURL (cf_AI c))) [''AI_BASE_URL'']
     @ unless_ok (TrimSpace (cf_PublicBaseURL c) \<noteq> '''' \<and> \<not> http_url (cf_PublicBaseURL c))
         [''PUBLIC_BASE_URL'']
     @ unless_ok (TrimSpace (cf_DefaultProfile c) = '''' \<or> \<not> known_profile (cf_DefaultProfile c))
         [''PDF_PROFILE'']
     @ unless_ok (cf_Profiles c = []) [''PDF_PROFILE'']
     @ concat (map (\<lambda>p. unless_ok (\<not> known_profile p) [''PDF_PROFILE'']) (cf_Profiles c))
     @ unless_ok (cf_DBPoolMin c < 0) [''DB_POOL_MIN'']
     @ unless_ok (cf_DBPoolMax c < 1) [''DB_POOL_MAX'']
     @ unless_ok (cf_DBPoolMax c < cf_DBPoolMin c) [''DB_POOL_MIN'', ''DB_POOL_MAX'']
     @ unless_ok (ai_Timeout (cf_AI c) \<le> 0 \<or> 10 * Minute < ai_Timeout (cf_AI c)) [''AI_TIMEOUT'']
     @ unless_ok (ai_MaxRetries (cf_AI c) < 0 \<or> 10 < ai_MaxRetries (cf_AI c)) [''AI_MAX_RETRIES'']
     @ browser_fields (cf_Browser c) @ pdf_fields (cf_PDF c)"

fun unique_into :: "string list \<Rightarrow> string list \<Rightarrow> string list" where
  "unique_into result [] = result"
| "unique_into result (v # vs) =
     unique_into (if v \<in> set result then result else result @ [v]) vs"

definition uniqueStrings :: "string list \<Rightarrow> string list" where
  "uniqueStrings = unique_into []"

text \<open>\<open>err.Error()\<close> of the error that the delivery part returns.\<close>

fun error_field :: "error \<Rightarrow> string" where
  "error_field (NewError m) = m"
| "error_field e = ''''"

definition app_Validate :: "config_lib \<Rightarrow> app_config \<Rightarrow> string list option" where
  "app_Validate lib c =
     (case config_Validate (cl_ParseAddress lib) (cf_SMTP c) of
        Some e \<Rightarrow> Some [error_field e]
      | None \<Rightarrow> if invalid_fields c = [] then None else Some (uniqueStrings (invalid_fields c)))"

definition LoadFrom ::
  "config_lib \<Rightarrow> (string \<Rightarrow> string) option \<Rightarrow> string list + app_config" where
  "LoadFrom lib getter =
     (let get = (case getter of None \<Rightarrow> (\<lambda>_. '''') | Some g \<Rightarrow> g)
      in case run_steps_of (browser_steps lib get @ layout_steps lib get @ service_steps lib get)
                (initial_config get) of
           Inl names \<Rightarrow> Inl names
         | Inr c \<Rightarrow> (case app_Validate lib c of None \<Rightarrow> Inr c | Some names \<Rightarrow> Inl names))"

end
