(* ===== verification/Configuration_Properties.thy ===== *)
theory Configuration_Properties
  imports Configuration Archive_Facts
begin

section \<open>Properties of the configuration\<close>

text \<open>
  The claims about \<open>internal/config/config.go\<close>: what a loaded configuration guarantees, what its
  errors may mention, and the layout numbers that validation lets through.
\<close>

subsection \<open>Steps and fields\<close>

lemma unless_ok_empty [simp]: "unless_ok wrong names = [] \<longleftrightarrow> \<not> wrong \<or> names = []"
  by (simp add: unless_ok_def)

lemma set_unless_ok: "x \<in> set (unless_ok wrong names) \<Longrightarrow> x \<in> set names"
  by (simp add: unless_ok_def split: if_splits)

lemma run_steps_of_append:
  "run_steps_of (fs @ gs) c = (case run_steps_of fs c of Inl e \<Rightarrow> Inl e | Inr c' \<Rightarrow> run_steps_of gs c')"
  by (induction fs arbitrary: c) (auto split: sum.splits)

lemma unique_into_facts:
  "distinct result \<Longrightarrow> distinct (unique_into result vs)
     \<and> set (unique_into result vs) = set result \<union> set vs"
  by (induction vs arbitrary: result) auto

lemma uniqueStrings_facts: "distinct (uniqueStrings vs)" "set (uniqueStrings vs) = set vs"
  using unique_into_facts [of "[]" vs] by (simp_all add: uniqueStrings_def)

text \<open>The variables a reading step may name, and the fields validation may name.\<close>

definition read_names :: "string list" where
  "read_names =
     [''BROWSER_NAVIGATION_TIMEOUT'', ''BROWSER_RENDER_TIMEOUT'', ''PDF_TIMEOUT'',
      ''BROWSER_CONCURRENCY'', ''BROWSER_MAX_REDIRECTS'', ''BROWSER_MAX_DOM_BYTES'',
      ''BROWSER_MAX_DOM_NODES'', ''BROWSER_MAX_SCREENSHOT_BYTES'', ''PDF_MAX_BYTES'',
      ''BROWSER_MAX_RESPONSE_BYTES'', ''BROWSER_SCREENSHOT_WIDTH'', ''BROWSER_SCREENSHOT_HEIGHT'',
      ''PDF_MARGIN_MM'', ''PDF_BODY_FONT_PT'', ''PDF_LINE_HEIGHT'', ''AI_TIMEOUT'',
      ''AI_MAX_RETRIES'', ''AI_OMIT_RESPONSE_FORMAT'', ''DB_POOL_MIN'', ''DB_POOL_MAX'',
      ''SMTP_ENABLED'', ''SMTP_PORT'', ''SMTP_TIMEOUT'']"

definition checked_names :: "string list" where
  "checked_names =
     [''BEARER_TOKEN'', ''DATABASE_URL'', ''MIGRATIONS_DIR'', ''AI_BASE_URL'',
      ''CHATGPT_AUTH_FILE'', ''AI_PROVIDER'', ''ARTIFACT_ROOT'', ''PUBLIC_BASE_URL'',
      ''PDF_PROFILE'', ''DB_POOL_MIN'', ''DB_POOL_MAX'', ''AI_TIMEOUT'', ''AI_MAX_RETRIES'',
      ''BROWSER_EXECUTABLE'', ''BROWSER_NAVIGATION_TIMEOUT'', ''BROWSER_RENDER_TIMEOUT'',
      ''BROWSER_CONCURRENCY'', ''BROWSER_LIMITS'', ''BROWSER_SCREENSHOT_DIMENSIONS'',
      ''PDF_LIMITS'']"

definition smtp_names :: "string list" where
  "smtp_names = [''SMTP_HOST'', ''SMTP_PORT'', ''SMTP_TLS_MODE'', ''SMTP_USERNAME/SMTP_PASSWORD'',
     ''SMTP_SENDER'', ''SMTP_DESTINATION'', ''SMTP_TIMEOUT'']"

text \<open>A step reports at most its own name.\<close>

definition names_within :: "string set \<Rightarrow> config_step \<Rightarrow> bool" where
  "names_within S f \<longleftrightarrow> (\<forall>c names. f c = Inl names \<longrightarrow> (\<exists>key \<in> S. names = [key]))"

lemma names_within_read_field: "key \<in> S \<Longrightarrow> names_within S (read_field get parse key set_to)"
  by (auto simp: names_within_def read_field_def Let_def split: if_splits option.splits)

lemma names_within_read_flag: "key \<in> S \<Longrightarrow> names_within S (read_flag get key set_to)"
  by (auto simp: names_within_def read_flag_def split: option.splits)

lemma names_within_pure: "names_within S (\<lambda>c. Inr (g c))"
  by (simp add: names_within_def)

lemma run_steps_of_names:
  "list_all (names_within S) fs \<Longrightarrow> names_within S (run_steps_of fs)"
  by (induction fs) (auto simp: names_within_def split: sum.splits)

lemma loading_names:
  "names_within (set read_names)
     (run_steps_of (browser_steps lib get @ layout_steps lib get @ service_steps lib get))"
  by (rule run_steps_of_names)
     (simp add: browser_steps_def layout_steps_def service_steps_def read_names_def
        names_within_read_field names_within_read_flag names_within_pure)

lemma unless_ok_within: "set names \<subseteq> S \<Longrightarrow> set (unless_ok wrong names) \<subseteq> S"
  by (auto simp: unless_ok_def)

lemma unless_ok_all_within:
  "set names \<subseteq> S \<Longrightarrow> set (concat (map (\<lambda>p. unless_ok (wrong p) names) ps)) \<subseteq> S"
  by (induction ps) (simp_all add: unless_ok_within)

lemma invalid_fields_names: "set (invalid_fields c) \<subseteq> set checked_names"
proof -
  have "set (provider_fields a) \<subseteq> {''AI_BASE_URL'', ''CHATGPT_AUTH_FILE'', ''AI_PROVIDER''}" for a
    by (auto simp: provider_fields_def unless_ok_def)
  moreover have "{''AI_BASE_URL'', ''CHATGPT_AUTH_FILE'', ''AI_PROVIDER''} \<subseteq> set checked_names"
    by (simp add: checked_names_def)
  ultimately have "set (provider_fields a) \<subseteq> set checked_names" for a by blast
  moreover have "set (browser_fields b) \<subseteq> set checked_names" for b
    unfolding browser_fields_def set_append checked_names_def
    by (intro Un_least unless_ok_within) simp_all
  moreover have "set (pdf_fields p) \<subseteq> set checked_names" for p
    unfolding pdf_fields_def checked_names_def by (intro unless_ok_within) simp
  ultimately show ?thesis
    unfolding invalid_fields_def set_append
    by (intro Un_least unless_ok_within unless_ok_all_within) (simp_all add: checked_names_def)
qed

lemma config_Validate_names:
  "config_Validate pa c = Some e \<Longrightarrow> error_field e \<in> set smtp_names"
  by (auto simp: config_Validate_def smtp_names_def split: if_splits)

subsection \<open>Errors\<close>

text \<open>C34. Configuration errors hide the values. Whatever the environment contains, a failed load
  reports a non-empty list of distinct names from a fixed list of variables and field groups, and
  its message consists of these names only: no secret of the environment can appear in it.\<close>

theorem config_errors_hide_values:
  assumes "LoadFrom lib getter = Inl names"
  shows "names \<noteq> [] \<and> distinct names \<and> set names \<subseteq> set (read_names @ checked_names @ smtp_names)
    \<and> validation_message names = ''invalid configuration: '' @ Join names '', ''"
proof -
  define get where "get = (case getter of None \<Rightarrow> (\<lambda>_. '''') | Some g \<Rightarrow> g)"
  have "names \<noteq> [] \<and> distinct names \<and> set names \<subseteq> set (read_names @ checked_names @ smtp_names)"
  proof (cases "run_steps_of (browser_steps lib get @ layout_steps lib get @ service_steps lib get)
      (initial_config get)")
    case (Inl ns)
    then have "names = ns" using assms by (simp add: LoadFrom_def get_def)
    moreover obtain key where "key \<in> set read_names" "ns = [key]"
      using loading_names [of lib get] Inl unfolding names_within_def by blast
    ultimately show ?thesis by simp
  next
    case (Inr c)
    then have "app_Validate lib c = Some names"
      using assms by (simp add: LoadFrom_def get_def split: option.splits)
    then show ?thesis
      using config_Validate_names [of "cl_ParseAddress lib" "cf_SMTP c"] invalid_fields_names [of c]
        uniqueStrings_facts [of "invalid_fields c"]
      by (auto simp: app_Validate_def split: option.splits if_splits)
  qed
  then show ?thesis by (simp add: validation_message_def)
qed

definition demo_lib :: config_lib where
  "demo_lib = \<lparr>cl_ParseDuration = (\<lambda>s. None),
     cl_ParseFloat = (\<lambda>s. if s = ''NaN'' then Some NaN else None), cl_ParseAddress = Some\<rparr>"

definition demo_env :: "string \<Rightarrow> string" where
  "demo_env = (\<lambda>_. '''')(''BEARER_TOKEN'' := ''secret'', ''DATABASE_URL'' := ''db'',
     ''PUBLIC_BASE_URL'' := ''http://a'')"

theorem config_errors_hide_values_witness:
  "LoadFrom demo_lib (Some (demo_env(''PDF_TIMEOUT'' := ''secret''))) = Inl [''PDF_TIMEOUT'']
    \<and> validation_message [''PDF_TIMEOUT''] = ''invalid configuration: PDF_TIMEOUT''"
proof -
  have trim: "TrimSpace ''secret'' = ''secret''" 
    by (rule TrimSpace_plain) (simp add: IsSpace_def)
  have "LoadFrom demo_lib (Some (demo_env(''PDF_TIMEOUT'' := ''secret''))) = Inl [''PDF_TIMEOUT'']"
    by (simp add: LoadFrom_def browser_steps_def read_field_def demo_env_def demo_lib_def trim)
  from config_errors_hide_values [OF this] this show ?thesis by simp
qed

subsection \<open>What a loaded configuration guarantees\<close>

lemma LoadFrom_Inr:
  "LoadFrom lib getter = Inr c \<Longrightarrow> config_Validate (cl_ParseAddress lib) (cf_SMTP c) = None
     \<and> invalid_fields c = []"
  by (auto simp: LoadFrom_def app_Validate_def Let_def
      split: sum.splits option.splits if_splits)

lemma f64_between:
  assumes "\<not> f64_less x (Fin a)" and "\<not> f64_less (Fin b) x"
  shows "x = NaN \<or> (\<exists>q. x = Fin q \<and> a \<le> q \<and> q \<le> b)"
  using assms by (cases x) auto

lemma f64_positive:
  assumes "\<not> f64_le x (Fin a)" and "\<not> f64_less (Fin b) x"
  shows "x = NaN \<or> (\<exists>q. x = Fin q \<and> a < q \<and> q \<le> b)"
  using assms by (cases x) (auto simp: f64_le_def)

text \<open>A loaded configuration is within its bounds: the bearer token is set and not the
  placeholder, the provider is known and has its credentials or address, the pool, timeouts,
  retries and limits are in range, a mail server that asks for credentials is reached over TLS,
  and the three layout numbers are in range, or not numbers at all.\<close>

theorem loaded_configuration_is_bounded:
  assumes "LoadFrom lib getter = Inr c"
  shows "TrimSpace (cf_BearerToken c) \<noteq> '''' \<and> \<not> HasPrefix (cf_BearerToken c) ''replace-''
    \<and> TrimSpace (cf_DatabaseURL c) \<noteq> ''''
    \<and> ai_Provider (cf_AI c) \<in> {'''', ''api'', ''chatgpt''}
    \<and> (ai_Provider (cf_AI c) \<noteq> ''chatgpt'' \<and> ai_APIKey (cf_AI c) \<noteq> '''' \<longrightarrow>
         plain_http_url (ai_BaseURL (cf_AI c)))
    \<and> known_profile (cf_DefaultProfile c)
    \<and> 0 \<le> cf_DBPoolMin c \<and> cf_DBPoolMin c \<le> cf_DBPoolMax c \<and> 1 \<le> cf_DBPoolMax c
    \<and> 0 < ai_Timeout (cf_AI c) \<and> ai_Timeout (cf_AI c) \<le> 10 * Minute
    \<and> 0 \<le> ai_MaxRetries (cf_AI c) \<and> ai_MaxRetries (cf_AI c) \<le> 10
    \<and> bw_Concurrency (cf_Browser c) = 1
    \<and> bw_MaxRedirects (cf_Browser c) \<in> {1..20}
    \<and> bw_ScreenshotWidth (cf_Browser c) \<in> {1..4096} \<and> bw_ScreenshotHeight (cf_Browser c) \<in> {1..4096}
    \<and> (sc_Enabled (cf_SMTP c) \<longrightarrow> sc_Port (cf_SMTP c) \<in> {1..65535}
         \<and> (sc_TLSMode (cf_SMTP c) = ''none'' \<longrightarrow> sc_Username (cf_SMTP c) = ''''
              \<and> sc_Password (cf_SMTP c) = ''''))
    \<and> 1 \<le> pf_MaxBytes (cf_PDF c) \<and> 0 < pf_Timeout (cf_PDF c)
    \<and> (pf_MarginMM (cf_PDF c) = NaN \<or> (\<exists>q. pf_MarginMM (cf_PDF c) = Fin q \<and> 0 < q \<and> q \<le> 50))
    \<and> (pf_BodyFontPT (cf_PDF c) = NaN \<or> (\<exists>q. pf_BodyFontPT (cf_PDF c) = Fin q \<and> 6 \<le> q \<and> q \<le> 30))
    \<and> (pf_LineHeight (cf_PDF c) = NaN \<or> (\<exists>q. pf_LineHeight (cf_PDF c) = Fin q \<and> 1 \<le> q \<and> q \<le> 3))"
proof -
  have smtp: "config_Validate (cl_ParseAddress lib) (cf_SMTP c) = None"
    and ok: "invalid_fields c = []"
    using LoadFrom_Inr [OF assms] by simp_all
  have mail: "sc_Enabled (cf_SMTP c) \<longrightarrow> sc_Port (cf_SMTP c) \<in> {1..65535}
      \<and> (sc_TLSMode (cf_SMTP c) = ''none'' \<longrightarrow> sc_Username (cf_SMTP c) = ''''
           \<and> sc_Password (cf_SMTP c) = '''')"
    using smtp by (auto simp: config_Validate_def split: if_splits)
  have parts: "provider_fields (cf_AI c) = []" "browser_fields (cf_Browser c) = []"
      "pdf_fields (cf_PDF c) = []"
    using ok by (simp_all add: invalid_fields_def)
  have provider: "ai_Provider (cf_AI c) \<in> {'''', ''api'', ''chatgpt''}"
      "ai_Provider (cf_AI c) \<noteq> ''chatgpt'' \<and> ai_APIKey (cf_AI c) \<noteq> '''' \<longrightarrow>
         TrimSpace (ai_BaseURL (cf_AI c)) \<noteq> ''''"
    using parts(1) by (auto simp: provider_fields_def split: if_splits)
  have pdf: "\<not> f64_le (pf_MarginMM (cf_PDF c)) (Fin 0)" "\<not> f64_less (Fin 50) (pf_MarginMM (cf_PDF c))"
      "\<not> f64_less (pf_BodyFontPT (cf_PDF c)) (Fin 6)" "\<not> f64_less (Fin 30) (pf_BodyFontPT (cf_PDF c))"
      "\<not> f64_less (pf_LineHeight (cf_PDF c)) (Fin 1)" "\<not> f64_less (Fin 3) (pf_LineHeight (cf_PDF c))"
      "1 \<le> pf_MaxBytes (cf_PDF c)" "0 < pf_Timeout (cf_PDF c)"
    using parts(3) by (simp_all add: pdf_fields_def)
  have browser: "bw_Concurrency (cf_Browser c) = 1" "bw_MaxRedirects (cf_Browser c) \<in> {1..20}"
      "bw_ScreenshotWidth (cf_Browser c) \<in> {1..4096}" "bw_ScreenshotHeight (cf_Browser c) \<in> {1..4096}"
    using parts(2) by (simp_all add: browser_fields_def)
  have rest: "TrimSpace (cf_BearerToken c) \<noteq> ''''" "\<not> HasPrefix (cf_BearerToken c) ''replace-''"
      "TrimSpace (cf_DatabaseURL c) \<noteq> ''''" "known_profile (cf_DefaultProfile c)"
      "0 \<le> cf_DBPoolMin c" "cf_DBPoolMin c \<le> cf_DBPoolMax c" "1 \<le> cf_DBPoolMax c"
      "0 < ai_Timeout (cf_AI c)" "ai_Timeout (cf_AI c) \<le> 10 * Minute"
      "0 \<le> ai_MaxRetries (cf_AI c)" "ai_MaxRetries (cf_AI c) \<le> 10"
    using ok by (simp_all add: invalid_fields_def)
  have address: "ai_Provider (cf_AI c) \<noteq> ''chatgpt'' \<and> TrimSpace (ai_BaseURL (cf_AI c)) \<noteq> '''' \<longrightarrow>
         plain_http_url (ai_BaseURL (cf_AI c))"
    using ok by (auto simp: invalid_fields_def)
  show ?thesis
    using mail provider address browser rest pdf(7,8) f64_positive [OF pdf(1,2)] f64_between [OF pdf(3,4)]
      f64_between [OF pdf(5,6)]
    by (intro conjI) blast+
qed

lemma trim_demo: "TrimSpace ''secret'' = ''secret''" "TrimSpace ''db'' = ''db''"
    "TrimSpace ''http://a'' = ''http://a''" "TrimSpace ''a5'' = ''a5''" "TrimSpace ''NaN'' = ''NaN''"
    "TrimSpace ''/app/migrations'' = ''/app/migrations''"
    "TrimSpace ''/data/artifacts'' = ''/data/artifacts''"
    "TrimSpace ''/data/auth/chatgpt.json'' = ''/data/auth/chatgpt.json''"
    "TrimSpace ''/usr/bin/chromium'' = ''/usr/bin/chromium''"
  by (rule TrimSpace_plain; simp add: IsSpace_def)+

lemma demo_http: "http_url ''http://a''"
  by code_simp

lemma demo_loads: "\<exists>c. LoadFrom demo_lib (Some demo_env) = Inr c"
  by (simp add: LoadFrom_def browser_steps_def layout_steps_def service_steps_def read_field_def
      read_flag_def parseBool_def demo_env_def demo_lib_def)
     (simp add: app_Validate_def initial_smtp_def config_Validate_def initial_config_def
      invalid_fields_def initial_ai_def initial_browser_def initial_pdf_def provider_fields_def
      browser_fields_def pdf_fields_def trim_demo valueOr_def defaultProvider_def demo_http
      known_profile_def duration_defs HasPrefix_def f64_le_def)

theorem loaded_configuration_is_bounded_witness:
  "\<exists>c. LoadFrom demo_lib (Some demo_env) = Inr c \<and> bw_Concurrency (cf_Browser c) = 1
     \<and> 1 \<le> cf_DBPoolMax c \<and> ai_Timeout (cf_AI c) \<le> 10 * Minute"
proof -
  obtain c where c: "LoadFrom demo_lib (Some demo_env) = Inr c" using demo_loads by blast
  from loaded_configuration_is_bounded [OF c] c show ?thesis by blast
qed

subsection \<open>Layout numbers that are not numbers\<close>

definition with_margin :: "app_config \<Rightarrow> app_config" where
  "with_margin c = c\<lparr>cf_PDF := (cf_PDF c)\<lparr>pf_MarginMM := NaN\<rparr>\<rparr>"

definition keeps_margin :: "config_step \<Rightarrow> bool" where
  "keeps_margin f \<longleftrightarrow> (\<forall>c. f (with_margin c) = map_sum id with_margin (f c))"

lemma keeps_margin_read_field:
  "(\<And>v c. set_to v (with_margin c) = with_margin (set_to v c)) \<Longrightarrow>
     keeps_margin (read_field get parse key set_to)"
  by (auto simp: keeps_margin_def read_field_def Let_def split: option.splits)

lemma keeps_margin_read_flag:
  "(\<And>v c. set_to v (with_margin c) = with_margin (set_to v c)) \<Longrightarrow>
     keeps_margin (read_flag get key set_to)"
  by (auto simp: keeps_margin_def read_flag_def split: option.splits)

lemma keeps_margin_pure:
  "(\<And>c. g (with_margin c) = with_margin (g c)) \<Longrightarrow> keeps_margin (\<lambda>c. Inr (g c))"
  by (simp add: keeps_margin_def)

lemma run_keeps_margin: "list_all keeps_margin fs \<Longrightarrow> keeps_margin (run_steps_of fs)"
  by (induction fs) (auto simp: keeps_margin_def split: sum.splits)

text \<open>The steps before and after the one that reads the margin.\<close>

lemma steps_around_margin:
  "list_all keeps_margin (browser_steps lib get)"
  "list_all keeps_margin (tl (layout_steps lib get) @ service_steps lib get)"
  by (simp_all add: browser_steps_def layout_steps_def service_steps_def with_margin_def
      keeps_margin_read_field keeps_margin_read_flag keeps_margin_pure comp_def)

lemma steps_ignore_margin:
  "browser_steps lib (get(''PDF_MARGIN_MM'' := v)) = browser_steps lib get"
  "tl (layout_steps lib (get(''PDF_MARGIN_MM'' := v))) = tl (layout_steps lib get)"
  "service_steps lib (get(''PDF_MARGIN_MM'' := v)) = service_steps lib get"
  "initial_config (get(''PDF_MARGIN_MM'' := v)) = initial_config get"
  by (simp_all add: browser_steps_def layout_steps_def service_steps_def read_field_def
      read_flag_def initial_config_def initial_ai_def initial_browser_def initial_smtp_def
      defaultProvider_def fun_eq_iff)

text \<open>The margin step of both environments.\<close>

lemma margin_step:
  "layout_steps lib get = read_field get (cl_ParseFloat lib) ''PDF_MARGIN_MM''
     (\<lambda>v. cf_PDF_update (pf_MarginMM_update (\<lambda>_. v))) # tl (layout_steps lib get)"
  by (simp add: layout_steps_def)

lemma old_margin_step:
  "read_field get parse key (\<lambda>v. cf_PDF_update (pf_MarginMM_update (\<lambda>_. v))) c = Inr c' \<Longrightarrow>
     with_margin c' = with_margin c"
  by (auto simp: read_field_def Let_def with_margin_def split: if_splits option.splits)

lemma new_margin_step:
  assumes "cl_ParseFloat lib ''NaN'' = Some NaN"
  shows "read_field (get(''PDF_MARGIN_MM'' := ''NaN'')) (cl_ParseFloat lib) ''PDF_MARGIN_MM''
    (\<lambda>v. cf_PDF_update (pf_MarginMM_update (\<lambda>_. v))) c = Inr (with_margin c)"
  using assms by (simp add: read_field_def trim_demo with_margin_def)

lemma with_margin_parts [simp]:
  "cf_AI (with_margin c) = cf_AI c" "cf_SMTP (with_margin c) = cf_SMTP c"
  "cf_Browser (with_margin c) = cf_Browser c"
  by (simp_all add: with_margin_def)

lemma valid_with_margin: "invalid_fields c = [] \<Longrightarrow> invalid_fields (with_margin c) = []"
  by (simp add: invalid_fields_def) (simp add: with_margin_def pdf_fields_def f64_le_def)

lemma run_after:
  "keeps_margin f \<Longrightarrow> f c = Inr c' \<Longrightarrow> f (with_margin c) = Inr (with_margin c')"
  by (simp add: keeps_margin_def)

text \<open>Layout numbers need not be numbers. The range checks of the three layout settings are
  comparisons that are false for NaN, and \<open>ParseFloat\<close> reads the text NaN: every environment
  that loads still loads when its margin is set to it, and the loaded margin is not a number.\<close>

theorem nan_margin_is_accepted:
  assumes "LoadFrom lib (Some get) = Inr c" and "cl_ParseFloat lib ''NaN'' = Some NaN"
  shows "\<exists>c'. LoadFrom lib (Some (get(''PDF_MARGIN_MM'' := ''NaN''))) = Inr c'
    \<and> c' = c\<lparr>cf_PDF := (cf_PDF c)\<lparr>pf_MarginMM := NaN\<rparr>\<rparr>"
proof -
  let ?get = "get(''PDF_MARGIN_MM'' := ''NaN'')"
  have ok: "config_Validate (cl_ParseAddress lib) (cf_SMTP c) = None" "invalid_fields c = []"
    using LoadFrom_Inr [OF assms(1)] by simp_all
  have run: "run_steps_of (browser_steps lib get @ layout_steps lib get @ service_steps lib get)
      (initial_config get) = Inr c"
    using assms(1) by (simp add: LoadFrom_def split: sum.splits option.splits)
  obtain c1 c2 where c1: "run_steps_of (browser_steps lib get) (initial_config get) = Inr c1"
    and c2: "read_field get (cl_ParseFloat lib) ''PDF_MARGIN_MM''
        (\<lambda>v. cf_PDF_update (pf_MarginMM_update (\<lambda>_. v))) c1 = Inr c2"
    and rest: "run_steps_of (tl (layout_steps lib get) @ service_steps lib get) c2 = Inr c"
    using run by (subst (asm) margin_step) (auto simp: run_steps_of_append split: sum.splits)
  have after: "run_steps_of (tl (layout_steps lib get) @ service_steps lib get) (with_margin c1)
      = Inr (with_margin c)"
    using run_after [OF run_keeps_margin [OF steps_around_margin(2)] rest] old_margin_step [OF c2]
    by simp
  have "run_steps_of (browser_steps lib ?get @ layout_steps lib ?get @ service_steps lib ?get)
      (initial_config ?get) = Inr (with_margin c)"
    using c1 after
    by (subst margin_step)
       (simp add: run_steps_of_append steps_ignore_margin new_margin_step [OF assms(2)])
  then have "LoadFrom lib (Some ?get) = Inr (with_margin c)"
    using ok valid_with_margin by (simp add: LoadFrom_def app_Validate_def)
  then show ?thesis by (simp add: with_margin_def)
qed

theorem nan_margin_is_accepted_witness:
  "\<exists>c. LoadFrom demo_lib (Some (demo_env(''PDF_MARGIN_MM'' := ''NaN''))) = Inr c
     \<and> pf_MarginMM (cf_PDF c) = NaN"
proof -
  obtain c where c: "LoadFrom demo_lib (Some demo_env) = Inr c" using demo_loads by blast
  have "cl_ParseFloat demo_lib ''NaN'' = Some NaN" by (simp add: demo_lib_def)
  from nan_margin_is_accepted [OF c this] show ?thesis by auto
qed

end
