(* ===== verification/Formatter.thy ===== *)
theory Formatter
  imports Processing Configuration
begin

section \<open>The PDF formatter and its quality gate\<close>

text \<open>
  \<open>internal/formatter/pdf.go\<close> and \<open>quality.go\<close>: escaping and filling the TeX template, the
  supervision of the external typesetter, the checks on the file it leaves behind, and the
  inspection of the rendered PDF against the approved article. Pandoc, the file system of the
  private workspace, the poppler tools, the XML decoder and the Unicode tables are arguments, as
  is the text of the template.
\<close>

subsection \<open>TeX\<close>

definition latex_specials :: "(char \<times> string) list" where
  "latex_specials =
     [(CHR 0x5C, CHR 0x5C # ''textbackslash{}''),
      (CHR ''{'', [CHR 0x5C, CHR ''{'']), (CHR ''}'', [CHR 0x5C, CHR ''}'']),
      (CHR ''$'', CHR 0x5C # ''$$''), (CHR ''&'', [CHR 0x5C, CHR ''&'']),
      (CHR ''#'', [CHR 0x5C, CHR ''#'']), (CHR ''%'', [CHR 0x5C, CHR ''%'']),
      (CHR ''_'', [CHR 0x5C, CHR ''_'']),
      (CHR ''~'', CHR 0x5C # ''textasciitilde{}''),
      (CHR ''^'', CHR 0x5C # ''textasciicircum{}'')]"

definition latex_char :: "char \<Rightarrow> string" where
  "latex_char c = (case map_of latex_specials c of None \<Rightarrow> [c] | Some s \<Rightarrow> s)"

definition latexEscape :: "string \<Rightarrow> string" where
  "latexEscape value = concat (map latex_char (TrimSpace value))"

definition safeURL :: "string \<Rightarrow> bool" where
  "safeURL raw =
     (case url_Parse (TrimSpace raw) of
        None \<Rightarrow> False
      | Some u \<Rightarrow> (u_Scheme u = ''http'' \<or> u_Scheme u = ''https'') \<and> u_Host u \<noteq> '''')"

text \<open>\<open>strings.NewReplacer(..).Replace\<close>: one pass, the first pair that matches at a position wins,
  and a replacement is not read again.\<close>

fun first_match :: "(string \<times> string) list \<Rightarrow> string \<Rightarrow> (string \<times> string) option" where
  "first_match [] s = None"
| "first_match ((old, new) # ps) s =
     (if old \<noteq> '''' \<and> HasPrefix s old then Some (new, drop (length old) s) else first_match ps s)"

lemma first_match_shorter: "first_match ps s = Some (new, rest) \<Longrightarrow> length rest < length s"
proof (induction ps s rule: first_match.induct)
  case (2 old new ps s)
  show ?case
  proof (cases "old \<noteq> '''' \<and> HasPrefix s old")
    case True
    then have "s \<noteq> ''''" by (auto simp: HasPrefix_def)
    then have "length (drop (length old) s) < length s" using True by simp
    then show ?thesis using 2 True by auto
  qed (use 2 in auto)
qed simp

function replace_once :: "(string \<times> string) list \<Rightarrow> string \<Rightarrow> string" where
  "replace_once ps s =
     (case first_match ps s of
        Some (new, rest) \<Rightarrow> new @ replace_once ps rest
      | None \<Rightarrow> (case s of [] \<Rightarrow> [] | c # cs \<Rightarrow> c # replace_once ps cs))"
  by pat_completeness auto
termination
  by (relation "measure (\<lambda>(ps, s). length s)") (auto dest: first_match_shorter)

declare replace_once.simps [simp del]

text \<open>The numbers of the layout are formatted by \<open>strconv\<close>, and their product is a rounded one.\<close>

record pdf_lib =
  pd_FormatFloat :: "float64 \<Rightarrow> string"
  pd_mul :: "float64 \<Rightarrow> float64 \<Rightarrow> float64"
  pd_template :: string

definition separator :: string where
  "separator = '' '' @ [CHR 0x5C] @ ''textperiodcentered{} ''"

definition metadata_line :: "format_article \<Rightarrow> string" where
  "metadata_line a =
     Join (map latexEscape (filter (\<lambda>v. TrimSpace v \<noteq> '''')
             [fa_Author a, fa_SiteName a, fa_PublicationDate a])
           @ (if safeURL (fa_SourceURL a)
              then [CHR 0x5C # ''href{'' @ latexEscape (fa_SourceURL a) @ ''}{Original article}'']
              else []))
       separator"

definition template_values ::
  "pdf_lib \<Rightarrow> format_article \<Rightarrow> float64 \<Rightarrow> float64 \<Rightarrow> float64 \<Rightarrow> (string \<times> string) list" where
  "template_values lib a margin font line =
     [(''@@WIDTH@@'', if fa_Profile a = ''kindle-scribe'' then ''157.5'' else ''148''),
      (''@@MARGIN@@'', pd_FormatFloat lib margin), (''@@FONT@@'', pd_FormatFloat lib font),
      (''@@LEADING@@'', pd_FormatFloat lib (pd_mul lib font line)),
      (''@@TITLE@@'', latexEscape (fa_Title a)), (''@@AUTHOR@@'', latexEscape (fa_Author a)),
      (''@@SUBJECT@@'',
         latexEscape (Join [fa_SiteName a, fa_PublicationDate a, fa_SourceURL a] '' | '')),
      (''@@META@@'', metadata_line a)]"

definition renderTemplate ::
  "pdf_lib \<Rightarrow> format_article \<Rightarrow> float64 \<Rightarrow> float64 \<Rightarrow> float64 \<Rightarrow> string" where
  "renderTemplate lib a margin font line =
     replace_once (template_values lib a margin font line) (pd_template lib)"

subsection \<open>Running the typesetter\<close>

text \<open>\<open>CommandExecutor.Run\<close>: the start, then either the end of the process or the end of the
  context comes first; killing the group may fail.\<close>

datatype command_end = Exited "error option" | Cancelled error "error option"

definition command_Run :: "error option \<Rightarrow> command_end \<Rightarrow> error option" where
  "command_Run start e =
     (case start of
        Some cause \<Rightarrow> Some (WrapError ''start Pandoc'' cause)
      | None \<Rightarrow>
          (case e of
             Exited oe \<Rightarrow> map_option (WrapError ''Pandoc render'') oe
           | Cancelled c kill \<Rightarrow>
               (case kill of None \<Rightarrow> Some c
                | Some k \<Rightarrow> Some (WrapError ''terminate Pandoc'' k))))"

text \<open>What the supervising loop of \<open>runBounded\<close> sees next: the executor returned (with the reading
  of the context's error), a tick with the size of the output or the error of \<open>Stat\<close>, or the end
  of the context. \<open>None\<close> is a loop that still waits.\<close>

datatype watch_event =
    Done "error option" "error option" | Tick "error + int" | Expired error

definition ErrOutputTooLarge :: error where
  "ErrOutputTooLarge = NewError ''PDF output exceeds configured limit''"
definition ErrInvalidPDF :: error where
  "ErrInvalidPDF = NewError ''Pandoc produced an invalid PDF''"
definition ErrUnsupportedProfile :: error where
  "ErrUnsupportedProfile = NewError ''unsupported PDF profile''"
definition ErrInvalidArticle :: error where
  "ErrInvalidArticle = NewError ''invalid semantic article''"

fun runBounded :: "int \<Rightarrow> watch_event list \<Rightarrow> error option option" where
  "runBounded maxBytes [] = None"
| "runBounded maxBytes (Done oe ctx # evs) =
     Some (case oe of None \<Rightarrow> None
           | Some e \<Rightarrow> (case ctx of Some c \<Rightarrow> Some c | None \<Rightarrow> Some e))"
| "runBounded maxBytes (Tick stat # evs) =
     (case stat of
        Inr n \<Rightarrow> if maxBytes < n then Some (Some ErrOutputTooLarge) else runBounded maxBytes evs
      | Inl e \<Rightarrow> if errors_Is e OsErrNotExist then runBounded maxBytes evs
                 else Some (Some (WrapError ''inspect PDF output'' e)))"
| "runBounded maxBytes (Expired c # evs) = Some (Some c)"

text \<open>The output file when it is read back.\<close>

record output_file =
  of_open :: "error option"
  of_stat :: "error option"
  of_regular :: bool
  of_size :: int
  of_bytes :: string
  of_read :: "error option"

definition pdf_tail :: "string \<Rightarrow> string" where
  "pdf_tail pdf = drop (length pdf - min (length pdf) 1024) pdf"

definition looks_like_pdf :: "string \<Rightarrow> bool" where
  "looks_like_pdf pdf \<longleftrightarrow>
     24 \<le> length pdf \<and> HasPrefix pdf ''%PDF-'' \<and> Contains (pdf_tail pdf) ''startxref''
     \<and> Contains (pdf_tail pdf) ''%%EOF''"

definition readAndVerifyPDF :: "output_file \<Rightarrow> int \<Rightarrow> error + string" where
  "readAndVerifyPDF f maxBytes =
     (case of_open f of
        Some e \<Rightarrow> Inl (WrapError ''open Pandoc PDF'' e)
      | None \<Rightarrow>
     (case of_stat f of
        Some e \<Rightarrow> Inl (WrapError ''inspect Pandoc PDF'' e)
      | None \<Rightarrow>
          if \<not> of_regular f then Inl ErrInvalidPDF
          else if maxBytes < of_size f then Inl ErrOutputTooLarge
          else
            (let pdf = take (nat (maxBytes + 1)) (of_bytes f)
             in case of_read f of
                  Some e \<Rightarrow> Inl (WrapError ''read Pandoc PDF'' e)
                | None \<Rightarrow>
                    if maxBytes < int (length pdf) then Inl ErrOutputTooLarge
                    else if \<not> looks_like_pdf pdf then Inl ErrInvalidPDF
                    else Inr pdf)))"

subsection \<open>Formatting\<close>

record pdf_formatter =
  pt_MaxBytes :: int
  pt_MarginMM :: float64
  pt_BodyFontPT :: float64
  pt_LineHeight :: float64

text \<open>One run: the context at the start, the error of preparing the workspace, and what the
  typesetter makes of the template and the document (the events of the supervising loop, and the
  file).\<close>

record pdf_run =
  pr_ctx :: "error option"
  pr_workspace :: "error option"
  pr_typeset :: "string \<Rightarrow> string \<Rightarrow> watch_event list \<times> output_file"

definition layout_or :: "float64 \<Rightarrow> float64 \<Rightarrow> float64" where
  "layout_or v fallback = (if f64_le v (Fin 0) then fallback else v)"

definition max_output :: "pdf_formatter \<Rightarrow> int" where
  "max_output p = (if pt_MaxBytes p \<le> 0 then 16 * 2 ^ 20 else pt_MaxBytes p)"

definition document_of :: "string \<Rightarrow> string" where
  "document_of clean = ''<!doctype html><html><head><meta charset='' @ [CHR 0x22] @ ''utf-8''
     @ [CHR 0x22] @ ''></head><body>'' @ clean @ ''</body></html>''"

definition with_profile :: "format_article \<Rightarrow> format_article" where
  "with_profile a = (if fa_Profile a = '''' then a\<lparr>fa_Profile := ''a5''\<rparr> else a)"

text \<open>\<open>None\<close> while the loop of the typesetter waits.\<close>

definition pdf_Format ::
  "lower_table \<Rightarrow> html_lib \<Rightarrow> pdf_lib \<Rightarrow> pdf_formatter \<Rightarrow> pdf_run \<Rightarrow> format_article
     \<Rightarrow> (error + string) option" where
  "pdf_Format ulow html lib p run article =
     (case pr_ctx run of
        Some e \<Rightarrow> Some (Inl e)
      | None \<Rightarrow>
          (let a = with_profile article
           in if fa_Profile a \<noteq> ''a5'' \<and> fa_Profile a \<noteq> ''kindle-scribe''
              then Some (Inl ErrUnsupportedProfile)
              else
     (case ArticleHTML ulow html (fa_SemanticHTML a) (fa_Title a) of
        Inl e \<Rightarrow> Some (Inl (WrapError ''invalid semantic article'' ErrInvalidArticle))
      | Inr clean \<Rightarrow>
     (case pr_workspace run of
        Some e \<Rightarrow> Some (Inl e)
      | None \<Rightarrow>
          (let margin = layout_or (pt_MarginMM p) (Fin 12);
               font = layout_or (pt_BodyFontPT p) (Fin 11);
               line = layout_or (pt_LineHeight p) (Fin (5 / 4));
               (events, file) = pr_typeset run (renderTemplate lib a margin font line)
                                  (document_of clean)
           in case runBounded (max_output p) events of
                None \<Rightarrow> None
              | Some (Some e) \<Rightarrow> Some (Inl e)
              | Some None \<Rightarrow> Some (readAndVerifyPDF file (max_output p)))))))"

subsection \<open>The quality gate\<close>

text \<open>What the poppler tools print, with the output of \<open>-bbox\<close> as the XML decoder reads it: the
  attributes of a page, a word or the error of decoding it, the end of a page, anything else, and
  a broken document.\<close>

record bbox_word =
  wd_XMin :: float64
  wd_XMax :: float64
  wd_YMin :: float64
  wd_YMax :: float64
  wd_Text :: string

datatype bbox_token =
    PageStart "(string \<times> string) list" | WordElement "bbox_word option" | PageEnd
  | OtherToken | BrokenXML

record quality_evidence =
  ev_Info :: string
  ev_Raw :: string
  ev_Layout :: string
  ev_Bounds :: "bbox_token list"
  ev_Images :: string

text \<open>The widths the pages are compared with are the decimal numbers of the source, read exactly.
  \<open>norm.NFKC\<close> and the tables of \<open>unicode\<close>, \<open>strconv.ParseFloat\<close> (its value is used even when
  it reports an error), and the sums and differences of floats.\<close>

record quality_lib =
  ql_NFKC :: "string \<Rightarrow> string"
  ql_IsLetter :: "rune \<Rightarrow> bool"
  ql_IsNumber :: "rune \<Rightarrow> bool"
  ql_ToLower :: "rune \<Rightarrow> rune"
  ql_ParseFloat :: "string \<Rightarrow> float64"
  ql_minus :: "float64 \<Rightarrow> float64 \<Rightarrow> float64"
  ql_lower :: lower_table
  ql_html :: html_lib

definition comparable :: "quality_lib \<Rightarrow> string \<Rightarrow> string" where
  "comparable q s =
     string_of_runes (map (ql_ToLower q)
       (filter (\<lambda>r. ql_IsLetter q r \<or> ql_IsNumber q r) (string_runes (ql_NFKC q s))))"

definition metadata_of :: "string \<Rightarrow> string \<Rightarrow> string" where
  "metadata_of info =
     fold (\<lambda>line m. case cut_byte (CHR '':'') line of
                      None \<Rightarrow> m | Some (key, v) \<Rightarrow> m(TrimSpace key := TrimSpace v))
       (Split info (CHR 0x0A)) (\<lambda>_. '''')"

definition check_metadata :: "quality_lib \<Rightarrow> format_article \<Rightarrow> (string \<Rightarrow> string) \<Rightarrow> string option" where
  "check_metadata q a m =
     (if comparable q (m ''Title'') \<noteq> comparable q (fa_Title a) \<or> m ''Creator'' \<noteq> ''Attic''
      then Some ''missing_metadata''
      else if fa_Author a \<noteq> '''' \<and> comparable q (m ''Author'') \<noteq> comparable q (fa_Author a)
      then Some ''missing_author''
      else if list_ex (\<lambda>v. v \<noteq> '''' \<and> \<not> Contains (comparable q (m ''Subject'')) (comparable q v))
                [fa_SiteName a, fa_PublicationDate a, fa_SourceURL a]
      then Some ''missing_metadata'' else None)"

text \<open>The images: the page numbers they are on, with the zero of a failed \<open>Atoi\<close>, in order.\<close>

definition image_pages :: "string \<Rightarrow> int list" where
  "image_pages images =
     concat (map (\<lambda>line. let fs = Fields line
                         in if 3 < length fs \<and> fs ! 2 = ''image''
                            then [case ParseInt64 (fs ! 0) of None \<Rightarrow> 0 | Some n \<Rightarrow> n] else [])
       (Split images (CHR 0x0A)))"

record geometry =
  gm_pages :: nat
  gm_words :: nat
  gm_width :: float64
  gm_height :: float64

definition page_size :: "quality_lib \<Rightarrow> (string \<times> string) list \<Rightarrow> geometry \<Rightarrow> geometry" where
  "page_size q attrs g =
     fold (\<lambda>(name, v) g.
        if name = ''width'' then g\<lparr>gm_width := ql_ParseFloat q v\<rparr>
        else if name = ''height'' then g\<lparr>gm_height := ql_ParseFloat q v\<rparr> else g) attrs g"

definition expected_width :: "format_article \<Rightarrow> rat" where
  "expected_width a = (if fa_Profile a = ''kindle-scribe'' then 44646 / 100 else 41953 / 100)"

definition wrong_size :: "format_article \<Rightarrow> geometry \<Rightarrow> bool" where
  "wrong_size a g \<longleftrightarrow>
     f64_less (gm_width g) (Fin (expected_width a - 1))
     \<or> f64_less (Fin (expected_width a + 1)) (gm_width g)
     \<or> f64_less (gm_height g) (Fin 594) \<or> f64_less (Fin 597) (gm_height g)"

definition overflows :: "quality_lib \<Rightarrow> geometry \<Rightarrow> bbox_word \<Rightarrow> bool" where
  "overflows q g w \<longleftrightarrow>
     f64_less (wd_XMin w) (Fin 10) \<or> f64_less (ql_minus q (gm_width g) (Fin 10)) (wd_XMax w)
     \<or> f64_less (wd_YMin w) (Fin 5) \<or> f64_less (ql_minus q (gm_height g) (Fin 5)) (wd_YMax w)"

definition is_page_number :: "quality_lib \<Rightarrow> geometry \<Rightarrow> bbox_word \<Rightarrow> bool" where
  "is_page_number q g w \<longleftrightarrow>
     TrimSpace (wd_Text w) = Itoa (int (gm_pages g))
     \<and> f64_less (ql_minus q (gm_height g) (Fin 70)) (wd_YMin w)"

text \<open>The loop over the tokens. \<open>Inl\<close> is the reason of a failure.\<close>

fun check_geometry ::
  "quality_lib \<Rightarrow> format_article \<Rightarrow> int list \<Rightarrow> bbox_token list \<Rightarrow> geometry \<Rightarrow> string + geometry" where
  "check_geometry q a images [] g = Inr g"
| "check_geometry q a images (BrokenXML # ts) g = Inl ''invalid_geometry''"
| "check_geometry q a images (OtherToken # ts) g = check_geometry q a images ts g"
| "check_geometry q a images (PageStart attrs # ts) g =
     (let g' = page_size q attrs (g\<lparr>gm_pages := gm_pages g + 1, gm_words := 0\<rparr>)
      in if wrong_size a g' then Inl ''wrong_page_size'' else check_geometry q a images ts g')"
| "check_geometry q a images (WordElement None # ts) g = Inl ''invalid_geometry''"
| "check_geometry q a images (WordElement (Some w) # ts) g =
     (if overflows q g w then Inl ''text_overflow''
      else check_geometry q a images ts
             (if is_page_number q g w then g else g\<lparr>gm_words := gm_words g + 1\<rparr>))"
| "check_geometry q a images (PageEnd # ts) g =
     (if gm_words g = 0 \<and> int (gm_pages g) \<notin> set images then Inl ''blank_page''
      else check_geometry q a images ts g)"

text \<open>The regular expression of a page number before a form feed; its classes do not overlap, so
  every part takes as much as it can.\<close>

definition is_blank :: "char \<Rightarrow> bool" where
  "is_blank c \<longleftrightarrow> c = CHR '' '' \<or> c = CHR 0x09"

definition page_number_at :: "string \<Rightarrow> string option" where
  "page_number_at s =
     (case s of
        [] \<Rightarrow> None
      | c # s1 \<Rightarrow>
          if c \<noteq> CHR 0x0A then None
          else
            (let s2 = dropWhile is_blank s1;
                 s3 = dropWhile is_digit s2;
                 s4 = dropWhile is_blank s3;
                 s5 = (case s4 of [] \<Rightarrow> [] | d # ds \<Rightarrow> if d = CHR 0x0A then ds else s4)
             in if length s3 < length s2
                then (case s5 of [] \<Rightarrow> None
                      | d # ds \<Rightarrow> if d = CHR 0x0C then Some ds else None)
                else None))"

lemma page_number_at_shorter: "page_number_at s = Some r \<Longrightarrow> length r < length s"
proof -
  assume r: "page_number_at s = Some r"
  obtain c s1 where s: "s = c # s1" using r by (cases s) (auto simp: page_number_at_def)
  define s4 where "s4 = dropWhile is_blank (dropWhile is_digit (dropWhile is_blank s1))"
  have "length s4 \<le> length s1"
    unfolding s4_def by (meson le_trans length_dropWhile_le)
  moreover have "length r \<le> length s4"
    using r unfolding s page_number_at_def s4_def [symmetric]
    by (auto simp: Let_def s4_def [symmetric] split: if_splits list.splits)
  ultimately show ?thesis using s by simp
qed

function without_page_numbers :: "string \<Rightarrow> string" where
  "without_page_numbers s =
     (case page_number_at s of
        Some rest \<Rightarrow> CHR 0x0A # without_page_numbers rest
      | None \<Rightarrow> (case s of [] \<Rightarrow> [] | c # cs \<Rightarrow> c # without_page_numbers cs))"
  by pat_completeness auto
termination
  by (relation "measure length") (auto dest: page_number_at_shorter)

declare without_page_numbers.simps [simp del]

text \<open>The text of a node, and the walk over the sanitized article, which counts images and stops
  at the first block whose text neither reading of the PDF contains.\<close>

fun semanticText :: "node \<Rightarrow> string" where
  "semanticText (TextNode s) = s"
| "semanticText (ElementNode tag ns as cs) = concat (map semanticText cs)"
| "semanticText (OtherNode s cs) = concat (map semanticText cs)"

definition checked_blocks :: "string list" where
  "checked_blocks = [''h1'', ''h2'', ''h3'', ''h4'', ''h5'', ''h6'', ''p'', ''pre'', ''td'', ''th'']"

definition block_present :: "quality_lib \<Rightarrow> string \<Rightarrow> string \<Rightarrow> node \<Rightarrow> bool" where
  "block_present q raw layout n =
     (let v = comparable q (semanticText n)
      in length v < 8 \<or> Contains raw v \<or> Contains layout v)"

text \<open>\<open>Inr\<close> is the number of images.\<close>

fun inspect_node :: "quality_lib \<Rightarrow> string \<Rightarrow> string \<Rightarrow> node \<Rightarrow> nat \<Rightarrow> string + nat" where
  "inspect_node q raw layout (TextNode s) k = Inr k"
| "inspect_node q raw layout (OtherNode s cs) k =
     fold (\<lambda>c r. case r of Inl e \<Rightarrow> Inl e | Inr k \<Rightarrow> inspect_node q raw layout c k) cs (Inr k)"
| "inspect_node q raw layout (ElementNode tag ns as cs) k =
     (if tag \<in> set checked_blocks \<and> \<not> block_present q raw layout (ElementNode tag ns as cs)
      then Inl ''missing_content''
      else fold (\<lambda>c r. case r of Inl e \<Rightarrow> Inl e | Inr k \<Rightarrow> inspect_node q raw layout c k) cs
             (Inr (if tag = ''img'' then k + 1 else k)))"

definition checkEvidence :: "quality_lib \<Rightarrow> format_article \<Rightarrow> quality_evidence \<Rightarrow> error option" where
  "checkEvidence q a e =
     (case check_metadata q a (metadata_of (ev_Info e)) of
        Some reason \<Rightarrow> Some (QualityError reason)
      | None \<Rightarrow>
     (case check_geometry q a (image_pages (ev_Images e)) (ev_Bounds e)
             \<lparr>gm_pages = 0, gm_words = 0, gm_width = Fin 0, gm_height = Fin 0\<rparr> of
        Inl reason \<Rightarrow> Some (QualityError reason)
      | Inr g \<Rightarrow>
          if gm_pages g = 0 then Some (QualityError ''blank_pdf'')
          else
     (case ArticleHTML (ql_lower q) (ql_html q) (fa_SemanticHTML a) (fa_Title a) of
        Inl err \<Rightarrow> Some (QualityError ''invalid_article'')
      | Inr clean \<Rightarrow>
     (case html_Parse (ql_html q) clean of
        Inl err \<Rightarrow> Some err
      | Inr parsed \<Rightarrow>
          (let raw = comparable q (without_page_numbers (ev_Raw e));
               layout = comparable q (without_page_numbers (ev_Layout e))
           in if length raw < 20 then Some (QualityError ''missing_text'')
              else case inspect_node q raw layout parsed 0 of
                     Inl reason \<Rightarrow> Some (QualityError reason)
                   | Inr expected \<Rightarrow>
                       if length (image_pages (ev_Images e)) < expected
                       then Some (QualityError ''missing_images'') else None)))))"

text \<open>\<open>Inspector.Check\<close>: the workspace, then one tool after the other with what it printed, or
  whether the context had ended when it failed.\<close>

record inspection =
  in_workspace :: "error option"
  in_tools :: "error option option list"
  in_evidence :: quality_evidence

fun run_tools :: "error option option list \<Rightarrow> error option" where
  "run_tools [] = None"
| "run_tools (None # ts) = run_tools ts"
| "run_tools (Some ctx # ts) =
     Some (case ctx of Some c \<Rightarrow> c | None \<Rightarrow> QualityError ''inspection_unavailable'')"

definition inspector_Check :: "quality_lib \<Rightarrow> format_article \<Rightarrow> inspection \<Rightarrow> error option" where
  "inspector_Check q a i =
     (case in_workspace i of
        Some e \<Rightarrow> Some e
      | None \<Rightarrow>
          (case run_tools (take 5 (in_tools i)) of
             Some e \<Rightarrow> Some e | None \<Rightarrow> checkEvidence q a (in_evidence i)))"

text \<open>\<open>Checked.Format\<close>; \<open>inspect\<close> is what the tools find in a PDF.\<close>

definition checked_Format ::
  "quality_lib \<Rightarrow> (format_article \<Rightarrow> error + string) option \<Rightarrow> (string \<Rightarrow> inspection)
     \<Rightarrow> format_article \<Rightarrow> error + string" where
  "checked_Format q renderer inspect a =
     (case renderer of
        None \<Rightarrow> Inl (NewError ''PDF renderer is not configured'')
      | Some format \<Rightarrow>
          (case format a of
             Inl e \<Rightarrow> Inl e
           | Inr pdf \<Rightarrow>
               (case inspector_Check q a (inspect pdf) of Some e \<Rightarrow> Inl e | None \<Rightarrow> Inr pdf)))"

end
