(* ===== verification/Formatter_Properties.thy ===== *)
theory Formatter_Properties
  imports Formatter Processing_Properties
begin

section \<open>Properties of the formatter\<close>

text \<open>
  The claims about \<open>internal/formatter\<close>: the values of an article reach TeX as literal text, and
  a PDF that is published has passed the inspection. The walk over the article and the loop over
  the words of the PDF are first compared with the sets of nodes and words they visit.
\<close>

subsection \<open>Escaping\<close>

text \<open>What Pandoc's template reader and TeX make of a text that may only contain ordinary
  characters and the control sequences for the ten characters that are active in TeX, where
  Pandoc reads a doubled dollar sign as one: the characters it displays, or \<open>None\<close> at anything
  active. The table is TeX's, not that of the code.\<close>

definition tex_active :: string where "tex_active = CHR 0x5C # ''{}$&#%_~^''"

definition tex_escapes :: "(string \<times> string) list" where
  "tex_escapes =
     map (\<lambda>c. ([CHR 0x5C, c], [c])) ''{}&#%_'' @
     [(CHR 0x5C # ''$$'', ''$''), (CHR 0x5C # ''textbackslash{}'', [CHR 0x5C]),
      (CHR 0x5C # ''textasciitilde{}'', ''~''), (CHR 0x5C # ''textasciicircum{}'', ''^'')]"

function latex_read :: "string \<Rightarrow> string option" where
  "latex_read s =
     (case first_match tex_escapes s of
        Some (shown, rest) \<Rightarrow> map_option ((@) shown) (latex_read rest)
      | None \<Rightarrow>
          (case s of
             [] \<Rightarrow> Some []
           | c # cs \<Rightarrow> if c \<in> set tex_active then None
                       else map_option (Cons c) (latex_read cs)))"
  by pat_completeness auto
termination
  by (relation "measure length") (auto dest: first_match_shorter)

declare latex_read.simps [simp del]

lemma HasPrefix_Cons [simp]:
  "HasPrefix (c # s) (d # old) \<longleftrightarrow> c = d \<and> HasPrefix s old" "HasPrefix s ''''"
  by (auto simp: HasPrefix_def)

lemma tex_escapes_all:
  "list_all (\<lambda>(c, t). first_match tex_escapes (t @ rest) = Some ([c], rest)) latex_specials"
  by (simp add: tex_escapes_def latex_specials_def)

lemma tex_escapes_special:
  "(c, t) \<in> set latex_specials \<Longrightarrow> first_match tex_escapes (t @ rest) = Some ([c], rest)"
  using tex_escapes_all [of rest] by (auto simp: list_all_iff)

lemma tex_escapes_plain:
  "c \<noteq> CHR 0x5C \<Longrightarrow> first_match tex_escapes (c # rest) = None"
  by (simp add: tex_escapes_def latex_specials_def)

lemma specials_active: "fst ` set latex_specials = set tex_active"
  by (simp add: latex_specials_def tex_active_def)

lemma latex_read_char: "latex_read (latex_char c @ rest) = map_option (Cons c) (latex_read rest)"
proof (cases "map_of latex_specials c")
  case None
  then have plain: "c \<notin> set tex_active" by (simp add: map_of_eq_None_iff specials_active)
  then have "c \<noteq> CHR 0x5C" by (simp add: tex_active_def)
  then show ?thesis
    using plain None by (subst latex_read.simps) (simp add: latex_char_def tex_escapes_plain)
next
  case (Some t)
  then have "first_match tex_escapes (t @ rest) = Some ([c], rest)"
    by (intro tex_escapes_special map_of_SomeD)
  then show ?thesis
    using Some by (subst latex_read.simps) (simp add: latex_char_def append_Cons [abs_def])
qed

lemma latex_read_escape: "latex_read (latexEscape v) = Some (TrimSpace v)"
proof -
  have "latex_read (concat (map latex_char s)) = Some s" for s
  proof (induction s)
    case Nil
    show ?case by (subst latex_read.simps) (simp add: tex_escapes_def latex_specials_def HasPrefix_def)
  qed (simp add: latex_read_char)
  then show ?thesis by (simp add: latexEscape_def)
qed

subsection \<open>Filling the template\<close>

text \<open>A template is a sequence of literal pieces without the marker character, and of markers.\<close>

datatype piece = Literal string | Marker string

fun piece_text :: "piece \<Rightarrow> string" where
  "piece_text (Literal s) = s"
| "piece_text (Marker m) = m"

definition template_markers :: "string list" where
  "template_markers = [''@@WIDTH@@'', ''@@MARGIN@@'', ''@@FONT@@'', ''@@LEADING@@'', ''@@TITLE@@'',
     ''@@AUTHOR@@'', ''@@SUBJECT@@'', ''@@META@@'']"

fun good_piece :: "piece \<Rightarrow> bool" where
  "good_piece (Literal s) = (CHR ''@'' \<notin> set s)"
| "good_piece (Marker m) = (m \<in> set template_markers)"

fun fill :: "(string \<times> string) list \<Rightarrow> piece \<Rightarrow> string" where
  "fill vs (Literal s) = s"
| "fill vs (Marker m) = the (map_of vs m)"

lemma template_values_markers: "map fst (template_values lib a x y z) = template_markers"
  by (simp add: template_values_def template_markers_def)

lemma first_match_marker:
  assumes "m \<in> set template_markers"
  shows "first_match (template_values lib a x y z) (m @ rest)
    = Some (the (map_of (template_values lib a x y z) m), rest)"
  using assms by (auto simp: template_markers_def template_values_def HasPrefix_def)

lemma first_match_literal:
  "c \<noteq> CHR ''@'' \<Longrightarrow> first_match (template_values lib a x y z) (c # rest) = None"
  by (simp add: template_values_def HasPrefix_def)

lemma replace_once_literal:
  "CHR ''@'' \<notin> set s \<Longrightarrow> replace_once (template_values lib a x y z) (s @ rest)
     = s @ replace_once (template_values lib a x y z) rest"
proof (induction s)
  case (Cons c s)
  then show ?case by (subst replace_once.simps) (auto simp: first_match_literal)
qed simp

lemma replace_once_pieces:
  assumes "list_all good_piece ps"
  shows "replace_once (template_values lib a x y z) (concat (map piece_text ps))
    = concat (map (fill (template_values lib a x y z)) ps)"
  using assms
proof (induction ps)
  case Nil
  show ?case by (subst replace_once.simps) (simp add: template_values_def HasPrefix_def)
next
  case (Cons p ps)
  show ?case
  proof (cases p)
    case (Literal s)
    then show ?thesis using Cons by (simp add: replace_once_literal)
  next
    case (Marker m)
    then have "m \<in> set template_markers" using Cons.prems by simp
    then show ?thesis
      using Cons Marker by (subst replace_once.simps) (simp add: first_match_marker)
  qed
qed

text \<open>C33. The article cannot inject TeX. For every template of literal pieces and markers, and
  whatever the article contains (markers included), the rendered template is the template with
  each marker replaced once; and the replacements for title, author and subject read back, with
  no active character, as exactly the trimmed text of the article.\<close>

theorem template_takes_text_literally:
  assumes "pd_template lib = concat (map piece_text ps)" and "list_all good_piece ps"
  shows "renderTemplate lib a margin font line
      = concat (map (fill (template_values lib a margin font line)) ps)
    \<and> (\<forall>shown. map_of (template_values lib a margin font line) ''@@TITLE@@'' = Some shown \<longrightarrow>
         latex_read shown = Some (TrimSpace (fa_Title a)))
    \<and> (\<forall>shown. map_of (template_values lib a margin font line) ''@@AUTHOR@@'' = Some shown \<longrightarrow>
         latex_read shown = Some (TrimSpace (fa_Author a)))
    \<and> (\<forall>shown. map_of (template_values lib a margin font line) ''@@SUBJECT@@'' = Some shown \<longrightarrow>
         latex_read shown = Some (TrimSpace
           (Join [fa_SiteName a, fa_PublicationDate a, fa_SourceURL a] '' | '')))"
  using assms
  by (simp add: renderTemplate_def replace_once_pieces)
     (simp add: template_values_def latex_read_escape)

definition demo_pdf_lib :: pdf_lib where
  "demo_pdf_lib = \<lparr>pd_FormatFloat = (\<lambda>x. ''12''), pd_mul = (\<lambda>x y. x),
     pd_template = ''title={@@TITLE@@}''\<rparr>"

definition demo_format :: format_article where
  "demo_format = \<lparr>fa_Profile = ''a5'', fa_Title = ''}@@AUTHOR@@'', fa_Author = ''x'',
     fa_SiteName = '''', fa_PublicationDate = '''', fa_SourceURL = '''', fa_SemanticHTML = '''',
     fa_GeneratedAt = 0\<rparr>"

theorem template_takes_text_literally_witness:
  "renderTemplate demo_pdf_lib demo_format (Fin 12) (Fin 11) (Fin 1)
    = ''title={'' @ [CHR 0x5C] @ ''}@@AUTHOR@@}''"
proof -
  have "pd_template demo_pdf_lib
      = concat (map piece_text [Literal ''title={'', Marker ''@@TITLE@@'', Literal ''}''])"
    by (simp add: demo_pdf_lib_def)
  moreover have "list_all good_piece [Literal ''title={'', Marker ''@@TITLE@@'', Literal ''}'']"
    by (simp add: template_markers_def)
  ultimately have "renderTemplate demo_pdf_lib demo_format (Fin 12) (Fin 11) (Fin 1)
      = concat (map (fill (template_values demo_pdf_lib demo_format (Fin 12) (Fin 11) (Fin 1)))
          [Literal ''title={'', Marker ''@@TITLE@@'', Literal ''}''])"
    using template_takes_text_literally by blast
  moreover have "TrimSpace ''}@@AUTHOR@@'' = ''}@@AUTHOR@@''"
    by (rule TrimSpace_plain) (simp add: IsSpace_def)
  ultimately show ?thesis
    by (simp add: template_values_def demo_format_def latexEscape_def latex_char_def latex_specials_def)
qed

subsection \<open>What the gate inspects\<close>






text \<open>The words of the PDF, and the margins each of them keeps.\<close>

definition words_of :: "bbox_token list \<Rightarrow> bbox_word list" where
  "words_of ts = concat (map (\<lambda>t. case t of WordElement (Some w) \<Rightarrow> [w] | _ \<Rightarrow> []) ts)"

lemma words_of_simps [simp]:
  "words_of [] = []" "words_of (WordElement (Some w) # ts) = w # words_of ts"
  "words_of (WordElement None # ts) = words_of ts" "words_of (PageStart attrs # ts) = words_of ts"
  "words_of (PageEnd # ts) = words_of ts" "words_of (OtherToken # ts) = words_of ts"
  "words_of (BrokenXML # ts) = words_of ts"
  by (simp_all add: words_of_def)

lemma page_size_pages [simp]: "gm_pages (page_size q attrs g) = gm_pages g"
  by (induction attrs arbitrary: g) (auto simp: page_size_def)




























end
