(* ===== verification/Go_Regexp.thy ===== *)
theory Go_Regexp
  imports Go_Strings
begin

section \<open>Package \<open>regexp\<close>\<close>

text \<open>
  The fragment of regular expressions that the source uses, with the leftmost-first meaning of
  \<open>regexp\<close>: the match that a backtracking search finds first. The search is the list of all ways
  to match a prefix, in the order of preference; a way is the groups it sets and the text that
  is left. Classes are predicates on bytes, which is exact for expressions whose literals and
  excluded characters are ASCII.
\<close>

type_synonym groups = "nat \<Rightarrow> string"

datatype rx =
    Class "char \<Rightarrow> bool" | Empty | Seq rx rx | Alt rx rx | Opt rx | Many "char \<Rightarrow> bool" | Group nat rx

text \<open>What is left after the greedy repetition of a class: the longest way first.\<close>

fun class_rests :: "(char \<Rightarrow> bool) \<Rightarrow> string \<Rightarrow> string list" where
  "class_rests p [] = [[]]"
| "class_rests p (c # cs) = (if p c then class_rests p cs @ [c # cs] else [c # cs])"

fun rx_match :: "rx \<Rightarrow> groups \<Rightarrow> string \<Rightarrow> (groups \<times> string) list" where
  "rx_match (Class p) g s = (case s of [] \<Rightarrow> [] | c # cs \<Rightarrow> if p c then [(g, cs)] else [])"
| "rx_match Empty g s = [(g, s)]"
| "rx_match (Seq a b) g s = concat (map (\<lambda>(g', r). rx_match b g' r) (rx_match a g s))"
| "rx_match (Alt a b) g s = rx_match a g s @ rx_match b g s"
| "rx_match (Opt a) g s = rx_match a g s @ [(g, s)]"
| "rx_match (Many p) g s = map (Pair g) (class_rests p s)"
| "rx_match (Group n a) g s =
     map (\<lambda>(g', r). (g'(n := take (length s - length r) s), r)) (rx_match a g s)"

definition rx_first :: "rx \<Rightarrow> string \<Rightarrow> (groups \<times> string) option" where
  "rx_first re s = (case rx_match re (\<lambda>_. '''') s of [] \<Rightarrow> None | m # ms \<Rightarrow> Some m)"

definition some_of :: "(char \<Rightarrow> bool) \<Rightarrow> rx" where
  "some_of p = Seq (Class p) (Many p)"

definition none_of :: "string \<Rightarrow> char \<Rightarrow> bool" where
  "none_of excluded c \<longleftrightarrow> c \<notin> set excluded"

definition white :: "char \<Rightarrow> bool" where
  "white c \<longleftrightarrow> c \<in> {CHR 0x09, CHR 0x0A, CHR 0x0C, CHR 0x0D, CHR '' ''}"

text \<open>A word without regard to case, and a sequence of expressions.\<close>

definition same_letter :: "char \<Rightarrow> char \<Rightarrow> bool" where
  "same_letter d c \<longleftrightarrow> c = d \<or> (97 \<le> byte d \<and> byte d \<le> (122::nat) \<and> byte c + 32 = (byte d :: nat))"

fun rx_all :: "rx list \<Rightarrow> rx" where
  "rx_all [] = Empty"
| "rx_all (a # as) = Seq a (rx_all as)"

definition rx_word :: "string \<Rightarrow> rx" where
  "rx_word w = rx_all (map (\<lambda>d. Class (same_letter d)) w)"

lemma class_rests_length: "r \<in> set (class_rests p s) \<Longrightarrow> length r \<le> length s"
  by (induction s) (auto split: if_splits)

lemma rx_match_length: "(g', r) \<in> set (rx_match re g s) \<Longrightarrow> length r \<le> length s"
proof (induction re arbitrary: g g' r s)
  case (Seq a b)
  then show ?case by fastforce
qed (auto split: list.splits if_splits dest: class_rests_length)

text \<open>\<open>ReplaceAllStringFunc\<close> for an expression that matches no empty text: \<open>f\<close> gets each match
  and a state. A match of no length, which does not occur, is skipped.\<close>

function replace_matches ::
  "rx \<Rightarrow> (string \<Rightarrow> 's \<Rightarrow> string \<times> 's) \<Rightarrow> string \<Rightarrow> 's \<Rightarrow> string \<times> 's" where
  "replace_matches re f [] st = ('''', st)"
| "replace_matches re f (c # cs) st =
     (case rx_first re (c # cs) of
        Some (g, rest) \<Rightarrow>
          if length rest < length (c # cs) then
            (let (out, st1) = f (take (length (c # cs) - length rest) (c # cs)) st;
                 (more, st2) = replace_matches re f rest st1
             in (out @ more, st2))
          else (let (more, st') = replace_matches re f cs st in (c # more, st'))
      | None \<Rightarrow> (let (more, st') = replace_matches re f cs st in (c # more, st')))"
  by pat_completeness auto
termination
  by (relation "measure (\<lambda>(re, f, s, st). length s)") auto

text \<open>An invariant of the state that every replacement keeps holds at the end.\<close>

lemma replace_matches_invariant:
  assumes "P st" and "\<And>m st. P st \<Longrightarrow> P (snd (f m st))"
  shows "P (snd (replace_matches re f s st))"
  using assms
proof (induction re f s st rule: replace_matches.induct [case_names nil cons])
  case (cons re f c cs st)
  show ?case
  proof (cases "rx_first re (c # cs)")
    case None
    then show ?thesis using cons.IH(1) [OF None cons.prems] by (simp add: split_beta Let_def)
  next
    case (Some m)
    obtain g rest where m: "m = (g, rest)" by (cases m)
    let ?r = "f (take (length (c # cs) - length rest) (c # cs)) st"
    have "P (snd ?r)" using cons.prems by blast
    then have "length rest < length (c # cs) \<Longrightarrow> P (snd (replace_matches re f rest (snd ?r)))"
      using cons.IH(2) [OF Some m [symmetric], of ?r "fst ?r" "snd ?r"] cons.prems(2) by auto
    moreover have "P (snd (replace_matches re f cs st))" if "\<not> length rest < length (c # cs)"
      using cons.IH(3) [OF Some m [symmetric] that cons.prems] .
    ultimately show ?thesis using Some m by (simp add: split_beta Let_def)
  qed
qed simp

end
