(* ===== verification/Capture_Static.thy ===== *)
theory Capture_Static
  imports Capture Page_Extraction Go_Regexp
begin

section \<open>Static copies of pages\<close>

text \<open>
  \<open>internal/capture/static.go\<close>, \<open>browser.go\<close>, \<open>recovery.go\<close> and \<open>reading.go\<close>: a rendered page or
  a browser's MHTML file becomes one inert document. Elements and attributes outside an allow-list
  go, resources are inlined from the archive, style sheets are rewritten. The HTML library and the
  readers of \<open>net/mail\<close>, \<open>mime\<close> and \<open>mime/multipart\<close> are arguments. The tree that the code
  changes in place is rebuilt; the set of missing resources is a list without repetitions.
\<close>

subsection \<open>Resources\<close>

definition ReplayCSP :: string where
  \<open>ReplayCSP =
     ''default-src 'none'; img-src data:; style-src 'unsafe-inline' data:; font-src data:; ''
     @ ''media-src data:; base-uri 'none'; form-action 'none'; frame-src 'none'; sandbox''\<close>

definition maxArchiveBytes :: int where "maxArchiveBytes = 67108864"

record resource =
  rs_kind :: string
  rs_body :: string

record rewriter =
  rw_assets :: "string \<Rightarrow> resource option"
  rw_missing :: "string list"
  rw_used :: int
  rw_text :: string

definition note_missing :: "string \<Rightarrow> rewriter \<Rightarrow> rewriter" where
  "note_missing location r =
     (if location \<in> set (rw_missing r) then r
      else r\<lparr>rw_missing := rw_missing r @ [location]\<rparr>)"

definition inlined_kind :: "string \<Rightarrow> bool" where
  "inlined_kind kind \<longleftrightarrow>
     HasPrefix kind ''image/'' \<or> HasPrefix kind ''font/'' \<or> kind = ''application/font-woff''
     \<or> kind = ''application/octet-stream''"

definition data_url :: "resource \<Rightarrow> string" where
  "data_url a =
     ''data:'' @ rs_kind a @ '';base64,'' @ b64_encode StdEncoding True (map byte (rs_body a))"

definition asset :: "string \<Rightarrow> string \<Rightarrow> rewriter \<Rightarrow> string \<times> rewriter" where
  "asset raw base r =
     (let raw = TrimSpace raw
      in if raw = '''' then ('''', r)
         else if HasPrefix raw ''data:'' then
           (if HasPrefix raw ''data:image/'' \<or> HasPrefix raw ''data:font/'' then raw else '''', r)
         else
           (let location = absolute base raw
            in case rw_assets r location of
                 None \<Rightarrow> ('''', note_missing location r)
               | Some a \<Rightarrow>
                   if \<not> inlined_kind (rs_kind a) then ('''', note_missing location r)
                   else
                     (let encoded = data_url a;
                          r = r\<lparr>rw_used := rw_used r + int (length encoded)\<rparr>
                      in if maxArchiveBytes < rw_used r then ('''', note_missing location r)
                         else (encoded, r))))"

subsection \<open>Style sheets\<close>

definition quote_char :: char where "quote_char = CHR 0x22"
definition tick_char :: char where "tick_char = CHR 0x27"

definition quoted_group :: "char \<Rightarrow> nat \<Rightarrow> rx" where
  "quoted_group q n =
     rx_all [Class ((=) q), Group n (Many (none_of [q])), Class ((=) q)]"

definition cssURL :: rx where
  "cssURL =
     rx_all [rx_word ''url('', Many white,
       Alt (quoted_group quote_char 1)
         (Alt (quoted_group tick_char 2) (Group 3 (Many (none_of '')'')))),
       Many white, Class ((=) (CHR '')''))]"

definition any_quote :: rx where
  "any_quote = Opt (Class (\<lambda>c. c = quote_char \<or> c = tick_char))"

definition cssImport :: rx where
  "cssImport =
     rx_all [rx_word ''@import'', some_of white,
       Alt (rx_all [rx_word ''url('', Many white, any_quote,
              Group 1 (some_of (none_of [quote_char, tick_char, CHR '')''])), any_quote,
              Many white, Class ((=) (CHR '')''))])
         (Alt (quoted_group quote_char 2) (quoted_group tick_char 3)),
       Group 4 (Many (none_of '';'')), Opt (Class ((=) (CHR '';'')))]"

text \<open>\<open>FindStringSubmatch\<close> on a text that matches.\<close>

definition groups_of :: "rx \<Rightarrow> string \<Rightarrow> groups" where
  "groups_of re s = (case rx_first re s of None \<Rightarrow> (\<lambda>_. '''') | Some (g, rest) \<Rightarrow> g)"

text \<open>The replacement of an import: \<open>nested\<close> rewrites the imported sheet, unless it would be the
  ninth level.\<close>

definition import_text ::
  "(string \<Rightarrow> string \<Rightarrow> rewriter \<Rightarrow> string \<times> rewriter) option \<Rightarrow> string \<Rightarrow> string \<Rightarrow> rewriter
     \<Rightarrow> string \<times> rewriter" where
  "import_text nested base s r =
     (let m = groups_of cssImport s;
          location = absolute base (TrimSpace (m 1 @ m 2 @ m 3))
      in case (rw_assets r location, nested) of
           (Some a, Some rewrite) \<Rightarrow>
             if rs_kind a \<noteq> ''text/css'' then ('''', note_missing location r)
             else
               (let (content, r) = rewrite (rs_body a) location r;
                    media = TrimSpace (m 4)
                in (if media \<noteq> '''' then ''@media '' @ media @ '' {'' @ content @ ''}''
                    else content, r))
         | _ \<Rightarrow> ('''', note_missing location r))"

definition url_text :: "string \<Rightarrow> string \<Rightarrow> rewriter \<Rightarrow> string \<times> rewriter" where
  "url_text base s r =
     (let m = groups_of cssURL s;
          raw = TrimSpace (m 1 @ m 2 @ m 3)
      in if HasPrefix raw ''#'' then (s, r)
         else (let (new, r) = asset raw base r
               in (''url('' @ [quote_char] @ new @ [quote_char] @ '')'', r)))"

definition escape_less :: "string \<Rightarrow> string" where
  "escape_less css = ReplaceAll css ''<'' ([CHR 0x5C] @ ''3c '')"

definition rewrite_sheet ::
  "(string \<Rightarrow> string \<Rightarrow> rewriter \<Rightarrow> string \<times> rewriter) option \<Rightarrow> string \<Rightarrow> string \<Rightarrow> rewriter
     \<Rightarrow> string \<times> rewriter" where
  "rewrite_sheet nested sheet base r =
     (let r = r\<lparr>rw_used := rw_used r + int (length sheet)\<rparr>
      in if maxArchiveBytes < rw_used r then ('''', note_missing base r)
         else
           (let (sheet, r) = replace_matches cssImport (import_text nested base) sheet r;
                (sheet, r) = replace_matches cssURL (url_text base) sheet r
            in (escape_less sheet, r)))"

text \<open>The first argument is how many levels of imports may still be entered.\<close>

primrec stylesheet :: "nat \<Rightarrow> string \<Rightarrow> string \<Rightarrow> rewriter \<Rightarrow> string \<times> rewriter" where
  "stylesheet 0 = rewrite_sheet None"
| "stylesheet (Suc levels) = rewrite_sheet (Some (stylesheet levels))"

definition css :: "string \<Rightarrow> string \<Rightarrow> rewriter \<Rightarrow> string \<times> rewriter" where
  "css = stylesheet 8"

subsection \<open>The tree\<close>

definition allowedTag :: "string \<Rightarrow> bool" where
  "allowedTag tag \<longleftrightarrow> Contains
     ('' html head title body article main section nav aside header footer div span p h1 h2 h3 h4 h5 h6 br hr pre code kbd samp var b strong i em u s del ins sub sup small mark blockquote q cite abbr address time ul ol li dl dt dd table caption colgroup col thead tbody tfoot tr th td figure figcaption img picture a style link details summary svg g path rect circle ellipse line polyline polygon text tspan defs linearGradient radialGradient stop '')
     ('' '' @ tag @ '' '')"

definition keptAttribute :: "string \<Rightarrow> bool" where
  "keptAttribute key \<longleftrightarrow> Contains
     ('' id class title alt width height colspan rowspan scope lang dir role viewbox d fill stroke stroke-width points x y x1 x2 y1 y2 cx cy r rx ry transform xmlns preserveaspectratio '')
     ('' '' @ key @ '' '')"

text \<open>Layout and form wrappers become neutral elements.\<close>

definition neutral :: "string \<Rightarrow> attribute list \<Rightarrow> string \<times> attribute list" where
  "neutral tag as =
     (if tag = ''center'' then
        (''div'', filter (\<lambda>a. at_Key a \<noteq> ''style'') as
                  @ [\<lparr>at_Key = ''style'', at_Val = ''text-align:center;'' @ node_attribute as ''style''\<rparr>])
      else if tag = ''form'' then (''div'', as)
      else if tag = ''font'' then (''span'', as)
      else (tag, as))"

definition web_link :: "string \<Rightarrow> bool" where
  "web_link v =
     (case url_Parse v of None \<Rightarrow> False | Some u \<Rightarrow> u_Scheme u = ''http'' \<or> u_Scheme u = ''https'')"

definition walk_attribute ::
  "(rune \<Rightarrow> rune) \<Rightarrow> string \<Rightarrow> string \<Rightarrow> attribute \<Rightarrow> rewriter \<Rightarrow> attribute option \<times> rewriter" where
  "walk_attribute ulow base tag a r =
     (let key = ToLower ulow (at_Key a)
      in if key = ''style'' then
           (let (v, r) = css (at_Val a) base r in (Some (a\<lparr>at_Val := v\<rparr>), r))
         else if key = ''src'' \<and> tag = ''img'' then
           (let (v, r) = asset (at_Val a) base r in (Some (a\<lparr>at_Val := v\<rparr>), r))
         else if key = ''href'' \<and> tag = ''a'' then
           (if HasPrefix (at_Val a) ''#'' then (Some a, r)
            else (let v = absolute base (at_Val a)
                  in (if web_link v then Some (a\<lparr>at_Val := v\<rparr>) else None, r)))
         else (if keptAttribute key then Some a else None, r))"

fun walk_attributes ::
  "(rune \<Rightarrow> rune) \<Rightarrow> string \<Rightarrow> string \<Rightarrow> attribute list \<Rightarrow> rewriter
     \<Rightarrow> attribute list \<times> rewriter" where
  "walk_attributes ulow base tag [] r = ([], r)"
| "walk_attributes ulow base tag (a # as) r =
     (let (kept, r) = walk_attribute ulow base tag a r;
          (as', r) = walk_attributes ulow base tag as r
      in (case kept of None \<Rightarrow> as' | Some a' \<Rightarrow> a' # as', r))"

text \<open>The text of a style element.\<close>

fun restyle :: "string \<Rightarrow> node list \<Rightarrow> rewriter \<Rightarrow> node list \<times> rewriter" where
  "restyle base [] r = ([], r)"
| "restyle base (TextNode d # ns) r =
     (let (d', r) = css d base r; (ns', r) = restyle base ns r in (TextNode d' # ns', r))"
| "restyle base (n # ns) r = (let (ns', r) = restyle base ns r in (n # ns', r))"

text \<open>A style sheet of a link: its text, or nothing if the archive does not have it.\<close>

definition linked_sheet ::
  "(rune \<Rightarrow> rune) \<Rightarrow> string \<Rightarrow> attribute list \<Rightarrow> rewriter \<Rightarrow> string option \<times> rewriter" where
  "linked_sheet ulow base as r =
     (if \<not> EqualFold ulow (node_attribute as ''rel'') ''stylesheet'' then (None, r)
      else
        (let location = absolute base (node_attribute as ''href'')
         in case rw_assets r location of
              Some a \<Rightarrow>
                if rs_kind a = ''text/css''
                then (let (text, r) = css (rs_body a) location r in (Some text, r))
                else (None, note_missing location r)
            | None \<Rightarrow> (None, note_missing location r)))"

text \<open>\<open>None\<close> is a node that is removed from its parent.\<close>

fun walk :: "(rune \<Rightarrow> rune) \<Rightarrow> string \<Rightarrow> node \<Rightarrow> rewriter \<Rightarrow> node option \<times> rewriter"
  and walk_all :: "(rune \<Rightarrow> rune) \<Rightarrow> string \<Rightarrow> node list \<Rightarrow> rewriter \<Rightarrow> node list \<times> rewriter" where
  "walk ulow base (TextNode d) r = (Some (TextNode d), r\<lparr>rw_text := rw_text r @ d @ '' ''\<rparr>)"
| "walk ulow base (OtherNode d cs) r =
     (let (cs', r) = walk_all ulow base cs r in (Some (OtherNode d cs'), r))"
| "walk ulow base (ElementNode tag0 ns as0 cs) r =
     (let (tag, as) = neutral tag0 as0
      in if \<not> allowedTag tag then
           (None, if tag = ''iframe'' \<or> tag = ''object'' \<or> tag = ''embed''
                  then note_missing ''unsupported embedded content'' r else r)
         else if tag = ''link'' then
           (case linked_sheet ulow base as r of
              (None, r) \<Rightarrow> (None, r)
            | (Some text, r) \<Rightarrow>
                (let (cs', r) = restyle base (cs @ [TextNode text]) r
                 in (Some (ElementNode ''style'' ns [] cs'), r)))
         else
           (let (as', r) = walk_attributes ulow base tag as r;
                (cs', r) = (if tag = ''style'' then restyle base cs r else walk_all ulow base cs r)
            in (Some (ElementNode tag ns as' cs'), r)))"
| "walk_all ulow base [] r = ([], r)"
| "walk_all ulow base (n # ns) r =
     (let (kept, r) = walk ulow base n r;
          (ns', r) = walk_all ulow base ns r
      in (case kept of None \<Rightarrow> ns' | Some n' \<Rightarrow> n' # ns', r))"

text \<open>A document has no parent and stays.\<close>

definition walk_document :: "(rune \<Rightarrow> rune) \<Rightarrow> string \<Rightarrow> node \<Rightarrow> rewriter \<Rightarrow> node \<times> rewriter" where
  "walk_document ulow base doc r =
     (case walk ulow base doc r of (None, r) \<Rightarrow> (doc, r) | (Some doc', r) \<Rightarrow> (doc', r))"

text \<open>\<open>find\<close> keeps the last head in document order; its children are changed.\<close>

fun in_last_head :: "(node list \<Rightarrow> node list) \<Rightarrow> node \<Rightarrow> node option"
  and in_last_head_of :: "(node list \<Rightarrow> node list) \<Rightarrow> node list \<Rightarrow> node list option" where
  "in_last_head f (TextNode d) = None"
| "in_last_head f (OtherNode d cs) = map_option (OtherNode d) (in_last_head_of f cs)"
| "in_last_head f (ElementNode tag ns as cs) =
     (case in_last_head_of f cs of
        Some cs' \<Rightarrow> Some (ElementNode tag ns as cs')
      | None \<Rightarrow> if tag = ''head'' then Some (ElementNode tag ns as (f cs)) else None)"
| "in_last_head_of f [] = None"
| "in_last_head_of f (n # ns) =
     (case in_last_head_of f ns of
        Some ns' \<Rightarrow> Some (n # ns')
      | None \<Rightarrow> map_option (\<lambda>n'. n' # ns) (in_last_head f n))"

definition policy_meta :: node where
  "policy_meta = ElementNode ''meta'' ''''
     [\<lparr>at_Key = ''http-equiv'', at_Val = ''Content-Security-Policy''\<rparr>,
      \<lparr>at_Key = ''content'', at_Val = ReplayCSP\<rparr>] []"

definition charset_meta :: node where
  "charset_meta = ElementNode ''meta'' '''' [\<lparr>at_Key = ''charset'', at_Val = ''utf-8''\<rparr>] []"

definition with_policy :: "node \<Rightarrow> node" where
  "with_policy doc =
     (case in_last_head (\<lambda>cs. policy_meta # charset_meta # cs) doc of
        None \<Rightarrow> doc | Some doc' \<Rightarrow> doc')"

subsection \<open>Conversion\<close>

text \<open>A MIME part as the reader hands it out; \<open>mp_body\<close> is what reading it gives, through the
  base64 decoder or not. \<open>sl_ParseMediaType\<close> gives the type, the boundary and the error.\<close>

record mime_part =
  mp_Encoding :: string
  mp_ContentType :: string
  mp_Location :: string
  mp_body :: "bool \<Rightarrow> error + string"

record mime_message =
  mm_ContentType :: string
  mm_parts :: "string \<Rightarrow> (error + mime_part) list"

record static_lib =
  sl_html :: html_lib
  sl_ReadMessage :: "string \<Rightarrow> error + mime_message"
  sl_ParseMediaType :: "string \<Rightarrow> string \<times> string \<times> error option"

text \<open>The title of a document: the trimmed data of the first child of the last title that has one.\<close>

fun node_data_of :: "node \<Rightarrow> string" where
  "node_data_of (TextNode d) = d"
| "node_data_of (ElementNode tag _ _ _) = tag"
| "node_data_of (OtherNode d _) = d"

fun last_title :: "node \<Rightarrow> string \<Rightarrow> string" where
  "last_title (TextNode d) t = t"
| "last_title (OtherNode d cs) t = fold last_title cs t"
| "last_title (ElementNode tag ns as cs) t =
     (if tag = ''title'' \<and> cs \<noteq> [] then TrimSpace (node_data_of (hd cs))
      else fold last_title cs t)"

definition documentTitle :: "html_lib \<Rightarrow> string \<Rightarrow> string" where
  "documentTitle lib body =
     (case html_Parse lib body of Inl e \<Rightarrow> '''' | Inr doc \<Rightarrow> last_title doc '''')"

text \<open>The state of the loop over the parts.\<close>

record archive_state =
  as_root :: string
  as_title :: string
  as_first :: bool
  as_total :: int
  as_assets :: "string \<Rightarrow> resource option"

fun read_parts ::
  "(rune \<Rightarrow> rune) \<Rightarrow> static_lib \<Rightarrow> string \<Rightarrow> (error + mime_part) list \<Rightarrow> archive_state
     \<Rightarrow> error + archive_state" where
  "read_parts ulow lib base [] st = Inr st"
| "read_parts ulow lib base (Inl e # ps) st = Inl e"
| "read_parts ulow lib base (Inr p # ps) st =
     (case mp_body p (EqualFold ulow (mp_Encoding p) ''base64'') of
        Inl e \<Rightarrow> Inl e
      | Inr full \<Rightarrow>
          (let body = take (nat (maxArchiveBytes + 1)) full;
               st = st\<lparr>as_total := as_total st + int (length body)\<rparr>
           in if maxArchiveBytes < as_total st
              then Inl (NewError ''snapshot resources exceed size limit'')
              else
                (let kind = fst (sl_ParseMediaType lib (mp_ContentType p));
                     st = (if kind = ''text/html'' \<and> as_first st
                           then st\<lparr>as_root := body, as_first := False,
                                   as_title := (if as_title st = '''' then documentTitle (sl_html lib) body
                                                else as_title st)\<rparr>
                           else st)
                 in read_parts ulow lib base ps
                      (st\<lparr>as_assets := (as_assets st)(absolute base (mp_Location p)
                             \<mapsto> \<lparr>rs_kind = kind, rs_body = body\<rparr>)\<rparr>))))"

definition read_archive ::
  "(rune \<Rightarrow> rune) \<Rightarrow> static_lib \<Rightarrow> rendered_page \<Rightarrow> error + archive_state" where
  "read_archive ulow lib page =
     (let st = \<lparr>as_root = rn_DOM page, as_title = rn_Title page, as_first = True, as_total = 0,
                as_assets = (\<lambda>_. None)\<rparr>
      in if maxArchiveBytes < int (length (rn_MHTML page))
         then Inl (NewError ''snapshot exceeds size limit'')
         else if rn_MHTML page = '''' then Inr st
         else
           (case sl_ReadMessage lib (rn_MHTML page) of
              Inl e \<Rightarrow> Inl e
            | Inr message \<Rightarrow>
                (case sl_ParseMediaType lib (mm_ContentType message) of
                   (kind, boundary, Some e) \<Rightarrow> Inl e
                 | (kind, boundary, None) \<Rightarrow>
                     if boundary = '''' then Inl (NewError ''snapshot has no MIME boundary'')
                     else read_parts ulow lib (rn_FinalURL page) (mm_parts message boundary) st)))"

definition truncated_message :: string where
  "truncated_message = ''Post text is truncated; expansion is still required''"

definition snapshot_status ::
  "(rune \<Rightarrow> rune) \<Rightarrow> rendered_page \<Rightarrow> string list \<Rightarrow> string \<Rightarrow> string" where
  "snapshot_status ulow page missing text =
     (if blocked ulow page text then ''blocked''
      else if missing \<noteq> [] \<or> 0 < dg_BlockedRequests (rn_Diagnostics page) \<or> rn_Truncated page
      then ''partial'' else ''complete'')"

definition snapshot_result ::
  "(rune \<Rightarrow> rune) \<Rightarrow> rendered_page \<Rightarrow> rewriter \<Rightarrow> string \<Rightarrow> capture_result" where
  "snapshot_result ulow page r out =
     (let text = Join (Fields (rw_text r)) '' ''
      in zero_capture\<lparr>cap_HTML := out, cap_PlainText := text, cap_Title := rn_Title page,
           cap_FinalURL := rn_FinalURL page,
           cap_Status := snapshot_status ulow page (rw_missing r) text,
           cap_MissingResources := sort (rw_missing r)
             @ (if rn_Truncated page then [truncated_message] else [])\<rparr>)"

definition start_rewriter :: "(string \<Rightarrow> resource option) \<Rightarrow> rewriter" where
  "start_rewriter assets =
     \<lparr>rw_assets = assets, rw_missing = [], rw_used = 0, rw_text = ''''\<rparr>"

definition convert ::
  "(rune \<Rightarrow> rune) \<Rightarrow> static_lib \<Rightarrow> rendered_page \<Rightarrow> error + capture_result" where
  "convert ulow lib page0 =
     (case read_archive ulow lib page0 of
        Inl e \<Rightarrow> Inl e
      | Inr st \<Rightarrow>
          (let page = page0\<lparr>rn_Title := as_title st\<rparr>
           in if as_root st = '''' then Inl (NewError ''empty snapshot'')
              else
                (case html_Parse (sl_html lib) (as_root st) of
                   Inl e \<Rightarrow> Inl e
                 | Inr doc \<Rightarrow>
                     (let (doc', r) = walk_document ulow (rn_FinalURL page) doc
                                        (start_rewriter (as_assets st))
                      in case html_Render (sl_html lib) (with_policy doc') of
                           Inl e \<Rightarrow> Inl e
                         | Inr out \<Rightarrow>
                             if maxArchiveBytes < int (length out)
                             then Inl (NewError ''inlined snapshot exceeds size limit'')
                             else Inr (snapshot_result ulow page r out)))))"

text \<open>\<open>recovery.go\<close>.\<close>

definition FromPage ::
  "(rune \<Rightarrow> rune) \<Rightarrow> static_lib \<Rightarrow> rendered_page \<Rightarrow> error + capture_result" where
  "FromPage ulow lib page = convert ulow lib page"

subsection \<open>Snapshots of a browser extension\<close>

definition MaxBrowserCaptureBytes :: int where "MaxBrowserCaptureBytes = 33554432"

definition ErrBlockedPage :: error where
  "ErrBlockedPage = NewError ''page requires browser verification before capture''"

definition browserURL :: "(rune \<Rightarrow> rune) \<Rightarrow> string \<Rightarrow> string option" where
  "browserURL ulow raw =
     (case url_Parse (TrimSpace raw) of
        None \<Rightarrow> None
      | Some u \<Rightarrow>
          if u_User u \<noteq> None \<or> Hostname u = '''' \<or> (u_Scheme u \<noteq> ''http'' \<and> u_Scheme u \<noteq> ''https'')
          then None
          else Some (url_String (u\<lparr>u_Fragment := '''', u_Host := ToLower ulow (u_Host u),
                 u_Path := (if u_Path u = '''' then ''/'' else u_Path u)\<rparr>)))"

text \<open>The first part of the file; \<open>None\<close> is the end of the file, whose error the code returns.\<close>

definition first_part :: "(error + mime_part) list \<Rightarrow> error + mime_part" where
  "first_part ps = (case ps of [] \<Rightarrow> Inl (NewError ''EOF'') | p # _ \<Rightarrow> p)"

definition root_matches :: "(rune \<Rightarrow> rune) \<Rightarrow> static_lib \<Rightarrow> string \<Rightarrow> mime_part \<Rightarrow> error option" where
  "root_matches ulow lib expected p =
     (if fst (sl_ParseMediaType lib (mp_ContentType p)) = ''text/html''
         \<and> browserURL ulow (mp_Location p) = Some expected
      then None else Some (NewError ''snapshot root does not match tab URL''))"

definition check_snapshot ::
  "(rune \<Rightarrow> rune) \<Rightarrow> static_lib \<Rightarrow> string \<Rightarrow> string \<Rightarrow> error option" where
  "check_snapshot ulow lib expected data =
     (case sl_ReadMessage lib data of
        Inl e \<Rightarrow> Some e
      | Inr message \<Rightarrow>
          (case sl_ParseMediaType lib (mm_ContentType message) of
             (kind, boundary, err) \<Rightarrow>
               if err \<noteq> None \<or> kind \<noteq> ''multipart/related'' \<or> boundary = ''''
               then Some (NewError ''invalid browser snapshot format'')
               else (case first_part (mm_parts message boundary) of
                       Inl e \<Rightarrow> Some e | Inr p \<Rightarrow> root_matches ulow lib expected p)))"

definition FromMHTML ::
  "(rune \<Rightarrow> rune) \<Rightarrow> static_lib \<Rightarrow> string \<Rightarrow> string \<Rightarrow> string \<Rightarrow> error + capture_result" where
  "FromMHTML ulow lib rawURL title data =
     (if data = '''' \<or> MaxBrowserCaptureBytes < int (length data)
      then Inl (NewError ''invalid browser snapshot size'')
      else
        (case browserURL ulow rawURL of
           None \<Rightarrow> Inl (NewError ''invalid snapshot URL'')
         | Some expected \<Rightarrow>
             (case check_snapshot ulow lib expected data of
                Some e \<Rightarrow> Inl e
              | None \<Rightarrow>
                  (case convert ulow lib (zero_rendered\<lparr>rn_FinalURL := expected, rn_Status := 200,
                            rn_MHTML := data\<rparr>) of
                     Inl e \<Rightarrow> Inl e
                   | Inr r \<Rightarrow>
                       if cap_Status r = ''blocked'' then Inl ErrBlockedPage
                       else Inr (r\<lparr>cap_Title := (if cap_Title r = '''' then TrimSpace title
                                                 else cap_Title r),
                                   cap_OriginalURL := expected\<rparr>)))))"

subsection \<open>Reading view\<close>

definition readingCSS :: string where
  \<open>readingCSS =
     '':root{color-scheme:light}body{margin:0;background:#fff;color:#181818;font:1.125rem/1''
     @ ''.65 Georgia,"Times New Roman",serif}main{max-width:72ch;margin:auto;padding:2rem 1.2''
     @ ''5rem 4rem}h1,h2,h3{line-height:1.2}h1{font-size:2rem}a{color:inherit;text-decoration''
     @ '':underline}.source{font:0.9rem/1.5 system-ui,sans-serif;color:#555}img,svg{max-width''
     @ '':100%;height:auto}figure{margin:1.5rem 0}figcaption{font-size:0.9rem}pre{overflow:au''
     @ ''to;white-space:pre-wrap;overflow-wrap:anywhere;padding:1rem;background:#f3f3f3;borde''
     @ ''r:1px solid #ddd;tab-size:4}code,kbd,samp{font:0.85em/1.5 ui-monospace,monospace}tab''
     @ ''le{display:block;max-width:100%;overflow:auto;border-collapse:collapse;font-size:0.9''
     @ ''5rem}td,th{padding:.4rem .6rem;border:1px solid #bbb;text-align:left}blockquote{marg''
     @ ''in-left:0;padding-left:1rem;border-left:3px solid #aaa}@media(max-width:600px){main{''
     @ ''padding:1rem}h1{font-size:1.6rem}}''\<close>

text \<open>\<open>reading.go\<close>: images are kept out of the extraction under tokens, in the order in which
  they are found, and restored afterwards. An SVG element becomes an image of itself.\<close>

definition reading_token :: "nat \<Rightarrow> string" where
  "reading_token n =
     ''data:image/png;base64,''
     @ b64_encode StdEncoding True (map byte (''attic-reading-image-'' @ Itoa (int n)))"

fun token_attributes ::
  "attribute list \<Rightarrow> (string \<times> string) list \<Rightarrow> attribute list \<times> (string \<times> string) list" where
  "token_attributes [] images = ([], images)"
| "token_attributes (a # as) images =
     (if at_Key a = ''src'' \<and> HasPrefix (at_Val a) ''data:image/''
      then (let token = reading_token (length images);
                (as', images') = token_attributes as (images @ [(token, at_Val a)])
            in (a\<lparr>at_Val := token\<rparr> # as', images'))
      else (let (as', images') = token_attributes as images in (a # as', images')))"

definition svg_image ::
  "extraction_lib \<Rightarrow> string \<Rightarrow> attribute list \<Rightarrow> node list \<Rightarrow> attribute list" where
  "svg_image lib ns as cs =
     (let as = (if node_attribute as ''xmlns'' = ''''
                then as @ [\<lparr>at_Key = ''xmlns'', at_Val = ''http://www.w3.org/2000/svg''\<rparr>] else as)
      in [\<lparr>at_Key = ''src'', at_Val = ''data:image/svg+xml;base64,''
            @ b64_encode StdEncoding True (map byte (render lib (ElementNode ''svg'' ns as cs)))\<rparr>])"

fun prepare ::
  "extraction_lib \<Rightarrow> node \<Rightarrow> (string \<times> string) list \<Rightarrow> node \<times> (string \<times> string) list"
  and prepare_all ::
  "extraction_lib \<Rightarrow> node list \<Rightarrow> (string \<times> string) list \<Rightarrow> node list \<times> (string \<times> string) list" where
  "prepare lib (TextNode d) images = (TextNode d, images)"
| "prepare lib (OtherNode d cs) images =
     (let (cs', images) = prepare_all lib cs images in (OtherNode d cs', images))"
| "prepare lib (ElementNode tag ns as cs) images =
     (if tag = ''svg'' then
        (let (as', images) = token_attributes (svg_image lib ns as cs) images
         in (ElementNode ''img'' '''' as' [], images))
      else if tag = ''img'' then
        (let (as', images) = token_attributes as images;
             (cs', images) = prepare_all lib cs images
         in (ElementNode tag ns as' cs', images))
      else
        (let (cs', images) = prepare_all lib cs images in (ElementNode tag ns as cs', images)))"
| "prepare_all lib [] images = ([], images)"
| "prepare_all lib (n # ns) images =
     (let (n', images) = prepare lib n images; (ns', images) = prepare_all lib ns images
      in (n' # ns', images))"

definition restore_attribute :: "(string \<times> string) list \<Rightarrow> attribute \<Rightarrow> attribute" where
  "restore_attribute images a =
     (if at_Key a = ''src'' then
        (case map_of images (at_Val a) of None \<Rightarrow> a | Some v \<Rightarrow> a\<lparr>at_Val := v\<rparr>)
      else a)"

fun restore :: "(string \<times> string) list \<Rightarrow> node \<Rightarrow> node" where
  "restore images (TextNode d) = TextNode d"
| "restore images (OtherNode d cs) = OtherNode d (map (restore images) cs)"
| "restore images (ElementNode tag ns as cs) =
     ElementNode tag ns (if tag = ''img'' then map (restore_attribute images) as else as)
       (map (restore images) cs)"

text \<open>The rendered children of every outermost body.\<close>

fun render_body :: "extraction_lib \<Rightarrow> node \<Rightarrow> string" where
  "render_body lib (TextNode d) = ''''"
| "render_body lib (OtherNode d cs) = concat (map (render_body lib) cs)"
| "render_body lib (ElementNode tag ns as cs) =
     (if tag = ''body'' then concat (map (render lib) cs) else concat (map (render_body lib) cs))"

definition in_quotes :: "string \<Rightarrow> string" where
  "in_quotes s = [quote_char] @ s @ [quote_char]"

definition reading_head :: "string \<Rightarrow> string" where
  "reading_head title =
     ''<!doctype html><html><head><meta charset='' @ in_quotes ''utf-8'' @ ''><meta http-equiv=''
     @ in_quotes ''Content-Security-Policy'' @ '' content='' @ in_quotes (EscapeString ReplayCSP)
     @ ''><meta name='' @ in_quotes ''viewport'' @ '' content=''
     @ in_quotes ''width=device-width,initial-scale=1'' @ ''><title>'' @ title
     @ ''</title><style>'' @ readingCSS @ ''</style></head><body><main>''"

definition source_line :: "(rune \<Rightarrow> rune) \<Rightarrow> string \<Rightarrow> string" where
  "source_line ulow sourceURL =
     (case url_Parse sourceURL of
        None \<Rightarrow> ''''
      | Some u \<Rightarrow>
          if ValidateURL ulow (Some u) \<noteq> None then ''''
          else ''<p class='' @ in_quotes ''source'' @ ''><a href='' @ in_quotes (EscapeString sourceURL)
               @ '' rel='' @ in_quotes ''noreferrer'' @ ''>'' @ EscapeString (Hostname u) @ ''</a></p>'')"

definition ReadingView ::
  "(rune \<Rightarrow> rune) \<Rightarrow> extraction_lib \<Rightarrow> string \<Rightarrow> string \<Rightarrow> error + string" where
  "ReadingView ulow lib savedHTML sourceURL =
     (if savedHTML = '''' \<or> maxArchiveBytes < int (length savedHTML)
      then Inl (NewError ''saved page exceeds reading limits'')
      else
        (case html_Parse (el_html lib) savedHTML of
           Inl e \<Rightarrow> Inl e
         | Inr doc \<Rightarrow>
             (let (doc', images) = prepare lib doc []
              in case html_Render (el_html lib) doc' of
                   Inl e \<Rightarrow> Inl e
                 | Inr prepared \<Rightarrow>
             (case Extract ulow lib \<lparr>pg_FinalURL = sourceURL, pg_Status = 0, pg_HTML = prepared\<rparr> of
                Inl e \<Rightarrow> Inl e
              | Inr c \<Rightarrow>
             (case html_Parse (el_html lib) (cand_SemanticHTML c) of
                Inl e \<Rightarrow> Inl e
              | Inr content \<Rightarrow>
                  (let title = EscapeString (cand_Title c);
                       output = reading_head title @ ''<header><h1>'' @ title @ ''</h1>''
                         @ source_line ulow sourceURL @ ''</header>''
                         @ render_body lib (restore images content) @ ''</main></body></html>''
                   in if maxArchiveBytes < int (length output)
                      then Inl (NewError ''reading view exceeds size limit'') else Inr output))))))"

definition ReadingDocument ::
  "lower_table \<Rightarrow> html_lib \<Rightarrow> string \<Rightarrow> string \<Rightarrow> error + string" where
  "ReadingDocument ulow lib title semantic =
     (case SanitizeHTML ulow lib semantic of
        Inl e \<Rightarrow> Inl e
      | Inr body \<Rightarrow> Inr (reading_head (EscapeString title) @ body @ ''</main></body></html>''))"

end
