(* ===== verification/Static_Properties.thy ===== *)
theory Static_Properties
  imports Capture_Static Capture_Facts Archive_Facts
begin

section \<open>Properties of static copies\<close>

text \<open>
  What the rewriting of \<open>internal/capture/static.go\<close> guarantees of the document it renders, whichever
  tree the HTML parser gives, and two gaps of it. Each function of the rewriting has one lemma.
\<close>

subsection \<open>Styles and resources\<close>








subsection \<open>The tree\<close>







lemma allowed_style: "allowedTag ''style''"
  by (simp add: allowedTag_def HasPrefix_def)


subsection \<open>The policy\<close>





subsection \<open>Conversion\<close>




text \<open>Every snapshot of a capture was converted.\<close>

definition converted :: "capture_lib \<Rightarrow> capture_result \<Rightarrow> bool" where
  "converted lib r \<longleftrightarrow>
     cap_HTML r = '''' \<or> (\<exists>page r'. cl_convert lib page = Inr r' \<and> cap_HTML r' = cap_HTML r)"

lemma convertedI: "cl_convert lib page = Inr r' \<Longrightarrow> cap_HTML r' = cap_HTML r \<Longrightarrow> converted lib r"
  by (auto simp: converted_def)

lemma partial_result_HTML [simp]: "cap_HTML (partial_result original missing r) = cap_HTML r"
  by (simp add: partial_result_def)

lemma xMirror_converted: "xMirror ulow lib get original endpoint = Inr r \<Longrightarrow> converted lib r"
  by (auto simp: xMirror_def Let_def split: sum.splits if_splits option.splits prod.splits
      intro: convertedI)

lemma partial_converted:
  "map_sum id (partial_result original missing) (cl_convert lib page) = Inr r \<Longrightarrow> converted lib r"
  by (cases "cl_convert lib page") (auto intro: convertedI)

lemma xEmbed_converted: "xEmbed ulow lib get original endpoint = Inr r \<Longrightarrow> converted lib r"
  by (auto simp: xEmbed_def Let_def split: sum.splits if_splits option.splits prod.splits
      dest: partial_converted)

definition static_converted :: "capture_lib \<Rightarrow> source \<Rightarrow> bool" where
  "static_converted lib s \<longleftrightarrow>
     (case src_Static s of None \<Rightarrow> True | Some r \<Rightarrow> converted lib r)"

lemma static_source_converted:
  "(\<And>c. r = Inr c \<Longrightarrow> converted lib c) \<Longrightarrow> static_converted lib (static_source original url fb r)"
  by (auto simp: static_converted_def static_source_def converted_def zero_capture_def
      split: sum.splits)

lemma post_source_converted [simp]:
  "static_converted lib (static_source original url fb (xMirror ulow lib get post endpoint))"
  "static_converted lib (static_source original url fb (xEmbed ulow lib get post endpoint))"
  by (auto intro!: static_source_converted dest: xMirror_converted xEmbed_converted)

lemma page_source_converted [simp]: "static_converted lib (page_source original url r)"
  by (simp add: static_converted_def page_source_def)







text \<open>Scripts survive inside a style element of an SVG. The parser gives such an element child
  elements, and the walk does not enter a style element: a script that stands there is rendered
  into the snapshot as it was, below the policy.\<close>

theorem foreign_style_is_not_cleaned:
  assumes "rn_MHTML page = ''''" and "rn_DOM page \<noteq> ''''"
    and "html_Parse (sl_html lib) (rn_DOM page) = Inr (OtherNode d [ElementNode ''html'' '''' []
      [ElementNode ''head'' '''' [] [], ElementNode ''body'' '''' []
        [ElementNode ''svg'' ''svg'' [] [ElementNode ''style'' ''svg'' [] [ElementNode ''script'' ''svg'' as [TextNode code]]]]]])"
    and "convert ulow lib page = Inr r"
  shows "html_Render (sl_html lib) (OtherNode d [ElementNode ''html'' '''' []
      [ElementNode ''head'' '''' [] [policy_meta, charset_meta], ElementNode ''body'' '''' []
        [ElementNode ''svg'' ''svg'' [] [ElementNode ''style'' ''svg'' [] [ElementNode ''script'' ''svg'' as [TextNode code]]]]]])
    = Inr (cap_HTML r)"
proof -
  have allowed: "allowedTag ''html''" "allowedTag ''head''" "allowedTag ''body''" "allowedTag ''svg''"
    by (simp_all add: allowedTag_def HasPrefix_def)
  show ?thesis
    using assms allowed allowed_style
    by (auto simp: convert_def read_archive_def walk_document_def neutral_def with_policy_def
        maxArchiveBytes_def snapshot_result_def Let_def split: sum.splits if_splits)
qed

subsection \<open>Matching\<close>



lemma same_letter_self [simp]: "same_letter c c"
  by (simp add: same_letter_def)








subsection \<open>Linked style sheets\<close>













subsection \<open>Witnesses\<close>

definition demo_static :: "node \<Rightarrow> static_lib" where
  "demo_static doc =
     \<lparr>sl_html = \<lparr>html_ParseFragment = (\<lambda>_. Inr []), html_Parse = (\<lambda>_. Inr (OtherNode '''' [doc])),
                 html_Render = (\<lambda>_. Inr ''copy'')\<rparr>,
      sl_ReadMessage = (\<lambda>_. Inl (NewError ''none'')),
      sl_ParseMediaType = (\<lambda>_. ('''', '''', None))\<rparr>"

definition demo_page :: rendered_page where
  "demo_page = zero_rendered\<lparr>rn_DOM := ''dom''\<rparr>"





definition script_page :: node where
  "script_page = ElementNode ''html'' '''' []
      [ElementNode ''head'' '''' [] [], ElementNode ''body'' '''' []
        [ElementNode ''svg'' ''svg'' [] [ElementNode ''style'' ''svg'' []
          [ElementNode ''script'' ''svg'' [] [TextNode ''run()'']]]]]"

theorem foreign_style_is_not_cleaned_witness:
  "\<exists>r. convert id (demo_static script_page) demo_page = Inr r
    \<and> html_Render (sl_html (demo_static script_page)) (OtherNode '''' [ElementNode ''html'' '''' []
      [ElementNode ''head'' '''' [] [policy_meta, charset_meta], ElementNode ''body'' '''' []
        [ElementNode ''svg'' ''svg'' [] [ElementNode ''style'' ''svg'' []
          [ElementNode ''script'' ''svg'' [] [TextNode ''run()'']]]]]]) = Inr (cap_HTML r)"
proof -
  have page: "rn_MHTML demo_page = ''''" "rn_DOM demo_page \<noteq> ''''"
    by (simp_all add: demo_page_def zero_rendered_def)
  have "\<exists>r. convert id (demo_static script_page) demo_page = Inr r"
    by (simp add: convert_def read_archive_def demo_static_def demo_page_def zero_rendered_def
        maxArchiveBytes_def Let_def split_beta)
  then obtain r where r: "convert id (demo_static script_page) demo_page = Inr r" by blast
  have "html_Parse (sl_html (demo_static script_page)) (rn_DOM demo_page)
      = Inr (OtherNode '''' [script_page])" by (simp add: demo_static_def)
  from foreign_style_is_not_cleaned [OF page this [unfolded script_page_def] r [unfolded script_page_def]]
  show ?thesis using r unfolding script_page_def by blast
qed


end
