(* ===== verification/Recovery.thy ===== *)
theory Recovery
  imports Capture_Static AI_Answers
begin

section \<open>Recovery of pages in a browser\<close>

text \<open>
  \<open>internal/recovery/recovery.go\<close> and \<open>page.go\<close>: one persistent browser session per source, driven
  by a model for at most four steps and then by its user, which saves the page once it is
  readable. The goroutine of a session is a program counter (\<open>phase\<close>) whose steps are the sections
  between two calls or locks; what a browser, the model and the store answer, and which branch a
  \<open>select\<close> takes, is the \<open>answer\<close> of a step. The manager keeps every session it ever made, so that
  a pointer is an index. A call of \<open>capture\<close> is one step: it reads only fields of the session that
  never change and writes it once, at its end.
\<close>

subsection \<open>Values\<close>

type_synonym action = "AI_Answers.browser_action"

record browser_frame =
  fr_URL :: string
  fr_Title :: string
  fr_Text :: string
  fr_Screenshot :: string

record session =
  ss_Status :: string
  ss_URL :: string
  ss_Title :: string
  ss_Message :: string
  ss_Width :: nat
  ss_Height :: nat
  ss_Screenshot :: string

definition RecoveryWidth :: nat where "RecoveryWidth = 1024"
definition RecoveryHeight :: nat where "RecoveryHeight = 768"

definition ErrBusy :: error where
  "ErrBusy = NewError ''Another capture browser is open. Close it before starting this one''"
definition ErrInput :: error where
  "ErrInput = NewError ''Invalid browser action''"
definition ErrNeedsInput :: error where
  "ErrNeedsInput = NewError ''browser recovery needs input''"
definition ErrTimeout :: error where
  "ErrTimeout = NewError ''browser recovery needs more time''"
definition ErrUnavailable :: error where
  "ErrUnavailable = NewError ''browser recovery closed without a saved capture''"

definition idle :: session where
  "idle = \<lparr>ss_Status = ''idle'', ss_URL = '''', ss_Title = '''', ss_Message = '''',
     ss_Width = RecoveryWidth, ss_Height = RecoveryHeight, ss_Screenshot = ''''\<rparr>"

subsection \<open>Checks\<close>

definition finite_number :: "float64 \<Rightarrow> bool" where
  "finite_number v \<longleftrightarrow> (case v of Fin q \<Rightarrow> True | _ \<Rightarrow> False)"

definition at_rest :: "action \<Rightarrow> bool" where
  "at_rest a \<longleftrightarrow> ba_X a = Fin 0 \<and> ba_Y a = Fin 0"

definition validAction :: "action \<Rightarrow> bool" where
  "validAction a \<longleftrightarrow>
     finite_number (ba_X a) \<and> finite_number (ba_Y a) \<and> finite_number (ba_DeltaY a) \<and>
     (if ba_Action a \<in> set [''start'', ''takeover'', ''capture'', ''close'']
      then ba_Text a = '''' \<and> at_rest a \<and> ba_DeltaY a = Fin 0
      else if ba_Action a = ''click''
      then \<not> f64_less (ba_X a) (Fin 0) \<and> f64_less (ba_X a) (Fin 1024)
           \<and> \<not> f64_less (ba_Y a) (Fin 0) \<and> f64_less (ba_Y a) (Fin 768)
           \<and> ba_Text a = '''' \<and> ba_DeltaY a = Fin 0
      else if ba_Action a = ''scroll''
      then ba_DeltaY a \<noteq> Fin 0 \<and> \<not> f64_less (Fin 768) (ba_DeltaY a)
           \<and> \<not> f64_less (ba_DeltaY a) (Fin (- 768)) \<and> at_rest a \<and> ba_Text a = ''''
      else if ba_Action a = ''key''
      then ba_Text a \<in> set [''Enter'', ''Tab'', ''Backspace'', ''Escape''] \<and> at_rest a
           \<and> ba_DeltaY a = Fin 0
      else if ba_Action a = ''type''
      then ValidString (ba_Text a) \<and> ba_Text a \<noteq> '''' \<and> RuneCountInString (ba_Text a) \<le> 500
           \<and> at_rest a \<and> ba_DeltaY a = Fin 0
           \<and> list_all (\<lambda>r. \<not> IsControl r) (string_runes (ba_Text a))
      else False)"

definition clearPage :: "(rune \<Rightarrow> rune) \<Rightarrow> string \<Rightarrow> bool" where
  "clearPage ulow text \<longleftrightarrow>
     (let lower = ToLower ulow (TrimSpace text)
      in if length lower = 0 then False
         else if 2000 \<le> length lower then True
         else \<not> list_ex (Contains lower)
                [''verify you are human'', ''verify that you are human'', ''just a moment'',
                 ''sign in to x'', ''log in to x'', ''something went wrong'',
                 ''enable javascript and cookies'', ''access denied'', ''too many requests'',
                 ''subscribe to continue'', ''complete the captcha'', ''solve the captcha'']
              \<and> \<not> (length lower < 600
                    \<and> (Contains lower ''captcha'' \<or> Contains lower ''show more'')))"

definition readable :: "(rune \<Rightarrow> rune) \<Rightarrow> string \<Rightarrow> bool" where
  "readable ulow text \<longleftrightarrow> 300 \<le> length (TrimSpace text) \<and> clearPage ulow text"

definition xhost :: "string \<Rightarrow> bool" where
  "xhost host \<longleftrightarrow> host \<in> set [''x.com'', ''www.x.com'', ''twitter.com'', ''www.twitter.com'',
     ''mobile.twitter.com'']"

fun after_status :: "string list \<Rightarrow> string" where
  "after_status (p # q # ps) = (if p = ''status'' then q else after_status (q # ps))"
| "after_status ps = ''''"

definition x_post :: "go_url \<Rightarrow> string" where
  "x_post u = after_status (Split (Trim (u_Path u) ''/'') (CHR ''/''))"

definition samePage :: "(rune \<Rightarrow> rune) \<Rightarrow> string \<Rightarrow> string \<Rightarrow> bool" where
  "samePage ulow original current \<longleftrightarrow>
     (case (url_Parse original, url_Parse current) of
        (Some a, Some b) \<Rightarrow>
          if xhost (Hostname a) \<and> xhost (Hostname b)
          then x_post a \<noteq> '''' \<and> x_post a = x_post b
          else EqualFold ulow (u_Host a) (u_Host b)
               \<and> TrimSuffix (EscapedPath a) ''/'' = TrimSuffix (EscapedPath b) ''/''
               \<and> u_RawQuery a = u_RawQuery b
      | _ \<Rightarrow> False)"

subsection \<open>Sessions\<close>

datatype phase =
    Opening | LoopHead nat | Observing nat | Working nat browser_frame | Arming nat browser_frame
  | Asking nat | Deciding nat "error + action" | Trying | Acting nat action | Delivering nat
  | Resting nat | HandingOff | FirstLook | Manual string | Sending action | Saving | Relook
  | Ticking string | AutoSaving string | Closing | Leaving | Finished

text \<open>\<open>ac_decision\<close> is the latest decision context, if one was made: whether it is cancelled.
  \<open>ac_cancelled\<close> and \<open>ac_expired\<close> are the two ends of the session's own context, \<open>ac_timeup\<close> the end
  of the 90 seconds of automation. \<open>done\<close> is closed when the phase is \<open>Finished\<close>.\<close>

record active =
  ac_raw :: string
  ac_state :: session
  ac_cancelled :: bool
  ac_expired :: bool
  ac_timeup :: bool
  ac_decision :: "bool option"
  ac_human :: bool
  ac_inputs :: "action list"
  ac_result :: capture_result
  ac_phase :: phase

record manager =
  mg_sessions :: "active list"
  mg_current :: "nat option"
  mg_closed :: bool

definition NewManager :: manager where
  "NewManager = \<lparr>mg_sessions = [], mg_current = None, mg_closed = False\<rparr>"

definition fresh :: "string \<Rightarrow> active" where
  "fresh raw =
     \<lparr>ac_raw = raw,
      ac_state = idle\<lparr>ss_Status := ''starting'', ss_URL := raw,
                      ss_Message := ''Opening the capture browser'' @ ellipsis\<rparr>,
      ac_cancelled = False, ac_expired = False, ac_timeup = False, ac_decision = None,
      ac_human = False, ac_inputs = [], ac_result = zero_capture, ac_phase = Opening\<rparr>"

definition is_done :: "active \<Rightarrow> bool" where
  "is_done a \<longleftrightarrow> ac_phase a = Finished"

definition ended :: "manager \<Rightarrow> active \<Rightarrow> bool" where
  "ended m a \<longleftrightarrow> mg_closed m \<or> ac_cancelled a \<or> ac_expired a"

definition startLocked :: "string \<Rightarrow> bool \<Rightarrow> manager \<Rightarrow> manager \<times> (error + nat)" where
  "startLocked raw retry m =
     (let new = (m\<lparr>mg_sessions := mg_sessions m @ [fresh raw],
                   mg_current := Some (length (mg_sessions m))\<rparr>, Inr (length (mg_sessions m)))
      in case mg_current m of
           None \<Rightarrow> new
         | Some i \<Rightarrow>
             (let a = mg_sessions m ! i
              in if ac_raw a = raw \<and> (\<not> retry \<or> ss_Status (ac_state a) = ''saved'') then (m, Inr i)
                 else if \<not> is_done a then (m, if ac_raw a \<noteq> raw then Inl ErrBusy else Inr i)
                 else new))"

definition State :: "string \<Rightarrow> manager \<Rightarrow> session" where
  "State raw m =
     (case mg_current m of
        None \<Rightarrow> idle
      | Some i \<Rightarrow> if ac_raw (mg_sessions m ! i) \<noteq> raw then idle else ac_state (mg_sessions m ! i))"

text \<open>What a user's action does to a session that is not done: the model is stopped, and the action
  goes to the queue of 16.\<close>

definition take_over :: "active \<Rightarrow> active" where
  "take_over a =
     a\<lparr>ac_human := True, ac_decision := map_option (\<lambda>_. True) (ac_decision a),
       ac_state := (ac_state a)\<lparr>ss_Status := ''needs_input'', ss_Message :=
         ''You control this browser. Complete verification; Attic will save the readable page.''\<rparr>\<rparr>"

definition closed_session :: "active \<Rightarrow> active" where
  "closed_session a =
     a\<lparr>ac_cancelled := True, ac_state := (ac_state a)\<lparr>ss_Status := ''idle'', ss_Screenshot := '''',
         ss_Message := ''Browser closed. Its session is retained.''\<rparr>\<rparr>"

definition steer :: "action \<Rightarrow> active \<Rightarrow> active \<times> error option" where
  "steer act a =
     (let a = take_over a
      in if ba_Action act = ''takeover'' then (a, None)
         else if 16 \<le> length (ac_inputs a) then (a, Some ErrBusy)
         else (a\<lparr>ac_inputs := ac_inputs a @ [act]\<rparr>, None))"

definition put_session :: "nat \<Rightarrow> active \<Rightarrow> manager \<Rightarrow> manager" where
  "put_session i a m = m\<lparr>mg_sessions := (mg_sessions m)[i := a]\<rparr>"

definition zero_session :: session where
  "zero_session = \<lparr>ss_Status = '''', ss_URL = '''', ss_Title = '''', ss_Message = '''',
     ss_Width = 0, ss_Height = 0, ss_Screenshot = ''''\<rparr>"

definition Command ::
  "string \<Rightarrow> action \<Rightarrow> manager \<Rightarrow> manager \<times> session \<times> error option" where
  "Command raw act m =
     (if \<not> validAction act then (m, zero_session, Some ErrInput)
      else if ba_Action act = ''start'' then
        (case startLocked raw True m of
           (m', Inl e) \<Rightarrow> (m', zero_session, Some e)
         | (m', Inr i) \<Rightarrow> (m', ac_state (mg_sessions m' ! i), None))
      else
        (case mg_current m of
           None \<Rightarrow> (m, idle, Some ErrInput)
         | Some i \<Rightarrow>
             (let a = mg_sessions m ! i
              in if ac_raw a \<noteq> raw then (m, idle, Some ErrInput)
                 else if ba_Action act = ''close'' then
                   (put_session i (closed_session a) m, ac_state (closed_session a), None)
                 else if is_done a then (m, ac_state a, Some ErrInput)
                 else (case steer act a of
                         (a', e) \<Rightarrow> (put_session i a' m, ac_state a', e)))))"

definition begin_session :: "string \<Rightarrow> manager \<Rightarrow> manager \<times> (error + nat)" where
  "begin_session raw m = startLocked raw False m"

subsection \<open>Saving a page\<close>

text \<open>The HTML library and MIME readers of the conversion, whether a model and a store are set.\<close>

record recovery_lib =
  rv_lower :: "rune \<Rightarrow> rune"
  rv_static :: static_lib
  rv_model :: bool
  rv_save :: bool

definition update_state :: "(session \<Rightarrow> session) \<Rightarrow> active \<Rightarrow> active" where
  "update_state f a =
     (if ss_Status (ac_state a) \<noteq> ''idle'' then a\<lparr>ac_state := f (ac_state a)\<rparr> else a)"

definition say :: "string \<Rightarrow> active \<Rightarrow> active" where
  "say message = update_state (\<lambda>s. s\<lparr>ss_Message := message\<rparr>)"

definition png_url :: "string \<Rightarrow> string" where
  "png_url shot = ''data:image/png;base64,'' @ b64_encode StdEncoding True (map byte shot)"

definition observe :: "error + browser_frame \<Rightarrow> active \<Rightarrow> active" where
  "observe r a =
     (case r of
        Inl e \<Rightarrow> a
      | Inr f \<Rightarrow> update_state (\<lambda>s. s\<lparr>ss_URL := fr_URL f, ss_Title := fr_Title f,
                    ss_Screenshot := png_url (fr_Screenshot f)\<rparr>) a)"

text \<open>The decision of \<open>capture\<close>: the result to save, or a failure with the message it leaves.\<close>

definition judge_capture ::
  "recovery_lib \<Rightarrow> bool \<Rightarrow> string \<Rightarrow> error + browser_frame \<Rightarrow> error + rendered_page
     \<Rightarrow> string option + capture_result" where
  "judge_capture lib explicit raw seen snapshot =
     (let incomplete = Inl (Some ''This is still a blocked or incomplete page. Complete verification before saving.'')
      in case seen of
           Inl e \<Rightarrow> incomplete
         | Inr frame \<Rightarrow>
             if \<not> clearPage (rv_lower lib) (fr_Text frame)
                \<or> (\<not> explicit \<and> \<not> readable (rv_lower lib) (fr_Text frame)) then incomplete
             else
     (case snapshot of
        Inl e \<Rightarrow> Inl None
      | Inr page \<Rightarrow>
          if rn_FinalURL page \<noteq> fr_URL frame then Inl None
          else if \<not> explicit \<and> \<not> samePage (rv_lower lib) raw (rn_FinalURL page) then
            Inl (Some ''The browser opened a different address. Check the page, then choose Save page to preserve it.'')
          else
     (let still_blocked = Inl (Some ''This is still a blocked page. Complete verification before saving.'')
      in case FromPage (rv_lower lib) (rv_static lib) page of
           Inl e \<Rightarrow> still_blocked
         | Inr result \<Rightarrow>
             if cap_Status result = ''blocked'' \<or> TrimSpace (cap_PlainText result) = ''''
             then still_blocked
             else if length (TrimSpace (cap_PlainText result))
                     < min 300 (length (TrimSpace (fr_Text frame)) div 4) then
               Inl (Some ''The browser copy lost visible article text. Try again or save with the extension.'')
             else Inr (result\<lparr>cap_OriginalURL := raw\<rparr>))))"

text \<open>What happens outside: calls of the model, inputs to the browser (of the model on a context
  that still lives, or of the user), saved results, opened and closed browsers.\<close>

datatype effect =
    AskedModel browser_input | ModelInput action bool | UserInput action
  | SavedPage bool capture_result | OpenedBrowser | ClosedBrowser

text \<open>\<open>capture\<close> with the answers of the browser and of the store.\<close>

definition capture_session ::
  "recovery_lib \<Rightarrow> bool \<Rightarrow> error + browser_frame \<Rightarrow> error + rendered_page \<Rightarrow> error option
     \<Rightarrow> active \<Rightarrow> bool \<times> active \<times> effect list" where
  "capture_session lib explicit seen snapshot stored a =
     (case judge_capture lib explicit (ac_raw a) seen snapshot of
        Inl None \<Rightarrow> (False, a, [])
      | Inl (Some message) \<Rightarrow> (False, say message a, [])
      | Inr result \<Rightarrow>
          if rv_save lib \<and> stored \<noteq> None
          then (False, say ''The page opened, but saving failed. Try Save page again.'' a, [])
          else (True, update_state (\<lambda>s. s\<lparr>ss_Status := ''saved'', ss_Screenshot := '''',
                        ss_Message := ''Page preserved. Any failed document request will resume.''\<rparr>)
                  (a\<lparr>ac_result := result\<rparr>), [SavedPage explicit result]))"

subsection \<open>The goroutine of a session\<close>

datatype answer =
    Proceed | Opened "error option" | Framed "error + browser_frame" | Answered "error + action"
  | Delivered "error option" | Captured "error + browser_frame" "error + rendered_page" "error option"
  | Waited | Ended | Received | Ticked

definition goto :: "phase \<Rightarrow> active \<Rightarrow> active" where
  "goto p a = a\<lparr>ac_phase := p\<rparr>"

definition hand_off :: "active \<Rightarrow> active" where
  "hand_off a = update_state (\<lambda>s. s\<lparr>ss_Status := ''needs_input'', ss_Message :=
       ''Verification needs your help. Take control here; the readable page will be saved automatically.''\<rparr>)
     (a\<lparr>ac_human := True\<rparr>)"

definition model_input :: "nat \<Rightarrow> browser_frame \<Rightarrow> browser_input" where
  "model_input step f = \<lparr>bi_URL = fr_URL f, bi_ScreenshotDataURL = png_url (fr_Screenshot f),
     bi_Text = fr_Text f, bi_Step = int step\<rparr>"

text \<open>After the model answered.\<close>

definition decide :: "nat \<Rightarrow> error + action \<Rightarrow> active \<Rightarrow> phase" where
  "decide step r a =
     (if ac_human a then HandingOff
      else case r of
        Inl e \<Rightarrow> HandingOff
      | Inr act \<Rightarrow>
          if ba_Action act = ''done'' then Trying
          else if ba_Action act = ''handoff'' then HandingOff
          else if ba_Action act \<noteq> ''wait'' \<and> \<not> validAction act then HandingOff
          else Acting step act)"

text \<open>A phase that ends in \<open>capture\<close>: where it goes on when nothing was saved.\<close>

fun capture_phase :: "phase \<Rightarrow> (bool \<times> phase) option" where
  "capture_phase Trying = Some (False, HandingOff)"
| "capture_phase Saving = Some (True, Relook)"
| "capture_phase (AutoSaving seen) = Some (False, Manual seen)"
| "capture_phase _ = None"

definition try_capture ::
  "recovery_lib \<Rightarrow> answer \<Rightarrow> active \<Rightarrow> (active \<times> effect list) option" where
  "try_capture lib ans a =
     (case (capture_phase (ac_phase a), ans) of
        (Some (explicit, next), Captured seen snapshot stored) \<Rightarrow>
          (case capture_session lib explicit seen snapshot stored a of
             (saved, a', es) \<Rightarrow> Some (goto (if saved then Closing else next) a', es))
      | _ \<Rightarrow> None)"

text \<open>The loop of the model; \<open>over\<close> is the end of the session's context.\<close>

definition loop_head :: "bool \<Rightarrow> nat \<Rightarrow> active \<Rightarrow> phase" where
  "loop_head over k a =
     (if k < 4 \<and> \<not> ac_human a \<and> \<not> over \<and> \<not> ac_timeup a then Observing k else HandingOff)"

definition arm :: "nat \<Rightarrow> browser_frame \<Rightarrow> active \<Rightarrow> active \<times> effect list" where
  "arm k f a =
     (if ac_human a then (goto HandingOff (a\<lparr>ac_decision := Some True\<rparr>), [])
      else (goto (Asking k) (a\<lparr>ac_decision := Some False\<rparr>), [AskedModel (model_input k f)]))"

definition automatic_step ::
  "recovery_lib \<Rightarrow> bool \<Rightarrow> answer \<Rightarrow> active \<Rightarrow> (active \<times> effect list) option" where
  "automatic_step lib over ans a =
     (case ac_phase a of
        Opening \<Rightarrow>
          (case ans of
             Opened None \<Rightarrow> Some (goto (LoopHead 0) a, [OpenedBrowser])
           | Opened (Some e) \<Rightarrow>
               Some (goto Leaving (update_state (\<lambda>s. s\<lparr>ss_Status := ''failed'',
                 ss_Message := ''The capture browser could not start. Try again.''\<rparr>) a), [])
           | _ \<Rightarrow> None)
      | LoopHead k \<Rightarrow>
          (case ans of Proceed \<Rightarrow> Some (goto (loop_head over k a) a, []) | _ \<Rightarrow> None)
      | Observing k \<Rightarrow>
          (case ans of
             Framed (Inl e) \<Rightarrow> Some (goto HandingOff a, [])
           | Framed (Inr f) \<Rightarrow> Some (goto (Working k f) (observe (Inr f) a), [])
           | _ \<Rightarrow> None)
      | Working k f \<Rightarrow>
          (case ans of
             Proceed \<Rightarrow>
               Some (goto (if rv_model lib then Arming k f else HandingOff)
                 (update_state (\<lambda>s. s\<lparr>ss_Status := ''working'',
                    ss_Message := ''Trying to recover the page'' @ ellipsis\<rparr>) a), [])
           | _ \<Rightarrow> None)
      | Arming k f \<Rightarrow> (case ans of Proceed \<Rightarrow> Some (arm k f a) | _ \<Rightarrow> None)
      | Asking k \<Rightarrow> (case ans of Answered r \<Rightarrow> Some (goto (Deciding k r) a, []) | _ \<Rightarrow> None)
      | Deciding k r \<Rightarrow> (case ans of Proceed \<Rightarrow> Some (goto (decide k r a) a, []) | _ \<Rightarrow> None)
      | Acting k act \<Rightarrow>
          (case ans of
             Proceed \<Rightarrow>
               Some (goto (Delivering k) a,
                 [ModelInput act (ac_decision a \<noteq> Some True \<and> \<not> over \<and> \<not> ac_timeup a)])
           | _ \<Rightarrow> None)
      | Delivering k \<Rightarrow>
          (case ans of
             Delivered e \<Rightarrow> Some (goto (if e = None then Resting k else HandingOff) a, [])
           | _ \<Rightarrow> None)
      | Resting k \<Rightarrow>
          (case ans of
             Waited \<Rightarrow> Some (goto (LoopHead (Suc k)) a, [])
           | Ended \<Rightarrow> if over then Some (goto Closing a, []) else None
           | _ \<Rightarrow> None)
      | HandingOff \<Rightarrow> (case ans of Proceed \<Rightarrow> Some (goto FirstLook (hand_off a), []) | _ \<Rightarrow> None)
      | _ \<Rightarrow> None)"

text \<open>The loop of the user, and the deferred calls.\<close>

definition receive :: "active \<Rightarrow> (active \<times> effect list) option" where
  "receive a =
     (case ac_inputs a of
        [] \<Rightarrow> None
      | act # rest \<Rightarrow>
          Some (goto (if ba_Action act = ''capture'' then Saving else Sending act)
            (a\<lparr>ac_inputs := rest\<rparr>), []))"

definition after_tick :: "(rune \<Rightarrow> rune) \<Rightarrow> string \<Rightarrow> error + browser_frame \<Rightarrow> phase" where
  "after_tick ulow previous r =
     (case r of
        Inl e \<Rightarrow> Manual previous
      | Inr f \<Rightarrow> if readable ulow (fr_Text f) \<and> fr_Text f = previous
                 then AutoSaving (fr_Text f) else Manual (fr_Text f))"

definition leave :: "bool \<Rightarrow> active \<Rightarrow> active" where
  "leave over a = goto Finished
     (if over then update_state (\<lambda>s. s\<lparr>ss_Status := ''failed'', ss_Screenshot := '''',
         ss_Message := ''Capture browser expired. Start again to reuse its stored session.''\<rparr>) a
      else a)"

definition manual_step ::
  "recovery_lib \<Rightarrow> bool \<Rightarrow> answer \<Rightarrow> active \<Rightarrow> (active \<times> effect list) option" where
  "manual_step lib over ans a =
     (case ac_phase a of
        FirstLook \<Rightarrow>
          (case ans of Framed r \<Rightarrow> Some (goto (Manual '''') (observe r a), []) | _ \<Rightarrow> None)
      | Manual previous \<Rightarrow>
          (case ans of
             Ended \<Rightarrow> if over then Some (goto Closing a, []) else None
           | Received \<Rightarrow> receive a
           | Ticked \<Rightarrow> Some (goto (Ticking previous) a, [])
           | _ \<Rightarrow> None)
      | Sending act \<Rightarrow>
          (case ans of
             Delivered e \<Rightarrow>
               Some (goto Relook
                   (if e = None then a else say ''That browser action failed. Try again.'' a),
                 [UserInput act])
           | _ \<Rightarrow> None)
      | Relook \<Rightarrow>
          (case ans of Framed r \<Rightarrow> Some (goto (Manual '''') (observe r a), []) | _ \<Rightarrow> None)
      | Ticking previous \<Rightarrow>
          (case ans of
             Framed r \<Rightarrow> Some (goto (after_tick (rv_lower lib) previous r) (observe r a), [])
           | _ \<Rightarrow> None)
      | Closing \<Rightarrow> (case ans of Proceed \<Rightarrow> Some (goto Leaving a, [ClosedBrowser]) | _ \<Rightarrow> None)
      | Leaving \<Rightarrow> (case ans of Proceed \<Rightarrow> Some (leave over a, []) | _ \<Rightarrow> None)
      | _ \<Rightarrow> None)"

text \<open>At most one of the three knows the phase.\<close>

definition run_step ::
  "recovery_lib \<Rightarrow> bool \<Rightarrow> answer \<Rightarrow> active \<Rightarrow> (active \<times> effect list) option" where
  "run_step lib over ans a =
     (case try_capture lib ans a of
        Some r \<Rightarrow> Some r
      | None \<Rightarrow>
          (case automatic_step lib over ans a of
             Some r \<Rightarrow> Some r | None \<Rightarrow> manual_step lib over ans a))"

subsection \<open>The manager\<close>

text \<open>What can happen next: a command, a call of \<open>Recover\<close> that joins or starts a session, a step
  of a session, the end of its 15 minutes or of its 90 seconds, the end of the manager.\<close>

datatype stimulus =
    Commands string action | Joins string | Runs nat answer | Expires nat | TimesUp nat | Shuts

definition change_session :: "nat \<Rightarrow> (active \<Rightarrow> active) \<Rightarrow> manager \<Rightarrow> manager" where
  "change_session i f m = put_session i (f (mg_sessions m ! i)) m"

definition run_session ::
  "recovery_lib \<Rightarrow> nat \<Rightarrow> answer \<Rightarrow> manager \<Rightarrow> (manager \<times> (nat \<times> effect) list) option" where
  "run_session lib i ans m =
     (if length (mg_sessions m) \<le> i then None
      else
        (let a = mg_sessions m ! i
         in case run_step lib (ended m a) ans a of
              None \<Rightarrow> None
            | Some (a', es) \<Rightarrow> Some (put_session i a' m, map (Pair i) es)))"

definition manager_step ::
  "recovery_lib \<Rightarrow> stimulus \<Rightarrow> manager \<Rightarrow> (manager \<times> (nat \<times> effect) list) option" where
  "manager_step lib st m =
     (case st of
        Commands raw act \<Rightarrow> Some (fst (Command raw act m), [])
      | Joins raw \<Rightarrow> Some (fst (begin_session raw m), [])
      | Runs i ans \<Rightarrow> run_session lib i ans m
      | Expires i \<Rightarrow> Some (change_session i (\<lambda>a. a\<lparr>ac_expired := True\<rparr>) m, [])
      | TimesUp i \<Rightarrow> Some (change_session i (\<lambda>a. a\<lparr>ac_timeup := True\<rparr>) m, [])
      | Shuts \<Rightarrow> Some (m\<lparr>mg_closed := True\<rparr>, []))"

text \<open>Runs of the manager with what they do outside.\<close>

inductive manager_run ::
  "recovery_lib \<Rightarrow> manager \<Rightarrow> (nat \<times> effect) list \<Rightarrow> manager \<Rightarrow> bool" for lib where
  start: "manager_run lib m [] m"
| more: "manager_run lib m es m1 \<Longrightarrow> manager_step lib st m1 = Some (m2, fs)
    \<Longrightarrow> manager_run lib m (es @ fs) m2"

subsection \<open>Waiting for a page\<close>

text \<open>\<open>Recover\<close>: each turn of its loop reads the session, then one of the channels is ready.\<close>

datatype wake = ContextDone error | DeadlineOver | SessionDone capture_result | TimerTick

definition poll :: "active \<Rightarrow> (error + capture_result) option" where
  "poll a =
     (if cap_HTML (ac_result a) \<noteq> '''' then Some (Inr (ac_result a))
      else if ss_Status (ac_state a) = ''needs_input'' then Some (Inl ErrNeedsInput) else None)"

fun wait_for_page :: "(active \<times> wake) list \<Rightarrow> (error + capture_result) option" where
  "wait_for_page [] = None"
| "wait_for_page ((a, w) # turns) =
     (case poll a of
        Some r \<Rightarrow> Some r
      | None \<Rightarrow>
          (case w of
             ContextDone e \<Rightarrow> Some (Inl e)
           | DeadlineOver \<Rightarrow> Some (Inl ErrTimeout)
           | SessionDone saved \<Rightarrow>
               Some (if cap_HTML saved \<noteq> '''' then Inr saved else Inl ErrUnavailable)
           | TimerTick \<Rightarrow> wait_for_page turns))"

text \<open>The context at the call, and the turns as a function of the session that was joined. \<open>None\<close>
  is a call that still waits.\<close>

definition Recover ::
  "error option \<Rightarrow> string \<Rightarrow> (nat \<Rightarrow> (active \<times> wake) list) \<Rightarrow> manager
     \<Rightarrow> manager \<times> (error + capture_result) option" where
  "Recover ctx raw turns m =
     (case ctx of
        Some e \<Rightarrow> (m, Some (Inl e))
      | None \<Rightarrow>
          (case begin_session raw m of
             (m', Inl e) \<Rightarrow> (m', Some (Inl e))
           | (m', Inr i) \<Rightarrow> (m', wait_for_page (turns i))))"

text \<open>\<open>Capturer.Capture\<close> over the result and the error of the ordinary capture; the context is read
  before and after the recovery.\<close>

definition needs_recovery :: "capture_result \<times> error option \<Rightarrow> bool" where
  "needs_recovery base =
     (snd base \<noteq> None \<or> cap_Status (fst base) = ''blocked''
      \<or> list_ex (\<lambda>m. Contains m ''truncated'') (cap_MissingResources (fst base)))"

definition capturer_Capture ::
  "error option \<Rightarrow> error option \<Rightarrow> capture_result \<times> error option \<Rightarrow> error + capture_result
     \<Rightarrow> capture_result \<times> error option" where
  "capturer_Capture before after base recovered =
     (if \<not> needs_recovery base \<or> before \<noteq> None then base
      else case recovered of
             Inr saved \<Rightarrow> (saved, None)
           | Inl e \<Rightarrow> if after \<noteq> None then (fst base, after) else base)"

text \<open>\<open>PageRecovery.Recover\<close>.\<close>

definition page_Recover ::
  "(string \<Rightarrow> string \<Rightarrow> error + rendered_page) \<Rightarrow> error + capture_result \<Rightarrow> error + rendered_page" where
  "page_Recover render_saved recovered =
     (case recovered of
        Inl e \<Rightarrow> Inl e
      | Inr saved \<Rightarrow> render_saved (cap_FinalURL saved) (cap_HTML saved))"

end
