(* ===== verification/Recovery_Properties.thy ===== *)
theory Recovery_Properties
  imports Recovery Static_Properties
begin

section \<open>Properties of recovery\<close>

text \<open>
  One lemma per property of a step of a session, lifted to runs of the manager: what is saved, who
  steers the browser, how often the model is asked and how many browsers are open.
\<close>

subsection \<open>Steps\<close>

lemmas step_defs = run_step_def try_capture_def automatic_step_def manual_step_def receive_def
  arm_def goto_def

lemma update_state_fields [simp]:
  "ac_raw (update_state f a) = ac_raw a" "ac_human (update_state f a) = ac_human a"
  "ac_decision (update_state f a) = ac_decision a" "ac_inputs (update_state f a) = ac_inputs a"
  "ac_result (update_state f a) = ac_result a" "ac_phase (update_state f a) = ac_phase a"
  by (simp_all add: update_state_def)

lemma observe_fields [simp]:
  "ac_raw (observe r a) = ac_raw a" "ac_human (observe r a) = ac_human a"
  "ac_decision (observe r a) = ac_decision a" "ac_inputs (observe r a) = ac_inputs a"
  "ac_result (observe r a) = ac_result a" "ac_phase (observe r a) = ac_phase a"
  by (simp_all add: observe_def split: sum.splits)

lemma say_fields [simp]:
  "ac_raw (say msg a) = ac_raw a" "ac_human (say msg a) = ac_human a"
  "ac_decision (say msg a) = ac_decision a" "ac_inputs (say msg a) = ac_inputs a"
  "ac_result (say msg a) = ac_result a" "ac_phase (say msg a) = ac_phase a"
  by (simp_all add: say_def)

lemma hand_off_fields [simp]:
  "ac_raw (hand_off a) = ac_raw a" "ac_human (hand_off a)"
  "ac_decision (hand_off a) = ac_decision a" "ac_inputs (hand_off a) = ac_inputs a"
  "ac_result (hand_off a) = ac_result a"
  by (simp_all add: hand_off_def)

lemma leave_fields [simp]:
  "ac_raw (leave over a) = ac_raw a" "ac_human (leave over a) = ac_human a"
  "ac_decision (leave over a) = ac_decision a" "ac_inputs (leave over a) = ac_inputs a"
  "ac_result (leave over a) = ac_result a" "ac_phase (leave over a) = Finished"
  by (simp_all add: leave_def goto_def)

lemma capture_session_fields:
  assumes "capture_session lib explicit seen snapshot stored a = (saved, a', es)"
  shows "ac_raw a' = ac_raw a" "ac_human a' = ac_human a" "ac_decision a' = ac_decision a"
    "ac_inputs a' = ac_inputs a"
    "(\<not> saved \<and> es = [] \<and> ac_result a' = ac_result a)
     \<or> (saved \<and> es = [SavedPage explicit (ac_result a')]
        \<and> judge_capture lib explicit (ac_raw a) seen snapshot = Inr (ac_result a'))"
  using assms by (auto simp: capture_session_def split: sum.splits option.splits if_splits)

text \<open>A step of a session is a capture, or it changes no result and saves nothing.\<close>

lemma run_step_saves:
  assumes "run_step lib over ans a = Some (a', es)"
  shows "ac_raw a' = ac_raw a
    \<and> ((ac_result a' = ac_result a \<and> (\<forall>explicit r. SavedPage explicit r \<notin> set es))
       \<or> (\<exists>explicit seen snapshot. es = [SavedPage explicit (ac_result a')]
            \<and> judge_capture lib explicit (ac_raw a) seen snapshot = Inr (ac_result a')))"
proof (cases "try_capture lib ans a")
  case None
  then show ?thesis
    using assms
    by (cases "ac_phase a") (auto simp: step_defs split: answer.splits option.splits sum.splits
        if_splits list.splits)
next
  case (Some r)
  then obtain explicit next_phase seen snapshot stored saved a1 where
    c: "capture_session lib explicit seen snapshot stored a = (saved, a1, es)"
    "a' = goto (if saved then Closing else next_phase) a1"
    using assms by (auto simp: run_step_def try_capture_def split: answer.splits option.splits prod.splits)
  show ?thesis
    using capture_session_fields [OF c(1)] unfolding c(2) goto_def by auto
qed

text \<open>The phases in which a decision of the model is under way, and how many questions are left.\<close>

fun model_phase :: "phase \<Rightarrow> bool" where
  "model_phase (Asking k) = True"
| "model_phase (Deciding k r) = True"
| "model_phase (Acting k act) = True"
| "model_phase (Delivering k) = True"
| "model_phase _ = False"

fun questions_left :: "phase \<Rightarrow> nat" where
  "questions_left Opening = 4"
| "questions_left (LoopHead k) = 4 - k"
| "questions_left (Observing k) = 4 - k"
| "questions_left (Working k f) = 4 - k"
| "questions_left (Arming k f) = 4 - k"
| "questions_left (Asking k) = 3 - k"
| "questions_left (Deciding k r) = 3 - k"
| "questions_left (Acting k act) = 3 - k"
| "questions_left (Delivering k) = 3 - k"
| "questions_left (Resting k) = 3 - k"
| "questions_left _ = 0"

fun in_turn :: "phase \<Rightarrow> bool" where
  "in_turn (Observing k) = (k < 4)"
| "in_turn (Working k f) = (k < 4)"
| "in_turn (Arming k f) = (k < 4)"
| "in_turn _ = True"

definition has_browser :: "active \<Rightarrow> bool" where
  "has_browser a \<longleftrightarrow> ac_phase a \<notin> {Opening, Leaving, Finished}"

definition session_inv :: "active \<Rightarrow> bool" where
  "session_inv a \<longleftrightarrow>
     (model_phase (ac_phase a) \<longrightarrow>
        ac_decision a \<noteq> None \<and> (ac_human a \<longrightarrow> ac_decision a = Some True))
     \<and> in_turn (ac_phase a) \<and> length (ac_inputs a) \<le> 16"

definition is_question :: "effect \<Rightarrow> bool" where
  "is_question e \<longleftrightarrow> (\<exists>i. e = AskedModel i)"

definition of_model :: "effect \<Rightarrow> bool" where
  "of_model e \<longleftrightarrow> (\<exists>i. e = AskedModel i) \<or> (\<exists>act. e = ModelInput act True)"

definition count_of :: "('a \<Rightarrow> bool) \<Rightarrow> 'a list \<Rightarrow> nat" where
  "count_of p xs = length (filter p xs)"

lemma count_of_simps [simp]:
  "count_of p [] = 0" "count_of p (x # xs) = of_bool (p x) + count_of p xs"
  "count_of p (xs @ ys) = count_of p xs + count_of p ys"
  by (simp_all add: count_of_def)

lemma in_turn_decide [simp]: "in_turn (decide k r a)"
  "questions_left (decide k r a) \<le> 3 - k" "decide k r a \<notin> {Opening, Leaving, Finished}"
  "\<not> model_phase (decide k r a) \<or> \<not> ac_human a"
  by (auto simp: decide_def split: sum.splits)

lemma loop_head_facts [simp]:
  "in_turn (loop_head over k a)" "questions_left (loop_head over k a) \<le> 4 - k"
  "loop_head over k a \<notin> {Opening, Leaving, Finished}" "\<not> model_phase (loop_head over k a)"
  by (auto simp: loop_head_def)

lemma after_tick_facts [simp]:
  "in_turn (after_tick ulow prev r)" "questions_left (after_tick ulow prev r) = 0"
  "after_tick ulow prev r \<notin> {Opening, Leaving, Finished}" "\<not> model_phase (after_tick ulow prev r)"
  by (auto simp: after_tick_def split: sum.splits)

lemma capture_phase_facts:
  assumes "capture_phase p = Some (explicit, q)"
  shows "in_turn q" "questions_left q = 0" "questions_left p = 0" "\<not> model_phase q"
    "p \<notin> {Opening, Leaving, Finished}" "q \<notin> {Opening, Leaving, Finished}"
  using assms by (cases p; auto)+

lemma run_step_inv:
  assumes "run_step lib over ans a = Some (a', es)" and "session_inv a"
  shows "session_inv a' \<and> (ac_human a \<longrightarrow> ac_human a' \<and> (\<forall>e \<in> set es. \<not> of_model e))
    \<and> count_of is_question es + questions_left (ac_phase a') \<le> questions_left (ac_phase a)
    \<and> count_of ((=) OpenedBrowser) es + of_bool (has_browser a)
        = count_of ((=) ClosedBrowser) es + (of_bool (has_browser a') :: nat)"
proof (cases "try_capture lib ans a")
  case None
  show ?thesis
  proof (cases "ac_phase a")
    case (Deciding k r)
    then show ?thesis
      using None assms in_turn_decide [of k r a]
      by (auto simp: step_defs session_inv_def has_browser_def split: answer.splits)
  next
    case (LoopHead k)
    then show ?thesis
      using None assms loop_head_facts [of over k a]
      by (auto simp: step_defs session_inv_def has_browser_def split: answer.splits)
  next
    case (Ticking prev)
    then show ?thesis
      using None assms after_tick_facts
      by (auto simp: step_defs session_inv_def has_browser_def split: answer.splits)
  qed (use None assms in \<open>auto simp: step_defs session_inv_def has_browser_def is_question_def
         of_model_def split: answer.splits option.splits sum.splits if_splits list.splits\<close>)
next
  case (Some r)
  then obtain explicit q seen snapshot stored saved a1 where
    p: "capture_phase (ac_phase a) = Some (explicit, q)" and
    c: "capture_session lib explicit seen snapshot stored a = (saved, a1, es)"
      "a' = goto (if saved then Closing else q) a1"
    using assms(1) by (auto simp: run_step_def try_capture_def split: answer.splits option.splits prod.splits)
  show ?thesis
    using capture_session_fields [OF c(1)] capture_phase_facts [OF p] assms(2) unfolding c(2) goto_def
    by (auto simp: session_inv_def has_browser_def is_question_def of_model_def)
qed

subsection \<open>Runs of the manager\<close>

text \<open>A change of a session that is no step of its goroutine.\<close>

definition nudged :: "active \<Rightarrow> active \<Rightarrow> bool" where
  "nudged a a' \<longleftrightarrow> ac_raw a' = ac_raw a \<and> ac_result a' = ac_result a \<and> ac_phase a' = ac_phase a
     \<and> (session_inv a \<longrightarrow> session_inv a') \<and> (ac_human a \<longrightarrow> ac_human a')"

text \<open>What a step of the manager does to its sessions.\<close>

inductive manager_change ::
  "recovery_lib \<Rightarrow> manager \<Rightarrow> (nat \<times> effect) list \<Rightarrow> manager \<Rightarrow> bool" for lib m where
  kept: "mg_sessions m' = mg_sessions m \<Longrightarrow> mg_current m' = mg_current m \<Longrightarrow>
     manager_change lib m [] m'"
| started: "mg_sessions m' = mg_sessions m @ [fresh raw] \<Longrightarrow>
     mg_current m' = Some (length (mg_sessions m)) \<Longrightarrow>
     (\<And>i. mg_current m = Some i \<Longrightarrow> is_done (mg_sessions m ! i)) \<Longrightarrow> manager_change lib m [] m'"
| nudge: "i < length (mg_sessions m) \<Longrightarrow> mg_sessions m' = (mg_sessions m)[i := a'] \<Longrightarrow>
     mg_current m' = mg_current m \<Longrightarrow> nudged (mg_sessions m ! i) a' \<Longrightarrow> manager_change lib m [] m'"
| ran: "i < length (mg_sessions m) \<Longrightarrow> mg_sessions m' = (mg_sessions m)[i := a'] \<Longrightarrow>
     mg_current m' = mg_current m \<Longrightarrow> run_step lib over ans (mg_sessions m ! i) = Some (a', es) \<Longrightarrow>
     manager_change lib m (map (Pair i) es) m'"

lemma startLocked_change:
  assumes "startLocked raw retry m = (m', r)"
  shows "manager_change lib m [] m'"
proof (cases "m' = m")
  case True
  then show ?thesis by (simp add: manager_change.kept)
next
  case False
  then show ?thesis
    using assms
    by (intro manager_change.started [of m' m raw])
       (auto simp: startLocked_def Let_def split: option.splits if_splits)
qed

lemma put_session_change:
  assumes "nudged (mg_sessions m ! i) a'"
  shows "manager_change lib m [] (put_session i a' m)"
proof (cases "i < length (mg_sessions m)")
  case True
  then show ?thesis using assms by (intro manager_change.nudge [of i]) (simp_all add: put_session_def)
next
  case False
  then show ?thesis
    by (intro manager_change.kept) (simp_all add: put_session_def list_update_beyond)
qed

lemma nudged_simps [simp]:
  "nudged a (closed_session a)" "nudged a (fst (steer act a))"
  "nudged a (a\<lparr>ac_expired := b\<rparr>)" "nudged a (a\<lparr>ac_timeup := b\<rparr>)"
  by (auto simp: nudged_def closed_session_def steer_def take_over_def session_inv_def Let_def)

lemma Command_change: "manager_change lib m [] (fst (Command raw act m))"
proof (cases "validAction act \<and> ba_Action act = ''start''")
  case True
  obtain m' r where s: "startLocked raw True m = (m', r)" by fastforce
  then show ?thesis
    using True startLocked_change [OF s] by (cases r) (simp_all add: Command_def)
next
  case False
  have steer: "manager_change lib m [] (put_session i (fst (steer act (mg_sessions m ! i))) m)" for i
    by (intro put_session_change) simp
  have closed: "manager_change lib m [] (put_session i (closed_session (mg_sessions m ! i)) m)" for i
    by (intro put_session_change) simp
  show ?thesis
    using False steer closed
    by (auto simp: Command_def Let_def split_beta manager_change.kept split: option.splits)
qed

lemma manager_step_change:
  assumes "manager_step lib st m = Some (m', fs)"
  shows "manager_change lib m fs m'"
proof (cases st)
  case (Joins raw)
  obtain m1 r where s: "startLocked raw False m = (m1, r)" by fastforce
  then show ?thesis
    using assms Joins startLocked_change [OF s] by (simp add: manager_step_def begin_session_def)
next
  case (Runs i ans)
  then show ?thesis
    using assms
    by (auto simp: manager_step_def run_session_def Let_def put_session_def
        split: if_splits option.splits intro!: manager_change.ran [of i])
qed (use assms in \<open>auto simp: manager_step_def change_session_def Command_change
       intro: put_session_change manager_change.kept\<close>)

text \<open>The invariant: only the last session is alive, its questions and its browser are accounted
  for, and what was saved was judged.\<close>

definition last_alive :: "manager \<Rightarrow> bool" where
  "last_alive m \<longleftrightarrow>
     mg_current m = (if mg_sessions m = [] then None else Some (length (mg_sessions m) - 1))
     \<and> (\<forall>i < length (mg_sessions m) - 1. is_done (mg_sessions m ! i))"

lemma last_alive_change:
  assumes "manager_change lib m fs m'" and "last_alive m"
  shows "last_alive m'"
  using assms(1)
proof cases
  case (started raw)
  then show ?thesis
    using assms(2) by (auto simp: last_alive_def nth_append less_Suc_eq split: if_splits)
       (metis One_nat_def Suc_pred diff_Suc_1 length_greater_0_conv less_antisym)
next
  case (nudge i a')
  then show ?thesis
    using assms(2) by (auto simp: last_alive_def nth_list_update nudged_def is_done_def)
next
  case (ran i a' over ans es)
  have "is_done a'" if "is_done (mg_sessions m ! i)"
    using ran(5) that by (auto simp: step_defs is_done_def split: answer.splits)
  then show ?thesis
    using ran assms(2) by (auto simp: last_alive_def nth_list_update)
qed (use assms in \<open>simp add: last_alive_def\<close>)

definition counted :: "nat \<Rightarrow> nat \<times> effect \<Rightarrow> bool" where
  "counted i e \<longleftrightarrow> fst e = i \<and> is_question (snd e)"

definition questions_ok :: "(nat \<times> effect) list \<Rightarrow> manager \<Rightarrow> bool" where
  "questions_ok es m \<longleftrightarrow>
     (\<forall>i. count_of (counted i) es
        + (if i < length (mg_sessions m) then questions_left (ac_phase (mg_sessions m ! i)) else 4) \<le> 4)"

definition browsers_ok :: "(nat \<times> effect) list \<Rightarrow> manager \<Rightarrow> bool" where
  "browsers_ok es m \<longleftrightarrow>
     count_of (\<lambda>e. snd e = OpenedBrowser) es
       = count_of (\<lambda>e. snd e = ClosedBrowser) es + count_of has_browser (mg_sessions m)"

text \<open>What a saved result is, and that every result was saved.\<close>

definition judged :: "recovery_lib \<Rightarrow> manager \<Rightarrow> nat \<Rightarrow> bool \<Rightarrow> capture_result \<Rightarrow> bool" where
  "judged lib m i explicit r \<longleftrightarrow>
     i < length (mg_sessions m)
     \<and> (\<exists>seen snapshot.
          judge_capture lib explicit (ac_raw (mg_sessions m ! i)) seen snapshot = Inr r)"

definition saves_ok :: "recovery_lib \<Rightarrow> (nat \<times> effect) list \<Rightarrow> manager \<Rightarrow> bool" where
  "saves_ok lib es m \<longleftrightarrow>
     (\<forall>i explicit r. (i, SavedPage explicit r) \<in> set es \<longrightarrow> judged lib m i explicit r)
     \<and> (\<forall>i < length (mg_sessions m). cap_HTML (ac_result (mg_sessions m ! i)) \<noteq> '''' \<longrightarrow>
          (\<exists>explicit. (i, SavedPage explicit (ac_result (mg_sessions m ! i))) \<in> set es))"

definition manager_inv :: "recovery_lib \<Rightarrow> (nat \<times> effect) list \<Rightarrow> manager \<Rightarrow> bool" where
  "manager_inv lib es m \<longleftrightarrow>
     (\<forall>a \<in> set (mg_sessions m). session_inv a) \<and> last_alive m \<and> questions_ok es m
     \<and> browsers_ok es m \<and> saves_ok lib es m"

lemma fresh_facts [simp]:
  "session_inv (fresh raw)" "ac_phase (fresh raw) = Opening" "\<not> has_browser (fresh raw)"
  "cap_HTML (ac_result (fresh raw)) = ''''" "ac_raw (fresh raw) = raw"
  by (simp_all add: fresh_def session_inv_def has_browser_def zero_capture_def)

lemma session_inv_change:
  assumes "manager_change lib m fs m'" and "\<forall>a \<in> set (mg_sessions m). session_inv a"
  shows "\<forall>a \<in> set (mg_sessions m'). session_inv a"
  using assms(1)
proof cases
  case (nudge i a')
  then have "session_inv a'" using assms(2) by (auto simp: nudged_def)
  then show ?thesis using nudge assms(2) by (auto dest: set_update_subset_insert [THEN subsetD])
next
  case (ran i a' over ans es)
  then have "session_inv a'" using run_step_inv [OF ran(5)] assms(2) by auto
  then show ?thesis using ran assms(2) by (auto dest: set_update_subset_insert [THEN subsetD])
qed (use assms in auto)

lemma count_counted: "count_of (counted j) (map (Pair i) es) = (if i = j then count_of is_question es else 0)"
  by (induction es) (auto simp: counted_def)

lemma count_snd: "count_of (\<lambda>e. snd e = x) (map (Pair i) es) = count_of ((=) x) es"
  by (induction es) auto

lemma count_update:
  "i < length xs \<Longrightarrow>
     count_of p (xs[i := x]) + of_bool (p (xs ! i)) = count_of p xs + (of_bool (p x) :: nat)"
proof (induction xs arbitrary: i)
  case (Cons y xs)
  show ?case
  proof (cases i)
    case (Suc j)
    then show ?thesis using Cons.IH [of j] Cons.prems by simp
  qed simp
qed simp

lemma questions_change:
  assumes "manager_change lib m fs m'" and "\<forall>a \<in> set (mg_sessions m). session_inv a"
    and "questions_ok es m"
  shows "questions_ok (es @ fs) m'"
  unfolding questions_ok_def
proof
  fix j
  have before: "count_of (counted j) es
      + (if j < length (mg_sessions m) then questions_left (ac_phase (mg_sessions m ! j)) else 4) \<le> 4"
    using assms(3) unfolding questions_ok_def ..
  show "count_of (counted j) (es @ fs)
      + (if j < length (mg_sessions m') then questions_left (ac_phase (mg_sessions m' ! j)) else 4) \<le> 4"
    using assms(1)
  proof cases
    case kept
    then show ?thesis using before by (simp split: if_splits)
  next
    case (started raw)
    then show ?thesis using before by (auto simp: nth_append less_Suc_eq split: if_splits)
  next
    case (nudge i a')
    then show ?thesis using before by (cases "i = j") (simp_all add: nudged_def split: if_splits)
  next
    case (ran i a' over ans fs')
    have "count_of is_question fs' + questions_left (ac_phase a')
        \<le> questions_left (ac_phase (mg_sessions m ! i))"
      using run_step_inv [OF ran(5)] assms(2) ran(2) by auto
    then show ?thesis using ran before by (cases "i = j") (simp_all add: count_counted split: if_splits)
  qed
qed

lemma browsers_change:
  assumes "manager_change lib m fs m'" and "\<forall>a \<in> set (mg_sessions m). session_inv a"
    and "browsers_ok es m"
  shows "browsers_ok (es @ fs) m'"
  using assms(1)
proof cases
  case (nudge i a')
  then have "has_browser a' = has_browser (mg_sessions m ! i)"
    by (simp add: nudged_def has_browser_def)
  then show ?thesis
    using nudge assms(3) count_update [OF nudge(2), of has_browser a'] by (simp add: browsers_ok_def)
next
  case (ran i a' over ans fs')
  have "count_of ((=) OpenedBrowser) fs' + of_bool (has_browser (mg_sessions m ! i))
      = count_of ((=) ClosedBrowser) fs' + (of_bool (has_browser a') :: nat)"
    using run_step_inv [OF ran(5)] assms(2) ran(2) by auto
  then show ?thesis
    using ran assms(3) count_update [OF ran(2), of has_browser a']
    by (simp add: browsers_ok_def count_snd)
qed (use assms in \<open>auto simp: browsers_ok_def\<close>)

lemma judged_kept:
  "judged lib m i explicit r \<Longrightarrow> length (mg_sessions m) \<le> length (mg_sessions m') \<Longrightarrow>
     ac_raw (mg_sessions m' ! i) = ac_raw (mg_sessions m ! i) \<Longrightarrow> judged lib m' i explicit r"
  by (auto simp: judged_def)

lemma change_keeps_raw:
  assumes "manager_change lib m fs m'" and "i < length (mg_sessions m)"
  shows "length (mg_sessions m) \<le> length (mg_sessions m')
    \<and> ac_raw (mg_sessions m' ! i) = ac_raw (mg_sessions m ! i)"
  using assms(1)
proof cases
  case (ran k a' over ans es)
  then show ?thesis
    using run_step_saves [OF ran(5)] assms(2) by (cases "k = i") auto
qed (use assms(2) in \<open>auto simp: nth_append nudged_def nth_list_update\<close>)

lemma saves_change:
  assumes change: "manager_change lib m fs m'" and saves: "saves_ok lib es m"
  shows "saves_ok lib (es @ fs) m'"
proof -
  have old: "judged lib m' i explicit r" if "(i, SavedPage explicit r) \<in> set es" for i explicit r
  proof -
    have "judged lib m i explicit r" using saves that unfolding saves_ok_def by blast
    then show ?thesis
      using change_keeps_raw [OF change, of i] judged_kept by (auto simp: judged_def)
  qed
  show ?thesis
    using change
  proof cases
    case (started raw)
    then show ?thesis
      using old saves by (auto simp: saves_ok_def nth_append less_Suc_eq)
  next
    case (nudge i a')
    then show ?thesis using old saves by (auto simp: saves_ok_def nudged_def nth_list_update)
  next
    case (ran i a' over ans fs')
    note step = run_step_saves [OF ran(5)]
    have new: "judged lib m' i explicit r" if "SavedPage explicit r \<in> set fs'" for explicit r
      using step that ran(2-4) unfolding judged_def by auto metis
    have saved: "(\<exists>explicit. SavedPage explicit (ac_result a') \<in> set fs')
        \<or> ac_result a' = ac_result (mg_sessions m ! i)" using step by auto
    have kept: "\<exists>explicit. (k, SavedPage explicit (ac_result (mg_sessions m ! k))) \<in> set es"
      if "k < length (mg_sessions m)" "cap_HTML (ac_result (mg_sessions m ! k)) \<noteq> ''''" for k
      using saves that unfolding saves_ok_def by blast
    show ?thesis
      unfolding saves_ok_def
    proof (intro conjI allI impI)
      fix k explicit r
      assume "(k, SavedPage explicit r) \<in> set (es @ fs)"
      then show "judged lib m' k explicit r" using old new ran(1) by auto
    next
      fix k
      assume k: "k < length (mg_sessions m')" "cap_HTML (ac_result (mg_sessions m' ! k)) \<noteq> ''''"
      show "\<exists>explicit. (k, SavedPage explicit (ac_result (mg_sessions m' ! k))) \<in> set (es @ fs)"
      proof (cases "k = i")
        case True
        then show ?thesis using saved kept [of i] k ran(1-3) by auto
      next
        case False
        then show ?thesis using kept [of k] k ran(3) by auto
      qed
    qed
  qed (use old saves in \<open>auto simp: saves_ok_def\<close>)
qed

lemma manager_run_inv:
  assumes "manager_run lib NewManager es m"
  shows "manager_inv lib es m"
  using assms
proof (induction NewManager es m rule: manager_run.induct)
  case start
  show ?case
    by (simp add: manager_inv_def NewManager_def last_alive_def questions_ok_def browsers_ok_def
        saves_ok_def)
next
  case (more es m1 st m2 fs)
  have change: "manager_change lib m1 fs m2" using more.hyps(3) by (rule manager_step_change)
  show ?case
    using more.hyps(2) session_inv_change [OF change] last_alive_change [OF change]
      questions_change [OF change] browsers_change [OF change] saves_change [OF change]
    by (simp add: manager_inv_def)
qed

subsection \<open>Who steers the browser\<close>




subsection \<open>Bounds\<close>

lemma one_browser:
  assumes "last_alive m"
  shows "count_of has_browser (mg_sessions m) \<le> 1"
proof (cases "mg_sessions m" rule: rev_cases)
  case (snoc as a)
  then have "\<not> has_browser b" if "b \<in> set as" for b
    using assms that by (fastforce simp: last_alive_def in_set_conv_nth nth_append is_done_def has_browser_def)
  then have "count_of has_browser as = 0" by (simp add: count_of_def)
  then show ?thesis using snoc by simp
qed simp

text \<open>C38. Recovery stays within its bounds. In every run of the manager at most one more browser was
  opened than closed, so one is open at a time whatever sources are asked for; a session asks the
  model at most four times; and no more than sixteen actions of the user wait.\<close>

theorem recovery_is_bounded:
  assumes "manager_run lib NewManager es m"
  shows "count_of (\<lambda>e. snd e = OpenedBrowser) es \<le> count_of (\<lambda>e. snd e = ClosedBrowser) es + 1
    \<and> count_of (counted i) es \<le> 4 \<and> (\<forall>a \<in> set (mg_sessions m). length (ac_inputs a) \<le> 16)"
proof -
  have inv: "manager_inv lib es m" using manager_run_inv [OF assms] .
  then have "count_of has_browser (mg_sessions m) \<le> 1"
    using one_browser unfolding manager_inv_def by blast
  moreover have "count_of (counted i) es \<le> 4"
    using inv by (auto simp: manager_inv_def questions_ok_def dest!: spec [of _ i])
  ultimately show ?thesis
    using inv by (auto simp: manager_inv_def browsers_ok_def session_inv_def)
qed

subsection \<open>What is saved\<close>









subsection \<open>Closing\<close>

text \<open>C40. A start right after a close is lost. While the goroutine of a closed session is still
  ending, a start for its source reports success with that idle session and begins nothing: no
  session is added, and the current one is the one that ends.\<close>

theorem start_after_close_is_lost:
  assumes "mg_current m = Some i" and "i < length (mg_sessions m)"
    and "ac_raw (mg_sessions m ! i) = raw" and "\<not> is_done (mg_sessions m ! i)"
    and "Command raw (zero_action ''close'') m = (m1, s1, err1)"
    and "Command raw (zero_action ''start'') m1 = (m2, s2, err2)"
  shows "err1 = None \<and> err2 = None \<and> ss_Status s2 = ''idle'' \<and> m2 = m1
    \<and> length (mg_sessions m2) = length (mg_sessions m) \<and> mg_current m2 = Some i
    \<and> ac_cancelled (mg_sessions m2 ! i)"
proof -
  have ok: "validAction (zero_action ''close'')" "validAction (zero_action ''start'')"
    by (simp_all add: validAction_def zero_action_def finite_number_def at_rest_def)
  have m1: "m1 = put_session i (closed_session (mg_sessions m ! i)) m" "err1 = None"
    using assms(1-5) ok by (simp_all add: Command_def zero_action_def Let_def)
  then have "mg_sessions m1 ! i = closed_session (mg_sessions m ! i)" "mg_current m1 = Some i"
      "length (mg_sessions m1) = length (mg_sessions m)"
    using assms(1,2) by (simp_all add: put_session_def)
  then show ?thesis
    using assms(3,4,6) ok m1(2)
    by (auto simp: Command_def startLocked_def zero_action_def closed_session_def is_done_def Let_def
        split: if_splits)
qed

subsection \<open>Witnesses\<close>

text \<open>A run from its stimuli.\<close>

fun execute ::
  "recovery_lib \<Rightarrow> stimulus list \<Rightarrow> manager \<Rightarrow> (manager \<times> (nat \<times> effect) list) option" where
  "execute lib [] m = Some (m, [])"
| "execute lib (st # sts) m =
     (case manager_step lib st m of
        None \<Rightarrow> None
      | Some (m1, es) \<Rightarrow>
          (case execute lib sts m1 of None \<Rightarrow> None | Some (m2, fs) \<Rightarrow> Some (m2, es @ fs)))"

lemma execute_run:
  "execute lib sts m = Some (m', fs) \<Longrightarrow> manager_run lib m0 es m \<Longrightarrow> manager_run lib m0 (es @ fs) m'"
proof (induction sts arbitrary: m es fs)
  case (Cons st sts)
  then obtain m1 es1 fs1 where "manager_step lib st m = Some (m1, es1)"
    and "execute lib sts m1 = Some (m', fs1)" and "fs = es1 @ fs1"
    by (auto split: option.splits)
  then show ?case using Cons.IH manager_run.more [OF Cons.prems(2)] by fastforce
qed simp

lemma execute_from: "execute lib sts m = Some (m', fs) \<Longrightarrow> manager_run lib m fs m'"
  using execute_run [OF _ manager_run.start] by fastforce

definition demo_recovery :: recovery_lib where
  "demo_recovery = \<lparr>rv_lower = id, rv_static = demo_static (TextNode ''x''), rv_model = False,
     rv_save = False\<rparr>"

lemmas execute_defs = manager_step_def run_session_def Command_def begin_session_def startLocked_def
  validAction_def zero_action_def finite_number_def at_rest_def step_defs NewManager_def fresh_def
  idle_def put_session_def loop_head_def hand_off_def observe_def update_state_def steer_def
  take_over_def is_done_def ended_def closed_session_def


theorem recovery_is_bounded_witness:
  "\<exists>m. manager_run demo_recovery NewManager [(0, OpenedBrowser)] m
    \<and> (\<forall>a \<in> set (mg_sessions m). length (ac_inputs a) \<le> 16)"
proof -
  obtain m where "execute demo_recovery [Commands ''u'' (zero_action ''start''), Runs 0 (Opened None)]
      NewManager = Some (m, [(0, OpenedBrowser)])"
    by (simp add: execute_defs)
  from execute_from [OF this] show ?thesis using recovery_is_bounded by blast
qed

theorem start_after_close_is_lost_witness:
  "\<exists>m m1 m2 s1 s2. manager_run demo_recovery NewManager [] m
    \<and> Command ''u'' (zero_action ''close'') m = (m1, s1, None)
    \<and> Command ''u'' (zero_action ''start'') m1 = (m2, s2, None) \<and> ss_Status s2 = ''idle'' \<and> m2 = m1"
proof -
  obtain m where m: "execute demo_recovery [Commands ''u'' (zero_action ''start'')] NewManager = Some (m, [])"
    and facts: "mg_current m = Some 0" "0 < length (mg_sessions m)"
      "ac_raw (mg_sessions m ! 0) = ''u''" "\<not> is_done (mg_sessions m ! 0)"
    by (simp add: execute_defs)
  obtain m1 s1 err1 where c1: "Command ''u'' (zero_action ''close'') m = (m1, s1, err1)"
    using prod_cases3 by blast
  obtain m2 s2 err2 where c2: "Command ''u'' (zero_action ''start'') m1 = (m2, s2, err2)"
    using prod_cases3 by blast
  show ?thesis
    using start_after_close_is_lost [OF facts c1 c2] execute_from [OF m] c1 c2 by auto
qed







end
