(* ===== verification/Spec2Isabelle.thy ===== *)
theory Spec2Isabelle
  imports Memory_Properties Archive_Properties Worker_Properties Filesystem_Properties
    Network_Properties AI_Properties Delivery_Properties Postgres_Properties
    Configuration_Properties Formatter_Properties Static_Properties Recovery_Properties
begin

text \<open>
  Attic saves web articles as PDF files and mails them to a reader. A submitted URL becomes a
  job; a worker claims the job under a lease, fetches and cleans the page, has a model approve
  it, formats a PDF and publishes it; a second worker mails what was published. This library
  models that core of the Go program under \<open>src/\<close> and proves what makes it correct.

  \<^bold>\<open>The parts and how they interact.\<close> \<open>Archive\<close> (\<open>internal/application/archive.go\<close>) is what the
  HTTP layer calls: it validates a submission, derives an idempotency digest and calls the job
  store. The job store keeps jobs, leases and idempotency records; there are two,
  \<open>Memory_Store\<close> (\<open>internal/memory/store.go\<close>) and \<open>Postgres_Store\<close>, \<open>Postgres_Leases\<close>
  (\<open>internal/postgres/store.go\<close>). \<open>Worker\<close> (\<open>internal/application/worker.go\<close>) claims a job, runs
  the processor while heartbeats renew the lease, stores the artifact and completes, requeues or
  fails the job. The processor is \<open>Processing\<close> (\<open>internal/processing/processor.go\<close>): it takes the
  page from an edit, a capture or the network (\<open>Capture\<close>, \<open>Web_Archives\<close>, \<open>Network_Policy\<close>),
  of which \<open>Capture_Static\<close> (\<open>internal/capture/static.go\<close>) makes an inert copy with its style
  sheets rewritten, extracts and cleans the article (\<open>Page_Extraction\<close>, \<open>Sanitize\<close>) and asks for
  an approval (\<open>AI_Approval\<close> over \<open>AI_Answers\<close>, \<open>AI_Exchange\<close>, \<open>AI_Client\<close>), whose calls are
  recorded by \<open>Postgres_Attempts\<close>. A page that only shows a challenge goes to \<open>Recovery\<close>
  (\<open>internal/recovery\<close>), a browser session that a model and then its user steer until the page can
  be saved. The approved article is rendered and inspected by \<open>Formatter\<close>
  (\<open>internal/formatter\<close>): the TeX template is filled with escaped text, the typesetter is
  supervised, and the PDF passes a quality gate before it is stored. Artifacts go to \<open>Artifacts\<close>
  (memory) or \<open>Filesystem\<close> (\<open>internal/filesystem/store.go\<close>). \<open>Delivery\<close> (\<open>internal/delivery\<close>)
  mails a ready job through the queue \<open>Postgres_Delivery\<close> (\<open>internal/postgres/delivery.go\<close>).
  \<open>Configuration\<close> (\<open>internal/config/config.go\<close>) reads and validates the settings all of them run
  with.

  \<^bold>\<open>How the code is represented.\<close> Go strings are lists of bytes (\<open>Go_Strings\<close>, with the UTF-8
  reading of runes), machine integers are words or integers wrapped at their width (\<open>wrap64\<close>),
  instants and durations are integers of nanoseconds, a nil pointer is \<open>None\<close>. A struct is a
  record with prefixed fields, an enumeration a datatype with one more constructor for other
  strings. A method on a store is a function from its arguments and the state to the answer and
  the state; an error is a value of the datatype \<open>error\<close> (\<open>Errors\<close>), with the chain of
  \<open>errors.Is\<close> and \<open>errors.As\<close>. What a call reads from outside is an argument: clock readings,
  random tokens, the order in which a Go map is visited, contexts, the answers of hosts, of the
  model and of the mail server, and the results of parsers the code only calls (HTML, JSON,
  \<open>mail.ParseAddress\<close>, float parsing and formatting). The parts of the Go standard library that
  the code's logic rests on are defined: \<open>Go_Strings\<close>, \<open>Go_Encoding\<close> (integers, hex, base64),
  \<open>Go_URL\<close>, \<open>Go_Netip\<close>, \<open>Go_Sha256\<close>, and \<open>Go_Regexp\<close>, a backtracking matcher for the two
  patterns of style sheets.

  \<^bold>\<open>The PostgreSQL model.\<close> \<open>Postgres_Model\<close> has one record per table of \<open>migrations/\<close> 0001 to
  0004 and their constraints as predicates that every inserted or updated row must pass. A method
  is the sequence of its statements on the tables; \<open>pg_env\<close> holds what the server contributes:
  which statement fails with which error, whether the commit was applied, lost or left open, what
  another transaction did between two statements, which rows are locked, and the rounding of
  instants. A transaction that does not commit leaves the tables as they were.

  \<^bold>\<open>Concurrency.\<close> Each store operation is one step (the mutex of the memory store, the
  transaction of PostgreSQL). \<open>Memory_Runs\<close> and \<open>Postgres_Facts\<close> close the operations under
  arbitrary sequences; a worker's run takes a schedule of heartbeats and of steps of others
  between its own steps, and a delivery round lets the rest of the system act between its claim
  and its report. The goroutine of a recovery session is a program counter (\<open>phase\<close>) that moves
  from one call or lock to the next; \<open>manager_run\<close> interleaves the sessions with commands, waiting
  jobs and the ends of their contexts.

  \<^bold>\<open>Interfaces.\<close> The locales \<open>job_store\<close>, \<open>artifact_store\<close>, \<open>archive_store\<close>,
  \<open>delivery_contract\<close> and \<open>delivery_budget\<close> state what a client relies on; they are interpreted
  on the in-memory stores, the file system and the PostgreSQL queue.

  \<^bold>\<open>What the lemmas show.\<close> The \<open>_Facts\<close>, \<open>_Safety\<close>, \<open>_Claim\<close>, \<open>_List\<close> and \<open>_Runs\<close> theories hold
  the behaviour of each operation on success and failure and the invariants; the \<open>_Properties\<close>
  theories hold the numbered claims with their witnesses. In short: stores stay well-formed and
  leases fence lost workers; claiming and paging meet loop-free specifications; a run of the
  worker ends in one of the intended outcomes; only sanitized, approved HTML is published; the
  network policy never connects to a special-purpose address; the file store stays inside its
  root and replaces files atomically; a captured page is rendered from an allow-listed tree under
  a content security policy; a recovered page is one the browser showed, and a user's takeover
  stops the model; article text reaches TeX only escaped, and a published PDF was inspected
  against its article; a loaded configuration is within its bounds and its errors show no value;
  on PostgreSQL every reachable state satisfies the schema, the worker's calls refine the
  in-memory store, submissions are idempotent, and a mail is neither repeated after an unclear
  result nor tried more than three times. Some claims state a
  flaw that the model exposes; their text says so.

  \<^bold>\<open>Bounds and termination.\<close> Loops over lists are structural. The two stream readers recurse on
  their input. \<open>client_Do\<close> follows redirects with the remaining hops as measure, as the Go client
  does; \<open>structured\<close> descends at most 17 levels into JSON, the code's own limit; the line writer
  of a message has the bytes left as measure, plus one for a full line; the replacer of the TeX
  template, the replacement of matches and the removal of page numbers have the length of the
  text left; style sheets import at most eight levels, the code's own limit. A loop of a worker is
  a function of the list of its rounds, since the Go loop runs until its context ends; so is the
  wait for a recovered page, where \<open>None\<close> is a wait that goes on.

  \<^bold>\<open>Not modelled.\<close> The browser, the PDF process with its private workspace and the tools of the
  quality gate, and the web front end are I/O around external programs. The reading library, its
  transfer format, the HTTP routes, search, setup and the subscription login are parts of their
  own on top of this core.
  The migration runner, readiness probes and process wiring have no logic beyond SQL, a flag and
  signals. Go's memory model, the scheduler and the isolation level of PostgreSQL are not
  modelled below the step of one operation.
\<close>

end
